(* ===== verification/Prelude.thy ===== *)
theory Prelude
  imports Main
    "HOL-Library.AList"
    "HOL-Library.Sublist"
    "HOL-Library.Multiset"
    "HOL-Library.List_Lexorder"
    "HOL-Library.Char_ord"
begin

text \<open>
  Shared vocabulary of the development: Go's error values, results of fallible calls, and
  the functions of Go's \<open>strings\<close> and \<open>sort\<close> packages the sources call.

  A Go \<open>string\<close> and a Go \<open>[]byte\<close> are both sequences of bytes, so both are
  \<^typ>\<open>string\<close> here (a list of 8-bit characters). A Go \<open>map\<close> is an association
  list with distinct keys: its list order is the order in which a \<open>range\<close> statement
  happens to visit it, which Go leaves open, so a theorem about every such list covers every
  iteration order. A call \<open>f() (T, error)\<close> has the type \<open>go_error + T\<close>.
\<close>

named_theorems go_defs \<open>definitions of the modelled Go library functions\<close>
named_theorems result_simps \<open>rewriting of results of fallible calls\<close>

type_synonym bytes = "string"

section \<open>Errors\<close>

text \<open>
  Errors of the operating system carry their class, because the sources branch on
  \<open>os.IsNotExist\<close> and \<open>os.IsExist\<close>; errors of other services and errors built with
  \<open>errors.New\<close> are \<open>Err\<close>; \<open>Errorf\<close> is \<open>fmt.Errorf("... %v", err)\<close>, which
  keeps the wrapped error's text but hides its class.
\<close>

datatype go_error =
    ErrNotExist string
  | ErrExist string
  | ErrIO string
  | Err string
  | Errorf string go_error

definition os_IsNotExist :: "go_error \<Rightarrow> bool" where
  [go_defs]: "os_IsNotExist e = (case e of ErrNotExist _ \<Rightarrow> True | _ \<Rightarrow> False)"

definition os_IsExist :: "go_error \<Rightarrow> bool" where
  [go_defs]: "os_IsExist e = (case e of ErrExist _ \<Rightarrow> True | _ \<Rightarrow> False)"

lemma os_IsNotExist_simps [simp]:
  "os_IsNotExist (ErrNotExist p)" "\<not> os_IsNotExist (ErrExist p)" "\<not> os_IsNotExist (ErrIO p)"
  "\<not> os_IsNotExist (Err p)" "\<not> os_IsNotExist (Errorf p e)"
  by (simp_all add: os_IsNotExist_def)

lemma os_IsExist_simps [simp]:
  "os_IsExist (ErrExist p)" "\<not> os_IsExist (ErrNotExist p)" "\<not> os_IsExist (ErrIO p)"
  "\<not> os_IsExist (Err p)" "\<not> os_IsExist (Errorf p e)"
  by (simp_all add: os_IsExist_def)

section \<open>Go strings\<close>

definition hasPrefix :: "string \<Rightarrow> string \<Rightarrow> bool" where
  [go_defs]: "hasPrefix s p = (take (length p) s = p)"

definition hasSuffix :: "string \<Rightarrow> string \<Rightarrow> bool" where
  [go_defs]: "hasSuffix s p = (length p \<le> length s \<and> drop (length s - length p) s = p)"

definition trimPrefix :: "string \<Rightarrow> string \<Rightarrow> string" where
  [go_defs]: "trimPrefix s p = (if hasPrefix s p then drop (length p) s else s)"

definition trimSuffix :: "string \<Rightarrow> string \<Rightarrow> string" where
  [go_defs]: "trimSuffix s p = (if hasSuffix s p then take (length s - length p) s else s)"

text \<open>\<open>strings.Split(s, sep)\<close> for a separator of one byte; never empty.\<close>

fun splitOn :: "char \<Rightarrow> string \<Rightarrow> string list" where
  "splitOn c [] = [[]]"
| "splitOn c (x # xs) =
     (if x = c then [] # splitOn c xs
      else (case splitOn c xs of [] \<Rightarrow> [[x]] | y # ys \<Rightarrow> (x # y) # ys))"

text \<open>\<open>strings.Join(elems, sep)\<close> for a separator of one byte.\<close>

fun joinWith :: "char \<Rightarrow> string list \<Rightarrow> string" where
  "joinWith c [] = []"
| "joinWith c [x] = x"
| "joinWith c (x # y # ys) = x @ c # joinWith c (y # ys)"

text \<open>\<open>strings.Replace(s, a, b, -1)\<close> for one-byte \<open>a\<close> and \<open>b\<close>.\<close>

definition replaceByte :: "char \<Rightarrow> char \<Rightarrow> string \<Rightarrow> string" where
  [go_defs]: "replaceByte a b s = map (\<lambda>c. if c = a then b else c) s"

text \<open>\<open>strings.IndexByte\<close>: the first position of a byte, \<open>-1\<close> when there is none.\<close>

fun indexByte :: "string \<Rightarrow> char \<Rightarrow> int" where
  "indexByte [] c = - 1"
| "indexByte (x # xs) c =
     (if x = c then 0 else (let i = indexByte xs c in if i < 0 then - 1 else i + 1))"

text \<open>\<open>strings.ToLower\<close> on ASCII text.\<close>

definition toLowerChar :: "char \<Rightarrow> char" where
  "toLowerChar c =
     (let n = of_char c :: nat in if 65 \<le> n \<and> n \<le> 90 then char_of (n + 32) else c)"

definition toLower :: "string \<Rightarrow> string" where
  [go_defs]: "toLower s = map toLowerChar s"

lemma hasPrefix_iff: "hasPrefix s p \<longleftrightarrow> prefix p s"
  by (auto simp: hasPrefix_def prefix_def) (metis append_take_drop_id)

lemma hasSuffix_iff: "hasSuffix s p \<longleftrightarrow> suffix p s"
  by (auto simp: hasSuffix_def suffix_def) (metis append_take_drop_id)

lemma hasPrefix_append [simp]: "hasPrefix (p @ s) p"
  by (simp add: hasPrefix_def)

lemma hasSuffix_append [simp]: "hasSuffix (s @ p) p"
  by (simp add: hasSuffix_def)

lemma trimPrefix_append [simp]: "trimPrefix (p @ s) p = s"
  by (simp add: trimPrefix_def)

lemma trimSuffix_append [simp]: "trimSuffix (s @ p) p = s"
  by (simp add: trimSuffix_def)

lemma splitOn_not_Nil [simp]: "splitOn c s \<noteq> []"
  by (induction s) (auto split: list.splits)

lemma joinWith_Cons: "ys \<noteq> [] \<Longrightarrow> joinWith c (x # ys) = x @ c # joinWith c ys"
  by (cases ys) auto

lemma joinWith_splitOn [simp]: "joinWith c (splitOn c s) = s"
proof (induction s)
  case Nil
  show ?case by simp
next
  case (Cons x xs)
  show ?case
  proof (cases "splitOn c xs")
    case Nil
    then show ?thesis by simp
  next
    case (Cons y ys)
    with Cons.IH show ?thesis by (cases ys) (auto simp: joinWith_Cons)
  qed
qed

lemma splitOn_no_sep: "c \<notin> set s \<Longrightarrow> splitOn c s = [s]"
  by (induction s) auto

lemma splitOn_append_sep: "c \<notin> set s \<Longrightarrow> splitOn c (s @ c # t) = s # splitOn c t"
  by (induction s) auto

lemma splitOn_joinWith:
  "xs \<noteq> [] \<Longrightarrow> (\<And>x. x \<in> set xs \<Longrightarrow> c \<notin> set x) \<Longrightarrow> splitOn c (joinWith c xs) = xs"
  by (induction c xs rule: joinWith.induct) (auto simp: splitOn_no_sep splitOn_append_sep)

lemma splitOn_parts_no_sep: "x \<in> set (splitOn c s) \<Longrightarrow> c \<notin> set x"
proof (induction s arbitrary: x)
  case Nil
  then show ?case by simp
next
  case (Cons y ys)
  then show ?case by (cases "splitOn c ys") (auto split: if_splits)
qed

lemma splitOn_append: "splitOn c (s @ c # t) = splitOn c s @ splitOn c t"
proof (induction s)
  case Nil
  show ?case by simp
next
  case (Cons x s)
  then show ?case by (cases "splitOn c s") auto
qed

lemma indexByte_absent: "indexByte s c = - 1 \<longleftrightarrow> c \<notin> set s"
proof (induction s)
  case (Cons x xs)
  have "- 1 \<le> indexByte xs c" by (induction xs) (auto simp: Let_def)
  with Cons show ?case by (auto simp: Let_def)
qed simp

lemma indexByte_split: "c \<notin> set s \<Longrightarrow> indexByte (s @ c # t) c = int (length s)"
  by (induction s) (auto simp: Let_def)

section \<open>Association lists as Go maps\<close>

lemma map_of_update [simp]: "map_of (AList.update k v m) = (map_of m)(k \<mapsto> v)"
  by (rule update_conv')

lemma map_of_delete [simp]: "map_of (AList.delete k m) = (map_of m)(k := None)"
  by (rule delete_conv')

lemma map_of_eq_None: "k \<notin> fst ` set m \<longleftrightarrow> map_of m k = None"
  by (simp add: map_of_eq_None_iff)

lemma set_update_subset: "set (AList.update k v m) \<subseteq> insert (k, v) (set m)"
  by (induction m) auto

lemma map_of_filter_value:
  "distinct (map fst m) \<Longrightarrow> map_of (filter (\<lambda>(_, v). P v) m) k =
     (case map_of m k of Some v \<Rightarrow> if P v then Some v else None | None \<Rightarrow> None)"
proof (induction m)
  case (Cons kv m)
  obtain a v where kv: "kv = (a, v)" by (cases kv)
  have "map_of m a = None" using Cons.prems by (simp add: kv map_of_eq_None_iff)
  with Cons show ?case by (cases "k = a") (auto simp: kv)
qed simp

text \<open>\<open>sort.Strings\<close> orders by bytes, which is the lexicographic order of the library.\<close>

definition sort_Strings :: "string list \<Rightarrow> string list" where
  [go_defs]: "sort_Strings xs = sort xs"

lemma sort_Strings_sorted [simp]: "sorted (sort_Strings xs)"
  by (simp add: sort_Strings_def)

lemma set_sort_Strings [simp]: "set (sort_Strings xs) = set xs"
  by (simp add: sort_Strings_def)

lemma mset_sort_Strings [simp]: "mset (sort_Strings xs) = mset xs"
  by (simp add: sort_Strings_def)

lemma find_append:
  "List.find P (xs @ ys) = (case List.find P xs of Some x \<Rightarrow> Some x | None \<Rightarrow> List.find P ys)"
  by (induction xs) auto

lemma find_unique:
  assumes "x \<in> set xs" "P x" and uniq: "\<And>y. y \<in> set xs \<Longrightarrow> P y \<Longrightarrow> y = x"
  shows "List.find P xs = Some x"
proof (cases "List.find P xs")
  case None
  with assms(1,2) show ?thesis by (simp add: find_None_iff)
next
  case (Some y)
  then have "y \<in> set xs" "P y" by (auto simp: find_Some_iff)
  with uniq Some show ?thesis by simp
qed

text \<open>Searching from the end finds the last match.\<close>

lemma find_rev_Some_iff:
  "List.find P (rev xs) = Some p \<longleftrightarrow> (\<exists>ys zs. xs = ys @ p # zs \<and> P p \<and> filter P zs = [])"
proof (induction xs rule: rev_induct)
  case Nil
  show ?case by simp
next
  case (snoc x xs)
  have split: "(\<exists>ys zs. xs @ [x] = ys @ p # zs \<and> P p \<and> filter P zs = []) \<longleftrightarrow>
      (p = x \<and> P x) \<or> (\<not> P x \<and> (\<exists>ys zs. xs = ys @ p # zs \<and> P p \<and> filter P zs = []))"
  proof
    assume "\<exists>ys zs. xs @ [x] = ys @ p # zs \<and> P p \<and> filter P zs = []"
    then obtain ys zs where "xs @ [x] = ys @ p # zs" "P p" "filter P zs = []" by blast
    then show "(p = x \<and> P x) \<or> (\<not> P x \<and> (\<exists>ys zs. xs = ys @ p # zs \<and> P p \<and> filter P zs = []))"
      by (cases zs rule: rev_cases) (auto split: if_splits)
  next
    assume "(p = x \<and> P x) \<or> (\<not> P x \<and> (\<exists>ys zs. xs = ys @ p # zs \<and> P p \<and> filter P zs = []))"
    then show "\<exists>ys zs. xs @ [x] = ys @ p # zs \<and> P p \<and> filter P zs = []"
    proof (elim disjE conjE exE)
      fix ys zs assume "\<not> P x" "xs = ys @ p # zs" "P p" "filter P zs = []"
      then show ?thesis by (intro exI [of _ ys] exI [of _ "zs @ [x]"]) simp
    next
      assume "p = x" "P x"
      then show ?thesis by (intro exI [of _ xs] exI [of _ "[]"]) simp
    qed
  qed
  show ?case unfolding split using snoc.IH by (auto split: if_splits)
qed

lemma card_set_le_1: "card (set us) \<le> 1 \<longleftrightarrow> (\<forall>x \<in> set us. x = hd us)"
proof (cases us)
  case (Cons u us')
  have "(\<forall>a \<in> set us. \<forall>b \<in> set us. a = b) \<longleftrightarrow> (\<forall>x \<in> set us. x = u)"
    unfolding Cons by (metis list.set_intros(1))
  then show ?thesis by (simp add: Cons card_le_Suc0_iff_eq)
qed simp

section \<open>Durations\<close>

text \<open>A \<open>time.Duration\<close> counts nanoseconds.\<close>

definition time_Second :: int where "time_Second = 1000000000"

end
