(* ===== verification/PodModel.thy ===== *)
theory PodModel
  imports Prelude
begin

text \<open>
  The Kubernetes API objects (\<open>k8s.io/api/core/v1\<close>) as the sources use them: every field
  the code reads or writes is a field here, and the remaining fields of a struct are one
  uninterpreted field \<open>\<dots>_rest\<close> whose zero value is the empty string. A Go pointer field
  is an \<open>option\<close>, \<open>None\<close> for nil; a Go map field is an optional association list,
  because the code distinguishes a nil map from an empty one.
\<close>

type_synonym strmap = "(string \<times> string) list"

record ownerReference =
  or_APIVersion :: string
  or_Kind :: string
  or_Name :: string
  or_UID :: string
  or_Controller :: "bool option"

record objectMeta =
  m_Name :: string
  m_Namespace :: string
  m_UID :: string
  m_Annotations :: "strmap option"
  m_Labels :: "strmap option"
  m_OwnerReferences :: "ownerReference list"
  m_rest :: string

record volumeRef =
  vr_Name :: string
  vr_rest :: string

record volume =
  v_Name :: string
  v_Secret :: "volumeRef option"
  v_ConfigMap :: "volumeRef option"
  v_HostPath :: "string option"
  v_rest :: string

record volumeMount =
  vm_Name :: string
  vm_MountPath :: string
  vm_ReadOnly :: bool
  vm_rest :: string

record securityContext =
  sc_RunAsUser :: "int option"
  sc_RunAsNonRoot :: "bool option"
  sc_rest :: string

record podSecurityContext =
  psc_RunAsUser :: "int option"
  psc_RunAsNonRoot :: "bool option"
  psc_FSGroup :: "int option"
  psc_rest :: string

record container =
  c_Name :: string
  c_Command :: "string list"
  c_VolumeMounts :: "volumeMount list"
  c_SecurityContext :: "securityContext option"
  c_rest :: string

record podSpec =
  sp_ServiceAccountName :: string
  sp_DeprecatedServiceAccount :: string
  sp_Affinity :: "string option"
  sp_NodeSelector :: "strmap option"
  sp_Volumes :: "volume list"
  sp_Containers :: "container list"
  sp_SecurityContext :: "podSecurityContext option"
  sp_HostNetwork :: bool
  sp_rest :: string

record podStatus =
  st_Phase :: string
  st_rest :: string

record pod =
  p_APIVersion :: string
  p_Kind :: string
  p_Meta :: objectMeta
  p_Spec :: podSpec
  p_Status :: podStatus

text \<open>Zero values, as \<open>&v1.Pod{}\<close> has them.\<close>

definition emptyMeta :: objectMeta where
  "emptyMeta = \<lparr>m_Name = '''', m_Namespace = '''', m_UID = '''', m_Annotations = None,
     m_Labels = None, m_OwnerReferences = [], m_rest = ''''\<rparr>"

definition emptySpec :: podSpec where
  "emptySpec = \<lparr>sp_ServiceAccountName = '''', sp_DeprecatedServiceAccount = '''',
     sp_Affinity = None, sp_NodeSelector = None, sp_Volumes = [], sp_Containers = [],
     sp_SecurityContext = None, sp_HostNetwork = False, sp_rest = ''''\<rparr>"

definition emptyStatus :: podStatus where
  "emptyStatus = \<lparr>st_Phase = '''', st_rest = ''''\<rparr>"

definition emptyPod :: pod where
  "emptyPod = \<lparr>p_APIVersion = '''', p_Kind = '''', p_Meta = emptyMeta, p_Spec = emptySpec,
     p_Status = emptyStatus\<rparr>"

abbreviation pod_Name :: "pod \<Rightarrow> string" where
  "pod_Name p \<equiv> m_Name (p_Meta p)"

abbreviation pod_Namespace :: "pod \<Rightarrow> string" where
  "pod_Namespace p \<equiv> m_Namespace (p_Meta p)"

abbreviation pod_Annotations :: "pod \<Rightarrow> strmap option" where
  "pod_Annotations p \<equiv> m_Annotations (p_Meta p)"

text \<open>Indexing a Go map of strings: a missing key, or a nil map, gives the empty string.\<close>

definition strmap_get :: "strmap option \<Rightarrow> string \<Rightarrow> string" where
  "strmap_get m k =
     (case m of None \<Rightarrow> '''' | Some xs \<Rightarrow> (case map_of xs k of None \<Rightarrow> '''' | Some v \<Rightarrow> v))"

text \<open>The comma-ok form \<open>_, ok := m[k]\<close>.\<close>

definition strmap_has :: "strmap option \<Rightarrow> string \<Rightarrow> bool" where
  "strmap_has m k = (case m of None \<Rightarrow> False | Some xs \<Rightarrow> map_of xs k \<noteq> None)"

lemma strmap_simps [simp]:
  "strmap_get None k = ''''" "\<not> strmap_has None k"
  "strmap_has (Some xs) k \<longleftrightarrow> map_of xs k \<noteq> None"
  by (simp_all add: strmap_get_def strmap_has_def)

end
