(* ===== verification/GoPath.thy ===== *)
theory GoPath
  imports Prelude
begin

text \<open>
  The functions of Go's \<open>path\<close> and \<open>path/filepath\<close> packages (Unix) the sources call:
  \<open>Clean\<close>, \<open>Join\<close>, \<open>Base\<close>, \<open>Dir\<close> and \<open>Split\<close>. \<open>Clean\<close> works on the
  slash-separated elements with a stack: empty and \<open>.\<close> elements are dropped, \<open>..\<close>
  removes the element before it, and at the root \<open>..\<close> is dropped.
\<close>

abbreviation slash :: char where "slash \<equiv> CHR ''/''"

definition plain_comp :: "string \<Rightarrow> bool" where
  "plain_comp x \<longleftrightarrow> x \<noteq> '''' \<and> x \<noteq> ''.'' \<and> x \<noteq> ''..'' \<and> slash \<notin> set x"

definition clean_step :: "bool \<Rightarrow> string list \<Rightarrow> string \<Rightarrow> string list" where
  "clean_step rooted acc x =
     (if x = '''' \<or> x = ''.'' then acc
      else if x = ''..'' then
        (case acc of
           [] \<Rightarrow> (if rooted then [] else [x])
         | a # as \<Rightarrow> (if a = ''..'' then x # acc else as))
      else x # acc)"

definition clean_comps :: "bool \<Rightarrow> string list \<Rightarrow> string list" where
  "clean_comps rooted xs = rev (foldl (clean_step rooted) [] xs)"

definition path_Clean :: "string \<Rightarrow> string" where
  [go_defs]: "path_Clean p =
     (if p = '''' then ''.''
      else let rooted = hasPrefix p ''/''; cs = clean_comps rooted (splitOn slash p)
           in if rooted then slash # joinWith slash cs
              else if cs = [] then ''.'' else joinWith slash cs)"

text \<open>\<open>Join\<close> skips leading empty elements and cleans the rest.\<close>

definition path_Join :: "string list \<Rightarrow> string" where
  [go_defs]: "path_Join elems =
     (let es = dropWhile (\<lambda>e. e = '''') elems
      in if es = [] then '''' else path_Clean (joinWith slash es))"

text \<open>\<open>path.Split\<close>: the text up to and including the last slash, and the rest.\<close>

definition path_Split :: "string \<Rightarrow> string \<times> string" where
  [go_defs]: "path_Split p =
     (let file = rev (takeWhile (\<lambda>c. c \<noteq> slash) (rev p))
      in (take (length p - length file) p, file))"

definition path_Dir :: "string \<Rightarrow> string" where
  [go_defs]: "path_Dir p = path_Clean (fst (path_Split p))"

definition path_Base :: "string \<Rightarrow> string" where
  [go_defs]: "path_Base p =
     (if p = '''' then ''.''
      else let q = rev (dropWhile (\<lambda>c. c = slash) (rev p)); b = snd (path_Split q)
           in if b = '''' then ''/'' else b)"

section \<open>Cleaning\<close>

lemma clean_step_skip [simp]:
  "clean_step r acc [] = acc" "clean_step r acc ''.'' = acc"
  by (simp_all add: clean_step_def)

lemma clean_step_up [simp]:
  "clean_step r [] ''..'' = (if r then [] else [''..''])"
  "clean_step r (a # as) ''..'' = (if a = ''..'' then ''..'' # a # as else as)"
  by (simp_all add: clean_step_def)

lemma clean_step_push:
  "x \<noteq> '''' \<Longrightarrow> x \<noteq> ''.'' \<Longrightarrow> x \<noteq> ''..'' \<Longrightarrow> clean_step r acc x = x # acc"
  by (simp add: clean_step_def)

lemma clean_step_plain [simp]: "plain_comp x \<Longrightarrow> clean_step r acc x = x # acc"
  by (simp add: plain_comp_def clean_step_push)

text \<open>The three kinds of path elements.\<close>

lemma comp_cases:
  obtains (skip) "x = '''' \<or> x = ''.''" | (up) "x = ''..''"
    | (push) "x \<noteq> ''''" "x \<noteq> ''.''" "x \<noteq> ''..''"
  by metis

lemma plain_dotdot [simp]: "\<not> plain_comp ''..''" "\<not> plain_comp ''''" "\<not> plain_comp ''.''"
  by (simp_all add: plain_comp_def)

lemma clean_step_rooted_plain:
  assumes acc: "list_all plain_comp acc" and x: "slash \<notin> set x"
  shows "list_all plain_comp (clean_step True acc x)"
proof (cases x rule: comp_cases)
  case skip
  with acc show ?thesis by (elim disjE) simp_all
next
  case up
  with acc show ?thesis by (cases acc) auto
next
  case push
  with acc x show ?thesis by (simp add: clean_step_push plain_comp_def)
qed

lemma foldl_clean_rooted_plain:
  "list_all plain_comp acc \<Longrightarrow> list_all (\<lambda>x. slash \<notin> set x) xs
   \<Longrightarrow> list_all plain_comp (foldl (clean_step True) acc xs)"
  by (induction xs arbitrary: acc) (simp_all add: clean_step_rooted_plain)

lemma foldl_clean_plain: "list_all plain_comp xs \<Longrightarrow> foldl (clean_step r) acc xs = rev xs @ acc"
  by (induction xs arbitrary: acc) simp_all

lemma clean_comps_plain [simp]: "list_all plain_comp xs \<Longrightarrow> clean_comps r xs = xs"
  by (simp add: clean_comps_def foldl_clean_plain)

lemma splitOn_no_slash: "list_all (\<lambda>x. c \<notin> set x) (splitOn c p)"
  by (auto simp: list_all_iff dest: splitOn_parts_no_sep)

lemma clean_comps_rooted_plain:
  "list_all (\<lambda>x. slash \<notin> set x) xs \<Longrightarrow> list_all plain_comp (clean_comps True xs)"
  using foldl_clean_rooted_plain [of "[]" xs] by (simp add: clean_comps_def list_all_iff)

definition kept_comp :: "string \<Rightarrow> bool" where
  "kept_comp y \<longleftrightarrow> y \<noteq> '''' \<and> y \<noteq> ''.''"

lemma clean_step_kept:
  "list_all kept_comp acc \<Longrightarrow> list_all kept_comp (clean_step r acc x)"
  by (cases x rule: comp_cases; cases acc) (auto simp: clean_step_push kept_comp_def)

lemma foldl_clean_kept:
  "list_all kept_comp acc \<Longrightarrow> list_all kept_comp (foldl (clean_step r) acc xs)"
  by (induction xs arbitrary: acc) (simp_all add: clean_step_kept)

text \<open>
  The elements of a cleaned relative path act on any directory as the elements of the path
  itself do: this is what makes \<open>Clean\<close> sound for looking files up.
\<close>

lemma clean_relative_acts_alike:
  "foldl (clean_step True) base (rev (foldl (clean_step False) [] xs))
   = foldl (clean_step True) base xs"
proof (induction xs rule: rev_induct)
  case Nil
  show ?case by simp
next
  case (snoc x xs)
  let ?a = "foldl (clean_step False) [] xs"
  show ?case
  proof (cases x rule: comp_cases)
    case skip
    with snoc.IH show ?thesis by (elim disjE) simp_all
  next
    case push
    with snoc.IH show ?thesis by (simp add: clean_step_push)
  next
    case up
    show ?thesis
    proof (cases ?a)
      case Nil
      with snoc.IH up show ?thesis by simp
    next
      case (Cons b bs)
      have b: "b \<noteq> ''''" "b \<noteq> ''.''"
        using foldl_clean_kept [of "[]" False xs] Cons by (simp_all add: kept_comp_def)
      show ?thesis
      proof (cases "b = ''..''")
        case True
        with snoc.IH up Cons show ?thesis by simp
      next
        case False
        with b have "foldl (clean_step True) base (rev ?a) = b # foldl (clean_step True) base (rev bs)"
          by (simp add: Cons clean_step_push)
        with snoc.IH have "foldl (clean_step True) base xs = b # foldl (clean_step True) base (rev bs)"
          by simp
        with False up Cons show ?thesis by simp
      qed
    qed
  qed
qed

lemma splitOn_slash_plain:
  "xs \<noteq> [] \<Longrightarrow> list_all plain_comp xs \<Longrightarrow> splitOn slash (joinWith slash xs) = xs"
  by (rule splitOn_joinWith) (auto simp: plain_comp_def list_all_iff)

section \<open>Joining\<close>

lemma splitOn_rooted: "hasPrefix p ''/'' \<Longrightarrow> splitOn slash p = [] # splitOn slash (tl p)"
  by (cases p) (auto simp: hasPrefix_def)

lemma hasPrefix_Cons_slash [simp]: "hasPrefix (c # s) ''/'' \<longleftrightarrow> c = slash"
  by (simp add: hasPrefix_def)

lemma hasPrefix_Nil_slash [simp]: "\<not> hasPrefix [] ''/''"
  by (simp add: hasPrefix_def)

lemma joinWith_relative:
  "list_all (\<lambda>x. slash \<notin> set x \<and> x \<noteq> '''') xs \<Longrightarrow> \<not> hasPrefix (joinWith slash xs) ''/''"
  by (cases "(slash, xs)" rule: joinWith.cases) (auto simp: neq_Nil_conv)

lemma clean_step_no_slash:
  "list_all (\<lambda>y. slash \<notin> set y) acc \<Longrightarrow> slash \<notin> set x \<Longrightarrow>
   list_all (\<lambda>y. slash \<notin> set y) (clean_step r acc x)"
  by (cases x rule: comp_cases; cases acc) (auto simp: clean_step_push)

lemma foldl_clean_no_slash:
  "list_all (\<lambda>y. slash \<notin> set y) acc \<Longrightarrow> list_all (\<lambda>y. slash \<notin> set y) xs \<Longrightarrow>
   list_all (\<lambda>y. slash \<notin> set y) (foldl (clean_step r) acc xs)"
  by (induction xs arbitrary: acc) (simp_all add: clean_step_no_slash)

lemma clean_comps_split_ok:
  "list_all (\<lambda>x. slash \<notin> set x \<and> x \<noteq> '''') (clean_comps r (splitOn slash p))"
  using foldl_clean_kept [of "[]" r "splitOn slash p"]
    foldl_clean_no_slash [of "[]" "splitOn slash p" r] splitOn_no_slash [of slash p]
  by (simp add: clean_comps_def list_all_iff kept_comp_def)

text \<open>\<open>Clean\<close> keeps a rooted path rooted and a relative one relative.\<close>

lemma path_Clean_rooted [simp]: "hasPrefix (path_Clean p) ''/'' \<longleftrightarrow> hasPrefix p ''/''"
  using joinWith_relative [OF clean_comps_split_ok [of False p]]
  by (auto simp: path_Clean_def Let_def)

lemma splitOn_clean_comps:
  "clean_comps r (splitOn slash p) \<noteq> [] \<Longrightarrow>
   splitOn slash (joinWith slash (clean_comps r (splitOn slash p))) = clean_comps r (splitOn slash p)"
  using clean_comps_split_ok [of r p] by (intro splitOn_joinWith) (auto simp: list_all_iff)

text \<open>The elements of a cleaned path lead from any directory to where the path leads.\<close>

lemma clean_comps_path_Clean_rooted:
  assumes r: "hasPrefix p ''/''"
  shows "clean_comps True (splitOn slash (path_Clean p)) = clean_comps True (splitOn slash p)"
proof -
  let ?cs = "clean_comps True (splitOn slash p)"
  have pl: "list_all plain_comp ?cs"
    by (rule clean_comps_rooted_plain) (rule splitOn_no_slash)
  have "splitOn slash (path_Clean p) = [] # (if ?cs = [] then [[]] else ?cs)"
    using r by (auto simp: path_Clean_def Let_def splitOn_clean_comps)
  moreover have "clean_comps True ([] # (if ?cs = [] then [[]] else ?cs)) = ?cs"
    using foldl_clean_plain [OF pl, of True "[]"] by (simp add: clean_comps_def)
  ultimately show ?thesis by simp
qed

lemma foldl_path_Clean_relative:
  assumes r: "\<not> hasPrefix p ''/''"
  shows "foldl (clean_step True) base (splitOn slash (path_Clean p))
       = foldl (clean_step True) base (splitOn slash p)"
proof -
  let ?cs = "clean_comps False (splitOn slash p)"
  have eq: "foldl (clean_step True) base ?cs = foldl (clean_step True) base (splitOn slash p)"
    unfolding clean_comps_def by (rule clean_relative_acts_alike)
  show ?thesis
  proof (cases "?cs = []")
    case True
    with r have "path_Clean p = ''.''" by (simp add: path_Clean_def)
    with eq True show ?thesis by simp
  next
    case False
    with r have "path_Clean p = joinWith slash ?cs" by (auto simp: path_Clean_def clean_comps_def)
    with eq False show ?thesis by (simp add: splitOn_clean_comps)
  qed
qed

text \<open>Joining plain elements to a rooted path of plain elements.\<close>

lemma joinWith_append:
  "xs \<noteq> [] \<Longrightarrow> ys \<noteq> [] \<Longrightarrow> joinWith c (xs @ ys) = joinWith c xs @ c # joinWith c ys"
  by (induction c xs rule: joinWith.induct) (simp_all add: joinWith_Cons)

lemma path_Clean_plain:
  assumes "list_all plain_comp cs" and "clean_comps True xs = cs" and "splitOn slash p = [] # xs"
    and p: "hasPrefix p ''/''"
  shows "path_Clean p = slash # joinWith slash cs"
proof -
  from p have "p \<noteq> ''''" by auto
  moreover have "clean_comps True (splitOn slash p) = cs"
    using assms(2,3) by (simp add: clean_comps_def)
  ultimately show ?thesis using p by (simp add: path_Clean_def)
qed

lemma path_Join_plain:
  assumes "bs \<noteq> []" and "list_all plain_comp bs" and "list_all plain_comp ns"
  shows "path_Join ((slash # joinWith slash bs) # ns) = slash # joinWith slash (bs @ ns)"
proof -
  have "joinWith slash ((slash # joinWith slash bs) # ns) = slash # joinWith slash (bs @ ns)"
    using assms by (cases ns) (simp_all add: joinWith_append)
  moreover have "path_Clean (slash # joinWith slash (bs @ ns)) = slash # joinWith slash (bs @ ns)"
    using assms by (intro path_Clean_plain [where xs = "bs @ ns"]) (simp_all add: splitOn_slash_plain)
  ultimately show ?thesis by (simp add: path_Join_def)
qed

lemma path_Split_slash: "slash \<notin> set b \<Longrightarrow> path_Split (a @ slash # b) = (a @ ''/'', b)"
  by (simp add: path_Split_def Let_def takeWhile_append)

text \<open>An element ending in a slash joins like the element without it.\<close>

lemma path_Join_trailing_slash:
  assumes "bs \<noteq> []" and "list_all plain_comp bs" and "plain_comp a" and "plain_comp b"
  shows "path_Join [slash # joinWith slash bs, a @ ''/'', b] = slash # joinWith slash (bs @ [a, b])"
proof -
  let ?p = "(slash # joinWith slash bs) @ slash # a @ slash # slash # b"
  have "splitOn slash ?p = [] # bs @ [a, [], b]"
    using assms by (simp add: splitOn_append splitOn_slash_plain splitOn_no_sep plain_comp_def)
  moreover have "clean_comps True (bs @ [a, [], b]) = bs @ [a, b]"
    using assms by (simp add: clean_comps_def foldl_clean_plain)
  ultimately have "path_Clean ?p = slash # joinWith slash (bs @ [a, b])"
    using assms by (intro path_Clean_plain) simp_all
  then show ?thesis by (simp add: path_Join_def)
qed

lemma joinWith_plain_inject:
  assumes "list_all plain_comp xs" "list_all plain_comp ys" "xs \<noteq> []" "ys \<noteq> []"
  shows "joinWith slash xs = joinWith slash ys \<longleftrightarrow> xs = ys"
  using splitOn_slash_plain [of xs] splitOn_slash_plain [of ys] assms by metis

end
