(* ===== verification/CheckpointPod.thy ===== *)
theory CheckpointPod
  imports PodModel GoPath
begin

text \<open>
  Pods as the checkpointer handles them: \<open>pkg/checkpoint/pod.go\<close>, the constants of
  \<open>checkpoint.go\<close>, and the path functions of \<open>secret.go\<close> and \<open>config_map.go\<close>.
\<close>

named_theorems pod_defs \<open>definitions of the checkpointer's pod functions\<close>

definition activeCheckpointPath :: string where
  "activeCheckpointPath = ''/etc/kubernetes/manifests''"
definition inactiveCheckpointPath :: string where
  "inactiveCheckpointPath = ''/etc/kubernetes/inactive-manifests''"
definition checkpointSecretPath :: string where
  "checkpointSecretPath = ''/etc/kubernetes/checkpoint-secrets''"
definition checkpointConfigMapPath :: string where
  "checkpointConfigMapPath = ''/etc/kubernetes/checkpoint-configmaps''"
definition shouldCheckpointAnnotation :: string where
  "shouldCheckpointAnnotation = ''checkpointer.alpha.coreos.com/checkpoint''"
definition checkpointParentAnnotation :: string where
  "checkpointParentAnnotation = ''checkpointer.alpha.coreos.com/checkpoint-of''"
definition podSourceAnnotation :: string where
  "podSourceAnnotation = ''kubernetes.io/config.source''"
definition shouldCheckpointValue :: string where
  "shouldCheckpointValue = ''true''"
definition podSourceFile :: string where
  "podSourceFile = ''file''"
definition rootUID :: int where "rootUID = 0"
definition rootGID :: int where "rootGID = 0"

lemmas checkpoint_consts = activeCheckpointPath_def inactiveCheckpointPath_def
  checkpointSecretPath_def checkpointConfigMapPath_def shouldCheckpointAnnotation_def
  checkpointParentAnnotation_def podSourceAnnotation_def shouldCheckpointValue_def
  podSourceFile_def rootUID_def rootGID_def

record checkpointerPod =
  NodeName :: string
  PodName :: string
  PodNamespace :: string

section \<open>Paths\<close>

definition secretPath :: "string \<Rightarrow> string \<Rightarrow> string \<Rightarrow> string" where
  "secretPath namespace podName secretName =
     path_Join [checkpointSecretPath, namespace, podName, secretName]"

definition podFullNameToSecretPath :: "string \<Rightarrow> string" where
  "podFullNameToSecretPath pid =
     (let (namespace, podname) = path_Split pid in path_Join [checkpointSecretPath, namespace, podname])"

definition configMapPath :: "string \<Rightarrow> string \<Rightarrow> string \<Rightarrow> string" where
  "configMapPath namespace podName configMapName =
     path_Join [checkpointConfigMapPath, namespace, podName, configMapName]"

definition podFullNameToConfigMapPath :: "string \<Rightarrow> string" where
  "podFullNameToConfigMapPath pid =
     (let (namespace, podname) = path_Split pid in path_Join [checkpointConfigMapPath, namespace, podname])"

definition podFullName :: "pod \<Rightarrow> string" where
  "podFullName pod = pod_Namespace pod @ ''/'' @ pod_Name pod"

definition podFullNameToInactiveCheckpointPath :: "string \<Rightarrow> string" where
  "podFullNameToInactiveCheckpointPath pid =
     path_Join [inactiveCheckpointPath, replaceByte slash (CHR ''-'') pid @ ''.json'']"

definition podFullNameToActiveCheckpointPath :: "string \<Rightarrow> string" where
  "podFullNameToActiveCheckpointPath pid =
     path_Join [activeCheckpointPath, replaceByte slash (CHR ''-'') pid @ ''.json'']"

section \<open>Sanitizing\<close>

definition sanitizeVolume :: "string \<Rightarrow> string \<Rightarrow> volume \<Rightarrow> volume" where
  [pod_defs]: "sanitizeVolume namespace name v =
     (case v_Secret v of
        Some r \<Rightarrow> v\<lparr>v_HostPath := Some (secretPath namespace name (vr_Name r)), v_Secret := None\<rparr>
      | None \<Rightarrow>
        (case v_ConfigMap v of
           Some r \<Rightarrow> v\<lparr>v_HostPath := Some (configMapPath namespace name (vr_Name r)), v_ConfigMap := None\<rparr>
         | None \<Rightarrow> v))"

definition sanitizeCheckpointPod :: "pod \<Rightarrow> pod" where
  [pod_defs]: "sanitizeCheckpointPod cp =
     (if strmap_has (pod_Annotations cp) checkpointParentAnnotation then cp
      else
        cp\<lparr>p_Meta :=
             emptyMeta\<lparr>m_Name := pod_Name cp, m_Namespace := pod_Namespace cp,
               m_Annotations := Some [(checkpointParentAnnotation, pod_Name cp)],
               m_Labels := m_Labels (p_Meta cp),
               m_OwnerReferences :=
                 [\<lparr>or_APIVersion = p_APIVersion cp, or_Kind = p_Kind cp, or_Name = pod_Name cp,
                   or_UID = m_UID (p_Meta cp), or_Controller = Some True\<rparr>]\<rparr>,
           p_Spec :=
             (p_Spec cp)\<lparr>sp_ServiceAccountName := '''', sp_DeprecatedServiceAccount := '''',
               sp_Affinity := None, sp_NodeSelector := None,
               sp_Volumes := map (sanitizeVolume (pod_Namespace cp) (pod_Name cp)) (sp_Volumes (p_Spec cp))\<rparr>,
           p_Status := emptyStatus\<rparr>)"

section \<open>Classifying\<close>

definition isPodCheckpointer :: "pod \<Rightarrow> checkpointerPod \<Rightarrow> bool" where
  [pod_defs]: "isPodCheckpointer pod cp =
     (if pod_Namespace pod \<noteq> PodNamespace cp then False
      else pod_Name pod = trimSuffix (PodName cp) (''-'' @ NodeName cp))"

definition isCheckpoint :: "pod \<Rightarrow> bool" where
  [pod_defs]: "isCheckpoint pod =
     (case pod_Annotations pod of None \<Rightarrow> False
      | Some _ \<Rightarrow> strmap_has (pod_Annotations pod) checkpointParentAnnotation)"

definition isValidParent :: "pod \<Rightarrow> bool" where
  [pod_defs]: "isValidParent pod =
     (case pod_Annotations pod of None \<Rightarrow> False
      | Some _ \<Rightarrow>
        (let shouldCheckpoint = (strmap_get (pod_Annotations pod) shouldCheckpointAnnotation = shouldCheckpointValue);
             isStatic = (strmap_get (pod_Annotations pod) podSourceAnnotation = podSourceFile)
         in shouldCheckpoint \<and> \<not> isStatic \<and> \<not> isCheckpoint pod))"

type_synonym podMap = "(string \<times> pod) list"

definition setTypeMetaPod :: "pod \<Rightarrow> pod" where
  "setTypeMetaPod pod = pod\<lparr>p_APIVersion := ''v1'', p_Kind := ''Pod''\<rparr>"

definition podListToMap :: "pod list \<Rightarrow> (pod \<Rightarrow> bool) \<Rightarrow> podMap" where
  "podListToMap pl filt =
     foldl (\<lambda>pods pod. if \<not> filt pod then pods
        else AList.update (podFullName pod) (setTypeMetaPod pod) pods) [] pl"

definition podListToParentPods :: "pod list \<Rightarrow> podMap" where
  "podListToParentPods pl = podListToMap pl isValidParent"

section \<open>User and group\<close>

definition ErrorConflictingSecurityContexts :: go_error where
  "ErrorConflictingSecurityContexts =
     Err ''pod and/or container(s) have conflicting SecurityContext.RunAsUser values''"

fun containerUsers :: "int option \<Rightarrow> container list \<Rightarrow> go_error + int option" where
  "containerUsers uid [] = Inr uid"
| "containerUsers uid (c # cs) =
     (case c_SecurityContext c of
        None \<Rightarrow> containerUsers uid cs
      | Some sc \<Rightarrow>
        (case sc_RunAsUser sc of
           None \<Rightarrow> containerUsers uid cs
         | Some u \<Rightarrow>
           (if uid \<noteq> None \<and> the uid \<noteq> u then Inl ErrorConflictingSecurityContexts
            else containerUsers (Some u) cs)))"

definition podUserAndGroup :: "pod \<Rightarrow> go_error + (int \<times> int)" where
  "podUserAndGroup pod =
     (let (uid0, gid) =
        (case sp_SecurityContext (p_Spec pod) of
           None \<Rightarrow> (None, None)
         | Some psc \<Rightarrow> (psc_RunAsUser psc, psc_FSGroup psc))
      in case containerUsers uid0 (sp_Containers (p_Spec pod)) of
           Inl e \<Rightarrow> Inl e
         | Inr uid \<Rightarrow>
             Inr (case uid of None \<Rightarrow> rootUID | Some u \<Rightarrow> u, case gid of None \<Rightarrow> rootGID | Some g \<Rightarrow> g))"

section \<open>Library lemmas\<close>

lemma isCheckpoint_iff: "isCheckpoint p \<longleftrightarrow> strmap_has (pod_Annotations p) checkpointParentAnnotation"
  by (simp add: isCheckpoint_def split: option.splits)

lemma sanitize_checkpoint [simp]: "isCheckpoint p \<Longrightarrow> sanitizeCheckpointPod p = p"
  by (simp add: isCheckpoint_iff sanitizeCheckpointPod_def)

lemma sanitize_name [simp]:
  "pod_Name (sanitizeCheckpointPod p) = pod_Name p"
  "pod_Namespace (sanitizeCheckpointPod p) = pod_Namespace p"
  "m_Labels (p_Meta (sanitizeCheckpointPod p)) = m_Labels (p_Meta p)"
  by (simp_all add: sanitizeCheckpointPod_def)

lemma sanitize_fullName [simp]: "podFullName (sanitizeCheckpointPod p) = podFullName p"
  by (simp add: podFullName_def)

lemma sanitize_isCheckpoint [simp]: "isCheckpoint (sanitizeCheckpointPod p)"
  by (simp add: isCheckpoint_iff sanitizeCheckpointPod_def)

lemma podListToMap_snoc:
  "podListToMap (pl @ [p]) f =
     (if f p then AList.update (podFullName p) (setTypeMetaPod p) (podListToMap pl f) else podListToMap pl f)"
  by (simp add: podListToMap_def)

lemma podListToMap_Nil [simp]: "podListToMap [] f = []"
  by (simp add: podListToMap_def)

lemma map_of_podListToMap:
  "map_of (podListToMap pl f) k =
     map_option setTypeMetaPod (List.find (\<lambda>p. f p \<and> podFullName p = k) (rev pl))"
  by (induction pl rule: rev_induct) (auto simp: podListToMap_snoc)

lemma distinct_podListToMap: "distinct (map fst (podListToMap pl f))"
  by (induction pl rule: rev_induct) (auto simp: podListToMap_snoc distinct_update)

lemma setTypeMetaPod_frame [simp]:
  "p_Meta (setTypeMetaPod p) = p_Meta p" "p_Spec (setTypeMetaPod p) = p_Spec p"
  by (simp_all add: setTypeMetaPod_def)

lemma podFullName_cong: "p_Meta p = p_Meta q \<Longrightarrow> podFullName p = podFullName q"
  by (simp add: podFullName_def)

lemma isValidParent_cong: "p_Meta p = p_Meta q \<Longrightarrow> isValidParent p = isValidParent q"
  by (simp add: isValidParent_def isCheckpoint_def Let_def split: option.splits)

text \<open>The names of namespaces and pods have no slash, so a full name splits uniquely.\<close>

lemma podFullName_inject:
  assumes "slash \<notin> set (pod_Namespace p)" and "slash \<notin> set (pod_Namespace q)"
    and "podFullName p = podFullName q"
  shows "pod_Namespace p = pod_Namespace q \<and> pod_Name p = pod_Name q"
proof -
  have "splitOn slash (podFullName p) = splitOn slash (podFullName q)" using assms(3) by simp
  with assms(1,2) have ns: "pod_Namespace p = pod_Namespace q"
    by (simp add: podFullName_def splitOn_append_sep)
  with assms(3) show ?thesis by (simp add: podFullName_def)
qed

lemma isPodCheckpointer_cong:
  "podFullName p = podFullName q \<Longrightarrow> slash \<notin> set (pod_Namespace p) \<Longrightarrow> slash \<notin> set (pod_Namespace q)
   \<Longrightarrow> isPodCheckpointer p cp = isPodCheckpointer q cp"
  using podFullName_inject [of p q] by (simp add: isPodCheckpointer_def)

text \<open>The users a pod and its containers declare, in the order the code looks at them.\<close>

definition containerUser :: "container \<Rightarrow> int option" where
  "containerUser c = Option.bind (c_SecurityContext c) sc_RunAsUser"

definition declaredUsers :: "pod \<Rightarrow> int list" where
  "declaredUsers p =
     (case Option.bind (sp_SecurityContext (p_Spec p)) psc_RunAsUser of None \<Rightarrow> [] | Some u \<Rightarrow> [u]) @
     List.map_filter containerUser (sp_Containers (p_Spec p))"

lemma containerUsers_spec:
  "containerUsers uid cs =
     (let us = (case uid of None \<Rightarrow> [] | Some u \<Rightarrow> [u]) @ List.map_filter containerUser cs
      in if \<forall>x \<in> set us. x = hd us then Inr (if us = [] then None else Some (hd us))
         else Inl ErrorConflictingSecurityContexts)"
proof (induction cs arbitrary: uid)
  case Nil
  show ?case by (simp add: map_filter_simps split: option.splits)
next
  case (Cons c cs)
  show ?case
  proof (cases "containerUser c")
    case None
    then show ?thesis
      using Cons.IH [of uid]
      by (auto simp: containerUser_def map_filter_simps split: option.splits bind_splits)
  next
    case (Some u)
    then show ?thesis
      using Cons.IH [of "Some u"]
      by (auto simp: containerUser_def map_filter_simps Let_def split: option.splits bind_splits)
  qed
qed

text \<open>The directories the checkpointer writes to, as lists of path elements.\<close>

lemma checkpoint_dirs:
  "activeCheckpointPath = slash # joinWith slash [''etc'', ''kubernetes'', ''manifests'']"
  "inactiveCheckpointPath = slash # joinWith slash [''etc'', ''kubernetes'', ''inactive-manifests'']"
  "checkpointSecretPath = slash # joinWith slash [''etc'', ''kubernetes'', ''checkpoint-secrets'']"
  "checkpointConfigMapPath = slash # joinWith slash [''etc'', ''kubernetes'', ''checkpoint-configmaps'']"
  by (simp_all add: checkpoint_consts)

lemma plain_dirs [simp]:
  "plain_comp ''etc''" "plain_comp ''kubernetes''" "plain_comp ''manifests''"
  "plain_comp ''inactive-manifests''" "plain_comp ''checkpoint-secrets''"
  "plain_comp ''checkpoint-configmaps''"
  by (simp_all add: plain_comp_def)

text \<open>The file name of a checkpoint manifest.\<close>

definition manifestName :: "string \<Rightarrow> string" where
  "manifestName pid = replaceByte slash (CHR ''-'') pid @ ''.json''"

lemma plain_manifestName [simp]: "plain_comp (manifestName pid)"
proof -
  have "length (manifestName pid) \<ge> 5" by (simp add: manifestName_def)
  moreover have "slash \<notin> set (manifestName pid)" by (auto simp: manifestName_def replaceByte_def)
  ultimately show ?thesis by (auto simp: plain_comp_def)
qed

lemma replaceByte_fullName:
  "slash \<notin> set ns \<Longrightarrow> slash \<notin> set n \<Longrightarrow> replaceByte slash (CHR ''-'') (ns @ ''/'' @ n) = ns @ ''-'' @ n"
proof -
  have same: "slash \<notin> set xs \<Longrightarrow> map (\<lambda>c. if c = slash then CHR ''-'' else c) xs = xs" for xs
    by (induction xs) auto
  assume "slash \<notin> set ns" "slash \<notin> set n"
  then show ?thesis by (simp add: replaceByte_def same)
qed

lemma manifest_paths:
  "podFullNameToActiveCheckpointPath pid
     = slash # joinWith slash [''etc'', ''kubernetes'', ''manifests'', manifestName pid]"
  "podFullNameToInactiveCheckpointPath pid
     = slash # joinWith slash [''etc'', ''kubernetes'', ''inactive-manifests'', manifestName pid]"
  using path_Join_plain [of "[''etc'', ''kubernetes'', ''manifests'']" "[manifestName pid]"]
    path_Join_plain [of "[''etc'', ''kubernetes'', ''inactive-manifests'']" "[manifestName pid]"]
  by (simp_all add: podFullNameToActiveCheckpointPath_def podFullNameToInactiveCheckpointPath_def
      checkpoint_consts flip: manifestName_def)

lemma asset_paths:
  assumes "plain_comp ns" "plain_comp n" "plain_comp x"
  shows "secretPath ns n x = slash # joinWith slash [''etc'', ''kubernetes'', ''checkpoint-secrets'', ns, n, x]"
    and "configMapPath ns n x = slash # joinWith slash [''etc'', ''kubernetes'', ''checkpoint-configmaps'', ns, n, x]"
  using path_Join_plain [of "[''etc'', ''kubernetes'', ''checkpoint-secrets'']" "[ns, n, x]"]
    path_Join_plain [of "[''etc'', ''kubernetes'', ''checkpoint-configmaps'']" "[ns, n, x]"] assms
  by (simp_all add: secretPath_def configMapPath_def checkpoint_consts)

lemma asset_roots:
  assumes "plain_comp ns" "plain_comp n"
  shows "podFullNameToSecretPath (ns @ ''/'' @ n)
           = slash # joinWith slash [''etc'', ''kubernetes'', ''checkpoint-secrets'', ns, n]"
    and "podFullNameToConfigMapPath (ns @ ''/'' @ n)
           = slash # joinWith slash [''etc'', ''kubernetes'', ''checkpoint-configmaps'', ns, n]"
proof -
  have "slash \<notin> set n" using assms by (simp add: plain_comp_def)
  then have "path_Split (ns @ ''/'' @ n) = (ns @ ''/'', n)" using path_Split_slash [of n ns] by simp
  then show "podFullNameToSecretPath (ns @ ''/'' @ n)
           = slash # joinWith slash [''etc'', ''kubernetes'', ''checkpoint-secrets'', ns, n]"
    and "podFullNameToConfigMapPath (ns @ ''/'' @ n)
           = slash # joinWith slash [''etc'', ''kubernetes'', ''checkpoint-configmaps'', ns, n]"
    using path_Join_trailing_slash [of "[''etc'', ''kubernetes'', ''checkpoint-secrets'']" ns n]
      path_Join_trailing_slash [of "[''etc'', ''kubernetes'', ''checkpoint-configmaps'']" ns n] assms
    by (simp_all add: podFullNameToSecretPath_def podFullNameToConfigMapPath_def checkpoint_consts)
qed

section \<open>Properties\<close>

text \<open>
  C6: Sanitizing a pod gives a self-contained checkpoint of it: a checkpoint and never again a
  parent, with the parent's full name and labels, no service account, affinity, node selector
  or status, and with every secret and config map volume turned into a host path volume on the
  files the checkpointer stores for this pod; sanitizing it again changes nothing. A volume has
  one source, as the API requires.
\<close>

theorem sanitized_pod_is_self_contained:
  assumes parent: "\<not> isCheckpoint p"
    and one_source: "\<forall>v \<in> set (sp_Volumes (p_Spec p)). v_Secret v = None \<or> v_ConfigMap v = None"
  defines "q \<equiv> sanitizeCheckpointPod p"
  shows "sanitizeCheckpointPod q = q \<and> isCheckpoint q \<and> \<not> isValidParent q \<and>
    podFullName q = podFullName p \<and> m_Labels (p_Meta q) = m_Labels (p_Meta p) \<and>
    m_Annotations (p_Meta q) = Some [(checkpointParentAnnotation, pod_Name p)] \<and>
    sp_ServiceAccountName (p_Spec q) = '''' \<and> sp_Affinity (p_Spec q) = None \<and>
    sp_NodeSelector (p_Spec q) = None \<and> p_Status q = emptyStatus \<and>
    sp_Containers (p_Spec q) = sp_Containers (p_Spec p) \<and>
    list_all2 (\<lambda>v w. v_Name w = v_Name v \<and> v_Secret w = None \<and> v_ConfigMap w = None \<and>
        v_HostPath w =
          (case v_Secret v of Some r \<Rightarrow> Some (secretPath (pod_Namespace p) (pod_Name p) (vr_Name r))
           | None \<Rightarrow>
             (case v_ConfigMap v of Some r \<Rightarrow> Some (configMapPath (pod_Namespace p) (pod_Name p) (vr_Name r))
              | None \<Rightarrow> v_HostPath v)))
      (sp_Volumes (p_Spec p)) (sp_Volumes (p_Spec q))"
proof -
  have nc: "\<not> strmap_has (pod_Annotations p) checkpointParentAnnotation"
    using parent by (simp add: isCheckpoint_iff)
  have ck: "isCheckpoint q" by (simp add: q_def)
  then have "\<not> isValidParent q" by (simp add: isValidParent_def Let_def split: option.splits)
  with ck nc one_source show ?thesis
    by (auto simp: q_def sanitizeCheckpointPod_def sanitizeVolume_def list_all2_map2 emptyMeta_def
        podFullName_def intro!: list.rel_refl_strong split: option.splits)
qed

definition example_parent :: pod where
  "example_parent = emptyPod\<lparr>p_APIVersion := ''v1'', p_Kind := ''Pod'',
     p_Meta := emptyMeta\<lparr>m_Name := ''kube-apiserver'', m_Namespace := ''kube-system'',
       m_Annotations := Some [(shouldCheckpointAnnotation, ''true'')]\<rparr>,
     p_Spec := emptySpec\<lparr>sp_Volumes :=
       [\<lparr>v_Name = ''certs'', v_Secret = Some \<lparr>vr_Name = ''tls'', vr_rest = ''''\<rparr>, v_ConfigMap = None,
         v_HostPath = None, v_rest = ''''\<rparr>]\<rparr>\<rparr>"

theorem sanitized_pod_is_self_contained_witness:
  "\<not> isCheckpoint example_parent \<and> isValidParent example_parent \<and>
   \<not> isValidParent (sanitizeCheckpointPod example_parent)"
proof -
  have p: "\<not> isCheckpoint example_parent"
    "\<forall>v \<in> set (sp_Volumes (p_Spec example_parent)). v_Secret v = None \<or> v_ConfigMap v = None"
    by (simp_all add: example_parent_def emptyPod_def emptyMeta_def isCheckpoint_def checkpoint_consts)
  have "isValidParent example_parent"
    by (simp add: example_parent_def emptyPod_def emptyMeta_def isValidParent_def isCheckpoint_def
        strmap_get_def checkpoint_consts)
  with p sanitized_pod_is_self_contained [OF p] show ?thesis by simp
qed

text \<open>
  The owner of the checkpointed assets: the pod's user is the one value all declared
  \<open>RunAsUser\<close> settings of the pod and its containers agree on, root when none is declared,
  and two different declared values are the only reason for an error; the group is the pod's
  \<open>FSGroup\<close> or root.
\<close>

lemma podUserAndGroup_agreement:
  "podUserAndGroup p =
     (if card (set (declaredUsers p)) \<le> 1
      then Inr (if declaredUsers p = [] then 0 else hd (declaredUsers p),
                case Option.bind (sp_SecurityContext (p_Spec p)) psc_FSGroup of None \<Rightarrow> 0 | Some g \<Rightarrow> g)
      else Inl ErrorConflictingSecurityContexts)"
proof -
  show ?thesis
    unfolding card_set_le_1
    by (cases "sp_SecurityContext (p_Spec p)")
      (auto simp: podUserAndGroup_def containerUsers_spec declaredUsers_def Let_def rootUID_def
        rootGID_def split: option.splits)
qed

text \<open>
  Building the map of parent pods from a pod list: a key is bound exactly when some pod of
  the list is a valid parent with that full name, and then to the last such pod, with its
  \<open>TypeMeta\<close> filled in; no other pod gets in.
\<close>

theorem podListToParentPods_lookup:
  "map_of (podListToParentPods pl) k = Some q \<longleftrightarrow>
     (\<exists>xs p ys. pl = xs @ p # ys \<and> isValidParent p \<and> podFullName p = k \<and>
        filter (\<lambda>r. isValidParent r \<and> podFullName r = k) ys = [] \<and>
        q = p\<lparr>p_APIVersion := ''v1'', p_Kind := ''Pod''\<rparr>)"
proof -
  let ?P = "\<lambda>p. isValidParent p \<and> podFullName p = k"
  have "List.find ?P (rev pl) = Some p \<longleftrightarrow> (\<exists>xs ys. pl = xs @ p # ys \<and> ?P p \<and> filter ?P ys = [])" for p
    by (rule find_rev_Some_iff)
  then show ?thesis
    by (auto simp: podListToParentPods_def map_of_podListToMap setTypeMetaPod_def)
qed

text \<open>
  Two pods share a manifest file, active or inactive, exactly when their namespaces and
  names agree after joining them with a dash. The files of different pods can therefore
  coincide: pod \<open>c\<close> of namespace \<open>a-b\<close> and pod \<open>b-c\<close> of namespace \<open>a\<close> do.
\<close>

lemma manifest_path_collision:
  assumes "slash \<notin> set ns" "slash \<notin> set n" "slash \<notin> set ns'" "slash \<notin> set n'"
  shows "(podFullNameToActiveCheckpointPath (ns @ ''/'' @ n) = podFullNameToActiveCheckpointPath (ns' @ ''/'' @ n')
            \<longleftrightarrow> ns @ ''-'' @ n = ns' @ ''-'' @ n') \<and>
         (podFullNameToInactiveCheckpointPath (ns @ ''/'' @ n) = podFullNameToInactiveCheckpointPath (ns' @ ''/'' @ n')
            \<longleftrightarrow> ns @ ''-'' @ n = ns' @ ''-'' @ n')"
proof -
  have "manifestName (ns @ ''/'' @ n) = manifestName (ns' @ ''/'' @ n') \<longleftrightarrow> ns @ ''-'' @ n = ns' @ ''-'' @ n'"
    using replaceByte_fullName [OF assms(1,2)] replaceByte_fullName [OF assms(3,4)]
    by (simp add: manifestName_def)
  then show ?thesis by (simp add: manifest_paths)
qed

lemma manifest_path_collision_witness:
  "podFullNameToActiveCheckpointPath ''a-b/c'' = podFullNameToActiveCheckpointPath ''a/b-c''"
  using manifest_path_collision [of "''a-b''" "''c''" "''a''" "''b-c''"] by simp

text \<open>
  Checkpointed secrets and config maps, unlike manifests, are kept apart: the directory of
  one secret of a pod lies directly below the directory that removing the pod's checkpoint
  deletes, and these directories are different for different pods.
\<close>

theorem asset_directories_separate:
  assumes "list_all plain_comp [ns, n, x, ns', n']"
  shows "secretPath ns n x = podFullNameToSecretPath (ns @ ''/'' @ n) @ ''/'' @ x \<and>
         configMapPath ns n x = podFullNameToConfigMapPath (ns @ ''/'' @ n) @ ''/'' @ x \<and>
         (podFullNameToSecretPath (ns @ ''/'' @ n) = podFullNameToSecretPath (ns' @ ''/'' @ n') \<longleftrightarrow> ns = ns' \<and> n = n') \<and>
         (podFullNameToConfigMapPath (ns @ ''/'' @ n) = podFullNameToConfigMapPath (ns' @ ''/'' @ n') \<longleftrightarrow> ns = ns' \<and> n = n')"
proof -
  have "joinWith slash [ns, n] = joinWith slash [ns', n'] \<longleftrightarrow> ns = ns' \<and> n = n'"
    using assms by (subst joinWith_plain_inject) simp_all
  then show ?thesis using assms asset_roots [of ns n] asset_roots [of ns' n'] asset_paths [of ns n x] by simp
qed

theorem asset_directories_separate_witness:
  "secretPath ''kube-system'' ''kube-apiserver'' ''tls''
     = podFullNameToSecretPath ''kube-system/kube-apiserver'' @ ''/tls'' \<and>
   podFullNameToSecretPath ''a-b/c'' \<noteq> podFullNameToSecretPath ''a/b-c''"
  using asset_directories_separate [of "''kube-system''" "''kube-apiserver''" "''tls''" "''a''" "''b''"]
    asset_directories_separate [of "''a-b''" "''c''" "''x''" "''a''" "''b-c''"]
  by (simp add: plain_comp_def)

end
