(* ===== verification/FileSystem.thy ===== *)
theory FileSystem
  imports GoPath
begin

text \<open>
  The part of Go's \<open>os\<close>, \<open>io/ioutil\<close> and \<open>filepath.Walk\<close> the sources use, over an
  explicit file system: an association list from absolute element lists to nodes. Files have
  content, mode and owner; there are no symbolic links. A call first consults \<open>faults\<close>,
  which says whether the operating system refuses this operation on this file, and with which
  message; a failing write has already put out the first \<open>torn\<close> bytes. A theorem about
  every such file system covers every pattern of failures.

  The process runs as root, so files it creates belong to user and group 0.
\<close>

named_theorems fs_defs \<open>definitions of the file-system calls\<close>
named_theorems fs_frame \<open>what a file-system call leaves alone\<close>

record meta =
  n_mode :: nat
  n_uid :: int
  n_gid :: int

datatype node = NDir meta | NFile bytes meta

datatype fsop = OpRead | OpCreate | OpWrite | OpMkdir | OpRemove | OpRename | OpChmod | OpChown
  | OpReadDir | OpStat | OpClose

type_synonym key = "string list"

record fs =
  entries :: "(key \<times> node) list"
  cwd :: key
  faults :: "fsop \<Rightarrow> key \<Rightarrow> string option"
  torn :: "key \<Rightarrow> nat"

definition fs_key :: "fs \<Rightarrow> string \<Rightarrow> key" where
  "fs_key s p =
     rev (foldl (clean_step True) (if hasPrefix p ''/'' then [] else rev (cwd s)) (splitOn slash p))"

definition fs_node :: "fs \<Rightarrow> key \<Rightarrow> node option" where
  "fs_node s k = map_of (entries s) k"

definition fs_put :: "fs \<Rightarrow> key \<Rightarrow> node \<Rightarrow> fs" where
  "fs_put s k n = s\<lparr>entries := AList.update k n (entries s)\<rparr>"

definition fs_del :: "fs \<Rightarrow> key \<Rightarrow> fs" where
  "fs_del s k = s\<lparr>entries := AList.delete k (entries s)\<rparr>"

definition fs_fault :: "fs \<Rightarrow> fsop \<Rightarrow> key \<Rightarrow> go_error option" where
  "fs_fault s opr k = map_option ErrIO (faults s opr k)"

definition children :: "fs \<Rightarrow> key \<Rightarrow> string list" where
  "children s k = map last (filter (\<lambda>k'. k' \<noteq> [] \<and> butlast k' = k) (map fst (entries s)))"

definition is_dir :: "node option \<Rightarrow> bool" where
  "is_dir n = (case n of Some (NDir _) \<Rightarrow> True | _ \<Rightarrow> False)"

text \<open>The content of a regular file.\<close>

definition content :: "fs \<Rightarrow> key \<Rightarrow> bytes option" where
  "content s k = (case fs_node s k of Some (NFile d _) \<Rightarrow> Some d | _ \<Rightarrow> None)"

section \<open>Calls\<close>

definition new_file :: "nat \<Rightarrow> node" where
  "new_file mode = NFile [] \<lparr>n_mode = mode, n_uid = 0, n_gid = 0\<rparr>"

definition new_dir :: "nat \<Rightarrow> node" where
  "new_dir mode = NDir \<lparr>n_mode = mode, n_uid = 0, n_gid = 0\<rparr>"

text \<open>Why a new entry cannot be made in its parent directory.\<close>

definition parent_error :: "fs \<Rightarrow> string \<Rightarrow> key \<Rightarrow> go_error option" where
  [fs_defs]: "parent_error s p k =
     (case fs_node s (butlast k) of
        Some (NDir _) \<Rightarrow> None
      | Some (NFile _ _) \<Rightarrow> Some (ErrIO ''not a directory'')
      | None \<Rightarrow> Some (ErrNotExist p))"

definition ioutil_ReadFile :: "fs \<Rightarrow> string \<Rightarrow> go_error + bytes" where
  [fs_defs]: "ioutil_ReadFile s p =
     (let k = fs_key s p in
      case fs_fault s OpRead k of Some e \<Rightarrow> Inl e
      | None \<Rightarrow>
        (case fs_node s k of
           None \<Rightarrow> Inl (ErrNotExist p)
         | Some (NDir _) \<Rightarrow> Inl (ErrIO ''is a directory'')
         | Some (NFile d _) \<Rightarrow> Inr d))"

text \<open>
  \<open>os.OpenFile\<close> for writing with \<open>O_CREATE\<close>, and \<open>O_EXCL\<close> or \<open>O_TRUNC\<close> as the
  flags say.
\<close>

definition os_OpenFile :: "bool \<Rightarrow> bool \<Rightarrow> nat \<Rightarrow> fs \<Rightarrow> string \<Rightarrow> fs \<times> go_error option" where
  [fs_defs]: "os_OpenFile excl trunc mode s p =
     (let k = fs_key s p in
      case fs_fault s OpCreate k of Some e \<Rightarrow> (s, Some e)
      | None \<Rightarrow>
        (case fs_node s k of
           Some (NDir _) \<Rightarrow> (s, Some (if excl then ErrExist p else ErrIO ''is a directory''))
         | Some (NFile d m) \<Rightarrow>
             (if excl then (s, Some (ErrExist p))
              else (if trunc then fs_put s k (NFile [] m) else s, None))
         | None \<Rightarrow>
             (case parent_error s p k of Some e \<Rightarrow> (s, Some e)
              | None \<Rightarrow> (fs_put s k (new_file mode), None))))"

text \<open>
  Writing all of \<open>data\<close> from the start of an open file: bytes beyond the written ones stay.
  A write that fails has put out its first \<open>torn\<close> bytes.
\<close>

definition overwrite_bytes :: "bytes \<Rightarrow> bytes \<Rightarrow> bytes" where
  "overwrite_bytes data old = data @ drop (length data) old"

definition file_Write :: "fs \<Rightarrow> string \<Rightarrow> bytes \<Rightarrow> fs \<times> go_error option" where
  [fs_defs]: "file_Write s p data =
     (let k = fs_key s p in
      case fs_node s k of
        Some (NFile old m) \<Rightarrow>
          (case fs_fault s OpWrite k of
             Some e \<Rightarrow> (fs_put s k (NFile (overwrite_bytes (take (torn s k) data) old) m), Some e)
           | None \<Rightarrow> (fs_put s k (NFile (overwrite_bytes data old) m), None))
      | _ \<Rightarrow> (s, Some (ErrIO ''bad file descriptor'')))"

text \<open>Closing an open file can report a write that failed late.\<close>

definition file_Close :: "fs \<Rightarrow> string \<Rightarrow> go_error option" where
  [fs_defs]: "file_Close s p = fs_fault s OpClose (fs_key s p)"

definition set_meta :: "(meta \<Rightarrow> meta) \<Rightarrow> node \<Rightarrow> node" where
  "set_meta f n = (case n of NDir m \<Rightarrow> NDir (f m) | NFile d m \<Rightarrow> NFile d (f m))"

definition change_meta :: "fsop \<Rightarrow> (meta \<Rightarrow> meta) \<Rightarrow> fs \<Rightarrow> string \<Rightarrow> fs \<times> go_error option" where
  [fs_defs]: "change_meta opr f s p =
     (let k = fs_key s p in
      case fs_fault s opr k of Some e \<Rightarrow> (s, Some e)
      | None \<Rightarrow>
        (case fs_node s k of
           None \<Rightarrow> (s, Some (ErrNotExist p))
         | Some n \<Rightarrow> (fs_put s k (set_meta f n), None)))"

definition os_Chmod :: "fs \<Rightarrow> string \<Rightarrow> nat \<Rightarrow> fs \<times> go_error option" where
  [fs_defs]: "os_Chmod s p mode = change_meta OpChmod (\<lambda>m. m\<lparr>n_mode := mode\<rparr>) s p"

definition os_Chown :: "fs \<Rightarrow> string \<Rightarrow> int \<Rightarrow> int \<Rightarrow> fs \<times> go_error option" where
  [fs_defs]: "os_Chown s p uid gid =
     change_meta OpChown (\<lambda>m. m\<lparr>n_uid := uid, n_gid := gid\<rparr>) s p"

text \<open>\<open>os.Rename\<close> of a regular file, replacing a regular file at the target in one step.\<close>

definition os_Rename :: "fs \<Rightarrow> string \<Rightarrow> string \<Rightarrow> fs \<times> go_error option" where
  [fs_defs]: "os_Rename s p q =
     (let k = fs_key s p; l = fs_key s q in
      case fs_fault s OpRename l of Some e \<Rightarrow> (s, Some e)
      | None \<Rightarrow>
        (case fs_node s k of
           Some (NFile d m) \<Rightarrow>
             (if is_dir (fs_node s l) then (s, Some (ErrIO ''file exists''))
              else (case parent_error s q l of Some e \<Rightarrow> (s, Some e)
                    | None \<Rightarrow> (if k = l then (s, None)
                             else (fs_put (fs_del s k) l (NFile d m), None))))
         | Some (NDir _) \<Rightarrow> (s, Some (ErrIO ''is a directory''))
         | None \<Rightarrow> (s, Some (ErrNotExist p))))"

text \<open>
  \<open>ioutil.TempFile(dir, pattern)\<close> makes a new file whose name starts with the pattern and
  does not exist yet. Go appends random digits; here the digits are chosen longer than every
  name in the directory, which is one such name.
\<close>

definition fresh_name :: "string \<Rightarrow> string list \<Rightarrow> string" where
  "fresh_name pat names = pat @ replicate (Suc (fold max (map length names) 0)) (CHR ''0'')"

definition ioutil_TempFile :: "fs \<Rightarrow> string \<Rightarrow> string \<Rightarrow> fs \<times> (go_error + string)" where
  [fs_defs]: "ioutil_TempFile s dir pat =
     (let p = path_Join [dir, fresh_name pat (children s (fs_key s dir))] in
      case os_OpenFile True False 384 s p of
        (s', Some e) \<Rightarrow> (s', Inl e)
      | (s', None) \<Rightarrow> (s', Inr p))"

definition os_Mkdir :: "fs \<Rightarrow> string \<Rightarrow> nat \<Rightarrow> fs \<times> go_error option" where
  [fs_defs]: "os_Mkdir s p mode =
     (let k = fs_key s p in
      case fs_node s k of
        Some _ \<Rightarrow> (s, Some (ErrExist p))
      | None \<Rightarrow>
        (case fs_fault s OpMkdir k of Some e \<Rightarrow> (s, Some e)
         | None \<Rightarrow>
           (case parent_error s p k of Some e \<Rightarrow> (s, Some e)
            | None \<Rightarrow> (fs_put s k (new_dir mode), None))))"

text \<open>\<open>os.MkdirAll\<close> makes the missing directories from the root down.\<close>

fun mkdirs :: "nat \<Rightarrow> fs \<Rightarrow> key list \<Rightarrow> fs \<times> go_error option" where
  "mkdirs mode s [] = (s, None)"
| "mkdirs mode s (k # ks) =
     (case fs_node s k of
        Some (NDir _) \<Rightarrow> mkdirs mode s ks
      | Some (NFile _ _) \<Rightarrow> (s, Some (ErrIO ''not a directory''))
      | None \<Rightarrow>
        (case fs_fault s OpMkdir k of Some e \<Rightarrow> (s, Some e)
         | None \<Rightarrow> mkdirs mode (fs_put s k (new_dir mode)) ks))"

definition os_MkdirAll :: "fs \<Rightarrow> string \<Rightarrow> nat \<Rightarrow> fs \<times> go_error option" where
  [fs_defs]: "os_MkdirAll s p mode = mkdirs mode s (prefixes (fs_key s p))"

definition os_Remove :: "fs \<Rightarrow> string \<Rightarrow> fs \<times> go_error option" where
  [fs_defs]: "os_Remove s p =
     (let k = fs_key s p in
      case fs_fault s OpRemove k of Some e \<Rightarrow> (s, Some e)
      | None \<Rightarrow>
        (case fs_node s k of
           None \<Rightarrow> (s, Some (ErrNotExist p))
         | Some (NFile _ _) \<Rightarrow> (fs_del s k, None)
         | Some (NDir _) \<Rightarrow>
             (if k = [] \<or> children s k \<noteq> [] then (s, Some (ErrIO ''directory not empty''))
              else (fs_del s k, None))))"

text \<open>
  \<open>os.RemoveAll\<close> removes a path and everything below it; a missing path is no error. A
  refused removal is refused before anything is gone.
\<close>

definition os_RemoveAll :: "fs \<Rightarrow> string \<Rightarrow> fs \<times> go_error option" where
  [fs_defs]: "os_RemoveAll s p =
     (let k = fs_key s p in
      case fs_fault s OpRemove k of Some e \<Rightarrow> (s, Some e)
      | None \<Rightarrow>
        (if k = [] then (s, Some (ErrIO ''device or resource busy''))
         else (s\<lparr>entries := filter (\<lambda>(k', _). \<not> prefix k k') (entries s)\<rparr>, None)))"

text \<open>\<open>ioutil.ReadDir\<close>: the names in a directory, sorted.\<close>

definition ioutil_ReadDir :: "fs \<Rightarrow> string \<Rightarrow> go_error + string list" where
  [fs_defs]: "ioutil_ReadDir s p =
     (let k = fs_key s p in
      case fs_fault s OpReadDir k of Some e \<Rightarrow> Inl e
      | None \<Rightarrow>
        (case fs_node s k of
           None \<Rightarrow> Inl (ErrNotExist p)
         | Some (NFile _ _) \<Rightarrow> Inl (ErrIO ''not a directory'')
         | Some (NDir _) \<Rightarrow> Inr (sort_Strings (children s k))))"

definition os_Stat :: "fs \<Rightarrow> string \<Rightarrow> go_error + node" where
  [fs_defs]: "os_Stat s p =
     (let k = fs_key s p in
      case fs_fault s OpStat k of Some e \<Rightarrow> Inl e
      | None \<Rightarrow> (case fs_node s k of None \<Rightarrow> Inl (ErrNotExist p) | Some n \<Rightarrow> Inr n))"

definition ioutil_WriteFile :: "fs \<Rightarrow> string \<Rightarrow> bytes \<Rightarrow> nat \<Rightarrow> fs \<times> go_error option" where
  [fs_defs]: "ioutil_WriteFile s p data mode =
     (case os_OpenFile False True mode s p of
        (s', Some e) \<Rightarrow> (s', Some e)
      | (s', None) \<Rightarrow> file_Write s' p data)"

section \<open>Walking a tree\<close>

text \<open>
  \<open>filepath.Walk\<close> visits a directory before what it holds, and siblings in the order of
  their names: that is the lexicographic order of the element lists. The callback sees the
  root as it was given and every other path joined to it. For a directory that cannot be
  listed, and for a missing root, it sees the error; both callbacks of the sources stop there.
  The tree is the one at the start of the walk.
\<close>

datatype walk_item = WDir string | WFile string bytes | WErr go_error

definition walk_keys :: "fs \<Rightarrow> key \<Rightarrow> key list" where
  "walk_keys s k = sort (filter (prefix k) (map fst (entries s)))"

definition walk_path :: "string \<Rightarrow> key \<Rightarrow> key \<Rightarrow> string" where
  "walk_path root k k' = (if k' = k then root else path_Join (root # drop (length k) k'))"

definition walk_item_of :: "fs \<Rightarrow> string \<Rightarrow> key \<Rightarrow> key \<Rightarrow> walk_item list" where
  "walk_item_of s root k k' =
     (case fs_node s k' of
        Some (NDir _) \<Rightarrow>
          (case fs_fault s OpReadDir k' of None \<Rightarrow> [WDir (walk_path root k k')] | Some e \<Rightarrow> [WErr e])
      | Some (NFile d _) \<Rightarrow> [WFile (walk_path root k k') d]
      | None \<Rightarrow> [])"

definition filepath_Walk :: "fs \<Rightarrow> string \<Rightarrow> walk_item list" where
  [fs_defs]: "filepath_Walk s root =
     (let k = fs_key s root in
      case os_Stat s root of
        Inl e \<Rightarrow> [WErr e]
      | Inr _ \<Rightarrow> concat (map (walk_item_of s root k) (walk_keys s k)))"

section \<open>Frame lemmas\<close>

lemma fs_put_frame [simp]:
  "cwd (fs_put s k n) = cwd s" "faults (fs_put s k n) = faults s" "torn (fs_put s k n) = torn s"
  by (simp_all add: fs_put_def)

lemma fs_del_frame [simp]:
  "cwd (fs_del s k) = cwd s" "faults (fs_del s k) = faults s" "torn (fs_del s k) = torn s"
  by (simp_all add: fs_del_def)

lemma fs_key_cong: "cwd s' = cwd s \<Longrightarrow> fs_key s' p = fs_key s p"
  by (simp add: fs_key_def)

lemma fs_key_put [simp]: "fs_key (fs_put s k n) p = fs_key s p"
  and fs_key_del [simp]: "fs_key (fs_del s k) p = fs_key s p"
  by (simp_all add: fs_key_def)

lemma fs_fault_put [simp]: "fs_fault (fs_put s k n) opr k' = fs_fault s opr k'"
  and fs_fault_del [simp]: "fs_fault (fs_del s k) opr k' = fs_fault s opr k'"
  by (simp_all add: fs_fault_def)

lemma fs_node_put: "fs_node (fs_put s k n) k' = (if k' = k then Some n else fs_node s k')"
  by (simp add: fs_node_def fs_put_def)

lemma fs_node_del: "fs_node (fs_del s k) k' = (if k' = k then None else fs_node s k')"
  by (simp add: fs_node_def fs_del_def)

lemmas fs_node_simps [simp] = fs_node_put fs_node_del

lemma fs_fault_class: "fs_fault s opr k = Some e \<Longrightarrow> \<not> os_IsNotExist e \<and> \<not> os_IsExist e"
  by (auto simp: fs_fault_def)

lemma content_put [simp]:
  "content (fs_put s k n) k' = (if k' = k then (case n of NFile d _ \<Rightarrow> Some d | NDir _ \<Rightarrow> None) else content s k')"
  by (auto simp: content_def split: node.splits)

lemma content_del [simp]: "content (fs_del s k) k' = (if k' = k then None else content s k')"
  by (simp add: content_def)

lemma content_node_cong: "fs_node s' k = fs_node s k \<Longrightarrow> content s' k = content s k"
  by (simp add: content_def)

text \<open>Every call leaves the environment alone.\<close>

definition same_env :: "fs \<Rightarrow> fs \<Rightarrow> bool" where
  "same_env s s' \<longleftrightarrow> cwd s' = cwd s \<and> faults s' = faults s \<and> torn s' = torn s"

lemma same_env_refl [simp, intro]: "same_env s s"
  by (simp add: same_env_def)

lemma same_env_trans: "same_env s t \<Longrightarrow> same_env t u \<Longrightarrow> same_env s u"
  by (simp add: same_env_def)

lemma same_env_key: "same_env s s' \<Longrightarrow> fs_key s' p = fs_key s p"
  by (simp add: same_env_def fs_key_def)

lemma same_env_fault: "same_env s s' \<Longrightarrow> fs_fault s' opr k = fs_fault s opr k"
  by (simp add: same_env_def fs_fault_def)

lemma same_env_put [simp]: "same_env s (fs_put s' k n) \<longleftrightarrow> same_env s s'"
  and same_env_del [simp]: "same_env s (fs_del s' k) \<longleftrightarrow> same_env s s'"
  by (simp_all add: same_env_def)

lemma os_OpenFile_env [fs_frame]: "same_env s (fst (os_OpenFile excl trunc mode s p))"
  by (auto simp: fs_defs Let_def split: option.splits node.splits)

lemma file_Write_env [fs_frame]: "same_env s (fst (file_Write s p d))"
  by (auto simp: fs_defs Let_def split: option.splits node.splits)

lemma change_meta_env [fs_frame]: "same_env s (fst (change_meta opr f s p))"
  by (auto simp: fs_defs Let_def split: option.splits)

lemma os_Rename_env [fs_frame]: "same_env s (fst (os_Rename s p q))"
  by (auto simp: fs_defs Let_def split: option.splits node.splits)

lemma os_Mkdir_env [fs_frame]: "same_env s (fst (os_Mkdir s p mode))"
  by (auto simp: fs_defs Let_def split: option.splits)

lemma mkdirs_env: "same_env s (fst (mkdirs mode s ks))"
proof (induction ks arbitrary: s)
  case (Cons k ks)
  show ?case
    using Cons.IH [of s] Cons.IH [of "fs_put s k (new_dir mode)"]
    by (auto simp: same_env_def split: option.splits node.splits)
qed simp

lemma os_MkdirAll_env [fs_frame]: "same_env s (fst (os_MkdirAll s p mode))"
  by (simp add: os_MkdirAll_def mkdirs_env)

lemma os_Remove_env [fs_frame]: "same_env s (fst (os_Remove s p))"
  by (auto simp: fs_defs Let_def split: option.splits node.splits)

lemma os_RemoveAll_env [fs_frame]: "same_env s (fst (os_RemoveAll s p))"
  by (auto simp: fs_defs Let_def same_env_def split: option.splits)

lemma ioutil_TempFile_env [fs_frame]: "same_env s (fst (ioutil_TempFile s dir pat))"
  using os_OpenFile_env [of s] by (auto simp: ioutil_TempFile_def Let_def split: prod.splits option.splits)
    (metis fst_conv)+

section \<open>Keys of joined paths\<close>

lemma fs_key_Clean [simp]: "fs_key s (path_Clean p) = fs_key s p"
proof (cases "hasPrefix p ''/''")
  case True
  then show ?thesis
    using clean_comps_path_Clean_rooted [OF True] by (simp add: fs_key_def clean_comps_def)
next
  case False
  then show ?thesis by (simp add: fs_key_def foldl_path_Clean_relative)
qed

lemma fs_key_append_slash:
  "d \<noteq> '''' \<Longrightarrow> fs_key s (d @ slash # t) = rev (foldl (clean_step True) (rev (fs_key s d)) (splitOn slash t))"
proof -
  assume "d \<noteq> []"
  then have "hasPrefix (d @ slash # t) ''/'' \<longleftrightarrow> hasPrefix d ''/''" by (cases d) simp_all
  then show ?thesis by (simp only: fs_key_def splitOn_append foldl_append rev_rev_ident)
qed

lemma fs_key_Join2: "d \<noteq> '''' \<Longrightarrow> plain_comp n \<Longrightarrow> fs_key s (path_Join [d, n]) = fs_key s d @ [n]"
proof -
  assume d: "d \<noteq> ''''" and n: "plain_comp n"
  then have "splitOn slash n = [n]" by (intro splitOn_no_sep) (simp add: plain_comp_def)
  with d n show ?thesis by (simp add: path_Join_def fs_key_append_slash)
qed

lemma fs_key_Join:
  "d \<noteq> '''' \<Longrightarrow> list_all plain_comp ns \<Longrightarrow> fs_key s (path_Join (d # ns)) = fs_key s d @ ns"
proof (cases "ns = []")
  case False
  assume d: "d \<noteq> ''''" and ns: "list_all plain_comp ns"
  have "fs_key s (path_Join (d # ns)) = rev (foldl (clean_step True) (rev (fs_key s d)) ns)"
    using d False ns by (simp add: path_Join_def joinWith_Cons fs_key_append_slash splitOn_slash_plain)
  then show ?thesis using ns by (simp add: foldl_clean_plain)
qed (simp add: path_Join_def)

lemma fs_key_plain_cwd:
  "list_all plain_comp (cwd s) \<Longrightarrow> list_all plain_comp (fs_key s p)"
  using foldl_clean_rooted_plain [of "rev (cwd s)" "splitOn slash p"]
    foldl_clean_rooted_plain [of "[]" "splitOn slash p"] splitOn_no_slash [of slash p]
  by (auto simp: fs_key_def list_all_iff)

section \<open>Fresh names\<close>

lemma fold_max_ge: "x \<in> set xs \<or> x \<le> a \<Longrightarrow> x \<le> fold max xs (a::nat)"
proof (induction xs arbitrary: a)
  case (Cons y ys)
  from Cons.prems have "x \<in> set ys \<or> x \<le> max y a" by auto
  then show ?case using Cons.IH [of "max y a"] by simp
qed simp

lemma fresh_name_fresh: "fresh_name pat names \<notin> set names"
proof
  assume "fresh_name pat names \<in> set names"
  then have "length (fresh_name pat names) \<le> fold max (map length names) 0"
    by (intro fold_max_ge) auto
  then show False by (simp add: fresh_name_def)
qed

lemma fresh_name_plain: "pat = ''.'' \<Longrightarrow> plain_comp (fresh_name pat names)"
  by (auto simp: fresh_name_def plain_comp_def)

lemma fresh_name_prefix: "hasPrefix (fresh_name pat names) pat"
  by (simp add: fresh_name_def)

lemma node_child: "fs_node s (k @ [n]) = Some x \<Longrightarrow> n \<in> set (children s k)"
proof -
  assume "fs_node s (k @ [n]) = Some x"
  then have "k @ [n] \<in> fst ` set (entries s)"
    by (force simp: fs_node_def dest: map_of_SomeD)
  then show ?thesis by (force simp: children_def)
qed

lemma node_fresh [simp]: "fs_node s (k @ [fresh_name pat (children s k)]) = None"
  using node_child [of s k "fresh_name pat (children s k)"] fresh_name_fresh [of pat "children s k"]
  by (cases "fs_node s (k @ [fresh_name pat (children s k)])") auto

section \<open>Well-formed file systems\<close>

text \<open>
  The root is a directory and every entry lies in a directory. Every call keeps this.
\<close>

definition fs_wf :: "fs \<Rightarrow> bool" where
  "fs_wf s \<longleftrightarrow> is_dir (fs_node s []) \<and> (\<forall>k n. fs_node s (k @ [n]) \<noteq> None \<longrightarrow> is_dir (fs_node s k))"

lemma is_dir_simps [simp]:
  "is_dir (Some (NDir m))" "\<not> is_dir (Some (NFile d m))" "\<not> is_dir None"
  by (simp_all add: is_dir_def)

lemma fs_wf_parent: "fs_wf s \<Longrightarrow> fs_node s k = Some x \<Longrightarrow> k \<noteq> [] \<Longrightarrow> is_dir (fs_node s (butlast k))"
  by (metis append_butlast_last_id fs_wf_def option.distinct(1))

lemma fs_wf_put_file:
  assumes wf: "fs_wf s" and k: "k \<noteq> []" and nd: "\<not> is_dir (fs_node s k)" and par: "is_dir (fs_node s (butlast k))"
  shows "fs_wf (fs_put s k n)"
  using assms by (auto simp: fs_wf_def)

lemma fs_wf_put_dir:
  assumes wf: "fs_wf s" and k: "k \<noteq> []" and par: "is_dir (fs_node s (butlast k))"
  shows "fs_wf (fs_put s k (NDir m))"
  using assms by (auto simp: fs_wf_def)

lemma fs_wf_del:
  assumes wf: "fs_wf s" and k: "k \<noteq> []" and leaf: "children s k = []"
  shows "fs_wf (fs_del s k)"
  using assms node_child [of s k] by (fastforce simp: fs_wf_def)

lemma file_no_children: "fs_wf s \<Longrightarrow> fs_node s k = Some (NFile d m) \<Longrightarrow> children s k = []"
proof (rule ccontr)
  assume wf: "fs_wf s" and f: "fs_node s k = Some (NFile d m)" and "children s k \<noteq> []"
  then obtain k' v where "(k', v) \<in> set (entries s)" "k' \<noteq> []" "butlast k' = k"
    by (auto simp: children_def filter_empty_conv)
  then have "fs_node s (k @ [last k']) \<noteq> None"
    by (metis append_butlast_last_id fs_node_def map_of_eq_None_iff fst_conv image_eqI)
  with wf have "is_dir (fs_node s k)" by (auto simp: fs_wf_def)
  with f show False by simp
qed

lemma node_not_root: "fs_wf s \<Longrightarrow> fs_node s k = Some (NFile d m) \<Longrightarrow> k \<noteq> []"
  by (auto simp: fs_wf_def)

lemma parent_error_None: "parent_error s p k = None \<longleftrightarrow> is_dir (fs_node s (butlast k))"
  by (auto simp: parent_error_def is_dir_def split: option.splits node.splits)

lemma fs_wf_replace_file:
  "fs_wf s \<Longrightarrow> fs_node s k = Some (NFile d m) \<Longrightarrow> fs_wf (fs_put s k n)"
  by (rule fs_wf_put_file) (auto simp: node_not_root dest: fs_wf_parent node_not_root)

section \<open>Absolute paths and made directories\<close>

lemma fs_key_abs:
  "cs \<noteq> [] \<Longrightarrow> list_all plain_comp cs \<Longrightarrow> fs_key s (slash # joinWith slash cs) = cs"
  by (simp add: fs_key_def splitOn_slash_plain foldl_clean_plain)

lemma mkdirs_keeps: "fs_node s k = Some x \<Longrightarrow> fs_node (fst (mkdirs mode s ks)) k = Some x"
proof (induction ks arbitrary: s)
  case (Cons l ks)
  then have "fs_node (fs_put s l (new_dir mode)) k = Some x" if "fs_node s l = None"
    using that by auto
  with Cons show ?case by (auto split: option.splits node.splits)
qed simp

lemma mkdirs_new:
  "fs_node (fst (mkdirs mode s ks)) k = fs_node s k
   \<or> k \<in> set ks \<and> fs_node (fst (mkdirs mode s ks)) k = Some (new_dir mode)"
proof (induction ks arbitrary: s)
  case (Cons l ks)
  show ?case
    using Cons.IH [of s] Cons.IH [of "fs_put s l (new_dir mode)"] mkdirs_keeps [of "fs_put s l (new_dir mode)" l _ mode ks]
    by (auto split: option.splits node.splits if_splits)
qed simp

lemma mkdirs_content: "content (fst (mkdirs mode s ks)) k = content s k"
proof (cases "fs_node s k")
  case None
  then show ?thesis using mkdirs_new [of mode s ks k] by (auto simp: content_def new_dir_def)
next
  case (Some x)
  then show ?thesis using mkdirs_keeps [of s k x mode ks] by (simp add: content_def)
qed

lemma os_MkdirAll_keeps: "fs_node s k = Some x \<Longrightarrow> fs_node (fst (os_MkdirAll s p mode)) k = Some x"
  by (simp add: os_MkdirAll_def mkdirs_keeps)

lemma os_MkdirAll_content: "content (fst (os_MkdirAll s p mode)) k = content s k"
  by (simp add: os_MkdirAll_def mkdirs_content)

lemma change_meta_frame: "k \<noteq> fs_key s p \<Longrightarrow> fs_node (fst (change_meta opr f s p)) k = fs_node s k"
  by (auto simp: change_meta_def Let_def split: option.splits)

lemma change_meta_content: "content (fst (change_meta opr f s p)) k = content s k"
  by (auto simp: change_meta_def content_def Let_def set_meta_def split: option.splits node.splits)

lemma path_Dir_abs:
  assumes "bs \<noteq> []" "list_all plain_comp bs" "plain_comp n"
  shows "path_Dir (slash # joinWith slash (bs @ [n])) = slash # joinWith slash bs"
proof -
  have "slash \<notin> set n" using assms by (simp add: plain_comp_def)
  then have "path_Split ((slash # joinWith slash bs) @ slash # n) = ((slash # joinWith slash bs) @ ''/'', n)"
    by (rule path_Split_slash)
  then have "path_Dir (slash # joinWith slash (bs @ [n])) = path_Clean (slash # joinWith slash bs @ ''/'')"
    using assms by (simp add: path_Dir_def joinWith_append)
  also have "\<dots> = slash # joinWith slash bs"
  proof (rule path_Clean_plain [where xs = "bs @ [[]]"])
    show "clean_comps True (bs @ [[]]) = bs" using assms by (simp add: clean_comps_def foldl_clean_plain)
    show "splitOn slash (slash # joinWith slash bs @ ''/'') = [] # bs @ [[]]"
      using assms splitOn_append [of slash "joinWith slash bs" "[]"] by (simp add: splitOn_slash_plain)
  qed (use assms in simp_all)
  finally show ?thesis .
qed

lemma path_Base_abs:
  assumes "bs \<noteq> []" "plain_comp n"
  shows "path_Base (slash # joinWith slash (bs @ [n])) = n"
proof -
  have n: "slash \<notin> set n" "n \<noteq> []" using assms by (simp_all add: plain_comp_def)
  have "dropWhile (\<lambda>c. c = slash) (rev ((slash # joinWith slash bs) @ slash # n))
      = rev ((slash # joinWith slash bs) @ slash # n)"
    using n by (cases n rule: rev_cases) auto
  moreover have "path_Split ((slash # joinWith slash bs) @ slash # n) = ((slash # joinWith slash bs) @ ''/'', n)"
    using n(1) by (rule path_Split_slash)
  ultimately show ?thesis using assms n by (simp add: path_Base_def joinWith_append)
qed

text \<open>Every name in the file system is a plain path element.\<close>

definition names_ok :: "fs \<Rightarrow> bool" where
  "names_ok s \<longleftrightarrow> (\<forall>k. fs_node s k \<noteq> None \<longrightarrow> list_all plain_comp k)"

lemma child_node: "n \<in> set (children s k) \<Longrightarrow> fs_node s (k @ [n]) \<noteq> None"
proof -
  assume "n \<in> set (children s k)"
  then obtain k' v where "(k', v) \<in> set (entries s)" "k' \<noteq> []" "butlast k' = k" "n = last k'"
    by (auto simp: children_def)
  then have "k @ [n] \<in> fst ` set (entries s)" by (metis append_butlast_last_id fst_conv image_eqI)
  then show ?thesis by (simp add: fs_node_def map_of_eq_None_iff)
qed

lemma children_iff: "n \<in> set (children s k) \<longleftrightarrow> fs_node s (k @ [n]) \<noteq> None"
  using child_node [of n s k] node_child [of s k n] by auto

lemma children_plain: "names_ok s \<Longrightarrow> list_all plain_comp (children s k)"
  by (auto simp: list_all_iff names_ok_def dest!: child_node)

lemma os_Remove_frame: "k \<noteq> fs_key s p \<Longrightarrow> fs_node (fst (os_Remove s p)) k = fs_node s k"
  by (auto simp: os_Remove_def Let_def split: option.splits node.splits)

lemma os_Remove_file:
  "fs_node s (fs_key s p) = Some (NFile d m) \<Longrightarrow> fs_fault s OpRemove (fs_key s p) = None \<Longrightarrow>
   os_Remove s p = (fs_del s (fs_key s p), None)"
  by (simp add: os_Remove_def Let_def)

lemma ioutil_ReadFile_cong:
  "same_env s s' \<Longrightarrow> fs_node s' (fs_key s p) = fs_node s (fs_key s p) \<Longrightarrow> ioutil_ReadFile s' p = ioutil_ReadFile s p"
  using same_env_key [of s s' p] same_env_fault [of s s' OpRead "fs_key s p"]
  by (simp add: ioutil_ReadFile_def Let_def split: option.split)

lemma ioutil_ReadFile_content:
  "fs_fault s OpRead (fs_key s p) = None \<Longrightarrow> content s (fs_key s p) = Some d \<Longrightarrow> ioutil_ReadFile s p = Inr d"
  by (auto simp: ioutil_ReadFile_def content_def Let_def split: option.splits node.splits)

lemma ioutil_ReadFile_Inr: "ioutil_ReadFile s p = Inr d \<Longrightarrow> content s (fs_key s p) = Some d"
  by (auto simp: ioutil_ReadFile_def content_def Let_def split: option.splits node.splits)

lemma mkdirs_succeeds:
  assumes "\<And>opr k. faults s opr k = None" and "list_all (\<lambda>k. fs_node s k = None \<or> is_dir (fs_node s k)) ks"
  shows "snd (mkdirs mode s ks) = None \<and> list_all (\<lambda>k. is_dir (fs_node (fst (mkdirs mode s ks)) k)) ks"
  using assms
proof (induction ks arbitrary: s)
  case (Cons k ks)
  let ?s' = "if fs_node s k = None then fs_put s k (new_dir mode) else s"
  have step: "mkdirs mode s (k # ks) = mkdirs mode ?s' ks"
    using Cons.prems by (auto simp: fs_fault_def is_dir_def split: option.splits node.splits)
  have k: "is_dir (fs_node ?s' k)" using Cons.prems by (auto simp: new_dir_def)
  then obtain x where x: "fs_node ?s' k = Some x" by (cases "fs_node ?s' k") auto
  have "is_dir (fs_node (fst (mkdirs mode ?s' ks)) k)" using mkdirs_keeps [OF x, of mode ks] x k by metis
  moreover have "snd (mkdirs mode ?s' ks) = None \<and> list_all (\<lambda>k. is_dir (fs_node (fst (mkdirs mode ?s' ks)) k)) ks"
    using Cons.prems k by (intro Cons.IH) (auto simp: list_all_iff)
  ultimately show ?case unfolding step by simp
qed simp

lemma distinct_children: "distinct (map fst (entries s)) \<Longrightarrow> distinct (children s k)"
proof -
  assume "distinct (map fst (entries s))"
  then have "distinct (filter (\<lambda>k'. k' \<noteq> [] \<and> butlast k' = k) (map fst (entries s)))" by (rule distinct_filter)
  moreover have "inj_on last (set (filter (\<lambda>k'. k' \<noteq> [] \<and> butlast k' = k) (map fst (entries s))))"
    by (rule inj_onI, unfold set_filter mem_Collect_eq) (metis append_butlast_last_id)
  ultimately show ?thesis unfolding children_def by (simp only: distinct_map)
qed

lemma map_of_filter_key: "map_of (filter (\<lambda>(k, _). P k) m) q = (if P q then map_of m q else None)"
  by (induction m) auto

lemma fs_node_RemoveAll:
  assumes "fs_fault s OpRemove (fs_key s p) = None" "fs_key s p \<noteq> []"
  shows "fs_node (fst (os_RemoveAll s p)) k = (if prefix (fs_key s p) k then None else fs_node s k)"
  using assms by (simp add: os_RemoveAll_def fs_node_def Let_def map_of_filter_key)

section \<open>Opening and writing one file\<close>

lemma os_OpenFile_frame: "k \<noteq> fs_key s p \<Longrightarrow> fs_node (fst (os_OpenFile excl trunc mode s p)) k = fs_node s k"
  by (simp add: os_OpenFile_def Let_def split: option.splits node.splits)

lemma file_Write_frame: "k \<noteq> fs_key s p \<Longrightarrow> fs_node (fst (file_Write s p d)) k = fs_node s k"
  by (simp add: file_Write_def Let_def split: option.splits node.splits)

lemma os_OpenFile_excl:
  obtains (made) "os_OpenFile True trunc mode s p = (fs_put s (fs_key s p) (new_file mode), None)" "fs_node s (fs_key s p) = None"
  | (refused) e where "os_OpenFile True trunc mode s p = (s, Some e)"
proof (cases "snd (os_OpenFile True trunc mode s p)")
  case None
  then show thesis by (intro made) (auto simp: os_OpenFile_def Let_def split: option.splits node.splits)
next
  case (Some e)
  then show thesis by (intro refused) (auto simp: os_OpenFile_def Let_def split: option.splits node.splits)
qed

lemma os_OpenFile_new:
  assumes "snd (os_OpenFile excl trunc mode s p) = None" "fs_node s (fs_key s p) = None"
  shows "os_OpenFile excl trunc mode s p = (fs_put s (fs_key s p) (new_file mode), None)"
  using assms by (auto simp: os_OpenFile_def Let_def split: option.splits)

lemma file_Write_file:
  "fs_node s (fs_key s p) = Some (NFile old m) \<Longrightarrow> \<exists>d'. fs_node (fst (file_Write s p d)) (fs_key s p) = Some (NFile d' m)"
  by (simp add: file_Write_def Let_def split: option.splits)

lemma file_Write_ok:
  "snd (file_Write s p d) = None \<Longrightarrow> fs_node s (fs_key s p) = Some (NFile old m) \<Longrightarrow>
   fs_node (fst (file_Write s p d)) (fs_key s p) = Some (NFile (overwrite_bytes d old) m)"
  by (simp add: file_Write_def Let_def split: option.splits)

lemma os_Mkdir_cases:
  obtains (made) "os_Mkdir s p mode = (fs_put s (fs_key s p) (new_dir mode), None)" "fs_node s (fs_key s p) = None"
  | (kept) e where "os_Mkdir s p mode = (s, Some e)"
  by (cases "fs_node s (fs_key s p)"; cases "fs_fault s OpMkdir (fs_key s p)"; cases "parent_error s p (fs_key s p)")
    (auto simp: os_Mkdir_def Let_def)

end
