(* ===== verification/FileWriters.thy ===== *)
theory FileWriters
  imports FileSystem
begin

text \<open>
  The contract of an operation that sets the content of one file. \<open>framed_writer\<close> says that
  everything else stays, but for new temporary files; \<open>file_writer\<close> adds what a successful
  call leaves in the file; \<open>atomic_writer\<close> adds that a call, failing or not, leaves the old or
  the new content and never a part of it. The providers are \<open>writeAndAtomicRename\<close>, \<open>writeManifestIfDifferent\<close> and
  \<open>ioutil.WriteFile\<close>; the clients store checkpoints, secrets, config maps and assets.
\<close>

text \<open>Names \<open>ioutil.TempFile\<close> makes from the pattern \<open>.\<close>: a dot and digits.\<close>

definition temp_name :: "string \<Rightarrow> bool" where
  "temp_name n \<longleftrightarrow> (case n of c # ds \<Rightarrow> c = CHR ''.'' \<and> list_all (\<lambda>d. d \<in> set ''0123456789'') ds | [] \<Rightarrow> False)"

definition temp_key :: "key \<Rightarrow> bool" where
  "temp_key k \<longleftrightarrow> k \<noteq> [] \<and> temp_name (last k)"

text \<open>The nodes a write may not touch: all but the target and new temporary files.\<close>

definition untouched :: "fs \<Rightarrow> key \<Rightarrow> bool" where
  "untouched s k \<longleftrightarrow> fs_node s k \<noteq> None \<or> \<not> temp_key k"

locale framed_writer =
  fixes wr :: "fs \<Rightarrow> string \<Rightarrow> bytes \<Rightarrow> fs \<times> go_error option"
  assumes wr_env: "same_env s (fst (wr s p d))"
    and wr_frame: "k \<noteq> fs_key s p \<Longrightarrow> untouched s k \<Longrightarrow> fs_node (fst (wr s p d)) k = fs_node s k"
begin

lemma wr_key: "fs_key (fst (wr s p d)) q = fs_key s q"
  by (rule same_env_key [OF wr_env])

lemma wr_untouched: "k \<noteq> fs_key s p \<Longrightarrow> untouched s k \<Longrightarrow> untouched (fst (wr s p d)) k"
  using wr_frame [of k s p d] by (simp add: untouched_def)

end

locale file_writer = framed_writer +
  fixes okmeta :: "meta \<Rightarrow> bool"
  assumes wr_ok: "snd (wr s p d) = None \<Longrightarrow>
     \<exists>m. fs_node (fst (wr s p d)) (fs_key s p) = Some (NFile d m) \<and> okmeta m"
begin

lemma wr_content: "snd (wr s p d) = None \<Longrightarrow> content (fst (wr s p d)) (fs_key s p) = Some d"
  using wr_ok [of s p d] by (auto simp: content_def)

end

locale atomic_writer = framed_writer +
  assumes wr_never_torn: "\<not> temp_key (fs_key s p) \<Longrightarrow>
     content (fst (wr s p d)) (fs_key s p) = content s (fs_key s p) \<or>
     content (fst (wr s p d)) (fs_key s p) = Some d"
begin

text \<open>A non-temporary file has its old content after a write, or it was the target.\<close>

lemma wr_content_cases:
  assumes "\<not> temp_key k"
  shows "content (fst (wr s p d)) k = content s k \<or> (k = fs_key s p \<and> content (fst (wr s p d)) k = Some d)"
  using wr_never_torn [of s p d] wr_frame [of k s p d] assms
  by (cases "k = fs_key s p") (auto simp: content_def untouched_def)

end

section \<open>The library's own writer\<close>

interpretation truncating: file_writer "\<lambda>s p d. ioutil_WriteFile s p d mode" "\<lambda>_. True" for mode
proof
  fix s p d
  show "same_env s (fst (ioutil_WriteFile s p d mode))"
    using os_OpenFile_env [of s False True mode p] file_Write_env [of "fst (os_OpenFile False True mode s p)" p d]
    by (auto simp: ioutil_WriteFile_def split: prod.splits option.splits intro: same_env_trans)
next
  fix k s p d
  assume "k \<noteq> fs_key s p"
  then show "fs_node (fst (ioutil_WriteFile s p d mode)) k = fs_node s k"
    by (auto simp: fs_defs Let_def split: prod.splits option.splits node.splits if_splits)
next
  fix s p d
  assume "snd (ioutil_WriteFile s p d mode) = None"
  then show "\<exists>m. fs_node (fst (ioutil_WriteFile s p d mode)) (fs_key s p) = Some (NFile d m) \<and> True"
    by (auto simp: fs_defs Let_def new_file_def overwrite_bytes_def split: option.splits node.splits if_splits)
qed

section \<open>Temporary names\<close>

lemma temp_name_fresh: "temp_name (fresh_name ''.'' names)"
  by (simp add: fresh_name_def temp_name_def list_all_iff)

lemma temp_key_snoc [simp]: "temp_key (k @ [n]) = temp_name n"
  by (simp add: temp_key_def)

lemma joinWith_not_Nil: "list_all (\<lambda>x. x \<noteq> '''') xs \<Longrightarrow> xs \<noteq> [] \<Longrightarrow> joinWith c xs \<noteq> ''''"
  by (cases "(c, xs)" rule: joinWith.cases) auto

lemma path_Clean_not_Nil [simp]: "path_Clean p \<noteq> ''''"
proof -
  have "list_all (\<lambda>x. x \<noteq> '''') (clean_comps False (splitOn slash p))"
    using clean_comps_split_ok [of False p] by (auto simp: list_all_iff)
  then show ?thesis
    using joinWith_not_Nil [of "clean_comps False (splitOn slash p)"] by (simp add: path_Clean_def Let_def)
qed

lemma path_Dir_not_Nil [simp]: "path_Dir p \<noteq> ''''"
  by (simp add: path_Dir_def)

lemma TempFile_key:
  "d \<noteq> '''' \<Longrightarrow> fs_key s (path_Join [d, fresh_name ''.'' (children s (fs_key s d))])
     = fs_key s d @ [fresh_name ''.'' (children s (fs_key s d))]"
  by (simp add: fs_key_Join2 fresh_name_plain)

text \<open>Making a temporary file changes nothing, or adds one empty file under a new name.\<close>

lemma TempFile_cases:
  assumes "d \<noteq> ''''"
  obtains (fail) e where "ioutil_TempFile s d ''.'' = (s, Inl e)"
  | (ok) t tmp where "ioutil_TempFile s d ''.'' = (fs_put s t (new_file 384), Inr tmp)"
      "fs_key s tmp = t" "temp_key t" "fs_node s t = None"
proof -
  let ?n = "fresh_name ''.'' (children s (fs_key s d))"
  let ?t = "fs_key s d @ [?n]"
  have key: "fs_key s (path_Join [d, ?n]) = ?t" using assms by (rule TempFile_key)
  have temp: "temp_key ?t" by (simp add: temp_name_fresh)
  have openf: "os_OpenFile True False 384 s (path_Join [d, ?n]) =
      (case fs_fault s OpCreate ?t of Some e \<Rightarrow> (s, Some e)
       | None \<Rightarrow> (case parent_error s (path_Join [d, ?n]) ?t of Some e \<Rightarrow> (s, Some e)
                 | None \<Rightarrow> (fs_put s ?t (new_file 384), None)))"
    by (simp add: os_OpenFile_def key Let_def split: option.splits)
  show thesis
  proof (cases "os_OpenFile True False 384 s (path_Join [d, ?n]) = (fs_put s ?t (new_file 384), None)")
    case True
    then show thesis
      using key temp by (intro ok [of ?t "path_Join [d, ?n]"]) (simp_all add: ioutil_TempFile_def)
  next
    case False
    then obtain e where "os_OpenFile True False 384 s (path_Join [d, ?n]) = (s, Some e)"
      by (auto simp: openf split: option.splits)
    then show thesis by (intro fail) (simp add: ioutil_TempFile_def)
  qed
qed

end
