(* ===== verification/CheckpointManifest.thy ===== *)
theory CheckpointManifest
  imports CheckpointPod FileWriters
begin

text \<open>
  Checkpoints on disk: \<open>pkg/checkpoint/manifest.go\<close>, and the functions of \<open>secret.go\<close>
  and \<open>config_map.go\<close> that store a pod's remote assets. Operations pass the file system
  along; an error comes with the file system the failing call left behind.

  The pod serializer and decoder of the Kubernetes libraries, and the API server's answers, are
  the parameters \<open>encode\<close>, \<open>decode\<close>, \<open>getSecret\<close> and \<open>getConfigMap\<close>.
\<close>

named_theorems manifest_defs \<open>definitions of the manifest operations\<close>

section \<open>Operations\<close>

definition writeAndAtomicRename ::
  "fs \<Rightarrow> string \<Rightarrow> bytes \<Rightarrow> int \<Rightarrow> int \<Rightarrow> nat \<Rightarrow> fs \<times> go_error option" where
  "writeAndAtomicRename s path data uid gid perm =
     (case ioutil_TempFile s (path_Dir path) ''.'' of
        (s1, Inl e) \<Rightarrow> (s1, Some e)
      | (s1, Inr tmpfile) \<Rightarrow>
        (case file_Write s1 tmpfile data of
           (s2, Some e) \<Rightarrow> (s2, Some e)
         | (s2, None) \<Rightarrow>
           (case os_Chmod s2 tmpfile perm of
              (s3, Some e) \<Rightarrow> (s3, Some e)
            | (s3, None) \<Rightarrow>
              (case file_Close s3 tmpfile of
                 Some e \<Rightarrow> (s3, Some e)
               | None \<Rightarrow>
                 (case os_Rename s3 tmpfile path of
                    (s4, Some e) \<Rightarrow> (s4, Some e)
                  | (s4, None) \<Rightarrow> os_Chown s4 path uid gid)))))"

text \<open>A file that does not exist reads as no bytes, as the nil slice of the code does.\<close>

definition writeManifestIfDifferent ::
  "fs \<Rightarrow> string \<Rightarrow> string \<Rightarrow> bytes \<Rightarrow> fs \<times> bool \<times> go_error option" where
  "writeManifestIfDifferent s path name data =
     (let (existing, err) = (case ioutil_ReadFile s path of Inr d \<Rightarrow> (d, None) | Inl e \<Rightarrow> ([], Some e)) in
      if err \<noteq> None \<and> \<not> os_IsNotExist (the err) then (s, False, err)
      else if existing = data then (s, False, None)
      else let (s', r) = writeAndAtomicRename s path data rootUID rootGID 420 in (s', True, r))"

definition writeCheckpointManifest ::
  "(pod \<Rightarrow> go_error + bytes) \<Rightarrow> fs \<Rightarrow> pod \<Rightarrow> fs \<times> bool \<times> go_error option" where
  "writeCheckpointManifest encode s pod =
     (case encode pod of
        Inl e \<Rightarrow> (s, False, Some e)
      | Inr buff \<Rightarrow>
        (let path = path_Join [inactiveCheckpointPath, pod_Namespace pod @ ''-'' @ pod_Name pod @ ''.json'']
         in writeManifestIfDifferent s path (podFullName pod) buff))"

fun loadCheckpoints ::
  "(bytes \<Rightarrow> go_error + pod) \<Rightarrow> string \<Rightarrow> fs \<Rightarrow> string list \<Rightarrow> podMap \<Rightarrow> fs \<times> podMap" where
  "loadCheckpoints decode path s [] checkpoints = (s, checkpoints)"
| "loadCheckpoints decode path s (f # fi) checkpoints =
     (let manifest = path_Join [path, f] in
      if hasPrefix (path_Base manifest) ''.''
      then loadCheckpoints decode path (fst (os_Remove s manifest)) fi checkpoints
      else
        (case ioutil_ReadFile s manifest of
           Inl _ \<Rightarrow> loadCheckpoints decode path s fi checkpoints
         | Inr b \<Rightarrow>
           (case decode b of
              Inl _ \<Rightarrow> loadCheckpoints decode path s fi checkpoints
            | Inr cp \<Rightarrow>
              (if isCheckpoint cp
               then loadCheckpoints decode path s fi (AList.update (podFullName cp) cp checkpoints)
               else loadCheckpoints decode path s fi checkpoints))))"

text \<open>\<open>glog.Fatalf\<close> ends the process: that is the left result.\<close>

definition getFileCheckpoints ::
  "(bytes \<Rightarrow> go_error + pod) \<Rightarrow> fs \<Rightarrow> string \<Rightarrow> fs \<times> (go_error + podMap)" where
  "getFileCheckpoints decode s path =
     (case ioutil_ReadDir s path of
        Inl e \<Rightarrow> (s, Inl e)
      | Inr fi \<Rightarrow> (let (s', cps) = loadCheckpoints decode path s fi [] in (s', Inr cps)))"

text \<open>
  The loop both asset functions share, \<open>for f, d := range data\<close>: it writes every file below
  the base path and stops at the first failure.
\<close>

fun storeFiles ::
  "(fs \<Rightarrow> string \<Rightarrow> bytes \<Rightarrow> fs \<times> go_error option) \<Rightarrow> string \<Rightarrow> fs \<Rightarrow> (string \<times> bytes) list \<Rightarrow> fs \<times> go_error option" where
  "storeFiles wr basePath s [] = (s, None)"
| "storeFiles wr basePath s ((f, d) # data) =
     (case wr s (path_Join [basePath, f]) d of
        (s', Some e) \<Rightarrow> (s', Some e)
      | (s', None) \<Rightarrow> storeFiles wr basePath s' data)"

text \<open>A secret or config map as the API server returns it: its name and its data.\<close>

record dataObject =
  do_Name :: string
  do_Data :: "(string \<times> bytes) list"

type_synonym objectGetter = "string \<Rightarrow> string \<Rightarrow> go_error + dataObject"

definition checkpointSecret ::
  "objectGetter \<Rightarrow> fs \<Rightarrow> string \<Rightarrow> string \<Rightarrow> string \<Rightarrow> int \<Rightarrow> int \<Rightarrow> fs \<times> (go_error + string)" where
  [manifest_defs]: "checkpointSecret getSecret s namespace podName secretName uid gid =
     (case getSecret namespace secretName of
        Inl e \<Rightarrow> (s, Inl (Errorf ''failed to retrieve secret'' e))
      | Inr secret \<Rightarrow>
        (let basePath = secretPath namespace podName secretName in
         case os_MkdirAll s basePath 448 of
           (s1, Some e) \<Rightarrow> (s1, Inl (Errorf ''failed to create secret checkpoint path'' e))
         | (s1, None) \<Rightarrow>
           (case os_Chown s1 basePath uid gid of
              (s2, Some e) \<Rightarrow> (s2, Inl (Errorf ''failed to chown secret checkpoint path'' e))
            | (s2, None) \<Rightarrow>
              (case storeFiles (\<lambda>s p d. writeAndAtomicRename s p d uid gid 384) basePath s2 (do_Data secret) of
                 (s3, Some e) \<Rightarrow> (s3, Inl (Errorf ''failed to write secret'' e))
               | (s3, None) \<Rightarrow> (s3, Inr basePath)))))"

definition checkpointConfigMap ::
  "objectGetter \<Rightarrow> fs \<Rightarrow> string \<Rightarrow> string \<Rightarrow> string \<Rightarrow> int \<Rightarrow> int \<Rightarrow> fs \<times> (go_error + string)" where
  [manifest_defs]: "checkpointConfigMap getConfigMap s namespace podName configMapName uid gid =
     (case getConfigMap namespace configMapName of
        Inl e \<Rightarrow> (s, Inl (Errorf ''failed to retrieve configMap'' e))
      | Inr configMap \<Rightarrow>
        (let basePath = configMapPath namespace podName configMapName in
         case os_MkdirAll s basePath 448 of
           (s1, Some e) \<Rightarrow> (s1, Inl (Errorf ''failed to create configMap checkpoint path'' e))
         | (s1, None) \<Rightarrow>
           (case os_Chown s1 basePath uid gid of
              (s2, Some e) \<Rightarrow> (s2, Inl (Errorf ''failed to chown configMap checkpoint path'' e))
            | (s2, None) \<Rightarrow>
              (case storeFiles (\<lambda>s p d. writeAndAtomicRename s p d uid gid 384) basePath s2 (do_Data configMap) of
                 (s3, Some e) \<Rightarrow> (s3, Inl (Errorf ''failed to write configMap'' e))
               | (s3, None) \<Rightarrow> (s3, Inr basePath)))))"

text \<open>
  The loop over a pod's volumes; \<open>ref\<close> selects the secret or the config map of a volume and
  \<open>store\<close> stores it.
\<close>

fun storeVolumes ::
  "(volume \<Rightarrow> volumeRef option) \<Rightarrow> (fs \<Rightarrow> string \<Rightarrow> fs \<times> (go_error + string)) \<Rightarrow> string \<Rightarrow>
   fs \<Rightarrow> volume list \<Rightarrow> fs \<times> go_error option" where
  "storeVolumes ref store msg s [] = (s, None)"
| "storeVolumes ref store msg s (v # vs) =
     (case ref v of
        None \<Rightarrow> storeVolumes ref store msg s vs
      | Some r \<Rightarrow>
        (case store s (vr_Name r) of
           (s', Inl e) \<Rightarrow> (s', Some (Errorf msg e))
         | (s', Inr _) \<Rightarrow> storeVolumes ref store msg s' vs))"

definition checkpointSecretVolumes :: "objectGetter \<Rightarrow> fs \<Rightarrow> pod \<Rightarrow> fs \<times> (go_error + pod)" where
  "checkpointSecretVolumes getSecret s pod =
     (let msg = ''failed to checkpoint secret for pod '' @ podFullName pod in
      case podUserAndGroup pod of
        Inl e \<Rightarrow> (s, Inl (Errorf msg e))
      | Inr (uid, gid) \<Rightarrow>
        (case storeVolumes v_Secret
                (\<lambda>s n. checkpointSecret getSecret s (pod_Namespace pod) (pod_Name pod) n uid gid)
                msg s (sp_Volumes (p_Spec pod)) of
           (s', Some e) \<Rightarrow> (s', Inl e)
         | (s', None) \<Rightarrow> (s', Inr pod)))"

definition checkpointConfigMapVolumes :: "objectGetter \<Rightarrow> fs \<Rightarrow> pod \<Rightarrow> fs \<times> (go_error + pod)" where
  "checkpointConfigMapVolumes getConfigMap s pod =
     (let msg = ''failed to checkpoint configMap for pod '' @ podFullName pod in
      case podUserAndGroup pod of
        Inl e \<Rightarrow> (s, Inl (Errorf msg e))
      | Inr (uid, gid) \<Rightarrow>
        (case storeVolumes v_ConfigMap
                (\<lambda>s n. checkpointConfigMap getConfigMap s (pod_Namespace pod) (pod_Name pod) n uid gid)
                msg s (sp_Volumes (p_Spec pod)) of
           (s', Some e) \<Rightarrow> (s', Inl e)
         | (s', None) \<Rightarrow> (s', Inr pod)))"

section \<open>Atomic replacement\<close>

text \<open>
  The two shapes a call of \<open>writeAndAtomicRename\<close> can have: it stops before the rename, with
  at most a new temporary file left behind, or it renames, and then the whole data is in place.
\<close>

lemma writeAndAtomicRename_cases:
  fixes s path data uid gid perm
  defines "r \<equiv> writeAndAtomicRename s path data uid gid perm"
  obtains (before) t where "snd r \<noteq> None" "temp_key t" "fs_node s t = None"
      "\<And>q. q \<noteq> t \<Longrightarrow> fs_node (fst r) q = fs_node s q" "same_env s (fst r)"
  | (renamed) m where "snd r = None \<Longrightarrow> m = \<lparr>n_mode = perm, n_uid = uid, n_gid = gid\<rparr>"
      "\<And>q. fs_node (fst r) q = (if q = fs_key s path then Some (NFile data m) else fs_node s q)"
      "same_env s (fst r)"
proof (cases rule: TempFile_cases [OF path_Dir_not_Nil [of path], of s, case_names fail ok])
  case (fail e)
  then show ?thesis
    by (intro before [of "fs_key s (path_Dir path) @ [fresh_name ''.'' (children s (fs_key s (path_Dir path)))]"])
      (simp_all add: r_def writeAndAtomicRename_def temp_name_fresh)
next
  case (ok t tmp)
  let ?s1 = "fs_put s t (new_file 384)"
  let ?s2 = "fs_put ?s1 t (NFile data \<lparr>n_mode = 384, n_uid = 0, n_gid = 0\<rparr>)"
  let ?s3 = "fs_put ?s2 t (NFile data \<lparr>n_mode = perm, n_uid = 0, n_gid = 0\<rparr>)"
  have stop: ?thesis if "snd r \<noteq> None" "\<And>q. q \<noteq> t \<Longrightarrow> fs_node (fst r) q = fs_node s q" "same_env s (fst r)"
    using that ok by (intro before [of t]) simp_all
  show ?thesis
  proof (cases "fs_fault s OpWrite t")
    case (Some e)
    then show ?thesis
      by (intro stop) (simp_all add: r_def writeAndAtomicRename_def ok file_Write_def new_file_def)
  next
    case None
    then have w: "file_Write ?s1 tmp data = (?s2, None)"
      by (simp add: file_Write_def ok new_file_def overwrite_bytes_def)
    show ?thesis
    proof (cases "os_Chmod ?s2 tmp perm = (?s3, None) \<and> file_Close ?s3 tmp = None")
      case False
      then show ?thesis
        by (intro stop) (auto simp: r_def writeAndAtomicRename_def ok w os_Chmod_def change_meta_def set_meta_def
            split: option.splits)
    next
      case True
      then have r: "r = (case os_Rename ?s3 tmp path of (s4, Some e) \<Rightarrow> (s4, Some e)
          | (s4, None) \<Rightarrow> os_Chown s4 path uid gid)"
        by (simp add: r_def writeAndAtomicRename_def ok w)
      show ?thesis
      proof (cases "snd (os_Rename ?s3 tmp path)")
        case (Some e)
        then have "os_Rename ?s3 tmp path = (?s3, Some e)"
          by (auto simp: os_Rename_def ok Let_def split: option.splits if_splits)
        then show ?thesis by (intro stop) (simp_all add: r)
      next
        case None
        then have "os_Rename ?s3 tmp path =
            (if t = fs_key s path then ?s3
             else fs_put (fs_del ?s3 t) (fs_key s path) (NFile data \<lparr>n_mode = perm, n_uid = 0, n_gid = 0\<rparr>), None)"
          by (auto simp: os_Rename_def ok Let_def split: option.splits if_splits)
        with ok show ?thesis
          by (intro renamed [of "if snd r = None then \<lparr>n_mode = perm, n_uid = uid, n_gid = gid\<rparr>
                else \<lparr>n_mode = perm, n_uid = 0, n_gid = 0\<rparr>"])
            (auto simp: r os_Chown_def change_meta_def set_meta_def Let_def split: option.splits if_splits)
      qed
    qed
  qed
qed

lemma writeAndAtomicRename_frame:
  assumes "k \<noteq> fs_key s p" "untouched s k"
  shows "fs_node (fst (writeAndAtomicRename s p d uid gid perm)) k = fs_node s k"
proof (cases rule: writeAndAtomicRename_cases [of s p d uid gid perm, case_names before renamed])
  case (before t)
  with assms show ?thesis by (cases "k = t") (auto simp: untouched_def)
qed (use assms in simp)

interpretation stored: file_writer "\<lambda>s p d. writeAndAtomicRename s p d uid gid perm"
  "\<lambda>m. m = \<lparr>n_mode = perm, n_uid = uid, n_gid = gid\<rparr>" for uid gid perm
proof
  fix s p d
  show "same_env s (fst (writeAndAtomicRename s p d uid gid perm))"
    by (cases rule: writeAndAtomicRename_cases [of s p d uid gid perm])
next
  fix s p d
  assume "snd (writeAndAtomicRename s p d uid gid perm) = None"
  then show "\<exists>m. fs_node (fst (writeAndAtomicRename s p d uid gid perm)) (fs_key s p) = Some (NFile d m)
      \<and> m = \<lparr>n_mode = perm, n_uid = uid, n_gid = gid\<rparr>"
    by (cases rule: writeAndAtomicRename_cases [of s p d uid gid perm]) auto
qed (rule writeAndAtomicRename_frame)

interpretation replaced: atomic_writer "\<lambda>s p d. writeAndAtomicRename s p d uid gid perm" for uid gid perm
proof
  fix s p d
  assume "\<not> temp_key (fs_key s p)"
  then show "content (fst (writeAndAtomicRename s p d uid gid perm)) (fs_key s p) = content s (fs_key s p) \<or>
      content (fst (writeAndAtomicRename s p d uid gid perm)) (fs_key s p) = Some d"
  proof (cases rule: writeAndAtomicRename_cases [of s p d uid gid perm, case_names before renamed])
    case (before t)
    with \<open>\<not> temp_key (fs_key s p)\<close> show ?thesis by (cases "fs_key s p = t") (auto simp: content_def)
  qed (auto simp: content_def)
qed

text \<open>
  Writing a manifest only when it differs has three outcomes; an empty file is not told apart
  from a missing one.
\<close>

lemma writeManifestIfDifferent_cases:
  obtains (unread) e where "ioutil_ReadFile s p = Inl e" "\<not> os_IsNotExist e"
      "writeManifestIfDifferent s p name d = (s, False, Some e)"
  | (same) "content s (fs_key s p) = Some d \<or> d = []"
      "writeManifestIfDifferent s p name d = (s, False, None)"
  | (differs) "content s (fs_key s p) \<noteq> Some d"
      "writeManifestIfDifferent s p name d =
         (fst (writeAndAtomicRename s p d rootUID rootGID 420), True,
          snd (writeAndAtomicRename s p d rootUID rootGID 420))"
proof (cases "ioutil_ReadFile s p")
  case (Inl e)
  have missing: "content s (fs_key s p) = None" if "os_IsNotExist e"
    using Inl that
    by (auto simp: ioutil_ReadFile_def content_def Let_def split: option.splits node.splits dest: fs_fault_class)
  show thesis
  proof (cases "os_IsNotExist e")
    case True
    with Inl missing show thesis
      by (cases "d = []") (auto simp: writeManifestIfDifferent_def case_prod_beta intro: same differs)
  next
    case False
    with Inl show thesis by (intro unread) (simp_all add: writeManifestIfDifferent_def)
  qed
next
  case (Inr b)
  then have "content s (fs_key s p) = Some b"
    by (auto simp: ioutil_ReadFile_def content_def Let_def split: option.splits node.splits)
  with Inr show thesis
    by (cases "b = d") (auto simp: writeManifestIfDifferent_def case_prod_beta intro: same differs)
qed

definition writeManifest :: "fs \<Rightarrow> string \<Rightarrow> bytes \<Rightarrow> fs \<times> go_error option" where
  "writeManifest s p d = (let (s', _, r) = writeManifestIfDifferent s p '''' d in (s', r))"

lemma writeManifestIfDifferent_name:
  "writeManifestIfDifferent s p name d = writeManifestIfDifferent s p '''' d"
  by (simp add: writeManifestIfDifferent_def)

lemma fst_writeManifestIfDifferent:
  "fst (writeManifestIfDifferent s p name d) = fst (writeManifest s p d)"
  "snd (snd (writeManifestIfDifferent s p name d)) = snd (writeManifest s p d)"
  by (simp_all add: writeManifest_def case_prod_beta writeManifestIfDifferent_name [of s p name d])

interpretation manifest: atomic_writer writeManifest
proof
  fix s p d
  show "same_env s (fst (writeManifest s p d))"
    by (cases rule: writeManifestIfDifferent_cases [of s p "''''" d])
      (auto simp: writeManifest_def stored.wr_env)
next
  fix k s p d
  assume "k \<noteq> fs_key s p" "untouched s k"
  then show "fs_node (fst (writeManifest s p d)) k = fs_node s k"
    by (cases rule: writeManifestIfDifferent_cases [of s p "''''" d])
      (auto simp: writeManifest_def writeAndAtomicRename_frame)
next
  fix s p d
  assume "\<not> temp_key (fs_key s p)"
  then show "content (fst (writeManifest s p d)) (fs_key s p) = content s (fs_key s p) \<or>
      content (fst (writeManifest s p d)) (fs_key s p) = Some d"
    using replaced.wr_never_torn [of s p d rootUID rootGID 420]
    by (cases rule: writeManifestIfDifferent_cases [of s p "''''" d]) (auto simp: writeManifest_def)
qed

lemma writeManifest_ok:
  assumes "snd (writeManifest s p d) = None" and "d \<noteq> []"
  shows "content (fst (writeManifest s p d)) (fs_key s p) = Some d"
  using assms stored.wr_content [of s p d rootUID rootGID 420]
  by (cases rule: writeManifestIfDifferent_cases [of s p "''''" d]) (auto simp: writeManifest_def)

section \<open>Storing the files of one object\<close>

context framed_writer
begin

lemma storeFiles_env: "same_env s (fst (storeFiles wr b s data))"
proof (induction data arbitrary: s)
  case (Cons fd data)
  show ?case
  proof (cases "wr s (path_Join [b, fst fd]) (snd fd)")
    case (Pair s' r)
    then have "same_env s s'" using wr_env [of s "path_Join [b, fst fd]" "snd fd"] by simp
    with Pair Cons.IH [of s'] show ?thesis
      by (cases fd) (auto split: option.splits intro: same_env_trans)
  qed
qed simp

lemma storeFiles_frame:
  assumes "b \<noteq> ''''" "list_all (\<lambda>(f, d). plain_comp f) data"
    and "\<And>f. f \<in> set (map fst data) \<Longrightarrow> k \<noteq> fs_key s b @ [f]" and "untouched s k"
  shows "fs_node (fst (storeFiles wr b s data)) k = fs_node s k"
  using assms
proof (induction data arbitrary: s)
  case (Cons fd data)
  obtain f d where fd [simp]: "fd = (f, d)" by (cases fd)
  obtain s' r where w: "wr s (path_Join [b, f]) d = (s', r)" by (cases "wr s (path_Join [b, f]) d")
  have key: "k \<noteq> fs_key s (path_Join [b, f])" using Cons.prems by (simp add: fs_key_Join2)
  have same: "fs_node s' k = fs_node s k" and un: "untouched s' k"
    using wr_frame [OF key Cons.prems(4), of d] wr_untouched [OF key Cons.prems(4), of d] w by simp_all
  have kb: "fs_key s' b = fs_key s b" using wr_key [of s "path_Join [b, f]" d b] w by simp
  have "fs_node (fst (storeFiles wr b s' data)) k = fs_node s' k"
    using Cons.prems un kb by (intro Cons.IH) simp_all
  then show ?case using w same by (simp split: option.splits)
qed simp

end

context file_writer
begin

lemma storeFiles_ok:
  assumes "b \<noteq> ''''" "list_all (\<lambda>(f, d). plain_comp f) data" "distinct (map fst data)"
    and "snd (storeFiles wr b s data) = None" and "(f, d) \<in> set data"
  shows "\<exists>m. fs_node (fst (storeFiles wr b s data)) (fs_key s b @ [f]) = Some (NFile d m) \<and> okmeta m"
  using assms
proof (induction data arbitrary: s)
  case (Cons fd data)
  obtain f' d' where fd [simp]: "fd = (f', d')" by (cases fd)
  from Cons.prems(4) obtain s' where w: "wr s (path_Join [b, f']) d' = (s', None)"
    and rest: "snd (storeFiles wr b s' data) = None"
    by (auto split: prod.splits option.splits)
  have kb: "fs_key s' b = fs_key s b" using wr_key [of s "path_Join [b, f']" d' b] w by simp
  show ?case
  proof (cases "(f, d) = fd")
    case True
    then obtain m where m: "fs_node s' (fs_key s b @ [f]) = Some (NFile d m)" "okmeta m"
      using wr_ok [of s "path_Join [b, f']" d'] w Cons.prems(1,2) by (auto simp: fs_key_Join2)
    have "fs_node (fst (storeFiles wr b s' data)) (fs_key s b @ [f]) = fs_node s' (fs_key s b @ [f])"
    proof (rule storeFiles_frame)
      show "list_all (\<lambda>(f, d). plain_comp f) data" using Cons.prems(2) by simp
      show "fs_key s b @ [f] \<noteq> fs_key s' b @ [g]" if "g \<in> set (map fst data)" for g
        using that True kb Cons.prems(3) by auto
    qed (use m Cons.prems(1) in \<open>simp_all add: untouched_def\<close>)
    with m w show ?thesis by simp
  next
    case False
    with Cons.prems have "\<exists>m. fs_node (fst (storeFiles wr b s' data)) (fs_key s' b @ [f]) = Some (NFile d m) \<and> okmeta m"
      using rest by (intro Cons.IH) auto
    with w kb show ?thesis by simp
  qed
qed simp

end

section \<open>Storing the objects of a pod\<close>

text \<open>
  What a pod's assets rely on: storing an object under a name establishes its files, and
  storing another object keeps them.
\<close>

locale asset_keeper =
  fixes store :: "fs \<Rightarrow> string \<Rightarrow> fs \<times> (go_error + string)"
    and good :: "fs \<Rightarrow> string \<Rightarrow> bool"
  assumes store_keeps: "store s n = (s', Inr b) \<Longrightarrow> good s m \<Longrightarrow> good s' m"
begin

lemma storeVolumes_keeps:
  "storeVolumes ref store msg s vs = (s', None) \<Longrightarrow> good s m \<Longrightarrow> good s' m"
  by (induction vs arbitrary: s) (auto split: option.splits prod.splits sum.splits intro: store_keeps)

end

locale asset_store = asset_keeper +
  assumes store_good: "store s n = (s', Inr b) \<Longrightarrow> good s' n"
begin

lemma storeVolumes_good:
  "storeVolumes ref store msg s vs = (s', None) \<Longrightarrow> v \<in> set vs \<Longrightarrow> ref v = Some r \<Longrightarrow> good s' (vr_Name r)"
proof (induction vs arbitrary: s)
  case (Cons w vs)
  show ?case
  proof (cases "v = w")
    case True
    with Cons.prems obtain s1 b where st: "store s (vr_Name r) = (s1, Inr b)"
      and rest: "storeVolumes ref store msg s1 vs = (s', None)"
      by (auto split: prod.splits sum.splits)
    show ?thesis using storeVolumes_keeps [OF rest store_good [OF st]] .
  next
    case False
    with Cons show ?thesis by (auto split: option.splits prod.splits sum.splits)
  qed
qed simp

end

text \<open>
  Valid objects, as the API server's validation guarantees them: the object's name and the
  names of its files are plain path elements, and a file name occurs once.
\<close>

definition valid_object :: "string \<Rightarrow> dataObject \<Rightarrow> bool" where
  "valid_object n obj \<longleftrightarrow> plain_comp n \<and> list_all (\<lambda>(f, d). plain_comp f) (do_Data obj)
     \<and> distinct (map fst (do_Data obj))"

definition valid_objects :: "objectGetter \<Rightarrow> bool" where
  "valid_objects get \<longleftrightarrow> (\<forall>ns n obj. get ns n = Inr obj \<longrightarrow> valid_object n obj)"

definition objectStored :: "objectGetter \<Rightarrow> (string \<Rightarrow> string) \<Rightarrow> string \<Rightarrow> int \<Rightarrow> int \<Rightarrow> fs \<Rightarrow> string \<Rightarrow> bool" where
  "objectStored get dir ns uid gid s n \<longleftrightarrow>
     (case get ns n of Inl _ \<Rightarrow> False
      | Inr obj \<Rightarrow> list_all (\<lambda>(f, d). fs_node s (fs_key s (path_Join [dir n, f])) =
          Some (NFile d \<lparr>n_mode = 384, n_uid = uid, n_gid = gid\<rparr>)) (do_Data obj))"

text \<open>Making and chowning the base directory, then writing the files.\<close>

definition storeObject :: "int \<Rightarrow> int \<Rightarrow> string \<Rightarrow> (string \<times> bytes) list \<Rightarrow> fs \<Rightarrow> fs \<Rightarrow> bool" where
  "storeObject uid gid b data s s' \<longleftrightarrow>
     (\<exists>s1 s2. os_MkdirAll s b 448 = (s1, None) \<and> os_Chown s1 b uid gid = (s2, None) \<and>
        storeFiles (\<lambda>s p d. writeAndAtomicRename s p d uid gid 384) b s2 data = (s', None))"

lemma checkpointSecret_stores:
  "checkpointSecret get s ns pn n uid gid = (s', Inr b) \<Longrightarrow>
   \<exists>obj. get ns n = Inr obj \<and> b = secretPath ns pn n \<and> storeObject uid gid b (do_Data obj) s s'"
  by (auto simp: checkpointSecret_def storeObject_def Let_def split: sum.splits prod.splits option.splits)

lemma checkpointConfigMap_stores:
  "checkpointConfigMap get s ns pn n uid gid = (s', Inr b) \<Longrightarrow>
   \<exists>obj. get ns n = Inr obj \<and> b = configMapPath ns pn n \<and> storeObject uid gid b (do_Data obj) s s'"
  by (auto simp: checkpointConfigMap_def storeObject_def Let_def split: sum.splits prod.splits option.splits)

lemma storeObject_key: "storeObject uid gid b data s s' \<Longrightarrow> fs_key s' p = fs_key s p"
proof -
  assume "storeObject uid gid b data s s'"
  then obtain s1 s2 where "os_MkdirAll s b 448 = (s1, None)" "os_Chown s1 b uid gid = (s2, None)"
    and "storeFiles (\<lambda>s p d. writeAndAtomicRename s p d uid gid 384) b s2 data = (s', None)"
    by (auto simp: storeObject_def)
  then have "same_env s s1" "same_env s1 s2" "same_env s2 s'"
    using os_MkdirAll_env [of s b 448] change_meta_env [of s1 OpChown _ b]
      stored.storeFiles_env [where s = s2 and uid = uid and gid = gid and perm = 384 and b = b and data = data]
    by (simp_all add: os_Chown_def) (metis fst_conv)
  then show ?thesis by (simp add: same_env_key)
qed

lemma storeObject_files:
  assumes st: "storeObject uid gid b data s s'" and b: "b \<noteq> ''''"
    and plain: "list_all (\<lambda>(f, d). plain_comp f) data" and dist: "distinct (map fst data)"
  shows "list_all (\<lambda>(f, d). fs_node s' (fs_key s b @ [f]) =
     Some (NFile d \<lparr>n_mode = 384, n_uid = uid, n_gid = gid\<rparr>)) data"
proof -
  from st obtain s1 s2 where st: "os_MkdirAll s b 448 = (s1, None)" "os_Chown s1 b uid gid = (s2, None)"
    and sf: "storeFiles (\<lambda>s p d. writeAndAtomicRename s p d uid gid 384) b s2 data = (s', None)"
    by (auto simp: storeObject_def)
  have "storeObject uid gid b [] s s2" using st by (simp add: storeObject_def)
  then have key: "fs_key s2 b = fs_key s b" by (rule storeObject_key)
  show ?thesis
    using stored.storeFiles_ok [OF b plain dist, where s = s2 and uid = uid and gid = gid and perm = 384] sf key by (fastforce simp: list_all_iff)
qed

lemma storeObject_keeps:
  assumes st: "storeObject uid gid b data s s'" and b: "b \<noteq> ''''"
    and plain: "list_all (\<lambda>(f, d). plain_comp f) data"
    and k: "fs_node s k = Some x" "k \<noteq> fs_key s b" "\<And>f. f \<in> set (map fst data) \<Longrightarrow> k \<noteq> fs_key s b @ [f]"
  shows "fs_node s' k = Some x"
proof -
  from st obtain s1 s2 where st: "os_MkdirAll s b 448 = (s1, None)" "os_Chown s1 b uid gid = (s2, None)"
    and sf: "storeFiles (\<lambda>s p d. writeAndAtomicRename s p d uid gid 384) b s2 data = (s', None)"
    by (auto simp: storeObject_def)
  have key2: "fs_key s2 b = fs_key s b" if "storeObject uid gid b [] s s2" using that by (rule storeObject_key)
  have "fs_node s1 k = Some x" using os_MkdirAll_keeps [OF k(1), of b 448] st(1) by simp
  moreover have "fs_key s1 b = fs_key s b" using os_MkdirAll_env [of s b 448] st(1) by (simp add: same_env_key)
  ultimately have 2: "fs_node s2 k = Some x"
    using change_meta_frame [of k s1 b OpChown] k(2) st(2) by (metis fst_conv os_Chown_def)
  have "fs_node (fst (storeFiles (\<lambda>s p d. writeAndAtomicRename s p d uid gid 384) b s2 data)) k = fs_node s2 k"
    using k(3) b plain 2 key2 st by (intro stored.storeFiles_frame) (auto simp: untouched_def storeObject_def)
  with sf 2 show ?thesis by simp
qed

text \<open>Objects of one pod live in directories below one root, one for each object.\<close>

lemma object_file_key:
  assumes "list_all plain_comp root" "p = slash # joinWith slash (root @ [n])" "plain_comp n" "plain_comp f"
  shows "fs_key s p = root @ [n]" "fs_key s (path_Join [p, f]) = root @ [n, f]" "p \<noteq> ''''"
  using assms fs_key_abs [of "root @ [n]" s] by (simp_all add: fs_key_Join2)

lemma storeObject_objectStored:
  assumes dir: "\<And>n. plain_comp n \<Longrightarrow> dir n = slash # joinWith slash (root @ [n])" and root: "list_all plain_comp root"
    and valid: "valid_objects get" and obj: "get ns n = Inr obj" and st: "storeObject uid gid (dir n) (do_Data obj) s s'"
  shows "objectStored get dir ns uid gid s' n"
proof -
  have v: "valid_object n obj" using valid obj by (auto simp: valid_objects_def)
  then have n: "plain_comp n" by (simp add: valid_object_def)
  have "list_all (\<lambda>(f, d). fs_node s' (root @ [n] @ [f]) = Some (NFile d \<lparr>n_mode = 384, n_uid = uid, n_gid = gid\<rparr>)) (do_Data obj)"
    using storeObject_files [OF st] v object_file_key [OF root dir [OF n] n n]
    by (simp add: valid_object_def)
  with v obj show ?thesis
    using object_file_key(2) [OF root dir [OF n] n] by (fastforce simp: objectStored_def list_all_iff valid_object_def)
qed

text \<open>Storing an object below another root of the same depth, or the same one, keeps the files.\<close>

lemma storeObject_keeps_foreign:
  assumes dir: "\<And>n. plain_comp n \<Longrightarrow> dir n = slash # joinWith slash (root @ [n])" and root: "list_all plain_comp root"
    and dir': "\<And>n. plain_comp n \<Longrightarrow> dir' n = slash # joinWith slash (root' @ [n])" and root': "list_all plain_comp root'"
    and len: "length root' = length root" and other: "root' \<noteq> root \<or> n \<noteq> m"
    and valid: "valid_objects get" "valid_objects get'"
    and obj: "get' ns n = Inr obj" and st: "storeObject uid' gid' (dir' n) (do_Data obj) s s'"
    and old: "objectStored get dir ns uid gid s m"
  shows "objectStored get dir ns uid gid s' m"
proof -
  from old obtain objm where objm: "get ns m = Inr objm" by (auto simp: objectStored_def split: sum.splits)
  have v: "valid_object n obj" "valid_object m objm" using valid obj objm by (auto simp: valid_objects_def)
  then have nm: "plain_comp n" "plain_comp m" by (simp_all add: valid_object_def)
  have "fs_node s' (root @ [m, f]) = Some (NFile d \<lparr>n_mode = 384, n_uid = uid, n_gid = gid\<rparr>)"
    if "(f, d) \<in> set (do_Data objm)" for f d
  proof (rule storeObject_keeps [OF st])
    have "plain_comp f" using that v(2) by (auto simp: valid_object_def list_all_iff)
    then show "fs_node s (root @ [m, f]) = Some (NFile d \<lparr>n_mode = 384, n_uid = uid, n_gid = gid\<rparr>)"
      using old that objm object_file_key(2) [OF root dir [OF nm(2)] nm(2)]
      by (auto simp: objectStored_def list_all_iff)
    show "root @ [m, f] \<noteq> fs_key s (dir' n)"
      using len object_file_key(1) [OF root' dir' [OF nm(1)] nm(1) nm(1)]
      by (metis length_append_singleton append_Cons append_Nil append_assoc n_not_Suc_n)
  qed (use other len v nm object_file_key [OF root' dir' [OF nm(1)] nm(1) nm(1)] in \<open>auto simp: valid_object_def\<close>)
  with v(2) objm show ?thesis
    using object_file_key(2) [OF root dir [OF nm(2)] nm(2)]
    by (fastforce simp: objectStored_def list_all_iff valid_object_def)
qed

lemma storeObject_keeps_objectStored:
  assumes dir: "\<And>n. plain_comp n \<Longrightarrow> dir n = slash # joinWith slash (root @ [n])" and root: "list_all plain_comp root"
    and valid: "valid_objects get" and obj: "get ns n = Inr obj" and st: "storeObject uid gid (dir n) (do_Data obj) s s'"
    and old: "objectStored get dir ns uid gid s m"
  shows "objectStored get dir ns uid gid s' m"
proof (cases "m = n")
  case True
  then show ?thesis using storeObject_objectStored [OF dir root valid obj st] by simp
next
  case False
  then show ?thesis
    using storeObject_keeps_foreign [OF dir root dir root refl _ valid valid obj st old] by simp
qed

lemma asset_dirs:
  assumes "plain_comp ns" "plain_comp pn" "plain_comp n"
  shows "secretPath ns pn n = slash # joinWith slash ([''etc'', ''kubernetes'', ''checkpoint-secrets'', ns, pn] @ [n])"
    and "configMapPath ns pn n = slash # joinWith slash ([''etc'', ''kubernetes'', ''checkpoint-configmaps'', ns, pn] @ [n])"
  using asset_paths [OF assms] by simp_all

interpretation secrets: asset_store "\<lambda>s n. checkpointSecret get s ns pn n uid gid"
  "\<lambda>s n. valid_objects get \<and> plain_comp ns \<and> plain_comp pn \<longrightarrow> objectStored get (secretPath ns pn) ns uid gid s n"
  for get ns pn uid gid
proof (standard, goal_cases)
  case (2 s n s' b)
  from checkpointSecret_stores [OF 2] show ?case
    using storeObject_objectStored [of "secretPath ns pn" "[''etc'', ''kubernetes'', ''checkpoint-secrets'', ns, pn]", OF asset_dirs(1)]
    by fastforce
next
  case (1 s n s' b m)
  from checkpointSecret_stores [OF 1(1)] show ?case
    using storeObject_keeps_objectStored [of "secretPath ns pn" "[''etc'', ''kubernetes'', ''checkpoint-secrets'', ns, pn]", OF asset_dirs(1)] 1(2)
    by fastforce
qed

interpretation configMaps: asset_store "\<lambda>s n. checkpointConfigMap get s ns pn n uid gid"
  "\<lambda>s n. valid_objects get \<and> plain_comp ns \<and> plain_comp pn \<longrightarrow> objectStored get (configMapPath ns pn) ns uid gid s n"
  for get ns pn uid gid
proof (standard, goal_cases)
  case (2 s n s' b)
  from checkpointConfigMap_stores [OF 2] show ?case
    using storeObject_objectStored [of "configMapPath ns pn" "[''etc'', ''kubernetes'', ''checkpoint-configmaps'', ns, pn]", OF asset_dirs(2)]
    by fastforce
next
  case (1 s n s' b m)
  from checkpointConfigMap_stores [OF 1(1)] show ?case
    using storeObject_keeps_objectStored [of "configMapPath ns pn" "[''etc'', ''kubernetes'', ''checkpoint-configmaps'', ns, pn]", OF asset_dirs(2)] 1(2)
    by fastforce
qed

interpretation secretsKept: asset_keeper "\<lambda>s n. checkpointConfigMap get' s ns pn n uid gid"
  "\<lambda>s n. valid_objects get \<and> valid_objects get' \<and> plain_comp ns \<and> plain_comp pn \<longrightarrow>
     objectStored get (secretPath ns pn) ns uid gid s n"
  for get get' ns pn uid gid
proof (standard, goal_cases)
  case (1 s n s' b m)
  from checkpointConfigMap_stores [OF 1(1)] show ?case
    using storeObject_keeps_foreign [of "secretPath ns pn" "[''etc'', ''kubernetes'', ''checkpoint-secrets'', ns, pn]"
        "configMapPath ns pn" "[''etc'', ''kubernetes'', ''checkpoint-configmaps'', ns, pn]", OF asset_dirs(1) _ asset_dirs(2)] 1(2)
    by fastforce
qed

section \<open>Loading checkpoints\<close>

text \<open>What one file of a manifest directory contributes.\<close>

definition ckptFile :: "(bytes \<Rightarrow> go_error + pod) \<Rightarrow> fs \<Rightarrow> string \<Rightarrow> string \<Rightarrow> pod option" where
  "ckptFile decode s path f =
     (if hasPrefix f ''.'' then None
      else case ioutil_ReadFile s (path_Join [path, f]) of Inl _ \<Rightarrow> None
           | Inr b \<Rightarrow> (case decode b of Inl _ \<Rightarrow> None | Inr cp \<Rightarrow> if isCheckpoint cp then Some cp else None))"

lemma dir_file:
  assumes "bs \<noteq> []" "list_all plain_comp bs" "plain_comp f"
  shows "path_Join [slash # joinWith slash bs, f] = slash # joinWith slash (bs @ [f])"
    and "path_Base (path_Join [slash # joinWith slash bs, f]) = f"
    and "fs_key s (path_Join [slash # joinWith slash bs, f]) = bs @ [f]"
    and "path_Dir (path_Join [slash # joinWith slash bs, f]) = slash # joinWith slash bs"
  using assms path_Join_plain [of bs "[f]"] path_Base_abs [of bs f] path_Dir_abs [of bs f]
    fs_key_abs [of "bs @ [f]" s]
  by simp_all

lemma ckptFile_cong:
  assumes "bs \<noteq> []" "list_all plain_comp bs" "plain_comp f"
    and "same_env s s'" "\<not> hasPrefix f ''.'' \<Longrightarrow> fs_node s' (bs @ [f]) = fs_node s (bs @ [f])"
  shows "ckptFile decode s' (slash # joinWith slash bs) f = ckptFile decode s (slash # joinWith slash bs) f"
  using assms ioutil_ReadFile_cong [of s s'] dir_file(3) [of bs f s] by (simp add: ckptFile_def)

lemma loadCheckpoints_step:
  assumes "bs \<noteq> []" "list_all plain_comp bs" "plain_comp f"
  shows "loadCheckpoints decode (slash # joinWith slash bs) s (f # fi) acc =
     loadCheckpoints decode (slash # joinWith slash bs)
       (if hasPrefix f ''.'' then fst (os_Remove s (path_Join [slash # joinWith slash bs, f])) else s) fi
       (case ckptFile decode s (slash # joinWith slash bs) f of None \<Rightarrow> acc
        | Some cp \<Rightarrow> AList.update (podFullName cp) cp acc)"
  using dir_file(2) [OF assms] by (simp add: ckptFile_def Let_def split: sum.splits)

declare loadCheckpoints.simps(2) [simp del]

lemma loadCheckpoints_env: "same_env s (fst (loadCheckpoints decode path s fi acc))"
proof (induction fi arbitrary: s acc)
  case (Cons f fi)
  have "same_env s (fst (loadCheckpoints decode path (fst (os_Remove s p)) fi acc'))" for p acc'
    by (rule same_env_trans [OF os_Remove_env Cons.IH])
  with Cons.IH show ?case by (simp add: loadCheckpoints.simps(2) Let_def split: sum.splits)
qed simp

lemma loadCheckpoints_frame:
  assumes "bs \<noteq> []" "list_all plain_comp bs" "list_all plain_comp fi"
    and "\<And>f. f \<in> set fi \<Longrightarrow> hasPrefix f ''.'' \<Longrightarrow> k \<noteq> bs @ [f]"
  shows "fs_node (fst (loadCheckpoints decode (slash # joinWith slash bs) s fi acc)) k = fs_node s k"
  using assms
proof (induction fi arbitrary: s acc)
  case (Cons f fi)
  have f: "plain_comp f" using Cons.prems by simp
  let ?s' = "if hasPrefix f ''.'' then fst (os_Remove s (path_Join [slash # joinWith slash bs, f])) else s"
  have "fs_node ?s' k = fs_node s k"
    using os_Remove_frame [of k s "path_Join [slash # joinWith slash bs, f]"] Cons.prems(4) [of f]
      dir_file(3) [OF Cons.prems(1,2) f] by simp
  then show ?case
    using Cons.IH [of ?s'] Cons.prems by (simp only: loadCheckpoints_step [OF Cons.prems(1,2) f]) simp
qed simp

lemma loadCheckpoints_lookup:
  assumes "bs \<noteq> []" "list_all plain_comp bs" "list_all plain_comp fi"
  shows "map_of (snd (loadCheckpoints decode (slash # joinWith slash bs) s fi acc)) pid =
     (case List.find (\<lambda>cp. podFullName cp = pid)
        (rev (List.map_filter (ckptFile decode s (slash # joinWith slash bs)) fi)) of
        Some cp \<Rightarrow> Some cp | None \<Rightarrow> map_of acc pid)"
  using assms
proof (induction fi arbitrary: s acc)
  case (Cons f fi)
  have f: "plain_comp f" using Cons.prems by simp
  let ?p = "slash # joinWith slash bs"
  let ?s' = "if hasPrefix f ''.'' then fst (os_Remove s (path_Join [?p, f])) else s"
  have "ckptFile decode ?s' ?p g = ckptFile decode s ?p g" if "g \<in> set fi" for g
  proof (rule ckptFile_cong [OF Cons.prems(1,2)])
    show "plain_comp g" using Cons.prems(3) that by (simp add: list_all_iff)
    show "fs_node ?s' (bs @ [g]) = fs_node s (bs @ [g])" if "\<not> hasPrefix g ''.''"
      using that os_Remove_frame [of "bs @ [g]" s "path_Join [?p, f]"] dir_file(3) [OF Cons.prems(1,2) f, of s]
      by (cases "f = g") auto
  qed (use os_Remove_env in simp)
  then have "List.map_filter (ckptFile decode ?s' ?p) fi = List.map_filter (ckptFile decode s ?p) fi"
    by (auto simp: List.map_filter_def intro!: map_cong filter_cong)
  then show ?case
    using Cons.IH [of ?s'] Cons.prems
    by (simp only: loadCheckpoints_step [OF Cons.prems(1,2) f])
      (simp add: map_filter_simps find_append split: option.splits)
qed (simp add: map_filter_simps)

lemma loadCheckpoints_distinct:
  "distinct (map fst acc) \<Longrightarrow> distinct (map fst (snd (loadCheckpoints decode path s fi acc)))"
proof (induction fi arbitrary: s acc)
  case (Cons f fi)
  then show ?case by (auto simp: loadCheckpoints.simps(2) Let_def distinct_update split: sum.splits)
qed simp

lemma loadCheckpoints_removes:
  assumes "bs \<noteq> []" "list_all plain_comp bs" "list_all plain_comp fi" "distinct fi"
    and "f \<in> set fi" "hasPrefix f ''.''" "fs_node s (bs @ [f]) = Some (NFile d m)" "fs_fault s OpRemove (bs @ [f]) = None"
  shows "fs_node (fst (loadCheckpoints decode (slash # joinWith slash bs) s fi acc)) (bs @ [f]) = None"
  using assms
proof (induction fi arbitrary: s acc)
  case (Cons g fi)
  have g: "plain_comp g" using Cons.prems by simp
  let ?p = "slash # joinWith slash bs"
  let ?s' = "if hasPrefix g ''.'' then fst (os_Remove s (path_Join [?p, g])) else s"
  have env: "same_env s ?s'" using os_Remove_env by simp
  show ?case
  proof (cases "f = g")
    case True
    then have "fs_node ?s' (bs @ [f]) = None"
      using Cons.prems os_Remove_file [of s "path_Join [?p, f]"] dir_file(3) [OF Cons.prems(1,2) g] by simp
    moreover have "f \<notin> set fi" using True Cons.prems(4) by simp
    ultimately have "fs_node (fst (loadCheckpoints decode ?p ?s' fi acc')) (bs @ [f]) = None" for acc'
      using loadCheckpoints_frame [OF Cons.prems(1,2), of fi "bs @ [f]" decode ?s' acc'] Cons.prems(3)
      by (metis append1_eq_conv list.pred_inject(2))
    then show ?thesis by (simp only: loadCheckpoints_step [OF Cons.prems(1,2) g])
  next
    case False
    then have "fs_node ?s' (bs @ [f]) = fs_node s (bs @ [f])"
      using os_Remove_frame [of "bs @ [f]" s "path_Join [?p, g]"] dir_file(3) [OF Cons.prems(1,2) g, of s] by simp
    with False Cons.prems Cons.IH [of ?s'] show ?thesis
      using same_env_fault [OF env, of OpRemove "bs @ [f]"]
      by (simp only: loadCheckpoints_step [OF Cons.prems(1,2) g]) auto
  qed
qed simp

section \<open>Successful writes\<close>

lemma writeManifest_success:
  assumes "snd (writeManifest s p d) = None"
  shows "q \<noteq> fs_key s p \<Longrightarrow> fs_node (fst (writeManifest s p d)) q = fs_node s q"
  using assms
proof (cases rule: writeManifestIfDifferent_cases [of s p "''''" d, case_names unread same differs])
  case differs
  assume q: "q \<noteq> fs_key s p"
  show ?thesis
    using assms differs q
    by (cases rule: writeAndAtomicRename_cases [of s p d rootUID rootGID 420]) (auto simp: writeManifest_def)
qed (simp_all add: writeManifest_def)

lemma writeAndAtomicRename_succeeds:
  assumes nofault: "\<And>opr k. faults s opr k = None" and dir: "fs_key s (path_Dir path) = butlast (fs_key s path)"
    and parent: "is_dir (fs_node s (butlast (fs_key s path)))" and target: "\<not> is_dir (fs_node s (fs_key s path))"
    and nonroot: "fs_key s path \<noteq> []"
  shows "snd (writeAndAtomicRename s path data uid gid perm) = None"
proof -
  have f: "fs_fault s opr k = None" for opr k using nofault by (simp add: fs_fault_def)
  let ?n = "fresh_name ''.'' (children s (fs_key s (path_Dir path)))"
  let ?tmp = "path_Join [path_Dir path, ?n]"
  have key: "fs_key s ?tmp = butlast (fs_key s path) @ [?n]" using TempFile_key [of "path_Dir path" s] dir by simp
  have tmp: "ioutil_TempFile s (path_Dir path) ''.'' = (fs_put s (fs_key s ?tmp) (new_file 384), Inr ?tmp)"
    using parent node_fresh [of s "butlast (fs_key s path)" "''.''"] key
    by (simp add: ioutil_TempFile_def os_OpenFile_def Let_def f dir parent_error_def is_dir_def
        split: option.splits node.splits)
  have "fs_key s ?tmp \<noteq> butlast (fs_key s path)" by (simp add: key)
  with target parent nonroot show ?thesis
    by (auto simp: writeAndAtomicRename_def tmp file_Write_def new_file_def os_Chmod_def os_Chown_def change_meta_def
        file_Close_def os_Rename_def set_meta_def overwrite_bytes_def Let_def f
        parent_error_None [THEN iffD2])
qed

lemma writeAndAtomicRename_success_frame:
  "snd (writeAndAtomicRename s p d uid gid perm) = None \<Longrightarrow> q \<noteq> fs_key s p \<Longrightarrow>
   fs_node (fst (writeAndAtomicRename s p d uid gid perm)) q = fs_node s q"
  by (cases rule: writeAndAtomicRename_cases [of s p d uid gid perm]) auto

lemma storeFiles_succeeds:
  assumes "\<And>opr k. faults s opr k = None" "bs \<noteq> []" "list_all plain_comp bs" "is_dir (fs_node s bs)"
    and "list_all (\<lambda>(f, d). plain_comp f) data" "\<And>f. \<not> is_dir (fs_node s (bs @ [f]))"
  shows "snd (storeFiles (\<lambda>s p d. writeAndAtomicRename s p d uid gid perm) (slash # joinWith slash bs) s data) = None"
  using assms
proof (induction data arbitrary: s)
  case (Cons fd data)
  obtain f d where fd [simp]: "fd = (f, d)" by (cases fd)
  have f: "plain_comp f" using Cons.prems(5) by simp
  let ?p = "path_Join [slash # joinWith slash bs, f]"
  let ?w = "writeAndAtomicRename s ?p d uid gid perm"
  note df = dir_file(4) [OF Cons.prems(2,3) f] dir_file(3) [OF Cons.prems(2,3) f, of s]
  have ok: "snd ?w = None"
    using Cons.prems df fs_key_abs [OF Cons.prems(2,3), of s]
    by (intro writeAndAtomicRename_succeeds) simp_all
  have env: "same_env s (fst ?w)" by (rule stored.wr_env)
  have node: "fs_node (fst ?w) q = fs_node s q" if "q \<noteq> bs @ [f]" for q
    using writeAndAtomicRename_success_frame [OF ok] that df by simp
  have "fs_node (fst ?w) (bs @ [f]) = Some (NFile d \<lparr>n_mode = perm, n_uid = uid, n_gid = gid\<rparr>)"
    using stored.wr_ok [OF ok] df by simp
  then have "\<not> is_dir (fs_node (fst ?w) (bs @ [g]))" for g
    using node [of "bs @ [g]"] Cons.prems(6) by (cases "g = f") auto
  then have "snd (storeFiles (\<lambda>s p d. writeAndAtomicRename s p d uid gid perm) (slash # joinWith slash bs) (fst ?w) data) = None"
    using Cons.prems env node [of bs] by (intro Cons.IH) (simp_all add: same_env_def)
  then show ?case using ok by (auto split: prod.splits option.splits)
qed simp

lemma storeObject_succeeds:
  assumes nofault: "\<And>opr k. faults s opr k = None" and bs: "bs \<noteq> []" "list_all plain_comp bs"
    and dirs: "list_all (\<lambda>k. fs_node s k = None \<or> is_dir (fs_node s k)) (prefixes bs)"
    and data: "list_all (\<lambda>(f, d). plain_comp f) data" and files: "\<And>f. \<not> is_dir (fs_node s (bs @ [f]))"
  shows "\<exists>s'. storeObject uid gid (slash # joinWith slash bs) data s s'"
proof -
  let ?b = "slash # joinWith slash bs"
  let ?s1 = "fst (os_MkdirAll s ?b 448)"
  have key: "fs_key s ?b = bs" using bs by (rule fs_key_abs)
  have 1: "snd (os_MkdirAll s ?b 448) = None \<and> is_dir (fs_node ?s1 bs)"
    using mkdirs_succeeds [OF nofault dirs, of 448] by (simp add: os_MkdirAll_def key list_all_iff)
  have env: "same_env s ?s1" by (rule os_MkdirAll_env)
  then have "faults ?s1 = faults s" "fs_key ?s1 ?b = bs" using key by (simp_all add: same_env_def fs_key_def)
  then obtain s2 where 2: "os_Chown ?s1 ?b uid gid = (s2, None)" and d2: "is_dir (fs_node s2 bs)"
    and o2: "\<And>q. q \<noteq> bs \<Longrightarrow> fs_node s2 q = fs_node ?s1 q" and f2: "faults s2 = faults s"
    using 1 nofault
    by (auto simp: os_Chown_def change_meta_def fs_fault_def set_meta_def is_dir_def split: option.splits node.splits)
  have "\<not> is_dir (fs_node s2 (bs @ [f]))" for f
    using o2 [of "bs @ [f]"] files [of f] mkdirs_new [of 448 s "prefixes bs" "bs @ [f]"]
    by (auto simp: os_MkdirAll_def key)
  then have "snd (storeFiles (\<lambda>s p d. writeAndAtomicRename s p d uid gid 384) ?b s2 data) = None"
    using bs data d2 f2 nofault by (intro storeFiles_succeeds) simp_all
  with 1 2 show ?thesis
    unfolding storeObject_def by (metis prod.collapse)
qed

section \<open>Round trip\<close>

text \<open>Every checkpoint in the inactive directory lies in the file its name asks for.\<close>

definition manifests_named :: "(bytes \<Rightarrow> go_error + pod) \<Rightarrow> fs \<Rightarrow> bool" where
  "manifests_named decode s \<longleftrightarrow>
     list_all (\<lambda>f. case ckptFile decode s inactiveCheckpointPath f of None \<Rightarrow> True
                  | Some cp \<Rightarrow> f = manifestName (podFullName cp))
       (children s [''etc'', ''kubernetes'', ''inactive-manifests''])"

abbreviation inactiveKey :: "string \<Rightarrow> key" where
  "inactiveKey f \<equiv> [''etc'', ''kubernetes'', ''inactive-manifests'', f]"

abbreviation activeKey :: "string \<Rightarrow> key" where
  "activeKey f \<equiv> [''etc'', ''kubernetes'', ''manifests'', f]"

lemma writeCheckpointManifest_path:
  assumes "slash \<notin> set (pod_Namespace p)" "slash \<notin> set (pod_Name p)"
  shows "writeCheckpointManifest encode s p =
     (case encode p of Inl e \<Rightarrow> (s, False, Some e)
      | Inr b \<Rightarrow> writeManifestIfDifferent s (podFullNameToInactiveCheckpointPath (podFullName p)) (podFullName p) b)"
  using replaceByte_fullName [OF assms]
  by (simp add: writeCheckpointManifest_def podFullNameToInactiveCheckpointPath_def podFullName_def
      split: sum.splits)

lemma manifest_keys [simp]:
  "fs_key s (podFullNameToInactiveCheckpointPath pid) = inactiveKey (manifestName pid)"
  "fs_key s (podFullNameToActiveCheckpointPath pid) = activeKey (manifestName pid)"
  using fs_key_abs [of "inactiveKey (manifestName pid)" s] fs_key_abs [of "activeKey (manifestName pid)" s]
  by (simp_all add: manifest_paths)

lemma inactive_dir: "inactiveCheckpointPath = slash # joinWith slash [''etc'', ''kubernetes'', ''inactive-manifests'']"
  by (rule checkpoint_dirs)

lemma inactive_file:
  "path_Join [inactiveCheckpointPath, manifestName pid] = podFullNameToInactiveCheckpointPath pid"
  by (simp add: podFullNameToInactiveCheckpointPath_def manifestName_def)

lemma temp_name_manifestName [simp]: "\<not> temp_name (manifestName pid)"
proof
  assume t: "temp_name (manifestName pid)"
  then obtain c ds where cs: "manifestName pid = c # ds" "list_all (\<lambda>d. d \<in> set ''0123456789'') ds"
    by (auto simp: temp_name_def split: list.splits)
  have l: "last (manifestName pid) = CHR ''n''" and len: "length (manifestName pid) > 1"
    by (simp_all add: manifestName_def)
  from len cs(1) have "ds \<noteq> []" by auto
  with l cs(1) have "CHR ''n'' \<in> set ds" using last_in_set [of ds] by simp
  with cs(2) have "CHR ''n'' \<in> set ''0123456789''" unfolding list_all_iff by (rule bspec)
  then show False by simp
qed

lemma getFileCheckpoints_Inr:
  assumes "getFileCheckpoints decode s path = (s', Inr cps)" and "names_ok s"
    and path: "path = slash # joinWith slash bs" "bs \<noteq> []" "list_all plain_comp bs"
  shows "list_all plain_comp (sort_Strings (children s bs))"
    and "loadCheckpoints decode path s (sort_Strings (children s bs)) [] = (s', cps)"
  using assms children_plain [OF assms(2), of bs] fs_key_abs [OF path(2,3), of s]
  by (auto simp: getFileCheckpoints_def ioutil_ReadDir_def Let_def list_all_iff
      split: sum.splits prod.splits option.splits node.splits)

lemma ckptFile_Some_child:
  "ckptFile decode s inactiveCheckpointPath f = Some cp \<Longrightarrow> plain_comp f \<Longrightarrow>
   f \<in> set (children s [''etc'', ''kubernetes'', ''inactive-manifests''])"
  using dir_file(3) [of "[''etc'', ''kubernetes'', ''inactive-manifests'']" f s]
  by (auto simp: ckptFile_def inactive_dir children_iff content_def split: if_splits sum.splits option.splits
      dest!: ioutil_ReadFile_Inr)

lemma manifests_named_write:
  assumes "manifests_named decode s" and w: "snd (writeManifest s (podFullNameToInactiveCheckpointPath pid) b) = None"
    and b: "b \<noteq> []" and q: "\<And>q. decode b = Inr q \<Longrightarrow> podFullName q = pid"
    and f: "plain_comp f"
    and cp: "ckptFile decode (fst (writeManifest s (podFullNameToInactiveCheckpointPath pid) b)) inactiveCheckpointPath f = Some cp"
  shows "f = manifestName (podFullName cp)"
proof (cases "f = manifestName pid")
  case True
  let ?s1 = "fst (writeManifest s (podFullNameToInactiveCheckpointPath pid) b)"
  have "content ?s1 (inactiveKey (manifestName pid)) = Some b" using writeManifest_ok [OF w b] by simp
  then have "decode b = Inr cp"
    using cp True by (auto simp: ckptFile_def inactive_file split: if_splits sum.splits dest!: ioutil_ReadFile_Inr)
  with q True show ?thesis by simp
next
  case False
  have "ckptFile decode (fst (writeManifest s (podFullNameToInactiveCheckpointPath pid) b)) inactiveCheckpointPath f
      = ckptFile decode s inactiveCheckpointPath f"
    unfolding inactive_dir
    using False f by (intro ckptFile_cong manifest.wr_env) (auto simp: writeManifest_success [OF w])
  with cp have c: "ckptFile decode s inactiveCheckpointPath f = Some cp" by simp
  show ?thesis using assms(1) ckptFile_Some_child [OF c f] c by (auto simp: manifests_named_def list_all_iff)
qed

section \<open>Properties\<close>

text \<open>A node's host with the checkpointer's directories, on which nothing fails.\<close>

definition example_host :: fs where
  "example_host = \<lparr>entries = [([], new_dir 493), ([''etc''], new_dir 493), ([''etc'', ''kubernetes''], new_dir 493),
     ([''etc'', ''kubernetes'', ''manifests''], new_dir 493),
     ([''etc'', ''kubernetes'', ''inactive-manifests''], new_dir 448)],
     cwd = [], faults = (\<lambda>_ _. None), torn = (\<lambda>_. 0)\<rparr>"

text \<open>
  C7: Replacing a checkpoint file is atomic. Whatever fails, and however much of a write got
  out before it failed, the file has its old content or all of the new one. After success it
  has the new content with the requested mode and owner. No other existing file changes, and
  nothing new appears but temporary files. On a file system without faults, where the target's
  directory exists and the target is no directory, the call succeeds.
\<close>

theorem checkpoint_write_is_atomic:
  assumes "\<not> temp_key (fs_key s path)"
    and "fs_key s (path_Dir path) = butlast (fs_key s path)" and "fs_key s path \<noteq> []"
  shows "let (s', err) = writeAndAtomicRename s path data uid gid perm in
     (content s' (fs_key s path) = content s (fs_key s path) \<or> content s' (fs_key s path) = Some data) \<and>
     (err = None \<longrightarrow> fs_node s' (fs_key s path) = Some (NFile data \<lparr>n_mode = perm, n_uid = uid, n_gid = gid\<rparr>)) \<and>
     (\<forall>k. k \<noteq> fs_key s path \<and> (fs_node s k \<noteq> None \<or> \<not> temp_key k) \<longrightarrow> fs_node s' k = fs_node s k) \<and>
     ((\<forall>opr k. faults s opr k = None) \<and> is_dir (fs_node s (butlast (fs_key s path))) \<and>
        \<not> is_dir (fs_node s (fs_key s path)) \<longrightarrow> err = None)"
proof -
  let ?r = "writeAndAtomicRename s path data uid gid perm"
  have "content (fst ?r) (fs_key s path) = content s (fs_key s path) \<or> content (fst ?r) (fs_key s path) = Some data"
    using assms(1) by (rule replaced.wr_never_torn)
  moreover have "snd ?r = None \<longrightarrow> fs_node (fst ?r) (fs_key s path) = Some (NFile data \<lparr>n_mode = perm, n_uid = uid, n_gid = gid\<rparr>)"
    using stored.wr_ok [of s path data uid gid perm] by auto
  moreover have "\<forall>k. k \<noteq> fs_key s path \<and> (fs_node s k \<noteq> None \<or> \<not> temp_key k) \<longrightarrow> fs_node (fst ?r) k = fs_node s k"
    using writeAndAtomicRename_frame [of _ s path data uid gid perm] by (simp add: untouched_def)
  moreover have "(\<forall>opr k. faults s opr k = None) \<and> is_dir (fs_node s (butlast (fs_key s path))) \<and>
      \<not> is_dir (fs_node s (fs_key s path)) \<longrightarrow> snd ?r = None"
    using writeAndAtomicRename_succeeds [of s path data uid gid perm] assms(2,3) by simp
  ultimately show ?thesis unfolding case_prod_beta Let_def by blast
qed

theorem checkpoint_write_is_atomic_witness:
  "snd (writeAndAtomicRename example_host ''/etc/kubernetes/manifests/a.json'' ''data'' 0 0 420) = None \<and>
   content (fst (writeAndAtomicRename example_host ''/etc/kubernetes/manifests/a.json'' ''data'' 0 0 420))
     [''etc'', ''kubernetes'', ''manifests'', ''a.json''] = Some ''data''"
proof -
  let ?k = "[''etc'', ''kubernetes'', ''manifests'', ''a.json'']"
  have k: "fs_key example_host ''/etc/kubernetes/manifests/a.json'' = ?k" by code_simp
  have "\<not> temp_key ?k" "butlast ?k = fs_key example_host (path_Dir ''/etc/kubernetes/manifests/a.json'')"
    "is_dir (fs_node example_host (butlast ?k))" "\<not> is_dir (fs_node example_host ?k)"
    by code_simp+
  then show ?thesis
    using checkpoint_write_is_atomic [of example_host "''/etc/kubernetes/manifests/a.json''" "''data''" 0 0 420]
    unfolding k case_prod_beta Let_def by (simp add: example_host_def content_def)
qed

text \<open>
  C8: When storing a pod's secrets and then its config maps succeeds, every file of every
  secret and config map the pod mounts is on disk with the data the API server returned, at
  the host path the sanitized pod mounts instead, readable by the pod's user only: no later
  file overwrites an earlier one, even where volumes share an object. A volume has one source.
\<close>

theorem checkpointed_assets_on_disk:
  assumes valid: "valid_objects getSecret" "valid_objects getConfigMap"
    and plain: "plain_comp (pod_Namespace pod)" "plain_comp (pod_Name pod)"
    and sources: "\<forall>v \<in> set (sp_Volumes (p_Spec pod)). v_Secret v = None \<or> v_ConfigMap v = None"
    and secs: "checkpointSecretVolumes getSecret s pod = (s1, Inr p1)"
    and cms: "checkpointConfigMapVolumes getConfigMap s1 pod = (s2, Inr p2)"
  shows "\<exists>uid gid. podUserAndGroup pod = Inr (uid, gid) \<and>
     list_all (\<lambda>v.
       (case v_Secret v of None \<Rightarrow> True | Some r \<Rightarrow>
          v_HostPath (sanitizeVolume (pod_Namespace pod) (pod_Name pod) v)
            = Some (secretPath (pod_Namespace pod) (pod_Name pod) (vr_Name r)) \<and>
          objectStored getSecret (secretPath (pod_Namespace pod) (pod_Name pod)) (pod_Namespace pod) uid gid s2 (vr_Name r)) \<and>
       (case v_ConfigMap v of None \<Rightarrow> True | Some r \<Rightarrow>
          v_HostPath (sanitizeVolume (pod_Namespace pod) (pod_Name pod) v)
            = Some (configMapPath (pod_Namespace pod) (pod_Name pod) (vr_Name r)) \<and>
          objectStored getConfigMap (configMapPath (pod_Namespace pod) (pod_Name pod)) (pod_Namespace pod) uid gid s2 (vr_Name r)))
     (sp_Volumes (p_Spec pod))"
proof -
  obtain uid gid where u: "podUserAndGroup pod = Inr (uid, gid)"
    using secs by (auto simp: checkpointSecretVolumes_def Let_def split: sum.splits)
  let ?ns = "pod_Namespace pod" and ?n = "pod_Name pod" and ?vs = "sp_Volumes (p_Spec pod)"
  from secs u obtain msg where 1:
    "storeVolumes v_Secret (\<lambda>s n. checkpointSecret getSecret s ?ns ?n n uid gid) msg s ?vs = (s1, None)"
    by (auto simp: checkpointSecretVolumes_def Let_def split: prod.splits option.splits)
  from cms u obtain msg' where 2:
    "storeVolumes v_ConfigMap (\<lambda>s n. checkpointConfigMap getConfigMap s ?ns ?n n uid gid) msg' s1 ?vs = (s2, None)"
    by (auto simp: checkpointConfigMapVolumes_def Let_def split: prod.splits option.splits)
  have "objectStored getSecret (secretPath ?ns ?n) ?ns uid gid s2 (vr_Name r)" if "v \<in> set ?vs" "v_Secret v = Some r" for v r
    using secretsKept.storeVolumes_keeps [OF 2] secrets.storeVolumes_good [OF 1 that] valid plain by blast
  moreover have "objectStored getConfigMap (configMapPath ?ns ?n) ?ns uid gid s2 (vr_Name r)"
    if "v \<in> set ?vs" "v_ConfigMap v = Some r" for v r
    using configMaps.storeVolumes_good [OF 2 that] valid plain by blast
  ultimately show ?thesis
    using u sources by (fastforce simp: list_all_iff sanitizeVolume_def split: option.splits)
qed

definition example_objects :: objectGetter where
  "example_objects ns n =
     (if n = ''tls'' then Inr \<lparr>do_Name = n, do_Data = [(''ca.crt'', ''CA'')]\<rparr>
      else if n = ''conf'' then Inr \<lparr>do_Name = n, do_Data = [(''a.yaml'', ''A''), (''b.yaml'', ''B'')]\<rparr>
      else Inl (Err ''not found''))"

lemma valid_example_objects: "valid_objects example_objects"
  by (auto simp: valid_objects_def example_objects_def valid_object_def plain_comp_def split: if_splits)

lemma storeFiles_success_frame:
  assumes "b \<noteq> ''''" "list_all (\<lambda>(f, d). plain_comp f) data" "\<And>f. k \<noteq> fs_key s b @ [f]"
    and "snd (storeFiles (\<lambda>s p d. writeAndAtomicRename s p d uid gid perm) b s data) = None"
  shows "fs_node (fst (storeFiles (\<lambda>s p d. writeAndAtomicRename s p d uid gid perm) b s data)) k = fs_node s k"
  using assms
proof (induction data arbitrary: s)
  case (Cons fd data)
  obtain f d where fd [simp]: "fd = (f, d)" by (cases fd)
  let ?w = "writeAndAtomicRename s (path_Join [b, f]) d uid gid perm"
  have ok: "snd ?w = None" using Cons.prems(4) by (cases ?w) (auto split: option.splits)
  then have w: "?w = (fst ?w, None)" by (metis prod.collapse)
  have key: "fs_key (fst ?w) b = fs_key s b" using stored.wr_env by (rule same_env_key)
  have "fs_node (fst ?w) k = fs_node s k"
    using Cons.prems by (intro writeAndAtomicRename_success_frame [OF ok]) (simp add: fs_key_Join2)
  moreover have "fs_node (fst (storeFiles (\<lambda>s p d. writeAndAtomicRename s p d uid gid perm) b (fst ?w) data)) k = fs_node (fst ?w) k"
    using Cons.prems w key by (intro Cons.IH) (auto split: prod.splits)
  ultimately show ?case using w by (auto split: prod.splits)
qed simp

lemma storeObject_elsewhere:
  assumes st: "storeObject uid gid b data s s'" and b: "b \<noteq> ''''" and plain: "list_all (\<lambda>(f, d). plain_comp f) data"
    and k: "\<not> prefix k (fs_key s b)" "\<And>f. k \<noteq> fs_key s b @ [f]"
  shows "fs_node s' k = fs_node s k"
proof -
  from st obtain s1 s2 where st: "os_MkdirAll s b 448 = (s1, None)" "os_Chown s1 b uid gid = (s2, None)"
    and sf: "storeFiles (\<lambda>s p d. writeAndAtomicRename s p d uid gid 384) b s2 data = (s', None)"
    by (auto simp: storeObject_def)
  have "storeObject uid gid b [] s s2" using st by (simp add: storeObject_def)
  then have key2: "fs_key s2 b = fs_key s b" by (rule storeObject_key)
  have "fs_node s1 k = fs_node s k" using mkdirs_new [of 448 s "prefixes (fs_key s b)" k] k(1) st(1) by (auto simp: os_MkdirAll_def)
  moreover have "fs_key s1 b = fs_key s b" using os_MkdirAll_env [of s b 448] st(1) by (simp add: same_env_key)
  moreover have "k \<noteq> fs_key s b" using k(1) by auto
  ultimately have "fs_node s2 k = fs_node s k"
    using change_meta_frame [of k s1 b OpChown] st(2) by (metis fst_conv os_Chown_def)
  then show ?thesis using storeFiles_success_frame [OF b plain, of k s2 uid gid 384] k(2) sf key2 by simp
qed

lemma storeObject_faults: "storeObject uid gid b data s s' \<Longrightarrow> faults s' = faults s"
proof -
  assume "storeObject uid gid b data s s'"
  then obtain s1 s2 where "os_MkdirAll s b 448 = (s1, None)" "os_Chown s1 b uid gid = (s2, None)"
    and "storeFiles (\<lambda>s p d. writeAndAtomicRename s p d uid gid 384) b s2 data = (s', None)"
    by (auto simp: storeObject_def)
  then have "same_env s s1" "same_env s1 s2" "same_env s2 s'"
    using os_MkdirAll_env [of s b 448] change_meta_env [of s1 OpChown _ b]
      stored.storeFiles_env [where s = s2 and uid = uid and gid = gid and perm = 384 and b = b and data = data]
    by (simp_all add: os_Chown_def) (metis fst_conv)
  then show ?thesis by (simp add: same_env_def)
qed

text \<open>A pod with both kinds of volumes, on a host without faults.\<close>

definition example_mounts :: pod where
  "example_mounts = example_parent\<lparr>p_Spec := emptySpec\<lparr>sp_Volumes :=
     [\<lparr>v_Name = ''certs'', v_Secret = Some \<lparr>vr_Name = ''tls'', vr_rest = ''''\<rparr>, v_ConfigMap = None, v_HostPath = None, v_rest = ''''\<rparr>,
      \<lparr>v_Name = ''conf'', v_Secret = None, v_ConfigMap = Some \<lparr>vr_Name = ''conf'', vr_rest = ''''\<rparr>, v_HostPath = None, v_rest = ''''\<rparr>]\<rparr>\<rparr>"

lemma example_mounts_names: "pod_Namespace example_mounts = ''kube-system''" "pod_Name example_mounts = ''kube-apiserver''"
  by (simp_all add: example_mounts_def example_parent_def emptyPod_def emptyMeta_def)

lemma example_stored:
  fixes bs cs :: key
  defines "bs \<equiv> [''etc'', ''kubernetes'', ''checkpoint-secrets'', ''kube-system'', ''kube-apiserver'', ''tls'']"
    and "cs \<equiv> [''etc'', ''kubernetes'', ''checkpoint-configmaps'', ''kube-system'', ''kube-apiserver'', ''conf'']"
  shows "\<exists>s1 s2. storeObject 0 0 (slash # joinWith slash bs) [(''ca.crt'', ''CA'')] example_host s1 \<and>
     storeObject 0 0 (slash # joinWith slash cs) [(''a.yaml'', ''A''), (''b.yaml'', ''B'')] s1 s2"
proof -
  have pl: "bs \<noteq> []" "list_all plain_comp bs" "cs \<noteq> []" "list_all plain_comp cs" unfolding bs_def cs_def by code_simp+
  have data: "list_all (\<lambda>(f, d). plain_comp f) [(''ca.crt'', ''CA'')]" "list_all (\<lambda>(f, d). plain_comp f) [(''a.yaml'', ''A''), (''b.yaml'', ''B'')]"
    by code_simp+
  have nofault: "faults example_host opr k = None" for opr k by (simp add: example_host_def)
  have "list_all (\<lambda>k. fs_node example_host k = None \<or> is_dir (fs_node example_host k)) (prefixes bs)" unfolding bs_def by code_simp
  moreover have "\<not> is_dir (fs_node example_host (bs @ [f]))" for f by (simp add: bs_def example_host_def fs_node_def)
  ultimately obtain s1 where s1: "storeObject 0 0 (slash # joinWith slash bs) [(''ca.crt'', ''CA'')] example_host s1"
    using storeObject_succeeds [OF nofault pl(1,2) _ data(1), of 0 0] by blast
  have key: "fs_key example_host (slash # joinWith slash bs) = bs" using pl by (intro fs_key_abs)
  have same: "fs_node s1 k = fs_node example_host k" if "\<not> prefix k bs" "butlast k \<noteq> bs" for k
    using that by (intro storeObject_elsewhere [OF s1 _ data(1)]) (auto simp: key)
  have kept: "fs_node s1 k = Some x" if "fs_node example_host k = Some x" "k \<noteq> bs" "butlast k \<noteq> bs" for k x
    using that by (intro storeObject_keeps [OF s1 _ data(1)]) (auto simp: key)
  have "is_dir (fs_node s1 k)" if "k \<in> {[], [''etc''], [''etc'', ''kubernetes'']}" for k
    using that kept [of k "new_dir 493"] by (auto simp: bs_def example_host_def fs_node_def new_dir_def)
  moreover have "fs_node s1 (''etc'' # ''kubernetes'' # ''checkpoint-configmaps'' # r) = None" for r
    using same [of "''etc'' # ''kubernetes'' # ''checkpoint-configmaps'' # r"] by (auto simp: bs_def example_host_def fs_node_def)
  ultimately have "list_all (\<lambda>k. fs_node s1 k = None \<or> is_dir (fs_node s1 k)) (prefixes cs)" "\<And>f. \<not> is_dir (fs_node s1 (cs @ [f]))"
    by (simp_all add: cs_def)
  then have "\<exists>s2. storeObject 0 0 (slash # joinWith slash cs) [(''a.yaml'', ''A''), (''b.yaml'', ''B'')] s1 s2"
    using storeObject_faults [OF s1] nofault by (intro storeObject_succeeds pl data) simp_all
  with s1 show ?thesis by blast
qed

lemma example_mounts_stored:
  "\<exists>s1 s2. checkpointSecretVolumes example_objects example_host example_mounts = (s1, Inr example_mounts) \<and>
     checkpointConfigMapVolumes example_objects s1 example_mounts = (s2, Inr example_mounts)"
proof -
  have u: "podUserAndGroup example_mounts = Inr (0, 0)" by code_simp
  have vs: "sp_Volumes (p_Spec example_mounts) =
     [\<lparr>v_Name = ''certs'', v_Secret = Some \<lparr>vr_Name = ''tls'', vr_rest = ''''\<rparr>, v_ConfigMap = None, v_HostPath = None, v_rest = ''''\<rparr>,
      \<lparr>v_Name = ''conf'', v_Secret = None, v_ConfigMap = Some \<lparr>vr_Name = ''conf'', vr_rest = ''''\<rparr>, v_HostPath = None, v_rest = ''''\<rparr>]"
    by (simp add: example_mounts_def)
  have "secretPath ''kube-system'' ''kube-apiserver'' ''tls''
      = slash # joinWith slash [''etc'', ''kubernetes'', ''checkpoint-secrets'', ''kube-system'', ''kube-apiserver'', ''tls'']"
    "configMapPath ''kube-system'' ''kube-apiserver'' ''conf''
      = slash # joinWith slash [''etc'', ''kubernetes'', ''checkpoint-configmaps'', ''kube-system'', ''kube-apiserver'', ''conf'']"
    using asset_paths(1) [of "''kube-system''" "''kube-apiserver''" "''tls''"] asset_paths(2) [of "''kube-system''" "''kube-apiserver''" "''conf''"]
    by (simp_all add: plain_comp_def)
  note bs = this [symmetric]
  obtain s1 s2 where "storeObject 0 0 (secretPath ''kube-system'' ''kube-apiserver'' ''tls'') [(''ca.crt'', ''CA'')] example_host s1"
    "storeObject 0 0 (configMapPath ''kube-system'' ''kube-apiserver'' ''conf'') [(''a.yaml'', ''A''), (''b.yaml'', ''B'')] s1 s2"
    using example_stored unfolding bs by blast
  then show ?thesis
    by (intro exI [of _ s1] exI [of _ s2])
      (auto simp: checkpointSecretVolumes_def checkpointConfigMapVolumes_def u example_mounts_names checkpointSecret_def checkpointConfigMap_def
        example_objects_def storeObject_def vs Let_def)
qed

theorem checkpointed_assets_on_disk_witness:
  "\<exists>s1 p1 s2 p2. checkpointSecretVolumes example_objects example_host example_mounts = (s1, Inr p1) \<and>
     checkpointConfigMapVolumes example_objects s1 example_mounts = (s2, Inr p2) \<and>
     objectStored example_objects (secretPath ''kube-system'' ''kube-apiserver'') ''kube-system'' 0 0 s2 ''tls'' \<and>
     objectStored example_objects (configMapPath ''kube-system'' ''kube-apiserver'') ''kube-system'' 0 0 s2 ''conf''"
proof -
  obtain s1 p1 s2 p2 where 1: "checkpointSecretVolumes example_objects example_host example_mounts = (s1, Inr p1)"
    and 2: "checkpointConfigMapVolumes example_objects s1 example_mounts = (s2, Inr p2)"
    using example_mounts_stored by blast
  have u: "podUserAndGroup example_mounts = Inr (0, 0)" by code_simp
  note m = example_mounts_names
  have p: "plain_comp (pod_Namespace example_mounts)" "plain_comp (pod_Name example_mounts)" by (simp_all add: m plain_comp_def)
  have v: "\<forall>v \<in> set (sp_Volumes (p_Spec example_mounts)). v_Secret v = None \<or> v_ConfigMap v = None"
    by (simp add: example_mounts_def)
  have "objectStored example_objects (secretPath ''kube-system'' ''kube-apiserver'') ''kube-system'' 0 0 s2 ''tls'' \<and>
      objectStored example_objects (configMapPath ''kube-system'' ''kube-apiserver'') ''kube-system'' 0 0 s2 ''conf''"
    using checkpointed_assets_on_disk [OF valid_example_objects valid_example_objects p v 1 2] u m by (auto simp: example_mounts_def)
  with 1 2 show ?thesis by blast
qed

lemma writeManifest_names:
  assumes "names_ok s" "snd (writeManifest s (podFullNameToInactiveCheckpointPath pid) b) = None"
  shows "names_ok (fst (writeManifest s (podFullNameToInactiveCheckpointPath pid) b))"
  unfolding names_ok_def
proof (intro allI impI)
  fix k assume "fs_node (fst (writeManifest s (podFullNameToInactiveCheckpointPath pid) b)) k \<noteq> None"
  then show "list_all plain_comp k"
    using assms(1) writeManifest_success [OF assms(2), of k]
    by (cases "k = inactiveKey (manifestName pid)") (auto simp: names_ok_def)
qed

text \<open>
  C9: A checkpoint that is written can be read back. After a successful write of a
  checkpoint's manifest, loading the inactive directory finds the checkpoint under its full
  name, as the decoder reads the encoder's bytes, whatever else the directory holds, provided
  the manifests already there lie in the files named after their pods; that stays so.
\<close>

theorem manifest_roundtrip:
  assumes codec: "encode p = Inr b" "b \<noteq> []" "decode b = Inr q" "p_Meta q = p_Meta p"
    and p: "isCheckpoint p" "slash \<notin> set (pod_Namespace p)" "slash \<notin> set (pod_Name p)" "\<not> hasPrefix (pod_Namespace p) ''.''"
    and named: "manifests_named decode s" and names: "names_ok s"
    and w: "writeCheckpointManifest encode s p = (s1, changed, None)"
    and l: "getFileCheckpoints decode s1 inactiveCheckpointPath = (s2, Inr cps)"
    and nofault: "faults s OpRead [''etc'', ''kubernetes'', ''inactive-manifests'', manifestName (podFullName p)] = None"
  shows "map_of cps (podFullName p) = Some q \<and> manifests_named decode s1"
proof -
  let ?pid = "podFullName p" and ?bs = "[''etc'', ''kubernetes'', ''inactive-manifests'']"
  let ?path = "podFullNameToInactiveCheckpointPath ?pid"
  have s1: "s1 = fst (writeManifest s ?path b)" and ok: "snd (writeManifest s ?path b) = None"
    using w codec(1) fst_writeManifestIfDifferent [of s ?path ?pid b]
    by (simp_all add: writeCheckpointManifest_path [OF p(2,3)])
  have q: "podFullName q = ?pid" "isCheckpoint q"
    using podFullName_cong [OF codec(4)] p(1) codec(4) by (simp_all add: isCheckpoint_iff)
  have new: "content s1 (inactiveKey (manifestName ?pid)) = Some b"
    using writeManifest_ok [OF ok codec(2)] by (simp add: s1)
  have env: "same_env s s1" unfolding s1 by (rule manifest.wr_env)
  have names1: "names_ok s1" unfolding s1 using names ok by (rule writeManifest_names)
  have f: "f = manifestName (podFullName cp)" if "plain_comp f" "ckptFile decode s1 inactiveCheckpointPath f = Some cp" for f cp
    using manifests_named_write [OF named ok codec(2) _ that(1)] that(2) q codec(3) by (auto simp: s1)
  have dot: "\<not> hasPrefix (manifestName ?pid) ''.''"
    using p(2-4) replaceByte_fullName [OF p(2,3)] by (cases "pod_Namespace p") (auto simp: manifestName_def podFullName_def hasPrefix_def)
  have "ioutil_ReadFile s1 ?path = Inr b"
    using new nofault env by (intro ioutil_ReadFile_content) (simp_all add: same_env_def fs_fault_def)
  then have mine: "ckptFile decode s1 inactiveCheckpointPath (manifestName ?pid) = Some q"
    using dot q codec(3) by (simp add: ckptFile_def inactive_file)
  let ?fi = "sort_Strings (children s1 ?bs)"
  have fi: "list_all plain_comp ?fi" and lc: "loadCheckpoints decode inactiveCheckpointPath s1 ?fi [] = (s2, cps)"
    using getFileCheckpoints_Inr [OF l names1 inactive_dir] by simp_all
  have "List.find (\<lambda>cp. podFullName cp = ?pid) (rev (List.map_filter (ckptFile decode s1 inactiveCheckpointPath) ?fi)) = Some q"
  proof (rule find_unique)
    show "q \<in> set (rev (List.map_filter (ckptFile decode s1 inactiveCheckpointPath) ?fi))"
      using mine new by (force simp: List.map_filter_def children_iff content_def split: option.splits)
    show "y = q" if "y \<in> set (rev (List.map_filter (ckptFile decode s1 inactiveCheckpointPath) ?fi))" "podFullName y = ?pid" for y
    proof -
      from that(1) fi obtain x where x: "plain_comp x" "ckptFile decode s1 inactiveCheckpointPath x = Some y"
        by (auto simp: List.map_filter_def list_all_iff)
      then have "x = manifestName ?pid" using f [OF x] that(2) by simp
      with x mine show ?thesis by simp
    qed
  qed (rule q)
  then have "map_of cps ?pid = Some q"
    using loadCheckpoints_lookup [of ?bs ?fi decode s1 "[]" ?pid] fi lc by (simp add: inactive_dir)
  moreover have "manifests_named decode s1"
    using f children_plain [OF names1, of ?bs] by (auto simp: manifests_named_def list_all_iff split: option.splits)
  ultimately show ?thesis by simp
qed

definition example_encode :: "pod \<Rightarrow> go_error + bytes" where
  "example_encode p = Inr (podFullName p)"

definition example_named :: "string \<Rightarrow> string \<Rightarrow> pod" where
  "example_named ns n = sanitizeCheckpointPod (emptyPod\<lparr>p_Meta := emptyMeta\<lparr>m_Name := n, m_Namespace := ns\<rparr>\<rparr>)"

definition example_decode :: "bytes \<Rightarrow> go_error + pod" where
  "example_decode b =
     (case splitOn slash b of [ns, n] \<Rightarrow> Inr (example_named ns n) | _ \<Rightarrow> Inl (Err ''bad manifest''))"

theorem manifest_roundtrip_witness:
  "\<exists>cps. snd (getFileCheckpoints example_decode
       (fst (writeCheckpointManifest example_encode example_host (example_named ''n'' ''p''))) inactiveCheckpointPath) = Inr cps \<and>
     map_of cps ''n/p'' = Some (example_named ''n'' ''p'')"
proof -
  let ?p = "example_named ''n'' ''p''"
  let ?w = "writeCheckpointManifest example_encode example_host ?p"
  let ?g = "getFileCheckpoints example_decode (fst ?w) inactiveCheckpointPath"
  have "snd (snd ?w) = None" by code_simp
  then have w: "?w = (fst ?w, fst (snd ?w), None)" by (metis prod.collapse)
  have "case snd ?g of Inr _ \<Rightarrow> True | Inl _ \<Rightarrow> False" by code_simp
  then obtain cps where g: "?g = (fst ?g, Inr cps)" by (metis old.sum.simps(5) prod.collapse sum.exhaust_sel)
  have c: "example_encode ?p = Inr ''n/p''" "example_decode ''n/p'' = Inr ?p" "podFullName ?p = ''n/p''"
    by code_simp+
  have p: "isCheckpoint ?p" "pod_Namespace ?p = ''n''" "pod_Name ?p = ''p''" by code_simp+
  have n: "manifests_named example_decode example_host" by code_simp
  have o: "names_ok example_host"
    by (auto simp: names_ok_def example_host_def fs_node_def map_of_Cons_code split: if_splits)
  have "map_of cps (podFullName ?p) = Some ?p \<and> manifests_named example_decode (fst ?w)"
    by (rule manifest_roundtrip [OF c(1) _ c(2) refl p(1) _ _ _ n o w g])
      (simp_all add: p example_host_def hasPrefix_def)
  then show ?thesis using g c(3) by (metis snd_conv)
qed

text \<open>
  Loading a checkpoint directory returns, under each full name, the checkpoint in the
  last file in name order that holds one, and nothing else; files that cannot be read or
  decoded, and pods that are no checkpoints, are skipped. Left-over temporary files are
  removed unless the system refuses, and no other file changes.
\<close>

lemma loaded_checkpoints:
  assumes path: "path = slash # joinWith slash bs" "bs \<noteq> []" "list_all plain_comp bs" and names: "names_ok s"
    and unique: "distinct (map fst (entries s))"
    and l: "getFileCheckpoints decode s path = (s', Inr cps)"
  shows "distinct (map fst cps) \<and>
     (\<forall>pid. map_of cps pid = List.find (\<lambda>cp. podFullName cp = pid)
        (rev (List.map_filter (ckptFile decode s path) (sort_Strings (children s bs))))) \<and>
     (\<forall>f d m. hasPrefix f ''.'' \<and> fs_node s (bs @ [f]) = Some (NFile d m) \<and> faults s OpRemove (bs @ [f]) = None \<longrightarrow>
        fs_node s' (bs @ [f]) = None) \<and>
     (\<forall>k. (\<forall>f. hasPrefix f ''.'' \<longrightarrow> k \<noteq> bs @ [f]) \<longrightarrow> fs_node s' k = fs_node s k)"
proof -
  let ?fi = "sort_Strings (children s bs)"
  note fi = getFileCheckpoints_Inr [OF l names path]
  have lc: "loadCheckpoints decode (slash # joinWith slash bs) s ?fi [] = (s', cps)" using fi(2) path(1) by simp
  have dist: "distinct ?fi"
    using distinct_children [OF unique, of bs] by (simp add: sort_Strings_def)
  have "distinct (map fst cps)"
    using loadCheckpoints_distinct [of "[]" decode path s ?fi] fi(2) by simp
  moreover have "map_of cps pid = List.find (\<lambda>cp. podFullName cp = pid) (rev (List.map_filter (ckptFile decode s path) ?fi))" for pid
    using loadCheckpoints_lookup [OF path(2,3) fi(1), of decode s "[]" pid] lc path(1) by (simp split: option.splits)
  moreover have "fs_node s' (bs @ [f]) = None"
    if "hasPrefix f ''.''" "fs_node s (bs @ [f]) = Some (NFile d m)" "faults s OpRemove (bs @ [f]) = None" for f d m
    using loadCheckpoints_removes [OF path(2,3) fi(1) dist _ that(1,2), of decode "[]"] that lc
    by (simp add: children_iff fs_fault_def)
  moreover have "fs_node s' k = fs_node s k" if "\<And>f. hasPrefix f ''.'' \<Longrightarrow> k \<noteq> bs @ [f]" for k
    using loadCheckpoints_frame [OF path(2,3) fi(1), of k decode s "[]"] that lc by simp
  ultimately show ?thesis by blast
qed

lemma loaded_checkpoints_witness:
  "\<exists>cps. snd (getFileCheckpoints example_decode example_host ''/etc/kubernetes/manifests'') = Inr cps \<and>
     distinct (map fst cps) \<and> map_of cps ''n/p'' = None"
proof -
  let ?g = "getFileCheckpoints example_decode example_host ''/etc/kubernetes/manifests''"
  have "snd ?g = Inr []" by code_simp
  then have g: "?g = (fst ?g, Inr [])" by (metis prod.collapse)
  have o: "names_ok example_host"
    by (auto simp: names_ok_def example_host_def fs_node_def map_of_Cons_code split: if_splits)
  have "distinct (map fst ([] :: podMap))"
    using loaded_checkpoints [of "''/etc/kubernetes/manifests''" "[''etc'', ''kubernetes'', ''manifests'']", OF _ _ _ o _ g]
    by (simp add: example_host_def)
  with \<open>snd ?g = Inr []\<close> show ?thesis by simp
qed

end
