(* ===== verification/Polling.thy ===== *)
theory Polling
  imports Prelude
begin

text \<open>
  Machines that are polled: a step function driven by a sequence of inputs. The locale
  \<open>polled_machine\<close> is the contract under which a property of single steps holds of whole
  runs: a history invariant relates the inputs seen so far to the state reached. Its
  extension \<open>absorbing_machine\<close> adds a set of states that no step leaves.
\<close>

locale polled_machine =
  fixes step :: "'i \<Rightarrow> 's \<Rightarrow> 's"
    and hinv :: "'i list \<Rightarrow> 's \<Rightarrow> bool"
  assumes hinv_step: "hinv h s \<Longrightarrow> hinv (h @ [i]) (step i s)"
begin

lemma hinv_run: "hinv h s \<Longrightarrow> hinv (h @ xs) (fold step xs s)"
proof (induction xs arbitrary: h s)
  case Nil
  then show ?case by simp
next
  case (Cons x xs)
  from Cons.prems have "hinv (h @ [x]) (step x s)" by (rule hinv_step)
  then have "hinv ((h @ [x]) @ xs) (fold step xs (step x s))" by (rule Cons.IH)
  then show ?case by simp
qed

lemma hinv_reached: "hinv [] s \<Longrightarrow> hinv xs (fold step xs s)"
  using hinv_run [of "[]" s xs] by simp

end

locale absorbing_machine =
  fixes astep :: "'i \<Rightarrow> 's \<Rightarrow> 's"
    and final :: "'s \<Rightarrow> bool"
  assumes final_step: "final s \<Longrightarrow> final (astep i s)"
begin

lemma final_run: "final s \<Longrightarrow> final (fold astep xs s)"
  by (induction xs arbitrary: s) (simp_all add: final_step)

lemma reaches_final:
  assumes "x \<in> set xs" and "\<And>s. rel s \<Longrightarrow> final (astep x s)"
    and keep: "\<And>y s. y \<in> set xs \<Longrightarrow> rel s \<Longrightarrow> rel (astep y s) \<or> final (astep y s)"
    and start: "rel s"
  shows "final (fold astep xs s)"
  using assms
proof (induction xs arbitrary: s)
  case Nil
  then show ?case by simp
next
  case (Cons y ys)
  show ?case
  proof (cases "final (astep y s)")
    case True
    then show ?thesis by (simp add: final_run)
  next
    case False
    with Cons.prems(2,4) have "x \<noteq> y" by blast
    moreover from False Cons.prems(3) [of y s] Cons.prems(4) have "rel (astep y s)" by simp
    ultimately show ?thesis using Cons.prems by (simp add: Cons.IH)
  qed
qed

end

end
