(* ===== verification/CheckpointState.thy ===== *)
theory CheckpointState
  imports Polling
begin

text \<open>
  The state of one checkpoint and its transitions, \<open>pkg/checkpoint/state.go\<close>. The
  interface \<open>checkpointState\<close> with its six implementations is a datatype; the method
  \<open>transition\<close> is one function per implementation and a dispatcher. Times are integers
  (nanoseconds), and the package variable \<open>checkpointGracePeriod\<close> is the argument
  \<open>gp\<close>. Logging is left out.
\<close>

named_theorems state_defs \<open>definitions of the checkpoint state machine\<close>

type_synonym time = int

record apiCondition =
  apiAvailable :: bool
  apiParent :: bool
  localRunning :: bool
  localParent :: bool

text \<open>
  \<open>type action int\<close> with its four constants. Every \<open>action()\<close> method returns one of
  them, so the \<open>default\<close> branches of the sources' switches on an action are unreachable.
\<close>

datatype checkpointAction = A_none | A_start | A_stop | A_remove

datatype checkpointState =
    stateSelfCheckpointActive
  | stateNone
  | stateInactive
  | stateInactiveGracePeriod time
  | stateActive
  | stateActiveGracePeriod time
  | stateRemove

fun action :: "checkpointState \<Rightarrow> checkpointAction" where
  "action stateSelfCheckpointActive = A_start"
| "action stateNone = A_none"
| "action stateInactive = A_stop"
| "action (stateInactiveGracePeriod e) = A_stop"
| "action stateActive = A_start"
| "action (stateActiveGracePeriod e) = A_start"
| "action stateRemove = A_remove"

definition inactiveGrace_check :: "time \<Rightarrow> time \<Rightarrow> checkpointState" where
  [state_defs]: "inactiveGrace_check gracePeriodEnd now =
     (if now = gracePeriodEnd \<or> now > gracePeriodEnd then stateRemove
      else stateInactiveGracePeriod gracePeriodEnd)"

definition inactiveGrace_transition :: "time \<Rightarrow> time \<Rightarrow> apiCondition \<Rightarrow> checkpointState" where
  [state_defs]: "inactiveGrace_transition gracePeriodEnd now apis =
     (if \<not> apiAvailable apis then
        (if localRunning apis then inactiveGrace_check gracePeriodEnd now else stateActive)
      else if apiParent apis then
        (if localRunning apis then stateInactive else stateActive)
      else inactiveGrace_check gracePeriodEnd now)"

definition activeGrace_check :: "time \<Rightarrow> time \<Rightarrow> apiCondition \<Rightarrow> checkpointState" where
  [state_defs]: "activeGrace_check gracePeriodEnd now apis =
     (if now = gracePeriodEnd \<or> now > gracePeriodEnd then inactiveGrace_transition now now apis
      else stateActiveGracePeriod gracePeriodEnd)"

definition activeGrace_transition :: "time \<Rightarrow> time \<Rightarrow> apiCondition \<Rightarrow> checkpointState" where
  [state_defs]: "activeGrace_transition gracePeriodEnd now apis =
     (if \<not> apiAvailable apis then
        (if localRunning apis then stateInactive else activeGrace_check gracePeriodEnd now apis)
      else if apiParent apis then
        (if localRunning apis then stateInactive else stateActive)
      else activeGrace_check gracePeriodEnd now apis)"

definition self_transition :: "int \<Rightarrow> time \<Rightarrow> apiCondition \<Rightarrow> checkpointState" where
  [state_defs]: "self_transition gp now apis =
     (if \<not> apiAvailable apis then stateSelfCheckpointActive
      else if apiParent apis then stateSelfCheckpointActive
      else activeGrace_check (now + gp) now apis)"

definition inactive_transition :: "int \<Rightarrow> time \<Rightarrow> apiCondition \<Rightarrow> checkpointState" where
  [state_defs]: "inactive_transition gp now apis =
     (if \<not> apiAvailable apis then
        (if localRunning apis then stateInactive else stateActive)
      else if apiParent apis then
        (if localRunning apis then stateInactive else stateActive)
      else inactiveGrace_check (now + gp) now)"

definition none_transition :: "int \<Rightarrow> time \<Rightarrow> apiCondition \<Rightarrow> checkpointState" where
  [state_defs]: "none_transition gp now apis =
     (if localRunning apis \<or> localParent apis then inactive_transition gp now apis
      else stateNone)"

definition active_transition :: "int \<Rightarrow> time \<Rightarrow> apiCondition \<Rightarrow> checkpointState" where
  [state_defs]: "active_transition gp now apis =
     (if \<not> apiAvailable apis then
        (if localRunning apis then stateInactive else stateActive)
      else if apiParent apis then
        (if localRunning apis then stateInactive else stateActive)
      else activeGrace_check (now + gp) now apis)"

fun transition :: "int \<Rightarrow> time \<Rightarrow> apiCondition \<Rightarrow> checkpointState \<Rightarrow> checkpointState" where
  "transition gp now apis stateSelfCheckpointActive = self_transition gp now apis"
| "transition gp now apis stateNone = none_transition gp now apis"
| "transition gp now apis stateInactive = inactive_transition gp now apis"
| "transition gp now apis (stateInactiveGracePeriod e) = inactiveGrace_transition e now apis"
| "transition gp now apis stateActive = active_transition gp now apis"
| "transition gp now apis (stateActiveGracePeriod e) = activeGrace_transition e now apis"
| "transition gp now apis stateRemove = stateRemove"

section \<open>Printing\<close>

fun bool_String :: "bool \<Rightarrow> string" where
  "bool_String True = ''true''"
| "bool_String False = ''false''"

definition apiCondition_String :: "apiCondition \<Rightarrow> string" where
  "apiCondition_String a =
     ''apiAvailable='' @ bool_String (apiAvailable a) @ '', apiParent='' @ bool_String (apiParent a) @
     '', localRunning='' @ bool_String (localRunning a) @ '', localParent='' @ bool_String (localParent a)"

fun action_String :: "checkpointAction \<Rightarrow> string" where
  "action_String A_none = ''none''"
| "action_String A_start = ''start''"
| "action_String A_stop = ''stop''"
| "action_String A_remove = ''remove''"

fun state_String :: "checkpointState \<Rightarrow> string" where
  "state_String stateSelfCheckpointActive = ''self-checkpoint''"
| "state_String stateNone = ''none''"
| "state_String stateInactive = ''inactive''"
| "state_String (stateInactiveGracePeriod e) = ''inactive (grace period)''"
| "state_String stateActive = ''active''"
| "state_String (stateActiveGracePeriod e) = ''active (grace period)''"
| "state_String stateRemove = ''remove''"

section \<open>Library lemmas\<close>

lemmas transition_defs = none_transition_def inactive_transition_def active_transition_def
  self_transition_def inactiveGrace_transition_def activeGrace_transition_def

lemmas grace_check_defs = inactiveGrace_check_def activeGrace_check_def

text \<open>The apiserver answered, and the parent pod is gone.\<close>

definition parent_deleted :: "apiCondition \<Rightarrow> bool" where
  "parent_deleted a \<longleftrightarrow> apiAvailable a \<and> \<not> apiParent a"

text \<open>When the parent is known to be gone, only time decides.\<close>

lemma transition_deleted:
  assumes "parent_deleted a"
  shows "transition gp now a stateInactive = inactiveGrace_check (now + gp) now"
    and "transition gp now a stateActive = activeGrace_check (now + gp) now a"
    and "transition gp now a stateSelfCheckpointActive = activeGrace_check (now + gp) now a"
    and "transition gp now a (stateInactiveGracePeriod e) = inactiveGrace_check e now"
    and "transition gp now a (stateActiveGracePeriod e) = activeGrace_check e now a"
    and "activeGrace_check e now a = (if e \<le> now then stateRemove else stateActiveGracePeriod e)"
  using assms by (auto simp: parent_deleted_def transition_defs grace_check_defs)

lemma transition_of_check:
  "inactiveGrace_check e now = (if e \<le> now then stateRemove else stateInactiveGracePeriod e)"
  by (auto simp: inactiveGrace_check_def)

lemma activeGrace_check_eq:
  "activeGrace_check e now a =
     (if \<not> e \<le> now then stateActiveGracePeriod e
      else if parent_deleted a \<or> \<not> apiAvailable a \<and> localRunning a then stateRemove
      else if localRunning a then stateInactive else stateActive)"
  by (auto simp: parent_deleted_def transition_defs grace_check_defs)

text \<open>A poll: the time and what the interfaces reported about this pod.\<close>

type_synonym poll = "time \<times> apiCondition"

definition poll_step :: "int \<Rightarrow> poll \<Rightarrow> checkpointState \<Rightarrow> checkpointState" where
  "poll_step gp x s = transition gp (fst x) (snd x) s"

definition deleted_at :: "poll \<Rightarrow> bool" where
  "deleted_at x \<longleftrightarrow> parent_deleted (snd x)"

text \<open>
  History invariant: a grace period ends \<open>gp\<close> after a poll that saw the parent deleted, and
  a removed checkpoint was removed at a poll at or after such an end.
\<close>

definition grace_hinv :: "int \<Rightarrow> poll list \<Rightarrow> checkpointState \<Rightarrow> bool" where
  "grace_hinv gp h s =
     (case s of
        stateInactiveGracePeriod e \<Rightarrow> \<exists>x \<in> set h. deleted_at x \<and> fst x + gp = e
      | stateActiveGracePeriod e \<Rightarrow> \<exists>x \<in> set h. deleted_at x \<and> fst x + gp = e
      | stateRemove \<Rightarrow> \<exists>h1 y h2. h = h1 @ y # h2 \<and> (\<exists>x \<in> set (h1 @ [y]). deleted_at x \<and> fst x + gp \<le> fst y)
      | _ \<Rightarrow> True)"

lemma grace_hinv_plain [simp]:
  "grace_hinv gp h stateActive" "grace_hinv gp h stateInactive" "grace_hinv gp h stateNone"
  "grace_hinv gp h stateSelfCheckpointActive"
  by (simp_all add: grace_hinv_def)

lemma grace_hinv_grace:
  assumes "\<exists>x \<in> set h. deleted_at x \<and> fst x + gp = e"
  shows "grace_hinv gp h (stateInactiveGracePeriod e)" "grace_hinv gp h (stateActiveGracePeriod e)"
  using assms by (simp_all add: grace_hinv_def)

lemma grace_hinv_removed:
  assumes "\<exists>x \<in> set (h @ [y]). deleted_at x \<and> fst x + gp = e" and "e \<le> fst y"
  shows "grace_hinv gp (h @ [y]) stateRemove"
proof -
  from assms have "\<exists>x \<in> set (h @ [y]). deleted_at x \<and> fst x + gp \<le> fst y" by auto
  then show ?thesis unfolding grace_hinv_def by (simp only: checkpointState.case) blast
qed

lemma grace_hinv_inactive_check:
  "\<exists>x \<in> set (h @ [y]). deleted_at x \<and> fst x + gp = e \<Longrightarrow> grace_hinv gp (h @ [y]) (inactiveGrace_check e (fst y))"
  using grace_hinv_removed grace_hinv_grace by (simp add: transition_of_check)

lemma grace_hinv_active_check:
  "\<exists>x \<in> set (h @ [y]). deleted_at x \<and> fst x + gp = e \<Longrightarrow>
   grace_hinv gp (h @ [y]) (activeGrace_check e (fst y) a)"
  using grace_hinv_removed grace_hinv_grace by (simp add: activeGrace_check_eq)

lemma grace_hinv_new:
  assumes "\<not> \<not> apiAvailable (snd y)" and "\<not> apiParent (snd y)"
  shows "\<exists>x \<in> set (h @ [y]). deleted_at x \<and> fst x + gp = fst y + gp"
  using assms by (auto simp: deleted_at_def parent_deleted_def)

lemma grace_hinv_mono: "grace_hinv gp h s \<Longrightarrow> grace_hinv gp (h @ [y]) s"
proof (cases s)
  case stateRemove
  assume "grace_hinv gp h s"
  with stateRemove obtain h1 z h2
    where "h = h1 @ z # h2" "\<exists>x \<in> set (h1 @ [z]). deleted_at x \<and> fst x + gp \<le> fst z"
    unfolding grace_hinv_def by (simp only: checkpointState.case) blast
  then have "h @ [y] = h1 @ z # (h2 @ [y]) \<and> (\<exists>x \<in> set (h1 @ [z]). deleted_at x \<and> fst x + gp \<le> fst z)"
    by simp
  with stateRemove show ?thesis unfolding grace_hinv_def by (simp only: checkpointState.case) blast
qed (auto simp: grace_hinv_def)

interpretation grace: polled_machine "poll_step gp" "grace_hinv gp" for gp
proof unfold_locales
  fix h s and y :: poll
  assume h: "grace_hinv gp h s"
  note mono = grace_hinv_mono [OF h, of y]
  show "grace_hinv gp (h @ [y]) (poll_step gp y s)"
  proof (cases s)
    case (stateInactiveGracePeriod e)
    with mono have "\<exists>x \<in> set (h @ [y]). deleted_at x \<and> fst x + gp = e" by (simp add: grace_hinv_def)
    from grace_hinv_inactive_check [OF this] stateInactiveGracePeriod show ?thesis
      by (auto simp: poll_step_def inactiveGrace_transition_def)
  next
    case (stateActiveGracePeriod e)
    with mono have "\<exists>x \<in> set (h @ [y]). deleted_at x \<and> fst x + gp = e" by (simp add: grace_hinv_def)
    from grace_hinv_active_check [OF this, of "snd y"] stateActiveGracePeriod show ?thesis
      by (auto simp: poll_step_def activeGrace_transition_def)
  next
    case stateRemove
    with mono show ?thesis by (simp add: poll_step_def)
  qed (auto simp: poll_step_def transition_defs
      intro!: grace_hinv_inactive_check grace_hinv_active_check grace_hinv_new)
qed

interpretation removed: absorbing_machine "poll_step gp" "\<lambda>s. s = stateRemove" for gp
  by unfold_locales (simp add: poll_step_def)

interpretation demoted: absorbing_machine "poll_step gp" "\<lambda>s. s \<noteq> stateSelfCheckpointActive" for gp
proof unfold_locales
  fix s and i :: poll
  assume "s \<noteq> stateSelfCheckpointActive"
  then show "poll_step gp i s \<noteq> stateSelfCheckpointActive"
    by (cases s) (auto simp: poll_step_def transition_defs grace_check_defs)
qed

section \<open>Properties\<close>

text \<open>
  C3: A checkpoint is garbage collected only after its parent was seen deleted by an
  available apiserver at least one grace period earlier. For every sequence of polls from a
  state without a running grace period: if the run ends in \<open>stateRemove\<close>, then at some poll
  \<open>y\<close> of the run the grace period that began at a poll \<open>x\<close>, not after \<open>y\<close>, where the
  apiserver answered without the parent, was over.
\<close>

theorem removed_only_after_grace_period:
  assumes "s \<in> {stateSelfCheckpointActive, stateNone, stateInactive, stateActive}"
    and "fold (poll_step gp) polls s = stateRemove"
  shows "\<exists>before y after. polls = before @ y # after \<and>
           (\<exists>x \<in> set (before @ [y]). parent_deleted (snd x) \<and> fst x + gp \<le> fst y)"
proof -
  have "grace_hinv gp [] s" using assms(1) by auto
  then have "grace_hinv gp polls (fold (poll_step gp) polls s)" by (rule grace.hinv_reached)
  with assms(2) show ?thesis
    unfolding grace_hinv_def by (simp only: checkpointState.case deleted_at_def)
qed

theorem removed_only_after_grace_period_witness:
  "\<exists>before y after.
     [(10 :: time, \<lparr>apiAvailable = True, apiParent = False, localRunning = True, localParent = True\<rparr>),
      (70, \<lparr>apiAvailable = True, apiParent = False, localRunning = False, localParent = False\<rparr>)]
     = before @ y # after \<and>
       (\<exists>x \<in> set (before @ [y]). parent_deleted (snd x) \<and> fst x + 60 \<le> fst y)"
  by (rule removed_only_after_grace_period [where s = stateActive])
    (simp_all add: poll_step_def transition_defs grace_check_defs)

text \<open>
  C4: Garbage collection happens: if from a live state (the self-checkpoint's, inactive or
  active) every poll finds the apiserver available and the parent gone, the checkpoint is removed
  as soon as one of the polls comes a grace period after the first, and stays removed.
\<close>

lemma deleted_keeps_grace:
  assumes "parent_deleted (snd y)"
  shows "poll_step gp y (stateInactiveGracePeriod e) = (if e \<le> fst y then stateRemove else stateInactiveGracePeriod e)"
    and "poll_step gp y (stateActiveGracePeriod e) = (if e \<le> fst y then stateRemove else stateActiveGracePeriod e)"
  using transition_deleted [OF assms] by (simp_all add: poll_step_def transition_of_check)

theorem deleted_parent_is_collected:
  assumes live: "s \<in> {stateSelfCheckpointActive, stateInactive, stateActive}"
    and deleted: "\<forall>x \<in> set ((t0, a0) # polls). parent_deleted (snd x)"
    and late: "\<exists>x \<in> set ((t0, a0) # polls). t0 + gp \<le> fst x"
  shows "fold (poll_step gp) ((t0, a0) # polls) s = stateRemove"
proof -
  let ?grace = "\<lambda>s. s = stateInactiveGracePeriod (t0 + gp) \<or> s = stateActiveGracePeriod (t0 + gp)"
  from deleted have d0: "parent_deleted a0" by simp
  have first: "poll_step gp (t0, a0) s = stateRemove \<or> \<not> t0 + gp \<le> t0 \<and> ?grace (poll_step gp (t0, a0) s)"
    using live transition_deleted [OF d0]
    by (auto simp: poll_step_def transition_of_check split: if_splits)
  have "fold (poll_step gp) polls (poll_step gp (t0, a0) s) = stateRemove"
  proof (cases "poll_step gp (t0, a0) s = stateRemove")
    case True
    then show ?thesis by (rule removed.final_run)
  next
    case False
    with first late obtain x where x: "x \<in> set polls" "t0 + gp \<le> fst x" by auto
    show ?thesis
    proof (rule removed.reaches_final [OF x(1), where rel = ?grace])
      fix s assume "?grace s"
      with x deleted show "poll_step gp x s = stateRemove" by (auto simp: deleted_keeps_grace)
    next
      fix y s assume "y \<in> set polls" "?grace s"
      with deleted show "?grace (poll_step gp y s) \<or> poll_step gp y s = stateRemove"
        by (auto simp: deleted_keeps_grace split: if_splits)
    next
      show "?grace (poll_step gp (t0, a0) s)" using first False by simp
    qed
  qed
  then show ?thesis by simp
qed

theorem deleted_parent_is_collected_witness:
  "fold (poll_step 60)
     [(0, \<lparr>apiAvailable = True, apiParent = False, localRunning = True, localParent = True\<rparr>),
      (61, \<lparr>apiAvailable = True, apiParent = False, localRunning = True, localParent = False\<rparr>)]
     stateActive = stateRemove"
  by (rule deleted_parent_is_collected) (simp_all add: parent_deleted_def)

text \<open>
  C5: What a checkpoint is for: while the apiserver cannot be reached, the next state of a
  checkpoint asks for it to be started exactly when the pod does not run on the node, the
  checkpoint was not removed already and the pod has been seen on this node; the checkpointer's
  own checkpoint always asks to be started.
\<close>

theorem outage_activates_exactly_stopped_pods:
  assumes "\<not> apiAvailable a"
  shows "action (transition gp now a s) = A_start \<longleftrightarrow>
           s = stateSelfCheckpointActive \<or>
           \<not> localRunning a \<and> s \<noteq> stateRemove \<and> (s \<noteq> stateNone \<or> localParent a)"
  using assms by (cases s) (auto simp: transition_defs grace_check_defs)

theorem outage_activates_exactly_stopped_pods_witness:
  "action (transition 60 5 \<lparr>apiAvailable = False, apiParent = False, localRunning = False, localParent = False\<rparr>
     stateInactive) = A_start \<and>
   action (transition 60 5 \<lparr>apiAvailable = False, apiParent = False, localRunning = True, localParent = False\<rparr>
     stateActive) \<noteq> A_start"
  using outage_activates_exactly_stopped_pods
      [of "\<lparr>apiAvailable = False, apiParent = False, localRunning = False, localParent = False\<rparr>" 60 5 stateInactive]
    outage_activates_exactly_stopped_pods
      [of "\<lparr>apiAvailable = False, apiParent = False, localRunning = True, localParent = False\<rparr>" 60 5 stateActive]
  by simp

text \<open>The implementation a state belongs to, without its grace period end.\<close>

datatype stateKind = KSelf | KNone | KInactive | KInactiveGrace | KActive | KActiveGrace | KRemove

fun kind :: "checkpointState \<Rightarrow> stateKind" where
  "kind stateSelfCheckpointActive = KSelf"
| "kind stateNone = KNone"
| "kind stateInactive = KInactive"
| "kind (stateInactiveGracePeriod e) = KInactiveGrace"
| "kind stateActive = KActive"
| "kind (stateActiveGracePeriod e) = KActiveGrace"
| "kind stateRemove = KRemove"

text \<open>The edges the comments of \<open>state.go\<close> list, with the loops they leave implicit.\<close>

fun documented :: "stateKind \<Rightarrow> stateKind set" where
  "documented KSelf = {KSelf, KActiveGrace}"
| "documented KNone = {KNone, KInactive, KInactiveGrace, KActive}"
| "documented KInactive = {KInactive, KActive, KInactiveGrace}"
| "documented KInactiveGrace = {KInactiveGrace, KInactive, KActive, KRemove}"
| "documented KActive = {KActive, KInactive, KActiveGrace}"
| "documented KActiveGrace = {KActiveGrace, KActive, KInactive}"
| "documented KRemove = {KRemove}"

lemma transition_kind_sound:
  "0 < gp \<Longrightarrow> kind (transition gp now a s) \<in> documented (kind s) \<union> (if kind s = KActiveGrace then {KRemove} else {})"
  by (cases s) (auto simp: transition_defs grace_check_defs)

lemma transition_kind_complete:
  assumes "0 < gp" and "k \<in> documented (kind s) \<union> (if kind s = KActiveGrace then {KRemove} else {})"
  shows "\<exists>now a. kind (transition gp now a s) = k"
proof -
  let ?c = "\<lambda>av pa run lp. \<lparr>apiAvailable = av, apiParent = pa, localRunning = run, localParent = lp\<rparr>"
  have "\<exists>now \<in> {0, case s of stateInactiveGracePeriod e \<Rightarrow> e | stateActiveGracePeriod e \<Rightarrow> e | _ \<Rightarrow> 0,
      case s of stateInactiveGracePeriod e \<Rightarrow> e - 1 | stateActiveGracePeriod e \<Rightarrow> e - 1 | _ \<Rightarrow> 0}.
      \<exists>a \<in> {?c True True True True, ?c True True False True, ?c True False False False, ?c True False True True}.
        kind (transition gp now a s) = k"
    using assms by (cases s) (auto simp: transition_defs grace_check_defs)
  then show ?thesis by blast
qed

text \<open>
  With a positive grace period the transitions the code can make are exactly the ones its
  comments list, and one more: a checkpoint in \<open>stateActiveGracePeriod\<close> can be removed,
  although the comment on that type says it can only become active or inactive.
\<close>

lemma possible_transitions:
  assumes "0 < gp"
  shows "{kind (transition gp now a s) | now a. True}
       = documented (kind s) \<union> (if kind s = KActiveGrace then {KRemove} else {})"
  using transition_kind_sound [OF assms] transition_kind_complete [OF assms] by blast

lemma possible_transitions_witness:
  "KRemove \<in> {kind (transition 60 now a (stateActiveGracePeriod 7)) | now a. True}"
proof -
  have "(0::int) < 60" by simp
  from possible_transitions [OF this, of "stateActiveGracePeriod 7"] show ?thesis by simp
qed

text \<open>
  The checkpointer's own checkpoint is in its special state after a run of polls exactly
  when it was in it at the start and no poll found the apiserver available without the parent
  pod: one such poll takes it out of that state, and nothing ever brings it back.
\<close>

lemma self_checkpoint_kept_or_lost_for_good:
  "fold (poll_step gp) polls s = stateSelfCheckpointActive \<longleftrightarrow>
   s = stateSelfCheckpointActive \<and> (\<forall>x \<in> set polls. \<not> parent_deleted (snd x))"
proof (induction polls arbitrary: s)
  case Nil
  show ?case by simp
next
  case (Cons x xs)
  have "poll_step gp x s = stateSelfCheckpointActive \<longleftrightarrow>
        s = stateSelfCheckpointActive \<and> \<not> parent_deleted (snd x)"
    using demoted.final_step [of s gp x]
    by (cases "s = stateSelfCheckpointActive") (auto simp: poll_step_def self_transition_def parent_deleted_def grace_check_defs
        inactiveGrace_transition_def)
  with Cons.IH [of "poll_step gp x s"] show ?case by auto
qed

lemma self_checkpoint_kept_or_lost_for_good_witness:
  "fold (poll_step 60)
     [(0, \<lparr>apiAvailable = False, apiParent = False, localRunning = False, localParent = False\<rparr>),
      (5, \<lparr>apiAvailable = True, apiParent = True, localRunning = True, localParent = True\<rparr>)]
     stateSelfCheckpointActive = stateSelfCheckpointActive"
  by (subst self_checkpoint_kept_or_lost_for_good) (simp add: parent_deleted_def)

end
