(* ===== verification/CheckpointProcess.thy ===== *)
theory CheckpointProcess
  imports CheckpointPod CheckpointState
begin

text \<open>
  The in-memory checkpoints of \<open>pkg/checkpoint/process.go\<close> and their two operations:
  \<open>update\<close> merges what the disk, the kubelet and the API server report, \<open>process\<close> moves
  every checkpoint through its state machine and decides what to start, stop and remove.

  The code keeps pointers: while \<open>update\<close> runs, \<open>selfCheckpoint\<close> and one entry of the map
  are the same object. The model keeps the entry and reads the self-checkpoint back from it
  before the final search.
\<close>

record checkpoint =
  cp_name :: string
  cp_pod :: pod
  cp_state :: checkpointState

record checkpoints =
  cs_map :: "(string \<times> checkpoint) list"
  cs_self :: "checkpoint option"

definition checkpoint_String :: "checkpoint \<Rightarrow> string" where
  "checkpoint_String c = cp_name c @ '' ('' @ state_String (cp_state c) @ '')''"

section \<open>Updating\<close>

text \<open>
  One turn of the loops over checkpoints found on disk: an unknown one enters with the state of
  its directory, or as the self-checkpoint.
\<close>

definition addOnDisk ::
  "checkpointState \<Rightarrow> checkpointerPod \<Rightarrow> (string \<times> checkpoint) list \<Rightarrow> string \<times> pod \<Rightarrow> (string \<times> checkpoint) list" where
  "addOnDisk st cpPod m np =
     (case np of (name, pod) \<Rightarrow>
       (case map_of m name of
          Some _ \<Rightarrow> m
        | None \<Rightarrow>
            AList.update name
              \<lparr>cp_name = name, cp_pod = pod,
               cp_state = (if isPodCheckpointer pod cpPod then stateSelfCheckpointActive else st)\<rparr> m))"

text \<open>One turn of the loops over parents: an unknown one enters, and the pod is always replaced.\<close>

definition addParent :: "(string \<times> checkpoint) list \<Rightarrow> string \<times> pod \<Rightarrow> (string \<times> checkpoint) list" where
  "addParent m np =
     (case np of (name, pod) \<Rightarrow>
       (let cp = (case map_of m name of
                    Some cp \<Rightarrow> cp
                  | None \<Rightarrow> \<lparr>cp_name = name, cp_pod = pod, cp_state = stateNone\<rparr>)
        in AList.update name (cp\<lparr>cp_pod := pod\<rparr>) m))"

definition separateSelf :: "checkpointerPod \<Rightarrow> checkpoints \<Rightarrow> string \<times> checkpoint \<Rightarrow> checkpoints" where
  "separateSelf cpPod cs ncp =
     (case ncp of (_, cp) \<Rightarrow>
       (if isPodCheckpointer (cp_pod cp) cpPod then
          \<lparr>cs_map = AList.delete (cp_name cp) (cs_map cs),
           cs_self = Some (if action (cp_state cp) = A_none
                           then cp\<lparr>cp_state := stateSelfCheckpointActive\<rparr> else cp)\<rparr>
        else cs))"

definition update ::
  "checkpoints \<Rightarrow> podMap \<Rightarrow> podMap \<Rightarrow> podMap \<Rightarrow> podMap \<Rightarrow> podMap \<Rightarrow> checkpointerPod \<Rightarrow> checkpoints" where
  "update cs localRunningPods localParentPods apiParentPods activeCheckpoints inactiveCheckpoints cpPod =
     (let m0 = (case cs_self cs of None \<Rightarrow> cs_map cs | Some sc \<Rightarrow> AList.update (cp_name sc) sc (cs_map cs));
          m1 = foldl (addOnDisk stateActive cpPod) m0 activeCheckpoints;
          m2 = foldl (addOnDisk stateInactive cpPod) m1 inactiveCheckpoints;
          m3 = foldl addParent m2 localParentPods;
          m4 = foldl addParent m3 apiParentPods;
          self = (case cs_self cs of None \<Rightarrow> None | Some sc \<Rightarrow> map_of m4 (cp_name sc))
      in foldl (separateSelf cpPod) \<lparr>cs_map = m4, cs_self = self\<rparr> m4)"

section \<open>Processing\<close>

record actions =
  starts :: "string list"
  stops :: "string list"
  removes :: "string list"

definition noActions :: actions where
  "noActions = \<lparr>starts = [], stops = [], removes = []\<rparr>"

definition conditionOf :: "bool \<Rightarrow> podMap \<Rightarrow> podMap \<Rightarrow> podMap \<Rightarrow> string \<Rightarrow> apiCondition" where
  "conditionOf avail localRunningPods localParentPods apiParentPods name =
     \<lparr>apiAvailable = avail, apiParent = (map_of apiParentPods name \<noteq> None),
      localRunning = (map_of localRunningPods name \<noteq> None),
      localParent = (map_of localParentPods name \<noteq> None)\<rparr>"

text \<open>One turn of the loop over the checkpoints; \<open>cond\<close> is the condition of each name.\<close>

definition processOne ::
  "int \<Rightarrow> time \<Rightarrow> (string \<Rightarrow> apiCondition) \<Rightarrow> (string \<times> checkpoint) list \<times> actions \<Rightarrow> string \<times> checkpoint
   \<Rightarrow> (string \<times> checkpoint) list \<times> actions" where
  "processOne gp now cond ma ncp =
     (case ma of (m, a) \<Rightarrow> case ncp of (name, cp) \<Rightarrow>
       (let st = transition gp now (cond name) (cp_state cp) in
        if st = cp_state cp then (m, a)
        else if action (cp_state cp) \<noteq> action st then
          (case action st of
             A_none \<Rightarrow> (AList.update name (cp\<lparr>cp_state := st\<rparr>) m, a)
           | A_start \<Rightarrow> (AList.update name (cp\<lparr>cp_state := st\<rparr>) m, a\<lparr>starts := starts a @ [cp_name cp]\<rparr>)
           | A_stop \<Rightarrow> (AList.update name (cp\<lparr>cp_state := st\<rparr>) m, a\<lparr>stops := stops a @ [cp_name cp]\<rparr>)
           | A_remove \<Rightarrow> (AList.delete (cp_name cp) m, a\<lparr>removes := removes a @ [cp_name cp]\<rparr>))
        else (AList.update name (cp\<lparr>cp_state := st\<rparr>) m, a)))"

definition processAll ::
  "int \<Rightarrow> time \<Rightarrow> (string \<Rightarrow> apiCondition) \<Rightarrow> (string \<times> checkpoint) list \<Rightarrow> actions \<Rightarrow> (string \<times> checkpoint) list \<times> actions" where
  "processAll gp now cond m a = foldl (processOne gp now cond) (m, a) m"

text \<open>The names of the checkpoints that have any state on disk.\<close>

definition actingNames :: "(string \<times> checkpoint) list \<Rightarrow> string list" where
  "actingNames m = map fst (filter (\<lambda>(_, cp). action (cp_state cp) \<noteq> A_none) m)"

definition process ::
  "int \<Rightarrow> checkpoints \<Rightarrow> time \<Rightarrow> bool \<Rightarrow> podMap \<Rightarrow> podMap \<Rightarrow> podMap \<Rightarrow> checkpoints \<times> actions" where
  "process gp cs now avail localRunningPods localParentPods apiParentPods =
     (let cond = conditionOf avail localRunningPods localParentPods apiParentPods in
      case cs_self cs of
        None \<Rightarrow> (let (m, a) = processAll gp now cond (cs_map cs) noActions in (cs\<lparr>cs_map := m\<rparr>, a))
      | Some sc \<Rightarrow>
        (let sc' = sc\<lparr>cp_state := transition gp now (cond (cp_name sc)) (cp_state sc)\<rparr> in
         case action (cp_state sc') of
           A_none \<Rightarrow>
             (let (m, a) = processAll gp now cond (cs_map cs) noActions
              in (\<lparr>cs_map = m, cs_self = Some sc'\<rparr>, a))
         | A_start \<Rightarrow>
             (let (m, a) = processAll gp now cond (cs_map cs) (noActions\<lparr>starts := [cp_name sc']\<rparr>)
              in (\<lparr>cs_map = m, cs_self = Some sc'\<rparr>, a))
         | A_stop \<Rightarrow>
             (cs\<lparr>cs_self := Some sc'\<rparr>,
              noActions\<lparr>stops := sort_Strings (actingNames (cs_map cs)) @ [cp_name sc']\<rparr>)
         | A_remove \<Rightarrow>
             (\<lparr>cs_map = AList.delete (cp_name sc') (filter (\<lambda>(_, cp). action (cp_state cp) = A_none) (cs_map cs)),
               cs_self = None\<rparr>,
              noActions\<lparr>removes := sort_Strings (actingNames (cs_map cs)) @ [cp_name sc']\<rparr>)))"

section \<open>What the loops compute\<close>

lemma addOnDisk_pair:
  "addOnDisk st c m (name, pod) =
     (case map_of m name of Some _ \<Rightarrow> m
      | None \<Rightarrow> AList.update name \<lparr>cp_name = name, cp_pod = pod,
          cp_state = (if isPodCheckpointer pod c then stateSelfCheckpointActive else st)\<rparr> m)"
  by (simp add: addOnDisk_def)

lemma addParent_pair:
  "addParent m (name, pod) =
     AList.update name ((case map_of m name of Some cp \<Rightarrow> cp
        | None \<Rightarrow> \<lparr>cp_name = name, cp_pod = pod, cp_state = stateNone\<rparr>)\<lparr>cp_pod := pod\<rparr>) m"
  by (simp add: addParent_def)

lemma separateSelf_pair:
  "separateSelf c cs (name, cp) =
     (if isPodCheckpointer (cp_pod cp) c then
        \<lparr>cs_map = AList.delete (cp_name cp) (cs_map cs),
         cs_self = Some (if action (cp_state cp) = A_none then cp\<lparr>cp_state := stateSelfCheckpointActive\<rparr> else cp)\<rparr>
      else cs)"
  by (simp add: separateSelf_def)

lemma map_of_addOnDisk:
  "map_of (foldl (addOnDisk st c) m ps) k =
     (case map_of m k of Some cp \<Rightarrow> Some cp
      | None \<Rightarrow> map_option (\<lambda>pod. \<lparr>cp_name = k, cp_pod = pod,
          cp_state = (if isPodCheckpointer pod c then stateSelfCheckpointActive else st)\<rparr>) (map_of ps k))"
proof (induction ps arbitrary: m)
  case (Cons np ps)
  show ?case by (cases np) (auto simp: Cons.IH addOnDisk_pair split: option.splits)
qed (simp split: option.splits)

lemma map_of_addParent:
  "distinct (map fst ps) \<Longrightarrow> map_of (foldl addParent m ps) k =
     (case map_of ps k of None \<Rightarrow> map_of m k
      | Some pod \<Rightarrow> Some (case map_of m k of Some cp \<Rightarrow> cp\<lparr>cp_pod := pod\<rparr>
                        | None \<Rightarrow> \<lparr>cp_name = k, cp_pod = pod, cp_state = stateNone\<rparr>))"
proof (induction ps arbitrary: m)
  case (Cons np ps)
  obtain n p where np: "np = (n, p)" by (cases np)
  have n: "map_of ps n = None" using Cons.prems np by (simp add: map_of_eq_None_iff)
  show ?case
    using Cons.prems n by (auto simp: np Cons.IH addParent_pair split: option.splits)
qed simp

lemma distinct_addOnDisk: "distinct (map fst m) \<Longrightarrow> distinct (map fst (foldl (addOnDisk st c) m ps))"
proof (induction ps arbitrary: m)
  case (Cons np ps)
  then show ?case by (cases np) (auto simp: addOnDisk_pair distinct_update split: option.splits)
qed simp

lemma distinct_addParent: "distinct (map fst m) \<Longrightarrow> distinct (map fst (foldl addParent m ps))"
proof (induction ps arbitrary: m)
  case (Cons np ps)
  then show ?case by (cases np) (simp add: addParent_pair distinct_update)
qed simp

section \<open>Well-formed checkpoints\<close>

text \<open>The full name of the checkpointer's own pod.\<close>

definition selfName :: "checkpointerPod \<Rightarrow> string" where
  "selfName c = PodNamespace c @ ''/'' @ trimSuffix (PodName c) (''-'' @ NodeName c)"

definition podMap_ok :: "podMap \<Rightarrow> bool" where
  "podMap_ok ps \<longleftrightarrow> distinct (map fst ps) \<and>
     list_all (\<lambda>(k, p). podFullName p = k \<and> slash \<notin> set (pod_Namespace p)) ps"

definition cp_ok :: "string \<Rightarrow> checkpoint \<Rightarrow> bool" where
  "cp_ok k cp \<longleftrightarrow> cp_name cp = k \<and> podFullName (cp_pod cp) = k \<and> slash \<notin> set (pod_Namespace (cp_pod cp))"

definition self_ok :: "checkpointerPod \<Rightarrow> checkpoint \<Rightarrow> bool" where
  "self_ok c sc \<longleftrightarrow> cp_ok (selfName c) sc \<and> cp_state sc \<noteq> stateNone \<and> cp_state sc \<noteq> stateRemove"

definition cps_inv :: "checkpointerPod \<Rightarrow> checkpoints \<Rightarrow> bool" where
  "cps_inv c cs \<longleftrightarrow> distinct (map fst (cs_map cs)) \<and>
     list_all (\<lambda>(k, cp). cp_ok k cp \<and> k \<noteq> selfName c \<and> cp_state cp \<noteq> stateRemove
        \<and> cp_state cp \<noteq> stateSelfCheckpointActive) (cs_map cs) \<and>
     (case cs_self cs of None \<Rightarrow> True | Some sc \<Rightarrow> self_ok c sc)"

lemma isPodCheckpointer_iff:
  assumes "slash \<notin> set (pod_Namespace p)" "slash \<notin> set (PodNamespace c)"
  shows "isPodCheckpointer p c \<longleftrightarrow> podFullName p = selfName c"
proof -
  have "splitOn slash (podFullName p) = pod_Namespace p # splitOn slash (pod_Name p)"
    and "splitOn slash (selfName c) = PodNamespace c # splitOn slash (trimSuffix (PodName c) (''-'' @ NodeName c))"
    using assms by (simp_all add: podFullName_def selfName_def splitOn_append_sep)
  then have "podFullName p = selfName c \<Longrightarrow> pod_Namespace p = PodNamespace c" by simp
  then show ?thesis by (auto simp: isPodCheckpointer_def podFullName_def selfName_def)
qed

lemma podMap_ok_lookup:
  "podMap_ok ps \<Longrightarrow> map_of ps k = Some p \<Longrightarrow> podFullName p = k \<and> slash \<notin> set (pod_Namespace p)"
  by (auto simp: podMap_ok_def list_all_iff dest!: map_of_SomeD)

lemma podMap_ok_distinct [simp]: "podMap_ok ps \<Longrightarrow> distinct (map fst ps)"
  by (simp add: podMap_ok_def)

lemma list_all_map_of:
  "distinct (map fst m) \<Longrightarrow> list_all (\<lambda>(k, v). P k v) m \<longleftrightarrow> (\<forall>k v. map_of m k = Some v \<longrightarrow> P k v)"
  by (auto simp: list_all_iff)

text \<open>The invariant in terms of lookups.\<close>

lemma cps_inv_lookup:
  "cps_inv c cs \<longleftrightarrow> distinct (map fst (cs_map cs)) \<and>
     (\<forall>k cp. map_of (cs_map cs) k = Some cp \<longrightarrow> cp_ok k cp \<and> k \<noteq> selfName c \<and> cp_state cp \<noteq> stateRemove
        \<and> cp_state cp \<noteq> stateSelfCheckpointActive) \<and>
     (\<forall>sc. cs_self cs = Some sc \<longrightarrow> self_ok c sc)"
  by (cases "distinct (map fst (cs_map cs))") (simp_all add: cps_inv_def list_all_map_of split: option.splits)

section \<open>The specification of \<open>update\<close>\<close>

text \<open>
  What is known of a name: the checkpoint in memory, else the one on disk, active before
  inactive; its pod is the API server's parent, else the kubelet's, else the one already known.
\<close>

definition known :: "checkpoints \<Rightarrow> string \<Rightarrow> checkpoint option" where
  "known cs k = (case cs_self cs of
      Some sc \<Rightarrow> if k = cp_name sc then Some sc else map_of (cs_map cs) k
    | None \<Rightarrow> map_of (cs_map cs) k)"

definition fromDisk :: "checkpointerPod \<Rightarrow> podMap \<Rightarrow> podMap \<Rightarrow> string \<Rightarrow> checkpoint option" where
  "fromDisk c active inactive k =
     (case (map_of active k, map_of inactive k) of
        (Some p, _) \<Rightarrow> Some \<lparr>cp_name = k, cp_pod = p,
          cp_state = (if isPodCheckpointer p c then stateSelfCheckpointActive else stateActive)\<rparr>
      | (None, Some p) \<Rightarrow> Some \<lparr>cp_name = k, cp_pod = p,
          cp_state = (if isPodCheckpointer p c then stateSelfCheckpointActive else stateInactive)\<rparr>
      | (None, None) \<Rightarrow> None)"

definition parentPod :: "podMap \<Rightarrow> podMap \<Rightarrow> string \<Rightarrow> pod option" where
  "parentPod localParents apiParents k =
     (case map_of apiParents k of Some p \<Rightarrow> Some p | None \<Rightarrow> map_of localParents k)"

definition merged :: "checkpointerPod \<Rightarrow> checkpoints \<Rightarrow> podMap \<Rightarrow> podMap \<Rightarrow> podMap \<Rightarrow> podMap \<Rightarrow> string \<Rightarrow> checkpoint option" where
  "merged c cs localParents apiParents active inactive k =
     (let base = (case known cs k of Some cp \<Rightarrow> Some cp | None \<Rightarrow> fromDisk c active inactive k) in
      case parentPod localParents apiParents k of
        None \<Rightarrow> base
      | Some pod \<Rightarrow> Some (case base of Some cp \<Rightarrow> cp\<lparr>cp_pod := pod\<rparr>
                        | None \<Rightarrow> \<lparr>cp_name = k, cp_pod = pod, cp_state = stateNone\<rparr>))"

definition asSelf :: "checkpoint \<Rightarrow> checkpoint" where
  "asSelf cp = (if action (cp_state cp) = A_none then cp\<lparr>cp_state := stateSelfCheckpointActive\<rparr> else cp)"

text \<open>The map before the self-checkpoint is taken out.\<close>

definition mergeMaps :: "checkpoints \<Rightarrow> podMap \<Rightarrow> podMap \<Rightarrow> podMap \<Rightarrow> podMap \<Rightarrow> checkpointerPod \<Rightarrow> (string \<times> checkpoint) list" where
  "mergeMaps cs lp ap act ina c =
     foldl addParent (foldl addParent (foldl (addOnDisk stateInactive c) (foldl (addOnDisk stateActive c)
       (case cs_self cs of None \<Rightarrow> cs_map cs | Some sc \<Rightarrow> AList.update (cp_name sc) sc (cs_map cs)) act) ina) lp) ap"

lemma update_mergeMaps:
  "update cs lr lp ap act ina c =
     (let m = mergeMaps cs lp ap act ina c
      in foldl (separateSelf c) \<lparr>cs_map = m,
           cs_self = (case cs_self cs of None \<Rightarrow> None | Some sc \<Rightarrow> map_of m (cp_name sc))\<rparr> m)"
  by (simp add: update_def mergeMaps_def)

lemma map_of_mergeMaps:
  assumes "podMap_ok lp" "podMap_ok ap"
  shows "map_of (mergeMaps cs lp ap act ina c) k = merged c cs lp ap act ina k"
  using assms
  by (cases "map_of ap k"; cases "map_of lp k"; cases "map_of act k"; cases "map_of ina k";
      cases "cs_self cs"; cases "map_of (cs_map cs) k")
    (simp_all add: mergeMaps_def merged_def known_def fromDisk_def parentPod_def map_of_addParent map_of_addOnDisk)

lemma distinct_mergeMaps: "distinct (map fst (cs_map cs)) \<Longrightarrow> distinct (map fst (mergeMaps cs lp ap act ina c))"
  by (simp add: mergeMaps_def distinct_addParent distinct_addOnDisk distinct_update split: option.splits)

lemma separateSelf_fold:
  assumes "distinct (map fst es)"
    and "\<And>k cp. (k, cp) \<in> set es \<Longrightarrow> cp_name cp = k \<and> (isPodCheckpointer (cp_pod cp) c \<longleftrightarrow> k = self)"
  shows "map_of (cs_map (foldl (separateSelf c) cs es)) k =
       (if k = self \<and> map_of es self \<noteq> None then None else map_of (cs_map cs) k)
   \<and> cs_self (foldl (separateSelf c) cs es) =
       (case map_of es self of Some cp \<Rightarrow> Some (asSelf cp) | None \<Rightarrow> cs_self cs)"
  using assms
proof (induction es arbitrary: cs)
  case (Cons e es)
  obtain n cp where e: "e = (n, cp)" by (cases e)
  have n: "map_of es n = None" using Cons.prems(1) e by (simp add: map_of_eq_None_iff)
  have cp: "cp_name cp = n" "isPodCheckpointer (cp_pod cp) c \<longleftrightarrow> n = self" using Cons.prems(2) [of n cp] e by auto
  have IH: "map_of (cs_map (foldl (separateSelf c) cs' es)) k =
       (if k = self \<and> map_of es self \<noteq> None then None else map_of (cs_map cs') k)
   \<and> cs_self (foldl (separateSelf c) cs' es) =
       (case map_of es self of Some cp \<Rightarrow> Some (asSelf cp) | None \<Rightarrow> cs_self cs')" for cs'
  proof (rule Cons.IH)
    show "cp_name cp' = k' \<and> (isPodCheckpointer (cp_pod cp') c \<longleftrightarrow> k' = self)" if "(k', cp') \<in> set es" for k' cp'
      using Cons.prems(2) [of k' cp'] that by simp
  qed (use Cons.prems(1) in simp)
  show ?case
  proof (cases "n = self")
    case True
    then show ?thesis using IH [of "separateSelf c cs e"] n cp by (simp add: e separateSelf_pair asSelf_def)
  next
    case False
    then have "separateSelf c cs e = cs" using cp by (simp add: e separateSelf_pair)
    with False show ?thesis using IH [of cs] by (simp add: e)
  qed
qed simp

lemma distinct_separateSelf: "distinct (map fst (cs_map cs)) \<Longrightarrow> distinct (map fst (cs_map (foldl (separateSelf c) cs es)))"
proof (induction es arbitrary: cs)
  case (Cons e es)
  then show ?case by (cases e) (simp add: separateSelf_pair distinct_delete)
qed simp

lemma merged_ok:
  assumes "cps_inv c cs" "slash \<notin> set (PodNamespace c)"
    and "podMap_ok lp" "podMap_ok ap" "podMap_ok act" "podMap_ok ina"
    and m: "merged c cs lp ap act ina k = Some cp"
  shows "cp_ok k cp \<and> cp_state cp \<noteq> stateRemove \<and> (cp_state cp = stateSelfCheckpointActive \<longrightarrow> k = selfName c)"
proof -
  define good where "good k cp \<longleftrightarrow> cp_ok k cp \<and> cp_state cp \<noteq> stateRemove
      \<and> (cp_state cp = stateSelfCheckpointActive \<longrightarrow> k = selfName c)" for k cp
  have 1: "good k cp" if "known cs k = Some cp" for cp
    using that assms(1) by (auto simp: good_def known_def cps_inv_lookup self_ok_def cp_ok_def split: option.splits if_splits)
  have 2: "good k cp" if "fromDisk c act ina k = Some cp" for cp
    using that podMap_ok_lookup [OF assms(5)] podMap_ok_lookup [OF assms(6)] isPodCheckpointer_iff [OF _ assms(2)]
    by (auto simp: good_def fromDisk_def cp_ok_def split: option.splits if_splits)
  have 3: "podFullName p = k \<and> slash \<notin> set (pod_Namespace p)" if "parentPod lp ap k = Some p" for p
    using that podMap_ok_lookup [OF assms(3)] podMap_ok_lookup [OF assms(4)]
    by (auto simp: parentPod_def split: option.splits)
  have "good k cp"
    using m 1 2 3 by (auto simp: merged_def Let_def good_def cp_ok_def split: option.splits)
  then show ?thesis by (simp add: good_def)
qed

lemma update_result:
  assumes inv: "cps_inv c cs" and c: "slash \<notin> set (PodNamespace c)"
    and ok: "podMap_ok lp" "podMap_ok ap" "podMap_ok act" "podMap_ok ina"
  shows "map_of (cs_map (update cs lr lp ap act ina c)) k =
           (if k = selfName c then None else merged c cs lp ap act ina k)"
    and "cs_self (update cs lr lp ap act ina c) = map_option asSelf (merged c cs lp ap act ina (selfName c))"
    and "distinct (map fst (cs_map (update cs lr lp ap act ina c)))"
proof -
  let ?m = "mergeMaps cs lp ap act ina c"
  have dist: "distinct (map fst ?m)" using inv by (intro distinct_mergeMaps) (simp add: cps_inv_def)
  note look = map_of_mergeMaps [OF ok(1,2), of cs act ina c]
  have es: "cp_name cp = k \<and> (isPodCheckpointer (cp_pod cp) c \<longleftrightarrow> k = selfName c)" if "(k, cp) \<in> set ?m" for k cp
  proof -
    have "merged c cs lp ap act ina k = Some cp" using that dist look [of k] by (metis map_of_is_SomeI)
    from merged_ok [OF inv c ok this] show ?thesis using isPodCheckpointer_iff [OF _ c] by (auto simp: cp_ok_def)
  qed
  have old: "cs_self cs = None" if "merged c cs lp ap act ina (selfName c) = None"
    using that inv by (auto simp: merged_def known_def cps_inv_def self_ok_def cp_ok_def Let_def split: option.splits)
  note fold = separateSelf_fold [OF dist es]
  show "map_of (cs_map (update cs lr lp ap act ina c)) k =
           (if k = selfName c then None else merged c cs lp ap act ina k)"
    using fold by (auto simp: update_mergeMaps look Let_def)
  show "cs_self (update cs lr lp ap act ina c) = map_option asSelf (merged c cs lp ap act ina (selfName c))"
    using fold old by (auto simp: update_mergeMaps look Let_def split: option.splits)
  show "distinct (map fst (cs_map (update cs lr lp ap act ina c)))"
    using dist by (simp add: update_mergeMaps Let_def distinct_separateSelf)
qed

lemma action_simps [simp]:
  "action s = A_none \<longleftrightarrow> s = stateNone" "action s = A_remove \<longleftrightarrow> s = stateRemove"
  by (cases s; simp)+

lemma update_keeps_inv:
  assumes inv: "cps_inv c cs" and c: "slash \<notin> set (PodNamespace c)"
    and ok: "podMap_ok lp" "podMap_ok ap" "podMap_ok act" "podMap_ok ina"
  shows "cps_inv c (update cs lr lp ap act ina c)"
  unfolding cps_inv_lookup
proof (intro conjI allI impI)
  note res = update_result [OF inv c ok, of lr]
  show "distinct (map fst (cs_map (update cs lr lp ap act ina c)))" by (rule res)
  show "self_ok c sc" if "cs_self (update cs lr lp ap act ina c) = Some sc" for sc
  proof -
    from that res(2) obtain cp where "merged c cs lp ap act ina (selfName c) = Some cp" "sc = asSelf cp" by auto
    with merged_ok [OF inv c ok] show ?thesis by (simp add: self_ok_def asSelf_def cp_ok_def)
  qed
  fix k cp assume "map_of (cs_map (update cs lr lp ap act ina c)) k = Some cp"
  then have k: "k \<noteq> selfName c" and m: "merged c cs lp ap act ina k = Some cp" using res(1) by (simp_all split: if_splits)
  from merged_ok [OF inv c ok m] k
  show "cp_ok k cp" "k \<noteq> selfName c" "cp_state cp \<noteq> stateRemove" "cp_state cp \<noteq> stateSelfCheckpointActive" by auto
qed

section \<open>What \<open>process\<close> computes\<close>

text \<open>The state after one poll, and whether the action changed to \<open>x\<close>.\<close>

definition next_state :: "int \<Rightarrow> time \<Rightarrow> (string \<Rightarrow> apiCondition) \<Rightarrow> string \<Rightarrow> checkpoint \<Rightarrow> checkpointState" where
  "next_state gp now cond k cp = transition gp now (cond k) (cp_state cp)"

definition moved :: "int \<Rightarrow> time \<Rightarrow> (string \<Rightarrow> apiCondition) \<Rightarrow> checkpointAction \<Rightarrow> string \<times> checkpoint \<Rightarrow> bool" where
  "moved gp now cond x kcp =
     (case kcp of (k, cp) \<Rightarrow> action (next_state gp now cond k cp) = x \<and> action (cp_state cp) \<noteq> x)"

lemma processOne_map:
  "cp_name cp = n \<Longrightarrow> map_of (fst (processOne gp now cond (m, a) (n, cp))) k =
     (if k \<noteq> n \<or> next_state gp now cond n cp = cp_state cp then map_of m k
      else if moved gp now cond A_remove (n, cp) then None
      else Some (cp\<lparr>cp_state := next_state gp now cond n cp\<rparr>))"
  by (auto simp: processOne_def next_state_def moved_def Let_def split: checkpointAction.splits)

lemma processOne_actions:
  assumes "cp_name cp = n"
  shows "starts (snd (processOne gp now cond (m, a) (n, cp))) = starts a @ (if moved gp now cond A_start (n, cp) then [n] else [])"
    and "stops (snd (processOne gp now cond (m, a) (n, cp))) = stops a @ (if moved gp now cond A_stop (n, cp) then [n] else [])"
    and "removes (snd (processOne gp now cond (m, a) (n, cp))) = removes a @ (if moved gp now cond A_remove (n, cp) then [n] else [])"
  using assms
  by (auto simp: processOne_def next_state_def moved_def Let_def split: checkpointAction.splits)

lemma distinct_processOne: "distinct (map fst m) \<Longrightarrow> distinct (map fst (fst (processOne gp now cond (m, a) ncp)))"
  by (cases ncp) (auto simp: processOne_def Let_def distinct_update distinct_delete split: checkpointAction.splits)

lemma processAll_fold:
  assumes "distinct (map fst es)" "list_all (\<lambda>(k, cp). cp_name cp = k) es"
  shows "map_of (fst (foldl (processOne gp now cond) (m, a) es)) k =
     (case map_of es k of None \<Rightarrow> map_of m k
      | Some cp \<Rightarrow> if next_state gp now cond k cp = cp_state cp then map_of m k
                  else if moved gp now cond A_remove (k, cp) then None
                  else Some (cp\<lparr>cp_state := next_state gp now cond k cp\<rparr>))"
    and "starts (snd (foldl (processOne gp now cond) (m, a) es)) = starts a @ map fst (filter (moved gp now cond A_start) es)"
    and "stops (snd (foldl (processOne gp now cond) (m, a) es)) = stops a @ map fst (filter (moved gp now cond A_stop) es)"
    and "removes (snd (foldl (processOne gp now cond) (m, a) es)) = removes a @ map fst (filter (moved gp now cond A_remove) es)"
    and "distinct (map fst m) \<Longrightarrow> distinct (map fst (fst (foldl (processOne gp now cond) (m, a) es)))"
  using assms
proof (induction es arbitrary: m a)
  case Nil
  { case 1 show ?case by simp }
  { case 2 show ?case by simp }
  { case 3 show ?case by simp }
  { case 4 show ?case by simp }
  { case 5 then show ?case by simp }
next
  case (Cons e es)
  obtain n cp where e: "e = (n, cp)" by (cases e)
  { case 1
    let ?p = "processOne gp now cond (m, a) e"
    have n: "map_of es n = None" and cp: "cp_name cp = n" using 1 by (simp_all add: e map_of_eq_None_iff)
    show ?case
      using 1 n Cons.IH(1) [of "fst ?p" "snd ?p"] processOne_map [OF cp, of gp now cond m a]
      by (auto simp: e split: option.splits) }
  { case 2
    then show ?case
      using Cons.IH(2) [of "fst (processOne gp now cond (m, a) e)" "snd (processOne gp now cond (m, a) e)"]
      by (simp add: e processOne_actions) }
  { case 3
    then show ?case
      using Cons.IH(3) [of "fst (processOne gp now cond (m, a) e)" "snd (processOne gp now cond (m, a) e)"]
      by (simp add: e processOne_actions) }
  { case 4
    then show ?case
      using Cons.IH(4) [of "fst (processOne gp now cond (m, a) e)" "snd (processOne gp now cond (m, a) e)"]
      by (simp add: e processOne_actions) }
  { case 5
    then show ?case
      using Cons.IH(5) [of "fst (processOne gp now cond (m, a) e)" "snd (processOne gp now cond (m, a) e)"]
        distinct_processOne [of m gp now cond a e] by simp }
qed

lemma processAll_result:
  assumes "distinct (map fst m)" "list_all (\<lambda>(k, cp). cp_name cp = k) m"
  shows "map_of (fst (processAll gp now cond m a)) k =
     (case map_of m k of None \<Rightarrow> None
      | Some cp \<Rightarrow> if moved gp now cond A_remove (k, cp) then None
                  else Some (cp\<lparr>cp_state := next_state gp now cond k cp\<rparr>))"
    and "snd (processAll gp now cond m a) =
       \<lparr>starts = starts a @ map fst (filter (moved gp now cond A_start) m),
        stops = stops a @ map fst (filter (moved gp now cond A_stop) m),
        removes = removes a @ map fst (filter (moved gp now cond A_remove) m)\<rparr>"
    and "distinct (map fst (fst (processAll gp now cond m a)))"
  using processAll_fold [OF assms, where gp = gp and now = now and cond = cond and m = m and a = a] assms(1)
  by (auto simp: processAll_def moved_def split: option.splits)

lemma transition_self_iff:
  "transition gp now a s = stateSelfCheckpointActive \<Longrightarrow> s = stateSelfCheckpointActive"
  using demoted.final_step [of s gp "(now, a)"] by (auto simp: poll_step_def)

lemma transition_none_iff: "transition gp now a s = stateNone \<Longrightarrow> s = stateNone"
  by (cases s) (auto simp: transition_defs grace_check_defs split: if_splits)

lemma process_cases:
  assumes inv: "cps_inv c cs"
  obtains (alone) "cs_self cs = None"
      "process gp cs now avail lr lp ap =
         (cs\<lparr>cs_map := fst (processAll gp now (conditionOf avail lr lp ap) (cs_map cs) noActions)\<rparr>,
          snd (processAll gp now (conditionOf avail lr lp ap) (cs_map cs) noActions))"
  | (running) sc where "cs_self cs = Some sc" "self_ok c sc"
      "action (transition gp now (conditionOf avail lr lp ap (cp_name sc)) (cp_state sc)) = A_start"
      "process gp cs now avail lr lp ap =
         (\<lparr>cs_map = fst (processAll gp now (conditionOf avail lr lp ap) (cs_map cs) (noActions\<lparr>starts := [cp_name sc]\<rparr>)),
           cs_self = Some (sc\<lparr>cp_state := transition gp now (conditionOf avail lr lp ap (cp_name sc)) (cp_state sc)\<rparr>)\<rparr>,
          snd (processAll gp now (conditionOf avail lr lp ap) (cs_map cs) (noActions\<lparr>starts := [cp_name sc]\<rparr>)))"
  | (stopped) sc where "cs_self cs = Some sc" "self_ok c sc"
      "action (transition gp now (conditionOf avail lr lp ap (cp_name sc)) (cp_state sc)) = A_stop"
      "process gp cs now avail lr lp ap =
         (cs\<lparr>cs_self := Some (sc\<lparr>cp_state := transition gp now (conditionOf avail lr lp ap (cp_name sc)) (cp_state sc)\<rparr>)\<rparr>,
          noActions\<lparr>stops := sort_Strings (actingNames (cs_map cs)) @ [cp_name sc]\<rparr>)"
  | (gone) sc where "cs_self cs = Some sc" "self_ok c sc"
      "transition gp now (conditionOf avail lr lp ap (cp_name sc)) (cp_state sc) = stateRemove"
      "process gp cs now avail lr lp ap =
         (\<lparr>cs_map = AList.delete (cp_name sc) (filter (\<lambda>(_, cp). cp_state cp = stateNone) (cs_map cs)), cs_self = None\<rparr>,
          noActions\<lparr>removes := sort_Strings (actingNames (cs_map cs)) @ [cp_name sc]\<rparr>)"
proof (cases "cs_self cs")
  case None
  then show thesis by (intro alone) (simp_all add: process_def Let_def case_prod_beta)
next
  case (Some sc)
  then have ok: "self_ok c sc" using inv by (simp add: cps_inv_def)
  let ?st = "transition gp now (conditionOf avail lr lp ap (cp_name sc)) (cp_state sc)"
  have "?st \<noteq> stateNone" using ok transition_none_iff by (auto simp: self_ok_def)
  then consider "action ?st = A_start" | "action ?st = A_stop" | "?st = stateRemove"
    by (cases "action ?st") auto
  then show thesis
  proof cases
    case 1
    then show thesis using Some ok by (intro running [of sc]) (simp_all add: process_def Let_def case_prod_beta)
  next
    case 2
    then show thesis using Some ok by (intro stopped [of sc]) (simp_all add: process_def Let_def)
  next
    case 3
    then show thesis using Some ok by (intro gone [of sc]) (simp_all add: process_def Let_def)
  qed
qed

lemma cps_inv_map: "cps_inv c cs \<Longrightarrow> distinct (map fst (cs_map cs)) \<and> list_all (\<lambda>(k, cp). cp_name cp = k) (cs_map cs)"
  by (auto simp: cps_inv_def cp_ok_def list_all_iff)

lemma processAll_keeps:
  assumes inv: "cps_inv c cs"
    and l: "map_of (fst (processAll gp now cond (cs_map cs) a)) k = Some cp"
  shows "cp_ok k cp \<and> k \<noteq> selfName c \<and> cp_state cp \<noteq> stateRemove \<and> cp_state cp \<noteq> stateSelfCheckpointActive"
proof -
  from l obtain old where old: "map_of (cs_map cs) k = Some old" "\<not> moved gp now cond A_remove (k, old)"
    and cp: "cp = old\<lparr>cp_state := next_state gp now cond k old\<rparr>"
    using processAll_result(1) [of "cs_map cs" gp now cond a k] cps_inv_map [OF inv] by (auto split: option.splits if_splits)
  from old(1) inv have "cp_ok k old" "k \<noteq> selfName c" "cp_state old \<noteq> stateRemove" "cp_state old \<noteq> stateSelfCheckpointActive"
    by (auto simp: cps_inv_lookup)
  with old(2) cp transition_self_iff show ?thesis by (auto simp: cp_ok_def moved_def next_state_def)
qed

lemma process_keeps_inv:
  assumes inv: "cps_inv c cs"
  shows "cps_inv c (fst (process gp cs now avail lr lp ap))"
proof (cases rule: process_cases [OF inv, of gp now avail lr lp ap, case_names alone running stopped gone])
  case alone
  then show ?thesis
    using processAll_keeps [OF inv] processAll_result(3) cps_inv_map [OF inv] by (simp add: cps_inv_lookup)
next
  case (running sc)
  have "self_ok c (sc\<lparr>cp_state := transition gp now (conditionOf avail lr lp ap (cp_name sc)) (cp_state sc)\<rparr>)"
    using running(2,3) transition_none_iff by (auto simp: self_ok_def cp_ok_def)
  then show ?thesis
    using running processAll_keeps [OF inv] processAll_result(3) cps_inv_map [OF inv] by (simp add: cps_inv_lookup)
next
  case (stopped sc)
  have "self_ok c (sc\<lparr>cp_state := transition gp now (conditionOf avail lr lp ap (cp_name sc)) (cp_state sc)\<rparr>)"
    using stopped(2,3) transition_none_iff by (auto simp: self_ok_def cp_ok_def)
  then show ?thesis using stopped inv by (simp add: cps_inv_def)
next
  case (gone sc)
  then show ?thesis using inv
    by (simp add: cps_inv_def AList.delete_eq distinct_map_filter list_all_iff)
qed

section \<open>Runs\<close>

text \<open>What one poll of the main loop learns, and what it does to the checkpoints in memory.\<close>

record pollInput =
  pi_now :: time
  pi_avail :: bool
  pi_running :: podMap
  pi_localParents :: podMap
  pi_apiParents :: podMap
  pi_active :: podMap
  pi_inactive :: podMap

definition cycle :: "int \<Rightarrow> checkpointerPod \<Rightarrow> checkpoints \<Rightarrow> pollInput \<Rightarrow> checkpoints \<times> actions" where
  "cycle gp c cs i =
     process gp (update cs (pi_running i) (pi_localParents i) (pi_apiParents i) (pi_active i) (pi_inactive i) c)
       (pi_now i) (pi_avail i) (pi_running i) (pi_localParents i) (pi_apiParents i)"

fun run_actions :: "int \<Rightarrow> checkpointerPod \<Rightarrow> checkpoints \<Rightarrow> pollInput list \<Rightarrow> actions list" where
  "run_actions gp c cs [] = []"
| "run_actions gp c cs (i # is) = (let (cs', a) = cycle gp c cs i in a # run_actions gp c cs' is)"

definition input_ok :: "pollInput \<Rightarrow> bool" where
  "input_ok i \<longleftrightarrow> podMap_ok (pi_localParents i) \<and> podMap_ok (pi_apiParents i) \<and> podMap_ok (pi_active i) \<and> podMap_ok (pi_inactive i)"

definition noCheckpoints :: checkpoints where
  "noCheckpoints = \<lparr>cs_map = [], cs_self = None\<rparr>"

lemma cycle_keeps_inv:
  "cps_inv c cs \<Longrightarrow> slash \<notin> set (PodNamespace c) \<Longrightarrow> input_ok i \<Longrightarrow> cps_inv c (fst (cycle gp c cs i))"
  unfolding cycle_def input_ok_def by (intro process_keeps_inv update_keeps_inv) simp_all

interpretation memory: polled_machine "\<lambda>i cs. fst (cycle gp c cs i)"
  "\<lambda>h cs. slash \<notin> set (PodNamespace c) \<and> list_all input_ok h \<longrightarrow> cps_inv c cs" for gp c
  by unfold_locales (simp add: cycle_keeps_inv)

section \<open>Properties\<close>

text \<open>
  C10: \<open>update\<close> computes the merge of all sources, in every iteration order of the maps: under
  each name the checkpoint in memory wins over the one on disk, active over inactive; its pod
  is the API server's parent, else the kubelet's; the checkpointer's own entry, and only that,
  is taken out of the map and becomes the self-checkpoint. The result is well-formed.
\<close>

theorem update_merges_all_sources:
  assumes "cps_inv c cs" and "slash \<notin> set (PodNamespace c)"
    and "podMap_ok localParents" "podMap_ok apiParents" "podMap_ok active" "podMap_ok inactive"
  shows "let cs' = update cs running localParents apiParents active inactive c in
     (\<forall>k. map_of (cs_map cs') k =
        (if k = selfName c then None else merged c cs localParents apiParents active inactive k)) \<and>
     cs_self cs' = map_option asSelf (merged c cs localParents apiParents active inactive (selfName c)) \<and>
     cps_inv c cs'"
  using update_result [OF assms, of running] update_keeps_inv [OF assms, of running] by (simp add: Let_def)

definition example_checkpointer :: checkpointerPod where
  "example_checkpointer = \<lparr>NodeName = ''n1'', PodName = ''cp-n1'', PodNamespace = ''sys''\<rparr>"

definition example_pod :: "string \<Rightarrow> pod" where
  "example_pod n = emptyPod\<lparr>p_Meta := emptyMeta\<lparr>m_Name := n, m_Namespace := ''sys''\<rparr>\<rparr>"

theorem update_merges_all_sources_witness:
  "cs_self (update noCheckpoints [] [(''sys/cp'', example_pod ''cp'')] [] [(''sys/api'', example_pod ''api'')] [] example_checkpointer)
     = Some \<lparr>cp_name = ''sys/cp'', cp_pod = example_pod ''cp'', cp_state = stateSelfCheckpointActive\<rparr>"
proof -
  have "cps_inv example_checkpointer noCheckpoints" "slash \<notin> set (PodNamespace example_checkpointer)"
    "podMap_ok [(''sys/cp'', example_pod ''cp'')]" "podMap_ok []" "podMap_ok [(''sys/api'', example_pod ''api'')]"
    by code_simp+
  from update_merges_all_sources [OF this(1,2,3,4,5,4), of "[]"]
  have "cs_self (update noCheckpoints [] [(''sys/cp'', example_pod ''cp'')] [] [(''sys/api'', example_pod ''api'')] [] example_checkpointer)
     = map_option asSelf (merged example_checkpointer noCheckpoints [(''sys/cp'', example_pod ''cp'')] []
         [(''sys/api'', example_pod ''api'')] [] (selfName example_checkpointer))" by (simp add: Let_def)
  also have "\<dots> = Some \<lparr>cp_name = ''sys/cp'', cp_pod = example_pod ''cp'', cp_state = stateSelfCheckpointActive\<rparr>"
    by code_simp
  finally show ?thesis .
qed

text \<open>
  The checkpoints in memory stay well-formed over every run of polls from the empty start:
  one entry for each name, under the full name of its pod; the checkpointer's own checkpoint
  never in the map but only in \<open>selfCheckpoint\<close>, where it always has a state with an action;
  no checkpoint lingers in the terminal state.
\<close>

theorem checkpoints_stay_wellformed:
  assumes "slash \<notin> set (PodNamespace c)" and "list_all input_ok polls"
  shows "cps_inv c (fold (\<lambda>i cs. fst (cycle gp c cs i)) polls noCheckpoints)"
proof -
  have "cps_inv c noCheckpoints" by (simp add: cps_inv_def noCheckpoints_def)
  with memory.hinv_reached [where c = c and gp = gp and s = noCheckpoints and xs = polls] assms show ?thesis by simp
qed

definition example_poll :: pollInput where
  "example_poll = \<lparr>pi_now = 0, pi_avail = True, pi_running = [(''sys/api'', example_pod ''api'')],
     pi_localParents = [(''sys/api'', example_pod ''api''), (''sys/cp'', example_pod ''cp'')],
     pi_apiParents = [(''sys/api'', example_pod ''api''), (''sys/cp'', example_pod ''cp'')],
     pi_active = [], pi_inactive = []\<rparr>"

theorem checkpoints_stay_wellformed_witness:
  "cps_inv example_checkpointer
     (fold (\<lambda>i cs. fst (cycle 60 example_checkpointer cs i)) [example_poll, example_poll] noCheckpoints)"
  by (rule checkpoints_stay_wellformed) code_simp+

text \<open>
  C11: What a poll decides while the checkpointer itself runs, or there is no self-checkpoint.
  The self-checkpoint is always started. Every other checkpoint moves by its state machine; it
  is started, stopped or removed exactly when its action changes to that, once, and it leaves
  the map exactly when it is removed.
\<close>

theorem process_acts_on_changes:
  assumes inv: "cps_inv c cs"
    and self: "case cs_self cs of None \<Rightarrow> True
      | Some sc \<Rightarrow> action (transition gp now (conditionOf avail lr lp ap (cp_name sc)) (cp_state sc)) = A_start"
  shows "let (cs', a) = process gp cs now avail lr lp ap; cond = conditionOf avail lr lp ap in
     starts a = (case cs_self cs of None \<Rightarrow> [] | Some sc \<Rightarrow> [cp_name sc]) @ map fst (filter (moved gp now cond A_start) (cs_map cs)) \<and>
     stops a = map fst (filter (moved gp now cond A_stop) (cs_map cs)) \<and>
     removes a = map fst (filter (moved gp now cond A_remove) (cs_map cs)) \<and>
     distinct (starts a @ stops a @ removes a) \<and>
     (\<forall>k. map_of (cs_map cs') k = (case map_of (cs_map cs) k of None \<Rightarrow> None
        | Some cp \<Rightarrow> if k \<in> set (removes a) then None
                    else Some (cp\<lparr>cp_state := transition gp now (cond k) (cp_state cp)\<rparr>)))"
proof -
  let ?cond = "conditionOf avail lr lp ap" and ?m = "cs_map cs"
  note m = cps_inv_map [OF inv]
  obtain cs' a where r: "process gp cs now avail lr lp ap = (cs', a)" by fastforce
  have a: "a = \<lparr>starts = (case cs_self cs of None \<Rightarrow> [] | Some sc \<Rightarrow> [cp_name sc]) @ map fst (filter (moved gp now ?cond A_start) ?m),
      stops = map fst (filter (moved gp now ?cond A_stop) ?m), removes = map fst (filter (moved gp now ?cond A_remove) ?m)\<rparr>"
    and cs': "\<exists>a0. cs_map cs' = fst (processAll gp now ?cond ?m a0)"
    using self r processAll_result(2) [of ?m gp now ?cond] m
    by (cases rule: process_cases [OF inv, of gp now avail lr lp ap]; auto simp: noActions_def)+
  have self_out: "selfName c \<notin> fst ` set ?m" using inv by (auto simp: cps_inv_def list_all_iff)
  have one: "k \<in> fst ` set (filter P ?m) \<longleftrightarrow> (\<exists>cp. map_of ?m k = Some cp \<and> P (k, cp))" for k P
    using m by force
  have disj: "fst ` set (filter (moved gp now ?cond x) ?m) \<inter> fst ` set (filter (moved gp now ?cond y) ?m) = {}" if "x \<noteq> y" for x y
    using that by (auto simp only: one moved_def disjoint_iff case_prod_conv)
  have name: "cp_name sc = selfName c" if "cs_self cs = Some sc" for sc
    using that inv by (simp add: cps_inv_def self_ok_def cp_ok_def)
  have "distinct (starts a @ stops a @ removes a)"
    using m disj [of A_start A_stop] disj [of A_start A_remove] disj [of A_stop A_remove] self_out name
    by (auto simp: a distinct_map_filter split: option.splits)
  moreover have "map_of (cs_map cs') k = (case map_of ?m k of None \<Rightarrow> None
        | Some cp \<Rightarrow> if k \<in> set (removes a) then None
                    else Some (cp\<lparr>cp_state := transition gp now (?cond k) (cp_state cp)\<rparr>))" for k
    using cs' processAll_result(1) [of ?m gp now ?cond _ k] m one [of k "moved gp now ?cond A_remove"]
    by (auto simp: a next_state_def split: option.splits)
  moreover have "starts a = (case cs_self cs of None \<Rightarrow> [] | Some sc \<Rightarrow> [cp_name sc]) @ map fst (filter (moved gp now ?cond A_start) ?m)"
    "stops a = map fst (filter (moved gp now ?cond A_stop) ?m)" "removes a = map fst (filter (moved gp now ?cond A_remove) ?m)"
    by (simp_all add: a)
  ultimately show ?thesis unfolding r Let_def prod.case by blast
qed

definition example_state :: "checkpointState \<Rightarrow> checkpointState \<Rightarrow> checkpoints" where
  "example_state self other =
     \<lparr>cs_map = [(''sys/api'', \<lparr>cp_name = ''sys/api'', cp_pod = example_pod ''api'', cp_state = other\<rparr>)],
      cs_self = Some \<lparr>cp_name = ''sys/cp'', cp_pod = example_pod ''cp'', cp_state = self\<rparr>\<rparr>"

theorem process_acts_on_changes_witness:
  "starts (snd (process 60 (example_state stateSelfCheckpointActive stateInactive) 0 False [] [] [])) = [''sys/cp'', ''sys/api'']"
proof -
  let ?cs = "example_state stateSelfCheckpointActive stateInactive"
  have "cps_inv example_checkpointer ?cs" by code_simp
  moreover have "case cs_self ?cs of None \<Rightarrow> True
      | Some sc \<Rightarrow> action (transition 60 0 (conditionOf False [] [] [] (cp_name sc)) (cp_state sc)) = A_start"
    by code_simp
  ultimately have "starts (snd (process 60 ?cs 0 False [] [] [])) = (case cs_self ?cs of None \<Rightarrow> [] | Some sc \<Rightarrow> [cp_name sc])
      @ map fst (filter (moved 60 0 (conditionOf False [] [] []) A_start) (cs_map ?cs))"
    using process_acts_on_changes [of example_checkpointer ?cs 60 0 False "[]" "[]" "[]"] by (simp add: case_prod_beta Let_def)
  also have "\<dots> = [''sys/cp'', ''sys/api'']" by code_simp
  finally show ?thesis .
qed

text \<open>
  When the checkpointer's own checkpoint is collected, everything it looks after goes
  first: every checkpoint with anything on disk is removed, in name order, and the
  self-checkpoint last; nothing is started or stopped, and only checkpoints that were never
  written stay in memory.
\<close>

lemma self_is_removed_last:
  assumes inv: "cps_inv c cs" and self: "cs_self cs = Some sc"
    and gone: "transition gp now (conditionOf avail lr lp ap (cp_name sc)) (cp_state sc) = stateRemove"
  shows "let (cs', a) = process gp cs now avail lr lp ap in
     (\<exists>others. removes a = others @ [selfName c] \<and> sorted others \<and> distinct others \<and>
        (\<forall>k. k \<in> set others \<longleftrightarrow> (\<exists>cp. map_of (cs_map cs) k = Some cp \<and> cp_state cp \<noteq> stateNone))) \<and>
     starts a = [] \<and> stops a = [] \<and> cs_self cs' = None \<and>
     (\<forall>k. map_of (cs_map cs') k = (case map_of (cs_map cs) k of
        Some cp \<Rightarrow> if cp_state cp = stateNone then Some cp else None | None \<Rightarrow> None))"
proof -
  note m = cps_inv_map [OF inv]
  have sc: "cp_name sc = selfName c" and out: "map_of (cs_map cs) (selfName c) = None"
    using inv self by (auto simp: cps_inv_def self_ok_def cp_ok_def map_of_eq_None_iff list_all_iff)
  have "process gp cs now avail lr lp ap =
      (\<lparr>cs_map = AList.delete (cp_name sc) (filter (\<lambda>(_, cp). cp_state cp = stateNone) (cs_map cs)), cs_self = None\<rparr>,
       noActions\<lparr>removes := sort_Strings (actingNames (cs_map cs)) @ [cp_name sc]\<rparr>)"
    using self gone by (cases rule: process_cases [OF inv, of gp now avail lr lp ap]) auto
  moreover have "distinct (sort_Strings (actingNames (cs_map cs)))"
    using m by (simp add: sort_Strings_def actingNames_def distinct_map_filter)
  moreover have "k \<in> set (actingNames (cs_map cs)) \<longleftrightarrow> (\<exists>cp. map_of (cs_map cs) k = Some cp \<and> cp_state cp \<noteq> stateNone)" for k
    using m by (force simp: actingNames_def)
  moreover have "map_of (filter (\<lambda>(_, cp). cp_state cp = stateNone) (cs_map cs)) k = (case map_of (cs_map cs) k of
      Some cp \<Rightarrow> if cp_state cp = stateNone then Some cp else None | None \<Rightarrow> None)" for k
    using m map_of_filter_value [of "cs_map cs" "\<lambda>cp. cp_state cp = stateNone"] by simp
  ultimately show ?thesis using out sc by (auto simp: noActions_def)
qed

lemma self_is_removed_last_witness:
  "removes (snd (process 60 (example_state (stateActiveGracePeriod 10) stateActive) 10 True [] [] [])) = [''sys/api'', ''sys/cp'']"
proof -
  let ?cs = "example_state (stateActiveGracePeriod 10) stateActive"
  let ?sc = "\<lparr>cp_name = ''sys/cp'', cp_pod = example_pod ''cp'', cp_state = stateActiveGracePeriod 10\<rparr>"
  have 1: "cps_inv example_checkpointer ?cs" by code_simp
  have 2: "cs_self ?cs = Some ?sc" by (simp add: example_state_def)
  have 3: "transition 60 10 (conditionOf True [] [] [] (cp_name ?sc)) (cp_state ?sc) = stateRemove" by code_simp
  have self: "selfName example_checkpointer = ''sys/cp''" by code_simp
  have m: "map_of (cs_map ?cs) k = (if k = ''sys/api'' then Some \<lparr>cp_name = ''sys/api'', cp_pod = example_pod ''api'', cp_state = stateActive\<rparr> else None)" for k
    by (simp add: example_state_def)
  from self_is_removed_last [OF 1 2 3] obtain others where
    r: "removes (snd (process 60 ?cs 10 True [] [] [])) = others @ [''sys/cp'']" and o: "distinct others" "set others = {''sys/api''}"
    by (auto simp: case_prod_beta Let_def self m split: if_splits)
  then have "others = [''sys/api'']" by (cases others; cases "tl others") auto
  with r show ?thesis by simp
qed

text \<open>
  C12: A self-checkpoint that has become inactive disables checkpointing. Once the self-checkpoint
  is in \<open>stateInactive\<close> (its parent came back during a grace period), then for as long as the
  checkpointer's pod runs and the API server, whenever it answers, lists the checkpointer's parent,
  every poll orders the checkpointer's own checkpoint stopped and starts and removes nothing,
  during an outage of the API server, too. Once the parent is reported deleted this ends.
\<close>

theorem inactive_self_disables_checkpointing:
  assumes "cps_inv c cs" and "slash \<notin> set (PodNamespace c)"
    and "map_option cp_state (cs_self cs) = Some stateInactive"
    and "list_all (\<lambda>i. input_ok i \<and> map_of (pi_running i) (selfName c) \<noteq> None \<and>
           (pi_avail i \<longrightarrow> map_of (pi_apiParents i) (selfName c) \<noteq> None)) polls"
  shows "list_all (\<lambda>a. starts a = [] \<and> removes a = [] \<and> selfName c \<in> set (stops a)) (run_actions gp c cs polls)"
  using assms
proof (induction polls arbitrary: cs)
  case Nil
  show ?case by simp
next
  case (Cons i polls)
  have i: "input_ok i" "map_of (pi_running i) (selfName c) \<noteq> None"
    "pi_avail i \<longrightarrow> map_of (pi_apiParents i) (selfName c) \<noteq> None" using Cons.prems(4) by simp_all
  let ?cs = "update cs (pi_running i) (pi_localParents i) (pi_apiParents i) (pi_active i) (pi_inactive i) c"
  have ok: "podMap_ok (pi_localParents i)" "podMap_ok (pi_apiParents i)" "podMap_ok (pi_active i)" "podMap_ok (pi_inactive i)"
    using i(1) by (simp_all add: input_ok_def)
  note inv = update_keeps_inv [OF Cons.prems(1,2) ok, of "pi_running i"]
  from Cons.prems(3) obtain sc where sc: "cs_self cs = Some sc" "cp_state sc = stateInactive" by auto
  then have name: "cp_name sc = selfName c" using Cons.prems(1) by (simp add: cps_inv_def self_ok_def cp_ok_def)
  obtain p where "merged c cs (pi_localParents i) (pi_apiParents i) (pi_active i) (pi_inactive i) (selfName c) = Some (sc\<lparr>cp_pod := p\<rparr>)"
  proof (cases "parentPod (pi_localParents i) (pi_apiParents i) (selfName c)")
    case None
    with sc name show thesis by (intro that [of "cp_pod sc"]) (simp add: merged_def known_def)
  next
    case (Some p)
    with sc name show thesis by (intro that [of p]) (simp add: merged_def known_def)
  qed
  then have self: "map_option cp_state (cs_self ?cs) = Some stateInactive"
    unfolding update_result(2) [OF Cons.prems(1,2) ok, of "pi_running i"] using sc by (simp add: asSelf_def)
  then obtain sc' where sc': "cs_self ?cs = Some sc'" "cp_state sc' = stateInactive" by auto
  then have name': "cp_name sc' = selfName c" using inv by (simp add: cps_inv_def self_ok_def cp_ok_def)
  have "transition gp (pi_now i) (conditionOf (pi_avail i) (pi_running i) (pi_localParents i) (pi_apiParents i) (selfName c)) stateInactive = stateInactive"
    using i(2,3) by (auto simp: conditionOf_def inactive_transition_def)
  then have cyc: "cycle gp c cs i = (?cs\<lparr>cs_self := Some sc'\<rparr>, noActions\<lparr>stops := sort_Strings (actingNames (cs_map ?cs)) @ [selfName c]\<rparr>)"
    using sc' name' by (simp add: cycle_def process_def Let_def)
  have same: "?cs\<lparr>cs_self := Some sc'\<rparr> = ?cs" using sc'(1) by (simp add: checkpoints.equality)
  have "list_all (\<lambda>a. starts a = [] \<and> removes a = [] \<and> selfName c \<in> set (stops a)) (run_actions gp c ?cs polls)"
    using Cons.prems(2,4) inv self by (intro Cons.IH) simp_all
  then show ?case by (simp add: cyc same noActions_def)
qed

theorem inactive_self_disables_checkpointing_witness:
  "list_all (\<lambda>a. starts a = [] \<and> removes a = [] \<and> ''sys/cp'' \<in> set (stops a))
     (run_actions 60 example_checkpointer (example_state stateInactive stateActive)
        [example_poll\<lparr>pi_avail := False, pi_running := [(''sys/cp'', example_pod ''cp'')], pi_apiParents := []\<rparr>])"
proof -
  let ?i = "example_poll\<lparr>pi_avail := False, pi_running := [(''sys/cp'', example_pod ''cp'')], pi_apiParents := []\<rparr>"
  have self: "selfName example_checkpointer = ''sys/cp''" by code_simp
  have "cps_inv example_checkpointer (example_state stateInactive stateActive)" "slash \<notin> set (PodNamespace example_checkpointer)"
    "map_option cp_state (cs_self (example_state stateInactive stateActive)) = Some stateInactive"
    "list_all (\<lambda>i. input_ok i \<and> map_of (pi_running i) (selfName example_checkpointer) \<noteq> None \<and>
       (pi_avail i \<longrightarrow> map_of (pi_apiParents i) (selfName example_checkpointer) \<noteq> None)) [?i]"
    by code_simp+
  from inactive_self_disables_checkpointing [OF this, of 60] show ?thesis unfolding self .
qed

end
