(* ===== verification/CheckpointRuntime.thy ===== *)
theory CheckpointRuntime
  imports CheckpointPod
begin

text \<open>
  What the checkpointer asks other processes in each poll: the container runtime
  (\<open>pkg/checkpoint/runtime_service.go\<close>), the kubelet (\<open>kubelet.go\<close>) and the API server
  (\<open>apiserver.go\<close>). The answers of the gRPC and REST clients are parameters, the fields of
  the records below: an error, or the list the server sent.
\<close>

section \<open>Container runtime\<close>

definition kubernetesPodNameLabel :: string where
  "kubernetesPodNameLabel = ''io.kubernetes.pod.name''"
definition kubernetesPodNamespaceLabel :: string where
  "kubernetesPodNamespaceLabel = ''io.kubernetes.pod.namespace''"
definition kubernetesPodUIDLabel :: string where
  "kubernetesPodUIDLabel = ''io.kubernetes.pod.uid''"

text \<open>Containers and sandboxes as the runtime lists them: the metadata may be missing.\<close>

record sandboxMetadata =
  sm_Uid :: string
  sm_Name :: string
  sm_Namespace :: string

record listedContainer =
  lc_Metadata :: "string option"
  lc_Labels :: "strmap option"

record listedSandbox =
  ls_Metadata :: "sandboxMetadata option"
  ls_Labels :: "strmap option"

text \<open>One version of the CRI client: its \<open>Version\<close> call, and the lists of what is running.\<close>

record runtimeClient =
  rc_Version :: "go_error option"
  rc_ListContainers :: "go_error + listedContainer list"
  rc_ListPodSandbox :: "go_error + listedSandbox list"

record remoteRuntimeService =
  v1alpha1Client :: runtimeClient
  v1alpha2Client :: runtimeClient

record criContainer =
  cc_Labels :: "strmap option"

record criSandbox =
  cb_Uid :: string
  cb_Name :: string
  cb_Namespace :: string
  cb_Labels :: "strmap option"

definition collectContainers :: "go_error + listedContainer list \<Rightarrow> go_error + criContainer list" where
  "collectContainers resp =
     (case resp of Inl e \<Rightarrow> Inl e
      | Inr cs \<Rightarrow> Inr (List.map_filter (\<lambda>c. case lc_Metadata c of None \<Rightarrow> None
                                         | Some _ \<Rightarrow> Some \<lparr>cc_Labels = lc_Labels c\<rparr>) cs))"

definition getRunningKubeletContainers :: "remoteRuntimeService \<Rightarrow> go_error + criContainer list" where
  "getRunningKubeletContainers r =
     (case rc_Version (v1alpha1Client r) of
        None \<Rightarrow> collectContainers (rc_ListContainers (v1alpha1Client r))
      | Some _ \<Rightarrow> collectContainers (rc_ListContainers (v1alpha2Client r)))"

definition collectSandboxes :: "go_error + listedSandbox list \<Rightarrow> go_error + criSandbox list" where
  "collectSandboxes resp =
     (case resp of Inl e \<Rightarrow> Inl e
      | Inr cs \<Rightarrow> Inr (List.map_filter (\<lambda>c. case ls_Metadata c of None \<Rightarrow> None
           | Some md \<Rightarrow> Some \<lparr>cb_Uid = sm_Uid md, cb_Name = sm_Name md, cb_Namespace = sm_Namespace md,
                             cb_Labels = ls_Labels c\<rparr>) cs))"

definition getRunningKubeletSandboxes :: "remoteRuntimeService \<Rightarrow> go_error + criSandbox list" where
  "getRunningKubeletSandboxes r =
     (case rc_Version (v1alpha1Client r) of
        None \<Rightarrow> collectSandboxes (rc_ListPodSandbox (v1alpha1Client r))
      | Some _ \<Rightarrow> collectSandboxes (rc_ListPodSandbox (v1alpha2Client r)))"

definition runningPod :: "string \<Rightarrow> string \<Rightarrow> string \<Rightarrow> pod" where
  "runningPod uid name namespace =
     emptyPod\<lparr>p_Meta := emptyMeta\<lparr>m_UID := uid, m_Name := name, m_Namespace := namespace\<rparr>\<rparr>"

definition addSandboxPod :: "podMap \<Rightarrow> criSandbox \<Rightarrow> podMap" where
  "addSandboxPod pods s =
     (let podName = cb_Namespace s @ ''/'' @ cb_Name s in
      if map_of pods podName = None
      then AList.update podName (runningPod (cb_Uid s) (cb_Name s) (cb_Namespace s)) pods else pods)"

definition addContainerPod :: "podMap \<Rightarrow> criContainer \<Rightarrow> podMap" where
  "addContainerPod pods c =
     (let podName = strmap_get (cc_Labels c) kubernetesPodNamespaceLabel @ ''/'' @
                    strmap_get (cc_Labels c) kubernetesPodNameLabel in
      if map_of pods podName = None
      then AList.update podName
             (runningPod (strmap_get (cc_Labels c) kubernetesPodUIDLabel)
                (strmap_get (cc_Labels c) kubernetesPodNameLabel)
                (strmap_get (cc_Labels c) kubernetesPodNamespaceLabel)) pods
      else pods)"

text \<open>An error of the runtime is the nil map, in which every name is missing.\<close>

definition localRunningPods :: "remoteRuntimeService \<Rightarrow> podMap" where
  "localRunningPods r =
     (case getRunningKubeletSandboxes r of
        Inl _ \<Rightarrow> []
      | Inr sandboxes \<Rightarrow>
        (let pods = foldl addSandboxPod [] sandboxes in
         case getRunningKubeletContainers r of
           Inl _ \<Rightarrow> []
         | Inr containers \<Rightarrow> foldl addContainerPod pods containers))"

section \<open>Kubelet and API server\<close>

text \<open>The two REST clients of the kubelet: each answers \<open>/pods/\<close> with an error or a list.\<close>

record kubeletClient =
  secureClient :: "go_error + pod list"
  insecureClient :: "go_error + pod list"

definition localParentPods :: "kubeletClient \<Rightarrow> podMap" where
  "localParentPods k =
     (case secureClient k of
        Inr podList \<Rightarrow> podListToParentPods podList
      | Inl _ \<Rightarrow>
        (case insecureClient k of
           Inr podList \<Rightarrow> podListToParentPods podList
         | Inl _ \<Rightarrow> podListToParentPods []))"

text \<open>
  The API server's answer to listing the pods of a namespace with \<open>spec.nodeName\<close> equal to a
  node's name.
\<close>

type_synonym podLister = "string \<Rightarrow> string \<Rightarrow> go_error + pod list"

definition getAPIParentPods :: "podLister \<Rightarrow> checkpointerPod \<Rightarrow> string \<Rightarrow> bool \<times> podMap" where
  "getAPIParentPods listPods cp nodeName =
     (case listPods (PodNamespace cp) nodeName of
        Inl _ \<Rightarrow> (False, [])
      | Inr podList \<Rightarrow> (True, podListToParentPods podList))"

section \<open>Properties\<close>

lemma map_of_addSandboxPods:
  "map_of (foldl addSandboxPod m ss) k =
     (case map_of m k of Some p \<Rightarrow> Some p
      | None \<Rightarrow> map_option (\<lambda>s. runningPod (cb_Uid s) (cb_Name s) (cb_Namespace s))
          (List.find (\<lambda>s. cb_Namespace s @ ''/'' @ cb_Name s = k) ss))"
proof (induction ss arbitrary: m)
  case (Cons s ss)
  have "map_of (addSandboxPod m s) k =
      (if map_of m k = None \<and> cb_Namespace s @ ''/'' @ cb_Name s = k
       then Some (runningPod (cb_Uid s) (cb_Name s) (cb_Namespace s)) else map_of m k)"
    by (auto simp: addSandboxPod_def Let_def)
  then show ?case by (auto simp: Cons.IH split: option.splits)
qed (simp split: option.splits)

lemma map_of_addContainerPods_None:
  "map_of (foldl addContainerPod m cs) k = None \<longleftrightarrow>
     map_of m k = None \<and> filter (\<lambda>c. strmap_get (cc_Labels c) kubernetesPodNamespaceLabel @ ''/'' @
                    strmap_get (cc_Labels c) kubernetesPodNameLabel = k) cs = []"
proof (induction cs arbitrary: m)
  case (Cons c cs)
  have "map_of (addContainerPod m c) k = None \<longleftrightarrow> map_of m k = None \<and>
      strmap_get (cc_Labels c) kubernetesPodNamespaceLabel @ ''/'' @ strmap_get (cc_Labels c) kubernetesPodNameLabel \<noteq> k"
    by (auto simp: addContainerPod_def Let_def)
  then show ?case by (auto simp: Cons.IH)
qed simp

text \<open>
  A pod counts as running exactly when both runtime queries answer and a running sandbox
  with metadata, or a running container with metadata, carries its namespace and name. When
  either query fails, no pod counts as running; the second version of the runtime interface
  is asked only when the first does not answer.
\<close>

lemma localRunningPods_exact:
  "map_of (localRunningPods r) (ns @ ''/'' @ n) \<noteq> None \<longleftrightarrow>
   (\<exists>ss cs. let client = (if rc_Version (v1alpha1Client r) = None then v1alpha1Client r else v1alpha2Client r) in
      rc_ListPodSandbox client = Inr ss \<and> rc_ListContainers client = Inr cs \<and>
      (list_ex (\<lambda>s. case ls_Metadata s of None \<Rightarrow> False
                   | Some md \<Rightarrow> sm_Namespace md @ ''/'' @ sm_Name md = ns @ ''/'' @ n) ss \<or>
       list_ex (\<lambda>c. lc_Metadata c \<noteq> None \<and>
          strmap_get (lc_Labels c) kubernetesPodNamespaceLabel @ ''/'' @ strmap_get (lc_Labels c) kubernetesPodNameLabel
            = ns @ ''/'' @ n) cs))"
proof -
  let ?client = "if rc_Version (v1alpha1Client r) = None then v1alpha1Client r else v1alpha2Client r"
  have s: "getRunningKubeletSandboxes r = collectSandboxes (rc_ListPodSandbox ?client)"
    and c: "getRunningKubeletContainers r = collectContainers (rc_ListContainers ?client)"
    by (auto simp: getRunningKubeletSandboxes_def getRunningKubeletContainers_def split: option.splits)
  show ?thesis
  proof (cases "rc_ListPodSandbox ?client")
    case (Inl e)
    then show ?thesis unfolding localRunningPods_def s by (simp add: collectSandboxes_def Let_def)
  next
    case ss: (Inr ss)
    show ?thesis
    proof (cases "rc_ListContainers ?client")
      case (Inl e)
      then show ?thesis unfolding localRunningPods_def s c using ss by (simp add: collectSandboxes_def collectContainers_def Let_def)
    next
      case cs: (Inr cs)
      show ?thesis
        unfolding localRunningPods_def s c ss cs Let_def collectSandboxes_def collectContainers_def sum.case
        unfolding map_of_addContainerPods_None map_of_addSandboxPods
        by (auto simp: find_None_iff find_Some_iff list_ex_iff List.map_filter_def filter_empty_conv split: option.splits)
    qed
  qed
qed

end
