(* ===== verification/CheckpointLoop.thy ===== *)
theory CheckpointLoop
  imports CheckpointManifest CheckpointProcess CheckpointRuntime
begin

text \<open>
  The checkpointer's main loop: the rest of \<open>pkg/checkpoint/process.go\<close> (writing checkpoints
  and carrying out starts, stops and removals) and \<open>run\<close> of \<open>checkpoint.go\<close>. Its state is
  the file system, the checkpoints in memory and the time of the last asset check; what a poll
  learns from other processes is a \<open>world\<close>.
\<close>

text \<open>Times and durations are in nanoseconds, as in Go.\<close>

definition defaultPollingFrequency :: int where
  "defaultPollingFrequency = 5 * time_Second"

definition defaultCheckpointTimeout :: int where
  "defaultCheckpointTimeout = 60 * time_Second"

record world =
  w_kubelet :: kubeletClient
  w_cri :: remoteRuntimeService
  w_listPods :: podLister
  w_getSecret :: objectGetter
  w_getConfigMap :: objectGetter
  w_checkTime :: time
  w_updateTime :: time
  w_processTime :: time

record loopState =
  l_fs :: fs
  l_checkpoints :: checkpoints
  l_lastCheckpoint :: "time option"

section \<open>Writing checkpoints\<close>

text \<open>The body of the loop over the parents; every failure is logged and the next pod follows.\<close>

definition checkpointParent ::
  "(pod \<Rightarrow> go_error + bytes) \<Rightarrow> objectGetter \<Rightarrow> objectGetter \<Rightarrow> bool \<Rightarrow> fs \<Rightarrow> pod \<Rightarrow> fs" where
  "checkpointParent encode getSecret getConfigMap needsCheckpointUpdate s pod =
     (let cp = sanitizeCheckpointPod pod in
      case writeCheckpointManifest encode s cp of
        (s1, _, Some e) \<Rightarrow> s1
      | (s1, podChanged, None) \<Rightarrow>
        (if podChanged \<or> needsCheckpointUpdate then
           (case checkpointSecretVolumes getSecret s1 pod of
              (s2, Inl e) \<Rightarrow> s2
            | (s2, Inr _) \<Rightarrow> fst (checkpointConfigMapVolumes getConfigMap s2 pod))
         else s1))"

definition checkpointParentPods :: "checkpoints \<Rightarrow> pod list" where
  "checkpointParentPods cs =
     map (\<lambda>(_, cp). cp_pod cp) (cs_map cs) @ (case cs_self cs of None \<Rightarrow> [] | Some sc \<Rightarrow> [cp_pod sc])"

definition createCheckpointsForValidParents :: "(pod \<Rightarrow> go_error + bytes) \<Rightarrow> world \<Rightarrow> loopState \<Rightarrow> loopState" where
  "createCheckpointsForValidParents encode w st =
     (let parents = checkpointParentPods (l_checkpoints st);
          needsCheckpointUpdate = (case l_lastCheckpoint st of None \<Rightarrow> True
            | Some t \<Rightarrow> w_checkTime w - t \<ge> defaultCheckpointTimeout);
          s = foldl (checkpointParent encode (w_getSecret w) (w_getConfigMap w) needsCheckpointUpdate) (l_fs st) parents
      in st\<lparr>l_fs := s,
            l_lastCheckpoint := (if needsCheckpointUpdate then Some (w_updateTime w) else l_lastCheckpoint st)\<rparr>)"

section \<open>Carrying out decisions\<close>

definition handleRemoveOne :: "fs \<Rightarrow> string \<Rightarrow> fs" where
  "handleRemoveOne s pid =
     (let s1 = fst (os_RemoveAll s (podFullNameToSecretPath pid));
          s2 = fst (os_RemoveAll s1 (podFullNameToConfigMapPath pid));
          (s3, err) = os_Remove s2 (podFullNameToInactiveCheckpointPath pid)
      in if err \<noteq> None \<and> \<not> os_IsNotExist (the err) then s3
         else fst (os_Remove s3 (podFullNameToActiveCheckpointPath pid)))"

definition handleRemove :: "fs \<Rightarrow> string list \<Rightarrow> fs" where
  "handleRemove s ids = foldl handleRemoveOne s ids"

definition handleStop :: "fs \<Rightarrow> string list \<Rightarrow> fs" where
  "handleStop s ids = foldl (\<lambda>s pid. fst (os_Remove s (podFullNameToActiveCheckpointPath pid))) s ids"

definition handleStartOne :: "fs \<Rightarrow> string \<Rightarrow> fs" where
  "handleStartOne s pid =
     (case ioutil_ReadFile s (podFullNameToInactiveCheckpointPath pid) of
        Inl _ \<Rightarrow> s
      | Inr data \<Rightarrow> fst (writeManifestIfDifferent s (podFullNameToActiveCheckpointPath pid) pid data))"

definition handleStart :: "fs \<Rightarrow> string list \<Rightarrow> fs" where
  "handleStart s ids = foldl handleStartOne s ids"

section \<open>The main loop\<close>

text \<open>
  One turn of \<open>run\<close>; \<open>glog.Fatalf\<close> in \<open>getFileCheckpoints\<close> ends the process, with the file
  system as it is then.
\<close>

definition pollOnce ::
  "(pod \<Rightarrow> go_error + bytes) \<Rightarrow> (bytes \<Rightarrow> go_error + pod) \<Rightarrow> int \<Rightarrow> checkpointerPod \<Rightarrow> world \<Rightarrow> loopState
   \<Rightarrow> (fs \<times> go_error) + loopState" where
  "pollOnce encode decode gp c w st =
     (let localParents = localParentPods (w_kubelet w);
          localRunning = localRunningPods (w_cri w);
          (avail, apiParents) = getAPIParentPods (w_listPods w) c (NodeName c)
      in case getFileCheckpoints decode (l_fs st) activeCheckpointPath of
           (s1, Inl e) \<Rightarrow> Inl (s1, e)
         | (s1, Inr active) \<Rightarrow>
           (case getFileCheckpoints decode s1 inactiveCheckpointPath of
              (s2, Inl e) \<Rightarrow> Inl (s2, e)
            | (s2, Inr inactive) \<Rightarrow>
              (let cs = update (l_checkpoints st) localRunning localParents apiParents active inactive c;
                   st1 = createCheckpointsForValidParents encode w (st\<lparr>l_fs := s2, l_checkpoints := cs\<rparr>);
                   (cs', a) = process gp (l_checkpoints st1) (w_processTime w) avail localRunning localParents apiParents;
                   s3 = handleStop (l_fs st1) (stops a);
                   s4 = handleStart s3 (starts a);
                   s5 = handleRemove s4 (removes a)
               in Inr (st1\<lparr>l_fs := s5, l_checkpoints := cs'\<rparr>))))"

text \<open>\<open>run\<close> makes the inactive directory, or ends the process, and then polls forever.\<close>

definition runStart :: "fs \<Rightarrow> (fs \<times> go_error) + loopState" where
  "runStart s =
     (case os_MkdirAll s inactiveCheckpointPath 448 of
        (s', Some e) \<Rightarrow> Inl (s', e)
      | (s', None) \<Rightarrow> Inr \<lparr>l_fs = s', l_checkpoints = noCheckpoints, l_lastCheckpoint = None\<rparr>)"

section \<open>What storing assets leaves alone\<close>

text \<open>Paths below \<open>/etc/kubernetes\<close> that are not in the asset directories.\<close>

definition outside :: "key \<Rightarrow> bool" where
  "outside k \<longleftrightarrow> (case k of e # ku # x # rest \<Rightarrow> e = ''etc'' \<and> ku = ''kubernetes'' \<and>
      x \<noteq> ''checkpoint-secrets'' \<and> x \<noteq> ''checkpoint-configmaps'' | _ \<Rightarrow> False)"

locale asset_framed =
  fixes store :: "fs \<Rightarrow> string \<Rightarrow> fs \<times> (go_error + string)"
    and kept :: "key \<Rightarrow> bool"
  assumes store_env: "same_env s (fst (store s n))"
    and store_frame: "kept k \<Longrightarrow> untouched s k \<Longrightarrow> fs_node (fst (store s n)) k = fs_node s k"
begin

lemma storeVolumes_env: "same_env s (fst (storeVolumes ref store msg s vs))"
proof (induction vs arbitrary: s)
  case (Cons v vs)
  show ?case
  proof (cases "ref v")
    case None
    then show ?thesis by (simp add: Cons.IH)
  next
    case (Some r)
    obtain s' x where st: "store s (vr_Name r) = (s', x)" by fastforce
    have "same_env s s'" using store_env [of s "vr_Name r"] st by simp
    then show ?thesis using Some st Cons.IH [of s'] by (auto split: sum.splits intro: same_env_trans)
  qed
qed simp

lemma storeVolumes_frame:
  "kept k \<Longrightarrow> untouched s k \<Longrightarrow> fs_node (fst (storeVolumes ref store msg s vs)) k = fs_node s k"
proof (induction vs arbitrary: s)
  case (Cons v vs)
  show ?case
  proof (cases "ref v")
    case None
    with Cons show ?thesis by simp
  next
    case (Some r)
    obtain s' x where st: "store s (vr_Name r) = (s', x)" by fastforce
    have same: "fs_node s' k = fs_node s k" using store_frame [OF Cons.prems, of "vr_Name r"] st by simp
    then have "untouched s' k" using Cons.prems(2) by (simp add: untouched_def)
    then show ?thesis using Some st same Cons.IH [of s'] Cons.prems(1) by (auto split: sum.splits)
  qed
qed simp

end

lemma storing_env:
  "same_env s (fst (os_Chown (fst (os_MkdirAll s b 448)) b uid gid))"
  "same_env s (fst (storeFiles (\<lambda>s p d. writeAndAtomicRename s p d uid gid 384) b
     (fst (os_Chown (fst (os_MkdirAll s b 448)) b uid gid)) data))"
proof -
  show 1: "same_env s (fst (os_Chown (fst (os_MkdirAll s b 448)) b uid gid))"
    unfolding os_Chown_def by (rule same_env_trans [OF os_MkdirAll_env change_meta_env])
  show "same_env s (fst (storeFiles (\<lambda>s p d. writeAndAtomicRename s p d uid gid 384) b
     (fst (os_Chown (fst (os_MkdirAll s b 448)) b uid gid)) data))"
    by (rule same_env_trans [OF 1 stored.storeFiles_env])
qed

lemma storing_frame:
  assumes key: "\<And>s. fs_key s b = bs" and b: "b \<noteq> ''''" and data: "list_all (\<lambda>(f, d). plain_comp f) data"
    and k: "\<not> prefix k bs" "\<And>f. k \<noteq> bs @ [f]" "untouched s k"
  shows "fs_node (fst (os_MkdirAll s b 448)) k = fs_node s k"
    and "fs_node (fst (os_Chown (fst (os_MkdirAll s b 448)) b uid gid)) k = fs_node s k"
    and "fs_node (fst (storeFiles (\<lambda>s p d. writeAndAtomicRename s p d uid gid 384) b
       (fst (os_Chown (fst (os_MkdirAll s b 448)) b uid gid)) data)) k = fs_node s k"
proof -
  show 1: "fs_node (fst (os_MkdirAll s b 448)) k = fs_node s k"
    using mkdirs_new [of 448 s "prefixes bs" k] k(1) by (auto simp: os_MkdirAll_def key in_set_prefixes)
  have "k \<noteq> bs" using k(1) by auto
  then show 2: "fs_node (fst (os_Chown (fst (os_MkdirAll s b 448)) b uid gid)) k = fs_node s k"
    using 1 change_meta_frame [of k "fst (os_MkdirAll s b 448)" b] by (simp add: os_Chown_def key)
  then have "untouched (fst (os_Chown (fst (os_MkdirAll s b 448)) b uid gid)) k" using k(3) by (simp add: untouched_def)
  then show "fs_node (fst (storeFiles (\<lambda>s p d. writeAndAtomicRename s p d uid gid 384) b
       (fst (os_Chown (fst (os_MkdirAll s b 448)) b uid gid)) data)) k = fs_node s k"
    using stored.storeFiles_frame [OF b data] k(2) 2 by (simp add: key)
qed

lemma checkpointSecret_results:
  "fst (checkpointSecret get s ns pn n uid gid) \<in>
     insert s {s'. \<exists>obj. get ns n = Inr obj \<and> (let b = secretPath ns pn n; s1 = fst (os_MkdirAll s b 448); s2 = fst (os_Chown s1 b uid gid) in
        s' = s1 \<or> s' = s2 \<or> s' = fst (storeFiles (\<lambda>s p d. writeAndAtomicRename s p d uid gid 384) b s2 (do_Data obj)))}"
  by (auto simp: checkpointSecret_def Let_def split: sum.splits prod.splits option.splits)

lemma checkpointConfigMap_results:
  "fst (checkpointConfigMap get s ns pn n uid gid) \<in>
     insert s {s'. \<exists>obj. get ns n = Inr obj \<and> (let b = configMapPath ns pn n; s1 = fst (os_MkdirAll s b 448); s2 = fst (os_Chown s1 b uid gid) in
        s' = s1 \<or> s' = s2 \<or> s' = fst (storeFiles (\<lambda>s p d. writeAndAtomicRename s p d uid gid 384) b s2 (do_Data obj)))}"
  by (auto simp: checkpointConfigMap_def Let_def split: sum.splits prod.splits option.splits)

lemma outside_asset:
  assumes "outside k" "x = ''checkpoint-secrets'' \<or> x = ''checkpoint-configmaps''"
  shows "\<not> prefix k (''etc'' # ''kubernetes'' # x # rest)" "k \<noteq> (''etc'' # ''kubernetes'' # x # rest) @ [f]"
  using assms by (auto simp: outside_def split: list.splits)

lemma asset_results_frame:
  assumes valid: "valid_objects get" and key: "plain_comp n \<Longrightarrow> b = slash # joinWith slash bs" "plain_comp n \<Longrightarrow> list_all plain_comp bs"
    and bs: "bs = ''etc'' # ''kubernetes'' # x # rest" "x = ''checkpoint-secrets'' \<or> x = ''checkpoint-configmaps''"
    and k: "outside k" "untouched s k"
    and s': "s' \<in> insert s {s'. \<exists>obj. get ns n = Inr obj \<and> (let s1 = fst (os_MkdirAll s b 448); s2 = fst (os_Chown s1 b uid gid) in
        s' = s1 \<or> s' = s2 \<or> s' = fst (storeFiles (\<lambda>s p d. writeAndAtomicRename s p d uid gid 384) b s2 (do_Data obj)))}"
  shows "fs_node s' k = fs_node s k"
proof (cases "s' = s")
  case False
  with s' obtain obj where obj: "get ns n = Inr obj" and s': "(let s1 = fst (os_MkdirAll s b 448); s2 = fst (os_Chown s1 b uid gid) in
        s' = s1 \<or> s' = s2 \<or> s' = fst (storeFiles (\<lambda>s p d. writeAndAtomicRename s p d uid gid 384) b s2 (do_Data obj)))" by blast
  from valid obj have v: "valid_object n obj" by (auto simp: valid_objects_def)
  then have n: "plain_comp n" by (simp add: valid_object_def)
  have "fs_key s b = bs" for s using key [OF n] bs(1) fs_key_abs [of bs s] by simp
  then show ?thesis
    using storing_frame(1) [of b bs "do_Data obj" k s] storing_frame(2,3) [of b bs "do_Data obj" k s uid gid]
      key(1) [OF n] v k outside_asset(1) [OF k(1) bs(2), of rest] outside_asset(2) [OF k(1) bs(2), of rest] s'
    by (auto simp: bs(1) valid_object_def Let_def)
qed simp

interpretation secretsFramed: asset_framed "\<lambda>s n. checkpointSecret get s ns pn n uid gid"
  "\<lambda>k. valid_objects get \<and> plain_comp ns \<and> plain_comp pn \<and> outside k" for get ns pn uid gid
proof
  fix s n
  show "same_env s (fst (checkpointSecret get s ns pn n uid gid))"
    using checkpointSecret_results [of get s ns pn n uid gid] os_MkdirAll_env storing_env [of s]
    by (auto simp: Let_def)
next
  fix k s n
  assume a: "valid_objects get \<and> plain_comp ns \<and> plain_comp pn \<and> outside k" "untouched s k"
  show "fs_node (fst (checkpointSecret get s ns pn n uid gid)) k = fs_node s k"
    by (rule asset_results_frame [where b = "secretPath ns pn n" and bs = "[''etc'', ''kubernetes'', ''checkpoint-secrets'', ns, pn, n]"])
      (use a asset_paths(1) [of ns pn n] checkpointSecret_results [of get s ns pn n uid gid] in \<open>auto simp: Let_def\<close>)
qed

interpretation configMapsFramed: asset_framed "\<lambda>s n. checkpointConfigMap get s ns pn n uid gid"
  "\<lambda>k. valid_objects get \<and> plain_comp ns \<and> plain_comp pn \<and> outside k" for get ns pn uid gid
proof
  fix s n
  show "same_env s (fst (checkpointConfigMap get s ns pn n uid gid))"
    using checkpointConfigMap_results [of get s ns pn n uid gid] os_MkdirAll_env storing_env [of s]
    by (auto simp: Let_def)
next
  fix k s n
  assume a: "valid_objects get \<and> plain_comp ns \<and> plain_comp pn \<and> outside k" "untouched s k"
  show "fs_node (fst (checkpointConfigMap get s ns pn n uid gid)) k = fs_node s k"
    by (rule asset_results_frame [where b = "configMapPath ns pn n" and bs = "[''etc'', ''kubernetes'', ''checkpoint-configmaps'', ns, pn, n]"])
      (use a asset_paths(2) [of ns pn n] checkpointConfigMap_results [of get s ns pn n uid gid] in \<open>auto simp: Let_def\<close>)
qed

section \<open>Writing the checkpoints of all parents\<close>

definition valid_pod :: "pod \<Rightarrow> bool" where
  "valid_pod p \<longleftrightarrow> plain_comp (pod_Namespace p) \<and> plain_comp (pod_Name p) \<and> \<not> hasPrefix (pod_Namespace p) ''.''"

lemma valid_pod_slash: "valid_pod p \<Longrightarrow> slash \<notin> set (pod_Namespace p) \<and> slash \<notin> set (pod_Name p)"
  by (simp add: valid_pod_def plain_comp_def)

lemma untouched_same: "fs_node s' k = fs_node s k \<Longrightarrow> untouched s' k = untouched s k"
  by (simp add: untouched_def)

lemma secretVolumes_frame:
  assumes "valid_objects get" "valid_pod p" "outside k" "untouched s k"
  shows "fs_node (fst (checkpointSecretVolumes get s p)) k = fs_node s k"
  using assms secretsFramed.storeVolumes_frame [where get = get and ns = "pod_Namespace p" and pn = "pod_Name p" and k = k and s = s]
  by (auto simp: checkpointSecretVolumes_def Let_def valid_pod_def split: sum.splits prod.splits option.splits) (metis fst_conv)+

lemma configMapVolumes_frame:
  assumes "valid_objects get" "valid_pod p" "outside k" "untouched s k"
  shows "fs_node (fst (checkpointConfigMapVolumes get s p)) k = fs_node s k"
  using assms configMapsFramed.storeVolumes_frame [where get = get and ns = "pod_Namespace p" and pn = "pod_Name p" and k = k and s = s]
  by (auto simp: checkpointConfigMapVolumes_def Let_def valid_pod_def split: sum.splits prod.splits option.splits) (metis fst_conv)+

lemma secretVolumes_env: "same_env s (fst (checkpointSecretVolumes get s p))"
  using secretsFramed.storeVolumes_env [where get = get and ns = "pod_Namespace p" and pn = "pod_Name p" and s = s]
  by (auto simp: checkpointSecretVolumes_def Let_def split: sum.splits prod.splits option.splits) (metis fst_conv)+

lemma configMapVolumes_env: "same_env s (fst (checkpointConfigMapVolumes get s p))"
  using configMapsFramed.storeVolumes_env [where get = get and ns = "pod_Namespace p" and pn = "pod_Name p" and s = s]
  by (auto simp: checkpointConfigMapVolumes_def Let_def split: sum.splits prod.splits option.splits) (metis fst_conv)+

text \<open>The manifest step of one parent, and the asset steps after it.\<close>

definition manifestStep :: "(pod \<Rightarrow> go_error + bytes) \<Rightarrow> fs \<Rightarrow> pod \<Rightarrow> fs" where
  "manifestStep encode s pod = fst (writeCheckpointManifest encode s (sanitizeCheckpointPod pod))"

lemma manifestStep_cases:
  assumes "valid_pod p"
  shows "(\<exists>e. encode (sanitizeCheckpointPod p) = Inl e) \<and> manifestStep encode s p = s \<or>
     (\<exists>b. encode (sanitizeCheckpointPod p) = Inr b \<and>
        manifestStep encode s p = fst (writeManifest s (podFullNameToInactiveCheckpointPath (podFullName p)) b))"
  using valid_pod_slash [OF assms] writeCheckpointManifest_path [of "sanitizeCheckpointPod p" encode s]
  by (auto simp: manifestStep_def fst_writeManifestIfDifferent split: sum.splits)

lemma checkpointParent_results:
  "checkpointParent encode gs gc needs s p \<in>
     {manifestStep encode s p, fst (checkpointSecretVolumes gs (manifestStep encode s p) p),
      fst (checkpointConfigMapVolumes gc (fst (checkpointSecretVolumes gs (manifestStep encode s p) p)) p)}"
  by (auto simp: checkpointParent_def manifestStep_def Let_def split: prod.splits option.splits sum.splits)

lemma outside_manifests [simp]:
  "outside (inactiveKey f)" "outside (activeKey f)" "outside [''etc'', ''kubernetes'', ''manifests'']"
  "outside [''etc'', ''kubernetes'', ''inactive-manifests'']"
  by (simp_all add: outside_def)

lemma temp_key_manifest [simp]:
  "\<not> temp_key (inactiveKey (manifestName pid))" "\<not> temp_key (activeKey (manifestName pid))"
  by (simp_all add: temp_key_def)

lemma manifestStep_env: "valid_pod p \<Longrightarrow> same_env s (manifestStep encode s p)"
  using manifestStep_cases [of p encode s] manifest.wr_env by auto

lemma manifestStep_frame:
  assumes "valid_pod p" "k \<noteq> inactiveKey (manifestName (podFullName p))" "untouched s k"
  shows "fs_node (manifestStep encode s p) k = fs_node s k"
  using manifestStep_cases [OF assms(1), of encode s] manifest.wr_frame assms(2,3) by auto

lemma checkpointParent_env:
  assumes "valid_pod p"
  shows "same_env s (checkpointParent encode gs gc needs s p)"
proof -
  note 1 = manifestStep_env [OF assms, of s encode]
  note 2 = same_env_trans [OF 1 secretVolumes_env [of "manifestStep encode s p" gs p]]
  note 3 = same_env_trans [OF 2 configMapVolumes_env [of "fst (checkpointSecretVolumes gs (manifestStep encode s p) p)" gc p]]
  show ?thesis using checkpointParent_results [of encode gs gc needs s p] 1 2 3 by auto
qed

lemma checkpointParent_assets_frame:
  assumes "valid_objects gs" "valid_objects gc" "valid_pod p" "outside k" "untouched (manifestStep encode s p) k"
  shows "fs_node (checkpointParent encode gs gc needs s p) k = fs_node (manifestStep encode s p) k"
proof -
  let ?s1 = "manifestStep encode s p"
  have 1: "fs_node (fst (checkpointSecretVolumes gs ?s1 p)) k = fs_node ?s1 k"
    using assms by (intro secretVolumes_frame)
  then have "fs_node (fst (checkpointConfigMapVolumes gc (fst (checkpointSecretVolumes gs ?s1 p)) p)) k = fs_node ?s1 k"
    using assms configMapVolumes_frame untouched_same [OF 1] by simp
  with 1 show ?thesis using checkpointParent_results [of encode gs gc needs s p] by auto
qed

lemma checkpointParent_frame:
  assumes "valid_objects gs" "valid_objects gc" "valid_pod p" "outside k" "untouched s k"
    and "k \<noteq> inactiveKey (manifestName (podFullName p))"
  shows "fs_node (checkpointParent encode gs gc needs s p) k = fs_node s k"
proof -
  note same = manifestStep_frame [OF assms(3,6,5), of encode]
  have "untouched (manifestStep encode s p) k" using assms(5) untouched_same [OF same] by simp
  from checkpointParent_assets_frame [OF assms(1-4) this, of needs] same show ?thesis by simp
qed

text \<open>The manifest of a name is its old content or what one of the parents encodes to.\<close>

lemma checkpointParent_manifest:
  assumes "valid_objects gs" "valid_objects gc" "valid_pod p"
  shows "content (checkpointParent encode gs gc needs s p) (inactiveKey (manifestName pid)) = content s (inactiveKey (manifestName pid)) \<or>
     (\<exists>b. encode (sanitizeCheckpointPod p) = Inr b \<and> manifestName (podFullName p) = manifestName pid \<and>
        content (checkpointParent encode gs gc needs s p) (inactiveKey (manifestName pid)) = Some b)"
proof -
  let ?k = "inactiveKey (manifestName pid)"
  have "content (checkpointParent encode gs gc needs s p) ?k = content (manifestStep encode s p) ?k"
    using checkpointParent_assets_frame [OF assms, of ?k encode s needs]
    by (intro content_node_cong) (simp add: untouched_def)
  moreover have "content (manifestStep encode s p) ?k = content s ?k \<or>
      (\<exists>b. encode (sanitizeCheckpointPod p) = Inr b \<and> manifestName (podFullName p) = manifestName pid \<and>
        content (manifestStep encode s p) ?k = Some b)"
  proof (cases "encode (sanitizeCheckpointPod p)")
    case (Inl e)
    then show ?thesis using manifestStep_cases [OF assms(3), of encode s] by auto
  next
    case (Inr b)
    then show ?thesis
      using manifestStep_cases [OF assms(3), of encode s]
        manifest.wr_content_cases [of ?k s "podFullNameToInactiveCheckpointPath (podFullName p)" b] by auto
  qed
  ultimately show ?thesis by simp
qed

lemma parents_env: "list_all valid_pod ps \<Longrightarrow> same_env s (foldl (checkpointParent encode gs gc needs) s ps)"
proof (induction ps arbitrary: s)
  case (Cons p ps)
  then show ?case using checkpointParent_env [of p s encode gs gc needs] by (auto intro: same_env_trans)
qed simp

lemma parents_frame:
  assumes "valid_objects gs" "valid_objects gc" "list_all valid_pod ps" "outside k" "untouched s k"
    and "\<And>p. p \<in> set ps \<Longrightarrow> k \<noteq> inactiveKey (manifestName (podFullName p))"
  shows "fs_node (foldl (checkpointParent encode gs gc needs) s ps) k = fs_node s k"
  using assms
proof (induction ps arbitrary: s)
  case (Cons p ps)
  let ?s1 = "checkpointParent encode gs gc needs s p"
  have 1: "fs_node ?s1 k = fs_node s k"
    using Cons.prems by (intro checkpointParent_frame) simp_all
  have "fs_node (foldl (checkpointParent encode gs gc needs) ?s1 ps) k = fs_node ?s1 k"
    using Cons.prems untouched_same [OF 1] by (intro Cons.IH) simp_all
  with 1 show ?case by simp
qed simp

lemma parents_manifest:
  assumes "valid_objects gs" "valid_objects gc" "list_all valid_pod ps"
  shows "content (foldl (checkpointParent encode gs gc needs) s ps) (inactiveKey (manifestName pid)) = content s (inactiveKey (manifestName pid)) \<or>
     (\<exists>p b. p \<in> set ps \<and> encode (sanitizeCheckpointPod p) = Inr b \<and> manifestName (podFullName p) = manifestName pid \<and>
        content (foldl (checkpointParent encode gs gc needs) s ps) (inactiveKey (manifestName pid)) = Some b)"
  using assms
proof (induction ps arbitrary: s)
  case (Cons p ps)
  let ?s1 = "checkpointParent encode gs gc needs s p"
  from Cons.prems have p: "valid_pod p" and ps: "list_all valid_pod ps" by simp_all
  from Cons.IH [OF Cons.prems(1,2) ps, of ?s1] checkpointParent_manifest [OF Cons.prems(1,2) p, of encode needs s pid]
  show ?case by auto
qed simp

section \<open>Starting and stopping\<close>

definition starts_possible :: "fs \<Rightarrow> bool" where
  "starts_possible s \<longleftrightarrow> (\<forall>opr k. faults s opr k = None) \<and> is_dir (fs_node s [''etc'', ''kubernetes'', ''manifests'']) \<and>
     (\<forall>pid. \<not> is_dir (fs_node s (activeKey (manifestName pid))))"

lemma starts_possible_cong:
  "same_env s s' \<Longrightarrow> starts_possible s \<Longrightarrow>
   fs_node s' [''etc'', ''kubernetes'', ''manifests''] = fs_node s [''etc'', ''kubernetes'', ''manifests''] \<Longrightarrow>
   (\<And>pid. is_dir (fs_node s' (activeKey (manifestName pid))) \<Longrightarrow> is_dir (fs_node s (activeKey (manifestName pid)))) \<Longrightarrow>
   starts_possible s'"
  by (auto simp: starts_possible_def same_env_def)

lemma handleStartOne_cases:
  "handleStartOne s pid = s \<or>
   (\<exists>d. content s (inactiveKey (manifestName pid)) = Some d \<and>
      handleStartOne s pid = fst (writeManifest s (podFullNameToActiveCheckpointPath pid) d))"
  by (auto simp: handleStartOne_def fst_writeManifestIfDifferent split: sum.splits dest!: ioutil_ReadFile_Inr)

lemma active_path:
  "fs_key s (path_Dir (podFullNameToActiveCheckpointPath pid)) = butlast (fs_key s (podFullNameToActiveCheckpointPath pid))"
proof -
  have "path_Dir (podFullNameToActiveCheckpointPath pid) = slash # joinWith slash [''etc'', ''kubernetes'', ''manifests'']"
    using path_Dir_abs [of "[''etc'', ''kubernetes'', ''manifests'']" "manifestName pid"] by (simp add: manifest_paths)
  moreover have "fs_key s (slash # joinWith slash [''etc'', ''kubernetes'', ''manifests'']) = [''etc'', ''kubernetes'', ''manifests'']"
    by (rule fs_key_abs) simp_all
  ultimately show ?thesis by simp
qed

lemma writeManifest_keeps_file:
  assumes "snd (writeManifest s p d) = None" "is_dir (fs_node (fst (writeManifest s p d)) (fs_key s p))"
  shows "is_dir (fs_node s (fs_key s p))"
  using assms stored.wr_ok [of s p d rootUID rootGID 420]
  by (cases rule: writeManifestIfDifferent_cases [of s p "''''" d]) (auto simp: writeManifest_def)

lemma writeManifest_start_ok:
  assumes "starts_possible s"
  shows "snd (writeManifest s (podFullNameToActiveCheckpointPath pid) d) = None"
proof -
  have nofault: "faults s opr k = None" for opr k using assms by (simp add: starts_possible_def)
  have "snd (writeAndAtomicRename s (podFullNameToActiveCheckpointPath pid) d rootUID rootGID 420) = None"
    using assms by (intro writeAndAtomicRename_succeeds nofault active_path) (simp_all add: starts_possible_def)
  moreover have "os_IsNotExist e" if "ioutil_ReadFile s (podFullNameToActiveCheckpointPath pid) = Inl e" for e
    using that assms
    by (auto simp: ioutil_ReadFile_def fs_fault_def starts_possible_def is_dir_def Let_def split: option.splits node.splits)
  ultimately show ?thesis
    by (cases rule: writeManifestIfDifferent_cases [of s "podFullNameToActiveCheckpointPath pid" "''''" d])
      (auto simp: writeManifest_def)
qed

lemma handleStartOne_possible:
  assumes "starts_possible s"
  shows "starts_possible (handleStartOne s pid)"
proof (cases "handleStartOne s pid = s")
  case False
  then obtain d where s': "handleStartOne s pid = fst (writeManifest s (podFullNameToActiveCheckpointPath pid) d)"
    using handleStartOne_cases by blast
  note ok = writeManifest_start_ok [OF assms, of pid d]
  show ?thesis unfolding s'
  proof (rule starts_possible_cong [OF manifest.wr_env assms])
    show "fs_node (fst (writeManifest s (podFullNameToActiveCheckpointPath pid) d)) [''etc'', ''kubernetes'', ''manifests'']
        = fs_node s [''etc'', ''kubernetes'', ''manifests'']"
      using writeManifest_success [OF ok] by simp
    fix pid' assume d: "is_dir (fs_node (fst (writeManifest s (podFullNameToActiveCheckpointPath pid) d)) (activeKey (manifestName pid')))"
    show "is_dir (fs_node s (activeKey (manifestName pid')))"
    proof (cases "manifestName pid' = manifestName pid")
      case True
      then show ?thesis using d writeManifest_keeps_file [OF ok] by simp
    next
      case False
      then show ?thesis using d writeManifest_success [OF ok, of "activeKey (manifestName pid')"] by simp
    qed
  qed
qed (use assms in simp)

lemma handleStartOne_inactive: "content (handleStartOne s pid') (inactiveKey (manifestName pid)) = content s (inactiveKey (manifestName pid))"
  using handleStartOne_cases [of s pid'] manifest.wr_frame [of "inactiveKey (manifestName pid)" s "podFullNameToActiveCheckpointPath pid'"]
  by (auto simp: content_def untouched_def)

lemma handleStartOne_copies:
  assumes "starts_possible s" "content s (inactiveKey (manifestName pid)) = Some d" "d \<noteq> []"
  shows "content (handleStartOne s pid) (activeKey (manifestName pid)) = Some d"
proof -
  have "ioutil_ReadFile s (podFullNameToInactiveCheckpointPath pid) = Inr d"
    using assms by (intro ioutil_ReadFile_content) (simp_all add: starts_possible_def fs_fault_def)
  then have "handleStartOne s pid = fst (writeManifest s (podFullNameToActiveCheckpointPath pid) d)"
    by (simp add: handleStartOne_def fst_writeManifestIfDifferent)
  then show ?thesis using writeManifest_ok [OF writeManifest_start_ok [OF assms(1)] assms(3)] by simp
qed

text \<open>A started checkpoint stays started while others are.\<close>

lemma handleStartOne_keeps:
  assumes "starts_possible s" "content s (inactiveKey (manifestName pid)) = Some d" "d \<noteq> []"
    and "content s (activeKey (manifestName pid)) = Some d"
  shows "content (handleStartOne s pid') (activeKey (manifestName pid)) = Some d"
proof (cases "manifestName pid' = manifestName pid")
  case True
  then show ?thesis using handleStartOne_copies [of s pid' d] assms by simp
next
  case False
  then show ?thesis
    using handleStartOne_cases [of s pid'] manifest.wr_frame [of "activeKey (manifestName pid)" s "podFullNameToActiveCheckpointPath pid'"] assms(4)
    by (auto simp: content_def untouched_def)
qed

lemma handleStart_copies:
  assumes "starts_possible s" "content s (inactiveKey (manifestName pid)) = Some d" "d \<noteq> []"
    and "pid \<in> set ids \<or> content s (activeKey (manifestName pid)) = Some d"
  shows "content (handleStart s ids) (activeKey (manifestName pid)) = Some d \<and>
     content (handleStart s ids) (inactiveKey (manifestName pid)) = Some d"
  using assms unfolding handleStart_def
proof (induction ids arbitrary: s)
  case (Cons x ids)
  have "x = pid \<Longrightarrow> content (handleStartOne s x) (activeKey (manifestName pid)) = Some d"
    using handleStartOne_copies [OF Cons.prems(1-3)] by simp
  then have "pid \<in> set ids \<or> content (handleStartOne s x) (activeKey (manifestName pid)) = Some d"
    using Cons.prems(4) handleStartOne_keeps [OF Cons.prems(1-3)] by auto
  then show ?case
    using Cons.IH [of "handleStartOne s x"] handleStartOne_possible [OF Cons.prems(1)] handleStartOne_inactive Cons.prems(2,3) by simp
qed simp

lemma handleStop_env: "same_env s (handleStop s ids)"
  unfolding handleStop_def
proof (induction ids arbitrary: s)
  case (Cons x ids)
  show ?case using Cons.IH os_Remove_env by (auto intro: same_env_trans)
qed simp

lemma handleStop_frame:
  "(\<And>pid. pid \<in> set ids \<Longrightarrow> k \<noteq> activeKey (manifestName pid)) \<Longrightarrow> fs_node (handleStop s ids) k = fs_node s k"
  unfolding handleStop_def
proof (induction ids arbitrary: s)
  case (Cons x ids)
  have "fs_node (fst (os_Remove s (podFullNameToActiveCheckpointPath x))) k = fs_node s k"
    using Cons.prems [of x] by (intro os_Remove_frame) simp
  with Cons show ?case by simp
qed simp

lemma os_Remove_only: "fs_node (fst (os_Remove s p)) k = fs_node s k \<or> fs_node (fst (os_Remove s p)) k = None"
  by (auto simp: os_Remove_def Let_def split: option.splits node.splits)

lemma handleStop_only: "fs_node (handleStop s ids) k = fs_node s k \<or> fs_node (handleStop s ids) k = None"
  unfolding handleStop_def
proof (induction ids arbitrary: s)
  case (Cons x ids)
  show ?case using Cons.IH [of "fst (os_Remove s (podFullNameToActiveCheckpointPath x))"] os_Remove_only [of s "podFullNameToActiveCheckpointPath x" k] by auto
qed simp

lemma handleStop_possible: "starts_possible s \<Longrightarrow> starts_possible (handleStop s ids)"
proof (rule starts_possible_cong [OF handleStop_env])
  show "fs_node (handleStop s ids) [''etc'', ''kubernetes'', ''manifests''] = fs_node s [''etc'', ''kubernetes'', ''manifests'']"
    by (rule handleStop_frame) simp
  show "is_dir (fs_node s (activeKey (manifestName pid)))" if "is_dir (fs_node (handleStop s ids) (activeKey (manifestName pid)))" for pid
    using that handleStop_only [of s ids "activeKey (manifestName pid)"] by auto
qed

section \<open>Loading both directories\<close>

lemma loadCheckpoints_only:
  "fs_node (fst (loadCheckpoints decode path s fi acc)) k = fs_node s k \<or> fs_node (fst (loadCheckpoints decode path s fi acc)) k = None"
proof (induction fi arbitrary: s acc)
  case (Cons f fi)
  have "fs_node (fst (loadCheckpoints decode path (fst (os_Remove s p)) fi acc')) k = fs_node s k \<or>
      fs_node (fst (loadCheckpoints decode path (fst (os_Remove s p)) fi acc')) k = None" for p acc'
    using Cons.IH [of "fst (os_Remove s p)" acc'] os_Remove_only [of s p k] by auto
  with Cons.IH show ?case by (simp add: loadCheckpoints.simps(2) Let_def split: sum.splits)
qed simp

lemma getFileCheckpoints_loads:
  obtains (fatal) e where "getFileCheckpoints decode s path = (s, Inl e)"
  | (loaded) fi where "getFileCheckpoints decode s path =
      (fst (loadCheckpoints decode path s fi []), Inr (snd (loadCheckpoints decode path s fi [])))"
  by (cases "ioutil_ReadDir s path") (simp_all add: getFileCheckpoints_def case_prod_beta)

lemma getFileCheckpoints_only:
  "fs_node (fst (getFileCheckpoints decode s path)) k = fs_node s k \<or> fs_node (fst (getFileCheckpoints decode s path)) k = None"
  using loadCheckpoints_only [of decode path s _ "[]" k]
  by (cases rule: getFileCheckpoints_loads [of decode s path]) simp_all

lemma getFileCheckpoints_env: "same_env s (fst (getFileCheckpoints decode s path))"
  using loadCheckpoints_env [of s decode path _ "[]"]
  by (cases rule: getFileCheckpoints_loads [of decode s path]) simp_all

lemma getFileCheckpoints_keeps:
  assumes l: "getFileCheckpoints decode s path = (s', Inr cps)" and "names_ok s"
    and path: "path = slash # joinWith slash bs" "bs \<noteq> []" "list_all plain_comp bs"
    and "\<And>f. hasPrefix f ''.'' \<Longrightarrow> k \<noteq> bs @ [f]"
  shows "fs_node s' k = fs_node s k"
  using loadCheckpoints_frame [OF path(2,3) getFileCheckpoints_Inr(1) [OF l assms(2) path], of k decode s "[]"]
    getFileCheckpoints_Inr(2) [OF l assms(2) path] assms(6) path(1) by simp

lemma loadCheckpoints_keys:
  "list_all (\<lambda>(k, p). podFullName p = k) acc \<Longrightarrow> list_all (\<lambda>(k, p). podFullName p = k) (snd (loadCheckpoints decode path s fi acc))"
proof (induction fi arbitrary: s acc)
  case (Cons f fi)
  have "list_all (\<lambda>(k, p). podFullName p = k) (AList.update (podFullName cp) cp acc)" for cp
    using Cons.prems set_update_subset [of "podFullName cp" cp acc] by (auto simp: list_all_iff)
  with Cons show ?case by (simp add: loadCheckpoints.simps(2) Let_def split: sum.splits)
qed simp

lemma getFileCheckpoints_podMap:
  assumes "getFileCheckpoints decode s path = (s', Inr cps)" "list_all (\<lambda>(k, p). valid_pod p) cps"
  shows "podMap_ok cps"
proof (cases rule: getFileCheckpoints_loads [of decode s path, case_names fatal loaded])
  case (loaded fi)
  then have "distinct (map fst cps)" "list_all (\<lambda>(k, p). podFullName p = k) cps"
    using assms(1) loadCheckpoints_keys [of "[]" decode path s fi] loadCheckpoints_distinct [of "[]" decode path s fi] by auto
  with assms(2) show ?thesis by (auto simp: podMap_ok_def list_all_iff dest!: bspec valid_pod_slash)
qed (use assms(1) in simp)

lemma names_ok_only: "names_ok s \<Longrightarrow> (\<And>k. fs_node s' k = fs_node s k \<or> fs_node s' k = None) \<Longrightarrow> names_ok s'"
  unfolding names_ok_def by metis

lemma podListToMap_podMap_ok:
  assumes "list_all (\<lambda>(k, p). valid_pod p) (podListToMap pl f)"
  shows "podMap_ok (podListToMap pl f)"
proof -
  have "podFullName p = k" if "(k, p) \<in> set (podListToMap pl f)" for k p
  proof -
    have "map_of (podListToMap pl f) k = Some p" using that distinct_podListToMap by (rule map_of_is_SomeI [rotated])
    then show ?thesis
      by (auto simp: map_of_podListToMap find_Some_iff podFullName_cong [of "setTypeMetaPod _"])
  qed
  with assms show ?thesis
    by (auto simp: podMap_ok_def distinct_podListToMap list_all_iff dest!: valid_pod_slash)
qed

lemma localParentPods_ok: "list_all (\<lambda>(k, p). valid_pod p) (localParentPods kc) \<Longrightarrow> podMap_ok (localParentPods kc)"
  using podListToMap_podMap_ok podListToMap_podMap_ok [of "[]"]
  by (auto simp: localParentPods_def podListToParentPods_def split: sum.splits)

lemma manifestName_no_dot:
  assumes "valid_pod p"
  shows "\<not> hasPrefix (manifestName (podFullName p)) ''.''"
proof -
  have "manifestName (podFullName p) = pod_Namespace p @ ''-'' @ pod_Name p @ ''.json''"
    using replaceByte_fullName [of "pod_Namespace p" "pod_Name p"] valid_pod_slash [OF assms]
    by (simp add: manifestName_def podFullName_def)
  then show ?thesis using assms by (cases "pod_Namespace p") (auto simp: valid_pod_def hasPrefix_def plain_comp_def)
qed

section \<open>Decisions after a restart\<close>

text \<open>The states a checkpoint can have right after a restart; none of them can be collected while
  the API server is away.\<close>

definition fresh_state :: "checkpointState \<Rightarrow> bool" where
  "fresh_state st \<longleftrightarrow> st \<in> {stateActive, stateInactive, stateNone, stateSelfCheckpointActive}"

lemma fresh_not_removed: "fresh_state st \<Longrightarrow> \<not> apiAvailable a \<Longrightarrow> transition gp now a st \<noteq> stateRemove"
  by (auto simp: fresh_state_def transition_defs split: if_splits)

lemma merged_fresh:
  "merged c noCheckpoints lp ap act ina k = Some cp \<Longrightarrow> fresh_state (cp_state cp)"
  by (auto simp: merged_def known_def noCheckpoints_def fromDisk_def fresh_state_def Let_def split: option.splits if_splits)

lemma cps_inv_noCheckpoints: "cps_inv c noCheckpoints"
  by (simp add: cps_inv_def noCheckpoints_def)

lemma merged_self_fresh:
  assumes "slash \<notin> set (PodNamespace c)" "podMap_ok lp" "podMap_ok ap" "podMap_ok act" "podMap_ok ina"
    and "merged c noCheckpoints lp ap act ina (selfName c) = Some cp"
  shows "cp_state (asSelf cp) = stateSelfCheckpointActive"
  using assms(6) isPodCheckpointer_iff [OF _ assms(1)] podMap_ok_lookup [OF assms(4)] podMap_ok_lookup [OF assms(5)]
  by (auto simp: merged_def known_def noCheckpoints_def fromDisk_def asSelf_def Let_def split: option.splits)

lemma restart_decisions:
  assumes c: "slash \<notin> set (PodNamespace c)" and ok: "podMap_ok lp" "podMap_ok act" "podMap_ok ina"
    and q: "map_of ina pid = Some q" "map_of act pid = None" and run: "map_of lr pid = None" and self: "pid \<noteq> selfName c"
  defines "cs \<equiv> update noCheckpoints lr lp [] act ina c"
  shows "pid \<in> set (starts (snd (process gp cs now False lr lp [])))"
    and "removes (snd (process gp cs now False lr lp [])) = []"
proof -
  let ?cond = "conditionOf False lr lp []"
  have api: "podMap_ok []" by (simp add: podMap_ok_def)
  note res = update_result [OF cps_inv_noCheckpoints c ok(1) api ok(2,3), of lr, folded cs_def]
  have inv: "cps_inv c cs"
    unfolding cs_def using ok api c by (intro update_keeps_inv cps_inv_noCheckpoints)
  note m = cps_inv_map [OF inv]
  have away: "\<not> apiAvailable (?cond k)" for k by (simp add: conditionOf_def)
  have fresh: "fresh_state (cp_state cp)" if "(k, cp) \<in> set (cs_map cs)" for k cp
    using that m res(1) [of k] merged_fresh [of c lp "[]" act ina k cp] by (metis map_of_is_SomeI option.distinct(1))
  have notremoved: "filter (moved gp now ?cond A_remove) (cs_map cs) = []"
    using fresh fresh_not_removed [OF _ away] by (auto simp: filter_empty_conv moved_def next_state_def)
  have "\<not> isPodCheckpointer q c"
    using podMap_ok_lookup [OF ok(3) q(1)] isPodCheckpointer_iff [OF _ c] self by auto
  then obtain cp where cp: "map_of (cs_map cs) pid = Some cp" "cp_state cp = stateInactive"
    using res(1) [of pid] self q by (auto simp: merged_def known_def noCheckpoints_def fromDisk_def Let_def split: option.splits)
  have "moved gp now ?cond A_start (pid, cp)"
    using cp(2) run by (simp add: moved_def next_state_def conditionOf_def inactive_transition_def)
  then have started: "pid \<in> set (map fst (filter (moved gp now ?cond A_start) (cs_map cs)))"
    using map_of_SomeD [OF cp(1)] by force
  have self_state: "transition gp now (?cond (cp_name sc)) (cp_state sc) = stateSelfCheckpointActive" if "cs_self cs = Some sc" for sc
  proof -
    from that res(2) obtain cp where "merged c noCheckpoints lp [] act ina (selfName c) = Some cp" "sc = asSelf cp" by auto
    then have "cp_state sc = stateSelfCheckpointActive" using merged_self_fresh [OF c ok(1) api ok(2,3)] by simp
    then show ?thesis by (simp add: self_transition_def conditionOf_def)
  qed
  have "pid \<in> set (starts (snd (process gp cs now False lr lp []))) \<and> removes (snd (process gp cs now False lr lp [])) = []"
  proof (cases rule: process_cases [OF inv, of gp now False lr lp "[]", case_names alone running stopped gone])
    case alone
    then show ?thesis using processAll_result(2) [of "cs_map cs" gp now ?cond] m started notremoved by (simp add: noActions_def)
  next
    case (running sc)
    then show ?thesis using processAll_result(2) [of "cs_map cs" gp now ?cond] m started notremoved by (simp add: noActions_def)
  qed (use self_state in auto)
  then show "pid \<in> set (starts (snd (process gp cs now False lr lp [])))"
    and "removes (snd (process gp cs now False lr lp [])) = []" by simp_all
qed

lemma restart_pods:
  assumes c: "slash \<notin> set (PodNamespace c)" and ok: "podMap_ok lp" "podMap_ok act" "podMap_ok ina"
    and p: "p \<in> set (checkpointParentPods (update noCheckpoints lr lp [] act ina c))"
  shows "(podFullName p, p) \<in> set (lp @ act @ ina) \<and>
     (\<exists>cp. merged c noCheckpoints lp [] act ina (podFullName p) = Some cp \<and> cp_pod cp = p)"
proof -
  let ?cs = "update noCheckpoints lr lp [] act ina c"
  have api: "podMap_ok []" by (simp add: podMap_ok_def)
  note res = update_result [OF cps_inv_noCheckpoints c ok(1) api ok(2,3), of lr]
  have "cps_inv c ?cs" using ok api c by (intro update_keeps_inv cps_inv_noCheckpoints)
  note m = cps_inv_map [OF this]
  have "\<exists>k cp. merged c noCheckpoints lp [] act ina k = Some cp \<and> cp_pod cp = p"
  proof -
    from p consider k cp where "(k, cp) \<in> set (cs_map ?cs)" "cp_pod cp = p" | sc where "cs_self ?cs = Some sc" "cp_pod sc = p"
      by (cases "cs_self ?cs") (auto simp: checkpointParentPods_def)
    then show ?thesis
    proof cases
      case 1
      then show ?thesis using m res(1) [of k] by (metis map_of_is_SomeI option.distinct(1))
    next
      case 2
      then obtain cp where "merged c noCheckpoints lp [] act ina (selfName c) = Some cp" "sc = asSelf cp" using res(2) by auto
      with 2 show ?thesis by (intro exI [of _ "selfName c"] exI [of _ cp]) (simp add: asSelf_def split: if_splits)
    qed
  qed
  then obtain k cp where k: "merged c noCheckpoints lp [] act ina k = Some cp" "cp_pod cp = p" by blast
  have "podFullName p = k" using merged_ok [OF cps_inv_noCheckpoints c ok(1) api ok(2,3) k(1)] k(2) by (simp add: cp_ok_def)
  moreover have "(k, p) \<in> set (lp @ act @ ina)"
    using k by (auto simp: merged_def known_def noCheckpoints_def fromDisk_def parentPod_def Let_def
        split: option.splits dest!: map_of_SomeD)
  ultimately show ?thesis using k by auto
qed

lemma getAPIParentPods_ok:
  "getAPIParentPods lister c n = (avail, ap) \<Longrightarrow> list_all (\<lambda>(k, p). valid_pod p) ap \<Longrightarrow> podMap_ok ap"
  using podListToMap_podMap_ok podListToMap_podMap_ok [of "[]"]
  by (auto simp: getAPIParentPods_def podListToParentPods_def split: sum.splits)

section \<open>Properties\<close>

lemma restart_parent:
  assumes c: "slash \<notin> set (PodNamespace c)" and ok: "podMap_ok lp" "podMap_ok active" "podMap_ok inactive"
    and same: "list_all (\<lambda>(k, p). manifestName k = manifestName pid \<longrightarrow> k = pid) (lp @ active @ inactive)"
    and q: "map_of inactive pid = Some q" "map_of active pid = None"
    and p: "p \<in> set (checkpointParentPods (update noCheckpoints lr lp [] active inactive c))" "manifestName (podFullName p) = manifestName pid"
  shows "p = (case map_of lp pid of Some p \<Rightarrow> p | None \<Rightarrow> q)"
proof -
  have "podFullName p = pid" using restart_pods [OF c ok p(1)] same p(2) by (auto simp: list_all_iff)
  with restart_pods [OF c ok p(1)] q show ?thesis
    by (auto simp: merged_def known_def noCheckpoints_def fromDisk_def parentPod_def Let_def split: option.splits)
qed

text \<open>What loading both directories does to the disk, and that later steps can still start checkpoints.\<close>

lemma loads_effect:
  assumes names: "names_ok s" and load: "getFileCheckpoints decode s activeCheckpointPath = (s1, Inr active)" "getFileCheckpoints decode s1 inactiveCheckpointPath = (s2, Inr inactive)"
  shows "same_env s s2"
    and "(\<And>f. hasPrefix f ''.'' \<Longrightarrow> k \<noteq> activeKey f) \<Longrightarrow> (\<And>f. hasPrefix f ''.'' \<Longrightarrow> k \<noteq> inactiveKey f) \<Longrightarrow> fs_node s2 k = fs_node s k"
    and "fs_node s2 k = fs_node s k \<or> fs_node s2 k = None"
proof -
  have names1: "names_ok s1"
    using names_ok_only [OF names] getFileCheckpoints_only [of decode s activeCheckpointPath] load(1) by auto
  show "same_env s s2"
    using same_env_trans getFileCheckpoints_env [of s decode activeCheckpointPath]
      getFileCheckpoints_env [of s1 decode inactiveCheckpointPath] load by (metis fst_conv)
  show "fs_node s2 k = fs_node s k" if "\<And>f. hasPrefix f ''.'' \<Longrightarrow> k \<noteq> activeKey f" "\<And>f. hasPrefix f ''.'' \<Longrightarrow> k \<noteq> inactiveKey f"
    using getFileCheckpoints_keeps [OF load(1) names checkpoint_dirs(1), of k]
      getFileCheckpoints_keeps [OF load(2) names1 checkpoint_dirs(2), of k] that by simp
  show "fs_node s2 k = fs_node s k \<or> fs_node s2 k = None"
    using getFileCheckpoints_only [of decode s activeCheckpointPath k]
      getFileCheckpoints_only [of decode s1 inactiveCheckpointPath k] load by auto
qed

lemma loads_start:
  assumes nofault: "\<forall>opr k. faults s opr k = None" and names: "names_ok s"
    and dir: "is_dir (fs_node s [''etc'', ''kubernetes'', ''manifests''])"
    and nosub: "list_all (\<lambda>f. \<not> is_dir (fs_node s (activeKey f))) (children s [''etc'', ''kubernetes'', ''manifests''])"
    and load: "getFileCheckpoints decode s activeCheckpointPath = (s1, Inr active)" "getFileCheckpoints decode s1 inactiveCheckpointPath = (s2, Inr inactive)"
  shows "starts_possible s2"
proof (rule starts_possible_cong [OF loads_effect(1) [OF names load]])
  show "starts_possible s" using nofault dir nosub children_iff [of _ s "[''etc'', ''kubernetes'', ''manifests'']"]
    by (force simp: starts_possible_def list_all_iff is_dir_def split: option.splits)
  show "fs_node s2 [''etc'', ''kubernetes'', ''manifests''] = fs_node s [''etc'', ''kubernetes'', ''manifests'']"
    by (rule loads_effect(2) [OF names load]) simp_all
  show "is_dir (fs_node s (activeKey (manifestName pid)))" if "is_dir (fs_node s2 (activeKey (manifestName pid)))" for pid
    using loads_effect(3) [OF names load, of "activeKey (manifestName pid)"] that by auto
qed

lemma parents_start:
  assumes objs: "valid_objects (w_getSecret w)" "valid_objects (w_getConfigMap w)"
    and valid: "list_all valid_pod (checkpointParentPods (l_checkpoints st))" and sp: "starts_possible (l_fs st)"
  shows "starts_possible (l_fs (createCheckpointsForValidParents encode w st))"
proof (rule starts_possible_cong [OF _ sp])
  let ?st1 = "createCheckpointsForValidParents encode w st"
  show "same_env (l_fs st) (l_fs ?st1)"
    by (simp add: createCheckpointsForValidParents_def Let_def parents_env [OF valid])
  have frame: "fs_node (l_fs ?st1) k = fs_node (l_fs st) k" if "outside k" "\<not> temp_key k" "\<And>f. k \<noteq> inactiveKey f" for k
    using parents_frame [OF objs valid that(1)] that(2,3) by (simp add: createCheckpointsForValidParents_def Let_def untouched_def)
  show "fs_node (l_fs ?st1) [''etc'', ''kubernetes'', ''manifests''] = fs_node (l_fs st) [''etc'', ''kubernetes'', ''manifests'']"
    by (rule frame) (simp_all add: temp_key_def temp_name_def)
  show "is_dir (fs_node (l_fs st) (activeKey (manifestName x)))" if "is_dir (fs_node (l_fs ?st1) (activeKey (manifestName x)))" for x
    using that frame [of "activeKey (manifestName x)"] by simp
qed

text \<open>
  C1: The checkpointer does what it is for. It restarts on a node whose API server is
  unreachable and where a checkpointed pod is not running; the pod's checkpoint lies in the
  inactive directory. Then the first poll puts the pod's manifest into the directory of static
  pods, so that the kubelet starts it: the active manifest has the content of the inactive one,
  which is the one found on disk or a fresh encoding of the pod's sanitized parent. This holds
  for every answer of the kubelet and the container runtime, every other content of the
  directories and every iteration order, on a file system that does not fail, as long as no
  other pod's manifest has the same file name.
\<close>

theorem restart_during_outage_activates_checkpoint:
  fixes s :: fs and w :: world and c :: checkpointerPod
  assumes nofault: "\<forall>opr k. faults s opr k = None" and names: "names_ok s"
    and dir: "is_dir (fs_node s [''etc'', ''kubernetes'', ''manifests''])"
    and nosub: "list_all (\<lambda>f. \<not> is_dir (fs_node s (activeKey f))) (children s [''etc'', ''kubernetes'', ''manifests''])"
    and load: "getFileCheckpoints decode s activeCheckpointPath = (s1, Inr active)"
      "getFileCheckpoints decode s1 inactiveCheckpointPath = (s2, Inr inactive)"
    and pods: "list_all (\<lambda>(k, p). valid_pod p \<and> (manifestName k = manifestName pid \<longrightarrow> k = pid))
      (localParentPods (w_kubelet w) @ active @ inactive)"
    and q: "map_of inactive pid = Some q" "map_of active pid = None"
    and d: "content s (inactiveKey (manifestName pid)) = Some d" "d \<noteq> []"
    and enc: "\<forall>p. encode p \<noteq> Inr []" and objs: "valid_objects (w_getSecret w)" "valid_objects (w_getConfigMap w)"
    and down: "w_listPods w (PodNamespace c) (NodeName c) = Inl e"
    and stopped: "map_of (localRunningPods (w_cri w)) pid = None"
    and self: "pid \<noteq> selfName c" "slash \<notin> set (PodNamespace c)"
  shows "\<exists>st' d'. pollOnce encode decode gp c w \<lparr>l_fs = s, l_checkpoints = noCheckpoints, l_lastCheckpoint = lastCheck\<rparr> = Inr st' \<and>
     content (l_fs st') (activeKey (manifestName pid)) = Some d' \<and>
     content (l_fs st') (inactiveKey (manifestName pid)) = Some d' \<and>
     (d' = d \<or> encode (sanitizeCheckpointPod (case map_of (localParentPods (w_kubelet w)) pid of Some p \<Rightarrow> p | None \<Rightarrow> q)) = Inr d')"
proof -
  let ?lp = "localParentPods (w_kubelet w)" and ?lr = "localRunningPods (w_cri w)"
  let ?K = "inactiveKey (manifestName pid)"
  let ?cs = "update noCheckpoints ?lr ?lp [] active inactive c"
  let ?st = "\<lparr>l_fs = s, l_checkpoints = noCheckpoints, l_lastCheckpoint = lastCheck\<rparr>"
  let ?st1 = "createCheckpointsForValidParents encode w (?st\<lparr>l_fs := s2, l_checkpoints := ?cs\<rparr>)"
  let ?ps = "checkpointParentPods ?cs"
  have ok: "podMap_ok ?lp" "podMap_ok active" "podMap_ok inactive"
    using pods load by (auto simp: list_all_iff case_prod_beta intro!: localParentPods_ok getFileCheckpoints_podMap)
  have "valid_pod q" "podFullName q = pid"
    using pods map_of_SomeD [OF q(1)] podMap_ok_lookup [OF ok(3) q(1)] by (auto simp: list_all_iff)
  then have dot: "\<not> hasPrefix (manifestName pid) ''.''" using manifestName_no_dot [of q] by simp
  then have "fs_node s2 ?K = fs_node s ?K" by (intro loads_effect(2) [OF names load]) auto
  then have d2: "content s2 ?K = Some d" using d(1) by (simp add: content_def)
  have valid: "list_all valid_pod ?ps"
    using restart_pods [OF self(2) ok] pods by (fastforce simp: list_all_iff)
  have sp1: "starts_possible (l_fs ?st1)"
    using parents_start [OF objs, of "?st\<lparr>l_fs := s2, l_checkpoints := ?cs\<rparr>" encode] valid loads_start [OF nofault names dir nosub load] by simp
  have "list_all (\<lambda>(k, p). manifestName k = manifestName pid \<longrightarrow> k = pid) (?lp @ active @ inactive)"
    using pods by (auto simp: list_all_iff)
  note pidpod = restart_parent [OF self(2) ok this q]
  obtain d' where d': "content (l_fs ?st1) ?K = Some d'" "d' \<noteq> []"
    "d' = d \<or> encode (sanitizeCheckpointPod (case map_of ?lp pid of Some p \<Rightarrow> p | None \<Rightarrow> q)) = Inr d'"
    using parents_manifest [OF objs valid, of encode "case lastCheck of None \<Rightarrow> True | Some t \<Rightarrow> w_checkTime w - t \<ge> defaultCheckpointTimeout" s2 pid]
      d2 d(2) enc pidpod
    by (auto simp: createCheckpointsForValidParents_def Let_def)
  let ?r = "process gp ?cs (w_processTime w) False ?lr ?lp []"
  note dec = restart_decisions [OF self(2) ok q stopped self(1), of gp "w_processTime w"]
  let ?s3 = "handleStop (l_fs ?st1) (stops (snd ?r))"
  have "content ?s3 ?K = Some d'"
    using handleStop_frame [of "stops (snd ?r)" ?K "l_fs ?st1"] d'(1) by (simp add: content_def)
  then have final: "content (handleStart ?s3 (starts (snd ?r))) (activeKey (manifestName pid)) = Some d' \<and>
      content (handleStart ?s3 (starts (snd ?r))) ?K = Some d'"
    using dec(1) by (intro handleStart_copies handleStop_possible sp1) (simp_all add: d')
  have cs1: "l_checkpoints ?st1 = ?cs" by (simp add: createCheckpointsForValidParents_def Let_def)
  have "pollOnce encode decode gp c w ?st = Inr (?st1\<lparr>l_fs := handleStart ?s3 (starts (snd ?r)), l_checkpoints := fst ?r\<rparr>)"
    using load down dec(2) cs1 by (simp add: pollOnce_def getAPIParentPods_def Let_def case_prod_beta handleRemove_def)
  with final d'(3) show ?thesis by auto
qed

definition example_outage_host :: fs where
  "example_outage_host = fs_put example_host (inactiveKey ''n-p.json'') (NFile ''n/p'' \<lparr>n_mode = 420, n_uid = 0, n_gid = 0\<rparr>)"

definition example_outage :: world where
  "example_outage =
     \<lparr>w_kubelet = \<lparr>secureClient = Inl (Err ''down''), insecureClient = Inr []\<rparr>,
      w_cri = \<lparr>v1alpha1Client = \<lparr>rc_Version = None, rc_ListContainers = Inr [], rc_ListPodSandbox = Inr []\<rparr>,
               v1alpha2Client = \<lparr>rc_Version = None, rc_ListContainers = Inr [], rc_ListPodSandbox = Inr []\<rparr>\<rparr>,
      w_listPods = (\<lambda>_ _. Inl (Err ''connection refused'')),
      w_getSecret = (\<lambda>_ _. Inl (Err ''connection refused'')), w_getConfigMap = (\<lambda>_ _. Inl (Err ''connection refused'')),
      w_checkTime = 0, w_updateTime = 0, w_processTime = 0\<rparr>"

theorem restart_during_outage_activates_checkpoint_witness:
  "\<exists>st' d'. pollOnce example_encode example_decode 60 example_checkpointer example_outage
       \<lparr>l_fs = example_outage_host, l_checkpoints = noCheckpoints, l_lastCheckpoint = None\<rparr> = Inr st' \<and>
     content (l_fs st') (activeKey ''n-p.json'') = Some d' \<and> content (l_fs st') (inactiveKey ''n-p.json'') = Some d'"
proof -
  let ?h = example_outage_host and ?q = "example_named ''n'' ''p''"
  let ?g1 = "getFileCheckpoints example_decode ?h activeCheckpointPath"
  let ?g2 = "getFileCheckpoints example_decode (fst ?g1) inactiveCheckpointPath"
  have "snd ?g1 = Inr []" "snd ?g2 = Inr [(''n/p'', ?q)]" by code_simp+
  then have g: "?g1 = (fst ?g1, Inr [])" "?g2 = (fst ?g2, Inr [(''n/p'', ?q)])" by (metis prod.collapse)+
  have n: "manifestName ''n/p'' = ''n-p.json''" by code_simp
  have m: "map_of (entries ?h) k \<noteq> None \<longleftrightarrow> k \<in> set (map fst (entries ?h))" for k by (simp add: map_of_eq_None_iff)
  have "list_all (list_all plain_comp) (map fst (entries ?h))" by code_simp
  then have names: "names_ok ?h" by (simp only: names_ok_def fs_node_def m list_all_iff [of "list_all plain_comp"]) blast
  have f: "\<forall>opr k. faults ?h opr k = None" by (simp add: example_outage_host_def example_host_def)
  have x: "is_dir (fs_node ?h [''etc'', ''kubernetes'', ''manifests''])"
    "list_all (\<lambda>f. \<not> is_dir (fs_node ?h (activeKey f))) (children ?h [''etc'', ''kubernetes'', ''manifests''])"
    "list_all (\<lambda>(k, p). valid_pod p \<and> (manifestName k = manifestName ''n/p'' \<longrightarrow> k = ''n/p''))
      (localParentPods (w_kubelet example_outage) @ [] @ [(''n/p'', ?q)])"
    "content ?h (inactiveKey (manifestName ''n/p'')) = Some ''n/p''"
    "map_of (localRunningPods (w_cri example_outage)) ''n/p'' = None" "''n/p'' \<noteq> selfName example_checkpointer"
    "slash \<notin> set (PodNamespace example_checkpointer)"
    by code_simp+
  have e: "\<forall>p. example_encode p \<noteq> Inr []" by (simp add: example_encode_def podFullName_def)
  have o: "valid_objects (w_getSecret example_outage)" "valid_objects (w_getConfigMap example_outage)"
    "w_listPods example_outage (PodNamespace example_checkpointer) (NodeName example_checkpointer) = Inl (Err ''connection refused'')"
    by (simp_all add: example_outage_def valid_objects_def)
  show ?thesis
    using restart_during_outage_activates_checkpoint [OF f names x(1,2) g x(3) _ _ x(4) _ e o x(5,6,7), where lastCheck = None and gp = 60]
    by (auto simp: n)
qed

text \<open>
  C13: Garbage collection leaves nothing behind and touches nothing else. After removing a
  checkpoint on a file system that does not fail, neither of its manifests nor any of its
  secrets and config maps exists, and every other file, those of other pods included, is as it
  was.
\<close>

theorem removed_checkpoint_leaves_nothing:
  assumes pod: "valid_pod p" and nofault: "\<forall>opr k. faults s opr k = None"
    and files: "\<not> is_dir (fs_node s (inactiveKey (manifestName (podFullName p))))"
      "\<not> is_dir (fs_node s (activeKey (manifestName (podFullName p))))"
  shows "fs_node (handleRemove s [podFullName p]) k =
     (if k = inactiveKey (manifestName (podFullName p)) \<or> k = activeKey (manifestName (podFullName p)) \<or>
         prefix [''etc'', ''kubernetes'', ''checkpoint-secrets'', pod_Namespace p, pod_Name p] k \<or>
         prefix [''etc'', ''kubernetes'', ''checkpoint-configmaps'', pod_Namespace p, pod_Name p] k
      then None else fs_node s k)"
proof -
  let ?pid = "podFullName p"
  let ?sk = "[''etc'', ''kubernetes'', ''checkpoint-secrets'', pod_Namespace p, pod_Name p]"
  let ?ck = "[''etc'', ''kubernetes'', ''checkpoint-configmaps'', pod_Namespace p, pod_Name p]"
  let ?s1 = "fst (os_RemoveAll s (podFullNameToSecretPath ?pid))"
  let ?s2 = "fst (os_RemoveAll ?s1 (podFullNameToConfigMapPath ?pid))"
  let ?r3 = "os_Remove ?s2 (podFullNameToInactiveCheckpointPath ?pid)"
  have plain: "plain_comp (pod_Namespace p)" "plain_comp (pod_Name p)" using pod by (simp_all add: valid_pod_def)
  have keys: "fs_key s' (podFullNameToSecretPath ?pid) = ?sk" "fs_key s' (podFullNameToConfigMapPath ?pid) = ?ck" for s'
    using asset_roots [OF plain] plain fs_key_abs [of ?sk s'] fs_key_abs [of ?ck s'] by (simp_all add: podFullName_def)
  have env: "same_env s ?s1" "same_env s ?s2" "same_env s (fst ?r3)"
    using os_RemoveAll_env os_Remove_env by (blast intro: same_env_trans)+
  have nf: "fs_fault s' opr k = None" if "same_env s s'" for s' opr k
    using that nofault by (simp add: same_env_def fs_fault_def)
  have 2: "fs_node ?s2 k = (if prefix ?sk k \<or> prefix ?ck k then None else fs_node s k)" for k
    using fs_node_RemoveAll [of s "podFullNameToSecretPath ?pid" k] fs_node_RemoveAll [of ?s1 "podFullNameToConfigMapPath ?pid" k]
      nf [OF same_env_refl] nf [OF env(1)] by (simp add: keys)
  have rm: "fs_node (fst (os_Remove s' q)) k = (if k = fs_key s' q then None else fs_node s' k) \<and>
      (snd (os_Remove s' q) = None \<or> (\<exists>e. snd (os_Remove s' q) = Some e \<and> os_IsNotExist e))"
    if "same_env s s'" "\<not> is_dir (fs_node s' (fs_key s' q))" for s' q k
    using that nf [OF that(1)] by (auto simp: os_Remove_def Let_def split: option.splits node.splits)
  have nd: "\<not> is_dir (fs_node ?s2 (fs_key ?s2 (podFullNameToInactiveCheckpointPath ?pid)))" using files by (simp add: 2)
  have 3: "fs_node (fst ?r3) k = (if k = inactiveKey (manifestName ?pid) then None else fs_node ?s2 k)" for k
    using rm [OF env(2) nd] by simp
  have err: "snd ?r3 = None \<or> (\<exists>e. snd ?r3 = Some e \<and> os_IsNotExist e)"
    using rm [OF env(2) nd] by blast
  have "fs_node (fst (os_Remove (fst ?r3) (podFullNameToActiveCheckpointPath ?pid))) k =
      (if k = activeKey (manifestName ?pid) then None else fs_node (fst ?r3) k)"
    using rm [OF env(3), of "podFullNameToActiveCheckpointPath ?pid" k] files by (simp add: 2 3)
  moreover have "handleRemove s [?pid] = fst (os_Remove (fst ?r3) (podFullNameToActiveCheckpointPath ?pid))"
    using err by (auto simp: handleRemove_def handleRemoveOne_def Let_def case_prod_beta)
  ultimately show ?thesis by (simp add: 2 3)
qed

theorem removed_checkpoint_leaves_nothing_witness:
  "fs_node (handleRemove example_outage_host [''n/p'']) (inactiveKey ''n-p.json'') = None \<and>
   fs_node (handleRemove example_outage_host [''n/p'']) [''etc'', ''kubernetes''] = Some (new_dir 493)"
proof -
  let ?p = "example_named ''n'' ''p''"
  have f: "\<forall>opr k. faults example_outage_host opr k = None" by (simp add: example_outage_host_def example_host_def)
  have x: "valid_pod ?p" "\<not> is_dir (fs_node example_outage_host (inactiveKey (manifestName (podFullName ?p))))"
    "\<not> is_dir (fs_node example_outage_host (activeKey (manifestName (podFullName ?p))))"
    "podFullName ?p = ''n/p''" "manifestName ''n/p'' = ''n-p.json''"
    "fs_node example_outage_host [''etc'', ''kubernetes''] = Some (new_dir 493)"
    by code_simp+
  show ?thesis
    using removed_checkpoint_leaves_nothing [OF x(1) f x(2,3), of "inactiveKey ''n-p.json''"]
      removed_checkpoint_leaves_nothing [OF x(1) f x(2,3), of "[''etc'', ''kubernetes'']"] x(4-6) by simp
qed

end
