(* ===== verification/ServiceNet.thy ===== *)
theory ServiceNet
  imports Prelude "HOL-Library.Word"
begin

unbundle bit_operations_syntax

text \<open>
  Network arithmetic of the renderer: \<open>offsetServiceIP\<close> and \<open>incIPv4\<close> of
  \<open>cmd/render/plugin/default/main.go\<close>, and the checks \<open>flagsToAssetConfig\<close> makes on the pod
  and service networks. A \<open>net.IP\<close> is a list of bytes (4 or 16), a \<open>net.IPNet\<close> an address
  and a mask; bytes are 8-bit words, so \<open>ip[j]++\<close> wraps.
\<close>

type_synonym ip = "8 word list"

record IPNet =
  net_IP :: ip
  net_Mask :: "8 word list"

definition apiOffset :: nat where "apiOffset = 1"
definition dnsOffset :: nat where "dnsOffset = 10"

text \<open>\<open>IP.To4\<close>: an IPv4 address, or one mapped into IPv6.\<close>

definition v4InV6Prefix :: ip where
  "v4InV6Prefix = replicate 10 0 @ [255, 255]"

definition To4 :: "ip \<Rightarrow> ip option" where
  "To4 x =
     (if length x = 4 then Some x
      else if length x = 16 \<and> take 12 x = v4InV6Prefix then Some (drop 12 x) else None)"

definition networkNumberAndMask :: "IPNet \<Rightarrow> (ip \<times> ip) option" where
  "networkNumberAndMask n =
     (case (case To4 (net_IP n) of Some x \<Rightarrow> Some x | None \<Rightarrow> if length (net_IP n) = 16 then Some (net_IP n) else None) of
        None \<Rightarrow> None
      | Some x \<Rightarrow>
          (if length (net_Mask n) = 4 then (if length x = 4 then Some (x, net_Mask n) else None)
           else if length (net_Mask n) = 16 then Some (x, if length x = 4 then drop 12 (net_Mask n) else net_Mask n)
           else None))"

definition masked_eq :: "ip \<Rightarrow> ip \<Rightarrow> ip \<Rightarrow> bool" where
  "masked_eq nn m x \<longleftrightarrow> length x = length nn \<and> list_all (\<lambda>i. nn ! i AND m ! i = x ! i AND m ! i) [0..<length x]"

definition Contains :: "IPNet \<Rightarrow> ip \<Rightarrow> bool" where
  "Contains n x =
     (case networkNumberAndMask n of
        None \<Rightarrow> False
      | Some (nn, m) \<Rightarrow> masked_eq nn m (case To4 x of Some x4 \<Rightarrow> x4 | None \<Rightarrow> x))"

text \<open>Incrementing from the last byte on, until one does not wrap to zero.\<close>

fun inc_bytes :: "8 word list \<Rightarrow> 8 word list" where
  "inc_bytes [] = []"
| "inc_bytes (b # bs) = (let b' = b + 1 in if b' > 0 then b' # bs else b' # inc_bytes bs)"

definition incIPv4 :: "ip \<Rightarrow> ip" where
  "incIPv4 x = rev (inc_bytes (rev x))"

definition offsetServiceIP :: "IPNet \<Rightarrow> nat \<Rightarrow> go_error + ip" where
  "offsetServiceIP ipnet offset =
     (let x = (incIPv4 ^^ offset) (net_IP ipnet) in
      if Contains ipnet x then Inr x else Inl (Err ''Service IP is not in the network''))"

definition overlap :: "IPNet \<Rightarrow> IPNet \<Rightarrow> bool" where
  "overlap podNet svcNet \<longleftrightarrow> Contains podNet (net_IP svcNet) \<or> Contains svcNet (net_IP podNet)"

fun serviceIPs :: "IPNet list \<Rightarrow> ip list \<Rightarrow> ip list \<Rightarrow> go_error + ip list \<times> ip list" where
  "serviceIPs [] apiServiceIPs dnsServiceIPs = Inr (apiServiceIPs, dnsServiceIPs)"
| "serviceIPs (serviceNet # nets) apiServiceIPs dnsServiceIPs =
     (case offsetServiceIP serviceNet apiOffset of
        Inl e \<Rightarrow> Inl e
      | Inr apiServiceIP \<Rightarrow>
          (case offsetServiceIP serviceNet dnsOffset of
             Inl e \<Rightarrow> Inl e
           | Inr dnsServiceIP \<Rightarrow> serviceIPs nets (apiServiceIPs @ [apiServiceIP]) (dnsServiceIPs @ [dnsServiceIP])))"

text \<open>The part of \<open>flagsToAssetConfig\<close> between parsing the networks and building the result.\<close>

definition checkNets :: "IPNet list \<Rightarrow> IPNet list \<Rightarrow> go_error + ip list \<times> ip list" where
  "checkNets podNets serviceNets =
     (if length podNets \<noteq> length serviceNets
      then Inl (Err ''number of service CIDRs must match the number of pod CIDRs'')
      else if length podNets > 2 \<or> length podNets < 1
      then Inl (Err ''kubernetes requires exactly 1 or 2 pod networks, and they must be of different address families'')
      else if length serviceNets > 2 \<or> length serviceNets < 1
      then Inl (Err ''kubernetes requires exactly 1 or 2 service networks, and they must be of different address families'')
      else if list_ex (\<lambda>podNet. list_ex (overlap podNet) serviceNets) podNets
      then Inl (Err ''Pod CIDR and service CIDR must not overlap'')
      else serviceIPs serviceNets [] [])"

section \<open>Addresses as numbers\<close>

fun ip_val :: "ip \<Rightarrow> nat" where
  "ip_val [] = 0"
| "ip_val (b # bs) = unat b * 256 ^ length bs + ip_val bs"

lemma byte_bound: "unat (b :: 8 word) < 256"
  by (rule order_less_le_trans [OF unsigned_less]) simp

lemma ip_val_bound: "ip_val x < 256 ^ length x"
proof (induction x)
  case (Cons b bs)
  have "unat b < 256" by (rule byte_bound)
  then have "Suc (unat b) * 256 ^ length bs \<le> 256 * 256 ^ length bs" by (intro mult_le_mono1) simp
  moreover have "ip_val (b # bs) < Suc (unat b) * 256 ^ length bs" using Cons by simp
  ultimately show ?case unfolding length_Cons power_Suc by (rule order_less_le_trans [rotated])
qed simp

lemma ip_val_append: "ip_val (x @ y) = ip_val x * 256 ^ length y + ip_val y"
  by (induction x) (simp_all add: power_add algebra_simps)

lemma ip_val_inj: "length x = length y \<Longrightarrow> ip_val x = ip_val y \<Longrightarrow> x = y"
proof (induction x arbitrary: y)
  case (Cons b bs)
  then obtain c cs where y: "y = c # cs" "length bs = length cs" by (cases y) auto
  have "(unat b * 256 ^ length bs + ip_val bs) div 256 ^ length bs = (unat c * 256 ^ length bs + ip_val cs) div 256 ^ length bs"
    using Cons.prems y by simp
  then have "unat b = unat c" using ip_val_bound [of bs] ip_val_bound [of cs] y by simp
  then have "b = c" by (simp add: word_unat_eq_iff)
  then show ?case using Cons y by simp
qed simp

text \<open>One increment adds one, modulo the number of addresses.\<close>

lemma inc_bytes_val: "ip_val (rev (inc_bytes bs)) = (ip_val (rev bs) + 1) mod 256 ^ length bs \<and> length (inc_bytes bs) = length bs"
proof (induction bs)
  case (Cons b bs)
  have b: "unat b < 256" by (rule byte_bound)
  let ?v = "ip_val (rev bs)"
  have v: "?v < 256 ^ length bs" using ip_val_bound [of "rev bs"] by simp
  show ?case
  proof (cases "b + 1 > 0")
    case True
    then have "b + 1 \<noteq> 0" by auto
    then have u: "unat (b + 1) = unat b + 1" using b by (cases "unat b = 255") (auto simp: unat_word_ariths word_unat_eq_iff)
    have "unat b + 1 < 256" using byte_bound [of "b + 1"] u by simp
    then have "?v * 256 + (unat b + 1) < 256 ^ Suc (length bs)" using v mult_le_mono1 [of "Suc ?v" "256 ^ length bs" 256] by simp
    then show ?thesis using True u by (simp add: ip_val_append)
  next
    case False
    then have z: "b + 1 = 0" by (simp add: word_gt_0)
    then have "b = - 1" by (simp add: eq_neg_iff_add_eq_0)
    then have ub: "unat b = 255" by (simp add: unsigned_minus_1_eq_mask mask_eq_exp_minus_1)
    have "(?v * 256 + 256) mod (256 * 256 ^ length bs) = 256 * ((?v + 1) mod 256 ^ length bs)"
      using mult_mod_right [of 256 "?v + 1" "256 ^ length bs"] by (simp add: algebra_simps)
    then show ?thesis using Cons z ub by (simp add: ip_val_append ac_simps)
  qed
qed simp

lemma incIPv4_val: "ip_val (incIPv4 x) = (ip_val x + 1) mod 256 ^ length x" and length_incIPv4 [simp]: "length (incIPv4 x) = length x"
  using inc_bytes_val [of "rev x"] by (simp_all add: incIPv4_def)

lemma length_incIPv4_pow [simp]: "length ((incIPv4 ^^ n) x) = length x"
  by (induction n) simp_all

lemma incIPv4_pow_val: "ip_val ((incIPv4 ^^ n) x) = (ip_val x + n) mod 256 ^ length x"
proof (induction n)
  case 0
  show ?case using ip_val_bound [of x] by simp
next
  case (Suc n)
  then show ?case by (simp add: incIPv4_val mod_simps)
qed

section \<open>Networks as ranges\<close>

text \<open>\<open>net.CIDRMask\<close>: so many leading ones, in bytes.\<close>

fun CIDRMask :: "nat \<Rightarrow> nat \<Rightarrow> 8 word list" where
  "CIDRMask ones 0 = []"
| "CIDRMask ones (Suc len) =
     (if 8 \<le> ones then 255 # CIDRMask (ones - 8) len else NOT (drop_bit ones 255) # CIDRMask 0 len)"

lemma length_CIDRMask [simp]: "length (CIDRMask ones len) = len"
  by (induction ones len rule: CIDRMask.induct) simp_all

lemma masked_eq_Cons:
  "masked_eq (a # nn) (k # m) (b # x) \<longleftrightarrow> a AND k = b AND k \<and> masked_eq nn m x"
proof -
  have all: "list_all P [0..<n] \<longleftrightarrow> (\<forall>i<n. P i)" for P n by (auto simp: list_all_iff)
  show ?thesis unfolding masked_eq_def all by (auto simp: All_less_Suc2)
qed

lemma byte_mask: "(255 :: 8 word) = mask 8"
  by (simp add: mask_eq_decr_exp)

lemma and_255: "(a :: 8 word) AND 255 = a"
  by (rule bit_eqI) (simp add: byte_mask bit_and_iff bit_mask_iff)

lemma and_high_mask:
  fixes a b :: "8 word"
  assumes "ones < 8"
  shows "a AND NOT (drop_bit ones 255) = b AND NOT (drop_bit ones 255) \<longleftrightarrow> unat a div 2 ^ (8 - ones) = unat b div 2 ^ (8 - ones)"
proof -
  note m = byte_mask
  have "drop_bit (8 - ones) a = drop_bit (8 - ones) b \<longleftrightarrow> a AND NOT (drop_bit ones 255) = b AND NOT (drop_bit ones 255)"
  proof
    assume eq: "drop_bit (8 - ones) a = drop_bit (8 - ones) b"
    have "bit a i = bit b i" if "8 - ones \<le> i" for i
      using arg_cong [OF eq, of "\<lambda>w. bit w (i - (8 - ones))"] that by (simp add: bit_drop_bit_eq)
    then show "a AND NOT (drop_bit ones 255) = b AND NOT (drop_bit ones 255)"
      using assms by (intro bit_eqI) (auto simp: m bit_and_iff bit_not_iff bit_drop_bit_eq bit_mask_iff)
  next
    assume eq: "a AND NOT (drop_bit ones 255) = b AND NOT (drop_bit ones 255)"
    have "bit a i = bit b i" if "8 - ones \<le> i" for i
    proof (cases "i < 8")
      case True
      then show ?thesis using arg_cong [OF eq, of "\<lambda>w. bit w i"] that
        by (auto simp: m bit_and_iff bit_not_iff bit_drop_bit_eq bit_mask_iff)
    next
      case False
      then show ?thesis using bit_imp_le_length [of a i] bit_imp_le_length [of b i] by auto
    qed
    then show "drop_bit (8 - ones) a = drop_bit (8 - ones) b" by (intro bit_eqI) (simp add: bit_drop_bit_eq)
  qed
  moreover have "unat (drop_bit (8 - ones) c) = unat c div 2 ^ (8 - ones)" for c :: "8 word"
    unfolding unat_drop_bit_eq by (rule drop_bit_eq_div)
  ultimately show ?thesis using word_unat_eq_iff [of "drop_bit (8 - ones) a" "drop_bit (8 - ones) b"] by simp
qed

lemma div_split:
  assumes "v < 2 ^ n" "h \<le> n"
  shows "(a * 2 ^ n + v) div 2 ^ h = a * 2 ^ (n - h) + v div (2::nat) ^ h" and "v div 2 ^ h < 2 ^ (n - h)"
proof -
  have p: "2 ^ n = (2::nat) ^ (n - h) * 2 ^ h" using assms(2) by (simp flip: power_add)
  show "(a * 2 ^ n + v) div 2 ^ h = a * 2 ^ (n - h) + v div (2::nat) ^ h"
    unfolding p by (simp flip: mult.assoc)
  show "v div 2 ^ h < 2 ^ (n - h)" using assms(1) unfolding p by (simp add: less_mult_imp_div_less)
qed

lemma pair_eq:
  "(v :: nat) < p \<Longrightarrow> v' < p \<Longrightarrow> a * p + v = a' * p + v' \<longleftrightarrow> a = a' \<and> v = v'"
proof
  assume p: "v < p" "v' < p" and eq: "a * p + v = a' * p + v'"
  have "(a * p + v) div p = a" "(a' * p + v') div p = a'" using p by simp_all
  then show "a = a' \<and> v = v'" using eq by simp
qed simp

text \<open>An address is in a network exactly when it agrees with it in the leading bits.\<close>

lemma masked_eq_div:
  assumes "length nn = len" "length x = len" "ones \<le> 8 * len"
  shows "masked_eq nn (CIDRMask ones len) x \<longleftrightarrow> ip_val nn div 2 ^ (8 * len - ones) = ip_val x div 2 ^ (8 * len - ones)"
  using assms
proof (induction ones len arbitrary: nn x rule: CIDRMask.induct)
  case (1 ones)
  then show ?case by (simp add: masked_eq_def)
next
  case (2 ones len)
  obtain a nn' where nn: "nn = a # nn'" "length nn' = len" using 2 by (cases nn) auto
  obtain b x' where x: "x = b # x'" "length x' = len" using 2 by (cases x) auto
  have b256: "(256::nat) ^ len = 2 ^ (8 * len)" by (simp add: power_mult)
  have bound: "ip_val nn' < 2 ^ (8 * len)" "ip_val x' < 2 ^ (8 * len)"
    using ip_val_bound [of nn'] ip_val_bound [of x'] nn x by (simp_all add: b256)
  have val: "ip_val nn = unat a * 2 ^ (8 * len) + ip_val nn'" "ip_val x = unat b * 2 ^ (8 * len) + ip_val x'"
    using nn x by (simp_all add: b256)
  show ?case
  proof (cases "8 \<le> ones")
    case True
    have h: "8 * Suc len - ones = 8 * len - (ones - 8)" "8 * len - (ones - 8) \<le> 8 * len" using True by simp_all
    have IH: "masked_eq nn' (CIDRMask (ones - 8) len) x' \<longleftrightarrow> ip_val nn' div 2 ^ (8 * len - (ones - 8)) = ip_val x' div 2 ^ (8 * len - (ones - 8))"
      using 2(1) [OF True nn(2) x(2)] 2(5) by simp
    have "a AND 255 = b AND 255 \<longleftrightarrow> unat a = unat b" unfolding and_255 by (rule word_unat_eq_iff)
    moreover have "ip_val nn div 2 ^ (8 * len - (ones - 8)) = ip_val x div 2 ^ (8 * len - (ones - 8)) \<longleftrightarrow>
        unat a = unat b \<and> ip_val nn' div 2 ^ (8 * len - (ones - 8)) = ip_val x' div 2 ^ (8 * len - (ones - 8))"
      unfolding val div_split(1) [OF bound(1) h(2)] div_split(1) [OF bound(2) h(2)]
      by (rule pair_eq [OF div_split(2) [OF bound(1) h(2)] div_split(2) [OF bound(2) h(2)]])
    ultimately show ?thesis using True IH unfolding h(1) by (simp only: nn(1) x(1) CIDRMask.simps if_True masked_eq_Cons)
  next
    case False
    then have h: "8 * Suc len - ones = 8 * len + (8 - ones)" by simp
    have z: "masked_eq nn' (CIDRMask 0 len) x'" using 2(2) [OF False nn(2) x(2)] bound by simp
    have "ip_val nn div 2 ^ (8 * len + (8 - ones)) = unat a div 2 ^ (8 - ones)"
      "ip_val x div 2 ^ (8 * len + (8 - ones)) = unat b div 2 ^ (8 - ones)"
      using bound by (simp_all add: val power_add div_mult2_eq)
    then have "ip_val nn div 2 ^ (8 * Suc len - ones) = ip_val x div 2 ^ (8 * Suc len - ones) \<longleftrightarrow>
      unat a div 2 ^ (8 - ones) = unat b div 2 ^ (8 - ones)" unfolding h by simp
    moreover have "masked_eq nn (CIDRMask ones (Suc len)) x \<longleftrightarrow> unat a div 2 ^ (8 - ones) = unat b div 2 ^ (8 - ones)"
      using False z and_high_mask [of ones a b] by (simp add: nn(1) x(1) masked_eq_Cons)
    ultimately show ?thesis by simp
  qed
qed

section \<open>Networks in CIDR form\<close>

text \<open>
  What \<open>net.ParseCIDR\<close> returns: an address of 4 or 16 bytes, a mask of leading ones of the same
  length, and no bits of the address outside the mask. Of the networks of 16 bytes only those are
  meant here that fix at least the first byte, to a value that is not zero, so that none of their
  addresses is a mapped IPv4 address.
\<close>

definition host_bits :: "IPNet \<Rightarrow> nat \<Rightarrow> nat" where
  "host_bits n ones = 8 * length (net_IP n) - ones"

definition cidr :: "IPNet \<Rightarrow> nat \<Rightarrow> bool" where
  "cidr n ones \<longleftrightarrow> (length (net_IP n) = 4 \<or> length (net_IP n) = 16 \<and> 8 \<le> ones \<and> hd (net_IP n) \<noteq> 0) \<and>
     ones \<le> 8 * length (net_IP n) \<and> net_Mask n = CIDRMask ones (length (net_IP n)) \<and> ip_val (net_IP n) mod 2 ^ host_bits n ones = 0"

lemma mapped_hd: "length x = 16 \<Longrightarrow> To4 x \<noteq> None \<Longrightarrow> hd x = 0"
  by (cases x) (auto simp: To4_def v4InV6Prefix_def numeral_eq_Suc split: if_splits)

lemma masked_eq_hd:
  assumes "8 \<le> ones" "length nn = len" "masked_eq nn (CIDRMask ones len) x" "len \<noteq> 0"
  shows "hd nn = hd x"
proof -
  have "length x = len" using assms by (simp add: masked_eq_def)
  then obtain a nn' b x' where "nn = a # nn'" "x = b # x'" using assms by (cases nn; cases x) auto
  with assms show ?thesis by (cases len) (simp_all add: masked_eq_Cons and_255)
qed

lemma Contains_cidr:
  assumes n: "cidr n ones" and x: "length x = length (net_IP n)"
  shows "Contains n x \<longleftrightarrow> ip_val (net_IP n) div 2 ^ host_bits n ones = ip_val x div 2 ^ host_bits n ones"
proof -
  have "Contains n x \<longleftrightarrow> masked_eq (net_IP n) (CIDRMask ones (length (net_IP n))) x"
  proof (cases "length (net_IP n) = 4")
    case True
    then show ?thesis using n x by (simp add: Contains_def networkNumberAndMask_def To4_def cidr_def)
  next
    case False
    then have l: "length (net_IP n) = 16" "8 \<le> ones" "hd (net_IP n) \<noteq> 0" using n by (auto simp: cidr_def)
    then have ip: "To4 (net_IP n) = None" using mapped_hd [of "net_IP n"] by (cases "To4 (net_IP n)") auto
    show ?thesis
    proof (cases "To4 x")
      case None
      then show ?thesis using n l ip by (simp add: Contains_def networkNumberAndMask_def cidr_def)
    next
      case (Some x4)
      then have "length x4 = 4" "hd x = 0" using x l mapped_hd [of x] by (auto simp: To4_def split: if_splits)
      moreover have "hd (net_IP n) = hd x" if "masked_eq (net_IP n) (CIDRMask ones 16) x" using masked_eq_hd [OF l(2) l(1) that] by simp
      ultimately show ?thesis using n l ip Some by (auto simp: Contains_def networkNumberAndMask_def cidr_def masked_eq_def)
    qed
  qed
  then show ?thesis using masked_eq_div [of "net_IP n" "length (net_IP n)" x ones] n x by (simp add: cidr_def host_bits_def)
qed

lemma offset_in_block:
  assumes "b * q < P * b" "off < P * b" "0 < (b::nat)"
  shows "(b * q + off) mod (P * b) div b = q \<longleftrightarrow> off < b"
proof -
  have "(b * q + off) mod (P * b) div b = (q + off div b) mod P"
    using assms(3) by (simp add: mult.commute [of P] mod_mult2_eq)
  moreover have "q < P" using assms(1,3) by (simp add: mult.commute [of P])
  moreover have d: "off div b < P" using assms(2) by (simp add: less_mult_imp_div_less)
  moreover have "(q + off div b) mod P = q \<longleftrightarrow> off div b = 0"
  proof (cases "q + off div b < P")
    case False
    then have "(q + off div b) mod P = q + off div b - P" using \<open>q < P\<close> d by (simp add: mod_if)
    then show ?thesis using \<open>q < P\<close> d False by auto
  qed simp
  ultimately show ?thesis using assms(3) by (simp add: div_eq_0_iff)
qed

lemma cidr_offset:
  assumes n: "cidr n ones" and off: "off < 2 ^ 32"
  shows "Contains n ((incIPv4 ^^ off) (net_IP n)) \<longleftrightarrow> off < 2 ^ host_bits n ones"
    and "off < 2 ^ host_bits n ones \<Longrightarrow> ip_val ((incIPv4 ^^ off) (net_IP n)) = ip_val (net_IP n) + off"
proof -
  let ?h = "host_bits n ones" and ?x = "(incIPv4 ^^ off) (net_IP n)" and ?len = "length (net_IP n)"
  let ?P = "2 ^ ones :: nat"
  have len: "?len \<ge> 4" "ones \<le> 8 * ?len" using n by (auto simp: cidr_def)
  have M: "256 ^ ?len = ?P * 2 ^ ?h"
  proof -
    have "?P * 2 ^ ?h = (2::nat) ^ (8 * ?len)" using len(2) by (simp add: host_bits_def flip: power_add)
    then show ?thesis by (simp add: power_mult)
  qed
  obtain q where q: "ip_val (net_IP n) = 2 ^ ?h * q" using n by (auto simp: cidr_def elim: dvdE)
  have base: "2 ^ ?h * q < ?P * 2 ^ ?h" using ip_val_bound [of "net_IP n"] by (simp add: q M)
  have "(2::nat) ^ 32 = 256 ^ 4" by simp
  also have "\<dots> \<le> 256 ^ ?len" using len(1) by (intro power_increasing) simp_all
  finally have o: "off < ?P * 2 ^ ?h" using off M by simp
  have v: "ip_val ?x = (2 ^ ?h * q + off) mod (?P * 2 ^ ?h)" by (simp add: incIPv4_pow_val q M)
  show "Contains n ?x \<longleftrightarrow> off < 2 ^ ?h"
    using Contains_cidr [OF n, of ?x] offset_in_block [OF base o]
    unfolding v q length_incIPv4_pow by (metis nonzero_mult_div_cancel_left power_not_zero zero_less_numeral zero_less_power zero_neq_numeral)
  assume lt: "off < 2 ^ ?h"
  have "q < ?P" using base by (simp add: mult.commute)
  then have "2 ^ ?h * Suc q \<le> 2 ^ ?h * ?P" by (intro mult_le_mono2) simp
  then have "2 ^ ?h * q + off < ?P * 2 ^ ?h" using lt by (simp add: mult.commute)
  then show "ip_val ?x = ip_val (net_IP n) + off" by (simp add: v q)
qed

text \<open>
  C34: The service address at an offset is exactly the network's address plus the offset, as
  a number, and it is found exactly when the network has that many addresses: the byte-wise
  increment with its carries never wraps around inside the network, and an offset that leaves
  the network is always refused. This holds of IPv4 networks of every size, and of IPv6 networks
  with a prefix of at least 8 bits and a first byte that is not zero.
\<close>

theorem service_ip_exact:
  assumes "cidr n ones" "off < 2 ^ 32"
  shows "offsetServiceIP n off = Inr x \<longleftrightarrow>
     off < 2 ^ host_bits n ones \<and> length x = length (net_IP n) \<and> ip_val x = ip_val (net_IP n) + off"
  using cidr_offset [OF assms] ip_val_inj [of x "(incIPv4 ^^ off) (net_IP n)"]
  by (auto simp: offsetServiceIP_def Let_def)

lemma example_nets:
  "cidr \<lparr>net_IP = [10, 2, 0, 0], net_Mask = [255, 255, 0, 0]\<rparr> 16" "cidr \<lparr>net_IP = [10, 3, 0, 0], net_Mask = [255, 255, 255, 0]\<rparr> 24"
proof -
  have "(4::nat) = Suc (Suc (Suc (Suc 0)))" by simp
  then have "CIDRMask 24 4 = [255, 255, 255, 0]" "CIDRMask 16 4 = [255, 255, 0, 0]" by (simp_all only: CIDRMask.simps) simp_all
  then show "cidr \<lparr>net_IP = [10, 2, 0, 0], net_Mask = [255, 255, 0, 0]\<rparr> 16" "cidr \<lparr>net_IP = [10, 3, 0, 0], net_Mask = [255, 255, 255, 0]\<rparr> 24"
    by (simp_all add: cidr_def host_bits_def)
qed

theorem service_ip_exact_witness:
  "offsetServiceIP \<lparr>net_IP = [10, 3, 0, 0], net_Mask = [255, 255, 255, 0]\<rparr> 10 = Inr [10, 3, 0, 10]"
  using service_ip_exact [OF example_nets(2), of 10 "[10, 3, 0, 10]"] by (simp add: host_bits_def)

section \<open>Overlapping networks\<close>

text \<open>The addresses of a network.\<close>

definition in_net :: "IPNet \<Rightarrow> nat \<Rightarrow> ip \<Rightarrow> bool" where
  "in_net n ones x \<longleftrightarrow> length x = length (net_IP n) \<and> ip_val x div 2 ^ host_bits n ones = ip_val (net_IP n) div 2 ^ host_bits n ones"

lemma Contains_in_net: "cidr n ones \<Longrightarrow> length x = length (net_IP n) \<Longrightarrow> Contains n x \<longleftrightarrow> in_net n ones x"
  by (auto simp: Contains_cidr in_net_def)

lemma div_coarser:
  assumes "(a::nat) div 2 ^ h = b div 2 ^ h" "h \<le> h'"
  shows "a div 2 ^ h' = b div 2 ^ h'"
proof -
  have "(2::nat) ^ h' = 2 ^ h * 2 ^ (h' - h)" using assms(2) by (simp flip: power_add)
  then show ?thesis using assms(1) by (simp add: div_mult2_eq)
qed

text \<open>Two networks of one family share an address exactly when one holds the other's first one.\<close>

lemma overlap_iff:
  assumes p: "cidr p po" and s: "cidr s so" and fam: "length (net_IP p) = length (net_IP s)"
  shows "overlap p s \<longleftrightarrow> (\<exists>x. in_net p po x \<and> in_net s so x)"
proof
  have self: "in_net n k (net_IP n)" for n k by (simp add: in_net_def)
  assume "overlap p s"
  then show "\<exists>x. in_net p po x \<and> in_net s so x"
    using Contains_in_net [OF p, of "net_IP s"] Contains_in_net [OF s, of "net_IP p"] fam self by (auto simp: overlap_def)
next
  assume "\<exists>x. in_net p po x \<and> in_net s so x"
  then obtain x where x: "ip_val x div 2 ^ host_bits p po = ip_val (net_IP p) div 2 ^ host_bits p po"
    "ip_val x div 2 ^ host_bits s so = ip_val (net_IP s) div 2 ^ host_bits s so" by (auto simp: in_net_def)
  show "overlap p s"
  proof (cases "host_bits p po \<le> host_bits s so")
    case True
    then have "ip_val (net_IP p) div 2 ^ host_bits s so = ip_val (net_IP s) div 2 ^ host_bits s so"
      using div_coarser [OF x(1)] x(2) by simp
    then show ?thesis using Contains_in_net [OF s, of "net_IP p"] fam by (simp add: overlap_def in_net_def)
  next
    case False
    then have "ip_val (net_IP s) div 2 ^ host_bits p po = ip_val (net_IP p) div 2 ^ host_bits p po"
      using div_coarser [OF x(2), of "host_bits p po"] x(1) by simp
    then show ?thesis using Contains_in_net [OF p, of "net_IP s"] fam by (simp add: overlap_def in_net_def)
  qed
qed

lemma serviceIPs_result:
  "serviceIPs nets as ds = Inr (as', ds') \<Longrightarrow>
   \<exists>api dns. as' = as @ api \<and> ds' = ds @ dns \<and>
     list_all2 (\<lambda>n x. offsetServiceIP n apiOffset = Inr x) nets api \<and> list_all2 (\<lambda>n x. offsetServiceIP n dnsOffset = Inr x) nets dns"
proof (induction nets arbitrary: as ds)
  case (Cons n nets)
  then obtain x y where xy: "offsetServiceIP n apiOffset = Inr x" "offsetServiceIP n dnsOffset = Inr y"
    and rest: "serviceIPs nets (as @ [x]) (ds @ [y]) = Inr (as', ds')" by (auto split: sum.splits)
  from Cons.IH [OF rest] obtain api dns where "as' = (as @ [x]) @ api" "ds' = (ds @ [y]) @ dns"
    "list_all2 (\<lambda>n x. offsetServiceIP n apiOffset = Inr x) nets api" "list_all2 (\<lambda>n x. offsetServiceIP n dnsOffset = Inr x) nets dns" by blast
  with xy show ?case by (intro exI [of _ "x # api"] exI [of _ "y # dns"]) simp
qed auto

lemma offset_cidr:
  assumes "cidr n ones" "off < 2 ^ 32" "offsetServiceIP n off = Inr x"
  shows "in_net n ones x" "ip_val x = ip_val (net_IP n) + off"
proof -
  have x: "x = (incIPv4 ^^ off) (net_IP n)" "Contains n x" using assms(3) by (auto simp: offsetServiceIP_def Let_def split: if_splits)
  then show "in_net n ones x" using Contains_in_net [OF assms(1), of x] by simp
  show "ip_val x = ip_val (net_IP n) + off" using cidr_offset [OF assms(1,2)] x by simp
qed

text \<open>
  C35: When the networks given to the renderer are accepted, the address of the API server
  service is the first and that of the DNS service the tenth address of each service network,
  both lie inside it, and no address at all of a service network is in a pod network of the
  same family.
\<close>

theorem accepted_networks_are_disjoint:
  assumes pods: "list_all2 cidr pods po" and svcs: "list_all2 cidr svcs so"
    and ok: "checkNets pods svcs = Inr (api, dns)"
  shows "list_all2 (\<lambda>n x. ip_val x = ip_val (net_IP n) + 1) svcs api \<and> list_all2 (\<lambda>n x. ip_val x = ip_val (net_IP n) + 10) svcs dns \<and>
     (\<forall>i < length pods. \<forall>j < length svcs. length (net_IP (pods ! i)) = length (net_IP (svcs ! j)) \<longrightarrow>
        \<not> (\<exists>x. in_net (pods ! i) (po ! i) x \<and> in_net (svcs ! j) (so ! j) x))"
proof -
  have no: "\<not> overlap p s" if "p \<in> set pods" "s \<in> set svcs" for p s
    using ok that by (auto simp: checkNets_def list_ex_iff split: if_splits)
  have "serviceIPs svcs [] [] = Inr (api, dns)" using ok by (auto simp: checkNets_def split: if_splits)
  from serviceIPs_result [OF this] have offs: "list_all2 (\<lambda>n x. offsetServiceIP n apiOffset = Inr x) svcs api"
    "list_all2 (\<lambda>n x. offsetServiceIP n dnsOffset = Inr x) svcs dns" by auto
  have wf: "\<exists>ones. cidr n ones" if "n \<in> set svcs" for n
    using svcs that by (metis in_set_conv_nth list_all2_conv_all_nth)
  have "list_all2 (\<lambda>n x. ip_val x = ip_val (net_IP n) + off) svcs xs"
    if "list_all2 (\<lambda>n x. offsetServiceIP n off = Inr x) svcs xs" "off < 2 ^ 32" for off xs
  proof -
    have "ip_val (xs ! i) = ip_val (net_IP (svcs ! i)) + off" if i: "i < length svcs" for i
    proof -
      obtain ones where "cidr (svcs ! i) ones" using wf [of "svcs ! i"] i by auto
      then show ?thesis using offset_cidr(2) [of "svcs ! i" ones off "xs ! i"] that i
        using \<open>list_all2 _ svcs xs\<close> \<open>off < 2 ^ 32\<close> by (auto simp: list_all2_conv_all_nth)
    qed
    then show ?thesis using that by (auto simp: list_all2_conv_all_nth)
  qed
  from this [OF offs(1)] this [OF offs(2)] have ips: "list_all2 (\<lambda>n x. ip_val x = ip_val (net_IP n) + 1) svcs api"
    "list_all2 (\<lambda>n x. ip_val x = ip_val (net_IP n) + 10) svcs dns" by (simp_all add: apiOffset_def dnsOffset_def)
  have "\<not> (\<exists>x. in_net (pods ! i) (po ! i) x \<and> in_net (svcs ! j) (so ! j) x)"
    if "i < length pods" "j < length svcs" "length (net_IP (pods ! i)) = length (net_IP (svcs ! j))" for i j
    using overlap_iff [of "pods ! i" "po ! i" "svcs ! j" "so ! j"] no [of "pods ! i" "svcs ! j"] that pods svcs
    by (auto simp: list_all2_conv_all_nth)
  with ips show ?thesis by blast
qed

theorem accepted_networks_are_disjoint_witness:
  "\<exists>api dns. checkNets [\<lparr>net_IP = [10, 2, 0, 0], net_Mask = [255, 255, 0, 0]\<rparr>] [\<lparr>net_IP = [10, 3, 0, 0], net_Mask = [255, 255, 255, 0]\<rparr>] = Inr (api, dns) \<and>
     list_all2 (\<lambda>n x. ip_val x = ip_val (net_IP n) + 10) [\<lparr>net_IP = [10, 3, 0, 0], net_Mask = [255, 255, 255, 0]\<rparr>] dns"
proof -
  let ?p = "\<lparr>net_IP = [10, 2, 0, 0], net_Mask = [255, 255, 0, 0]\<rparr>" and ?s = "\<lparr>net_IP = [10, 3, 0, 0], net_Mask = [255, 255, 255, 0]\<rparr>"
  have dis: "\<not> overlap ?p ?s" by (simp add: overlap_def Contains_cidr [OF example_nets(1)] Contains_cidr [OF example_nets(2)] host_bits_def)
  have found: "\<exists>x. offsetServiceIP ?s off = Inr x" if "off < 256" for off
    using cidr_offset(1) [OF example_nets(2), of off] that by (simp add: offsetServiceIP_def Let_def host_bits_def)
  have "apiOffset < 256" "dnsOffset < 256" by (simp_all add: apiOffset_def dnsOffset_def)
  then obtain x y where "offsetServiceIP ?s apiOffset = Inr x" "offsetServiceIP ?s dnsOffset = Inr y"
    using found [of apiOffset] found [of dnsOffset] by auto
  then have "checkNets [?p] [?s] = Inr ([x], [y])" using dis by (simp add: checkNets_def)
  moreover from accepted_networks_are_disjoint [OF _ _ this, of "[16]" "[24]"] example_nets
  have "list_all2 (\<lambda>n x. ip_val x = ip_val (net_IP n) + 10) [?s] [y]" by blast
  ultimately show ?thesis by blast
qed

end
