(* ===== verification/GoNet.thy ===== *)
theory GoNet
  imports ServiceNet
begin

text \<open>
  URLs and host names as Go's \<open>net/url\<close> and \<open>net\<close> packages see them (Go 1.13, which the
  release is built with). A parsed URL keeps the parts the sources read and the text its
  \<open>String\<close> method gives; parsing URLs and addresses is an argument of the functions that
  do it.
\<close>

record URL =
  u_Scheme :: string
  u_Host :: string
  u_Path :: string
  u_String :: string

text \<open>The parsers and printers of the \<open>net\<close> and \<open>net/url\<close> packages the sources call.\<close>

record net_lib =
  nl_ParseIP :: "string \<Rightarrow> ip option"
  nl_ParseCIDR :: "string \<Rightarrow> go_error + ip \<times> IPNet"
  nl_urlParse :: "string \<Rightarrow> go_error + URL"
  nl_IPString :: "ip \<Rightarrow> string"
  nl_IPNetString :: "IPNet \<Rightarrow> string"

definition colon :: char where "colon = CHR '':''"

text \<open>Splitting at the last occurrence of a byte.\<close>

fun splitLast :: "char \<Rightarrow> string \<Rightarrow> (string \<times> string) option" where
  "splitLast c [] = None"
| "splitLast c (x # xs) =
     (case splitLast c xs of
        Some (a, b) \<Rightarrow> Some (x # a, b)
      | None \<Rightarrow> if x = c then Some ([], xs) else None)"

definition isDigit :: "char \<Rightarrow> bool" where
  "isDigit c \<longleftrightarrow> CHR ''0'' \<le> c \<and> c \<le> CHR ''9''"

text \<open>\<open>splitHostPort\<close> of \<open>net/url\<close>: a port is what follows the last colon if it has digits only; brackets are removed.\<close>

definition url_splitHostPort :: "string \<Rightarrow> string \<times> string" where
  "url_splitHostPort hostPort =
     (case (case splitLast colon hostPort of
              Some (h, p) \<Rightarrow> (if list_all isDigit p then (h, p) else (hostPort, ''''))
            | None \<Rightarrow> (hostPort, '''')) of
        (host, port) \<Rightarrow>
          (if hasPrefix host ''['' \<and> hasSuffix host '']'' then butlast (tl host) else host, port))"

definition url_Hostname :: "URL \<Rightarrow> string" where
  "url_Hostname u = fst (url_splitHostPort (u_Host u))"

definition url_Port :: "URL \<Rightarrow> string" where
  "url_Port u = snd (url_splitHostPort (u_Host u))"

text \<open>\<open>net.SplitHostPort\<close>, which insists on a port and on brackets around an address with colons.\<close>

definition net_SplitHostPort :: "string \<Rightarrow> go_error + string \<times> string" where
  "net_SplitHostPort hostport =
     (case splitLast colon hostport of
        None \<Rightarrow> Inl (Err ''missing port in address'')
      | Some (before, port) \<Rightarrow>
          (if hd hostport = CHR ''['' then
             (case splitOn (CHR '']'') hostport of
                bracketed # after # _ \<Rightarrow>
                  (let close_at = length bracketed in
                   if close_at + 1 = length hostport then Inl (Err ''missing port in address'')
                   else if close_at + 1 \<noteq> length before then
                     (if hostport ! (close_at + 1) = colon then Inl (Err ''too many colons in address'')
                      else Inl (Err ''missing port in address''))
                   else if CHR ''['' \<in> set (tl hostport) then Inl (Err ''unexpected bracket in address'')
                   else if CHR '']'' \<in> set (drop (close_at + 1) hostport) then Inl (Err ''unexpected bracket in address'')
                   else Inr (tl bracketed, port))
              | _ \<Rightarrow> Inl (Err ''missing bracket in address''))
           else if colon \<in> set before then Inl (Err ''too many colons in address'')
           else if CHR ''['' \<in> set hostport \<or> CHR '']'' \<in> set hostport then Inl (Err ''unexpected bracket in address'')
           else Inr (before, port)))"

lemma splitLast_None_iff: "splitLast c s = None \<longleftrightarrow> c \<notin> set s"
  by (induction s) (auto split: option.splits)

lemma splitLast_append: "c \<notin> set b \<Longrightarrow> splitLast c (a @ c # b) = Some (a, b)"
proof (induction a)
  case Nil
  then have "splitLast c b = None" by (simp add: splitLast_None_iff)
  then show ?case by simp
qed simp

lemma digits_no_colon: "list_all isDigit p \<Longrightarrow> colon \<notin> set p"
  by (auto simp: list_all_iff isDigit_def colon_def less_eq_char_def)

lemma splitHostPort_named:
  assumes "list_all isDigit p" "\<not> (hasPrefix h ''['' \<and> hasSuffix h '']'')"
  shows "url_splitHostPort (h @ colon # p) = (h, p)"
  using assms by (auto simp: url_splitHostPort_def splitLast_append digits_no_colon)

lemma splitHostPort_bracketed:
  assumes "list_all isDigit p"
  shows "url_splitHostPort (''['' @ a @ '']'' @ colon # p) = (a, p)"
proof -
  have "splitLast colon ((''['' @ a @ '']'') @ colon # p) = Some (''['' @ a @ '']'', p)"
    by (rule splitLast_append) (rule digits_no_colon [OF assms])
  moreover have "hasPrefix (''['' @ a @ '']'') ''[''" "hasSuffix (''['' @ a @ '']'') '']''"
    using hasSuffix_append [of "''['' @ a" "'']''"] by (simp_all add: hasPrefix_def)
  ultimately show ?thesis using assms by (simp add: url_splitHostPort_def butlast_append)
qed

end
