(* ===== verification/CheckpointMain.thy ===== *)
theory CheckpointMain
  imports CheckpointLoop GoNet
begin

text \<open>
  How the checkpointer comes to run: the address of the container runtime
  (\<open>pkg/checkpoint/internal/util_unix.go\<close>), the clients of the runtime, the kubelet and the
  API server (\<open>runtime_service.go\<close>, \<open>kubelet.go\<close>, \<open>Run\<close> of \<open>checkpoint.go\<close>), and
  \<open>cmd/checkpoint/main.go\<close> after its flags are parsed. What opens connections and parses URLs
  is the record \<open>deps\<close>; a fatal log message is an error that ends the process.
\<close>

section \<open>The address of the container runtime\<close>

definition unixProtocol :: string where "unixProtocol = ''unix''"

text \<open>Protocol, address and error; with an error the others may still be set.\<close>

definition parseEndpoint :: "(string \<Rightarrow> go_error + URL) \<Rightarrow> string \<Rightarrow> string \<times> string \<times> go_error option" where
  "parseEndpoint urlParse endpoint =
     (case urlParse endpoint of
        Inl e \<Rightarrow> ('''', '''', Some e)
      | Inr u \<Rightarrow>
          (if u_Scheme u = ''tcp'' then (''tcp'', u_Host u, None)
           else if u_Scheme u = ''unix'' then (''unix'', u_Path u, None)
           else if u_Scheme u = '''' then
             ('''', '''', Some (Err (''Using '' @ endpoint @ '' as endpoint is deprecated, please consider using full url format'')))
           else (u_Scheme u, '''', Some (Err (''protocol '' @ u_Scheme u @ '' not supported'')))))"

definition parseEndpointWithFallbackProtocol ::
  "(string \<Rightarrow> go_error + URL) \<Rightarrow> string \<Rightarrow> string \<Rightarrow> string \<times> string \<times> go_error option" where
  "parseEndpointWithFallbackProtocol urlParse endpoint fallbackProtocol =
     (case parseEndpoint urlParse endpoint of
        (protocol, addr, err) \<Rightarrow>
          (if err \<noteq> None \<and> protocol = '''' then parseEndpoint urlParse (fallbackProtocol @ ''://'' @ endpoint)
           else (protocol, addr, err)))"

definition dial :: "(string \<Rightarrow> string \<Rightarrow> int \<Rightarrow> 'c) \<Rightarrow> string \<Rightarrow> int \<Rightarrow> 'c" where
  "dial DialTimeout addr timeout = DialTimeout unixProtocol addr timeout"

definition unixAddress :: "(string \<Rightarrow> go_error + URL) \<Rightarrow> string \<Rightarrow> go_error + string" where
  "unixAddress urlParse endpoint =
     (case parseEndpointWithFallbackProtocol urlParse endpoint unixProtocol of
        (_, _, Some e) \<Rightarrow> Inl e
      | (protocol, addr, None) \<Rightarrow>
          (if protocol \<noteq> unixProtocol then Inl (Err ''only support unix socket endpoint'') else Inr addr))"

definition GetAddressAndDialer ::
  "(string \<Rightarrow> go_error + URL) \<Rightarrow> (string \<Rightarrow> string \<Rightarrow> int \<Rightarrow> 'c) \<Rightarrow> string \<Rightarrow> go_error + string \<times> (string \<Rightarrow> int \<Rightarrow> 'c)" where
  "GetAddressAndDialer urlParse DialTimeout endpoint =
     (case unixAddress urlParse endpoint of Inl e \<Rightarrow> Inl e | Inr addr \<Rightarrow> Inr (addr, dial DialTimeout))"

text \<open>\<open>unlink\<close> removes a file, not a directory; listening is a parameter that may make the socket file.\<close>

definition unix_Unlink :: "fs \<Rightarrow> string \<Rightarrow> fs \<times> go_error option" where
  "unix_Unlink s p =
     (let k = fs_key s p in
      case fs_fault s OpRemove k of Some e \<Rightarrow> (s, Some e)
      | None \<Rightarrow>
        (case fs_node s k of
           None \<Rightarrow> (s, Some (ErrNotExist p))
         | Some (NFile _ _) \<Rightarrow> (fs_del s k, None)
         | Some (NDir _) \<Rightarrow> (s, Some (ErrIO ''is a directory''))))"

definition CreateListener ::
  "(string \<Rightarrow> go_error + URL) \<Rightarrow> (fs \<Rightarrow> string \<Rightarrow> string \<Rightarrow> fs \<times> (go_error + 'l)) \<Rightarrow> fs \<Rightarrow> string \<Rightarrow> fs \<times> (go_error + 'l)" where
  "CreateListener urlParse Listen s endpoint =
     (case unixAddress urlParse endpoint of
        Inl e \<Rightarrow> (s, Inl e)
      | Inr addr \<Rightarrow>
          (case unix_Unlink s addr of
             (s1, err) \<Rightarrow>
               (if err \<noteq> None \<and> \<not> os_IsNotExist (the err)
                then (s1, Inl (Errorf (''failed to unlink socket file '' @ addr) (the err)))
                else Listen s1 unixProtocol addr)))"

text \<open>\<open>URL.String\<close> of a URL with a scheme and a path only; \<open>escape\<close> is the escaping of paths.\<close>

definition LocalEndpoint :: "(string \<Rightarrow> string) \<Rightarrow> string \<Rightarrow> string \<Rightarrow> string" where
  "LocalEndpoint escape path bfile =
     path_Join [unixProtocol @ '':'' @ (if path = '''' then '''' else ''//'' @ escape path), bfile @ ''.sock'']"

section \<open>Clients\<close>

text \<open>The parts of a REST client's configuration the sources change.\<close>

record restConfig =
  ct_Host :: string
  ct_Insecure :: bool
  ct_CAFile :: string
  ct_CAData :: bytes
  ct_CoreCodecs :: bool

record ('a, 'k, 'g) deps =
  d_NewForConfig :: "restConfig \<Rightarrow> go_error + 'a"
  d_UnversionedRESTClientFor :: "restConfig \<Rightarrow> go_error + 'k"
  d_grpcDial :: "string \<Rightarrow> int \<Rightarrow> go_error + 'g"
  d_urlParse :: "string \<Rightarrow> go_error + URL"
  d_Getenv :: "string \<Rightarrow> string"

record 'k kubeletClients =
  kl_insecureClient :: 'k
  kl_secureClient :: 'k

text \<open>The configuration is changed in place: the changed one is returned beside the client.\<close>

definition newKubeletClient :: "('a, 'k, 'g) deps \<Rightarrow> restConfig \<Rightarrow> restConfig \<times> (go_error + 'k kubeletClients)" where
  "newKubeletClient d config =
     (let config1 = config\<lparr>ct_CoreCodecs := True, ct_Insecure := True, ct_CAFile := '''', ct_CAData := []\<rparr>;
          hostIP = (if d_Getenv d ''HOST_IP'' = '''' then ''127.0.0.1'' else d_Getenv d ''HOST_IP'');
          insecureConfig = config1\<lparr>ct_Host := ''http://'' @ hostIP @ '':10255''\<rparr>;
          secureConfig = config1\<lparr>ct_Host := ''https://'' @ hostIP @ '':10250''\<rparr>
      in (config1,
          case d_UnversionedRESTClientFor d insecureConfig of
            Inl e \<Rightarrow> Inl (Errorf ''failed creating kubelet client for debug endpoints'' e)
          | Inr ic \<Rightarrow>
              (case d_UnversionedRESTClientFor d secureConfig of
                 Inl e \<Rightarrow> Inl (Errorf ''failed creating kubelet client'' e)
               | Inr scl \<Rightarrow> Inr \<lparr>kl_insecureClient = ic, kl_secureClient = scl\<rparr>)))"

record 'g runtimeConnection =
  rt_timeout :: int
  rt_conn :: 'g

definition newRemoteRuntimeService :: "('a, 'k, 'g) deps \<Rightarrow> string \<Rightarrow> int \<Rightarrow> go_error + 'g runtimeConnection" where
  "newRemoteRuntimeService d endpoint connectionTimeout =
     (case unixAddress (d_urlParse d) endpoint of
        Inl e \<Rightarrow> Inl e
      | Inr addr \<Rightarrow>
          (case d_grpcDial d addr connectionTimeout of
             Inl e \<Rightarrow> Inl e
           | Inr conn \<Rightarrow> Inr \<lparr>rt_timeout = connectionTimeout, rt_conn = conn\<rparr>))"

record Options =
  op_CheckpointerPod :: checkpointerPod
  op_KubeConfig :: restConfig
  op_RemoteRuntimeEndpoint :: string
  op_RuntimeRequestTimeout :: int
  op_CheckpointGracePeriod :: int

text \<open>What \<open>Run\<close> has made when it enters the main loop, and the first state of that.\<close>

record ('a, 'k, 'g) checkpointer =
  ck_apiserver :: 'a
  ck_kubelet :: "'k kubeletClients"
  ck_cri :: "'g runtimeConnection"
  ck_checkpointerPod :: checkpointerPod
  ck_gracePeriod :: int
  ck_loop :: "(fs \<times> go_error) + loopState"

definition Run :: "('a, 'k, 'g) deps \<Rightarrow> Options \<Rightarrow> fs \<Rightarrow> go_error + ('a, 'k, 'g) checkpointer" where
  "Run d opts s =
     (case d_NewForConfig d (op_KubeConfig opts) of
        Inl e \<Rightarrow> Inl (Errorf ''panic'' e)
      | Inr apiserver \<Rightarrow>
          (case newKubeletClient d (op_KubeConfig opts) of
             (_, Inl e) \<Rightarrow> Inl (Errorf ''failed to load kubelet client'' e)
           | (_, Inr kubelet) \<Rightarrow>
               (case newRemoteRuntimeService d (op_RemoteRuntimeEndpoint opts) (op_RuntimeRequestTimeout opts) of
                  Inl e \<Rightarrow> Inl (Errorf ''failed to connect to CRI server'' e)
                | Inr cri \<Rightarrow>
                    Inr \<lparr>ck_apiserver = apiserver, ck_kubelet = kubelet, ck_cri = cri, ck_checkpointerPod = op_CheckpointerPod opts,
                         ck_gracePeriod = op_CheckpointGracePeriod opts, ck_loop = runStart s\<rparr>)))"

section \<open>The program\<close>

definition nodeNameEnv :: string where "nodeNameEnv = ''NODE_NAME''"
definition podNameEnv :: string where "podNameEnv = ''POD_NAME''"
definition podNamespaceEnv :: string where "podNamespaceEnv = ''POD_NAMESPACE''"
definition defaultRuntimeEndpoint :: string where "defaultRuntimeEndpoint = ''unix:///var/run/dockershim.sock''"
definition defaultRuntimeRequestTimeout :: int where "defaultRuntimeRequestTimeout = 120 * time_Second"
definition defaultCheckpointGracePeriod :: int where "defaultCheckpointGracePeriod = 60 * time_Second"

definition readDownwardAPI :: "(string \<Rightarrow> string) \<Rightarrow> go_error + checkpointerPod" where
  "readDownwardAPI Getenv =
     (if Getenv nodeNameEnv = '''' then Inl (Err (''missing required environment variable: '' @ nodeNameEnv))
      else if Getenv podNameEnv = '''' then Inl (Err (''missing required environment variable: '' @ podNameEnv))
      else if Getenv podNamespaceEnv = '''' then Inl (Err (''missing required environment variable: '' @ podNamespaceEnv))
      else Inr \<lparr>NodeName = Getenv nodeNameEnv, PodName = Getenv podNameEnv, PodNamespace = Getenv podNamespaceEnv\<rparr>)"

text \<open>The lock file is made if it is missing; \<open>Flock\<close> says whether the lock is granted in the end.\<close>

definition flock :: "(key \<Rightarrow> go_error option) \<Rightarrow> fs \<Rightarrow> string \<Rightarrow> fs \<times> go_error option" where
  "flock Flock s path =
     (case os_OpenFile False False 384 s path of
        (s1, Some e) \<Rightarrow> (s1, Some e)
      | (s1, None) \<Rightarrow> (s1, Flock (fs_key s1 path)))"

record flags =
  fl_lockfilePath :: string
  fl_kubeconfigPath :: string
  fl_remoteRuntimeEndpoint :: string
  fl_runtimeRequestTimeout :: int
  fl_checkpointGracePeriod :: int

definition default_flags :: flags where
  "default_flags = \<lparr>fl_lockfilePath = ''/var/run/lock/pod-checkpointer.lock'', fl_kubeconfigPath = ''/etc/kubernetes/kubeconfig'',
     fl_remoteRuntimeEndpoint = defaultRuntimeEndpoint, fl_runtimeRequestTimeout = defaultRuntimeRequestTimeout,
     fl_checkpointGracePeriod = defaultCheckpointGracePeriod\<rparr>"

definition checkpoint_main ::
  "('a, 'k, 'g) deps \<Rightarrow> (key \<Rightarrow> go_error option) \<Rightarrow> (string \<Rightarrow> go_error + restConfig) \<Rightarrow> flags \<Rightarrow> fs
   \<Rightarrow> fs \<times> (go_error + ('a, 'k, 'g) checkpointer)" where
  "checkpoint_main d Flock ClientConfig fl s =
     (case readDownwardAPI (d_Getenv d) of
        Inl e \<Rightarrow> (s, Inl (Errorf ''Error reading downward API'' e))
      | Inr pod \<Rightarrow>
          (case flock Flock s (fl_lockfilePath fl) of
             (s1, Some e) \<Rightarrow> (s1, Inl (Errorf ''Error when acquiring the flock'' e))
           | (s1, None) \<Rightarrow>
               (case ClientConfig (fl_kubeconfigPath fl) of
                  Inl e \<Rightarrow> (s1, Inl (Errorf ''Failed to load kubeconfig'' e))
                | Inr kubeConfig \<Rightarrow>
                    (case Run d \<lparr>op_CheckpointerPod = pod, op_KubeConfig = kubeConfig,
                                op_RemoteRuntimeEndpoint = fl_remoteRuntimeEndpoint fl,
                                op_RuntimeRequestTimeout = fl_runtimeRequestTimeout fl,
                                op_CheckpointGracePeriod = fl_checkpointGracePeriod fl\<rparr> s1 of
                       Inl e \<Rightarrow> (s1, Inl (Errorf ''Error starting checkpointer'' e))
                     | Inr c \<Rightarrow> (s1, Inr c)))))"


section \<open>Properties\<close>

lemma Run_result:
  assumes "Run d opts s = Inr c"
  shows "d_NewForConfig d (op_KubeConfig opts) = Inr (ck_apiserver c) \<and> snd (newKubeletClient d (op_KubeConfig opts)) = Inr (ck_kubelet c) \<and>
     newRemoteRuntimeService d (op_RemoteRuntimeEndpoint opts) (op_RuntimeRequestTimeout opts) = Inr (ck_cri c) \<and>
     ck_checkpointerPod c = op_CheckpointerPod opts \<and> ck_gracePeriod c = op_CheckpointGracePeriod opts \<and> ck_loop c = runStart s"
  using assms by (auto simp: Run_def split: sum.splits prod.splits)

lemma newKubeletClient_result:
  assumes "snd (newKubeletClient d config) = Inr k"
  shows "\<exists>host trusting. host \<noteq> '''' \<and> trusting = config\<lparr>ct_CoreCodecs := True, ct_Insecure := True, ct_CAFile := '''', ct_CAData := []\<rparr> \<and>
     d_UnversionedRESTClientFor d (trusting\<lparr>ct_Host := ''http://'' @ host @ '':10255''\<rparr>) = Inr (kl_insecureClient k) \<and>
     d_UnversionedRESTClientFor d (trusting\<lparr>ct_Host := ''https://'' @ host @ '':10250''\<rparr>) = Inr (kl_secureClient k)"
  using assms
  by (intro exI [of _ "if d_Getenv d ''HOST_IP'' = '''' then ''127.0.0.1'' else d_Getenv d ''HOST_IP''"])
    (auto simp: newKubeletClient_def Let_def split: sum.splits)

text \<open>
  C37: A checkpointer that gets to run was given the names of its node and its own pod, none of
  them empty, and holds the lock, and it trusts no more than it has to: the client of the API server is made from the kubeconfig as it
  was loaded, although the kubelet's clients, which skip the verification of the kubelet's
  self-signed certificate, are made by changing the same configuration.
\<close>

theorem only_kubelet_clients_skip_verification:
  assumes run: "checkpoint_main d Flock ClientConfig fl s = (s1, Inr c)"
  shows "NodeName (ck_checkpointerPod c) \<noteq> '''' \<and> PodName (ck_checkpointerPod c) \<noteq> '''' \<and> PodNamespace (ck_checkpointerPod c) \<noteq> '''' \<and>
     Flock (fs_key s (fl_lockfilePath fl)) = None \<and>
     (\<exists>kubeConfig. ClientConfig (fl_kubeconfigPath fl) = Inr kubeConfig \<and> d_NewForConfig d kubeConfig = Inr (ck_apiserver c) \<and>
       (\<exists>host trusting. host \<noteq> '''' \<and> trusting = kubeConfig\<lparr>ct_CoreCodecs := True, ct_Insecure := True, ct_CAFile := '''', ct_CAData := []\<rparr> \<and>
         d_UnversionedRESTClientFor d (trusting\<lparr>ct_Host := ''http://'' @ host @ '':10255''\<rparr>) = Inr (kl_insecureClient (ck_kubelet c)) \<and>
         d_UnversionedRESTClientFor d (trusting\<lparr>ct_Host := ''https://'' @ host @ '':10250''\<rparr>) = Inr (kl_secureClient (ck_kubelet c))))"
proof -
  obtain pod kubeConfig where pod: "readDownwardAPI (d_Getenv d) = Inr pod" and lock: "flock Flock s (fl_lockfilePath fl) = (s1, None)"
    and config: "ClientConfig (fl_kubeconfigPath fl) = Inr kubeConfig"
    and r: "Run d \<lparr>op_CheckpointerPod = pod, op_KubeConfig = kubeConfig, op_RemoteRuntimeEndpoint = fl_remoteRuntimeEndpoint fl,
        op_RuntimeRequestTimeout = fl_runtimeRequestTimeout fl, op_CheckpointGracePeriod = fl_checkpointGracePeriod fl\<rparr> s1 = Inr c"
    using run by (auto simp: checkpoint_main_def split: sum.splits prod.splits option.splits)
  obtain s2 err where o: "os_OpenFile False False 384 s (fl_lockfilePath fl) = (s2, err)" by fastforce
  have "fs_key s2 (fl_lockfilePath fl) = fs_key s (fl_lockfilePath fl)"
    using same_env_key [OF os_OpenFile_env [of s False False 384 "fl_lockfilePath fl"]] o by simp
  then have "Flock (fs_key s (fl_lockfilePath fl)) = None" using lock by (auto simp: flock_def o split: option.splits)
  moreover have "NodeName pod \<noteq> '''' \<and> PodName pod \<noteq> '''' \<and> PodNamespace pod \<noteq> ''''"
    using pod by (auto simp: readDownwardAPI_def split: if_splits)
  ultimately show ?thesis using Run_result [OF r] newKubeletClient_result [of d kubeConfig "ck_kubelet c"] config by simp
qed

section \<open>Socket addresses\<close>

text \<open>Absolute paths whose characters need no escaping.\<close>

definition safe_char :: "char \<Rightarrow> bool" where
  "safe_char ch \<longleftrightarrow> (CHR ''a'' \<le> ch \<and> ch \<le> CHR ''z'') \<or> (CHR ''A'' \<le> ch \<and> ch \<le> CHR ''Z'') \<or> (CHR ''0'' \<le> ch \<and> ch \<le> CHR ''9'') \<or>
     ch \<in> set ''-_.''"

definition socket_path :: "string \<Rightarrow> bool" where
  "socket_path p \<longleftrightarrow> (\<exists>bs. bs \<noteq> [] \<and> list_all plain_comp bs \<and> list_all (list_all safe_char) bs \<and> p = slash # joinWith slash bs)"

text \<open>What \<open>url.Parse\<close> makes of such a path by itself, after the scheme, and after the scheme and an empty host.\<close>

definition unix_urls :: "(string \<Rightarrow> go_error + URL) \<Rightarrow> bool" where
  "unix_urls urlParse \<longleftrightarrow> (\<forall>p. socket_path p \<longrightarrow>
     (\<exists>u. urlParse p = Inr u \<and> u_Scheme u = '''') \<and>
     (\<exists>u. urlParse (''unix://'' @ p) = Inr u \<and> u_Scheme u = ''unix'' \<and> u_Path u = p) \<and>
     (\<exists>u. urlParse (''unix:'' @ p) = Inr u \<and> u_Scheme u = ''unix'' \<and> u_Path u = p))"

lemma LocalEndpoint_path:
  assumes bs: "bs \<noteq> []" "list_all plain_comp bs" and f: "plain_comp (f @ ''.sock'')" and esc: "escape (slash # joinWith slash bs) = slash # joinWith slash bs"
  shows "LocalEndpoint escape (slash # joinWith slash bs) f = ''unix:'' @ slash # joinWith slash (bs @ [f @ ''.sock''])"
proof -
  let ?q = "''unix:'' @ ''//'' @ slash # joinWith slash (bs @ [f @ ''.sock''])"
  have q: "?q = ''unix:'' @ slash # [] @ slash # [] @ slash # joinWith slash (bs @ [f @ ''.sock''])" by simp
  have split: "splitOn slash ?q = [''unix:'', '''', ''''] @ bs @ [f @ ''.sock'']"
    unfolding q splitOn_append using splitOn_slash_plain [of "bs @ [f @ ''.sock'']"] bs f by (simp add: splitOn_no_sep)
  have "plain_comp ''unix:''" by code_simp
  then have "clean_comps False (splitOn slash ?q) = ''unix:'' # bs @ [f @ ''.sock'']"
    unfolding split using bs(2) f by (simp add: clean_comps_def foldl_clean_plain)
  moreover have "LocalEndpoint escape (slash # joinWith slash bs) f = path_Clean ?q"
    using bs(1) by (simp add: LocalEndpoint_def path_Join_def unixProtocol_def esc joinWith_append)
  ultimately show ?thesis by (simp add: path_Clean_def Let_def joinWith_Cons hasPrefix_def)
qed

text \<open>
  All ways of writing the address of a runtime's socket give the socket: a full URL, the
  bare path of earlier versions, and the endpoint \<open>LocalEndpoint\<close> makes for a directory, although
  that collapses the slashes of the URL. An address that is no socket is refused.
\<close>

lemma socket_addresses:
  assumes urls: "unix_urls urlParse" and p: "socket_path p"
  shows "unixAddress urlParse (''unix://'' @ p) = Inr p \<and> unixAddress urlParse p = Inr p \<and>
     (escape p = p \<and> list_all safe_char f \<longrightarrow> unixAddress urlParse (LocalEndpoint escape p f) = Inr (p @ slash # f @ ''.sock'')) \<and>
     (urlParse e = Inr u \<and> u_Scheme u \<notin> {'''', ''unix''} \<longrightarrow> (\<exists>err. unixAddress urlParse e = Inl err))"
proof (intro conjI impI)
  have addr: "unixAddress urlParse q = Inr (u_Path v)" if "urlParse q = Inr v" "u_Scheme v = ''unix''" for q v
    using that by (simp add: unixAddress_def parseEndpointWithFallbackProtocol_def parseEndpoint_def unixProtocol_def)
  show full: "unixAddress urlParse (''unix://'' @ p) = Inr p" using urls p addr unfolding unix_urls_def by metis
  show "unixAddress urlParse p = Inr p"
  proof -
    obtain v w where "urlParse p = Inr v" "u_Scheme v = ''''" "urlParse (''unix://'' @ p) = Inr w" "u_Scheme w = ''unix''" "u_Path w = p"
      using urls p unfolding unix_urls_def by metis
    then show ?thesis by (simp add: unixAddress_def parseEndpointWithFallbackProtocol_def parseEndpoint_def unixProtocol_def)
  qed
  show "unixAddress urlParse (LocalEndpoint escape p f) = Inr (p @ slash # f @ ''.sock'')" if hyp: "escape p = p \<and> list_all safe_char f"
  proof -
    obtain bs where bs: "bs \<noteq> []" "list_all plain_comp bs" "list_all (list_all safe_char) bs" "p = slash # joinWith slash bs"
      using p unfolding socket_path_def by blast
    have "list_all safe_char (f @ ''.sock'')" using hyp by (simp add: safe_char_def less_eq_char_def)
    moreover have "\<not> safe_char slash" by code_simp
    ultimately have f: "plain_comp (f @ ''.sock'')" "list_all safe_char (f @ ''.sock'')"
      by (auto simp: plain_comp_def list_all_iff append_eq_Cons_conv)
    then have sock: "socket_path (slash # joinWith slash (bs @ [f @ ''.sock'']))"
      unfolding socket_path_def using bs(1-3) by (intro exI [of _ "bs @ [f @ ''.sock'']"]) simp
    have "LocalEndpoint escape p f = ''unix:'' @ slash # joinWith slash (bs @ [f @ ''.sock''])"
      unfolding bs(4) by (rule LocalEndpoint_path [OF bs(1,2) f(1)]) (use hyp bs(4) in simp)
    moreover obtain v where "urlParse (''unix:'' @ slash # joinWith slash (bs @ [f @ ''.sock''])) = Inr v" "u_Scheme v = ''unix''"
      "u_Path v = slash # joinWith slash (bs @ [f @ ''.sock''])" using urls sock unfolding unix_urls_def by metis
    ultimately show ?thesis using addr bs(1,4) by (simp add: joinWith_append)
  qed
  show "\<exists>err. unixAddress urlParse e = Inl err" if "urlParse e = Inr u \<and> u_Scheme u \<notin> {'''', ''unix''}"
    using that by (auto simp: unixAddress_def parseEndpointWithFallbackProtocol_def parseEndpoint_def unixProtocol_def)
qed


definition example_url :: "string \<Rightarrow> string \<Rightarrow> URL" where
  "example_url scheme p = \<lparr>u_Scheme = scheme, u_Host = '''', u_Path = p, u_String = scheme @ p\<rparr>"

definition example_urlParse :: "string \<Rightarrow> go_error + URL" where
  "example_urlParse s = Inr
     (if hasPrefix s ''unix://'' then example_url ''unix'' (drop 7 s)
      else if hasPrefix s ''unix:'' then example_url ''unix'' (drop 5 s)
      else if hasPrefix s ''tcp://'' then example_url ''tcp'' (drop 6 s)
      else example_url '''' s)"

lemma example_urls: "unix_urls example_urlParse"
proof -
  have "hasPrefix (''unix:'' @ p) ''unix://'' = False" if "socket_path p" for p
  proof -
    from \<open>socket_path p\<close> obtain b bs where "plain_comp b" "p = slash # joinWith slash (b # bs)" unfolding socket_path_def neq_Nil_conv by auto
    then show ?thesis by (cases b; cases bs) (auto simp: hasPrefix_def plain_comp_def)
  qed
  moreover have "\<exists>q. p = slash # q" if "socket_path p" for p using that by (auto simp: socket_path_def)
  ultimately show ?thesis by (fastforce simp: unix_urls_def example_urlParse_def example_url_def hasPrefix_def)
qed

lemma socket_addresses_witness:
  "unixAddress example_urlParse (LocalEndpoint id ''/var/run'' ''dockershim'') = Inr ''/var/run/dockershim.sock'' \<and>
   unixAddress example_urlParse defaultRuntimeEndpoint = Inr ''/var/run/dockershim.sock'' \<and>
   (\<exists>err. unixAddress example_urlParse ''tcp://localhost:3735'' = Inl err)"
proof -
  have parts: "list_all plain_comp [''var'', ''run'']" "list_all (list_all safe_char) [''var'', ''run'']" "slash # joinWith slash [''var'', ''run''] = ''/var/run''"
    "list_all plain_comp [''var'', ''run'', ''dockershim.sock'']" "list_all (list_all safe_char) [''var'', ''run'', ''dockershim.sock'']"
    "slash # joinWith slash [''var'', ''run'', ''dockershim.sock''] = ''/var/run/dockershim.sock''" "list_all safe_char ''dockershim''"
    "''/var/run'' @ slash # ''dockershim'' @ ''.sock'' = ''/var/run/dockershim.sock''" by code_simp+
  have p: "socket_path ''/var/run''" "socket_path ''/var/run/dockershim.sock''"
    unfolding socket_path_def using parts by (metis list.distinct(1))+
  have tcp: "example_urlParse ''tcp://localhost:3735'' = Inr (example_url ''tcp'' ''localhost:3735'')" "u_Scheme (example_url ''tcp'' ''localhost:3735'') = ''tcp''"
    by code_simp+
  have endp: "defaultRuntimeEndpoint = ''unix://'' @ ''/var/run/dockershim.sock''" by code_simp
  have "unixAddress example_urlParse (LocalEndpoint id ''/var/run'' ''dockershim'') = Inr ''/var/run/dockershim.sock''"
    "\<exists>err. unixAddress example_urlParse ''tcp://localhost:3735'' = Inl err"
    using socket_addresses [OF example_urls p(1), of id "''dockershim''" "''tcp://localhost:3735''" "example_url ''tcp'' ''localhost:3735''"] parts(7,8) tcp
    by simp_all
  with socket_addresses [OF example_urls p(2)] show ?thesis unfolding endp by blast
qed

definition example_deps :: "(restConfig, restConfig, string) deps" where
  "example_deps = \<lparr>d_NewForConfig = Inr, d_UnversionedRESTClientFor = Inr, d_grpcDial = (\<lambda>addr _. Inr addr), d_urlParse = example_urlParse,
     d_Getenv = (\<lambda>v. if v = ''HOST_IP'' then '''' else v)\<rparr>"

definition example_kubeconfig :: restConfig where
  "example_kubeconfig = \<lparr>ct_Host = ''https://api:6443'', ct_Insecure = False, ct_CAFile = ''/etc/kubernetes/ca.crt'', ct_CAData = [], ct_CoreCodecs = False\<rparr>"

definition lock_host :: fs where
  "lock_host = \<lparr>entries = [([], new_dir 493), ([''var''], new_dir 493), ([''var'', ''run''], new_dir 493), ([''var'', ''run'', ''lock''], new_dir 493)],
     cwd = [], faults = (\<lambda>_ _. None), torn = (\<lambda>_. 0)\<rparr>"

theorem only_kubelet_clients_skip_verification_witness:
  "\<exists>s1 c. checkpoint_main example_deps (\<lambda>_. None) (\<lambda>_. Inr example_kubeconfig) default_flags lock_host = (s1, Inr c) \<and>
     ck_apiserver c = example_kubeconfig \<and> \<not> ct_Insecure (ck_apiserver c)"
proof -
  have "case checkpoint_main example_deps (\<lambda>_. None) (\<lambda>_. Inr example_kubeconfig) default_flags lock_host of (s1, Inr c) \<Rightarrow> True | (s1, Inl e) \<Rightarrow> False"
    by code_simp
  then obtain s1 c where run: "checkpoint_main example_deps (\<lambda>_. None) (\<lambda>_. Inr example_kubeconfig) default_flags lock_host = (s1, Inr c)"
    by (auto split: prod.splits sum.splits)
  from only_kubelet_clients_skip_verification [OF run] have "ck_apiserver c = example_kubeconfig" by (auto simp: example_deps_def)
  with run show ?thesis by (auto simp: example_kubeconfig_def)
qed

end
