(* ===== verification/CheckpointRuns.thy ===== *)
theory CheckpointRuns
  imports CheckpointLoop
begin

text \<open>
  Runs of the checkpointer: what can happen to it over time. A poll (\<open>pollOnce\<close>) is split into
  what it reads and decides and the steps it then takes, one after the other: the process may be
  killed between any two of them, while it loads the manifests, or while it waits; it may end
  itself with \<open>glog.Fatalf\<close>; and the failures of the file system may change before every step, so
  that a step may also stop at any of its operations. After each of these it may be started again.
\<close>

section \<open>The steps of a poll\<close>

datatype pollStep = WriteCheckpoint bool pod | StopOne string | StartOne string | RemoveOne string

fun carryOut :: "(pod \<Rightarrow> go_error + bytes) \<Rightarrow> world \<Rightarrow> fs \<Rightarrow> pollStep \<Rightarrow> fs" where
  "carryOut encode w s (WriteCheckpoint needsCheckpointUpdate pod) =
     checkpointParent encode (w_getSecret w) (w_getConfigMap w) needsCheckpointUpdate s pod"
| "carryOut encode w s (StopOne pid) = fst (os_Remove s (podFullNameToActiveCheckpointPath pid))"
| "carryOut encode w s (StartOne pid) = handleStartOne s pid"
| "carryOut encode w s (RemoveOne pid) = handleRemoveOne s pid"

text \<open>What a poll reads and decides: the new memory, and the steps to take.\<close>

definition planPoll ::
  "(bytes \<Rightarrow> go_error + pod) \<Rightarrow> int \<Rightarrow> checkpointerPod \<Rightarrow> world \<Rightarrow> loopState \<Rightarrow> (fs \<times> go_error) + (loopState \<times> pollStep list)" where
  "planPoll decode gp c w st =
     (let localParents = localParentPods (w_kubelet w);
          localRunning = localRunningPods (w_cri w);
          (avail, apiParents) = getAPIParentPods (w_listPods w) c (NodeName c)
      in case getFileCheckpoints decode (l_fs st) activeCheckpointPath of
           (s1, Inl e) \<Rightarrow> Inl (s1, e)
         | (s1, Inr active) \<Rightarrow>
           (case getFileCheckpoints decode s1 inactiveCheckpointPath of
              (s2, Inl e) \<Rightarrow> Inl (s2, e)
            | (s2, Inr inactive) \<Rightarrow>
              (let cs = update (l_checkpoints st) localRunning localParents apiParents active inactive c;
                   needsCheckpointUpdate = (case l_lastCheckpoint st of None \<Rightarrow> True
                     | Some t \<Rightarrow> w_checkTime w - t \<ge> defaultCheckpointTimeout);
                   (cs', a) = process gp cs (w_processTime w) avail localRunning localParents apiParents
               in Inr (st\<lparr>l_fs := s2, l_checkpoints := cs',
                          l_lastCheckpoint := (if needsCheckpointUpdate then Some (w_updateTime w) else l_lastCheckpoint st)\<rparr>,
                       map (WriteCheckpoint needsCheckpointUpdate) (checkpointParentPods cs) @
                       map StopOne (stops a) @ map StartOne (starts a) @ map RemoveOne (removes a)))))"

text \<open>A poll is its plan, carried out.\<close>

lemma carryOut_steps:
  "foldl (carryOut encode w) s (map (WriteCheckpoint needs) ps) = foldl (checkpointParent encode (w_getSecret w) (w_getConfigMap w) needs) s ps"
  "foldl (carryOut encode w) s (map StopOne ids) = handleStop s ids"
  "foldl (carryOut encode w) s (map StartOne ids) = handleStart s ids"
  "foldl (carryOut encode w) s (map RemoveOne ids) = handleRemove s ids"
  by (simp_all add: foldl_map handleStop_def handleStart_def handleRemove_def)

lemma pollOnce_planned:
  "pollOnce encode decode gp c w st =
     map_sum id (\<lambda>(st', steps). st'\<lparr>l_fs := foldl (carryOut encode w) (l_fs st') steps\<rparr>) (planPoll decode gp c w st)"
  by (simp add: pollOnce_def planPoll_def createCheckpointsForValidParents_def carryOut_steps Let_def case_prod_beta
      split: sum.splits)

section \<open>Processes\<close>

text \<open>The process is not there, waits for the next poll, or is in the middle of one.\<close>

datatype process = Down fs | Idle loopState | Busy loopState "pollStep list"

primrec host :: "process \<Rightarrow> fs" where
  "host (Down s) = s"
| "host (Idle st) = l_fs st"
| "host (Busy st steps) = l_fs st"

primrec on_host :: "(fs \<Rightarrow> fs) \<Rightarrow> process \<Rightarrow> process" where
  "on_host f (Down s) = Down (f s)"
| "on_host f (Idle st) = Idle (st\<lparr>l_fs := f (l_fs st)\<rparr>)"
| "on_host f (Busy st steps) = Busy (st\<lparr>l_fs := f (l_fs st)\<rparr>) steps"

text \<open>What can be left of the file system in the middle of loading the manifests of either directory.\<close>

definition loading :: "(bytes \<Rightarrow> go_error + pod) \<Rightarrow> fs \<Rightarrow> fs \<Rightarrow> bool" where
  "loading decode s s' \<longleftrightarrow>
     (\<exists>fi n. s' = fst (loadCheckpoints decode activeCheckpointPath s (take n fi) []) \<and> ioutil_ReadDir s activeCheckpointPath = Inr fi) \<or>
     (\<exists>s1 active fi n. getFileCheckpoints decode s activeCheckpointPath = (s1, Inr active) \<and> ioutil_ReadDir s1 inactiveCheckpointPath = Inr fi \<and>
        s' = fst (loadCheckpoints decode inactiveCheckpointPath s1 (take n fi) []))"

text \<open>What other processes say is about pods with names of their own, which Kubernetes makes sure of.\<close>

definition world_ok :: "checkpointerPod \<Rightarrow> world \<Rightarrow> bool" where
  "world_ok c w \<longleftrightarrow> valid_objects (w_getSecret w) \<and> valid_objects (w_getConfigMap w) \<and>
     list_all (\<lambda>(k, p). valid_pod p) (localParentPods (w_kubelet w)) \<and>
     list_all (\<lambda>(k, p). valid_pod p) (snd (getAPIParentPods (w_listPods w) c (NodeName c)))"

inductive run_reach ::
  "(pod \<Rightarrow> go_error + bytes) \<Rightarrow> (bytes \<Rightarrow> go_error + pod) \<Rightarrow> int \<Rightarrow> checkpointerPod \<Rightarrow> fs \<Rightarrow> process \<Rightarrow> bool"
  for encode decode gp c s0 where
  off: "run_reach encode decode gp c s0 (Down s0)"
| boot: "run_reach encode decode gp c s0 (Down s) \<Longrightarrow> runStart s = Inr st \<Longrightarrow> run_reach encode decode gp c s0 (Idle st)"
| boot_fails: "run_reach encode decode gp c s0 (Down s) \<Longrightarrow> runStart s = Inl (s', e) \<Longrightarrow> run_reach encode decode gp c s0 (Down s')"
| poll: "run_reach encode decode gp c s0 (Idle st) \<Longrightarrow> world_ok c w \<Longrightarrow> planPoll decode gp c w st = Inr (st', steps) \<Longrightarrow>
    run_reach encode decode gp c s0 (Busy st' steps)"
| poll_fatal: "run_reach encode decode gp c s0 (Idle st) \<Longrightarrow> planPoll decode gp c w st = Inl (s', e) \<Longrightarrow>
    run_reach encode decode gp c s0 (Down s')"
| step: "run_reach encode decode gp c s0 (Busy st (x # steps)) \<Longrightarrow> world_ok c w \<Longrightarrow>
    run_reach encode decode gp c s0 (Busy (st\<lparr>l_fs := carryOut encode w (l_fs st) x\<rparr>) steps)"
| finished: "run_reach encode decode gp c s0 (Busy st []) \<Longrightarrow> run_reach encode decode gp c s0 (Idle st)"
| killed: "run_reach encode decode gp c s0 p \<Longrightarrow> run_reach encode decode gp c s0 (Down (host p))"
| killed_loading: "run_reach encode decode gp c s0 (Idle st) \<Longrightarrow> loading decode (l_fs st) s' \<Longrightarrow> run_reach encode decode gp c s0 (Down s')"
| failures: "run_reach encode decode gp c s0 p \<Longrightarrow> run_reach encode decode gp c s0 (on_host (\<lambda>s. s\<lparr>faults := fl, torn := tn\<rparr>) p)"

text \<open>A whole poll is one way to go on.\<close>

lemma reach_steps:
  "run_reach encode decode gp c s0 (Busy st steps) \<Longrightarrow> world_ok c w \<Longrightarrow>
   run_reach encode decode gp c s0 (Busy (st\<lparr>l_fs := foldl (carryOut encode w) (l_fs st) steps\<rparr>) [])"
proof (induction steps arbitrary: st)
  case (Cons x steps)
  from Cons.IH [OF run_reach.step [OF Cons.prems] Cons.prems(2)] show ?case by simp
qed simp

lemma reach_poll:
  assumes "run_reach encode decode gp c s0 (Idle st)" "world_ok c w" "pollOnce encode decode gp c w st = Inr st'"
  shows "run_reach encode decode gp c s0 (Idle st')"
proof -
  obtain st1 steps where plan: "planPoll decode gp c w st = Inr (st1, steps)" and st': "st' = st1\<lparr>l_fs := foldl (carryOut encode w) (l_fs st1) steps\<rparr>"
    using assms(3) by (cases "planPoll decode gp c w st") (auto simp: pollOnce_planned)
  show ?thesis unfolding st' by (rule run_reach.finished [OF reach_steps [OF run_reach.poll [OF assms(1,2) plan] assms(2)]])
qed

section \<open>Whole manifests\<close>

text \<open>
  Where the content of a manifest in the inactive directory may come from: it was there at the
  start, or it is the complete encoding of a sanitized pod, in the file named after the pod. And
  what holds of both directories at any time, for every file but the temporary ones of a write.
\<close>

definition origin :: "(pod \<Rightarrow> go_error + bytes) \<Rightarrow> fs \<Rightarrow> string \<Rightarrow> bytes \<Rightarrow> bool" where
  "origin encode s0 f d \<longleftrightarrow> content s0 (inactiveKey f) = Some d \<or>
     (\<exists>p. valid_pod p \<and> f = manifestName (podFullName p) \<and> encode (sanitizeCheckpointPod p) = Inr d)"

definition whole_manifests :: "(pod \<Rightarrow> go_error + bytes) \<Rightarrow> fs \<Rightarrow> fs \<Rightarrow> bool" where
  "whole_manifests encode s0 s \<longleftrightarrow> (\<forall>f d. temp_name f \<or>
     (content s (inactiveKey f) = Some d \<longrightarrow> origin encode s0 f d) \<and>
     (content s (activeKey f) = Some d \<longrightarrow> content s0 (activeKey f) = Some d \<or> origin encode s0 f d))"

text \<open>The entries of both directories have proper names.\<close>

definition entry_keys :: "key \<Rightarrow> bool" where
  "entry_keys k \<longleftrightarrow> (\<exists>f. (k = inactiveKey f \<or> k = activeKey f) \<and> \<not> plain_comp f \<and> \<not> temp_name f)"

definition proper_entries :: "fs \<Rightarrow> bool" where
  "proper_entries s \<longleftrightarrow> (\<forall>k. entry_keys k \<longrightarrow> fs_node s k = None)"

lemma entry_keys_not: "entry_keys k \<Longrightarrow> \<not> temp_key k \<and> outside k \<and> k \<noteq> inactiveKey (manifestName pid) \<and> k \<noteq> activeKey (manifestName pid)"
  by (auto simp: entry_keys_def temp_key_def)

lemma content_shrink:
  assumes "\<And>k. fs_node s' k = fs_node s k \<or> fs_node s' k = None" "content s' k = Some d"
  shows "content s k = Some d"
  using assms(1) [of k] assms(2) content_node_cong [of s' k s] by (auto simp: content_def [of s'])

lemma whole_shrink:
  assumes "whole_manifests encode s0 s" "\<And>k. fs_node s' k = fs_node s k \<or> fs_node s' k = None"
  shows "whole_manifests encode s0 s'"
  using assms(1) content_shrink [OF assms(2)] unfolding whole_manifests_def by blast

lemma proper_shrink: "proper_entries s \<Longrightarrow> (\<And>k. fs_node s' k = fs_node s k \<or> fs_node s' k = None) \<Longrightarrow> proper_entries s'"
  unfolding proper_entries_def by metis

text \<open>Files only disappear when manifests are loaded or checkpoints are stopped and removed.\<close>

lemma os_RemoveAll_only: "fs_node (fst (os_RemoveAll s p)) k = fs_node s k \<or> fs_node (fst (os_RemoveAll s p)) k = None"
  by (auto simp: os_RemoveAll_def Let_def fs_node_def map_of_filter_key split: option.splits)

lemma handleRemoveOne_only: "fs_node (handleRemoveOne s x) k = fs_node s k \<or> fs_node (handleRemoveOne s x) k = None"
proof -
  let ?s1 = "fst (os_RemoveAll s (podFullNameToSecretPath x))"
  let ?s2 = "fst (os_RemoveAll ?s1 (podFullNameToConfigMapPath x))"
  let ?s3 = "fst (os_Remove ?s2 (podFullNameToInactiveCheckpointPath x))"
  have "handleRemoveOne s x \<in> {?s3, fst (os_Remove ?s3 (podFullNameToActiveCheckpointPath x))}"
    by (auto simp: handleRemoveOne_def Let_def case_prod_beta)
  then show ?thesis
    using os_RemoveAll_only [of s "podFullNameToSecretPath x" k] os_RemoveAll_only [of ?s1 "podFullNameToConfigMapPath x" k]
      os_Remove_only [of ?s2 "podFullNameToInactiveCheckpointPath x" k] os_Remove_only [of ?s3 "podFullNameToActiveCheckpointPath x" k]
    by auto
qed

text \<open>Every step keeps manifests whole and names proper.\<close>

definition step_ok :: "pollStep \<Rightarrow> bool" where
  "step_ok x = (case x of WriteCheckpoint needs p \<Rightarrow> valid_pod p | _ \<Rightarrow> True)"

lemma handleStartOne_frame:
  "k \<noteq> activeKey (manifestName pid) \<Longrightarrow> untouched s k \<Longrightarrow> fs_node (handleStartOne s pid) k = fs_node s k"
  using handleStartOne_cases [of s pid] manifest.wr_frame [of k s "podFullNameToActiveCheckpointPath pid"] by auto

lemma handleStartOne_whole:
  assumes "whole_manifests encode s0 s"
  shows "whole_manifests encode s0 (handleStartOne s pid)"
proof (cases "handleStartOne s pid = s")
  case False
  then obtain d where d: "content s (inactiveKey (manifestName pid)) = Some d"
    and s': "handleStartOne s pid = fst (writeManifest s (podFullNameToActiveCheckpointPath pid) d)"
    using handleStartOne_cases by blast
  have o: "origin encode s0 (manifestName pid) d"
    using assms d temp_name_manifestName unfolding whole_manifests_def by blast
  have inactive: "content (handleStartOne s pid) (inactiveKey f) = content s (inactiveKey f)" if "\<not> temp_name f" for f
    using handleStartOne_frame [of "inactiveKey f" pid s] that
    by (intro content_node_cong) (simp add: untouched_def temp_key_def)
  have active: "content (handleStartOne s pid) (activeKey f) = content s (activeKey f) \<or>
      f = manifestName pid \<and> content (handleStartOne s pid) (activeKey f) = Some d" if "\<not> temp_name f" for f
    using manifest.wr_content_cases [of "activeKey f" s "podFullNameToActiveCheckpointPath pid" d] that s' by (auto simp: temp_key_def)
  show ?thesis
    unfolding whole_manifests_def
  proof (intro allI)
    fix f e
    show "temp_name f \<or> (content (handleStartOne s pid) (inactiveKey f) = Some e \<longrightarrow> origin encode s0 f e) \<and>
        (content (handleStartOne s pid) (activeKey f) = Some e \<longrightarrow> content s0 (activeKey f) = Some e \<or> origin encode s0 f e)"
      using assms inactive [of f] active [of f] o unfolding whole_manifests_def by (metis option.inject)
  qed
qed (use assms in simp)

lemma checkpointParent_visible:
  assumes "valid_objects gs" "valid_objects gc" "valid_pod p" "\<not> temp_name f"
  shows "content (checkpointParent encode gs gc needs s p) (inactiveKey f) = content s (inactiveKey f) \<or>
     (\<exists>b. encode (sanitizeCheckpointPod p) = Inr b \<and> f = manifestName (podFullName p) \<and>
        content (checkpointParent encode gs gc needs s p) (inactiveKey f) = Some b)"
proof (cases "f = manifestName (podFullName p)")
  case True
  then show ?thesis using checkpointParent_manifest [OF assms(1-3), of encode needs s "podFullName p"] by auto
next
  case False
  then show ?thesis using checkpointParent_frame [OF assms(1-3), of "inactiveKey f" s encode needs] assms(4)
    by (intro disjI1 content_node_cong) (simp add: untouched_def temp_key_def)
qed

lemma checkpointParent_whole:
  assumes "whole_manifests encode s0 s" "valid_objects gs" "valid_objects gc" "valid_pod p"
  shows "whole_manifests encode s0 (checkpointParent encode gs gc needs s p)"
  unfolding whole_manifests_def
proof (intro allI)
  fix f d
  let ?s' = "checkpointParent encode gs gc needs s p"
  show "temp_name f \<or> (content ?s' (inactiveKey f) = Some d \<longrightarrow> origin encode s0 f d) \<and>
      (content ?s' (activeKey f) = Some d \<longrightarrow> content s0 (activeKey f) = Some d \<or> origin encode s0 f d)"
  proof (cases "temp_name f")
    case False
    have "content ?s' (activeKey f) = content s (activeKey f)"
      using checkpointParent_frame [OF assms(2-4), of "activeKey f" s encode needs] False
      by (intro content_node_cong) (simp add: untouched_def temp_key_def)
    moreover have "content ?s' (inactiveKey f) = Some d \<longrightarrow> content s (inactiveKey f) = Some d \<or> origin encode s0 f d"
      using checkpointParent_visible [OF assms(2-4) False, of encode needs s] assms(4) by (auto simp: origin_def)
    ultimately show ?thesis using assms(1) False unfolding whole_manifests_def by auto
  qed simp
qed

lemma carryOut_whole:
  assumes "whole_manifests encode s0 s" "world_ok c w" "step_ok x"
  shows "whole_manifests encode s0 (carryOut encode w s x)"
proof (cases x)
  case (WriteCheckpoint needs p)
  then show ?thesis using assms by (simp add: checkpointParent_whole world_ok_def step_ok_def)
next
  case (StopOne pid)
  then show ?thesis using whole_shrink [OF assms(1) os_Remove_only] by simp
next
  case (StartOne pid)
  then show ?thesis using handleStartOne_whole [OF assms(1)] by simp
next
  case (RemoveOne pid)
  then show ?thesis using whole_shrink [OF assms(1) handleRemoveOne_only] by simp
qed

lemma carryOut_proper:
  assumes "proper_entries s" "world_ok c w" "step_ok x"
  shows "proper_entries (carryOut encode w s x)"
proof (cases x)
  case (WriteCheckpoint needs p)
  have "fs_node (checkpointParent encode (w_getSecret w) (w_getConfigMap w) needs s p) k = fs_node s k" if "entry_keys k" for k
    using assms(2,3) WriteCheckpoint entry_keys_not [OF that]
    by (intro checkpointParent_frame) (auto simp: world_ok_def step_ok_def untouched_def)
  then show ?thesis using assms(1) WriteCheckpoint by (simp add: proper_entries_def)
next
  case (StopOne pid)
  then show ?thesis using proper_shrink [OF assms(1) os_Remove_only] by simp
next
  case (StartOne pid)
  have "fs_node (handleStartOne s pid) k = fs_node s k" if "entry_keys k" for k
    using entry_keys_not [OF that] by (intro handleStartOne_frame) (auto simp: untouched_def)
  then show ?thesis using assms(1) StartOne by (simp add: proper_entries_def)
next
  case (RemoveOne pid)
  then show ?thesis using proper_shrink [OF assms(1) handleRemoveOne_only] by simp
qed

section \<open>The memory\<close>

definition memory_ok :: "checkpointerPod \<Rightarrow> checkpoints \<Rightarrow> bool" where
  "memory_ok c cs \<longleftrightarrow> cps_inv c cs \<and> list_all valid_pod (checkpointParentPods cs)"

lemma checkpointParentPods_iff:
  assumes "distinct (map fst (cs_map cs))"
  shows "p \<in> set (checkpointParentPods cs) \<longleftrightarrow>
     (\<exists>k cp. map_of (cs_map cs) k = Some cp \<and> cp_pod cp = p) \<or> (\<exists>sc. cs_self cs = Some sc \<and> cp_pod sc = p)"
  using assms by (cases "cs_self cs") (force simp: checkpointParentPods_def)+

lemma memory_ok_update:
  assumes mem: "memory_ok c cs" and c: "slash \<notin> set (PodNamespace c)"
    and ok: "podMap_ok lp" "podMap_ok ap" "podMap_ok act" "podMap_ok ina"
    and valid: "list_all (\<lambda>(k, p). valid_pod p) (lp @ ap @ act @ ina)"
  shows "memory_ok c (update cs lr lp ap act ina c)"
proof -
  have old: "valid_pod p" if "p \<in> set (checkpointParentPods cs)" for p
    using mem that by (auto simp: memory_ok_def list_all_iff)
  have inv: "cps_inv c cs" using mem by (simp add: memory_ok_def)
  note res = update_result [OF inv c ok, of lr]
  have dist: "distinct (map fst (cs_map cs))" using inv by (simp add: cps_inv_def)
  have known: "valid_pod (cp_pod cp)" if "known cs k = Some cp" for k cp
    using that old checkpointParentPods_iff [OF dist] by (auto simp: known_def split: option.splits if_splits)
  have new: "map_of lp k = Some p \<Longrightarrow> valid_pod p" "map_of ap k = Some p \<Longrightarrow> valid_pod p"
    "map_of act k = Some p \<Longrightarrow> valid_pod p" "map_of ina k = Some p \<Longrightarrow> valid_pod p" for k p
    using valid by (fastforce simp: list_all_iff dest: map_of_SomeD)+
  have merged: "valid_pod (cp_pod cp)" if "merged c cs lp ap act ina k = Some cp" for k cp
    using that known new by (auto simp: merged_def fromDisk_def parentPod_def Let_def split: option.splits)
  have "valid_pod p" if "p \<in> set (checkpointParentPods (update cs lr lp ap act ina c))" for p
    using that merged checkpointParentPods_iff [OF res(3)] res(1,2) by (auto simp: asSelf_def split: if_splits)
  with update_keeps_inv [OF inv c ok] show ?thesis by (auto simp: memory_ok_def list_all_iff)
qed

lemma memory_ok_process:
  assumes mem: "memory_ok c cs"
  shows "memory_ok c (fst (process gp cs now avail lr lp ap))"
proof -
  have inv: "cps_inv c cs" using mem by (simp add: memory_ok_def)
  note inv' = process_keeps_inv [OF inv, of gp now avail lr lp ap]
  note m = cps_inv_map [OF inv]
  let ?cs' = "fst (process gp cs now avail lr lp ap)"
  have "(\<forall>k cp'. map_of (cs_map ?cs') k = Some cp' \<longrightarrow> (\<exists>cp. map_of (cs_map cs) k = Some cp \<and> cp_pod cp = cp_pod cp'))
      \<and> (\<forall>sc'. cs_self ?cs' = Some sc' \<longrightarrow> (\<exists>sc. cs_self cs = Some sc \<and> cp_pod sc = cp_pod sc'))"
    using processAll_result(1) [of "cs_map cs" gp now "conditionOf avail lr lp ap"] m
      map_of_filter_value [of "cs_map cs" "\<lambda>cp. cp_state cp = stateNone"]
    by (cases rule: process_cases [OF inv, of gp now avail lr lp ap]) (auto split: option.splits if_splits)
  then have "valid_pod p" if "p \<in> set (checkpointParentPods ?cs')" for p
    using that mem checkpointParentPods_iff [of cs p] checkpointParentPods_iff [of ?cs' p] m cps_inv_map [OF inv']
    by (fastforce simp: memory_ok_def list_all_iff)
  with inv' show ?thesis by (simp add: memory_ok_def list_all_iff)
qed


section \<open>What is loaded\<close>

lemma loadCheckpoints_from:
  "(k, q) \<in> set (snd (loadCheckpoints decode path s fi acc)) \<Longrightarrow>
   (k, q) \<in> set acc \<or> (\<exists>f \<in> set fi. \<exists>b. \<not> hasPrefix (path_Base (path_Join [path, f])) ''.'' \<and>
      content s (fs_key s (path_Join [path, f])) = Some b \<and> decode b = Inr q \<and> isCheckpoint q)"
proof (induction fi arbitrary: s acc)
  case (Cons f fi)
  let ?p = "path_Join [path, f]"
  let ?from = "\<lambda>s acc. (k, q) \<in> set acc \<or> (\<exists>f \<in> set fi. \<exists>b. \<not> hasPrefix (path_Base (path_Join [path, f])) ''.'' \<and>
      content s (fs_key s (path_Join [path, f])) = Some b \<and> decode b = Inr q \<and> isCheckpoint q)"
  show ?case
  proof (cases "hasPrefix (path_Base ?p) ''.''")
    case True
    let ?s1 = "fst (os_Remove s ?p)"
    have "?from ?s1 acc" using Cons True by (simp add: loadCheckpoints.simps(2) Let_def)
    moreover have "fs_key ?s1 x = fs_key s x" for x by (rule same_env_key [OF os_Remove_env])
    moreover have "content ?s1 x = Some b \<Longrightarrow> content s x = Some b" for x b by (rule content_shrink [OF os_Remove_only])
    ultimately have "?from s acc" by metis
    then show ?thesis by auto
  next
    case False
    consider (skip) "(k, q) \<in> set (snd (loadCheckpoints decode path s fi acc))"
      | (read) b cp where "ioutil_ReadFile s ?p = Inr b" "decode b = Inr cp" "isCheckpoint cp"
        "(k, q) \<in> set (snd (loadCheckpoints decode path s fi (AList.update (podFullName cp) cp acc)))"
      using Cons.prems False by (auto simp: loadCheckpoints.simps(2) Let_def split: sum.splits if_splits)
    then show ?thesis
    proof cases
      case skip
      from Cons.IH [OF this] show ?thesis by auto
    next
      case read
      have c: "content s (fs_key s ?p) = Some b" by (rule ioutil_ReadFile_Inr [OF read(1)])
      have "(k, q) \<in> set acc \<or> q = cp" if "(k, q) \<in> set (AList.update (podFullName cp) cp acc)"
        using that set_update_subset [of "podFullName cp" cp acc] by auto
      with Cons.IH [OF read(4)] c read(2,3) False show ?thesis by auto
    qed
  qed
qed simp

text \<open>Every pod that is loaded comes from a file of the directory, but for temporary ones.\<close>

lemma manifest_path:
  assumes "bs \<in> {[''etc'', ''kubernetes'', ''manifests''], [''etc'', ''kubernetes'', ''inactive-manifests'']}"
    and "proper_entries s" "fs_node s (bs @ [f]) \<noteq> None" "is_dir (fs_node s bs)"
    and "\<not> hasPrefix (path_Base (path_Join [slash # joinWith slash bs, f])) ''.''"
    and "content s (fs_key s (path_Join [slash # joinWith slash bs, f])) = Some b"
  shows "\<not> hasPrefix f ''.'' \<and> content s (bs @ [f]) = Some b"
proof -
  have bs: "bs \<noteq> []" "list_all plain_comp bs" using assms(1) by (auto simp: plain_comp_def)
  have "plain_comp f \<or> temp_name f"
    using assms(1-3) by (auto simp: proper_entries_def entry_keys_def)
  moreover have "plain_comp f" if t: "temp_name f"
  proof (rule ccontr)
    assume "\<not> plain_comp f"
    obtain ds where f: "f = CHR ''.'' # ds" "list_all (\<lambda>d. d \<in> set ''0123456789'') ds"
      using t by (auto simp: temp_name_def split: list.splits)
    have "slash \<notin> set ds" "hd ds \<noteq> CHR ''.'' \<or> ds = []" using f(2) by (cases ds; auto simp: list_all_iff)+
    with f(1) \<open>\<not> plain_comp f\<close> have "ds = []" by (cases ds) (auto simp: plain_comp_def)
    then have dot: "f = ''.''" using f(1) by simp
    have "path_Join [slash # joinWith slash bs, ''.''] = slash # joinWith slash bs" using assms(1) by (elim insertE emptyE; hypsubst) code_simp+
    then have "content s bs = Some b" using assms(6) fs_key_abs [OF bs, of s] unfolding dot by simp
    with assms(4) show False by (cases "fs_node s bs"; cases "the (fs_node s bs)") (auto simp: content_def)
  qed
  ultimately have "plain_comp f" by blast
  with dir_file(2,3) [OF bs this] assms(5,6) show ?thesis by simp
qed

lemma loaded_pod:
  assumes g: "getFileCheckpoints decode s (slash # joinWith slash bs) = (s', Inr cps)"
    and bs: "bs \<in> {[''etc'', ''kubernetes'', ''manifests''], [''etc'', ''kubernetes'', ''inactive-manifests'']}"
    and "proper_entries s" "(k, q) \<in> set cps"
  shows "\<exists>f b. \<not> hasPrefix f ''.'' \<and> content s (bs @ [f]) = Some b \<and> decode b = Inr q \<and> isCheckpoint q"
proof -
  have pl: "bs \<noteq> []" "list_all plain_comp bs" using bs by (auto simp: plain_comp_def)
  obtain fi where fi: "ioutil_ReadDir s (slash # joinWith slash bs) = Inr fi" "cps = snd (loadCheckpoints decode (slash # joinWith slash bs) s fi [])"
    using g by (auto simp: getFileCheckpoints_def case_prod_beta split: sum.splits)
  have dir: "is_dir (fs_node s bs)" "set fi = set (children s bs)"
    using fi(1) fs_key_abs [OF pl, of s] by (auto simp: ioutil_ReadDir_def Let_def split: option.splits node.splits)
  obtain f b where f: "f \<in> set fi" "\<not> hasPrefix (path_Base (path_Join [slash # joinWith slash bs, f])) ''.''"
    "content s (fs_key s (path_Join [slash # joinWith slash bs, f])) = Some b" "decode b = Inr q" "isCheckpoint q"
    using loadCheckpoints_from [of k q decode "slash # joinWith slash bs" s fi "[]"] assms(4) fi(2) by auto
  have "fs_node s (bs @ [f]) \<noteq> None" using f(1) child_node dir(2) by blast
  from manifest_path [OF bs assms(3) this dir(1) f(2,3)] f(4,5) show ?thesis by blast
qed

lemma hidden_temp: "\<not> hasPrefix f ''.'' \<Longrightarrow> \<not> temp_name f"
  by (auto simp: temp_name_def hasPrefix_def split: list.splits)

text \<open>
  What the runs rely on. The codec does not rename pods: what a sanitized pod is encoded to is
  decoded, if at all, to a pod of the same name. And the host is proper to begin with: names of
  files are names, and the checkpoints in the two directories are of pods that have proper names.
  The decoder itself may accept any other pod.
\<close>

definition proper_codec :: "(pod \<Rightarrow> go_error + bytes) \<Rightarrow> (bytes \<Rightarrow> go_error + pod) \<Rightarrow> bool" where
  "proper_codec encode decode \<longleftrightarrow> (\<forall>p d q. valid_pod p \<and> encode (sanitizeCheckpointPod p) = Inr d \<and> decode d = Inr q \<longrightarrow>
     pod_Name q = pod_Name p \<and> pod_Namespace q = pod_Namespace p)"

definition proper_host :: "(bytes \<Rightarrow> go_error + pod) \<Rightarrow> fs \<Rightarrow> bool" where
  "proper_host decode s0 \<longleftrightarrow> names_ok s0 \<and>
     (\<forall>f d q. \<not> hasPrefix f ''.'' \<and> (content s0 (inactiveKey f) = Some d \<or> content s0 (activeKey f) = Some d) \<and>
        decode d = Inr q \<and> isCheckpoint q \<longrightarrow> valid_pod q)"

lemma proper_codec_names:
  "proper_codec encode decode \<Longrightarrow> valid_pod p \<Longrightarrow> encode (sanitizeCheckpointPod p) = Inr d \<Longrightarrow> decode d = Inr q \<Longrightarrow>
   pod_Name q = pod_Name p \<and> pod_Namespace q = pod_Namespace p"
  unfolding proper_codec_def by blast

lemma proper_host_checkpoint:
  "proper_host decode s0 \<Longrightarrow> \<not> hasPrefix f ''.'' \<Longrightarrow> content s0 (inactiveKey f) = Some d \<or> content s0 (activeKey f) = Some d \<Longrightarrow>
   decode d = Inr q \<Longrightarrow> isCheckpoint q \<Longrightarrow> valid_pod q"
  unfolding proper_host_def by blast

lemma proper_host_entries:
  assumes "proper_host decode s0"
  shows "proper_entries s0"
proof -
  have "fs_node s0 (inactiveKey f) = None" "fs_node s0 (activeKey f) = None" if "\<not> plain_comp f" for f
    using assms that unfolding proper_host_def names_ok_def by fastforce+
  then show ?thesis by (auto simp: proper_entries_def entry_keys_def)
qed

lemma manifest_valid:
  assumes ok: "proper_codec encode decode" "proper_host decode s0"
    and "whole_manifests encode s0 s" "\<not> hasPrefix f ''.''" "decode d = Inr q" "isCheckpoint q"
    and "content s (inactiveKey f) = Some d \<or> content s (activeKey f) = Some d"
  shows "valid_pod q"
proof -
  have "content s0 (activeKey f) = Some d \<or> origin encode s0 f d"
    using assms(3,7) hidden_temp [OF assms(4)] unfolding whole_manifests_def by blast
  then consider "content s0 (inactiveKey f) = Some d \<or> content s0 (activeKey f) = Some d"
    | p where "valid_pod p" "encode (sanitizeCheckpointPod p) = Inr d" by (auto simp: origin_def)
  then show ?thesis
  proof cases
    case 1
    then show ?thesis using proper_host_checkpoint [OF ok(2) assms(4) _ assms(5,6)] by blast
  next
    case 2
    with proper_codec_names [OF ok(1) 2 assms(5)] show ?thesis by (simp add: valid_pod_def)
  qed
qed

lemma loaded_valid:
  assumes ok: "proper_codec encode decode" "proper_host decode s0"
    and "getFileCheckpoints decode s path = (s', Inr cps)" "path = activeCheckpointPath \<or> path = inactiveCheckpointPath"
    and "whole_manifests encode s0 s" "proper_entries s"
  shows "list_all (\<lambda>(k, p). valid_pod p) cps"
proof -
  have "valid_pod q" if "(k, q) \<in> set cps" for k q
    using assms(4)
  proof
    assume "path = activeCheckpointPath"
    from loaded_pod [OF assms(3) [unfolded this checkpoint_dirs] _ assms(6) that] obtain f b
      where "\<not> hasPrefix f ''.''" "content s (activeKey f) = Some b" "decode b = Inr q" "isCheckpoint q" by auto
    with manifest_valid [OF ok assms(5)] show ?thesis by blast
  next
    assume "path = inactiveCheckpointPath"
    from loaded_pod [OF assms(3) [unfolded this checkpoint_dirs] _ assms(6) that] obtain f b
      where "\<not> hasPrefix f ''.''" "content s (inactiveKey f) = Some b" "decode b = Inr q" "isCheckpoint q" by auto
    with manifest_valid [OF ok assms(5)] show ?thesis by blast
  qed
  then show ?thesis by (auto simp: list_all_iff)
qed

section \<open>The invariant\<close>

primrec memory_of :: "process \<Rightarrow> checkpoints" where
  "memory_of (Down s) = noCheckpoints"
| "memory_of (Idle st) = l_checkpoints st"
| "memory_of (Busy st steps) = l_checkpoints st"

primrec steps_of :: "process \<Rightarrow> pollStep list" where
  "steps_of (Down s) = []"
| "steps_of (Idle st) = []"
| "steps_of (Busy st steps) = steps"

definition run_inv :: "(pod \<Rightarrow> go_error + bytes) \<Rightarrow> checkpointerPod \<Rightarrow> fs \<Rightarrow> process \<Rightarrow> bool" where
  "run_inv encode c s0 p \<longleftrightarrow> whole_manifests encode s0 (host p) \<and> proper_entries (host p) \<and>
     memory_ok c (memory_of p) \<and> list_all step_ok (steps_of p)"

lemma memory_ok_none: "memory_ok c noCheckpoints"
  using cps_inv_noCheckpoints [of c] by (simp add: memory_ok_def checkpointParentPods_def noCheckpoints_def)

lemma run_inv_shrink:
  "whole_manifests encode s0 s \<Longrightarrow> proper_entries s \<Longrightarrow> (\<And>k. fs_node s' k = fs_node s k \<or> fs_node s' k = None) \<Longrightarrow>
   run_inv encode c s0 (Down s')"
  using whole_shrink [of encode s0 s s'] proper_shrink [of s s'] by (simp add: run_inv_def memory_ok_none)

lemma loading_only: "loading decode s s' \<Longrightarrow> fs_node s' k = fs_node s k \<or> fs_node s' k = None"
proof -
  assume "loading decode s s'"
  then consider fi where "s' = fst (loadCheckpoints decode activeCheckpointPath s fi [])"
    | s1 active fi where "getFileCheckpoints decode s activeCheckpointPath = (s1, Inr active)"
      "s' = fst (loadCheckpoints decode inactiveCheckpointPath s1 fi [])"
    unfolding loading_def by blast
  then show ?thesis
  proof cases
    case 1
    then show ?thesis using loadCheckpoints_only [of decode activeCheckpointPath s fi "[]" k] by simp
  next
    case 2
    then show ?thesis
      using loadCheckpoints_only [of decode inactiveCheckpointPath s1 fi "[]" k] getFileCheckpoints_only [of decode s activeCheckpointPath k] by auto
  qed
qed

lemma MkdirAll_keeps:
  assumes "whole_manifests encode s0 s" "proper_entries s"
  shows "whole_manifests encode s0 (fst (os_MkdirAll s inactiveCheckpointPath 448))"
    "proper_entries (fst (os_MkdirAll s inactiveCheckpointPath 448))"
proof -
  let ?s' = "fst (os_MkdirAll s inactiveCheckpointPath 448)"
  show "whole_manifests encode s0 ?s'" using assms(1) os_MkdirAll_content [of s inactiveCheckpointPath 448] by (simp add: whole_manifests_def)
  have key: "fs_key s inactiveCheckpointPath = [''etc'', ''kubernetes'', ''inactive-manifests'']"
    unfolding checkpoint_dirs by (rule fs_key_abs) (simp_all add: plain_comp_def)
  have "fs_node ?s' k = fs_node s k" if "entry_keys k" for k
  proof -
    have "length k = 4" using that by (auto simp: entry_keys_def)
    then have "\<not> prefix k [''etc'', ''kubernetes'', ''inactive-manifests'']" by (auto dest: prefix_length_le)
    then show ?thesis using mkdirs_new [of 448 s "prefixes (fs_key s inactiveCheckpointPath)" k] by (auto simp: os_MkdirAll_def key in_set_prefixes)
  qed
  with assms(2) show "proper_entries ?s'" by (simp add: proper_entries_def)
qed

lemma runStart_inv:
  assumes "run_inv encode c s0 (Down s)"
  shows "runStart s = Inr st \<Longrightarrow> run_inv encode c s0 (Idle st)"
    and "runStart s = Inl (s', e) \<Longrightarrow> run_inv encode c s0 (Down s')"
  using MkdirAll_keeps [of encode s0 s] assms memory_ok_none [of c]
  by (auto simp: run_inv_def runStart_def split: prod.splits option.splits)

lemma planPoll_inv:
  assumes ok: "proper_codec encode decode" "proper_host decode s0" and c: "slash \<notin> set (PodNamespace c)"
    and inv: "run_inv encode c s0 (Idle st)"
  shows "planPoll decode gp c w st = Inl (s', e) \<Longrightarrow> run_inv encode c s0 (Down s')"
    and "world_ok c w \<Longrightarrow> planPoll decode gp c w st = Inr (st', steps) \<Longrightarrow> run_inv encode c s0 (Busy st' steps)"
proof -
  let ?lp = "localParentPods (w_kubelet w)" and ?lr = "localRunningPods (w_cri w)"
  have old: "whole_manifests encode s0 (l_fs st)" "proper_entries (l_fs st)" "memory_ok c (l_checkpoints st)"
    using inv by (simp_all add: run_inv_def)
  let ?s1 = "fst (getFileCheckpoints decode (l_fs st) activeCheckpointPath)"
  let ?s2 = "fst (getFileCheckpoints decode ?s1 inactiveCheckpointPath)"
  have s1: "whole_manifests encode s0 ?s1" "proper_entries ?s1"
    using whole_shrink [OF old(1) getFileCheckpoints_only] proper_shrink [OF old(2) getFileCheckpoints_only] by simp_all
  have s2: "whole_manifests encode s0 ?s2" "proper_entries ?s2"
    using whole_shrink [OF s1(1) getFileCheckpoints_only] proper_shrink [OF s1(2) getFileCheckpoints_only] by simp_all
  show "run_inv encode c s0 (Down s')" if "planPoll decode gp c w st = Inl (s', e)"
    using that s1 s2 memory_ok_none [of c] by (auto simp: run_inv_def planPoll_def Let_def split: prod.splits sum.splits)
  show "run_inv encode c s0 (Busy st' steps)" if w: "world_ok c w" and plan: "planPoll decode gp c w st = Inr (st', steps)"
  proof -
    obtain avail ap where api: "getAPIParentPods (w_listPods w) c (NodeName c) = (avail, ap)" by fastforce
    obtain t1 act t2 ina where l1: "getFileCheckpoints decode (l_fs st) activeCheckpointPath = (t1, Inr act)"
      and l2: "getFileCheckpoints decode t1 inactiveCheckpointPath = (t2, Inr ina)"
      using plan by (auto simp: planPoll_def api Let_def split: prod.splits sum.splits)
    then have t: "t1 = ?s1" "t2 = ?s2" by simp_all
    have s1: "whole_manifests encode s0 t1" "proper_entries t1" and s2: "whole_manifests encode s0 t2" "proper_entries t2"
      unfolding t using s1 s2 by blast+
    let ?cs = "update (l_checkpoints st) ?lr ?lp ap act ina c"
    let ?r = "process gp ?cs (w_processTime w) avail ?lr ?lp ap"
    have st': "l_fs st' = t2" "l_checkpoints st' = fst ?r"
      and steps: "set steps \<subseteq> {WriteCheckpoint needs p |needs p. p \<in> set (checkpointParentPods ?cs)} \<union> range StopOne \<union> range StartOne \<union> range RemoveOne"
      using plan by (auto simp: planPoll_def api l1 l2 Let_def case_prod_beta)
    have valid: "list_all (\<lambda>(k, p). valid_pod p) (?lp @ ap @ act @ ina)"
      using w api loaded_valid [OF ok l1 _ old(1,2)] loaded_valid [OF ok l2 _ s1] by (simp add: world_ok_def)
    have pm: "podMap_ok ?lp" "podMap_ok ap" "podMap_ok act" "podMap_ok ina"
      using valid localParentPods_ok getAPIParentPods_ok [OF api] getFileCheckpoints_podMap [OF l1] getFileCheckpoints_podMap [OF l2]
      by simp_all
    have mem: "memory_ok c ?cs" by (rule memory_ok_update [OF old(3) c pm valid])
    then have "step_ok x" if "x \<in> set steps" for x
      using subsetD [OF steps that] by (auto simp: list_all_iff step_ok_def memory_ok_def)
    then have "list_all step_ok steps" by (simp add: list_all_iff)
    with s2 memory_ok_process [OF mem] show ?thesis by (simp add: run_inv_def st')
  qed
qed

lemma on_host_inv:
  assumes "run_inv encode c s0 p"
  shows "run_inv encode c s0 (on_host (\<lambda>s. s\<lparr>faults := fl, torn := tn\<rparr>) p)"
proof -
  have "content (s\<lparr>faults := fl, torn := tn\<rparr>) k = content s k" "fs_node (s\<lparr>faults := fl, torn := tn\<rparr>) k = fs_node s k" for s :: fs and k
    by (simp_all add: content_def fs_node_def)
  with assms show ?thesis by (cases p) (simp_all add: run_inv_def whole_manifests_def proper_entries_def)
qed

lemma run_reach_inv:
  assumes ok: "proper_codec encode decode" "proper_host decode s0" and c: "slash \<notin> set (PodNamespace c)"
    and reach: "run_reach encode decode gp c s0 p"
  shows "run_inv encode c s0 p"
  using reach
proof (induction rule: run_reach.induct)
  case off
  have "whole_manifests encode s0 s0" by (simp add: whole_manifests_def origin_def)
  with proper_host_entries [OF ok(2)] memory_ok_none show ?case by (simp add: run_inv_def)
next
  case (step st x steps w)
  then show ?case using carryOut_whole [of encode s0 "l_fs st" c w x] carryOut_proper [of "l_fs st" c w x encode] by (simp add: run_inv_def)
next
  case (killed p)
  then show ?case by (simp add: run_inv_def memory_ok_none)
next
  case (killed_loading st s')
  then show ?case by (intro run_inv_shrink [of encode s0 "l_fs st"]) (simp_all add: run_inv_def loading_only)
next
  case (finished st)
  then show ?case by (simp add: run_inv_def)
qed (auto intro: runStart_inv planPoll_inv [OF ok c] on_host_inv)

section \<open>Properties\<close>

text \<open>
  C2: No manifest is ever torn. In every state the checkpointer can reach, over any number of
  polls, kills in the middle of a poll, fatal errors, restarts and changing failures of the file
  system, even failures in the middle of writing, each manifest in the inactive directory is one
  that was there at the start or the complete encoding of a sanitized pod, in the file of that
  pod, and each manifest in the directory of static pods is one that was there at the start or
  the same as such an inactive one. Only the temporary files of unfinished writes are apart from
  this. The checkpoints in memory are well-formed in each of these states.
\<close>

theorem reachable_manifests_are_whole:
  assumes "proper_codec encode decode" and "proper_host decode s0" and "slash \<notin> set (PodNamespace c)"
    and reach: "run_reach encode decode gp c s0 p"
  shows "whole_manifests encode s0 (host p) \<and> cps_inv c (memory_of p)"
  using run_reach_inv [OF assms] by (simp add: run_inv_def memory_ok_def)

text \<open>A node restarts without an API server, and the checkpointer is killed in the middle of its first poll.\<close>

lemma example_proper_codec: "proper_codec example_encode example_decode"
proof -
  have "example_decode (podFullName p) = Inr (example_named (pod_Namespace p) (pod_Name p))" if "valid_pod p" for p
    using valid_pod_slash [OF that] by (simp add: example_decode_def podFullName_def splitOn_append_sep splitOn_no_sep)
  then show ?thesis by (auto simp: proper_codec_def example_encode_def example_named_def emptyPod_def emptyMeta_def)
qed

lemma example_proper_host: "proper_host example_decode example_outage_host"
proof -
  let ?h = example_outage_host
  have m: "map_of (entries ?h) k \<noteq> None \<longleftrightarrow> k \<in> set (map fst (entries ?h))" for k by (simp add: map_of_eq_None_iff)
  have "list_all (list_all plain_comp) (map fst (entries ?h))" by code_simp
  then have names: "names_ok ?h" by (simp only: names_ok_def fs_node_def m list_all_iff [of "list_all plain_comp"]) blast
  have "content example_host k = None" for k by (simp add: example_host_def content_def fs_node_def new_dir_def)
  then have "content ?h k = (if k = inactiveKey ''n-p.json'' then Some ''n/p'' else None)" for k
    by (simp add: example_outage_host_def content_def fs_node_put)
  then have d: "d = ''n/p''" if "content ?h (inactiveKey f) = Some d \<or> content ?h (activeKey f) = Some d" for f d
    using that by (auto split: if_splits)
  have "example_decode ''n/p'' = Inr (example_named ''n'' ''p'')" "valid_pod (example_named ''n'' ''p'')" by code_simp+
  then have "valid_pod q" if "content ?h (inactiveKey f) = Some b \<or> content ?h (activeKey f) = Some b" "example_decode b = Inr q" for f b q
    using that(2) unfolding d [OF that(1)] by simp
  with names show ?thesis unfolding proper_host_def by blast
qed

theorem reachable_manifests_are_whole_witness:
  "\<exists>st x steps. run_reach example_encode example_decode 60 example_checkpointer example_outage_host (Busy st (x # steps)) \<and>
     StartOne ''n/p'' \<in> set steps \<and>
     whole_manifests example_encode example_outage_host (carryOut example_encode example_outage (l_fs st) x)"
proof -
  let ?h = example_outage_host
  let ?st0 = "\<lparr>l_fs = fst (os_MkdirAll ?h inactiveCheckpointPath 448), l_checkpoints = noCheckpoints, l_lastCheckpoint = None\<rparr>"
  have "snd (os_MkdirAll ?h inactiveCheckpointPath 448) = None" by code_simp
  then have "runStart ?h = Inr ?st0" by (auto simp: runStart_def split: prod.splits option.splits)
  with run_reach.off have idle: "run_reach example_encode example_decode 60 example_checkpointer ?h (Idle ?st0)" by (rule run_reach.boot)
  have "case planPoll example_decode 60 example_checkpointer example_outage ?st0 of Inl e \<Rightarrow> False
      | Inr (st, steps) \<Rightarrow> steps \<noteq> [] \<and> StartOne ''n/p'' \<in> set (tl steps)" by code_simp
  then obtain st x steps where plan: "planPoll example_decode 60 example_checkpointer example_outage ?st0 = Inr (st, x # steps)"
    and starts: "StartOne ''n/p'' \<in> set steps"
    by (auto split: sum.splits simp: neq_Nil_conv)
  have "list_all (\<lambda>(k, p). valid_pod p) (localParentPods (w_kubelet example_outage))"
    "list_all (\<lambda>(k, p). valid_pod p) (snd (getAPIParentPods (w_listPods example_outage) example_checkpointer (NodeName example_checkpointer)))"
    by code_simp+
  then have w: "world_ok example_checkpointer example_outage" by (simp add: world_ok_def example_outage_def valid_objects_def)
  have busy: "run_reach example_encode example_decode 60 example_checkpointer ?h (Busy st (x # steps))" by (rule run_reach.poll [OF idle w plan])
  note dead = run_reach.killed [OF run_reach.step [OF busy w]]
  have c: "slash \<notin> set (PodNamespace example_checkpointer)" by code_simp
  from reachable_manifests_are_whole [OF example_proper_codec example_proper_host c dead] busy starts show ?thesis
    by (intro exI [of _ st] exI [of _ x] exI [of _ steps]) simp
qed

end
