(* ===== verification/AssetPaths.thy ===== *)
theory AssetPaths
  imports Prelude
begin

text \<open>
  Where the assets of a cluster live below the asset directory: the constants of
  \<open>cmd/render/plugin/default/asset/asset.go\<close>, shared by the renderer and \<open>bootkube start\<close>.
\<close>

definition AssetPathSecrets :: string where "AssetPathSecrets = ''tls''"
definition AssetPathCAKey :: string where "AssetPathCAKey = ''tls/ca.key''"
definition AssetPathCACert :: string where "AssetPathCACert = ''tls/ca.crt''"
definition AssetPathAPIServerKey :: string where "AssetPathAPIServerKey = ''tls/apiserver.key''"
definition AssetPathAPIServerCert :: string where "AssetPathAPIServerCert = ''tls/apiserver.crt''"
definition AssetPathEtcdClientCA :: string where "AssetPathEtcdClientCA = ''tls/etcd-client-ca.crt''"
definition AssetPathEtcdClientCert :: string where "AssetPathEtcdClientCert = ''tls/etcd-client.crt''"
definition AssetPathEtcdClientKey :: string where "AssetPathEtcdClientKey = ''tls/etcd-client.key''"
definition AssetPathEtcdServerCA :: string where "AssetPathEtcdServerCA = ''tls/etcd/server-ca.crt''"
definition AssetPathEtcdServerCert :: string where "AssetPathEtcdServerCert = ''tls/etcd/server.crt''"
definition AssetPathEtcdServerKey :: string where "AssetPathEtcdServerKey = ''tls/etcd/server.key''"
definition AssetPathEtcdPeerCA :: string where "AssetPathEtcdPeerCA = ''tls/etcd/peer-ca.crt''"
definition AssetPathEtcdPeerCert :: string where "AssetPathEtcdPeerCert = ''tls/etcd/peer.crt''"
definition AssetPathEtcdPeerKey :: string where "AssetPathEtcdPeerKey = ''tls/etcd/peer.key''"
definition AssetPathAggregatorCA :: string where "AssetPathAggregatorCA = ''tls/front-proxy-ca.crt''"
definition AssetPathFrontProxyClientCert :: string where "AssetPathFrontProxyClientCert = ''tls/front-proxy-client.crt''"
definition AssetPathFrontProxyClientKey :: string where "AssetPathFrontProxyClientKey = ''tls/front-proxy-client.key''"
definition AssetPathServiceAccountPrivKey :: string where "AssetPathServiceAccountPrivKey = ''tls/service-account.key''"
definition AssetPathServiceAccountPubKey :: string where "AssetPathServiceAccountPubKey = ''tls/service-account.pub''"
definition AssetPathKubeletClientCert :: string where "AssetPathKubeletClientCert = ''tls/apiserver-kubelet-client.crt''"
definition AssetPathKubeletClientKey :: string where "AssetPathKubeletClientKey = ''tls/apiserver-kubelet-client.key''"
definition AssetPathAdminKey :: string where "AssetPathAdminKey = ''tls/admin.key''"
definition AssetPathAdminCert :: string where "AssetPathAdminCert = ''tls/admin.crt''"
definition AssetPathAdminKubeConfig :: string where "AssetPathAdminKubeConfig = ''auth/kubeconfig''"
definition AssetPathKubeletKubeConfig :: string where "AssetPathKubeletKubeConfig = ''auth/kubeconfig-kubelet''"
definition AssetPathManifests :: string where "AssetPathManifests = ''manifests''"
definition AssetPathKubeConfigInCluster :: string where "AssetPathKubeConfigInCluster = ''manifests/kubeconfig-in-cluster.yaml''"
definition AssetPathKubeletBootstrapToken :: string where "AssetPathKubeletBootstrapToken = ''manifests/kubelet-bootstrap-token.yaml''"
definition AssetPathProxy :: string where "AssetPathProxy = ''manifests/kube-proxy.yaml''"
definition AssetPathProxySA :: string where "AssetPathProxySA = ''manifests/kube-proxy-sa.yaml''"
definition AssetPathProxyRoleBinding :: string where "AssetPathProxyRoleBinding = ''manifests/kube-proxy-role-binding.yaml''"
definition AssetPathFlannel :: string where "AssetPathFlannel = ''manifests/flannel.yaml''"
definition AssetPathFlannelCfg :: string where "AssetPathFlannelCfg = ''manifests/flannel-cfg.yaml''"
definition AssetPathFlannelClusterRole :: string where "AssetPathFlannelClusterRole = ''manifests/flannel-cluster-role.yaml''"
definition AssetPathFlannelClusterRoleBinding :: string where "AssetPathFlannelClusterRoleBinding = ''manifests/flannel-cluster-role-binding.yaml''"
definition AssetPathFlannelSA :: string where "AssetPathFlannelSA = ''manifests/flannel-sa.yaml''"
definition AssetPathCalico :: string where "AssetPathCalico = ''manifests/calico.yaml''"
definition AssetPathCalicoPolicyOnly :: string where "AssetPathCalicoPolicyOnly = ''manifests/calico-policy-only.yaml''"
definition AssetPathCalicoCfg :: string where "AssetPathCalicoCfg = ''manifests/calico-config.yaml''"
definition AssetPathCalicoSA :: string where "AssetPathCalicoSA = ''manifests/calico-service-account.yaml''"
definition AssetPathCalicoRole :: string where "AssetPathCalicoRole = ''manifests/calico-role.yaml''"
definition AssetPathCalicoRoleBinding :: string where "AssetPathCalicoRoleBinding = ''manifests/calico-role-binding.yaml''"
definition AssetPathCalicoBGPConfigurationsCRD :: string where "AssetPathCalicoBGPConfigurationsCRD = ''manifests/calico-bgp-configurations-crd.yaml''"
definition AssetPathCalicoBGPPeersCRD :: string where "AssetPathCalicoBGPPeersCRD = ''manifests/calico-bgp-peers-crd.yaml''"
definition AssetPathCalicoFelixConfigurationsCRD :: string where "AssetPathCalicoFelixConfigurationsCRD = ''manifests/calico-felix-configurations-crd.yaml''"
definition AssetPathCalicoGlobalNetworkPoliciesCRD :: string where "AssetPathCalicoGlobalNetworkPoliciesCRD = ''manifests/calico-global-network-policies-crd.yaml''"
definition AssetPathCalicoNetworkPoliciesCRD :: string where "AssetPathCalicoNetworkPoliciesCRD = ''manifests/calico-network-policies-crd.yaml''"
definition AssetPathCalicoGlobalNetworkSetsCRD :: string where "AssetPathCalicoGlobalNetworkSetsCRD = ''manifests/calico-global-network-sets-crd.yaml''"
definition AssetPathCalicoIPPoolsCRD :: string where "AssetPathCalicoIPPoolsCRD = ''manifests/calico-ip-pools-crd.yaml''"
definition AssetPathCalicoClusterInformationsCRD :: string where "AssetPathCalicoClusterInformationsCRD = ''manifests/calico-cluster-informations-crd.yaml''"
definition AssetPathAPIServerSecret :: string where "AssetPathAPIServerSecret = ''manifests/kube-apiserver-secret.yaml''"
definition AssetPathAPIServer :: string where "AssetPathAPIServer = ''manifests/kube-apiserver.yaml''"
definition AssetPathControllerManager :: string where "AssetPathControllerManager = ''manifests/kube-controller-manager.yaml''"
definition AssetPathControllerManagerSA :: string where "AssetPathControllerManagerSA = ''manifests/kube-controller-manager-service-account.yaml''"
definition AssetPathControllerManagerRB :: string where "AssetPathControllerManagerRB = ''manifests/kube-controller-manager-role-binding.yaml''"
definition AssetPathControllerManagerSecret :: string where "AssetPathControllerManagerSecret = ''manifests/kube-controller-manager-secret.yaml''"
definition AssetPathControllerManagerDisruption :: string where "AssetPathControllerManagerDisruption = ''manifests/kube-controller-manager-disruption.yaml''"
definition AssetPathScheduler :: string where "AssetPathScheduler = ''manifests/kube-scheduler.yaml''"
definition AssetPathSchedulerDisruption :: string where "AssetPathSchedulerDisruption = ''manifests/kube-scheduler-disruption.yaml''"
definition AssetPathCoreDNSClusterRoleBinding :: string where "AssetPathCoreDNSClusterRoleBinding = ''manifests/coredns-cluster-role-binding.yaml''"
definition AssetPathCoreDNSClusterRole :: string where "AssetPathCoreDNSClusterRole = ''manifests/coredns-cluster-role.yaml''"
definition AssetPathCoreDNSConfig :: string where "AssetPathCoreDNSConfig = ''manifests/coredns-config.yaml''"
definition AssetPathCoreDNSDeployment :: string where "AssetPathCoreDNSDeployment = ''manifests/coredns-deployment.yaml''"
definition AssetPathCoreDNSSA :: string where "AssetPathCoreDNSSA = ''manifests/coredns-service-account.yaml''"
definition AssetPathCoreDNSSvc :: string where "AssetPathCoreDNSSvc = ''manifests/coredns-service.yaml''"
definition AssetPathSystemNamespace :: string where "AssetPathSystemNamespace = ''manifests/kube-system-ns.yaml''"
definition AssetPathCheckpointer :: string where "AssetPathCheckpointer = ''manifests/pod-checkpointer.yaml''"
definition AssetPathCheckpointerSA :: string where "AssetPathCheckpointerSA = ''manifests/pod-checkpointer-sa.yaml''"
definition AssetPathCheckpointerRole :: string where "AssetPathCheckpointerRole = ''manifests/pod-checkpointer-role.yaml''"
definition AssetPathCheckpointerRoleBinding :: string where "AssetPathCheckpointerRoleBinding = ''manifests/pod-checkpointer-role-binding.yaml''"
definition AssetPathCheckpointerClusterRole :: string where "AssetPathCheckpointerClusterRole = ''manifests/pod-checkpointer-cluster-role.yaml''"
definition AssetPathCheckpointerClusterRoleBinding :: string where "AssetPathCheckpointerClusterRoleBinding = ''manifests/pod-checkpointer-cluster-role-binding.yaml''"
definition AssetPathEtcdClientSecret :: string where "AssetPathEtcdClientSecret = ''manifests/etcd-client-tls.yaml''"
definition AssetPathEtcdPeerSecret :: string where "AssetPathEtcdPeerSecret = ''manifests/etcd-peer-tls.yaml''"
definition AssetPathEtcdServerSecret :: string where "AssetPathEtcdServerSecret = ''manifests/etcd-server-tls.yaml''"
definition AssetPathCSRBootstrapRoleBinding :: string where "AssetPathCSRBootstrapRoleBinding = ''manifests/csr-bootstrap-role-binding.yaml''"
definition AssetPathCSRApproverRoleBinding :: string where "AssetPathCSRApproverRoleBinding = ''manifests/csr-approver-role-binding.yaml''"
definition AssetPathCSRRenewalRoleBinding :: string where "AssetPathCSRRenewalRoleBinding = ''manifests/csr-renewal-role-binding.yaml''"
definition AssetPathKubeSystemSARoleBinding :: string where "AssetPathKubeSystemSARoleBinding = ''manifests/kube-system-rbac-role-binding.yaml''"
definition AssetPathBootstrapManifests :: string where "AssetPathBootstrapManifests = ''bootstrap-manifests''"
definition AssetPathBootstrapAPIServer :: string where "AssetPathBootstrapAPIServer = ''bootstrap-manifests/bootstrap-apiserver.yaml''"
definition AssetPathBootstrapControllerManager :: string where "AssetPathBootstrapControllerManager = ''bootstrap-manifests/bootstrap-controller-manager.yaml''"
definition AssetPathBootstrapScheduler :: string where "AssetPathBootstrapScheduler = ''bootstrap-manifests/bootstrap-scheduler.yaml''"

definition BootstrapSecretsDir :: string where "BootstrapSecretsDir = ''/etc/kubernetes/bootstrap-secrets''"

end
