(* ===== verification/Bootstrap.thy ===== *)
theory Bootstrap
  imports FileWriters AssetPaths
begin

text \<open>
  The temporary control plane of \<open>bootkube start\<close>: \<open>pkg/bootkube/bootstrap.go\<close>. Static
  manifests are copied to the kubelet's manifest directory and removed again, and secrets are
  made available in between.

  A copy reads its source as a whole: a read that fails delivers nothing. \<open>copyDirectory\<close>
  returns the variable its callback appends to next to the call of \<open>filepath.Walk\<close>; Go
  leaves open which is evaluated first, and the model takes the order of the Go compiler: the
  call comes first, so the list is the one after the walk.
\<close>


record bootstrapControlPlane =
  b_assetDir :: string
  b_podManifestPath :: string
  b_ownedManifests :: "string list"

definition NewBootstrapControlPlane :: "string \<Rightarrow> string \<Rightarrow> bootstrapControlPlane" where
  "NewBootstrapControlPlane assetDir podManifestPath =
     \<lparr>b_assetDir = assetDir, b_podManifestPath = podManifestPath, b_ownedManifests = []\<rparr>"

definition copyFile :: "fs \<Rightarrow> string \<Rightarrow> string \<Rightarrow> bool \<Rightarrow> fs \<times> go_error option" where
  "copyFile s src dst overwrite =
     (case os_OpenFile (\<not> overwrite) False 384 s dst of
        (s1, Some e) \<Rightarrow> (s1, Some e)
      | (s1, None) \<Rightarrow>
        (case ioutil_ReadFile s1 src of
           Inl e \<Rightarrow> (s1, Some e)
         | Inr data \<Rightarrow> file_Write s1 dst data))"

text \<open>The callback of the walk, over the items in the order they are visited.\<close>

fun copyItems :: "string \<Rightarrow> string \<Rightarrow> bool \<Rightarrow> fs \<Rightarrow> walk_item list \<Rightarrow> string list \<Rightarrow> fs \<times> string list \<times> go_error option" where
  "copyItems srcDir dstDir overwrite s [] copied = (s, copied, None)"
| "copyItems srcDir dstDir overwrite s (WErr e # items) copied = (s, copied, Some e)"
| "copyItems srcDir dstDir overwrite s (WDir src # items) copied =
     (let dst = path_Join [dstDir, trimPrefix src srcDir] in
      case os_Mkdir s dst 448 of
        (s1, Some e) \<Rightarrow> (if os_IsExist e then copyItems srcDir dstDir overwrite s1 items copied else (s1, copied, Some e))
      | (s1, None) \<Rightarrow> copyItems srcDir dstDir overwrite s1 items copied)"
| "copyItems srcDir dstDir overwrite s (WFile src d # items) copied =
     (let dst = path_Join [dstDir, trimPrefix src srcDir] in
      case copyFile s src dst overwrite of
        (s1, Some e) \<Rightarrow> (s1, copied, Some e)
      | (s1, None) \<Rightarrow> copyItems srcDir dstDir overwrite s1 items (copied @ [dst]))"

definition copyDirectory :: "fs \<Rightarrow> string \<Rightarrow> string \<Rightarrow> bool \<Rightarrow> fs \<times> string list \<times> go_error option" where
  "copyDirectory s srcDir dstDir overwrite = copyItems srcDir dstDir overwrite s (filepath_Walk s srcDir) []"

definition Start :: "bootstrapControlPlane \<Rightarrow> fs \<Rightarrow> bootstrapControlPlane \<times> fs \<times> go_error option" where
  "Start b s =
     (case os_RemoveAll s BootstrapSecretsDir of
        (s1, Some e) \<Rightarrow> (b, s1, Some e)
      | (s1, None) \<Rightarrow>
        (let secretsDir = path_Join [b_assetDir b, AssetPathSecrets] in
         case copyDirectory s1 secretsDir BootstrapSecretsDir True of
           (s2, _, Some e) \<Rightarrow> (b, s2, Some e)
         | (s2, _, None) \<Rightarrow>
           (case copyFile s2 (path_Join [b_assetDir b, AssetPathAdminKubeConfig])
                   (path_Join [BootstrapSecretsDir, ''kubeconfig'']) True of
              (s3, Some e) \<Rightarrow> (b, s3, Some e)
            | (s3, None) \<Rightarrow>
              (let manifestsDir = path_Join [b_assetDir b, AssetPathBootstrapManifests];
                   (s4, owned, err) = copyDirectory s3 manifestsDir (b_podManifestPath b) False
               in (b\<lparr>b_ownedManifests := owned\<rparr>, s4, err)))))"

fun removeOwned :: "fs \<Rightarrow> string list \<Rightarrow> fs \<times> go_error option" where
  "removeOwned s [] = (s, None)"
| "removeOwned s (m # ms) =
     (case os_Remove s m of
        (s1, Some e) \<Rightarrow> (if os_IsNotExist e then removeOwned s1 ms else (s1, Some e))
      | (s1, None) \<Rightarrow> removeOwned s1 ms)"

definition Teardown :: "bootstrapControlPlane \<Rightarrow> fs \<Rightarrow> bootstrapControlPlane \<times> fs \<times> go_error option" where
  "Teardown b s =
     (case os_RemoveAll s BootstrapSecretsDir of
        (s1, Some e) \<Rightarrow> (b, s1, Some e)
      | (s1, None) \<Rightarrow>
        (case removeOwned s1 (b_ownedManifests b) of
           (s2, Some e) \<Rightarrow> (b, s2, Some e)
         | (s2, None) \<Rightarrow> (b\<lparr>b_ownedManifests := []\<rparr>, s2, None)))"

section \<open>Single files and directories\<close>

definition item_dst :: "string \<Rightarrow> string \<Rightarrow> walk_item \<Rightarrow> string" where
  "item_dst srcDir dstDir item =
     (case item of WDir src \<Rightarrow> path_Join [dstDir, trimPrefix src srcDir]
      | WFile src _ \<Rightarrow> path_Join [dstDir, trimPrefix src srcDir] | WErr _ \<Rightarrow> dstDir)"

lemma copyFile_env: "same_env s (fst (copyFile s src dst ow))"
proof -
  obtain s1 r where o: "os_OpenFile (\<not> ow) False 384 s dst = (s1, r)" by fastforce
  have "same_env s s1" using os_OpenFile_env [of s "\<not> ow" False 384 dst] o by simp
  then show ?thesis
    using file_Write_env [of s1 dst] by (auto simp: copyFile_def o split: option.splits sum.splits intro: same_env_trans)
qed

lemma copyFile_frame:
  assumes k: "k \<noteq> fs_key s dst"
  shows "fs_node (fst (copyFile s src dst ow)) k = fs_node s k"
proof -
  obtain s1 r where o: "os_OpenFile (\<not> ow) False 384 s dst = (s1, r)" by fastforce
  have "fs_key s1 dst = fs_key s dst"
    using same_env_key [OF os_OpenFile_env [of s "\<not> ow" False 384 dst]] o by simp
  moreover have "fs_node s1 k = fs_node s k" using os_OpenFile_frame [OF k, of "\<not> ow" False 384] o by simp
  ultimately show ?thesis
    using k file_Write_frame [of k s1 dst] by (simp add: copyFile_def o split: option.splits sum.splits)
qed

lemma copyFile_excl:
  assumes "fs_node s (fs_key s dst) = Some n"
  shows "\<exists>e. copyFile s src dst False = (s, Some e)"
  using assms by (cases rule: os_OpenFile_excl [of False 384 s dst]) (auto simp: copyFile_def)

lemma copyFile_ok:
  assumes ok: "snd (copyFile s src dst ow) = None" and new: "fs_node s (fs_key s dst) = None"
    and src: "content s (fs_key s src) = Some d" "fs_key s src \<noteq> fs_key s dst"
  shows "\<exists>m. fs_node (fst (copyFile s src dst ow)) (fs_key s dst) = Some (NFile d m)"
proof -
  let ?s1 = "fs_put s (fs_key s dst) (new_file 384)"
  have "snd (os_OpenFile (\<not> ow) False 384 s dst) = None"
    using ok by (auto simp: copyFile_def split: prod.splits option.splits)
  then have o: "os_OpenFile (\<not> ow) False 384 s dst = (?s1, None)" using new by (rule os_OpenFile_new)
  from ok obtain data where r: "ioutil_ReadFile ?s1 src = Inr data" and w: "snd (file_Write ?s1 dst data) = None"
    by (auto simp: copyFile_def o split: sum.splits)
  have data: "data = d" using ioutil_ReadFile_Inr [OF r] src by simp
  have "fs_node ?s1 (fs_key ?s1 dst) = Some (NFile [] \<lparr>n_mode = 384, n_uid = 0, n_gid = 0\<rparr>)"
    by (simp add: new_file_def)
  from file_Write_ok [OF w this] data
  have "\<exists>m. fs_node (fst (file_Write ?s1 dst data)) (fs_key s dst) = Some (NFile d m)"
    by (simp add: overwrite_bytes_def)
  then show ?thesis by (simp only: copyFile_def o r prod.case option.case sum.case)
qed

text \<open>Without overwriting, a copy makes a new file or changes nothing.\<close>

lemma copyFile_excl_cases:
  obtains (made) d m where "fs_node s (fs_key s dst) = None"
      "fs_node (fst (copyFile s src dst False)) (fs_key s dst) = Some (NFile d m)"
  | (refused) e where "copyFile s src dst False = (s, Some e)"
proof (cases rule: os_OpenFile_excl [of False 384 s dst, case_names new old])
  case new
  let ?s1 = "fs_put s (fs_key s dst) (new_file 384)"
  have n: "fs_node ?s1 (fs_key ?s1 dst) = Some (NFile [] \<lparr>n_mode = 384, n_uid = 0, n_gid = 0\<rparr>)"
    by (simp add: new_file_def)
  show thesis
  proof (cases "ioutil_ReadFile ?s1 src")
    case (Inl e)
    then show thesis using new n by (intro made) (simp_all add: copyFile_def)
  next
    case (Inr data)
    obtain d' where "fs_node (fst (file_Write ?s1 dst data)) (fs_key s dst) = Some (NFile d' \<lparr>n_mode = 384, n_uid = 0, n_gid = 0\<rparr>)"
      using file_Write_file [OF n, of data] by auto
    then show thesis using new Inr by (intro made) (simp_all only: copyFile_def prod.case option.case sum.case not_False_eq_True)
  qed
next
  case (old e)
  then show thesis by (intro refused) (simp add: copyFile_def)
qed

lemma copyFile_new:
  "fs_node (fst (copyFile s src dst False)) k = fs_node s k \<or>
   k = fs_key s dst \<and> fs_node s k = None \<and> (\<exists>d m. fs_node (fst (copyFile s src dst False)) k = Some (NFile d m))"
  by (cases "k = fs_key s dst"; cases rule: copyFile_excl_cases [of s dst src])
    (auto simp: copyFile_frame)

lemma copyFile_excl_ok:
  "snd (copyFile s src dst False) = None \<Longrightarrow>
   fs_node s (fs_key s dst) = None \<and> (\<exists>d m. fs_node (fst (copyFile s src dst False)) (fs_key s dst) = Some (NFile d m))"
  by (cases rule: copyFile_excl_cases [of s dst src]) auto

section \<open>Copying a tree\<close>

lemma copyItems_env: "same_env s (fst (copyItems srcDir dstDir ow s items c))"
proof (induction items arbitrary: s c)
  case (Cons item items)
  show ?case
  proof (cases item)
    case (WDir src)
    let ?dst = "path_Join [dstDir, trimPrefix src srcDir]"
    have "same_env s (fst (copyItems srcDir dstDir ow (fs_put s (fs_key s ?dst) (new_dir 448)) items c))"
      by (rule same_env_trans [OF _ Cons.IH]) simp
    then show ?thesis
      using WDir Cons.IH [of s c] by (cases rule: os_Mkdir_cases [of s ?dst 448]) (simp_all add: Let_def)
  next
    case (WFile src d)
    obtain s1 r where cf: "copyFile s src (path_Join [dstDir, trimPrefix src srcDir]) ow = (s1, r)" by fastforce
    have "same_env s s1" using copyFile_env [of s src "path_Join [dstDir, trimPrefix src srcDir]" ow] cf by simp
    then show ?thesis using WFile cf Cons.IH by (auto simp: Let_def split: option.splits intro: same_env_trans)
  qed simp
qed simp

text \<open>Only the targets change.\<close>

lemma copyItems_frame:
  "(\<And>item. item \<in> set items \<Longrightarrow> k \<noteq> fs_key s (item_dst srcDir dstDir item)) \<Longrightarrow>
   fs_node (fst (copyItems srcDir dstDir ow s items c)) k = fs_node s k"
proof (induction items arbitrary: s c)
  case (Cons item items)
  note k = Cons.prems [of item, simplified]
  show ?case
  proof (cases item)
    case (WDir src)
    have IH: "fs_node (fst (copyItems srcDir dstDir ow s1 items c)) k = fs_node s1 k" if "same_env s s1" for s1
      using Cons.prems same_env_key [OF that] by (intro Cons.IH) simp
    show ?thesis
      using WDir k IH [of s] IH [of "fs_put s (fs_key s (item_dst srcDir dstDir item)) (new_dir 448)"]
      by (cases rule: os_Mkdir_cases [of s "path_Join [dstDir, trimPrefix src srcDir]" 448])
        (auto simp: Let_def item_dst_def)
  next
    case (WFile src d)
    obtain s1 r where cf: "copyFile s src (path_Join [dstDir, trimPrefix src srcDir]) ow = (s1, r)" by fastforce
    have same: "fs_node s1 k = fs_node s k"
      using copyFile_frame [of k s "path_Join [dstDir, trimPrefix src srcDir]" src ow] k WFile cf by (simp add: item_dst_def)
    have "same_env s s1" using copyFile_env [of s src "path_Join [dstDir, trimPrefix src srcDir]" ow] cf by simp
    then have "fs_node (fst (copyItems srcDir dstDir ow s1 items c')) k = fs_node s1 k" for c'
      using Cons.prems same_env_key by (intro Cons.IH) simp
    then show ?thesis using WFile cf same by (auto simp: Let_def split: option.splits)
  qed simp
qed simp

text \<open>
  What copying without overwriting may do to a file system: it keeps every node that was
  there; it adds the files \<open>F\<close>, perhaps one more file \<open>left\<close>, and directories.
\<close>

definition added :: "fs \<Rightarrow> fs \<Rightarrow> key set \<Rightarrow> key option \<Rightarrow> bool" where
  "added s s' F left \<longleftrightarrow> same_env s s' \<and>
     (\<forall>k. fs_node s k \<noteq> None \<longrightarrow> fs_node s' k = fs_node s k \<and> k \<notin> F) \<and>
     (\<forall>k \<in> F. \<exists>d m. fs_node s' k = Some (NFile d m)) \<and>
     (\<forall>k. fs_node s k = None \<longrightarrow> k \<notin> F \<longrightarrow> left \<noteq> Some k \<longrightarrow> fs_node s' k = None \<or> is_dir (fs_node s' k))"

lemma addedI:
  assumes "same_env s s'" "\<And>k. fs_node s k \<noteq> None \<Longrightarrow> fs_node s' k = fs_node s k" "\<And>k. k \<in> F \<Longrightarrow> fs_node s k = None"
    "\<And>k. k \<in> F \<Longrightarrow> \<exists>d m. fs_node s' k = Some (NFile d m)"
    "\<And>k. fs_node s k = None \<Longrightarrow> k \<notin> F \<Longrightarrow> left \<noteq> Some k \<Longrightarrow> fs_node s' k = None \<or> is_dir (fs_node s' k)"
  shows "added s s' F left"
  using assms by (auto simp: added_def)

lemma addedD:
  assumes "added s s' F left"
  shows "same_env s s'" and "fs_node s k \<noteq> None \<Longrightarrow> fs_node s' k = fs_node s k" and "k \<in> F \<Longrightarrow> fs_node s k = None"
    and "k \<in> F \<Longrightarrow> \<exists>d m. fs_node s' k = Some (NFile d m)"
    and "fs_node s k = None \<Longrightarrow> k \<notin> F \<Longrightarrow> left \<noteq> Some k \<Longrightarrow> fs_node s' k = None \<or> is_dir (fs_node s' k)"
  using assms by (auto simp: added_def)

lemma added_refl [simp]: "added s s {} left"
  by (simp add: added_def)

lemma added_trans:
  assumes 1: "added s s1 F None" and 2: "added s1 s2 G left"
  shows "added s s2 (F \<union> G) left"
proof (rule addedI)
  show "same_env s s2" using addedD(1) [OF 1] addedD(1) [OF 2] by (rule same_env_trans)
  fix k
  show "fs_node s2 k = fs_node s k" if "fs_node s k \<noteq> None"
    using addedD(2) [OF 1 that] addedD(2) [OF 2, of k] that by simp
  show "fs_node s k = None" if "k \<in> F \<union> G"
  proof (cases "k \<in> F")
    case False
    then have "fs_node s1 k = None" using that addedD(3) [OF 2, of k] by simp
    then show ?thesis using addedD(2) [OF 1, of k] by fastforce
  qed (rule addedD(3) [OF 1])
  show "\<exists>d m. fs_node s2 k = Some (NFile d m)" if "k \<in> F \<union> G"
    using that addedD(4) [OF 1, of k] addedD(2) [OF 2, of k] addedD(4) [OF 2, of k] by auto
  show "fs_node s2 k = None \<or> is_dir (fs_node s2 k)" if "fs_node s k = None" "k \<notin> F \<union> G" "left \<noteq> Some k"
    using that addedD(5) [OF 1, of k] addedD(2) [OF 2, of k] addedD(5) [OF 2, of k] by (cases "fs_node s1 k") auto
qed

lemma added_Mkdir: "added s (fst (os_Mkdir s p mode)) {} None"
  by (cases rule: os_Mkdir_cases [of s p mode]) (auto simp: added_def new_dir_def)

lemma added_copyFile_ok:
  assumes "snd (copyFile s src dst False) = None"
  shows "added s (fst (copyFile s src dst False)) {fs_key s dst} None"
proof (rule addedI)
  fix k
  note new = copyFile_excl_ok [OF assms]
  show "fs_node (fst (copyFile s src dst False)) k = fs_node s k" if "fs_node s k \<noteq> None"
    using that copyFile_new [of s src dst k] by auto
  show "fs_node s k = None" "\<exists>d m. fs_node (fst (copyFile s src dst False)) k = Some (NFile d m)" if "k \<in> {fs_key s dst}"
    using that new by auto
  show "fs_node (fst (copyFile s src dst False)) k = None \<or> is_dir (fs_node (fst (copyFile s src dst False)) k)"
    if "fs_node s k = None" "k \<notin> {fs_key s dst}"
    using that by (simp add: copyFile_frame)
qed (rule copyFile_env)

lemma added_copyFile: "added s (fst (copyFile s src dst False)) {} (Some (fs_key s dst))"
proof (rule addedI)
  fix k
  show "fs_node (fst (copyFile s src dst False)) k = fs_node s k" if "fs_node s k \<noteq> None"
    using that copyFile_new [of s src dst k] by auto
  show "fs_node (fst (copyFile s src dst False)) k = None \<or> is_dir (fs_node (fst (copyFile s src dst False)) k)"
    if "fs_node s k = None" "Some (fs_key s dst) \<noteq> Some k"
    using that by (simp add: copyFile_frame)
qed (simp_all add: copyFile_env)

lemma copyItems_excl:
  "\<exists>new left. fst (snd (copyItems srcDir dstDir False s items c)) = c @ new \<and>
     (snd (snd (copyItems srcDir dstDir False s items c)) = None \<longrightarrow> left = None) \<and>
     added s (fst (copyItems srcDir dstDir False s items c)) (fs_key s ` set new) left"
proof (induction items arbitrary: s c)
  case Nil
  show ?case by (intro exI [of _ "[]"] exI [of _ None]) simp
next
  case (Cons item items)
  show ?case
  proof (cases item)
    case (WErr e)
    then show ?thesis by (intro exI [of _ "[]"] exI [of _ None]) simp
  next
    case (WDir src)
    let ?dst = "path_Join [dstDir, trimPrefix src srcDir]"
    obtain s1 r where mk: "os_Mkdir s ?dst 448 = (s1, r)" by fastforce
    have add: "added s s1 {} None" using added_Mkdir [of s ?dst 448] mk by simp
    then have key: "fs_key s1 = fs_key s" using same_env_key [OF addedD(1)] by blast
    from Cons.IH [of s1 c, unfolded key] obtain new left where IH:
      "fst (snd (copyItems srcDir dstDir False s1 items c)) = c @ new"
      "snd (snd (copyItems srcDir dstDir False s1 items c)) = None \<longrightarrow> left = None"
      "added s1 (fst (copyItems srcDir dstDir False s1 items c)) (fs_key s ` set new) left"
      by (elim exE conjE) (rule that)
    show ?thesis
    proof (cases "case r of None \<Rightarrow> True | Some e \<Rightarrow> os_IsExist e")
      case True
      then have "copyItems srcDir dstDir False s (item # items) c = copyItems srcDir dstDir False s1 items c"
        using WDir mk by (auto simp: Let_def split: option.splits)
      then show ?thesis using IH(1,2) added_trans [OF add IH(3)] by (intro exI [of _ new] exI [of _ left]) simp
    next
      case False
      then have "copyItems srcDir dstDir False s (item # items) c = (s1, c, r)" "r \<noteq> None"
        using WDir mk by (auto simp: Let_def split: option.splits)
      then show ?thesis using add by (intro exI [of _ "[]"] exI [of _ None]) simp
    qed
  next
    case (WFile src d)
    let ?dst = "path_Join [dstDir, trimPrefix src srcDir]"
    obtain s1 r where cf: "copyFile s src ?dst False = (s1, r)" by fastforce
    show ?thesis
    proof (cases r)
      case (Some e)
      then show ?thesis
        using WFile cf added_copyFile [of s src ?dst]
        by (intro exI [of _ "[]"] exI [of _ "Some (fs_key s ?dst)"]) (simp add: Let_def)
    next
      case None
      have add: "added s s1 {fs_key s ?dst} None" using added_copyFile_ok [of s src ?dst] cf None by simp
      then have key: "fs_key s1 = fs_key s" using same_env_key [OF addedD(1)] by blast
      from Cons.IH [of s1 "c @ [?dst]", unfolded key] obtain new left where IH:
        "fst (snd (copyItems srcDir dstDir False s1 items (c @ [?dst]))) = (c @ [?dst]) @ new"
        "snd (snd (copyItems srcDir dstDir False s1 items (c @ [?dst]))) = None \<longrightarrow> left = None"
        "added s1 (fst (copyItems srcDir dstDir False s1 items (c @ [?dst]))) (fs_key s ` set new) left"
        by (elim exE conjE) (rule that)
      have step: "copyItems srcDir dstDir False s (item # items) c = copyItems srcDir dstDir False s1 items (c @ [?dst])"
        using WFile cf None by (simp add: Let_def)
      show ?thesis unfolding step
        using IH(1,2) added_trans [OF add IH(3)] by (intro exI [of _ "?dst # new"] exI [of _ left]) simp
    qed
  qed
qed

section \<open>Where the items of a walk are copied to\<close>

lemma fs_key_Join_rooted:
  assumes "d \<noteq> ''''" "rel \<noteq> []" "list_all plain_comp rel"
  shows "fs_key s (path_Join [d, slash # joinWith slash rel]) = fs_key s d @ rel"
  using assms by (simp add: path_Join_def fs_key_append_slash splitOn_slash_plain foldl_clean_plain)

lemma walk_path_abs:
  assumes "ds \<noteq> []" "list_all plain_comp ds" "list_all plain_comp rel"
  shows "walk_path (slash # joinWith slash ds) ds (ds @ rel) = slash # joinWith slash (ds @ rel)"
  using assms by (simp add: walk_path_def path_Join_plain)

lemma walk_dst_key:
  assumes "ds \<noteq> []" "list_all plain_comp ds" "list_all plain_comp rel" "d \<noteq> ''''"
  shows "fs_key s (path_Join [d, trimPrefix (walk_path (slash # joinWith slash ds) ds (ds @ rel)) (slash # joinWith slash ds)])
       = fs_key s d @ rel"
proof (cases "rel = []")
  case True
  then show ?thesis
    using assms trimPrefix_append [of "slash # joinWith slash ds" "[]"]
    by (simp add: walk_path_def path_Join_def fs_key_append_slash)
next
  case False
  then have "slash # joinWith slash (ds @ rel) = (slash # joinWith slash ds) @ slash # joinWith slash rel"
    using assms by (simp add: joinWith_append)
  then have "trimPrefix (slash # joinWith slash (ds @ rel)) (slash # joinWith slash ds) = slash # joinWith slash rel"
    by (simp only: trimPrefix_append)
  then show ?thesis using assms False by (simp add: walk_path_abs fs_key_Join_rooted)
qed

lemma walk_keys_iff: "k' \<in> set (walk_keys s k) \<longleftrightarrow> prefix k k' \<and> fs_node s k' \<noteq> None"
  by (auto simp: walk_keys_def fs_node_def map_of_eq_None_iff)

text \<open>Every directory and file that is visited comes from a node below the root.\<close>

lemma walk_item_key:
  assumes "item \<in> set (filepath_Walk s root)" "\<And>e. item \<noteq> WErr e"
  obtains rel where "fs_node s (fs_key s root @ rel) \<noteq> None"
    "item = WDir (walk_path root (fs_key s root) (fs_key s root @ rel)) \<or>
     (\<exists>d m. fs_node s (fs_key s root @ rel) = Some (NFile d m) \<and> item = WFile (walk_path root (fs_key s root) (fs_key s root @ rel)) d)"
proof -
  from assms obtain k' where k': "k' \<in> set (walk_keys s (fs_key s root))" "item \<in> set (walk_item_of s root (fs_key s root) k')"
    by (auto simp: filepath_Walk_def Let_def split: sum.splits)
  then obtain rel where "k' = fs_key s root @ rel" "fs_node s k' \<noteq> None" by (auto simp: walk_keys_iff prefix_def)
  with k'(2) assms(2) show thesis
    by (intro that [of rel]) (auto simp: walk_item_of_def split: option.splits node.splits)
qed

lemma walk_file_item:
  assumes "fs_node s (fs_key s root @ rel) = Some (NFile d m)" "\<And>e. os_Stat s root \<noteq> Inl e"
  shows "WFile (walk_path root (fs_key s root) (fs_key s root @ rel)) d \<in> set (filepath_Walk s root)"
proof -
  have "fs_key s root @ rel \<in> set (walk_keys s (fs_key s root))" using assms(1) by (simp add: walk_keys_iff)
  with assms show ?thesis
    by (auto simp: filepath_Walk_def Let_def walk_item_of_def split: sum.splits intro!: bexI [of _ "fs_key s root @ rel"])
qed

lemma copyDirectory_frame:
  assumes src: "srcDir = slash # joinWith slash ds" "ds \<noteq> []" "list_all plain_comp ds" and "names_ok s" "dstDir \<noteq> ''''"
    and k: "\<not> prefix (fs_key s dstDir) k"
  shows "fs_node (fst (copyDirectory s srcDir dstDir ow)) k = fs_node s k"
  unfolding copyDirectory_def
proof (rule copyItems_frame)
  fix item assume item: "item \<in> set (filepath_Walk s srcDir)"
  have ds: "fs_key s srcDir = ds" using src by (simp add: fs_key_abs)
  have "prefix (fs_key s dstDir) (fs_key s (item_dst srcDir dstDir item))"
  proof (cases "\<exists>e. item = WErr e")
    case False
    with item obtain rel where rel: "fs_node s (ds @ rel) \<noteq> None"
      "item = WDir (walk_path srcDir ds (ds @ rel)) \<or> (\<exists>d m. item = WFile (walk_path srcDir ds (ds @ rel)) d)"
      by (elim walk_item_key) (auto simp: ds)
    then have "list_all plain_comp (ds @ rel)" using \<open>names_ok s\<close> unfolding names_ok_def by blast
    then have "list_all plain_comp rel" by simp
    from walk_dst_key [OF src(2,3) this \<open>dstDir \<noteq> ''''\<close>] rel(2) show ?thesis
      unfolding src(1) by (auto simp: item_dst_def)
  qed (auto simp: item_dst_def)
  with k show "k \<noteq> fs_key s (item_dst srcDir dstDir item)" by auto
qed

section \<open>Start\<close>

text \<open>The directory the bootstrap secrets live in.\<close>

definition secrets_key :: key where
  "secrets_key = [''etc'', ''kubernetes'', ''bootstrap-secrets'']"

lemma secrets_dir: "fs_key s BootstrapSecretsDir = secrets_key" "BootstrapSecretsDir \<noteq> ''''"
  by (simp_all add: fs_key_def BootstrapSecretsDir_def secrets_key_def clean_step_def)

lemma asset_subdir:
  assumes "as \<noteq> []" "list_all plain_comp as" "plain_comp n"
  shows "path_Join [slash # joinWith slash as, n] = slash # joinWith slash (as @ [n])"
  using assms path_Join_plain [of as "[n]"] by simp

text \<open>Preparing the secrets touches nothing outside their directory.\<close>

definition secrets_ready :: "fs \<Rightarrow> fs \<Rightarrow> bool" where
  "secrets_ready s s' \<longleftrightarrow> same_env s s' \<and> (\<forall>k. \<not> prefix secrets_key k \<longrightarrow> fs_node s' k = fs_node s k)"

lemma secrets_ready_refl [simp]: "secrets_ready s s"
  by (simp add: secrets_ready_def)

lemma secrets_ready_trans: "secrets_ready s t \<Longrightarrow> secrets_ready t u \<Longrightarrow> secrets_ready s u"
  by (auto simp: secrets_ready_def intro: same_env_trans)

lemma RemoveAll_secrets: "secrets_ready s (fst (os_RemoveAll s BootstrapSecretsDir))"
proof (cases "fs_fault s OpRemove secrets_key")
  case None
  then show ?thesis
    using fs_node_RemoveAll [of s BootstrapSecretsDir] os_RemoveAll_env [of s BootstrapSecretsDir]
    by (simp add: secrets_ready_def secrets_dir) (simp add: secrets_key_def)
qed (simp add: os_RemoveAll_def secrets_dir Let_def)

lemma copyDirectory_secrets:
  assumes "srcDir = slash # joinWith slash ds" "ds \<noteq> []" "list_all plain_comp ds" "names_ok s"
  shows "secrets_ready s (fst (copyDirectory s srcDir BootstrapSecretsDir ow))"
  using copyDirectory_frame [OF assms, of BootstrapSecretsDir] copyItems_env [of s srcDir BootstrapSecretsDir ow "filepath_Walk s srcDir" "[]"]
  by (simp add: secrets_ready_def secrets_dir copyDirectory_def)

lemma kubeconfig_secrets: "secrets_ready s (fst (copyFile s src (path_Join [BootstrapSecretsDir, ''kubeconfig'']) ow))"
proof -
  have "fs_key s (path_Join [BootstrapSecretsDir, ''kubeconfig'']) = secrets_key @ [''kubeconfig'']"
    using fs_key_Join2 [of BootstrapSecretsDir "''kubeconfig''" s] by (simp add: secrets_dir plain_comp_def)
  then have "fs_node (fst (copyFile s src (path_Join [BootstrapSecretsDir, ''kubeconfig'']) ow)) k = fs_node s k"
    if "\<not> prefix secrets_key k" for k
    using that by (intro copyFile_frame) auto
  then show ?thesis by (simp add: secrets_ready_def copyFile_env)
qed

lemma names_ok_filter:
  "names_ok s \<Longrightarrow> (\<And>k. fs_node s' k \<noteq> None \<Longrightarrow> fs_node s k \<noteq> None) \<Longrightarrow> names_ok s'"
  by (auto simp: names_ok_def)

lemma names_ok_RemoveAll: "names_ok s \<Longrightarrow> names_ok (fst (os_RemoveAll s p))"
  by (erule names_ok_filter) (auto simp: os_RemoveAll_def fs_node_def Let_def map_of_filter_key split: option.splits if_splits)

text \<open>
  \<open>Start\<close> in two phases: it prepares the secrets, and when that succeeds it copies the
  manifests.
\<close>

lemma Start_phases:
  assumes dir: "b_assetDir b = slash # joinWith slash as" "as \<noteq> []" "list_all plain_comp as" and names: "names_ok s"
  obtains (unprepared) s' e where "Start b s = (b, s', Some e)" "secrets_ready s s'"
  | (prepared) s' s'' owned err where "secrets_ready s s'"
      "copyDirectory s' (slash # joinWith slash (as @ [AssetPathBootstrapManifests])) (b_podManifestPath b) False = (s'', owned, err)"
      "Start b s = (b\<lparr>b_ownedManifests := owned\<rparr>, s'', err)"
proof -
  let ?sec = "path_Join [b_assetDir b, AssetPathSecrets]"
  have pl: "plain_comp ''tls''" "plain_comp ''bootstrap-manifests''" by (simp_all add: plain_comp_def)
  have sec: "?sec = slash # joinWith slash (as @ [''tls''])"
    using asset_subdir [OF dir(2,3) pl(1)] by (simp add: dir AssetPathSecrets_def)
  have man: "path_Join [b_assetDir b, AssetPathBootstrapManifests] = slash # joinWith slash (as @ [AssetPathBootstrapManifests])"
    using asset_subdir [OF dir(2,3) pl(2)] by (simp add: dir AssetPathBootstrapManifests_def)
  obtain s1 r1 where 1: "os_RemoveAll s BootstrapSecretsDir = (s1, r1)" by fastforce
  have ready1: "secrets_ready s s1" using RemoveAll_secrets [of s] 1 by simp
  have names1: "names_ok s1" using names_ok_RemoveAll [OF names, of BootstrapSecretsDir] 1 by simp
  obtain s2 c r2 where 2: "copyDirectory s1 ?sec BootstrapSecretsDir True = (s2, c, r2)" by (metis prod_cases3)
  have "secrets_ready s1 s2"
    using copyDirectory_secrets [OF sec _ _ names1, of True] 2 dir pl by simp
  then have ready2: "secrets_ready s s2" using ready1 secrets_ready_trans by blast
  obtain s3 r3 where 3: "copyFile s2 (path_Join [b_assetDir b, AssetPathAdminKubeConfig]) (path_Join [BootstrapSecretsDir, ''kubeconfig'']) True = (s3, r3)"
    by fastforce
  have "secrets_ready s2 s3"
    using kubeconfig_secrets [of s2 "path_Join [b_assetDir b, AssetPathAdminKubeConfig]" True] 3 by simp
  then have ready3: "secrets_ready s s3" using ready2 secrets_ready_trans by blast
  obtain s4 owned err where 4: "copyDirectory s3 (path_Join [b_assetDir b, AssetPathBootstrapManifests]) (b_podManifestPath b) False = (s4, owned, err)"
    by (metis prod_cases3)
  show thesis
  proof (cases "r1 = None \<and> r2 = None \<and> r3 = None")
    case True
    then have "Start b s = (b\<lparr>b_ownedManifests := owned\<rparr>, s4, err)" by (simp add: Start_def 1 2 3 4 Let_def)
    with prepared [OF ready3 _ this] 4 man show thesis by simp
  next
    case False
    then obtain s' e where "Start b s = (b, s', Some e)" "s' \<in> {s1, s2, s3}"
      by (cases r1; cases r2; cases r3) (simp_all add: Start_def 1 2 3 Let_def)
    then show thesis using unprepared ready1 ready2 ready3 by blast
  qed
qed

text \<open>Nothing is lost outside the secrets, and what is new there is owned, but for one file of a failed start.\<close>

lemma Start_effect:
  assumes dir: "assetDir = slash # joinWith slash as" "as \<noteq> []" "list_all plain_comp as" and names: "names_ok s"
    and st: "Start (NewBootstrapControlPlane assetDir pod) s = (b', s', r)"
  obtains s0 left where "secrets_ready s s0" "added s0 s' (fs_key s ` set (b_ownedManifests b')) left" "r = None \<Longrightarrow> left = None"
proof (cases rule: Start_phases [of "NewBootstrapControlPlane assetDir pod" as s, case_names dir ne pl names un prep])
  case (un t e)
  then have "b_ownedManifests b' = []" "secrets_ready s s'" using st by (auto simp: NewBootstrapControlPlane_def)
  then show thesis by (intro that [of s' None]) simp_all
next
  case (prep t t' owned err)
  then obtain new left where "owned = [] @ new" "err = None \<longrightarrow> left = None" "added t t' (fs_key t ` set new) left"
    using copyItems_excl [of "slash # joinWith slash (as @ [AssetPathBootstrapManifests])" pod t "filepath_Walk t (slash # joinWith slash (as @ [AssetPathBootstrapManifests]))" "[]"]
    by (auto simp: copyDirectory_def NewBootstrapControlPlane_def)
  moreover have "fs_key t = fs_key s" using same_env_key prep(1) by (auto simp: secrets_ready_def)
  ultimately show thesis using prep st by (intro that [of t left]) simp_all
qed (use dir names in \<open>simp_all add: NewBootstrapControlPlane_def\<close>)

section \<open>Teardown\<close>

lemma os_Remove_gone:
  assumes "fs_fault s OpRemove (fs_key s m) = None" "\<not> is_dir (fs_node s (fs_key s m))"
  shows "\<exists>s1 r. os_Remove s m = (s1, r) \<and> (\<forall>e. r = Some e \<longrightarrow> os_IsNotExist e) \<and> same_env s s1 \<and>
     (\<forall>k. fs_node s1 k = (if k = fs_key s m then None else fs_node s k))"
  using assms by (auto simp: os_Remove_def Let_def split: option.splits node.splits)

lemma removeOwned_removes:
  assumes "\<And>k. fs_fault s OpRemove k = None" "\<And>m. m \<in> set ms \<Longrightarrow> \<not> is_dir (fs_node s (fs_key s m))"
  shows "snd (removeOwned s ms) = None \<and>
     (\<forall>k. fs_node (fst (removeOwned s ms)) k = (if k \<in> fs_key s ` set ms then None else fs_node s k))"
  using assms
proof (induction ms arbitrary: s)
  case (Cons m ms)
  then obtain s1 r where rm: "os_Remove s m = (s1, r)" "\<And>e. r = Some e \<Longrightarrow> os_IsNotExist e" "same_env s s1"
    "\<And>k. fs_node s1 k = (if k = fs_key s m then None else fs_node s k)"
    using os_Remove_gone [of s m] by auto
  then have key: "fs_key s1 = fs_key s" using same_env_key by blast
  have step: "removeOwned s (m # ms) = removeOwned s1 ms" using rm(1,2) by (simp split: option.splits)
  have "snd (removeOwned s1 ms) = None \<and>
     (\<forall>k. fs_node (fst (removeOwned s1 ms)) k = (if k \<in> fs_key s1 ` set ms then None else fs_node s1 k))"
    using Cons.prems same_env_fault [OF rm(3)] rm(4) by (intro Cons.IH) (simp_all add: key)
  then show ?case unfolding step using rm(4) by (simp add: key)
qed simp

lemma removeOwned_subset: "set (entries (fst (removeOwned s ms))) \<subseteq> set (entries s)"
proof (induction ms arbitrary: s)
  case (Cons m ms)
  have "set (entries (fst (os_Remove s m))) \<subseteq> set (entries s)"
    by (auto simp: os_Remove_def Let_def fs_del_def AList.delete_eq split: option.splits node.splits)
  moreover obtain s1 r where "os_Remove s m = (s1, r)" by fastforce
  ultimately show ?case using Cons.IH [of s1] by (auto split: option.splits)
qed simp

lemma removeOwned_env: "same_env s (fst (removeOwned s ms))"
proof (induction ms arbitrary: s)
  case (Cons m ms)
  obtain s1 r where rm: "os_Remove s m = (s1, r)" by fastforce
  have "same_env s s1" using os_Remove_env [of s m] rm by simp
  moreover have "same_env s (fst (removeOwned s1 ms))" by (rule same_env_trans [OF calculation Cons.IH])
  ultimately show ?case using rm by (simp split: option.splits)
qed simp

section \<open>Properties\<close>

lemma copyItems_copied:
  assumes "snd (snd (copyItems srcDir dstDir False s items c)) = None"
    and "\<And>src d. WFile src d \<in> set items \<Longrightarrow> content s (fs_key s src) = Some d" and "WFile src d \<in> set items"
  shows "content (fst (copyItems srcDir dstDir False s items c)) (fs_key s (path_Join [dstDir, trimPrefix src srcDir])) = Some d \<and>
    path_Join [dstDir, trimPrefix src srcDir] \<in> set (fst (snd (copyItems srcDir dstDir False s items c)))"
  using assms
proof (induction items arbitrary: s c)
  case (Cons item items)
  show ?case
  proof (cases item)
    case (WDir src1)
    let ?dst = "path_Join [dstDir, trimPrefix src1 srcDir]"
    obtain s1 r where mk: "os_Mkdir s ?dst 448 = (s1, r)" by fastforce
    have add: "added s s1 {} None" using added_Mkdir [of s ?dst 448] mk by simp
    have key: "fs_key s1 = fs_key s" using same_env_key [OF addedD(1) [OF add]] by blast
    have step: "copyItems srcDir dstDir False s (item # items) c = copyItems srcDir dstDir False s1 items c"
      using Cons.prems(1) WDir mk by (auto simp: Let_def split: option.splits if_splits)
    have "content s1 (fs_key s1 src') = Some d'" if "WFile src' d' \<in> set items" for src' d'
      using Cons.prems(2) [of src' d'] that addedD(2) [OF add, of "fs_key s src'"]
      by (auto simp: key content_def split: option.splits)
    then show ?thesis using Cons.IH [of s1 c] Cons.prems WDir unfolding step by (simp add: key)
  next
    case (WFile src1 d1)
    let ?dst = "path_Join [dstDir, trimPrefix src1 srcDir]"
    obtain s1 where cf: "copyFile s src1 ?dst False = (s1, None)"
      using Cons.prems(1) WFile by (cases "copyFile s src1 ?dst False") (auto simp: Let_def split: option.splits)
    have add: "added s s1 {fs_key s ?dst} None" using added_copyFile_ok [of s src1 ?dst] cf by simp
    have key: "fs_key s1 = fs_key s" using same_env_key [OF addedD(1) [OF add]] by blast
    have step: "copyItems srcDir dstDir False s (item # items) c = copyItems srcDir dstDir False s1 items (c @ [?dst])"
      using WFile cf by (simp add: Let_def)
    have kept: "content s1 k = Some x" if "content s k = Some x" for k x
      using that addedD(2) [OF add, of k] by (auto simp: content_def split: option.splits)
    have later: ?thesis if "WFile src d \<in> set items"
      unfolding step using Cons.IH [of s1 "c @ [?dst]"] Cons.prems that kept by (auto simp: key step)
    show ?thesis
    proof (cases "src = src1 \<and> d = d1")
      case False
      then have "WFile src d \<in> set items" using Cons.prems(3) WFile by auto
      then show ?thesis by (rule later)
    next
      case True
      have new: "fs_node s (fs_key s ?dst) = None" using addedD(3) [OF add, of "fs_key s ?dst"] by simp
      have "content s (fs_key s src1) = Some d1" using Cons.prems(2) [of src1 d1] WFile by simp
      moreover from this new have "fs_key s src1 \<noteq> fs_key s ?dst" by (auto simp: content_def)
      ultimately have "content s1 (fs_key s ?dst) = Some d1"
        using copyFile_ok [of s src1 ?dst False d1] cf new by (auto simp: content_def)
      moreover obtain new' left where rest: "fst (snd (copyItems srcDir dstDir False s1 items (c @ [?dst]))) = (c @ [?dst]) @ new'"
        "added s1 (fst (copyItems srcDir dstDir False s1 items (c @ [?dst]))) (fs_key s1 ` set new') left"
        using copyItems_excl [of srcDir dstDir s1 items "c @ [?dst]"] by (elim exE conjE)
      ultimately show ?thesis
        unfolding step using True addedD(2) [OF rest(2), of "fs_key s ?dst"] by (auto simp: content_def split: option.splits)
    qed
  qed (use Cons.prems in simp)
qed simp

lemma Start_Teardown:
  assumes dir: "assetDir = slash # joinWith slash as" "as \<noteq> []" "list_all plain_comp as" and names: "names_ok s"
    and rm: "\<And>k. faults s OpRemove k = None"
    and st: "Start (NewBootstrapControlPlane assetDir pod) s = (b1, s1, r1)"
    and td: "Teardown b1 s1 = (b2, s2, r2)"
  shows "r2 = None \<and> b_ownedManifests b2 = [] \<and>
     (\<forall>k. \<not> prefix secrets_key k \<longrightarrow> fs_node s k \<noteq> None \<longrightarrow> fs_node s2 k = fs_node s k) \<and>
     (\<forall>k. prefix secrets_key k \<longrightarrow> fs_node s2 k = None) \<and>
     (\<exists>left. (r1 = None \<longrightarrow> left = None) \<and>
        (\<forall>k. fs_node s k = None \<longrightarrow> fs_node s2 k = None \<or> is_dir (fs_node s2 k) \<or> left = Some k))"
proof -
  from Start_effect [OF dir names st] obtain s0 left
    where s0: "secrets_ready s s0" and add: "added s0 s1 (fs_key s ` set (b_ownedManifests b1)) left" and l: "r1 = None \<longrightarrow> left = None"
    by blast
  have env: "same_env s s1" using s0 addedD(1) [OF add] same_env_trans by (auto simp: secrets_ready_def)
  have nofault: "fs_fault s1 OpRemove k = None" for k
    using rm same_env_fault [OF env] by (simp add: fs_fault_def)
  obtain t where ra: "os_RemoveAll s1 BootstrapSecretsDir = (t, None)"
    using nofault by (simp add: os_RemoveAll_def secrets_dir Let_def) (simp add: secrets_key_def)
  have t: "fs_node t k = (if prefix secrets_key k then None else fs_node s1 k)" for k
    using fs_node_RemoveAll [of s1 BootstrapSecretsDir k] nofault ra by (simp add: secrets_dir) (simp add: secrets_key_def)
  have env_t: "same_env s t" using same_env_trans [OF env] os_RemoveAll_env [of s1 BootstrapSecretsDir] ra by simp
  then have key: "fs_key t = fs_key s" using same_env_key by blast
  have owned: "\<not> is_dir (fs_node t (fs_key t m))" if "m \<in> set (b_ownedManifests b1)" for m
    using addedD(4) [OF add, of "fs_key s m"] that by (auto simp: t key)
  have "fs_fault t OpRemove k = None" for k using rm same_env_fault [OF env_t] by (simp add: fs_fault_def)
  then obtain s2' where ro: "removeOwned t (b_ownedManifests b1) = (s2', None)"
    and s2': "\<And>k. fs_node s2' k = (if k \<in> fs_key s ` set (b_ownedManifests b1) then None else fs_node t k)"
    using removeOwned_removes [of t "b_ownedManifests b1", OF _ owned]
    by (cases "removeOwned t (b_ownedManifests b1)") (auto simp: key)
  have res: "r2 = None" "b_ownedManifests b2 = []" "s2 = s2'" using td by (auto simp: Teardown_def ra ro)
  have "fs_node s2 k = fs_node s k" if "\<not> prefix secrets_key k" "fs_node s k \<noteq> None" for k
  proof -
    have k0: "fs_node s0 k = fs_node s k" using s0 that by (simp add: secrets_ready_def)
    then have "k \<notin> fs_key s ` set (b_ownedManifests b1)" using addedD(3) [OF add, of k] that by auto
    then show ?thesis using addedD(2) [OF add, of k] k0 that by (simp add: res s2' t)
  qed
  moreover have "fs_node s2 k = None \<or> is_dir (fs_node s2 k) \<or> left = Some k" if "fs_node s k = None" for k
    using addedD(5) [OF add, of k] that s0 by (auto simp: res s2' t secrets_ready_def)
  moreover have "fs_node s2 k = None" if "prefix secrets_key k" for k using that by (simp add: res s2' t)
  ultimately show ?thesis using l res(1,2) by (intro conjI allI impI exI [of _ left]) simp_all
qed

text \<open>
  Starting the bootstrap control plane and tearing it down again, whether the start
  succeeded or failed at any point, keeps every file and directory that existed outside the
  secrets directory exactly as it was, removes the secrets directory, and leaves nothing new
  behind but directories and, after a failed start only, at most the one file whose copy
  failed. Removals are assumed to be permitted.
\<close>

theorem start_then_teardown_restores:
  assumes dir: "assetDir = slash # joinWith slash as" "as \<noteq> []" "list_all plain_comp as" and names: "names_ok s"
    and rm: "\<And>k. faults s OpRemove k = None"
    and st: "Start (NewBootstrapControlPlane assetDir pod) s = (b1, s1, r1)"
    and td: "Teardown b1 s1 = (b2, s2, r2)"
  shows "r2 = None \<and> b_ownedManifests b2 = [] \<and>
     (\<forall>k. \<not> prefix secrets_key k \<longrightarrow> fs_node s k \<noteq> None \<longrightarrow> fs_node s2 k = fs_node s k) \<and>
     (\<forall>k. prefix secrets_key k \<longrightarrow> fs_node s2 k = None) \<and>
     (\<exists>left. (r1 = None \<longrightarrow> left = None) \<and>
        (\<forall>k. fs_node s k = None \<longrightarrow> fs_node s2 k = None \<or> is_dir (fs_node s2 k) \<or> left = Some k))"
  using assms by (rule Start_Teardown)

text \<open>A host with assets to start from.\<close>

lemma names_okI: "list_all (\<lambda>(k, _). list_all plain_comp k) (entries s) \<Longrightarrow> names_ok s"
  by (force simp: names_ok_def fs_node_def list_all_iff dest: map_of_SomeD)

definition asset_host :: fs where
  "asset_host = \<lparr>entries = [([], new_dir 493), ([''a''], new_dir 493),
      ([''a'', ''tls''], new_dir 493), ([''a'', ''tls'', ''ca.crt''], NFile ''cert'' \<lparr>n_mode = 384, n_uid = 0, n_gid = 0\<rparr>),
      ([''a'', ''auth''], new_dir 493), ([''a'', ''auth'', ''kubeconfig''], NFile ''conf'' \<lparr>n_mode = 384, n_uid = 0, n_gid = 0\<rparr>),
      ([''a'', ''bootstrap-manifests''], new_dir 493),
      ([''a'', ''bootstrap-manifests'', ''api.yaml''], NFile ''pod'' \<lparr>n_mode = 384, n_uid = 0, n_gid = 0\<rparr>),
      ([''etc''], new_dir 493), ([''etc'', ''kubernetes''], new_dir 493), ([''m''], new_dir 493)],
    cwd = [], faults = (\<lambda>_ _. None), torn = (\<lambda>_. 0)\<rparr>"

definition asset_started :: "bootstrapControlPlane \<times> fs \<times> go_error option" where
  "asset_started = Start (NewBootstrapControlPlane ''/a'' ''/m'') asset_host"

lemma asset_host_ok: "names_ok asset_host" "faults asset_host opr k = None"
  by (rule names_okI) (simp_all add: asset_host_def plain_comp_def)

lemma asset_started_ok: "asset_started = (fst asset_started, fst (snd asset_started), None)"
proof -
  have "snd (snd asset_started) = None" by code_simp
  then show ?thesis by (metis prod.collapse)
qed

theorem start_then_teardown_restores_witness:
  "let (b1, s1, r1) = asset_started; (b2, s2, r2) = Teardown b1 s1 in
     r1 = None \<and> r2 = None \<and> content asset_host [''a'', ''auth'', ''kubeconfig''] = Some ''conf'' \<and>
     fs_node s2 [''a'', ''auth'', ''kubeconfig''] = fs_node asset_host [''a'', ''auth'', ''kubeconfig'']"
proof -
  obtain b2 s2 r2 where td: "Teardown (fst asset_started) (fst (snd asset_started)) = (b2, s2, r2)" by (metis prod_cases3)
  have "Start (NewBootstrapControlPlane ''/a'' ''/m'') asset_host = (fst asset_started, fst (snd asset_started), None)"
    using asset_started_ok by (simp add: asset_started_def)
  from start_then_teardown_restores [OF _ _ _ asset_host_ok this td, of "[''a'']"]
  have "r2 = None" "fs_node s2 [''a'', ''auth'', ''kubeconfig''] = fs_node asset_host [''a'', ''auth'', ''kubeconfig'']"
    by (simp_all add: plain_comp_def secrets_key_def asset_host_def fs_node_def)
  moreover have "content asset_host [''a'', ''auth'', ''kubeconfig''] = Some ''conf''"
    by (simp add: asset_host_def content_def fs_node_def)
  ultimately show ?thesis using td asset_started_ok by (simp split: prod.splits) (metis prod.collapse prod.inject)
qed

text \<open>
  \<open>Teardown\<close> is idempotent: after a call that succeeded a second call succeeds too and
  changes neither the file system nor the control plane's bookkeeping.
\<close>

lemma teardown_idempotent:
  assumes td: "Teardown b s = (b', s', None)"
  shows "Teardown b' s' = (b', s', None)"
proof -
  from td obtain t where ra: "os_RemoveAll s BootstrapSecretsDir = (t, None)"
    and ro: "removeOwned t (b_ownedManifests b) = (s', None)" and b': "b' = b\<lparr>b_ownedManifests := []\<rparr>"
    by (auto simp: Teardown_def split: prod.splits option.splits)
  have t: "t = s\<lparr>entries := filter (\<lambda>(k', _). \<not> prefix secrets_key k') (entries s)\<rparr>" "fs_fault s OpRemove secrets_key = None"
    using ra by (auto simp: os_RemoveAll_def secrets_dir Let_def split: option.splits if_splits)
  have "set (entries s') \<subseteq> set (entries t)" using removeOwned_subset [of t "b_ownedManifests b"] ro by simp
  then have "filter (\<lambda>(k', _). \<not> prefix secrets_key k') (entries s') = entries s'"
    by (intro filter_True) (auto simp: t)
  moreover have "same_env s s'"
    using same_env_trans [OF os_RemoveAll_env [of s BootstrapSecretsDir]] removeOwned_env [of t "b_ownedManifests b"] ra ro by simp
  ultimately have "os_RemoveAll s' BootstrapSecretsDir = (s', None)"
    using t(2) same_env_fault [of s s'] by (simp add: os_RemoveAll_def secrets_dir Let_def) (simp add: secrets_key_def)
  then show ?thesis by (simp add: Teardown_def b')
qed

lemma teardown_idempotent_witness:
  "let (b, s, r) = Teardown (fst asset_started) (fst (snd asset_started)) in
     r = None \<and> content s [''a'', ''auth'', ''kubeconfig''] = Some ''conf'' \<and> Teardown b s = (b, s, None)"
proof -
  have "snd (snd (Teardown (fst asset_started) (fst (snd asset_started)))) = None \<and>
    content (fst (snd (Teardown (fst asset_started) (fst (snd asset_started))))) [''a'', ''auth'', ''kubeconfig''] = Some ''conf''"
    by code_simp
  then obtain b s where td: "Teardown (fst asset_started) (fst (snd asset_started)) = (b, s, None)"
    and c: "content s [''a'', ''auth'', ''kubeconfig''] = Some ''conf''"
    by (cases "Teardown (fst asset_started) (fst (snd asset_started))") auto
  from teardown_idempotent [OF td] show ?thesis by (simp add: td c)
qed

text \<open>The manifests after a start.\<close>

lemma start_manifests:
  assumes dir: "assetDir = slash # joinWith slash as" "as \<noteq> []" "list_all plain_comp as" and names: "names_ok s"
    and pod: "pod \<noteq> ''''" and outside: "\<not> prefix secrets_key as" "\<not> prefix as secrets_key"
    and f: "content s (as @ AssetPathBootstrapManifests # rel) = Some d"
    and st: "Start (NewBootstrapControlPlane assetDir pod) s = (b', s', None)"
  shows "content s' (fs_key s pod @ rel) = Some d \<and> (\<exists>p \<in> set (b_ownedManifests b'). fs_key s p = fs_key s pod @ rel)"
proof (cases rule: Start_phases [of "NewBootstrapControlPlane assetDir pod" as s, case_names dir ne pl names un prep])
  case (prep t t' owned err)
  let ?ds = "as @ [AssetPathBootstrapManifests]"
  let ?src = "slash # joinWith slash ?ds"
  have ds: "?ds \<noteq> []" "list_all plain_comp ?ds" using dir by (simp_all add: AssetPathBootstrapManifests_def plain_comp_def)
  have rk: "fs_key t ?src = ?ds" using ds by (rule fs_key_abs)
  have key: "fs_key t = fs_key s" using same_env_key prep(1) by (auto simp: secrets_ready_def)
  from f obtain m where m: "fs_node s (?ds @ rel) = Some (NFile d m)"
    by (auto simp: content_def split: option.splits node.splits)
  then have rel: "list_all plain_comp rel" using names by (auto simp: names_ok_def)
  have same: "fs_node t (?ds @ r) = fs_node s (?ds @ r)" for r
    using prep(1) prefix_same_cases [of secrets_key "?ds @ r" as] outside by (auto simp: secrets_ready_def)
  have items: "content t (fs_key t src) = Some d'" if "WFile src d' \<in> set (filepath_Walk t ?src)" for src d'
    using that
  proof (rule walk_item_key, goal_cases)
    case (2 r)
    then obtain m' where r: "fs_node s (?ds @ r) = Some (NFile d' m')" "src = walk_path ?src ?ds (?ds @ r)"
      unfolding rk same by auto
    then have "list_all plain_comp r" using names by (auto simp: names_ok_def)
    then have "fs_key t src = ?ds @ r"
      unfolding r(2) walk_path_abs [OF ds \<open>list_all plain_comp r\<close>] using ds by (intro fs_key_abs) simp_all
    then show ?case using r(1) same [of r] by (simp add: content_def)
  qed simp
  have ok: "snd (snd (copyItems ?src pod False t (filepath_Walk t ?src) [])) = None"
    using prep(2,3) st by (simp add: copyDirectory_def NewBootstrapControlPlane_def)
  have "os_Stat t ?src \<noteq> Inl e" for e
    using ok by (auto simp: filepath_Walk_def)
  then have "WFile (walk_path ?src ?ds (?ds @ rel)) d \<in> set (filepath_Walk t ?src)"
    using walk_file_item [of t ?src rel d m] m same [of rel] unfolding rk by simp
  from copyItems_copied [OF ok items this]
  have "content t' (fs_key t (path_Join [pod, trimPrefix (walk_path ?src ?ds (?ds @ rel)) ?src])) = Some d \<and>
    path_Join [pod, trimPrefix (walk_path ?src ?ds (?ds @ rel)) ?src] \<in> set owned"
    using prep(2) by (simp add: copyDirectory_def NewBootstrapControlPlane_def)
  then show ?thesis
    using walk_dst_key [OF ds rel pod, of s] prep(3) st unfolding key by auto
next
  case (un t e)
  then show ?thesis using st by simp
qed (use dir names in \<open>simp_all add: NewBootstrapControlPlane_def\<close>)

text \<open>
  C21: After a start that succeeded, every file of the bootstrap manifests (at any depth)
  is in the kubelet's manifest directory under the same relative name, with its content, and
  \<open>Teardown\<close> will remove it because its path is among the owned manifests. The asset
  directory does not lie inside the secrets directory.
\<close>

theorem start_copies_manifests:
  assumes dir: "assetDir = slash # joinWith slash as" "as \<noteq> []" "list_all plain_comp as" and names: "names_ok s"
    and pod: "pod \<noteq> ''''" and outside: "\<not> prefix secrets_key as" "\<not> prefix as secrets_key"
    and f: "content s (as @ AssetPathBootstrapManifests # rel) = Some d"
    and st: "Start (NewBootstrapControlPlane assetDir pod) s = (b', s', None)"
  shows "content s' (fs_key s pod @ rel) = Some d \<and> (\<exists>p \<in> set (b_ownedManifests b'). fs_key s p = fs_key s pod @ rel)"
  using assms by (rule start_manifests)

theorem start_copies_manifests_witness:
  "content asset_host [''a'', ''bootstrap-manifests'', ''api.yaml''] = Some ''pod'' \<and> snd (snd asset_started) = None \<and>
   content (fst (snd asset_started)) [''m'', ''api.yaml''] = Some ''pod''"
proof -
  have st: "Start (NewBootstrapControlPlane ''/a'' ''/m'') asset_host = (fst asset_started, fst (snd asset_started), None)"
    using asset_started_ok by (simp add: asset_started_def)
  have f: "content asset_host ([''a''] @ AssetPathBootstrapManifests # [''api.yaml'']) = Some ''pod''"
    by (simp add: asset_host_def content_def fs_node_def AssetPathBootstrapManifests_def)
  have m: "fs_key asset_host ''/m'' = [''m'']" by (simp add: fs_key_def clean_step_def)
  have "content (fst (snd asset_started)) ([''m''] @ [''api.yaml'']) = Some ''pod''"
    using start_copies_manifests [OF _ _ _ asset_host_ok(1) _ _ _ f st, unfolded m] by (simp add: plain_comp_def secrets_key_def)
  with f asset_started_ok show ?thesis
    by (simp add: AssetPathBootstrapManifests_def) (metis prod.collapse prod.inject)
qed

end
