(* ===== verification/ManifestLoad.thy ===== *)
theory ManifestLoad
  imports FileSystem
begin

text \<open>
  Reading the manifests a cluster is created from: \<open>loadManifests\<close>, \<open>parseManifests\<close> and
  \<open>parseJSONManifest\<close> of \<open>pkg/bootkube/create.go\<close>, with the document reader of the
  Kubernetes \<open>yaml\<close> package they loop over. Converting one YAML document to JSON and decoding
  the fields of a JSON object are parameters (\<open>ToJSON\<close>, \<open>Unmarshal\<close>). White space is the
  ASCII white space. A file is read as a whole; a file that cannot be read counts as one that
  cannot be opened.
\<close>

record manifest =
  m_kind :: string
  m_apiVersion :: string
  m_namespace :: string
  m_name :: string
  m_raw :: bytes
  m_filepath :: string

definition manifest_String :: "manifest \<Rightarrow> string" where
  "manifest_String m =
     (if m_namespace m = '''' then m_filepath m @ '' '' @ m_kind m @ '' '' @ m_name m
      else m_filepath m @ '' '' @ m_kind m @ '' '' @ m_namespace m @ ''/'' @ m_name m)"

text \<open>The fields \<open>parseJSONManifest\<close> decodes.\<close>

record json_meta =
  j_APIVersion :: string
  j_Kind :: string
  j_Name :: string
  j_Namespace :: string

section \<open>Documents\<close>

abbreviation newline :: char where "newline \<equiv> CHR 0x0A"
abbreviation carriage :: char where "carriage \<equiv> CHR 0x0D"

definition isSpace :: "char \<Rightarrow> bool" where
  "isSpace c \<longleftrightarrow> c \<in> {CHR '' '', CHR 0x09, CHR 0x0A, CHR 0x0B, CHR 0x0C, CHR 0x0D}"

definition bytes_TrimSpace :: "bytes \<Rightarrow> bytes" where
  "bytes_TrimSpace b = rev (dropWhile isSpace (rev (dropWhile isSpace b)))"

text \<open>The lines of a file, without their ends; a line end may be preceded by a carriage return.\<close>

definition dropCR :: "string \<Rightarrow> string" where
  "dropCR l = (if l \<noteq> [] \<and> last l = carriage then butlast l else l)"

definition file_lines :: "bytes \<Rightarrow> string list" where
  "file_lines b =
     (let ps = splitOn newline b
      in map dropCR (butlast ps) @ (if last ps = [] then [] else [last ps]))"

definition is_separator :: "string \<Rightarrow> bool" where
  "is_separator line \<longleftrightarrow> hasPrefix line ''---'' \<and> list_all isSpace (drop 3 line)"

text \<open>
  \<open>YAMLReader.Read\<close>: the lines up to a separator line, \<open>None\<close> at the end of the file. A
  separator that no line precedes is part of the document.
\<close>

fun yaml_Read :: "bytes \<Rightarrow> string list \<Rightarrow> bytes option \<times> string list" where
  "yaml_Read buffer [] = (if buffer = [] then None else Some buffer, [])"
| "yaml_Read buffer (l # ls) =
     (let line = l @ [newline] in
      if is_separator line \<and> buffer \<noteq> [] then (Some buffer, ls)
      else yaml_Read (buffer @ line) ls)"

lemma yaml_Read_le: "length (snd (yaml_Read buffer ls)) \<le> length ls"
proof (induction ls arbitrary: buffer)
  case (Cons l ls)
  then show ?case using Cons [of "buffer @ l @ [newline]"] by (simp add: Let_def le_SucI)
qed simp

lemma yaml_Read_shrinks: "(Some d, ls') = yaml_Read [] ls \<Longrightarrow> length ls' < length ls"
  using yaml_Read_le [of "hd ls @ [newline]" "tl ls"] by (cases ls) (auto simp: Let_def dest: sym)

section \<open>Parsing\<close>

definition parseJSONManifest :: "(bytes \<Rightarrow> go_error + json_meta) \<Rightarrow> bytes \<Rightarrow> go_error + manifest" where
  "parseJSONManifest Unmarshal data =
     (case Unmarshal data of
        Inl e \<Rightarrow> Inl (Errorf ''parse manifest'' e)
      | Inr m \<Rightarrow> Inr \<lparr>m_kind = j_Kind m, m_apiVersion = j_APIVersion m, m_namespace = j_Namespace m,
                      m_name = j_Name m, m_raw = data, m_filepath = ''''\<rparr>)"

function parseDocuments ::
  "(bytes \<Rightarrow> go_error + bytes) \<Rightarrow> (bytes \<Rightarrow> go_error + json_meta) \<Rightarrow> string list \<Rightarrow> manifest list \<Rightarrow> go_error + manifest list" where
  "parseDocuments ToJSON Unmarshal ls manifests =
     (case yaml_Read [] ls of
        (None, _) \<Rightarrow> (if manifests = [] then Inl (Err ''no resources found'') else Inr manifests)
      | (Some doc, ls') \<Rightarrow>
          (let yamlManifest = bytes_TrimSpace doc in
           if yamlManifest = [] then parseDocuments ToJSON Unmarshal ls' manifests
           else (case ToJSON yamlManifest of
                   Inl e \<Rightarrow> Inl (Errorf ''invalid manifest'' e)
                 | Inr jsonManifest \<Rightarrow>
                     (case parseJSONManifest Unmarshal jsonManifest of
                        Inl e \<Rightarrow> Inl (Errorf ''parse manifest'' e)
                      | Inr m \<Rightarrow> parseDocuments ToJSON Unmarshal ls' (manifests @ [m])))))"
  by pat_completeness auto
termination
  by (relation "measure (\<lambda>(_, _, ls, _). length ls)") (auto dest: yaml_Read_shrinks)

declare parseDocuments.simps [simp del]

definition parseManifests ::
  "(bytes \<Rightarrow> go_error + bytes) \<Rightarrow> (bytes \<Rightarrow> go_error + json_meta) \<Rightarrow> bytes \<Rightarrow> go_error + manifest list" where
  "parseManifests ToJSON Unmarshal r = parseDocuments ToJSON Unmarshal (file_lines r) []"

section \<open>Loading a directory\<close>

text \<open>
  The callback of the walk. It tests the name of the walk's root, whichever directory it is
  called for, so it skips at the root or never; skipping the root ends the walk.
\<close>

fun loadItems ::
  "(bytes \<Rightarrow> go_error + bytes) \<Rightarrow> (bytes \<Rightarrow> go_error + json_meta) \<Rightarrow> fs \<Rightarrow> string \<Rightarrow> walk_item list \<Rightarrow> manifest list \<Rightarrow> go_error + manifest list" where
  "loadItems ToJSON Unmarshal s p [] manifests = Inr manifests"
| "loadItems ToJSON Unmarshal s p (WErr e # items) manifests = Inl e"
| "loadItems ToJSON Unmarshal s p (WDir path # items) manifests =
     (let b = path_Base p in
      if b \<noteq> p \<and> hasPrefix b ''.'' then Inr manifests
      else loadItems ToJSON Unmarshal s p items manifests)"
| "loadItems ToJSON Unmarshal s p (WFile path d # items) manifests =
     (case ioutil_ReadFile s path of
        Inl e \<Rightarrow> Inl (Errorf (''open '' @ path) e)
      | Inr f \<Rightarrow>
          (case parseManifests ToJSON Unmarshal f of
             Inl e \<Rightarrow> Inl (Errorf (''parse file '' @ path) e)
           | Inr ms \<Rightarrow> loadItems ToJSON Unmarshal s p items (manifests @ map (\<lambda>m. m\<lparr>m_filepath := path\<rparr>) ms)))"

definition loadManifests ::
  "(bytes \<Rightarrow> go_error + bytes) \<Rightarrow> (bytes \<Rightarrow> go_error + json_meta) \<Rightarrow> fs \<Rightarrow> string \<Rightarrow> go_error + manifest list" where
  "loadManifests ToJSON Unmarshal s p = loadItems ToJSON Unmarshal s p (filepath_Walk s p) []"

section \<open>Documents written with separators are read back\<close>

text \<open>A line that survives a round trip through a file and is not a separator.\<close>

definition content_line :: "string \<Rightarrow> bool" where
  "content_line l \<longleftrightarrow> newline \<notin> set l \<and> dropCR l = l \<and> \<not> is_separator (l @ [newline])"

definition unlines :: "string list \<Rightarrow> bytes" where
  "unlines ls = concat (map (\<lambda>l. l @ [newline]) ls)"

lemma unlines_simps [simp]:
  "unlines [] = []" "unlines (l # ls) = l @ newline # unlines ls" "unlines (xs @ ys) = unlines xs @ unlines ys"
  by (simp_all add: unlines_def)

lemma unlines_Nil_iff [simp]: "unlines ls = [] \<longleftrightarrow> ls = []"
  by (cases ls) simp_all

definition docs_lines :: "string list list \<Rightarrow> string list" where
  "docs_lines docs = (case docs of [] \<Rightarrow> [] | d # ds \<Rightarrow> d @ concat (map (\<lambda>d. ''---'' # d) ds))"

lemma splitOn_unlines:
  "list_all (\<lambda>l. newline \<notin> set l) ls \<Longrightarrow> splitOn newline (unlines ls) = ls @ [[]]"
  by (induction ls) (simp_all add: splitOn_append_sep)

lemma file_lines_unlines:
  "list_all (\<lambda>l. newline \<notin> set l \<and> dropCR l = l) ls \<Longrightarrow> file_lines (unlines ls) = ls"
proof -
  assume ls: "list_all (\<lambda>l. newline \<notin> set l \<and> dropCR l = l) ls"
  then have "splitOn newline (unlines ls) = ls @ [[]]" by (intro splitOn_unlines) (auto simp: list_all_iff)
  moreover have "map dropCR ls = ls" using ls by (simp add: list_all_iff map_idI)
  ultimately show ?thesis by (simp add: file_lines_def)
qed

lemma yaml_Read_content:
  "list_all content_line d \<Longrightarrow> yaml_Read buffer (d @ ls) = yaml_Read (buffer @ unlines d) ls"
  by (induction d arbitrary: buffer) (simp_all add: content_line_def)

lemma is_separator_sep [simp]: "is_separator [CHR ''-'', CHR ''-'', CHR ''-'', newline]"
  by (simp add: is_separator_def hasPrefix_def isSpace_def)

lemma yaml_Read_doc:
  assumes "list_all content_line d" "d \<noteq> []"
  shows "yaml_Read [] d = (Some (unlines d), [])" "yaml_Read [] (d @ ''---'' # ls) = (Some (unlines d), ls)"
  using assms yaml_Read_content [of d "[]" "[]"] yaml_Read_content [of d "[]" "''---'' # ls"] by simp_all

text \<open>One document as the code converts it.\<close>

definition convert :: "(bytes \<Rightarrow> go_error + bytes) \<Rightarrow> (bytes \<Rightarrow> go_error + json_meta) \<Rightarrow> string list \<Rightarrow> go_error + manifest" where
  "convert ToJSON Unmarshal d =
     (case ToJSON (bytes_TrimSpace (unlines d)) of Inl e \<Rightarrow> Inl e | Inr j \<Rightarrow> parseJSONManifest Unmarshal j)"

lemma parseDocuments_doc:
  assumes read: "yaml_Read [] ls = (Some (unlines d), ls')" and "bytes_TrimSpace (unlines d) \<noteq> []"
    and c: "convert ToJSON Unmarshal d = Inr m"
  shows "parseDocuments ToJSON Unmarshal ls ms = parseDocuments ToJSON Unmarshal ls' (ms @ [m])"
proof -
  from c obtain j where "ToJSON (bytes_TrimSpace (unlines d)) = Inr j" "parseJSONManifest Unmarshal j = Inr m"
    by (auto simp: convert_def split: sum.splits)
  then show ?thesis using assms(2) by (simp add: parseDocuments.simps [of _ _ ls] read)
qed

lemma parseDocuments_end: "ms \<noteq> [] \<Longrightarrow> parseDocuments ToJSON Unmarshal [] ms = Inr ms"
  by (simp add: parseDocuments.simps)

lemma parseDocuments_docs:
  assumes "list_all (\<lambda>d. list_all content_line d \<and> bytes_TrimSpace (unlines d) \<noteq> [] \<and> convert ToJSON Unmarshal d = Inr (mf d)) (d # ds)"
  shows "parseDocuments ToJSON Unmarshal (docs_lines (d # ds)) ms = Inr (ms @ map mf (d # ds))"
  using assms
proof (induction ds arbitrary: d ms)
  case Nil
  then have "d \<noteq> []" by (auto simp: bytes_TrimSpace_def)
  with Nil have "parseDocuments ToJSON Unmarshal d ms = parseDocuments ToJSON Unmarshal [] (ms @ [mf d])"
    by (intro parseDocuments_doc [where d = d] yaml_Read_doc) simp_all
  then show ?case by (simp add: docs_lines_def parseDocuments_end)
next
  case (Cons e ds)
  then have "d \<noteq> []" by (auto simp: bytes_TrimSpace_def)
  have split: "docs_lines (d # e # ds) = d @ ''---'' # docs_lines (e # ds)" by (simp add: docs_lines_def)
  have "parseDocuments ToJSON Unmarshal (d @ ''---'' # docs_lines (e # ds)) ms = parseDocuments ToJSON Unmarshal (docs_lines (e # ds)) (ms @ [mf d])"
    using Cons.prems \<open>d \<noteq> []\<close> by (intro parseDocuments_doc [where d = d] yaml_Read_doc) simp_all
  also have "\<dots> = Inr ((ms @ [mf d]) @ map mf (e # ds))" using Cons.prems by (intro Cons.IH) simp
  finally show ?case by (simp add: split)
qed

lemma dropCR_sep: "newline \<notin> set ''---''" "dropCR ''---'' = ''---''"
  by (simp_all add: dropCR_def)

lemma docs_lines_ok:
  assumes "list_all (list_all content_line) docs"
  shows "list_all (\<lambda>l. newline \<notin> set l \<and> dropCR l = l) (docs_lines docs)"
  using assms by (cases docs) (auto simp: docs_lines_def list_all_iff content_line_def dropCR_sep)

text \<open>
  C25: A file holding any number of documents, written one after another with separator
  lines in between, parses into exactly those documents, converted, in their order: no
  document is lost, merged with another or split. Every document has text that is not white
  space and none of its lines is a separator.
\<close>

theorem parse_reads_documents_back:
  assumes "docs \<noteq> []"
    and "list_all (\<lambda>d. list_all content_line d \<and> bytes_TrimSpace (unlines d) \<noteq> [] \<and> convert ToJSON Unmarshal d = Inr (mf d)) docs"
  shows "parseManifests ToJSON Unmarshal (unlines (docs_lines docs)) = Inr (map mf docs)"
proof -
  have "list_all (list_all content_line) docs" using assms(2) by (auto simp: list_all_iff)
  then have "file_lines (unlines (docs_lines docs)) = docs_lines docs"
    by (intro file_lines_unlines docs_lines_ok)
  then show ?thesis
    using assms parseDocuments_docs [of ToJSON Unmarshal mf "hd docs" "tl docs" "[]"]
    by (cases docs) (simp_all add: parseManifests_def)
qed

text \<open>A concrete converter for the examples: text is its own JSON, and its first line is the kind.\<close>

definition example_ToJSON :: "bytes \<Rightarrow> go_error + bytes" where
  "example_ToJSON y = (if hasPrefix y ''!'' then Inl (Err ''bad yaml'') else Inr y)"

definition example_Unmarshal :: "bytes \<Rightarrow> go_error + json_meta" where
  "example_Unmarshal j = Inr \<lparr>j_APIVersion = ''v1'', j_Kind = hd (splitOn newline j), j_Name = ''n'', j_Namespace = ''''\<rparr>"

definition example_manifest :: "string \<Rightarrow> string \<Rightarrow> manifest" where
  "example_manifest kind path =
     \<lparr>m_kind = kind, m_apiVersion = ''v1'', m_namespace = '''', m_name = ''n'', m_raw = kind, m_filepath = path\<rparr>"

theorem parse_reads_documents_back_witness:
  "parseManifests example_ToJSON example_Unmarshal (unlines [''Namespace'', ''---'', ''Pod''])
     = Inr [example_manifest ''Namespace'' '''', example_manifest ''Pod'' '''']"
proof -
  have "parseManifests example_ToJSON example_Unmarshal (unlines (docs_lines [[''Namespace''], [''Pod'']]))
      = Inr (map (\<lambda>d. example_manifest (hd d) '''') [[''Namespace''], [''Pod'']])"
    by (rule parse_reads_documents_back) (simp, code_simp)
  then show ?thesis by (simp add: docs_lines_def)
qed

section \<open>What loading a directory returns\<close>

text \<open>What one visited item contributes.\<close>

definition load_item :: "(bytes \<Rightarrow> go_error + bytes) \<Rightarrow> (bytes \<Rightarrow> go_error + json_meta) \<Rightarrow> fs \<Rightarrow> walk_item \<Rightarrow> go_error + manifest list" where
  "load_item ToJSON Unmarshal s item =
     (case item of
        WErr e \<Rightarrow> Inl e
      | WDir _ \<Rightarrow> Inr []
      | WFile path _ \<Rightarrow>
          (case ioutil_ReadFile s path of
             Inl e \<Rightarrow> Inl (Errorf (''open '' @ path) e)
           | Inr f \<Rightarrow>
               (case parseManifests ToJSON Unmarshal f of
                  Inl e \<Rightarrow> Inl (Errorf (''parse file '' @ path) e)
                | Inr ms \<Rightarrow> Inr (map (\<lambda>m. m\<lparr>m_filepath := path\<rparr>) ms))))"

definition hidden_root :: "string \<Rightarrow> bool" where
  "hidden_root p \<longleftrightarrow> path_Base p \<noteq> p \<and> hasPrefix (path_Base p) ''.''"

lemma loadItems_step:
  assumes "\<not> hidden_root p"
  shows "loadItems ToJSON Unmarshal s p (item # items) acc =
     (case load_item ToJSON Unmarshal s item of
        Inl e \<Rightarrow> Inl e | Inr ms \<Rightarrow> loadItems ToJSON Unmarshal s p items (acc @ ms))"
  using assms by (cases item) (auto simp: load_item_def hidden_root_def Let_def split: sum.splits)

lemma loadItems_ok:
  assumes "\<not> hidden_root p"
  shows "loadItems ToJSON Unmarshal s p items acc = Inr ms \<longleftrightarrow>
     (\<exists>parts. map (load_item ToJSON Unmarshal s) items = map Inr parts \<and> ms = acc @ concat parts)"
proof (induction items arbitrary: acc)
  case (Cons item items)
  show ?case
  proof (cases "load_item ToJSON Unmarshal s item")
    case (Inl e)
    then show ?thesis by (simp add: loadItems_step [OF assms]) (auto simp: Cons_eq_map_conv)
  next
    case (Inr ms')
    have "(\<exists>parts. map (load_item ToJSON Unmarshal s) (item # items) = map Inr parts \<and> ms = acc @ concat parts)
      \<longleftrightarrow> (\<exists>parts. map (load_item ToJSON Unmarshal s) items = map Inr parts \<and> ms = (acc @ ms') @ concat parts)"
      using Inr by (auto simp: Cons_eq_map_conv)
    with Inr show ?thesis by (simp add: loadItems_step [OF assms] Cons.IH)
  qed
qed auto

lemma loadItems_fails:
  assumes "\<not> hidden_root p"
  shows "loadItems ToJSON Unmarshal s p items acc = Inl e \<longleftrightarrow>
     (\<exists>parts rest. map (load_item ToJSON Unmarshal s) items = map Inr parts @ Inl e # rest)"
proof (induction items arbitrary: acc)
  case (Cons item items)
  show ?case
  proof (cases "load_item ToJSON Unmarshal s item")
    case (Inl e')
    have "(\<exists>parts rest. Inl e' # xs = map Inr parts @ Inl e # rest) \<longleftrightarrow> e' = e" for xs :: "(go_error + manifest list) list"
      by (auto simp: Cons_eq_append_conv Cons_eq_map_conv)
    with Inl show ?thesis by (simp add: loadItems_step [OF assms])
  next
    case (Inr ms')
    have "(\<exists>parts rest. Inr ms' # xs = map Inr parts @ Inl e # rest) \<longleftrightarrow> (\<exists>parts rest. xs = map Inr parts @ Inl e # rest)" for xs
      by (auto simp: Cons_eq_append_conv Cons_eq_map_conv)
    with Inr show ?thesis by (simp add: loadItems_step [OF assms] Cons.IH)
  qed
qed simp

text \<open>
  C26: Loading a directory whose own name is not hidden succeeds exactly when every item
  below it can be listed, read and parsed; the manifests are then those of every file at any
  depth, hidden ones and hidden directories included, in the order of the walk, each labelled
  with the path of its file. Otherwise the error is that of the first item that fails.
\<close>

theorem load_reads_every_file:
  assumes "\<not> hidden_root p"
  shows "(loadManifests ToJSON Unmarshal s p = Inr ms \<longleftrightarrow>
       (\<exists>parts. map (load_item ToJSON Unmarshal s) (filepath_Walk s p) = map Inr parts \<and> ms = concat parts)) \<and>
     (loadManifests ToJSON Unmarshal s p = Inl e \<longleftrightarrow>
       (\<exists>parts rest. map (load_item ToJSON Unmarshal s) (filepath_Walk s p) = map Inr parts @ Inl e # rest))"
  using loadItems_ok [OF assms, of ToJSON Unmarshal s "filepath_Walk s p" "[]"]
    loadItems_fails [OF assms, of ToJSON Unmarshal s "filepath_Walk s p" "[]" e]
  by (simp add: loadManifests_def)

definition manifest_host :: fs where
  "manifest_host = \<lparr>entries = [([], new_dir 493), ([''m''], new_dir 493), ([''m'', ''.git''], new_dir 493),
      ([''m'', ''.git'', ''b''], NFile (unlines [''Pod'']) \<lparr>n_mode = 384, n_uid = 0, n_gid = 0\<rparr>),
      ([''.m''], new_dir 493), ([''.m'', ''a''], NFile (unlines [''Pod'']) \<lparr>n_mode = 384, n_uid = 0, n_gid = 0\<rparr>)],
    cwd = [], faults = (\<lambda>_ _. None), torn = (\<lambda>_. 0)\<rparr>"

theorem load_reads_every_file_witness:
  "loadManifests example_ToJSON example_Unmarshal manifest_host ''/m'' = Inr [example_manifest ''Pod'' ''/m/.git/b'']"
proof -
  have "\<not> hidden_root ''/m''" by code_simp
  from load_reads_every_file [OF this, of example_ToJSON example_Unmarshal manifest_host "[example_manifest ''Pod'' ''/m/.git/b'']"]
  have iff: "loadManifests example_ToJSON example_Unmarshal manifest_host ''/m'' = Inr [example_manifest ''Pod'' ''/m/.git/b''] \<longleftrightarrow>
    (\<exists>parts. map (load_item example_ToJSON example_Unmarshal manifest_host) (filepath_Walk manifest_host ''/m'') = map Inr parts \<and>
       [example_manifest ''Pod'' ''/m/.git/b''] = concat parts)"
    by blast
  have "map (load_item example_ToJSON example_Unmarshal manifest_host) (filepath_Walk manifest_host ''/m'')
      = map Inr [[], [], [example_manifest ''Pod'' ''/m/.git/b'']]"
    by code_simp
  then show ?thesis unfolding iff by (intro exI [of _ "[[], [], [example_manifest ''Pod'' ''/m/.git/b'']]"]) simp
qed

section \<open>A hidden root\<close>

lemma prefix_le: "prefix (k::key) k' \<Longrightarrow> k \<le> k'"
proof (induction k arbitrary: k')
  case (Cons x k)
  then show ?case by (cases k') auto
qed simp

lemma hd_sort_least: "(x::'a::linorder) \<in> set xs \<Longrightarrow> (\<And>y. y \<in> set xs \<Longrightarrow> x \<le> y) \<Longrightarrow> hd (sort xs) = x"
proof -
  assume x: "x \<in> set xs" and least: "\<And>y. y \<in> set xs \<Longrightarrow> x \<le> y"
  then have "set (sort xs) \<noteq> {}" by auto
  then obtain y ys where s: "sort xs = y # ys" by (cases "sort xs") auto
  then have "y \<in> set xs" by (metis list.set_intros(1) set_sort)
  then have "x \<le> y" by (rule least)
  moreover have "y \<le> x" using sorted_sort [of xs] x s by (metis set_ConsD set_sort sorted_simps(2) order_refl)
  ultimately show ?thesis using s by simp
qed

lemma walk_root_first:
  assumes "fs_node s (fs_key s p) = Some (NDir m)" "fs_fault s OpStat (fs_key s p) = None" "fs_fault s OpReadDir (fs_key s p) = None"
  shows "\<exists>items. filepath_Walk s p = WDir p # items"
proof -
  let ?k = "fs_key s p"
  have "?k \<in> set (filter (prefix ?k) (map fst (entries s)))"
    using assms(1) by (force simp: fs_node_def dest: map_of_SomeD)
  moreover have "?k \<le> y" if "y \<in> set (filter (prefix ?k) (map fst (entries s)))" for y using that prefix_le by auto
  ultimately have "hd (walk_keys s ?k) = ?k" unfolding walk_keys_def by (rule hd_sort_least)
  moreover have "?k \<in> set (walk_keys s ?k)" using assms(1) by (force simp: walk_keys_def fs_node_def dest: map_of_SomeD)
  ultimately have "hd (walk_keys s ?k) = ?k" "set (walk_keys s ?k) \<noteq> {}" by auto
  then obtain ks where "walk_keys s ?k = ?k # ks" by (cases "walk_keys s ?k") auto
  with assms show ?thesis by (simp add: filepath_Walk_def os_Stat_def walk_item_of_def walk_path_def Let_def)
qed

text \<open>
  A manifest directory whose last path element starts with a dot loads as an empty list
  without an error, whatever manifests it holds.
\<close>

lemma hidden_root_loads_nothing:
  assumes "hidden_root p" and "fs_node s (fs_key s p) = Some (NDir m)"
    and "fs_fault s OpStat (fs_key s p) = None" "fs_fault s OpReadDir (fs_key s p) = None"
  shows "loadManifests ToJSON Unmarshal s p = Inr []"
proof -
  obtain items where "filepath_Walk s p = WDir p # items" using walk_root_first [OF assms(2-4)] by blast
  with assms(1) show ?thesis by (simp add: loadManifests_def hidden_root_def Let_def)
qed

lemma hidden_root_loads_nothing_witness:
  "content manifest_host [''.m'', ''a''] = Some (unlines [''Pod'']) \<and>
   loadManifests example_ToJSON example_Unmarshal manifest_host ''/.m'' = Inr []"
proof
  show "content manifest_host [''.m'', ''a''] = Some (unlines [''Pod''])" by code_simp
  have h: "hidden_root ''/.m''" by code_simp
  have k: "fs_key manifest_host ''/.m'' = [''.m'']" by code_simp
  show "loadManifests example_ToJSON example_Unmarshal manifest_host ''/.m'' = Inr []"
    using hidden_root_loads_nothing [OF h, of manifest_host, unfolded k]
    by (simp add: manifest_host_def fs_node_def fs_fault_def new_dir_def)
qed

end
