(* ===== verification/WaitPoll.thy ===== *)
theory WaitPoll
  imports Prelude
begin

text \<open>
  Waiting with a condition: \<open>Poll\<close> and \<open>PollImmediate\<close> of the Kubernetes \<open>wait\<close> package,
  which asset creation and the status check call. A condition is a function on the world
  \<open>'w\<close> that answers with an error, with \<open>True\<close> (done) or with \<open>False\<close> (ask again). A
  poller delivers some number of ticks before its timeout closes the channel; the condition is
  asked once per tick and one last time after the channel is closed. How many ticks arrive is
  up to the clock and the time the condition takes, so it is an argument (\<open>ticks\<close>): at most
  the timeout divided by the interval. A zero timeout never closes the channel; a wait with it
  that ends is one with enough ticks.
\<close>

definition ErrWaitTimeout :: go_error where
  "ErrWaitTimeout = Err ''timed out waiting for the condition''"

type_synonym 'w condition = "'w \<Rightarrow> 'w \<times> (go_error + bool)"

fun WaitFor :: "nat \<Rightarrow> 'w condition \<Rightarrow> 'w \<Rightarrow> 'w \<times> go_error option" where
  "WaitFor ticks fn w =
     (case fn w of
        (w', Inl e) \<Rightarrow> (w', Some e)
      | (w', Inr True) \<Rightarrow> (w', None)
      | (w', Inr False) \<Rightarrow>
          (case ticks of 0 \<Rightarrow> (w', Some ErrWaitTimeout) | Suc n \<Rightarrow> WaitFor n fn w'))"

declare WaitFor.simps [simp del]

definition wait_Poll :: "nat \<Rightarrow> 'w condition \<Rightarrow> 'w \<Rightarrow> 'w \<times> go_error option" where
  "wait_Poll ticks fn w = WaitFor ticks fn w"

definition wait_PollImmediate :: "nat \<Rightarrow> 'w condition \<Rightarrow> 'w \<Rightarrow> 'w \<times> go_error option" where
  "wait_PollImmediate ticks fn w =
     (case fn w of
        (w', Inl e) \<Rightarrow> (w', Some e)
      | (w', Inr True) \<Rightarrow> (w', None)
      | (w', Inr False) \<Rightarrow> wait_Poll ticks fn w')"

text \<open>Immediate polling is polling with one more tick.\<close>

lemma wait_PollImmediate_Poll: "wait_PollImmediate ticks fn w = wait_Poll (Suc ticks) fn w"
  by (simp add: wait_PollImmediate_def wait_Poll_def WaitFor.simps [of "Suc ticks"]
      split: prod.splits sum.splits bool.splits)

section \<open>What a wait returns\<close>

text \<open>The world the condition sees at its \<open>k\<close>-th evaluation, and what it answers there.\<close>

definition world_at :: "'w condition \<Rightarrow> 'w \<Rightarrow> nat \<Rightarrow> 'w" where
  "world_at fn w k = ((\<lambda>w. fst (fn w)) ^^ k) w"

definition answer_at :: "'w condition \<Rightarrow> 'w \<Rightarrow> nat \<Rightarrow> go_error + bool" where
  "answer_at fn w k = snd (fn (world_at fn w k))"

lemma world_at_simps [simp]: "world_at fn w 0 = w" "world_at fn w (Suc k) = world_at fn (fst (fn w)) k"
  by (simp_all add: world_at_def funpow_Suc_right del: funpow.simps(2))

lemma answer_at_simps [simp]: "answer_at fn w 0 = snd (fn w)" "answer_at fn w (Suc k) = answer_at fn (fst (fn w)) k"
  by (simp_all add: answer_at_def)

text \<open>A wait succeeds exactly when the condition becomes true in time and was never an error before.\<close>

lemma WaitFor_None_iff:
  "snd (WaitFor ticks fn w) = None \<longleftrightarrow>
     (\<exists>k\<le>ticks. answer_at fn w k = Inr True \<and> (\<forall>j<k. answer_at fn w j = Inr False))"
proof (induction ticks arbitrary: w)
  case 0
  show ?case by (auto simp: WaitFor.simps [of 0] split: prod.splits sum.splits bool.splits)
next
  case (Suc n)
  obtain w' r where f: "fn w = (w', r)" by fastforce
  show ?case
  proof (cases "r = Inr False")
    case True
    have "snd (WaitFor (Suc n) fn w) = None \<longleftrightarrow>
        (\<exists>k\<le>n. answer_at fn w' k = Inr True \<and> (\<forall>j<k. answer_at fn w' j = Inr False))"
      using f True Suc.IH [of w'] by (simp add: WaitFor.simps [of "Suc n"])
    also have "\<dots> \<longleftrightarrow> (\<exists>k\<le>Suc n. answer_at fn w k = Inr True \<and> (\<forall>j<k. answer_at fn w j = Inr False))"
    proof
      assume "\<exists>k\<le>n. answer_at fn w' k = Inr True \<and> (\<forall>j<k. answer_at fn w' j = Inr False)"
      then obtain k where "k \<le> n" "answer_at fn w' k = Inr True" "\<forall>j<k. answer_at fn w' j = Inr False" by blast
      with f True show "\<exists>k\<le>Suc n. answer_at fn w k = Inr True \<and> (\<forall>j<k. answer_at fn w j = Inr False)"
        by (intro exI [of _ "Suc k"]) (auto simp: less_Suc_eq_0_disj)
    next
      assume "\<exists>k\<le>Suc n. answer_at fn w k = Inr True \<and> (\<forall>j<k. answer_at fn w j = Inr False)"
      then obtain k where k: "k \<le> Suc n" "answer_at fn w k = Inr True" "\<And>j. j < k \<Longrightarrow> answer_at fn w j = Inr False" by blast
      with f True obtain i where i: "k = Suc i" by (cases k) auto
      have "answer_at fn w' j = Inr False" if "j < i" for j using k(3) [of "Suc j"] that f i by simp
      then show "\<exists>k\<le>n. answer_at fn w' k = Inr True \<and> (\<forall>j<k. answer_at fn w' j = Inr False)"
        using k(1,2) f i by (intro exI [of _ i]) simp
    qed
    finally show ?thesis .
  next
    case False
    then have "snd (WaitFor (Suc n) fn w) = None \<longleftrightarrow> r = Inr True"
      using f by (auto simp: WaitFor.simps [of "Suc n"] split: sum.splits bool.splits)
    moreover have "k = 0" if "answer_at fn w k = Inr True" "\<forall>j<k. answer_at fn w j = Inr False" for k
      using that f False by (cases k) auto
    ultimately show ?thesis using f by fastforce
  qed
qed

text \<open>A condition that is never an error leaves the timeout as the only failure.\<close>

lemma WaitFor_timeout:
  "(\<And>w. \<exists>b. snd (fn w) = Inr b) \<Longrightarrow> snd (WaitFor ticks fn w) \<in> {None, Some ErrWaitTimeout}"
proof (induction ticks arbitrary: w)
  case 0
  obtain w' b where "fn w = (w', Inr b)" using 0 [of w] by (metis prod.collapse)
  then show ?case by (cases b) (simp_all add: WaitFor.simps [of 0])
next
  case (Suc n)
  obtain w' b where "fn w = (w', Inr b)" using Suc.prems [of w] by (metis prod.collapse)
  then show ?case using Suc by (cases b) (simp_all add: WaitFor.simps [of "Suc n"])
qed

text \<open>The condition is asked at most once more than there are ticks.\<close>

lemma WaitFor_world: "\<exists>k\<le>Suc ticks. 0 < k \<and> fst (WaitFor ticks fn w) = world_at fn w k"
proof (induction ticks arbitrary: w)
  case 0
  show ?case by (intro exI [of _ 1]) (auto simp: WaitFor.simps [of 0] split: prod.splits sum.splits bool.splits)
next
  case (Suc n)
  obtain w' r where f: "fn w = (w', r)" by fastforce
  show ?case
  proof (cases "r = Inr False")
    case True
    obtain k where "k \<le> Suc n" "fst (WaitFor n fn w') = world_at fn w' k" using Suc.IH by blast
    with f True show ?thesis by (intro exI [of _ "Suc k"]) (simp add: WaitFor.simps [of "Suc n"])
  next
    case False
    with f show ?thesis
      by (intro exI [of _ 1]) (auto simp: WaitFor.simps [of "Suc n"] split: sum.splits bool.splits)
  qed
qed

text \<open>What every evaluation keeps, the whole wait keeps.\<close>

lemma WaitFor_inv:
  assumes "I w" and "\<And>w. I w \<Longrightarrow> I (fst (fn w))"
  shows "I (fst (WaitFor ticks fn w))"
proof -
  have "I (world_at fn w k)" for k using assms(1) by (induction k arbitrary: w) (simp_all add: assms(2))
  then show ?thesis using WaitFor_world [of ticks fn w] by auto
qed

end
