(* ===== verification/Create.thy ===== *)
theory Create
  imports ManifestLoad WaitPoll
begin

text \<open>
  Creating the self-hosted assets: the rest of \<open>pkg/bootkube/create.go\<close>. The API server and
  the client library are parameters, gathered in an \<open>api\<close> record of functions on the state
  \<open>'w\<close> of the world, which every call may change; a theorem about every \<open>api\<close> covers
  every behaviour of the server. Decoding a custom resource definition is a parameter too
  (\<open>UnmarshalCRD\<close>).

  \<open>sort.Slice\<close> is not stable, so the order of documents from one file is open: the sorting
  function is a parameter (\<open>sortSlice\<close>), and theorems that need it assume that it sorts.

  A \<open>creater\<close> keeps, next to the fields of the Go struct, the requests it has sent and the
  messages it has printed, in order.
\<close>

record APIResource =
  r_Name :: string
  r_Namespaced :: bool
  r_Kind :: string

datatype get_answer = GetOk | GetNotFound go_error | GetErr go_error

record 'w api =
  api_ClientConfig :: "go_error option"
  api_RESTClient :: "go_error option"
  api_DiscoveryClient :: "go_error option"
  api_Clientset :: "go_error option"
  api_Resources :: "string \<Rightarrow> 'w \<Rightarrow> 'w \<times> (go_error + APIResource list)"
  api_Post :: "string \<Rightarrow> bytes \<Rightarrow> 'w \<Rightarrow> 'w \<times> go_error option"
  api_List :: "string \<Rightarrow> 'w \<Rightarrow> 'w \<times> get_answer"
  api_Healthz :: "'w \<Rightarrow> 'w \<times> int"
  api_GetNamespace :: "string \<Rightarrow> 'w \<Rightarrow> 'w \<times> go_error option"

datatype request = Discover string | Post string bytes | ListAll string

datatype message =
    DoesNotExist string
  | Waiting
  | Creating
  | Created manifest
  | FailedCreating manifest go_error
  | FailedWaiting manifest go_error
  | FailedAssets

record 'w creater =
  c_world :: 'w
  c_strict :: bool
  c_cache :: "(string \<times> APIResource list) list"
  c_sent :: "request list"
  c_out :: "message list"

definition UserOutput :: "message \<Rightarrow> 'w creater \<Rightarrow> 'w creater" where
  "UserOutput x c = c\<lparr>c_out := c_out c @ [x]\<rparr>"

definition send :: "request \<Rightarrow> 'w \<Rightarrow> 'w creater \<Rightarrow> 'w creater" where
  "send q w c = c\<lparr>c_world := w, c_sent := c_sent c @ [q]\<rparr>"

definition newCreater :: "'w api \<Rightarrow> bool \<Rightarrow> 'w \<Rightarrow> go_error + 'w creater" where
  "newCreater a strict w =
     (case api_RESTClient a of Some e \<Rightarrow> Inl e
      | None \<Rightarrow>
        (case api_DiscoveryClient a of Some e \<Rightarrow> Inl e
         | None \<Rightarrow> Inr \<lparr>c_world = w, c_strict = strict, c_cache = [], c_sent = [], c_out = []\<rparr>))"

section \<open>One resource\<close>

definition resourceInfo :: "'w api \<Rightarrow> string \<Rightarrow> string \<Rightarrow> 'w creater \<Rightarrow> 'w creater \<times> (go_error + APIResource)" where
  "resourceInfo a groupVersion kind c =
     (case Option.bind (map_of (c_cache c) groupVersion) (List.find (\<lambda>r. r_Kind r = kind)) of
        Some r \<Rightarrow> (c, Inr r)
      | None \<Rightarrow>
        (case api_Resources a groupVersion (c_world c) of
           (w, Inl e) \<Rightarrow> (send (Discover groupVersion) w c, Inl (Errorf (''discover group version '' @ groupVersion) e))
         | (w, Inr l) \<Rightarrow>
             (let c' = (send (Discover groupVersion) w c)\<lparr>c_cache := AList.update groupVersion l (c_cache c)\<rparr> in
              case List.find (\<lambda>r. r_Kind r = kind) l of
                Some r \<Rightarrow> (c', Inr r)
              | None \<Rightarrow> (c', Inl (Err (''resource '' @ groupVersion @ '' '' @ kind @ '' not found''))))))"

definition urlPath :: "manifest \<Rightarrow> string \<Rightarrow> bool \<Rightarrow> string" where
  "urlPath m plural namespaced =
     (let u = (if m_apiVersion m = ''v1'' then ''/api'' else ''/apis'') @ ''/'' @ m_apiVersion m;
          u' = (if m_namespace m \<noteq> '''' \<and> namespaced then u @ ''/namespaces/'' @ m_namespace m else u)
      in u' @ ''/'' @ plural)"

definition create :: "'w api \<Rightarrow> manifest \<Rightarrow> 'w creater \<Rightarrow> 'w creater \<times> go_error option" where
  "create a m c =
     (case resourceInfo a (m_apiVersion m) (m_kind m) c of
        (c1, Inl e) \<Rightarrow> (c1, Some (Errorf ''dicovery failed'' e))
      | (c1, Inr info) \<Rightarrow>
          (let url = urlPath m (r_Name info) (r_Namespaced info) in
           case api_Post a url (m_raw m) (c_world c1) of (w, err) \<Rightarrow> (send (Post url (m_raw m)) w c1, err)))"

section \<open>Custom resource definitions\<close>

record crd =
  crd_Group :: string
  crd_Version :: string
  crd_Versions :: "(string \<times> bool) list"
  crd_Plural :: string

definition allCustomResourcesURI :: "string \<Rightarrow> string \<Rightarrow> string \<Rightarrow> string" where
  "allCustomResourcesURI grp version resource =
     ''/apis/'' @ toLower grp @ ''/'' @ toLower version @ ''/'' @ toLower resource"

text \<open>The first served version; the versions carry whether they are served.\<close>

definition firstVer :: "crd \<Rightarrow> string" where
  "firstVer d =
     (if crd_Versions d \<noteq> []
      then (case List.find snd (crd_Versions d) of Some v \<Rightarrow> fst v | None \<Rightarrow> '''')
      else crd_Version d)"

definition crd_served :: "'w api \<Rightarrow> string \<Rightarrow> 'w creater condition" where
  "crd_served a uri c =
     (case api_List a uri (c_world c) of
        (w, GetNotFound e) \<Rightarrow> (send (ListAll uri) w c, Inr False)
      | (w, GetErr e) \<Rightarrow> (send (ListAll uri) w c, Inl e)
      | (w, GetOk) \<Rightarrow> (send (ListAll uri) w c, Inr True))"

definition waitForCRD ::
  "'w api \<Rightarrow> (bytes \<Rightarrow> go_error + crd) \<Rightarrow> nat \<Rightarrow> manifest \<Rightarrow> 'w creater \<Rightarrow> 'w creater \<times> go_error option" where
  "waitForCRD a UnmarshalCRD ticks m c =
     (case UnmarshalCRD (m_raw m) of
        Inl e \<Rightarrow> (c, Some (Errorf ''failed to unmarshal manifest'' e))
      | Inr d \<Rightarrow>
          (if firstVer d = '''' then (c, Some (Err ''expected at least one served version''))
           else wait_PollImmediate ticks
                  (crd_served a (allCustomResourcesURI (crd_Group d) (firstVer d) (crd_Plural d))) c))"

section \<open>All manifests\<close>

definition is_crd :: "manifest \<Rightarrow> bool" where
  "is_crd m \<longleftrightarrow> m_kind m = ''CustomResourceDefinition'' \<and> hasPrefix (m_apiVersion m) ''apiextensions.k8s.io/''"

definition is_namespace :: "manifest \<Rightarrow> bool" where
  "is_namespace m \<longleftrightarrow> \<not> is_crd m \<and> m_kind m = ''Namespace'' \<and> m_apiVersion m = ''v1''"

text \<open>The loops return the creater, whether all went well so far, and whether to give up.\<close>

fun createAll :: "'w api \<Rightarrow> manifest list \<Rightarrow> bool \<Rightarrow> 'w creater \<Rightarrow> 'w creater \<times> bool \<times> bool" where
  "createAll a [] ok c = (c, ok, False)"
| "createAll a (m # ms) ok c =
     (case create a m c of
        (c1, Some e) \<Rightarrow>
          (let c2 = UserOutput (FailedCreating m e) c1 in
           if c_strict c then (c2, False, True) else createAll a ms False c2)
      | (c1, None) \<Rightarrow> createAll a ms ok (UserOutput (Created m) c1))"

fun waitAll ::
  "'w api \<Rightarrow> (bytes \<Rightarrow> go_error + crd) \<Rightarrow> (manifest \<Rightarrow> nat) \<Rightarrow> manifest list \<Rightarrow> bool \<Rightarrow> 'w creater \<Rightarrow> 'w creater \<times> bool \<times> bool" where
  "waitAll a UnmarshalCRD ticks [] ok c = (c, ok, False)"
| "waitAll a UnmarshalCRD ticks (m # ms) ok c =
     (case waitForCRD a UnmarshalCRD (ticks m) m c of
        (c1, Some e) \<Rightarrow>
          (let c2 = UserOutput (FailedWaiting m e) c1 in
           if c_strict c then (c2, False, True) else waitAll a UnmarshalCRD ticks ms False c2)
      | (c1, None) \<Rightarrow> waitAll a UnmarshalCRD ticks ms ok c1)"

definition createManifests ::
  "'w api \<Rightarrow> (bytes \<Rightarrow> go_error + crd) \<Rightarrow> (manifest list \<Rightarrow> manifest list) \<Rightarrow> (manifest \<Rightarrow> nat) \<Rightarrow> manifest list \<Rightarrow> 'w creater \<Rightarrow> 'w creater \<times> bool" where
  "createManifests a UnmarshalCRD sortSlice ticks manifests c =
     (let sorted = sortSlice manifests;
          crds = filter is_crd sorted;
          namespaces = filter is_namespace sorted;
          other = filter (\<lambda>m. \<not> is_crd m \<and> \<not> is_namespace m) sorted
      in case createAll a namespaces True c of
           (c1, ok1, stop1) \<Rightarrow>
             (if stop1 then (c1, False)
              else case createAll a crds ok1 c1 of
                     (c2, ok2, stop2) \<Rightarrow>
                       (if stop2 then (c2, False)
                        else case waitAll a UnmarshalCRD ticks crds ok2 c2 of
                               (c3, ok3, stop3) \<Rightarrow>
                                 (if stop3 then (c3, False)
                                  else case createAll a (filter (\<lambda>m. m_raw m \<noteq> ''null'') other) ok3 c3 of
                                         (c4, ok4, stop4) \<Rightarrow> (c4, if stop4 then False else ok4)))))"

section \<open>All assets\<close>

definition apiTest :: "'w api \<Rightarrow> 'w \<Rightarrow> 'w \<times> go_error option" where
  "apiTest a w =
     (case api_ClientConfig a of Some e \<Rightarrow> (w, Some e)
      | None \<Rightarrow>
        (case api_Clientset a of Some e \<Rightarrow> (w, Some e)
         | None \<Rightarrow>
           (case api_Healthz a w of
              (w1, healthStatus) \<Rightarrow>
                (if healthStatus \<noteq> 200 then (w1, Some (Err ''API Server http status''))
                 else api_GetNamespace a ''kube-system'' w1))))"

definition upFn :: "'w api \<Rightarrow> 'w condition" where
  "upFn a w = (case apiTest a w of (w', Some e) \<Rightarrow> (w', Inr False) | (w', None) \<Rightarrow> (w', Inr True))"

text \<open>What \<open>CreateAssets\<close> needs to know of other packages and of the clock.\<close>

record 'w create_env =
  ce_api :: "'w api"
  ce_ToJSON :: "bytes \<Rightarrow> go_error + bytes"
  ce_Unmarshal :: "bytes \<Rightarrow> go_error + json_meta"
  ce_UnmarshalCRD :: "bytes \<Rightarrow> go_error + crd"
  ce_sortSlice :: "manifest list \<Rightarrow> manifest list"
  ce_upTicks :: nat
  ce_crdTicks :: "manifest \<Rightarrow> nat"

definition CreateAssets :: "'w create_env \<Rightarrow> fs \<Rightarrow> string \<Rightarrow> bool \<Rightarrow> 'w \<Rightarrow> 'w \<times> message list \<times> go_error option" where
  "CreateAssets env s manifestDir strict w =
     (if (case os_Stat s manifestDir of Inl e \<Rightarrow> os_IsNotExist e | Inr _ \<Rightarrow> False)
      then (w, [DoesNotExist manifestDir], None)
      else case api_ClientConfig (ce_api env) of Some e \<Rightarrow> (w, [], Some e)
      | None \<Rightarrow>
        (case newCreater (ce_api env) strict w of Inl e \<Rightarrow> (w, [], Some e)
         | Inr creater \<Rightarrow>
           (case loadManifests (ce_ToJSON env) (ce_Unmarshal env) s manifestDir of
              Inl e \<Rightarrow> (w, [], Some (Errorf ''loading manifests'' e))
            | Inr m \<Rightarrow>
              (case wait_Poll (ce_upTicks env) (upFn (ce_api env)) w of
                 (w1, Some e) \<Rightarrow> (w1, [Waiting], Some (Errorf ''API Server is not ready'' e))
               | (w1, None) \<Rightarrow>
                 (case createManifests (ce_api env) (ce_UnmarshalCRD env) (ce_sortSlice env) (ce_crdTicks env) m
                         (creater\<lparr>c_world := w1, c_out := [Waiting, Creating]\<rparr>) of
                    (c, ok) \<Rightarrow>
                      (if ok then (c_world c, c_out c, None)
                       else (c_world c, c_out c @ [FailedAssets],
                             if strict then Some (Err ''Self-hosted assets could not be created'') else None)))))))"

section \<open>Phases\<close>

text \<open>The manifests a stretch of output is about, and its failures.\<close>

definition attempted :: "message list \<Rightarrow> manifest list" where
  "attempted out = List.map_filter (\<lambda>x. case x of Created m \<Rightarrow> Some m | FailedCreating m e \<Rightarrow> Some m | _ \<Rightarrow> None) out"

definition created :: "message list \<Rightarrow> manifest list" where
  "created out = List.map_filter (\<lambda>x. case x of Created m \<Rightarrow> Some m | _ \<Rightarrow> None) out"

definition is_failure :: "message \<Rightarrow> bool" where
  "is_failure x = (case x of FailedCreating m e \<Rightarrow> True | FailedWaiting m e \<Rightarrow> True | _ \<Rightarrow> False)"

lemma attempted_simps [simp]:
  "attempted [] = []" "attempted (xs @ ys) = attempted xs @ attempted ys"
  "attempted (Created m # xs) = m # attempted xs" "attempted (FailedCreating m e # xs) = m # attempted xs"
  "attempted (FailedWaiting m e # xs) = attempted xs"
  by (simp_all add: attempted_def map_filter_def)

lemma created_simps [simp]:
  "created [] = []" "created (xs @ ys) = created xs @ created ys"
  "created (Created m # xs) = m # created xs" "created (FailedCreating m e # xs) = created xs"
  "created (FailedWaiting m e # xs) = created xs"
  by (simp_all add: created_def map_filter_def)

text \<open>The bodies of the posts among some requests.\<close>

definition posted :: "request list \<Rightarrow> bytes list" where
  "posted qs = List.map_filter (\<lambda>q. case q of Post url body \<Rightarrow> Some body | _ \<Rightarrow> None) qs"

definition is_list :: "request \<Rightarrow> bool" where
  "is_list q = (case q of ListAll uri \<Rightarrow> True | _ \<Rightarrow> False)"

lemma posted_simps [simp]:
  "posted [] = []" "posted (xs @ ys) = posted xs @ posted ys" "posted (Discover gv # qs) = posted qs"
  "posted (Post url body # qs) = body # posted qs" "posted (ListAll uri # qs) = posted qs"
  by (simp_all add: posted_def map_filter_def)

lemma is_list_simps [simp]: "\<not> is_list (Discover gv)" "\<not> is_list (Post url body)" "is_list (ListAll uri)"
  by (simp_all add: is_list_def)

lemma posted_lists: "list_all is_list qs \<Longrightarrow> posted qs = []"
  by (induction qs) (auto simp: posted_def map_filter_def is_list_def split: request.splits)

lemma is_failure_simps [simp]:
  "\<not> is_failure (Created m)" "is_failure (FailedCreating m e)" "is_failure (FailedWaiting m e)"
  by (simp_all add: is_failure_def)

text \<open>
  What a phase of the creation does with the manifests \<open>todo\<close>: it attempts them in order, all
  of them unless it gives up; it gives up exactly when it is strict and something failed, and then
  the failure is the last thing that happened; and it reports success exactly when nothing failed.
  What it posts is, in the same order, every manifest it reports as created, and nothing but
  manifests it attempted.
\<close>

definition posts_match :: "message list \<Rightarrow> request list \<Rightarrow> bool" where
  "posts_match out sent \<longleftrightarrow> subseq (map m_raw (created out)) (posted sent) \<and> subseq (posted sent) (map m_raw (attempted out))"

lemma posts_match_append: "posts_match out sent \<Longrightarrow> posts_match out' sent' \<Longrightarrow> posts_match (out @ out') (sent @ sent')"
  by (simp add: posts_match_def list_emb_append_mono)

definition effect :: "manifest list \<Rightarrow> 'w creater \<Rightarrow> bool \<Rightarrow> 'w creater \<times> bool \<times> bool \<Rightarrow> bool" where
  "effect todo c ok r \<longleftrightarrow>
     (case r of (c', ok', stop) \<Rightarrow>
        c_strict c' = c_strict c \<and>
        (\<exists>out sent. c_out c' = c_out c @ out \<and> c_sent c' = c_sent c @ sent \<and> posts_match out sent \<and>
           prefix (attempted out) todo \<and> (\<not> stop \<longrightarrow> attempted out = todo) \<and>
           (ok' \<longleftrightarrow> ok \<and> \<not> list_ex is_failure out) \<and> (stop \<longleftrightarrow> c_strict c \<and> list_ex is_failure out) \<and>
           (c_strict c \<longrightarrow> \<not> list_ex is_failure (butlast out))))"

lemma effectI:
  "c_strict c' = c_strict c \<Longrightarrow> c_out c' = c_out c @ out \<Longrightarrow> c_sent c' = c_sent c @ sent \<Longrightarrow> posts_match out sent \<Longrightarrow>
   prefix (attempted out) todo \<Longrightarrow> (\<not> stop \<Longrightarrow> attempted out = todo) \<Longrightarrow>
   (ok' \<longleftrightarrow> ok \<and> \<not> list_ex is_failure out) \<Longrightarrow> (stop \<longleftrightarrow> c_strict c \<and> list_ex is_failure out) \<Longrightarrow>
   (c_strict c \<Longrightarrow> \<not> list_ex is_failure (butlast out)) \<Longrightarrow> effect todo c ok (c', ok', stop)"
  unfolding effect_def by auto

lemma effectE:
  assumes "effect todo c ok (c', ok', stop)"
  obtains out sent where "c_strict c' = c_strict c" "c_out c' = c_out c @ out" "c_sent c' = c_sent c @ sent" "posts_match out sent"
    "prefix (attempted out) todo" "\<not> stop \<Longrightarrow> attempted out = todo"
    "ok' \<longleftrightarrow> ok \<and> \<not> list_ex is_failure out" "stop \<longleftrightarrow> c_strict c \<and> list_ex is_failure out"
    "c_strict c \<Longrightarrow> \<not> list_ex is_failure (butlast out)"
  using assms unfolding effect_def by auto

lemma effect_seq:
  assumes "effect t1 c ok (c1, ok1, False)" and r: "effect t2 c1 ok1 r"
  shows "effect (t1 @ t2) c ok r"
proof -
  obtain c2 ok2 stop where r2: "r = (c2, ok2, stop)" by (cases r)
  from assms(1) obtain out1 sent1 where 1: "c_strict c1 = c_strict c" "c_out c1 = c_out c @ out1" "attempted out1 = t1"
    "ok1 \<longleftrightarrow> ok \<and> \<not> list_ex is_failure out1" "\<not> (c_strict c \<and> list_ex is_failure out1)"
    "c_sent c1 = c_sent c @ sent1" "posts_match out1 sent1"
    by (elim effectE) simp
  from r [unfolded r2] obtain out2 sent2 where 2: "c_strict c2 = c_strict c1" "c_out c2 = c_out c1 @ out2" "prefix (attempted out2) t2"
    "\<not> stop \<Longrightarrow> attempted out2 = t2" "ok2 \<longleftrightarrow> ok1 \<and> \<not> list_ex is_failure out2" "stop \<longleftrightarrow> c_strict c1 \<and> list_ex is_failure out2"
    "c_sent c2 = c_sent c1 @ sent2" "posts_match out2 sent2" "c_strict c1 \<Longrightarrow> \<not> list_ex is_failure (butlast out2)"
    by (elim effectE) simp
  have "\<not> list_ex is_failure (butlast (out1 @ out2))" if "c_strict c"
    using that 1(1,5) 2(9) by (auto simp: butlast_append list_ex_iff dest: in_set_butlastD)
  then show ?thesis unfolding r2
    by (intro effectI [of _ _ "out1 @ out2" "sent1 @ sent2"]) (use 1 2 posts_match_append in auto)
qed

lemma effect_stop:
  "effect t1 c ok (c1, ok1, True) \<Longrightarrow> effect (t1 @ t2) c ok (c1, False, True)"
  by (elim effectE) (rule effectI, auto)

definition andThen ::
  "(bool \<Rightarrow> 'w creater \<Rightarrow> 'w creater \<times> bool \<times> bool) \<Rightarrow> (bool \<Rightarrow> 'w creater \<Rightarrow> 'w creater \<times> bool \<times> bool) \<Rightarrow> bool \<Rightarrow> 'w creater \<Rightarrow> 'w creater \<times> bool \<times> bool" where
  "andThen run continue ok c = (case run ok c of (c1, ok1, stop1) \<Rightarrow> if stop1 then (c1, False, True) else continue ok1 c1)"

text \<open>The contract of a phase: its effect, and which requests it sends.\<close>

locale phase =
  fixes run :: "bool \<Rightarrow> 'w creater \<Rightarrow> 'w creater \<times> bool \<times> bool"
    and todo :: "manifest list"
    and sends :: "request list \<Rightarrow> bool"
  assumes run_effect: "effect todo c ok (run ok c)"
    and run_sent: "\<exists>sent. c_sent (fst (run ok c)) = c_sent c @ sent \<and> sends sent"
begin

lemma then_effect:
  assumes "\<And>c ok. effect t2 c ok (continue ok c)"
  shows "effect (todo @ t2) c ok (andThen run continue ok c)"
proof -
  obtain c1 ok1 stop where r: "run ok c = (c1, ok1, stop)" by (metis prod_cases3)
  show ?thesis
    using run_effect [of c ok] assms [of c1 ok1] effect_seq [of todo c ok c1 ok1] effect_stop [of todo c ok c1 ok1 t2]
    unfolding andThen_def r by (cases stop) simp_all
qed

lemma then_sent:
  assumes "\<And>c ok. \<exists>sent. c_sent (fst (continue ok c)) = c_sent c @ sent \<and> P sent"
    and "P []"
  shows "\<exists>sent sent'. c_sent (fst (andThen run continue ok c)) = c_sent c @ sent @ sent' \<and> sends sent \<and> P sent'"
proof -
  obtain c1 ok1 stop where r: "run ok c = (c1, ok1, stop)" by (metis prod_cases3)
  obtain sent where s: "c_sent c1 = c_sent c @ sent" "sends sent" using run_sent [of ok c] by (auto simp: r)
  show ?thesis
  proof (cases stop)
    case True
    then show ?thesis using s assms(2) by (intro exI [of _ sent] exI [of _ "[]"]) (simp add: andThen_def r)
  next
    case False
    obtain sent' where "c_sent (fst (continue ok1 c1)) = c_sent c1 @ sent'" "P sent'" using assms(1) by blast
    then show ?thesis using s False by (intro exI [of _ sent] exI [of _ sent']) (simp add: andThen_def r)
  qed
qed

end

lemma createManifests_phases:
  "createManifests a U sortSlice ticks ms c =
     (case andThen (createAll a (filter is_namespace (sortSlice ms)))
            (andThen (createAll a (filter is_crd (sortSlice ms)))
            (andThen (waitAll a U ticks (filter is_crd (sortSlice ms)))
              (createAll a (filter (\<lambda>m. m_raw m \<noteq> ''null'') (filter (\<lambda>m. \<not> is_crd m \<and> \<not> is_namespace m) (sortSlice ms)))))) True c of
        (c', ok, stop) \<Rightarrow> (c', if stop then False else ok))"
proof -
  let ?crds = "filter is_crd (sortSlice ms)"
  obtain c1 ok1 s1 where 1: "createAll a (filter is_namespace (sortSlice ms)) True c = (c1, ok1, s1)" by (metis prod_cases3)
  obtain c2 ok2 s2 where 2: "createAll a ?crds ok1 c1 = (c2, ok2, s2)" by (metis prod_cases3)
  obtain c3 ok3 s3 where 3: "waitAll a U ticks ?crds ok2 c2 = (c3, ok3, s3)" by (metis prod_cases3)
  show ?thesis by (simp add: createManifests_def andThen_def Let_def 1 2 3)
qed

lemma send_simps [simp]:
  "c_strict (send q w c) = c_strict c" "c_out (send q w c) = c_out c" "c_sent (send q w c) = c_sent c @ [q]"
  "c_world (send q w c) = w" "c_cache (send q w c) = c_cache c"
  by (simp_all add: send_def)

lemma UserOutput_simps [simp]:
  "c_strict (UserOutput x c) = c_strict c" "c_out (UserOutput x c) = c_out c @ [x]" "c_sent (UserOutput x c) = c_sent c"
  "c_world (UserOutput x c) = c_world c" "c_cache (UserOutput x c) = c_cache c"
  by (simp_all add: UserOutput_def)

lemma resourceInfo_frame:
  assumes "resourceInfo a gv kind c = (c1, r)"
  shows "c_strict c1 = c_strict c" "c_out c1 = c_out c" "c_sent c1 \<in> {c_sent c, c_sent c @ [Discover gv]}"
  using assms by (auto simp: resourceInfo_def Let_def split: option.splits prod.splits sum.splits)

lemma create_frame:
  assumes "create a m c = (c1, r)"
  shows "c_strict c1 = c_strict c" "c_out c1 = c_out c"
    "\<exists>sent. c_sent c1 = c_sent c @ sent \<and> list_all (\<lambda>q. \<not> is_list q) sent \<and> subseq (posted sent) [m_raw m] \<and> (r = None \<longrightarrow> posted sent = [m_raw m])"
proof -
  obtain c0 i where i: "resourceInfo a (m_apiVersion m) (m_kind m) c = (c0, i)" by fastforce
  note fr = resourceInfo_frame [OF i]
  show "c_strict c1 = c_strict c" "c_out c1 = c_out c"
    using assms fr by (auto simp: create_def i Let_def split: sum.splits prod.splits)
  show "\<exists>sent. c_sent c1 = c_sent c @ sent \<and> list_all (\<lambda>q. \<not> is_list q) sent \<and> subseq (posted sent) [m_raw m] \<and> (r = None \<longrightarrow> posted sent = [m_raw m])"
    using assms fr(3) by (auto simp: create_def i Let_def split: sum.splits prod.splits)
qed

lemma createAll_effect: "effect ms c ok (createAll a ms ok c)"
proof (induction ms arbitrary: c ok)
  case Nil
  show ?case using effectI [of c c "[]" "[]" "[]" False ok ok] by (simp add: posts_match_def)
next
  case (Cons m ms)
  obtain c1 r where cr: "create a m c = (c1, r)" by fastforce
  note fr = create_frame(1,2) [OF cr]
  from create_frame(3) [OF cr] obtain sent where sent: "c_sent c1 = c_sent c @ sent" "subseq (posted sent) [m_raw m]" "r = None \<longrightarrow> posted sent = [m_raw m]"
    by blast
  show ?case
  proof (cases r)
    case None
    have "effect [m] c ok (UserOutput (Created m) c1, ok, False)"
      using fr sent None by (intro effectI [of _ _ "[Created m]" sent]) (simp_all add: posts_match_def)
    from effect_seq [OF this Cons.IH] show ?thesis using cr None by simp
  next
    case (Some e)
    show ?thesis
    proof (cases "c_strict c")
      case True
      have "effect [m] c ok (UserOutput (FailedCreating m e) c1, False, True)"
        using fr sent True by (intro effectI [of _ _ "[FailedCreating m e]" sent]) (simp_all add: posts_match_def)
      from effect_stop [OF this, of ms] show ?thesis using cr Some True by simp
    next
      case False
      have "effect [m] c ok (UserOutput (FailedCreating m e) c1, False, False)"
        using fr sent False by (intro effectI [of _ _ "[FailedCreating m e]" sent]) (simp_all add: posts_match_def)
      from effect_seq [OF this Cons.IH] show ?thesis using cr Some False by simp
    qed
  qed
qed

lemma createAll_sent:
  "\<exists>sent. c_sent (fst (createAll a ms ok c)) = c_sent c @ sent \<and> list_all (\<lambda>q. \<not> is_list q) sent \<and> subseq (posted sent) (map m_raw ms)"
proof (induction ms arbitrary: c ok)
  case (Cons m ms)
  obtain c1 r where cr: "create a m c = (c1, r)" by fastforce
  from create_frame(3) [OF cr] obtain s1 where s1:
    "c_sent c1 = c_sent c @ s1" "list_all (\<lambda>q. \<not> is_list q) s1" "subseq (posted s1) [m_raw m]" by blast
  have rest: "\<exists>sent. c_sent (fst (createAll a ms ok' (UserOutput x c1))) = c_sent c @ sent \<and> list_all (\<lambda>q. \<not> is_list q) sent \<and>
      subseq (posted sent) (map m_raw (m # ms))" for ok' x
  proof -
    obtain s2 where s2: "c_sent (fst (createAll a ms ok' (UserOutput x c1))) = c_sent c1 @ s2" "list_all (\<lambda>q. \<not> is_list q) s2" "subseq (posted s2) (map m_raw ms)"
      using Cons.IH [of ok' "UserOutput x c1"] by auto
    have "subseq (posted s1 @ posted s2) ([m_raw m] @ map m_raw ms)" using s1(3) s2(3) by (rule list_emb_append_mono)
    then show ?thesis using s1 s2 by (intro exI [of _ "s1 @ s2"]) simp
  qed
  have stop: "\<exists>sent. c_sent c1 = c_sent c @ sent \<and> list_all (\<lambda>q. \<not> is_list q) sent \<and> subseq (posted sent) (map m_raw (m # ms))"
    using s1 list_emb_append_mono [OF s1(3), of "[]" "map m_raw ms"] by (intro exI [of _ s1]) simp
  show ?case using cr rest stop by (cases r; cases "c_strict c") simp_all
qed simp

interpretation creating: phase "createAll a ms" ms
  "\<lambda>sent. list_all (\<lambda>q. \<not> is_list q) sent \<and> subseq (posted sent) (map m_raw ms)" for a ms
  by unfold_locales (rule createAll_effect, rule createAll_sent)

text \<open>Waiting for a custom resource only lists it.\<close>

definition listed :: "'w creater \<Rightarrow> 'w creater \<Rightarrow> bool" where
  "listed c c' \<longleftrightarrow> c_strict c' = c_strict c \<and> c_out c' = c_out c \<and> c_cache c' = c_cache c \<and>
     (\<exists>sent. c_sent c' = c_sent c @ sent \<and> list_all is_list sent)"

lemma waitForCRD_listed: "listed c (fst (waitForCRD a U ticks m c))"
proof -
  have refl: "listed c c" by (simp add: listed_def)
  have "listed c (fst (crd_served a uri c'))" if "listed c c'" for uri c'
    using that by (auto simp: crd_served_def listed_def split: prod.splits get_answer.splits)
  from WaitFor_inv [of "listed c" c, OF refl this]
  have "listed c (fst (wait_PollImmediate ticks (crd_served a uri) c))" for uri
    by (simp add: wait_PollImmediate_Poll wait_Poll_def)
  with refl show ?thesis by (simp add: waitForCRD_def split: sum.splits)
qed

lemma waitAll_effect: "effect [] c ok (waitAll a U ticks ms ok c)"
proof (induction ms arbitrary: c ok)
  case Nil
  show ?case using effectI [of c c "[]" "[]" "[]" False ok ok] by (simp add: posts_match_def)
next
  case (Cons m ms)
  obtain c1 r where w: "waitForCRD a U (ticks m) m c = (c1, r)" by fastforce
  obtain sent where fr: "c_strict c1 = c_strict c" "c_out c1 = c_out c" "c_sent c1 = c_sent c @ sent" "posted sent = []"
    using waitForCRD_listed [of c a U "ticks m" m] w posted_lists by (auto simp: listed_def)
  show ?case
  proof (cases r)
    case None
    have "effect [] c ok (c1, ok, False)" using fr by (intro effectI [of _ _ "[]" sent]) (simp_all add: posts_match_def)
    from effect_seq [OF this Cons.IH] show ?thesis using w None by simp
  next
    case (Some e)
    show ?thesis
    proof (cases "c_strict c")
      case True
      have "effect [] c ok (UserOutput (FailedWaiting m e) c1, False, True)"
        using fr True by (intro effectI [of _ _ "[FailedWaiting m e]" sent]) (simp_all add: posts_match_def)
      then show ?thesis using w Some True by simp
    next
      case False
      have "effect [] c ok (UserOutput (FailedWaiting m e) c1, False, False)"
        using fr False by (intro effectI [of _ _ "[FailedWaiting m e]" sent]) (simp_all add: posts_match_def)
      from effect_seq [OF this Cons.IH] show ?thesis using w Some False by simp
    qed
  qed
qed

lemma waitAll_sent: "\<exists>sent. c_sent (fst (waitAll a U ticks ms ok c)) = c_sent c @ sent \<and> list_all is_list sent"
proof (induction ms arbitrary: c ok)
  case (Cons m ms)
  obtain c1 r where w: "waitForCRD a U (ticks m) m c = (c1, r)" by fastforce
  then obtain s1 where s1: "c_sent c1 = c_sent c @ s1" "list_all is_list s1"
    using waitForCRD_listed [of c a U "ticks m" m] by (auto simp: listed_def)
  have rest: "\<exists>sent. c_sent (fst (waitAll a U ticks ms ok' c2)) = c_sent c @ sent \<and> list_all is_list sent"
    if "c_sent c2 = c_sent c1" for ok' c2
  proof -
    obtain s2 where "c_sent (fst (waitAll a U ticks ms ok' c2)) = c_sent c2 @ s2" "list_all is_list s2" using Cons.IH by blast
    then show ?thesis using s1 that by (intro exI [of _ "s1 @ s2"]) simp
  qed
  show ?case using w rest [of c1] rest [of "UserOutput _ c1"] s1 by (cases r; cases "c_strict c") auto
qed simp

interpretation waiting: phase "waitAll a U ticks ms" "[]" "list_all is_list" for a U ticks ms
  by unfold_locales (rule waitAll_effect, rule waitAll_sent)

section \<open>Properties of the creation\<close>

text \<open>The order in which manifests are to be created, given them sorted by file.\<close>

definition creation_order :: "manifest list \<Rightarrow> manifest list" where
  "creation_order ms = filter is_namespace ms @ filter is_crd ms @
     filter (\<lambda>m. m_raw m \<noteq> ''null'') (filter (\<lambda>m. \<not> is_crd m \<and> \<not> is_namespace m) ms)"

lemma createManifests_effect:
  assumes "createManifests a U sortSlice ticks ms c = (c', ok)"
  shows "\<exists>stop. effect (creation_order (sortSlice ms)) c True (c', ok, stop)"
proof -
  let ?S = "sortSlice ms"
  let ?others = "filter (\<lambda>m. m_raw m \<noteq> ''null'') (filter (\<lambda>m. \<not> is_crd m \<and> \<not> is_namespace m) ?S)"
  define run where "run = andThen (createAll a (filter is_namespace ?S)) (andThen (createAll a (filter is_crd ?S))
    (andThen (waitAll a U ticks (filter is_crd ?S)) (createAll a ?others)))"
  have "effect ([] @ ?others) c1 ok1 (andThen (waitAll a U ticks (filter is_crd ?S)) (createAll a ?others) ok1 c1)" for c1 ok1
    by (rule waiting.then_effect) (rule creating.run_effect)
  then have "effect (creation_order ?S) c True (run True c)"
    unfolding run_def creation_order_def by (intro creating.then_effect) simp
  moreover have "(case run True c of (c', ok, stop) \<Rightarrow> (c', if stop then False else ok)) = (c', ok)"
    using assms unfolding run_def createManifests_phases .
  then obtain ok' stop where r: "run True c = (c', ok', stop)" "ok = (if stop then False else ok')"
    by (cases "run True c") auto
  ultimately have e: "effect (creation_order ?S) c True (c', ok', stop)" by simp
  then have "stop \<Longrightarrow> \<not> ok'" by (elim effectE) simp
  with e r(2) show ?thesis by (cases stop) auto
qed

text \<open>
  The requests come in three stages. First only discovery and posts, whose bodies are
  namespaces and then definitions of custom resources; then only listings of custom resources,
  which is the wait until they are served; and only then the posts of everything else. So no
  custom resource is posted before the wait for its definition is over.
\<close>

lemma requests_come_in_stages:
  "\<exists>defs waits rest. c_sent (fst (createManifests a U sortSlice ticks ms c)) = c_sent c @ defs @ waits @ rest \<and>
     list_all (\<lambda>q. \<not> is_list q) defs \<and> list_all is_list waits \<and> list_all (\<lambda>q. \<not> is_list q) rest \<and>
     subseq (posted defs) (map m_raw (filter is_namespace (sortSlice ms) @ filter is_crd (sortSlice ms))) \<and>
     subseq (posted rest) (map m_raw (filter (\<lambda>m. \<not> is_crd m \<and> \<not> is_namespace m \<and> m_raw m \<noteq> ''null'') (sortSlice ms)))"
proof -
  let ?S = "sortSlice ms"
  let ?others = "filter (\<lambda>m. m_raw m \<noteq> ''null'') (filter (\<lambda>m. \<not> is_crd m \<and> \<not> is_namespace m) ?S)"
  let ?crds = "createAll a (filter is_crd ?S)" and ?wait = "waitAll a U ticks (filter is_crd ?S)"
  let ?creates = "\<lambda>ms sent. list_all (\<lambda>q. \<not> is_list q) sent \<and> subseq (posted sent) (map m_raw ms)"
  let ?last = "\<lambda>s. \<exists>s3 s4. s = s3 @ s4 \<and> list_all is_list s3 \<and> ?creates ?others s4"
  let ?two = "\<lambda>s. \<exists>s2 s34. s = s2 @ s34 \<and> ?creates (filter is_crd ?S) s2 \<and> ?last s34"
  have "\<exists>s. c_sent (fst (andThen ?wait (createAll a ?others) ok1 c1)) = c_sent c1 @ s \<and> ?last s" for ok1 c1
    using waiting.then_sent [of "createAll a ?others" "?creates ?others" a U ticks "filter is_crd ?S" ok1 c1, OF creating.run_sent]
    by force
  moreover have "?last []" by simp
  ultimately have "\<exists>s. c_sent (fst (andThen ?crds (andThen ?wait (createAll a ?others)) ok1 c1)) = c_sent c1 @ s \<and> ?two s" for ok1 c1
    using creating.then_sent [of "andThen ?wait (createAll a ?others)" ?last a "filter is_crd ?S" ok1 c1] by blast
  moreover have "?two []" by simp
  ultimately obtain s1 s where s: "c_sent (fst (andThen (createAll a (filter is_namespace ?S)) (andThen ?crds (andThen ?wait (createAll a ?others))) True c)) = c_sent c @ s1 @ s"
    "?creates (filter is_namespace ?S) s1" "?two s"
    using creating.then_sent [of "andThen ?crds (andThen ?wait (createAll a ?others))" ?two a "filter is_namespace ?S" True c] by blast
  then obtain s2 s3 s4 where s234: "s = s2 @ s3 @ s4" "?creates (filter is_crd ?S) s2" "list_all is_list s3" "?creates ?others s4" by blast
  have "c_sent (fst (createManifests a U sortSlice ticks ms c)) = c_sent c @ (s1 @ s2) @ s3 @ s4"
    using s(1) s234(1) by (simp add: createManifests_phases case_prod_beta)
  moreover have "subseq (posted (s1 @ s2)) (map m_raw (filter is_namespace ?S @ filter is_crd ?S))"
    using s(2) s234(2) list_emb_append_mono [of "(=)" "posted s1"] by simp
  moreover have "?others = filter (\<lambda>m. \<not> is_crd m \<and> \<not> is_namespace m \<and> m_raw m \<noteq> ''null'') ?S" by (simp add: conj_ac)
  ultimately show ?thesis using s(2) s234 by (intro exI [of _ "s1 @ s2"] exI [of _ s3] exI [of _ s4]) simp
qed

text \<open>
  C22: Manifests are attempted in this order: first the namespaces, then the definitions of
  custom resources, then everything else that is not empty, and within each of the three by
  the path of their file. Each is attempted at most once. Without strict mode every one of
  them is attempted whatever fails; in strict mode nothing is attempted after the first failure.
  The result is success exactly when nothing failed, and then everything was attempted. The
  requests sent agree with the messages: what is reported as created was posted, only what was
  attempted was posted, both in that order. And they come in stages: the posts of namespaces and
  definitions, then nothing but the listings that wait for the definitions to be served, and
  only then the posts of the rest.
\<close>

theorem manifests_created_in_order:
  assumes sorts: "mset (sortSlice ms) = mset ms" "sorted (map m_filepath (sortSlice ms))"
    and run: "createManifests a U sortSlice ticks ms c = (c', ok)"
  shows "\<exists>out sent ns crds others. c_out c' = c_out c @ out \<and> c_sent c' = c_sent c @ sent \<and>
     mset ns = filter_mset is_namespace (mset ms) \<and> mset crds = filter_mset is_crd (mset ms) \<and>
     mset others = filter_mset (\<lambda>m. \<not> is_crd m \<and> \<not> is_namespace m \<and> m_raw m \<noteq> ''null'') (mset ms) \<and>
     sorted (map m_filepath ns) \<and> sorted (map m_filepath crds) \<and> sorted (map m_filepath others) \<and>
     prefix (attempted out) (ns @ crds @ others) \<and>
     (\<not> c_strict c \<or> ok \<longrightarrow> attempted out = ns @ crds @ others) \<and>
     (c_strict c \<longrightarrow> \<not> list_ex is_failure (butlast out)) \<and>
     (ok \<longleftrightarrow> \<not> list_ex is_failure out) \<and>
     subseq (map m_raw (created out)) (posted sent) \<and> subseq (posted sent) (map m_raw (attempted out)) \<and>
     (\<exists>defs waits rest. sent = defs @ waits @ rest \<and>
        list_all (\<lambda>q. \<not> is_list q) defs \<and> list_all is_list waits \<and> list_all (\<lambda>q. \<not> is_list q) rest \<and>
        subseq (posted defs) (map m_raw (ns @ crds)) \<and> subseq (posted rest) (map m_raw others))"
proof -
  let ?S = "sortSlice ms"
  let ?others = "filter (\<lambda>m. \<not> is_crd m \<and> \<not> is_namespace m \<and> m_raw m \<noteq> ''null'') ?S"
  have order: "creation_order ?S = filter is_namespace ?S @ filter is_crd ?S @ ?others"
    by (simp add: creation_order_def conj_ac)
  obtain stop where "effect (creation_order ?S) c True (c', ok, stop)" using createManifests_effect [OF run] by blast
  then obtain out sent where out: "c_out c' = c_out c @ out" "c_sent c' = c_sent c @ sent"
    "prefix (attempted out) (creation_order ?S)" "stop \<or> attempted out = creation_order ?S" "ok \<longleftrightarrow> \<not> list_ex is_failure out"
    "stop \<longleftrightarrow> c_strict c \<and> list_ex is_failure out" "c_strict c \<longrightarrow> \<not> list_ex is_failure (butlast out)" "posts_match out sent"
    by (elim effectE) (rule that, auto)
  have part: "mset (filter P ?S) = filter_mset P (mset ms)" "sorted (map m_filepath (filter P ?S))" for P
    using sorts by (simp_all add: sorted_filter)
  have all: "attempted out = creation_order ?S" if "\<not> c_strict c \<or> ok" using that out(4-6) by blast
  have stages: "\<exists>defs waits rest. sent = defs @ waits @ rest \<and>
        list_all (\<lambda>q. \<not> is_list q) defs \<and> list_all is_list waits \<and> list_all (\<lambda>q. \<not> is_list q) rest \<and>
        subseq (posted defs) (map m_raw (filter is_namespace ?S @ filter is_crd ?S)) \<and> subseq (posted rest) (map m_raw ?others)"
    using requests_come_in_stages [of a U sortSlice ticks ms c] out(2) by (simp add: run)
  show ?thesis
    by (rule exI [of _ out], rule exI [of _ sent], rule exI [of _ "filter is_namespace ?S"], rule exI [of _ "filter is_crd ?S"], rule exI [of _ ?others])
       (use out(1,2,3,5,7,8) all stages in \<open>simp add: part(2) sorts(1) order posts_match_def\<close>)
qed

text \<open>A server that knows namespaces and pods and refuses to create the latter.\<close>

definition example_api :: "unit api" where
  "example_api = \<lparr>api_ClientConfig = None, api_RESTClient = None, api_DiscoveryClient = None, api_Clientset = None,
     api_Resources = (\<lambda>gv w. (w, if gv = ''v1'' then Inr [\<lparr>r_Name = ''namespaces'', r_Namespaced = False, r_Kind = ''Namespace''\<rparr>,
        \<lparr>r_Name = ''pods'', r_Namespaced = True, r_Kind = ''Pod''\<rparr>] else Inl (Err ''no such group''))),
     api_Post = (\<lambda>url body w. (w, if url = ''/api/v1/pods'' then Some (Err ''forbidden'') else None)),
     api_List = (\<lambda>uri w. (w, GetOk)), api_Healthz = (\<lambda>w. (w, 200)), api_GetNamespace = (\<lambda>ns w. (w, None))\<rparr>"

definition example_creater :: "unit creater" where
  "example_creater = \<lparr>c_world = (), c_strict = False, c_cache = [], c_sent = [], c_out = []\<rparr>"

definition example_created :: "unit creater \<times> bool" where
  "example_created = createManifests example_api (\<lambda>_. Inl (Err ''no crd'')) (sort_key m_filepath) (\<lambda>_. 0)
     [example_manifest ''Pod'' ''a'', example_manifest ''Namespace'' ''b''] example_creater"

theorem manifests_created_in_order_witness:
  "\<exists>out sent. c_out (fst example_created) = out \<and> c_sent (fst example_created) = sent \<and>
     attempted out = [example_manifest ''Namespace'' ''b'', example_manifest ''Pod'' ''a''] \<and>
     list_ex is_failure out \<and> \<not> snd example_created \<and> subseq (posted sent) (map m_raw (attempted out))"
proof -
  let ?ms = "[example_manifest ''Pod'' ''a'', example_manifest ''Namespace'' ''b'']"
  have failed: "\<not> snd example_created" by code_simp
  have kinds: "\<not> is_crd (example_manifest ''Pod'' ''a'')" "\<not> is_crd (example_manifest ''Namespace'' ''b'')"
    "\<not> is_namespace (example_manifest ''Pod'' ''a'')" "is_namespace (example_manifest ''Namespace'' ''b'')"
    "m_raw (example_manifest ''Pod'' ''a'') \<noteq> ''null''" by code_simp+
  have "createManifests example_api (\<lambda>_. Inl (Err ''no crd'')) (sort_key m_filepath) (\<lambda>_. 0) ?ms example_creater
      = (fst example_created, snd example_created)" by (simp add: example_created_def)
  from manifests_created_in_order [OF mset_sort sorted_sort_key this] obtain out sent ns crds others where
    "c_out (fst example_created) = c_out example_creater @ out" "c_sent (fst example_created) = c_sent example_creater @ sent"
    "mset ns = filter_mset is_namespace (mset ?ms)" "mset crds = filter_mset is_crd (mset ?ms)"
    "mset others = filter_mset (\<lambda>m. \<not> is_crd m \<and> \<not> is_namespace m \<and> m_raw m \<noteq> ''null'') (mset ?ms)"
    "\<not> c_strict example_creater \<or> snd example_created \<longrightarrow> attempted out = ns @ crds @ others" "snd example_created \<longleftrightarrow> \<not> list_ex is_failure out"
    "subseq (posted sent) (map m_raw (attempted out))"
    by (elim exE conjE) (rule that)
  then show ?thesis using failed kinds by (auto simp: example_creater_def)
qed

section \<open>The resource cache\<close>

text \<open>What a lookup makes of an answer of the server.\<close>

definition direct :: "go_error + APIResource list \<Rightarrow> string \<Rightarrow> string \<Rightarrow> go_error + APIResource" where
  "direct ans gv kind =
     (case ans of
        Inl e \<Rightarrow> Inl (Errorf (''discover group version '' @ gv) e)
      | Inr l \<Rightarrow>
          (case List.find (\<lambda>r. r_Kind r = kind) l of
             Some r \<Rightarrow> Inr r
           | None \<Rightarrow> Inl (Err (''resource '' @ gv @ '' '' @ kind @ '' not found''))))"

fun lookups :: "'w api \<Rightarrow> (string \<times> string) list \<Rightarrow> 'w creater \<Rightarrow> 'w creater \<times> (go_error + APIResource) list" where
  "lookups a [] c = (c, [])"
| "lookups a (q # qs) c =
     (case resourceInfo a (fst q) (snd q) c of (c1, r) \<Rightarrow> (case lookups a qs c1 of (c2, rs) \<Rightarrow> (c2, r # rs)))"

text \<open>
  The state before the \<open>i\<close>-th of some lookups, what the server would say to it then, whether it
  is asked, and the last list of resources that it gave for a group version before that lookup.
\<close>

definition before :: "'w api \<Rightarrow> (string \<times> string) list \<Rightarrow> 'w creater \<Rightarrow> nat \<Rightarrow> 'w creater" where
  "before a qs c i = fst (lookups a (take i qs) c)"

definition server_answer :: "'w api \<Rightarrow> (string \<times> string) list \<Rightarrow> 'w creater \<Rightarrow> nat \<Rightarrow> go_error + APIResource list" where
  "server_answer a qs c i = snd (api_Resources a (fst (qs ! i)) (c_world (before a qs c i)))"

definition asked :: "'w api \<Rightarrow> (string \<times> string) list \<Rightarrow> 'w creater \<Rightarrow> nat \<Rightarrow> bool" where
  "asked a qs c i \<longleftrightarrow> c_sent (before a qs c (Suc i)) = c_sent (before a qs c i) @ [Discover (fst (qs ! i))]"

primrec latest :: "'w api \<Rightarrow> (string \<times> string) list \<Rightarrow> 'w creater \<Rightarrow> string \<Rightarrow> nat \<Rightarrow> APIResource list option" where
  "latest a qs c gv 0 = None"
| "latest a qs c gv (Suc i) =
     (if fst (qs ! i) = gv \<and> asked a qs c i
      then (case server_answer a qs c i of Inr l \<Rightarrow> Some l | Inl e \<Rightarrow> latest a qs c gv i)
      else latest a qs c gv i)"

lemma lookups_append:
  "lookups a (qs @ qs') c =
     (let (c1, rs) = lookups a qs c; (c2, rs') = lookups a qs' c1 in (c2, rs @ rs'))"
  by (induction qs arbitrary: c) (simp_all add: case_prod_beta Let_def)

lemma length_lookups: "length (snd (lookups a qs c)) = length qs"
  by (induction qs arbitrary: c) (simp_all add: case_prod_beta)

lemma before_Suc:
  "i < length qs \<Longrightarrow> before a qs c (Suc i) = fst (resourceInfo a (fst (qs ! i)) (snd (qs ! i)) (before a qs c i))"
  by (simp add: before_def take_Suc_conv_app_nth lookups_append case_prod_beta)

lemma lookup_at:
  assumes "i < length qs"
  shows "snd (lookups a qs c) ! i = snd (resourceInfo a (fst (qs ! i)) (snd (qs ! i)) (before a qs c i))"
proof -
  have "snd (lookups a (take i qs @ qs ! i # drop (Suc i) qs) c) ! i
      = snd (resourceInfo a (fst (qs ! i)) (snd (qs ! i)) (before a qs c i))"
    using assms by (simp add: lookups_append case_prod_beta before_def nth_append length_lookups)
  then show ?thesis using assms by (simp add: id_take_nth_drop [symmetric])
qed

text \<open>One lookup, from what the cache holds.\<close>

lemma resourceInfo_cached:
  "Option.bind (map_of (c_cache c) gv) (List.find (\<lambda>r. r_Kind r = kind)) = Some r \<Longrightarrow> resourceInfo a gv kind c = (c, Inr r)"
  by (simp add: resourceInfo_def)

lemma resourceInfo_asks:
  assumes "Option.bind (map_of (c_cache c) gv) (List.find (\<lambda>r. r_Kind r = kind)) = None"
  shows "snd (resourceInfo a gv kind c) = direct (snd (api_Resources a gv (c_world c))) gv kind"
    and "c_sent (fst (resourceInfo a gv kind c)) = c_sent c @ [Discover gv]"
    and "map_of (c_cache (fst (resourceInfo a gv kind c))) =
       (case snd (api_Resources a gv (c_world c)) of Inl e \<Rightarrow> map_of (c_cache c) | Inr l \<Rightarrow> (map_of (c_cache c))(gv \<mapsto> l))"
  using assms
  by (auto simp: resourceInfo_def direct_def Let_def update_conv' split: prod.splits sum.splits option.splits)

lemma cache_is_latest:
  assumes "c_cache c = []" and "i \<le> length qs"
  shows "map_of (c_cache (before a qs c i)) gv = latest a qs c gv i"
  using assms(2)
proof (induction i arbitrary: gv)
  case 0
  then show ?case using assms(1) by (simp add: before_def)
next
  case (Suc i)
  let ?b = "before a qs c i" and ?q = "qs ! i"
  have b: "before a qs c (Suc i) = fst (resourceInfo a (fst ?q) (snd ?q) ?b)" using Suc.prems by (simp add: before_Suc)
  show ?case
  proof (cases "Option.bind (map_of (c_cache ?b) (fst ?q)) (List.find (\<lambda>r. r_Kind r = snd ?q))")
    case (Some r)
    then have same: "before a qs c (Suc i) = ?b" using b by (simp add: resourceInfo_cached)
    then have "\<not> asked a qs c i" by (simp add: asked_def)
    then show ?thesis using Suc same by simp
  next
    case None
    have "asked a qs c i" using b resourceInfo_asks(2) [OF None] by (simp add: asked_def)
    then show ?thesis
      using Suc b resourceInfo_asks(3) [OF None] by (simp add: server_answer_def split: sum.splits)
  qed
qed

text \<open>
  C24: The cache of discovered resources never hides what the server knows. A lookup is
  answered without a request only when the last list that the server gave for that group version
  has the kind, and then with that entry. In every other case, so also when the group version is
  known but the kind is not in its list, the server is asked then, and the result is what it says
  then, errors included. The server may answer differently every time.
\<close>

theorem resource_cache_transparent:
  assumes "newCreater a strict w = Inr c" and "i < length qs" and "qs ! i = (gv, kind)"
  shows "(\<exists>l r. latest a qs c gv i = Some l \<and> List.find (\<lambda>r. r_Kind r = kind) l = Some r \<and>
            snd (lookups a qs c) ! i = Inr r \<and> before a qs c (Suc i) = before a qs c i) \<or>
         ((\<forall>l. latest a qs c gv i = Some l \<longrightarrow> List.find (\<lambda>r. r_Kind r = kind) l = None) \<and>
            asked a qs c i \<and> snd (lookups a qs c) ! i = direct (server_answer a qs c i) gv kind)"
proof -
  let ?b = "before a qs c i"
  have "c_cache c = []" using assms(1) by (auto simp: newCreater_def split: option.splits)
  then have cache: "map_of (c_cache ?b) gv = latest a qs c gv i" using assms(2) by (simp add: cache_is_latest)
  show ?thesis
  proof (cases "Option.bind (latest a qs c gv i) (List.find (\<lambda>r. r_Kind r = kind))")
    case (Some r)
    then have "resourceInfo a gv kind ?b = (?b, Inr r)" using cache by (simp add: resourceInfo_cached)
    then show ?thesis using Some assms(2,3) by (auto simp: lookup_at before_Suc bind_eq_Some_conv)
  next
    case None
    note ri = resourceInfo_asks [of ?b gv kind a]
    from None show ?thesis
      using ri(1,2) cache assms(2,3)
      by (auto simp: lookup_at before_Suc asked_def server_answer_def bind_eq_None_conv)
  qed
qed

text \<open>A server that learns about the kind \<open>Thing\<close> after its first answer.\<close>

definition learning_api :: "nat api" where
  "learning_api = \<lparr>api_ClientConfig = None, api_RESTClient = None, api_DiscoveryClient = None, api_Clientset = None,
     api_Resources = (\<lambda>gv w. (w + 1, Inr (\<lparr>r_Name = ''pods'', r_Namespaced = True, r_Kind = ''Pod''\<rparr> #
        (if w = 0 then [] else [\<lparr>r_Name = ''things'', r_Namespaced = True, r_Kind = ''Thing''\<rparr>])))),
     api_Post = (\<lambda>url body w. (w, None)), api_List = (\<lambda>uri w. (w, GetOk)), api_Healthz = (\<lambda>w. (w, 200)),
     api_GetNamespace = (\<lambda>ns w. (w, None))\<rparr>"

definition learning_creater :: "nat creater" where
  "learning_creater = \<lparr>c_world = 0, c_strict = False, c_cache = [], c_sent = [], c_out = []\<rparr>"

theorem resource_cache_transparent_witness:
  "asked learning_api [(''v1'', ''Pod''), (''v1'', ''Thing''), (''v1'', ''Pod'')] learning_creater 1 \<and>
   snd (lookups learning_api [(''v1'', ''Pod''), (''v1'', ''Thing''), (''v1'', ''Pod'')] learning_creater) ! 1
     = Inr \<lparr>r_Name = ''things'', r_Namespaced = True, r_Kind = ''Thing''\<rparr> \<and>
   \<not> asked learning_api [(''v1'', ''Pod''), (''v1'', ''Thing''), (''v1'', ''Pod'')] learning_creater 2"
proof -
  let ?qs = "[(''v1'', ''Pod''), (''v1'', ''Thing''), (''v1'', ''Pod'')]"
  have new: "newCreater learning_api False 0 = Inr learning_creater"
    by (simp add: newCreater_def learning_api_def learning_creater_def)
  have l1: "latest learning_api ?qs learning_creater ''v1'' 1 = Some [\<lparr>r_Name = ''pods'', r_Namespaced = True, r_Kind = ''Pod''\<rparr>]"
    by code_simp
  have l2: "Option.bind (latest learning_api ?qs learning_creater ''v1'' 2) (List.find (\<lambda>r. r_Kind r = ''Pod''))
     = Some \<lparr>r_Name = ''pods'', r_Namespaced = True, r_Kind = ''Pod''\<rparr>"
    by code_simp
  have answer: "direct (server_answer learning_api ?qs learning_creater 1) ''v1'' ''Thing''
     = Inr \<lparr>r_Name = ''things'', r_Namespaced = True, r_Kind = ''Thing''\<rparr>" by code_simp
  have "asked learning_api ?qs learning_creater 1 \<and>
     snd (lookups learning_api ?qs learning_creater) ! 1 = direct (server_answer learning_api ?qs learning_creater 1) ''v1'' ''Thing''"
    using resource_cache_transparent [OF new, of 1 ?qs "''v1''" "''Thing''"] l1 by auto
  moreover have "\<not> asked learning_api ?qs learning_creater 2"
    using resource_cache_transparent [OF new, of 2 ?qs "''v1''" "''Pod''"] l2 by (auto simp: asked_def bind_eq_Some_conv)
  ultimately show ?thesis using answer by simp
qed

section \<open>Waiting for a custom resource\<close>

text \<open>The server's answer to the \<open>k\<close>-th listing.\<close>

definition listing :: "'w api \<Rightarrow> string \<Rightarrow> 'w \<Rightarrow> nat \<Rightarrow> get_answer" where
  "listing a uri w k = snd (api_List a uri (((\<lambda>w. fst (api_List a uri w)) ^^ k) w))"

lemma listing_Suc: "listing a uri w (Suc k) = listing a uri (fst (api_List a uri w)) k"
  by (simp add: listing_def funpow_Suc_right del: funpow.simps(2))

lemma crd_served_world: "c_world (fst (crd_served a uri c)) = fst (api_List a uri (c_world c))"
  by (simp add: crd_served_def split: prod.splits get_answer.splits)

lemma crd_served_answer:
  "answer_at (crd_served a uri) c k =
     (case listing a uri (c_world c) k of GetOk \<Rightarrow> Inr True | GetNotFound e \<Rightarrow> Inr False | GetErr e \<Rightarrow> Inl e)"
proof (induction k arbitrary: c)
  case 0
  show ?case by (simp add: crd_served_def listing_def split: prod.splits get_answer.splits)
next
  case (Suc k)
  then show ?case by (simp add: crd_served_world listing_Suc)
qed

text \<open>
  Waiting for a custom resource succeeds exactly when its definition decodes, has a
  served version, and one of the listings, at most two more than the ticks of the timer,
  succeeds after nothing but not-found answers. Any other error ends the wait.
\<close>

lemma wait_for_crd_result:
  "snd (waitForCRD a U ticks m c) = None \<longleftrightarrow>
     (\<exists>d. U (m_raw m) = Inr d \<and> firstVer d \<noteq> '''' \<and>
        (let uri = allCustomResourcesURI (crd_Group d) (firstVer d) (crd_Plural d) in
         \<exists>k \<le> Suc ticks. listing a uri (c_world c) k = GetOk \<and>
           (\<forall>j < k. \<exists>e. listing a uri (c_world c) j = GetNotFound e)))"
proof -
  have answers: "answer_at (crd_served a uri) c k = Inr True \<longleftrightarrow> listing a uri (c_world c) k = GetOk"
    "answer_at (crd_served a uri) c k = Inr False \<longleftrightarrow> (\<exists>e. listing a uri (c_world c) k = GetNotFound e)" for uri k
    by (simp_all add: crd_served_answer split: get_answer.splits)
  show ?thesis
    by (cases "U (m_raw m)") (simp_all add: waitForCRD_def wait_PollImmediate_Poll wait_Poll_def WaitFor_None_iff answers Let_def)
qed

lemma wait_for_crd_result_witness:
  "snd (waitForCRD example_api (\<lambda>_. Inr \<lparr>crd_Group = ''g'', crd_Version = '''', crd_Versions = [(''v1'', False), (''v2'', True)], crd_Plural = ''things''\<rparr>)
     0 (example_manifest ''CustomResourceDefinition'' ''a'') example_creater) = None"
  unfolding wait_for_crd_result by (simp add: firstVer_def listing_def example_api_def Let_def) (rule exI [of _ 0], simp)

section \<open>The outcome of asset creation\<close>

lemma CreateAssets_loaded:
  assumes "os_Stat s manifestDir = Inr n" and "api_ClientConfig (ce_api env) = None" "api_RESTClient (ce_api env) = None"
    "api_DiscoveryClient (ce_api env) = None"
    and "loadManifests (ce_ToJSON env) (ce_Unmarshal env) s manifestDir = Inr ms"
    and "snd (wait_Poll (ce_upTicks env) (upFn (ce_api env)) w) = None"
    and run: "CreateAssets env s manifestDir strict w = (w', out, err)"
  shows "(strict \<longrightarrow> (err = None \<longleftrightarrow> \<not> list_ex is_failure out)) \<and> (\<not> strict \<longrightarrow> err = None) \<and>
     (err = None \<longrightarrow> attempted out = creation_order (ce_sortSlice env ms))"
proof -
  obtain w1 where w1: "wait_Poll (ce_upTicks env) (upFn (ce_api env)) w = (w1, None)" using assms(6) by (metis prod.collapse)
  define c0 where "c0 = \<lparr>c_world = w1, c_strict = strict, c_cache = [], c_sent = [], c_out = [Waiting, Creating]\<rparr>"
  obtain c ok where cm: "createManifests (ce_api env) (ce_UnmarshalCRD env) (ce_sortSlice env) (ce_crdTicks env) ms c0 = (c, ok)" by fastforce
  have res: "out = (if ok then c_out c else c_out c @ [FailedAssets])"
    "err = (if ok \<or> \<not> strict then None else Some (Err ''Self-hosted assets could not be created''))"
    using run assms w1 cm by (auto simp: CreateAssets_def newCreater_def c0_def split: if_splits)
  obtain stop where "effect (creation_order (ce_sortSlice env ms)) c0 True (c, ok, stop)"
    using createManifests_effect [OF cm] by blast
  then obtain out1 where o: "c_out c = c_out c0 @ out1" "\<not> stop \<Longrightarrow> attempted out1 = creation_order (ce_sortSlice env ms)"
    "ok \<longleftrightarrow> \<not> list_ex is_failure out1" "stop \<longleftrightarrow> c_strict c0 \<and> list_ex is_failure out1"
    by (elim effectE) simp
  have msgs: "attempted (Waiting # Creating # xs) = attempted xs" "attempted [FailedAssets] = []" for xs
    by (simp_all add: attempted_def map_filter_def)
  have nofail: "\<not> is_failure Waiting" "\<not> is_failure Creating" "\<not> is_failure FailedAssets" by (simp_all add: is_failure_def)
  have "attempted out = attempted out1" "list_ex is_failure out = list_ex is_failure out1"
    using res(1) o(1) msgs nofail by (simp_all add: c0_def)
  then show ?thesis using res(2) o(2-4) by (auto simp: c0_def)
qed

text \<open>
  C23: Once the manifests are loaded and the API server answers in time, asset creation
  without strict mode always succeeds and attempts every manifest, whatever the server says to
  the posts. In strict mode it succeeds exactly when no creation and no wait failed.
\<close>

theorem create_assets_outcome:
  assumes "os_Stat s manifestDir = Inr n" and "api_ClientConfig (ce_api env) = None" "api_RESTClient (ce_api env) = None"
    "api_DiscoveryClient (ce_api env) = None"
    and "loadManifests (ce_ToJSON env) (ce_Unmarshal env) s manifestDir = Inr ms"
    and "snd (wait_Poll (ce_upTicks env) (upFn (ce_api env)) w) = None"
    and run: "CreateAssets env s manifestDir strict w = (w', out, err)"
  shows "(strict \<longrightarrow> (err = None \<longleftrightarrow> \<not> list_ex is_failure out)) \<and> (\<not> strict \<longrightarrow> err = None) \<and>
     (err = None \<longrightarrow> attempted out = creation_order (ce_sortSlice env ms))"
  using assms by (rule CreateAssets_loaded)

definition example_env :: "unit create_env" where
  "example_env = \<lparr>ce_api = example_api, ce_ToJSON = example_ToJSON, ce_Unmarshal = example_Unmarshal,
     ce_UnmarshalCRD = (\<lambda>_. Inl (Err ''no crd'')), ce_sortSlice = sort_key m_filepath, ce_upTicks = 3, ce_crdTicks = (\<lambda>_. 3)\<rparr>"

theorem create_assets_outcome_witness:
  "snd (snd (CreateAssets example_env manifest_host ''/m'' False ())) = None \<and>
   snd (snd (CreateAssets example_env manifest_host ''/m'' True ())) \<noteq> None \<and>
   attempted (fst (snd (CreateAssets example_env manifest_host ''/m'' False ()))) = [example_manifest ''Pod'' ''/m/.git/b'']"
proof -
  have st: "os_Stat manifest_host ''/m'' = Inr (new_dir 493)" by code_simp
  have api: "api_ClientConfig (ce_api example_env) = None" "api_RESTClient (ce_api example_env) = None" "api_DiscoveryClient (ce_api example_env) = None"
    by code_simp+
  have ld: "loadManifests (ce_ToJSON example_env) (ce_Unmarshal example_env) manifest_host ''/m'' = Inr [example_manifest ''Pod'' ''/m/.git/b'']"
    by code_simp
  have up: "snd (wait_Poll (ce_upTicks example_env) (upFn (ce_api example_env)) ()) = None" by code_simp
  have order: "creation_order (ce_sortSlice example_env [example_manifest ''Pod'' ''/m/.git/b'']) = [example_manifest ''Pod'' ''/m/.git/b'']"
    by code_simp
  obtain w1 out1 err1 where r1: "CreateAssets example_env manifest_host ''/m'' False () = (w1, out1, err1)" by (metis prod_cases3)
  obtain w2 out2 err2 where r2: "CreateAssets example_env manifest_host ''/m'' True () = (w2, out2, err2)" by (metis prod_cases3)
  have "list_ex is_failure (fst (snd (CreateAssets example_env manifest_host ''/m'' True ())))" by code_simp
  then show ?thesis
    using create_assets_outcome [OF st api ld up r1] create_assets_outcome [OF st api ld up r2] by (simp add: r1 r2 order)
qed

end
