(* ===== verification/Status.thy ===== *)
theory Status
  imports WaitPoll
begin

text \<open>
  Waiting until the control plane runs: \<open>pkg/bootkube/status.go\<close>. The informers the code
  starts keep two stores up to date; a \<open>stores\<close> record is what they hold when one check looks
  at them, with the keys in the order the store happens to list them. One check looks at one
  snapshot.
\<close>

definition doesNotExist :: string where "doesNotExist = ''DoesNotExist''"
definition PodRunning :: string where "PodRunning = ''Running''"
definition NodeReady :: string where "NodeReady = ''Ready''"
definition ConditionTrue :: string where "ConditionTrue = ''True''"

record NodeCondition =
  nc_Type :: string
  nc_Status :: string

record stores =
  podStore :: "(string \<times> string) list"
  podStoreErr :: "string \<Rightarrow> go_error option"
  nodeStore :: "(string \<times> NodeCondition list) list"

record statusController =
  watchPods :: "string list"
  lastPodPhases :: "(string \<times> string) list option"
  lastNodeConditions :: "(string \<times> NodeCondition) list option"

text \<open>What a check prints: a pod with its phase or a node with its condition.\<close>

datatype status_line = PodLine string string | NodeLine string NodeCondition

definition NewStatusController :: "go_error option \<Rightarrow> go_error option \<Rightarrow> string list \<Rightarrow> go_error + statusController" where
  "NewStatusController clientConfig clientset pods =
     (case clientConfig of Some e \<Rightarrow> Inl e
      | None \<Rightarrow>
        (case clientset of Some e \<Rightarrow> Inl e
         | None \<Rightarrow> Inr \<lparr>watchPods = pods, lastPodPhases = None, lastNodeConditions = None\<rparr>))"

text \<open>The pod a watched name stands for: the first one listed whose name starts with it.\<close>

definition watchedKey :: "stores \<Rightarrow> string \<Rightarrow> string" where
  "watchedKey st watchedPod =
     (case List.find (\<lambda>pn. hasPrefix pn watchedPod) (map fst (podStore st)) of Some pn \<Rightarrow> pn | None \<Rightarrow> watchedPod)"

fun PodStatus_loop :: "stores \<Rightarrow> string list \<Rightarrow> (string \<times> string) list \<Rightarrow> go_error + (string \<times> string) list" where
  "PodStatus_loop st [] status = Inr status"
| "PodStatus_loop st (watchedPod # ps) status =
     (let k = watchedKey st watchedPod in
      case podStoreErr st k of Some e \<Rightarrow> Inl e
      | None \<Rightarrow>
        (case map_of (podStore st) k of
           None \<Rightarrow> PodStatus_loop st ps (AList.update k doesNotExist status)
         | Some phase \<Rightarrow> PodStatus_loop st ps (AList.update k phase status)))"

definition PodStatus :: "statusController \<Rightarrow> stores \<Rightarrow> go_error + (string \<times> string) list" where
  "PodStatus sc st = PodStatus_loop st (watchPods sc) []"

definition NodeStatus :: "stores \<Rightarrow> go_error + (string \<times> NodeCondition) list" where
  "NodeStatus st =
     Inr (foldl (\<lambda>status (node, conditions).
            case List.find (\<lambda>c. nc_Type c = NodeReady) conditions of
              Some c \<Rightarrow> AList.update node c status | None \<Rightarrow> status) [] (nodeStore st))"

text \<open>\<open>reflect.DeepEqual\<close> on maps.\<close>

definition same_map :: "('a \<times> 'b) list \<Rightarrow> ('a \<times> 'b) list \<Rightarrow> bool" where
  "same_map m n \<longleftrightarrow> list_all (\<lambda>(k, _). map_of m k = map_of n k) (m @ n)"

definition allPodsRunning :: "stores \<Rightarrow> statusController \<Rightarrow> statusController \<times> status_line list \<times> bool" where
  "allPodsRunning st sc =
     (case PodStatus sc st of
        Inl e \<Rightarrow> (sc, [], False)
      | Inr ps \<Rightarrow>
          (let old = (case lastPodPhases sc of None \<Rightarrow> ps | Some l \<Rightarrow> l);
               changed = (\<not> same_map ps old)
           in (sc\<lparr>lastPodPhases := Some ps\<rparr>,
               if changed then map (\<lambda>(p, s). PodLine p s) ps else [],
               list_all (\<lambda>(p, s). s = PodRunning) ps)))"

definition allNodesReady :: "stores \<Rightarrow> statusController \<Rightarrow> statusController \<times> status_line list \<times> bool" where
  "allNodesReady st sc =
     (case NodeStatus st of
        Inl e \<Rightarrow> (sc, [], False)
      | Inr ns \<Rightarrow>
          (let old = (case lastNodeConditions sc of None \<Rightarrow> ns | Some l \<Rightarrow> l);
               changed = (\<not> same_map ns old)
           in (sc\<lparr>lastNodeConditions := Some ns\<rparr>,
               if changed then map (\<lambda>(n, c). NodeLine n c) ns else [],
               list_all (\<lambda>(n, c). nc_Status c = ConditionTrue) ns)))"

definition AllRunning :: "stores \<Rightarrow> statusController \<Rightarrow> statusController \<times> status_line list \<times> bool" where
  "AllRunning st sc =
     (case allPodsRunning st sc of
        (sc1, out1, podsRunning) \<Rightarrow>
          (if podsRunning
           then (case allNodesReady st sc1 of (sc2, out2, nodesReady) \<Rightarrow> (sc2, out1 @ out2, nodesReady))
           else (sc1, out1, False)))"

text \<open>
  The wait: the \<open>n\<close>-th check sees the \<open>n\<close>-th snapshot. The world of the condition is the
  number of checks so far, the controller and what was printed.
\<close>

definition check_running :: "(nat \<Rightarrow> stores) \<Rightarrow> (nat \<times> statusController \<times> status_line list) condition" where
  "check_running snaps w =
     (case w of (n, sc, out) \<Rightarrow>
        (case AllRunning (snaps n) sc of (sc', out', running) \<Rightarrow> ((Suc n, sc', out @ out'), Inr running)))"

definition WaitUntilPodsRunning ::
  "go_error option \<Rightarrow> go_error option \<Rightarrow> (nat \<Rightarrow> stores) \<Rightarrow> nat \<Rightarrow> string list \<Rightarrow> status_line list \<times> go_error option" where
  "WaitUntilPodsRunning clientConfig clientset snaps ticks pods =
     (case NewStatusController clientConfig clientset pods of
        Inl e \<Rightarrow> ([], Some e)
      | Inr sc \<Rightarrow>
          (case wait_Poll ticks (check_running snaps) (0, sc, []) of
             ((n, sc', out), Some e) \<Rightarrow> (out, Some (Errorf ''error while checking pod status'' e))
           | ((n, sc', out), None) \<Rightarrow> (out, None)))"

section \<open>What running means\<close>

text \<open>The specification: every watched pod exists and runs, and no node reports that it is not ready.\<close>

definition pod_runs :: "stores \<Rightarrow> string \<Rightarrow> bool" where
  "pod_runs st p \<longleftrightarrow> podStoreErr st (watchedKey st p) = None \<and> map_of (podStore st) (watchedKey st p) = Some PodRunning"

definition node_ok :: "NodeCondition list \<Rightarrow> bool" where
  "node_ok conditions \<longleftrightarrow>
     (case List.find (\<lambda>c. nc_Type c = NodeReady) conditions of Some c \<Rightarrow> nc_Status c = ConditionTrue | None \<Rightarrow> True)"

definition cluster_runs :: "string list \<Rightarrow> stores \<Rightarrow> bool" where
  "cluster_runs pods st \<longleftrightarrow> list_all (pod_runs st) pods \<and> list_all (\<lambda>(n, cs). node_ok cs) (nodeStore st)"

text \<open>The phase the status reports for a key that was looked up.\<close>

definition phase_of :: "stores \<Rightarrow> string \<Rightarrow> string" where
  "phase_of st k = (case map_of (podStore st) k of None \<Rightarrow> doesNotExist | Some phase \<Rightarrow> phase)"

definition phases_ok :: "stores \<Rightarrow> (string \<times> string) list \<Rightarrow> bool" where
  "phases_ok st status \<longleftrightarrow> distinct (map fst status) \<and> list_all (\<lambda>(k, v). v = phase_of st k) status"

lemma phases_ok_update:
  assumes "phases_ok st status"
  shows "phases_ok st (AList.update k (phase_of st k) status)"
    "set (AList.update k (phase_of st k) status) = insert (k, phase_of st k) (set status)"
proof -
  have d: "distinct (map fst (AList.update k (phase_of st k) status))"
    using assms by (simp add: phases_ok_def distinct_update)
  have "v = phase_of st k'" if "(k', v) \<in> set status" for k' v
    using assms that by (auto simp: phases_ok_def list_all_iff)
  then have sub: "v = phase_of st k'" if "(k', v) \<in> set (AList.update k (phase_of st k) status)" for k' v
    using that set_update_subset [of k "phase_of st k" status] by auto
  with d show ok: "phases_ok st (AList.update k (phase_of st k) status)" by (auto simp: phases_ok_def list_all_iff)
  have "(k', v) \<in> set (AList.update k (phase_of st k) status) \<longleftrightarrow> k' = k \<and> v = phase_of st k \<or> (k', v) \<in> set status" for k' v
  proof -
    have "(k', v) \<in> set (AList.update k (phase_of st k) status) \<longleftrightarrow> map_of (AList.update k (phase_of st k) status) k' = Some v"
      using d by (metis map_of_eq_Some_iff)
    also have "\<dots> \<longleftrightarrow> (if k' = k then v = phase_of st k else map_of status k' = Some v)" by auto
    also have "\<dots> \<longleftrightarrow> k' = k \<and> v = phase_of st k \<or> (k', v) \<in> set status"
      using assms by (auto simp: phases_ok_def list_all_iff)
    finally show ?thesis .
  qed
  then show "set (AList.update k (phase_of st k) status) = insert (k, phase_of st k) (set status)" by auto
qed

lemma PodStatus_loop_running:
  assumes "phases_ok st status"
  shows "(case PodStatus_loop st ps status of Inl e \<Rightarrow> False | Inr res \<Rightarrow> list_all (\<lambda>(p, s). s = PodRunning) res) \<longleftrightarrow>
     list_all (\<lambda>(p, s). s = PodRunning) status \<and> list_all (pod_runs st) ps"
  using assms
proof (induction ps arbitrary: status)
  case (Cons p ps)
  let ?k = "watchedKey st p"
  show ?case
  proof (cases "podStoreErr st ?k")
    case (Some e)
    then show ?thesis by (simp add: pod_runs_def)
  next
    case None
    have step: "PodStatus_loop st (p # ps) status = PodStatus_loop st ps (AList.update ?k (phase_of st ?k) status)"
      using None by (simp add: phase_of_def Let_def split: option.splits)
    have "list_all (\<lambda>(p, s). s = PodRunning) (AList.update ?k (phase_of st ?k) status) \<longleftrightarrow>
        phase_of st ?k = PodRunning \<and> list_all (\<lambda>(p, s). s = PodRunning) status"
      using phases_ok_update(2) [OF Cons.prems, of ?k] by (auto simp: list_all_iff)
    moreover have "pod_runs st p \<longleftrightarrow> phase_of st ?k = PodRunning"
      using None by (auto simp: pod_runs_def phase_of_def doesNotExist_def PodRunning_def split: option.splits)
    ultimately show ?thesis
      unfolding step using Cons.IH [OF phases_ok_update(1) [OF Cons.prems, of ?k]] by auto
  qed
qed simp

lemma allPodsRunning_iff: "snd (snd (allPodsRunning st sc)) \<longleftrightarrow> list_all (pod_runs st) (watchPods sc)"
  using PodStatus_loop_running [of st "[]" "watchPods sc"]
  by (simp add: allPodsRunning_def PodStatus_def phases_ok_def Let_def split: sum.splits)

lemma NodeStatus_fold:
  assumes "distinct (map fst status)" "distinct (map fst status @ map fst ns)"
  shows "list_all (\<lambda>(n, c). nc_Status c = ConditionTrue)
       (foldl (\<lambda>status (node, conditions).
          case List.find (\<lambda>c. nc_Type c = NodeReady) conditions of Some c \<Rightarrow> AList.update node c status | None \<Rightarrow> status) status ns) \<longleftrightarrow>
     list_all (\<lambda>(n, c). nc_Status c = ConditionTrue) status \<and> list_all (\<lambda>(n, cs). node_ok cs) ns"
  using assms
proof (induction ns arbitrary: status)
  case (Cons x ns)
  obtain n cs where x: "x = (n, cs)" by (cases x)
  show ?case
  proof (cases "List.find (\<lambda>c. nc_Type c = NodeReady) cs")
    case None
    then show ?thesis using Cons x by (simp add: node_ok_def)
  next
    case (Some c)
    have fresh: "n \<notin> fst ` set status" using Cons.prems x by auto
    have "AList.update n c status = status @ [(n, c)]" using fresh by (induction status) auto
    then show ?thesis
      using Cons.prems Cons.IH [of "AList.update n c status"] Some by (auto simp: x node_ok_def)
  qed
qed simp

lemma allNodesReady_iff:
  "distinct (map fst (nodeStore st)) \<Longrightarrow> snd (snd (allNodesReady st sc)) \<longleftrightarrow> list_all (\<lambda>(n, cs). node_ok cs) (nodeStore st)"
  using NodeStatus_fold [of "[]" "nodeStore st"] by (simp add: allNodesReady_def NodeStatus_def Let_def)

text \<open>The verdict of a check depends on the snapshot only, and the watched pods never change.\<close>

lemma AllRunning_iff:
  "distinct (map fst (nodeStore st)) \<Longrightarrow> snd (snd (AllRunning st sc)) \<longleftrightarrow> cluster_runs (watchPods sc) st"
  using allPodsRunning_iff [of st sc] allNodesReady_iff [of st "fst (allPodsRunning st sc)"]
  by (simp add: AllRunning_def cluster_runs_def case_prod_beta)

lemma AllRunning_watch: "watchPods (fst (AllRunning st sc)) = watchPods sc"
  by (simp add: AllRunning_def allPodsRunning_def allNodesReady_def NodeStatus_def Let_def split: sum.splits)

lemma check_running_answers:
  assumes "\<And>n. distinct (map fst (nodeStore (snaps n)))"
  shows "answer_at (check_running snaps) (n, sc, out) k = Inr (cluster_runs (watchPods sc) (snaps (n + k)))"
proof (induction k arbitrary: n sc out)
  case 0
  show ?case using AllRunning_iff [OF assms, of n sc] by (simp add: check_running_def case_prod_beta)
next
  case (Suc k)
  obtain sc' out' r where c: "AllRunning (snaps n) sc = (sc', out', r)" by (metis prod_cases3)
  then have "watchPods sc' = watchPods sc" using AllRunning_watch [of "snaps n" sc] by simp
  then show ?case using Suc [of "Suc n" sc' "out @ out'"] by (simp add: check_running_def c)
qed

lemma WaitUntilPodsRunning_result:
  assumes "\<And>n. distinct (map fst (nodeStore (snaps n)))"
  shows "(snd (WaitUntilPodsRunning clientConfig clientset snaps ticks pods) = None \<longleftrightarrow>
       clientConfig = None \<and> clientset = None \<and> (\<exists>k\<le>ticks. cluster_runs pods (snaps k))) \<and>
     snd (WaitUntilPodsRunning clientConfig clientset snaps ticks pods)
       \<in> {None, Some (Errorf ''error while checking pod status'' ErrWaitTimeout), clientConfig, clientset}"
proof -
  let ?sc = "\<lparr>watchPods = pods, lastPodPhases = None, lastNodeConditions = None\<rparr>"
  let ?res = "snd (wait_Poll ticks (check_running snaps) (0, ?sc, []))"
  have ans: "answer_at (check_running snaps) (0, ?sc, []) k = Inr (cluster_runs pods (snaps k))" for k
    using check_running_answers [of snaps, OF assms, of 0 ?sc "[]" k] by simp
  have first: "(\<exists>k\<le>ticks. P k \<and> (\<forall>j<k. \<not> P j)) \<longleftrightarrow> (\<exists>k\<le>ticks. P k)" for P
    by (metis ex_least_nat_le less_imp_le order_trans)
  have "?res = None \<longleftrightarrow> (\<exists>k\<le>ticks. cluster_runs pods (snaps k))"
    unfolding wait_Poll_def WaitFor_None_iff ans using first by simp
  moreover have "?res \<in> {None, Some ErrWaitTimeout}"
    unfolding wait_Poll_def by (rule WaitFor_timeout) (simp add: check_running_def case_prod_beta)
  moreover have "snd (WaitUntilPodsRunning None None snaps ticks pods) =
      (case ?res of None \<Rightarrow> None | Some e \<Rightarrow> Some (Errorf ''error while checking pod status'' e))"
    by (simp add: WaitUntilPodsRunning_def NewStatusController_def split: option.splits prod.splits)
  moreover have "snd (WaitUntilPodsRunning (Some e) clientset snaps ticks pods) = Some e"
    "snd (WaitUntilPodsRunning None (Some e) snaps ticks pods) = Some e" for e
    by (simp_all add: WaitUntilPodsRunning_def NewStatusController_def)
  ultimately show ?thesis by (cases clientConfig; cases clientset) auto
qed

text \<open>
  C27: Waiting for the control plane succeeds exactly when a client can be made and, at one
  of the checks the timer allows, every watched pod exists and is running and every node that
  reports a Ready condition reports it as true. The only other outcome is the timeout.
\<close>

theorem wait_until_pods_running_iff:
  assumes "\<And>n. distinct (map fst (nodeStore (snaps n)))"
  shows "(snd (WaitUntilPodsRunning clientConfig clientset snaps ticks pods) = None \<longleftrightarrow>
       clientConfig = None \<and> clientset = None \<and> (\<exists>k\<le>ticks. cluster_runs pods (snaps k))) \<and>
     snd (WaitUntilPodsRunning clientConfig clientset snaps ticks pods)
       \<in> {None, Some (Errorf ''error while checking pod status'' ErrWaitTimeout), clientConfig, clientset}"
  using assms by (rule WaitUntilPodsRunning_result)

theorem wait_until_pods_running_iff_witness:
  "snd (WaitUntilPodsRunning None None
     (\<lambda>n. \<lparr>podStore = [(''kube-system/kube-scheduler-x1'', if n = 2 then ''Running'' else ''Pending'')], podStoreErr = (\<lambda>_. None),
        nodeStore = [(''node'', [\<lparr>nc_Type = ''Ready'', nc_Status = ''True''\<rparr>])]\<rparr>) 5 [''kube-system/kube-scheduler'']) = None"
proof -
  let ?snaps = "\<lambda>n::nat. \<lparr>podStore = [(''kube-system/kube-scheduler-x1'', if n = 2 then ''Running'' else ''Pending'')], podStoreErr = (\<lambda>_. None),
        nodeStore = [(''node'', [\<lparr>nc_Type = ''Ready'', nc_Status = ''True''\<rparr>])]\<rparr>"
  have "cluster_runs [''kube-system/kube-scheduler''] (?snaps 2)" by code_simp
  then show ?thesis
    using wait_until_pods_running_iff [of ?snaps None None 5 "[''kube-system/kube-scheduler'']"] by (auto intro!: exI [of _ 2])
qed

end
