(* ===== verification/BootkubeRun.thy ===== *)
theory BootkubeRun
  imports Bootstrap Create Status
begin

text \<open>
  \<open>bootkube start\<close> as a whole: \<open>Run\<close> of \<open>pkg/bootkube/bootkube.go\<close>. It starts the temporary
  control plane, creates the assets, waits for the self-hosted control plane, and always tears
  the temporary one down, because the teardown is deferred. The clients of the API server
  depend on the kubeconfig file, so their parameters are a function of its path; what the
  informers see depends on the state of the cluster.
\<close>

record Config =
  AssetDir :: string
  PodManifestPath :: string
  Strict :: bool
  RequiredPods :: "string list"

record bootkube =
  bk_podManifestPath :: string
  bk_assetDir :: string
  bk_strict :: bool
  bk_requiredPods :: "string list"

definition NewBootkube :: "Config \<Rightarrow> bootkube" where
  "NewBootkube config =
     \<lparr>bk_podManifestPath = PodManifestPath config, bk_assetDir = AssetDir config, bk_strict = Strict config,
      bk_requiredPods = RequiredPods config\<rparr>"

record 'w surroundings =
  sr_client :: "string \<Rightarrow> 'w create_env"
  sr_snaps :: "'w \<Rightarrow> nat \<Rightarrow> stores"
  sr_ticks :: nat

record 'w run_result =
  rr_fs :: fs
  rr_world :: 'w
  rr_created :: "message list"
  rr_status :: "status_line list"
  rr_teardownErr :: "go_error option"
  rr_err :: "go_error option"

text \<open>The work before the deferred calls.\<close>

definition Run_body ::
  "'w surroundings \<Rightarrow> bootkube \<Rightarrow> fs \<Rightarrow> 'w \<Rightarrow> bootstrapControlPlane \<times> fs \<times> 'w \<times> message list \<times> status_line list \<times> go_error option" where
  "Run_body sr b s w =
     (let kubeConfig = sr_client sr (path_Join [bk_assetDir b, AssetPathAdminKubeConfig]);
          bcp = NewBootstrapControlPlane (bk_assetDir b) (bk_podManifestPath b)
      in case Start bcp s of
           (bcp1, s1, Some e) \<Rightarrow> (bcp1, s1, w, [], [], Some e)
         | (bcp1, s1, None) \<Rightarrow>
             (case CreateAssets kubeConfig s1 (path_Join [bk_assetDir b, AssetPathManifests]) (bk_strict b) w of
                (w1, out, Some e) \<Rightarrow> (bcp1, s1, w1, out, [], Some e)
              | (w1, out, None) \<Rightarrow>
                  (case WaitUntilPodsRunning (api_ClientConfig (ce_api kubeConfig)) (api_Clientset (ce_api kubeConfig))
                          (sr_snaps sr w1) (sr_ticks sr) (bk_requiredPods b) of
                     (status, err) \<Rightarrow> (bcp1, s1, w1, out, status, err))))"

definition Run :: "'w surroundings \<Rightarrow> bootkube \<Rightarrow> fs \<Rightarrow> 'w \<Rightarrow> 'w run_result" where
  "Run sr b s w =
     (case Run_body sr b s w of (bcp, s1, w1, out, status, err) \<Rightarrow>
        (case Teardown bcp s1 of (bcp2, s2, terr) \<Rightarrow>
           \<lparr>rr_fs = s2, rr_world = w1, rr_created = out, rr_status = status, rr_teardownErr = terr, rr_err = err\<rparr>))"

section \<open>Properties\<close>

definition example_surroundings :: "unit surroundings" where
  "example_surroundings = \<lparr>sr_client = (\<lambda>_. example_env),
     sr_snaps = (\<lambda>_ n. \<lparr>podStore = [(''kube-system/pod-1'', if n = 1 then ''Running'' else ''Pending'')], podStoreErr = (\<lambda>_. None),
        nodeStore = [(''node'', [\<lparr>nc_Type = ''Ready'', nc_Status = ''True''\<rparr>])]\<rparr>),
     sr_ticks = 4\<rparr>"

definition example_bootkube :: bootkube where
  "example_bootkube = NewBootkube \<lparr>AssetDir = ''/a'', PodManifestPath = ''/m'', Strict = False, RequiredPods = [''kube-system/pod'']\<rparr>"

definition manifest_asset_host :: fs where
  "manifest_asset_host = fs_put (fs_put asset_host [''a'', ''manifests''] (new_dir 493)) [''a'', ''manifests'', ''pod.yaml'']
     (NFile (unlines [''Pod'']) \<lparr>n_mode = 384, n_uid = 0, n_gid = 0\<rparr>)"

text \<open>The file system is only touched by the start.\<close>

lemma Run_body_start:
  assumes "Run_body sr b s w = (bcp, s1, w1, out, status, err)"
  obtains r where "Start (NewBootstrapControlPlane (bk_assetDir b) (bk_podManifestPath b)) s = (bcp, s1, r)" "r \<noteq> None \<Longrightarrow> err = r"
  using assms by (auto simp: Run_body_def Let_def split: prod.splits option.splits)

text \<open>
  C14: However a run of \<open>bootkube start\<close> ends, and whatever the API server answers, the
  host is cleaned up: everything that existed outside the secrets directory is unchanged, the
  secrets directory is gone, and nothing is left behind but directories, and at most one file
  and only when the run failed. Removals are assumed to be permitted.
\<close>

theorem run_always_cleans_up:
  assumes dir: "bk_assetDir b = slash # joinWith slash as" "as \<noteq> []" "list_all plain_comp as" and names: "names_ok s"
    and rm: "\<And>k. faults s OpRemove k = None"
    and res_def: "res = Run sr b s w"
  shows "rr_teardownErr res = None \<and>
     (\<forall>k. \<not> prefix secrets_key k \<longrightarrow> fs_node s k \<noteq> None \<longrightarrow> fs_node (rr_fs res) k = fs_node s k) \<and>
     (\<forall>k. prefix secrets_key k \<longrightarrow> fs_node (rr_fs res) k = None) \<and>
     (\<exists>left. (rr_err res = None \<longrightarrow> left = None) \<and>
        (\<forall>k. fs_node s k = None \<longrightarrow> fs_node (rr_fs res) k = None \<or> is_dir (fs_node (rr_fs res) k) \<or> left = Some k))"
proof -
  obtain bcp s1 w1 out status err where body: "Run_body sr b s w = (bcp, s1, w1, out, status, err)" by (metis prod_cases6)
  obtain b2 s2 terr where td: "Teardown bcp s1 = (b2, s2, terr)" by (metis prod_cases3)
  have res: "rr_fs res = s2" "rr_teardownErr res = terr" "rr_err res = err" by (simp_all add: res_def Run_def body td)
  obtain r where "Start (NewBootstrapControlPlane (bk_assetDir b) (bk_podManifestPath b)) s = (bcp, s1, r)" and r: "r \<noteq> None \<Longrightarrow> err = r"
    using Run_body_start [OF body] by blast
  note eff = Start_Teardown [OF dir names rm this(1) td]
  then obtain left where l: "r = None \<longrightarrow> left = None"
    "\<forall>k. fs_node s k = None \<longrightarrow> fs_node s2 k = None \<or> is_dir (fs_node s2 k) \<or> left = Some k" by blast
  have "err = None \<longrightarrow> left = None" using l(1) r by (cases r) auto
  then show ?thesis unfolding res using eff l(2) by blast
qed

theorem run_always_cleans_up_witness:
  "rr_teardownErr (Run example_surroundings example_bootkube asset_host ()) = None \<and>
   fs_node asset_host [''a'', ''auth'', ''kubeconfig''] \<noteq> None \<and>
   fs_node (rr_fs (Run example_surroundings example_bootkube asset_host ())) [''a'', ''auth'', ''kubeconfig'']
     = fs_node asset_host [''a'', ''auth'', ''kubeconfig'']"
proof -
  have dir: "bk_assetDir example_bootkube = slash # joinWith slash [''a'']" by (simp add: example_bootkube_def NewBootkube_def)
  have node: "fs_node asset_host [''a'', ''auth'', ''kubeconfig''] \<noteq> None" by (simp add: asset_host_def fs_node_def)
  have out: "\<not> prefix secrets_key [''a'', ''auth'', ''kubeconfig'']" by (simp add: secrets_key_def)
  from run_always_cleans_up [OF dir _ _ asset_host_ok refl, of example_surroundings "()"] node out show ?thesis
    by (simp add: plain_comp_def)
qed

text \<open>
  C15: When the temporary control plane started, the manifests load, and the API server
  comes up in time, a run without strict mode succeeds exactly when at one of the checks
  afterwards every required pod is running and no node is unready: manifests the server
  refuses do not make it fail by themselves.
\<close>

theorem run_succeeds_when_pods_run:
  assumes st: "Start (NewBootstrapControlPlane (bk_assetDir b) (bk_podManifestPath b)) s = (bcp, s1, None)" and "\<not> bk_strict b"
    and env: "env = sr_client sr (path_Join [bk_assetDir b, AssetPathAdminKubeConfig])"
    and stat: "os_Stat s1 (path_Join [bk_assetDir b, AssetPathManifests]) = Inr n"
    and api: "api_ClientConfig (ce_api env) = None" "api_RESTClient (ce_api env) = None" "api_DiscoveryClient (ce_api env) = None"
      "api_Clientset (ce_api env) = None"
    and load: "loadManifests (ce_ToJSON env) (ce_Unmarshal env) s1 (path_Join [bk_assetDir b, AssetPathManifests]) = Inr ms"
    and up: "snd (wait_Poll (ce_upTicks env) (upFn (ce_api env)) w) = None"
    and nodes: "\<And>w n. distinct (map fst (nodeStore (sr_snaps sr w n)))"
  shows "rr_err (Run sr b s w) = None \<longleftrightarrow> (\<exists>k\<le>sr_ticks sr. cluster_runs (bk_requiredPods b) (sr_snaps sr (rr_world (Run sr b s w)) k))"
proof -
  obtain w1 out err where ca: "CreateAssets env s1 (path_Join [bk_assetDir b, AssetPathManifests]) (bk_strict b) w = (w1, out, err)"
    by (metis prod_cases3)
  have "err = None" using CreateAssets_loaded [OF stat api(1-3) load up ca] assms(2) by blast
  moreover obtain status r where wr: "WaitUntilPodsRunning None None (sr_snaps sr w1) (sr_ticks sr) (bk_requiredPods b) = (status, r)" by fastforce
  ultimately have "rr_err (Run sr b s w) = r" "rr_world (Run sr b s w) = w1"
    using st ca api by (simp_all add: Run_def Run_body_def Let_def env [symmetric] case_prod_beta)
  then show ?thesis
    using WaitUntilPodsRunning_result [of "sr_snaps sr w1" None None "sr_ticks sr" "bk_requiredPods b", OF nodes] wr by simp
qed

theorem run_succeeds_when_pods_run_witness:
  "rr_err (Run example_surroundings example_bootkube manifest_asset_host ()) = None"
proof -
  let ?start = "Start (NewBootstrapControlPlane (bk_assetDir example_bootkube) (bk_podManifestPath example_bootkube)) manifest_asset_host"
  let ?dir = "path_Join [bk_assetDir example_bootkube, AssetPathManifests]"
  have st: "case ?start of (bcp, s1, r) \<Rightarrow> r = None \<and> os_Stat s1 ?dir = Inr (new_dir 493) \<and>
    loadManifests example_ToJSON example_Unmarshal s1 ?dir = Inr [example_manifest ''Pod'' ''/a/manifests/pod.yaml'']"
    by code_simp
  then obtain bcp s1 where s1: "?start = (bcp, s1, None)" "os_Stat s1 ?dir = Inr (new_dir 493)"
    "loadManifests example_ToJSON example_Unmarshal s1 ?dir = Inr [example_manifest ''Pod'' ''/a/manifests/pod.yaml'']"
    by (auto split: prod.splits)
  have up: "snd (wait_Poll (ce_upTicks example_env) (upFn (ce_api example_env)) ()) = None" by code_simp
  have api: "api_ClientConfig (ce_api example_env) = None" "api_RESTClient (ce_api example_env) = None"
    "api_DiscoveryClient (ce_api example_env) = None" "api_Clientset (ce_api example_env) = None" by code_simp+
  have env: "example_env = sr_client example_surroundings x" for x by (simp add: example_surroundings_def)
  have runs: "cluster_runs (bk_requiredPods example_bootkube) (sr_snaps example_surroundings w 1)" for w
    by (simp add: cluster_runs_def pod_runs_def watchedKey_def node_ok_def example_surroundings_def example_bootkube_def NewBootkube_def
        NodeReady_def ConditionTrue_def PodRunning_def hasPrefix_def)
  have "rr_err (Run example_surroundings example_bootkube manifest_asset_host ()) = None \<longleftrightarrow>
    (\<exists>k\<le>sr_ticks example_surroundings. cluster_runs (bk_requiredPods example_bootkube)
       (sr_snaps example_surroundings (rr_world (Run example_surroundings example_bootkube manifest_asset_host ())) k))"
  proof (rule run_succeeds_when_pods_run [OF s1(1) _ env s1(2) api _ up])
    show "\<not> bk_strict example_bootkube" by (simp add: example_bootkube_def NewBootkube_def)
    show "loadManifests (ce_ToJSON example_env) (ce_Unmarshal example_env) s1 ?dir = Inr [example_manifest ''Pod'' ''/a/manifests/pod.yaml'']"
      using s1(3) by (simp add: example_env_def)
    show "distinct (map fst (nodeStore (sr_snaps example_surroundings w n)))" for w n by (simp add: example_surroundings_def)
  qed
  moreover have "1 \<le> sr_ticks example_surroundings" by (simp add: example_surroundings_def)
  ultimately show ?thesis using runs by blast
qed

end
