(* ===== verification/BootstrapSecrets.thy ===== *)
theory BootstrapSecrets
  imports Bootstrap
begin

text \<open>
  What \<open>bootkube start\<close> puts into the directory of the bootstrap secrets: every file below the
  TLS assets, under its relative name, and the kubeconfig of the admin beside them.
\<close>

section \<open>Copies that overwrite\<close>

lemma content_None_file: "content s k \<in> {None, Some d} \<Longrightarrow> fs_node s k = Some (NFile x m) \<Longrightarrow> x = d"
  by (simp add: content_def)

lemma copyFile_over:
  assumes ok: "snd (copyFile s src dst True) = None" and old: "content s (fs_key s dst) \<in> {None, Some d}"
    and src: "content s (fs_key s src) = Some d" "fs_key s src \<noteq> fs_key s dst"
  shows "content (fst (copyFile s src dst True)) (fs_key s dst) = Some d"
proof (cases "fs_node s (fs_key s dst)")
  case None
  then show ?thesis using copyFile_ok [OF ok None src] by (auto simp: content_def)
next
  case (Some n)
  have "snd (os_OpenFile False False 384 s dst) = None" using ok by (auto simp: copyFile_def split: prod.splits option.splits)
  with Some obtain m where n: "n = NFile d m" and o: "os_OpenFile False False 384 s dst = (s, None)"
    using content_None_file [OF old] by (cases n) (auto simp: os_OpenFile_def Let_def split: option.splits)
  from ok obtain data where r: "ioutil_ReadFile s src = Inr data" and w: "snd (file_Write s dst data) = None"
    by (auto simp: copyFile_def o split: sum.splits)
  have "data = d" using ioutil_ReadFile_Inr [OF r] src by simp
  with file_Write_ok [OF w] Some n have "\<exists>m. fs_node (fst (file_Write s dst data)) (fs_key s dst) = Some (NFile d m)"
    by (simp add: overwrite_bytes_def)
  then show ?thesis by (auto simp: copyFile_def o r content_def)
qed

lemma Mkdir_content: "content (fst (os_Mkdir s p mode)) k = content s k"
  by (cases rule: os_Mkdir_cases [of s p mode]) (auto simp: content_def new_dir_def)

text \<open>
  A target ends up with the data of its source, if no other source of the walk with other data has
  the same target and the targets are no sources.
\<close>

lemma copyItems_over:
  assumes "snd (snd (copyItems srcDir dstDir True s items c)) = None"
    and "\<And>src d'. WFile src d' \<in> set items \<Longrightarrow> content s (fs_key s src) = Some d' \<and> fs_key s src \<notin> T"
    and "\<And>item. item \<in> set items \<Longrightarrow> fs_key s (item_dst srcDir dstDir item) \<in> T"
    and "\<And>src d'. WFile src d' \<in> set items \<Longrightarrow> fs_key s (path_Join [dstDir, trimPrefix src srcDir]) = k \<Longrightarrow> d' = d"
    and "content s k \<in> {None, Some d}"
    and "content s k = Some d \<or> (\<exists>src. WFile src d \<in> set items \<and> fs_key s (path_Join [dstDir, trimPrefix src srcDir]) = k)"
  shows "content (fst (copyItems srcDir dstDir True s items c)) k = Some d"
  using assms
proof (induction items arbitrary: s c)
  case (Cons item items)
  show ?case
  proof (cases item)
    case (WDir src1)
    let ?dst = "path_Join [dstDir, trimPrefix src1 srcDir]"
    obtain s1 r where mk: "os_Mkdir s ?dst 448 = (s1, r)" by fastforce
    have same: "content s1 k' = content s k'" for k' using Mkdir_content [of s ?dst 448] mk by simp
    have key: "fs_key s1 = fs_key s" using same_env_key [OF os_Mkdir_env [of s ?dst 448]] mk by auto
    have step: "copyItems srcDir dstDir True s (item # items) c = copyItems srcDir dstDir True s1 items c"
      using Cons.prems(1) WDir mk by (auto simp: Let_def split: option.splits if_splits)
    show ?thesis unfolding step
    proof (rule Cons.IH)
      show "snd (snd (copyItems srcDir dstDir True s1 items c)) = None" using Cons.prems(1) unfolding step .
      show "content s1 k = Some d \<or> (\<exists>src. WFile src d \<in> set items \<and> fs_key s1 (path_Join [dstDir, trimPrefix src srcDir]) = k)"
        using Cons.prems(6) WDir unfolding key same by simp
      show "content s1 k \<in> {None, Some d}" using Cons.prems(5) unfolding same .
      show "fs_key s1 (item_dst srcDir dstDir it) \<in> T" if "it \<in> set items" for it using Cons.prems(3) [of it] that unfolding key by simp
      show "content s1 (fs_key s1 src) = Some d' \<and> fs_key s1 src \<notin> T" if "WFile src d' \<in> set items" for src d'
        using Cons.prems(2) [of src d'] that unfolding key same by simp
      show "d' = d" if "WFile src d' \<in> set items" "fs_key s1 (path_Join [dstDir, trimPrefix src srcDir]) = k" for src d'
        using Cons.prems(4) [of src d'] that unfolding key by simp
    qed
  next
    case (WFile src1 d1)
    let ?dst = "path_Join [dstDir, trimPrefix src1 srcDir]"
    obtain s1 where cf: "copyFile s src1 ?dst True = (s1, None)"
      using Cons.prems(1) WFile by (cases "copyFile s src1 ?dst True") (auto simp: Let_def split: option.splits)
    have key: "fs_key s1 = fs_key s" using same_env_key [OF copyFile_env [of s src1 ?dst True]] cf by auto
    have other: "content s1 k' = content s k'" if "k' \<noteq> fs_key s ?dst" for k'
      using copyFile_frame [OF that, of src1 True] cf by (simp add: content_def)
    have dstT: "fs_key s ?dst \<in> T" using Cons.prems(3) [of item] WFile by (simp add: item_dst_def)
    have src1: "content s (fs_key s src1) = Some d1" "fs_key s src1 \<notin> T" using Cons.prems(2) [of src1 d1] WFile by simp_all
    have new: "content s1 k = (if fs_key s ?dst = k then Some d else content s k)"
    proof (cases "fs_key s ?dst = k")
      case True
      then have "d1 = d" using Cons.prems(4) [of src1 d1] WFile by simp
      moreover have "fs_key s src1 \<noteq> fs_key s ?dst" using src1(2) dstT by metis
      ultimately show ?thesis using copyFile_over [of s src1 ?dst d] cf src1 Cons.prems(5) True by auto
    qed (use other [of k] in simp)
    have step: "copyItems srcDir dstDir True s (item # items) c = copyItems srcDir dstDir True s1 items (c @ [?dst])"
      using WFile cf by (simp add: Let_def)
    have sources: "content s1 (fs_key s src) = Some d' \<and> fs_key s src \<notin> T" if "WFile src d' \<in> set items" for src d'
    proof -
      have "content s (fs_key s src) = Some d' \<and> fs_key s src \<notin> T" using Cons.prems(2) [of src d'] that by simp
      moreover from this dstT have "fs_key s src \<noteq> fs_key s ?dst" by metis
      ultimately show ?thesis using other [of "fs_key s src"] by simp
    qed
    show ?thesis unfolding step
    proof (rule Cons.IH)
      show "snd (snd (copyItems srcDir dstDir True s1 items (c @ [?dst]))) = None" using Cons.prems(1) unfolding step .
      show "content s1 k = Some d \<or> (\<exists>src. WFile src d \<in> set items \<and> fs_key s1 (path_Join [dstDir, trimPrefix src srcDir]) = k)"
        using Cons.prems(6) WFile new unfolding key by auto
      show "content s1 k \<in> {None, Some d}" using Cons.prems(5) unfolding new by simp
      show "fs_key s1 (item_dst srcDir dstDir it) \<in> T" if "it \<in> set items" for it using Cons.prems(3) [of it] that unfolding key by simp
      show "content s1 (fs_key s1 src) = Some d' \<and> fs_key s1 src \<notin> T" if "WFile src d' \<in> set items" for src d'
        unfolding key by (rule sources [OF that])
      show "d' = d" if "WFile src d' \<in> set items" "fs_key s1 (path_Join [dstDir, trimPrefix src srcDir]) = k" for src d'
        using Cons.prems(4) [of src d'] that unfolding key by simp
    qed
  qed (use Cons.prems in simp)
qed simp


section \<open>The files of a walk\<close>

lemma walk_files:
  assumes ds: "ds \<noteq> []" "list_all plain_comp ds" and names: "names_ok s" and d: "dstDir \<noteq> ''''"
    and item: "WFile src x \<in> set (filepath_Walk s (slash # joinWith slash ds))"
  obtains rel where "content s (ds @ rel) = Some x" "fs_key s src = ds @ rel"
    "fs_key s (path_Join [dstDir, trimPrefix src (slash # joinWith slash ds)]) = fs_key s dstDir @ rel"
proof -
  have key: "fs_key s (slash # joinWith slash ds) = ds" using ds by (rule fs_key_abs)
  from item obtain rel m where rel: "fs_node s (ds @ rel) = Some (NFile x m)" "src = walk_path (slash # joinWith slash ds) ds (ds @ rel)"
    by (rule walk_item_key) (auto simp: key)
  then have pl: "list_all plain_comp rel" using names by (auto simp: names_ok_def)
  show thesis
  proof (rule that)
    show "content s (ds @ rel) = Some x" using rel(1) by (simp add: content_def)
    show "fs_key s src = ds @ rel" unfolding rel(2) walk_path_abs [OF ds pl] using ds pl by (intro fs_key_abs) simp_all
    show "fs_key s (path_Join [dstDir, trimPrefix src (slash # joinWith slash ds)]) = fs_key s dstDir @ rel"
      unfolding rel(2) by (rule walk_dst_key [OF ds pl d])
  qed
qed

text \<open>Copying a tree over a place where nothing is.\<close>

lemma copyDirectory_over:
  assumes ds: "ds \<noteq> []" "list_all plain_comp ds" and names: "names_ok s" and d: "dstDir \<noteq> ''''"
    and apart: "\<And>r. \<not> prefix (fs_key s dstDir) (ds @ r)"
    and ok: "copyDirectory s (slash # joinWith slash ds) dstDir True = (s', c, None)"
    and f: "content s (ds @ rel) = Some x" and empty: "content s (fs_key s dstDir @ rel) = None"
  shows "content s' (fs_key s dstDir @ rel) = Some x"
proof -
  let ?src = "slash # joinWith slash ds"
  let ?items = "filepath_Walk s ?src"
  let ?T = "{k. prefix (fs_key s dstDir) k}"
  have key: "fs_key s ?src = ds" using ds by (rule fs_key_abs)
  have run: "snd (snd (copyItems ?src dstDir True s ?items [])) = None" "s' = fst (copyItems ?src dstDir True s ?items [])"
    using ok by (simp_all add: copyDirectory_def)
  have stat: "os_Stat s ?src \<noteq> Inl e" for e using run(1) by (auto simp: filepath_Walk_def)
  obtain m where "fs_node s (ds @ rel) = Some (NFile x m)" using f by (auto simp: content_def split: option.splits node.splits)
  then have item: "WFile (walk_path ?src ds (ds @ rel)) x \<in> set ?items"
    using walk_file_item [of s ?src rel x m] stat by (simp add: key)
  show ?thesis unfolding run(2)
  proof (rule copyItems_over [OF run(1), of ?T])
    fix src d' assume w: "WFile src d' \<in> set ?items"
    from walk_files [OF ds names d w] obtain r where r: "content s (ds @ r) = Some d'" "fs_key s src = ds @ r"
      "fs_key s (path_Join [dstDir, trimPrefix src ?src]) = fs_key s dstDir @ r" .
    then show "content s (fs_key s src) = Some d' \<and> fs_key s src \<notin> ?T" using apart by simp
    show "fs_key s (path_Join [dstDir, trimPrefix src ?src]) = fs_key s dstDir @ rel \<Longrightarrow> d' = x" using r f by simp
  next
    fix it assume it: "it \<in> set ?items"
    show "fs_key s (item_dst ?src dstDir it) \<in> ?T"
    proof (cases "\<exists>e. it = WErr e")
      case False
      with it obtain r where r: "fs_node s (ds @ r) \<noteq> None"
        "it = WDir (walk_path ?src ds (ds @ r)) \<or> (\<exists>d m. it = WFile (walk_path ?src ds (ds @ r)) d)"
        by (elim walk_item_key) (auto simp: key)
      then have "list_all plain_comp (ds @ r)" using names unfolding names_ok_def by blast
      then have "list_all plain_comp r" by simp
      from walk_dst_key [OF ds this d] r(2) show ?thesis by (auto simp: item_dst_def)
    qed (auto simp: item_dst_def)
  next
    have "fs_node s (ds @ rel) \<noteq> None" using f by (cases "fs_node s (ds @ rel)") (simp_all add: content_def)
    then have "list_all plain_comp (ds @ rel)" using names unfolding names_ok_def by blast
    then have "fs_key s (path_Join [dstDir, trimPrefix (walk_path ?src ds (ds @ rel)) ?src]) = fs_key s dstDir @ rel"
      by (intro walk_dst_key [OF ds _ d]) simp
    with item show "content s (fs_key s dstDir @ rel) = Some x \<or> (\<exists>src. WFile src x \<in> set ?items \<and>
        fs_key s (path_Join [dstDir, trimPrefix src ?src]) = fs_key s dstDir @ rel)" by blast
  qed (simp add: empty)
qed


section \<open>The secrets after a start\<close>

text \<open>The steps of a start that succeeds.\<close>

lemma Start_steps:
  assumes "Start b s = (b', s', None)"
  obtains s1 s2 s3 c where "os_RemoveAll s BootstrapSecretsDir = (s1, None)"
    "copyDirectory s1 (path_Join [b_assetDir b, AssetPathSecrets]) BootstrapSecretsDir True = (s2, c, None)"
    "copyFile s2 (path_Join [b_assetDir b, AssetPathAdminKubeConfig]) (path_Join [BootstrapSecretsDir, ''kubeconfig'']) True = (s3, None)"
    "copyDirectory s3 (path_Join [b_assetDir b, AssetPathBootstrapManifests]) (b_podManifestPath b) False = (s', b_ownedManifests b', None)"
  using assms by (auto simp: Start_def Let_def split: prod.splits option.splits)

lemma copyDirectory_keeps_files:
  assumes "content s k = Some d"
  shows "content (fst (copyDirectory s src dst False)) k = Some d"
proof -
  obtain new left where "added s (fst (copyDirectory s src dst False)) new left"
    using copyItems_excl [of src dst s "filepath_Walk s src" "[]"] by (auto simp: copyDirectory_def)
  from addedD(2) [OF this, of k] assms show ?thesis by (auto simp: content_def split: option.splits)
qed

lemma start_copies_secrets:
  assumes dir: "assetDir = slash # joinWith slash as" "as \<noteq> []" "list_all plain_comp as" and names: "names_ok s"
    and outside: "\<not> prefix secrets_key as" "\<not> prefix as secrets_key"
    and st: "Start (NewBootstrapControlPlane assetDir pod) s = (b', s', None)"
    and f: "content s (as @ AssetPathSecrets # rel) = Some d" and rel: "rel \<noteq> [''kubeconfig'']"
  shows "content s' (secrets_key @ rel) = Some d"
proof -
  let ?b = "NewBootstrapControlPlane assetDir pod"
  let ?ds = "as @ [AssetPathSecrets]"
  have ds: "?ds \<noteq> []" "list_all plain_comp ?ds" using dir by (simp_all add: AssetPathSecrets_def plain_comp_def)
  have src: "path_Join [b_assetDir ?b, AssetPathSecrets] = slash # joinWith slash ?ds"
    using asset_subdir [OF dir(2,3), of AssetPathSecrets] ds(2) by (simp add: NewBootstrapControlPlane_def dir(1))
  obtain s1 s2 s3 c where 1: "os_RemoveAll s BootstrapSecretsDir = (s1, None)"
    and 2: "copyDirectory s1 (slash # joinWith slash ?ds) BootstrapSecretsDir True = (s2, c, None)"
    and 3: "copyFile s2 (path_Join [b_assetDir ?b, AssetPathAdminKubeConfig]) (path_Join [BootstrapSecretsDir, ''kubeconfig'']) True = (s3, None)"
    and 4: "copyDirectory s3 (path_Join [b_assetDir ?b, AssetPathBootstrapManifests]) (b_podManifestPath ?b) False = (s', b_ownedManifests b', None)"
    by (rule Start_steps [OF st, unfolded src])
  have nf: "fs_fault s OpRemove secrets_key = None" using 1 by (auto simp: os_RemoveAll_def secrets_dir Let_def split: option.splits)
  have s1: "fs_node s1 k = (if prefix secrets_key k then None else fs_node s k)" for k
    using fs_node_RemoveAll [of s BootstrapSecretsDir k] nf 1 by (simp add: secrets_dir) (simp add: secrets_key_def)
  have apart: "\<not> prefix secrets_key (?ds @ r)" for r
    using prefix_same_cases [of secrets_key "?ds @ r" as] outside by auto
  have "content s1 (?ds @ rel) = Some d" using f apart [of rel] by (simp add: content_def s1)
  moreover have "content s1 (secrets_key @ rel) = None" by (simp add: content_def s1)
  moreover have "names_ok s1" using names_ok_RemoveAll [OF names, of BootstrapSecretsDir] 1 by simp
  ultimately have "content s2 (secrets_key @ rel) = Some d"
    using copyDirectory_over [OF ds _ secrets_dir(2) _ 2, of rel d] apart by (simp add: secrets_dir)
  moreover have "fs_key s2 (path_Join [BootstrapSecretsDir, ''kubeconfig'']) = secrets_key @ [''kubeconfig'']"
    using fs_key_Join2 [of BootstrapSecretsDir "''kubeconfig''" s2] by (simp add: secrets_dir plain_comp_def)
  ultimately have "content s3 (secrets_key @ rel) = Some d"
    using content_node_cong [OF copyFile_frame [of "secrets_key @ rel" s2 "path_Join [BootstrapSecretsDir, ''kubeconfig'']"
        "path_Join [b_assetDir ?b, AssetPathAdminKubeConfig]" True]] 3 rel by simp
  then show ?thesis using copyDirectory_keeps_files [of s3 "secrets_key @ rel" d] 4 by (metis fst_conv)
qed


lemma Start_env:
  assumes "assetDir = slash # joinWith slash as" "as \<noteq> []" "list_all plain_comp as" "names_ok s"
    and "Start (NewBootstrapControlPlane assetDir pod) s = (b', s', r)"
  shows "same_env s s'"
  using Start_effect [OF assms] addedD(1) by (metis secrets_ready_def same_env_trans)

end
