(* ===== verification/Assets.thy ===== *)
theory Assets
  imports FileWriters AssetPaths
begin

text \<open>
  Assets and how they are written to disk: the \<open>Asset\<close> and \<open>Assets\<close> types of
  \<open>cmd/render/plugin/default/asset/asset.go\<close>. Rendering and recovery both end with
  \<open>WriteFiles\<close>.
\<close>

record Asset =
  a_Name :: string
  a_Data :: bytes

type_synonym Assets = "Asset list"

definition Assets_Get :: "Assets \<Rightarrow> string \<Rightarrow> go_error + Asset" where
  "Assets_Get as name =
     (case List.find (\<lambda>a. a_Name a = name) as of
        Some a \<Rightarrow> Inr a
      | None \<Rightarrow> Inl (Err (''asset '' @ name @ '' does not exist'')))"

definition Asset_WriteFile :: "fs \<Rightarrow> string \<Rightarrow> Asset \<Rightarrow> fs \<times> go_error option" where
  "Asset_WriteFile s path a =
     (let f = path_Join [path, a_Name a] in
      case os_MkdirAll s (path_Dir f) 493 of
        (s1, Some e) \<Rightarrow> (s1, Some e)
      | (s1, None) \<Rightarrow> ioutil_WriteFile s1 f (a_Data a) 384)"

fun writeAll :: "fs \<Rightarrow> string \<Rightarrow> Assets \<Rightarrow> fs \<times> go_error option" where
  "writeAll s path [] = (s, None)"
| "writeAll s path (a # as) =
     (case Asset_WriteFile s path a of
        (s1, Some e) \<Rightarrow> (s1, Some e)
      | (s1, None) \<Rightarrow> writeAll s1 path as)"

definition Assets_WriteFiles :: "fs \<Rightarrow> Assets \<Rightarrow> string \<Rightarrow> fs \<times> go_error option" where
  "Assets_WriteFiles s as path =
     (case os_MkdirAll s path 493 of
        (s1, Some e) \<Rightarrow> (s1, Some e)
      | (s1, None) \<Rightarrow>
          (case ioutil_ReadDir s1 path of
             Inl e \<Rightarrow> (s1, Some e)
           | Inr files \<Rightarrow>
               (if files \<noteq> [] then (s1, Some (Err ''asset directory must be empty''))
                else writeAll s1 path as)))"

section \<open>Where an asset goes\<close>

text \<open>Names of assets are relative paths of plain elements.\<close>

definition asset_path :: "Asset \<Rightarrow> key" where
  "asset_path a = splitOn slash (a_Name a)"

definition plain_asset :: "Asset \<Rightarrow> bool" where
  "plain_asset a \<longleftrightarrow> list_all plain_comp (asset_path a)"

lemma asset_key:
  assumes "path \<noteq> ''''" "plain_asset a"
  shows "fs_key s (path_Join [path, a_Name a]) = fs_key s path @ asset_path a"
  using assms by (simp add: path_Join_def fs_key_append_slash plain_asset_def asset_path_def foldl_clean_plain)

lemma asset_path_inj: "asset_path a = asset_path b \<longleftrightarrow> a_Name a = a_Name b"
  unfolding asset_path_def by (metis joinWith_splitOn)

section \<open>Writing one asset\<close>

lemma ioutil_WriteFile_frame: "k \<noteq> fs_key s p \<Longrightarrow> fs_node (fst (ioutil_WriteFile s p d mode)) k = fs_node s k"
proof -
  assume k: "k \<noteq> fs_key s p"
  obtain s1 r where o: "os_OpenFile False True mode s p = (s1, r)" by fastforce
  have "fs_key s1 p = fs_key s p" using same_env_key [OF os_OpenFile_env [of s False True mode p]] o by simp
  then show ?thesis
    using k file_Write_frame [of k s1 p d] os_OpenFile_frame [OF k, of False True mode] o
    by (simp add: ioutil_WriteFile_def split: option.splits)
qed

lemma WriteFile_env: "same_env s (fst (Asset_WriteFile s path a))"
proof -
  let ?f = "path_Join [path, a_Name a]"
  obtain s1 r where m: "os_MkdirAll s (path_Dir ?f) 493 = (s1, r)" by fastforce
  have "same_env s s1" using os_MkdirAll_env [of s "path_Dir ?f" 493] m by simp
  moreover from same_env_trans [OF this truncating.wr_env] have "same_env s (fst (ioutil_WriteFile s1 ?f (a_Data a) 384))" .
  ultimately show ?thesis by (simp add: Asset_WriteFile_def m Let_def split: option.splits)
qed

lemma WriteFile_frame:
  assumes "k \<noteq> fs_key s (path_Join [path, a_Name a])"
  shows "content (fst (Asset_WriteFile s path a)) k = content s k"
proof -
  let ?f = "path_Join [path, a_Name a]"
  obtain s1 r where m: "os_MkdirAll s (path_Dir ?f) 493 = (s1, r)" by fastforce
  have "fs_key s1 ?f = fs_key s ?f" using same_env_key [OF os_MkdirAll_env [of s "path_Dir ?f" 493]] m by simp
  then have "content (fst (ioutil_WriteFile s1 ?f (a_Data a) 384)) k = content s1 k"
    using ioutil_WriteFile_frame [of k s1 ?f "a_Data a" 384] assms by (simp add: content_def)
  moreover have "content s1 k = content s k" using os_MkdirAll_content [of s "path_Dir ?f" 493 k] m by simp
  ultimately show ?thesis by (simp add: Asset_WriteFile_def m Let_def split: option.splits)
qed

lemma WriteFile_ok:
  assumes "snd (Asset_WriteFile s path a) = None"
  shows "content (fst (Asset_WriteFile s path a)) (fs_key s (path_Join [path, a_Name a])) = Some (a_Data a)"
proof -
  let ?f = "path_Join [path, a_Name a]"
  obtain s1 where m: "os_MkdirAll s (path_Dir ?f) 493 = (s1, None)"
    using assms by (cases "os_MkdirAll s (path_Dir ?f) 493") (auto simp: Asset_WriteFile_def Let_def split: option.splits)
  have "fs_key s1 ?f = fs_key s ?f" using same_env_key [OF os_MkdirAll_env [of s "path_Dir ?f" 493]] m by simp
  then show ?thesis
    using truncating.wr_content [of s1 ?f "a_Data a" 384] assms by (simp add: Asset_WriteFile_def m Let_def)
qed

section \<open>Writing them all\<close>

lemma writeAll_frame:
  assumes "path \<noteq> ''''" "list_all plain_asset as" "\<And>a. a \<in> set as \<Longrightarrow> k \<noteq> fs_key s path @ asset_path a"
  shows "content (fst (writeAll s path as)) k = content s k"
  using assms(2,3)
proof (induction as arbitrary: s)
  case (Cons a as)
  obtain s1 r where w: "Asset_WriteFile s path a = (s1, r)" by fastforce
  have key: "fs_key s1 path = fs_key s path" using same_env_key [OF WriteFile_env [of s path a]] w by simp
  have "k \<noteq> fs_key s (path_Join [path, a_Name a])" using Cons.prems asset_key [OF assms(1)] by auto
  then have "content s1 k = content s k" using WriteFile_frame [of k s path a] w by simp
  moreover have "content (fst (writeAll s1 path as)) k = content s1 k"
    using Cons.prems key by (intro Cons.IH) auto
  ultimately show ?case using w by (simp split: option.splits)
qed simp

text \<open>Assets of one name hold the same data; names need not be distinct.\<close>

definition consistent :: "Assets \<Rightarrow> bool" where
  "consistent as \<longleftrightarrow> (\<forall>a \<in> set as. \<forall>b \<in> set as. a_Name a = a_Name b \<longrightarrow> a_Data a = a_Data b)"

lemma distinct_consistent: "distinct (map a_Name as) \<Longrightarrow> consistent as"
  by (auto simp: consistent_def distinct_map dest: inj_onD)

lemma writeAll_ok:
  assumes "path \<noteq> ''''" "list_all plain_asset as" "consistent as" "snd (writeAll s path as) = None" "a \<in> set as"
  shows "content (fst (writeAll s path as)) (fs_key s path @ asset_path a) = Some (a_Data a)"
  using assms(2-5)
proof (induction as arbitrary: s a)
  case (Cons b as)
  obtain s1 where w: "Asset_WriteFile s path b = (s1, None)"
    using Cons.prems(3) by (cases "Asset_WriteFile s path b") (auto split: option.splits)
  have key: "fs_key s1 path = fs_key s path" using same_env_key [OF WriteFile_env [of s path b]] w by simp
  have cons: "consistent as" using Cons.prems(2) unfolding consistent_def by (meson list.set_intros(2))
  show ?case
  proof (cases "a_Name a \<in> a_Name ` set as")
    case False
    then have True: "a = b" using Cons.prems(4) by auto
    have "content s1 (fs_key s path @ asset_path a) = Some (a_Data a)"
      using WriteFile_ok [of s path b] asset_key [OF assms(1), of b s] w True Cons.prems(1) by simp
    moreover have "content (fst (writeAll s1 path as)) (fs_key s path @ asset_path a) = content s1 (fs_key s path @ asset_path a)"
    proof (rule writeAll_frame [OF assms(1)])
      show "list_all plain_asset as" using Cons.prems(1) by simp
      show "fs_key s path @ asset_path a \<noteq> fs_key s1 path @ asset_path c" if "c \<in> set as" for c
        using that False unfolding key by (auto simp: asset_path_inj)
    qed
    ultimately show ?thesis using w by simp
  next
    case True
    then obtain c where c: "c \<in> set as" "a_Name a = a_Name c" by auto
    then have "a_Data a = a_Data c" using Cons.prems(2,4) unfolding consistent_def by (meson list.set_intros(2))
    moreover have "asset_path a = asset_path c" using c(2) by (simp add: asset_path_inj)
    ultimately show ?thesis using Cons.IH [of s1 c] Cons.prems(1,3) w key cons c(1) by simp
  qed
qed simp

lemma WriteFiles_ok:
  assumes "path \<noteq> ''''" "list_all plain_asset as" "consistent as" and a: "a \<in> set as"
    and ok: "Assets_WriteFiles s as path = (s', None)"
  shows "content s' (fs_key s path @ asset_path a) = Some (a_Data a)"
proof -
  obtain s1 where m: "os_MkdirAll s path 493 = (s1, None)" and w: "writeAll s1 path as = (s', None)"
    using ok by (auto simp: Assets_WriteFiles_def split: prod.splits option.splits sum.splits if_splits)
  have "fs_key s1 path = fs_key s path" using same_env_key [OF os_MkdirAll_env [of s path 493]] m by simp
  then show ?thesis using writeAll_ok [OF assms(1-3) _ a, of s1] w by simp
qed

section \<open>Properties\<close>

text \<open>
  After \<open>WriteFiles\<close> succeeded every asset is in the asset directory under its name
  with exactly its data, so reading the files back gives the assets that were written. Asset
  names are plain relative paths and distinct.
\<close>

lemma written_assets_are_readable:
  assumes "path \<noteq> ''''" "list_all plain_asset as" "distinct (map a_Name as)" and a: "a \<in> set as"
    and ok: "Assets_WriteFiles s as path = (s', None)"
  shows "content s' (fs_key s path @ asset_path a) = Some (a_Data a)"
  by (rule WriteFiles_ok [OF assms(1,2) distinct_consistent [OF assms(3)] a ok])

lemma ancestor_exists: "fs_wf s \<Longrightarrow> fs_node s (k @ rel) \<noteq> None \<Longrightarrow> fs_node s k \<noteq> None"
proof (induction rel rule: rev_induct)
  case (snoc x rel)
  have "is_dir (fs_node s (k @ rel))" using snoc.prems by (simp add: fs_wf_def) (metis append.assoc option.distinct(1))
  then have "fs_node s (k @ rel) \<noteq> None" by (metis is_dir_simps(3))
  then show ?case by (rule snoc.IH [OF snoc.prems(1)])
qed simp

text \<open>
  C33: Writing assets never damages a file: whatever the outcome, every file that existed
  before keeps its content, because assets are only written into an empty directory.
\<close>

theorem writing_assets_keeps_files:
  assumes wf: "fs_wf s" and "path \<noteq> ''''" "list_all plain_asset as" and k: "content s k = Some d"
  shows "content (fst (Assets_WriteFiles s as path)) k = Some d"
proof -
  obtain s1 r where m: "os_MkdirAll s path 493 = (s1, r)" by fastforce
  have k1: "content s1 k = Some d" using os_MkdirAll_content [of s path 493 k] m k by simp
  have key: "fs_key s1 path = fs_key s path" using same_env_key [OF os_MkdirAll_env [of s path 493]] m by simp
  have keep: "content (fst (writeAll s1 path as)) k = Some d" if empty: "children s1 (fs_key s path) = []"
  proof -
    have "k \<noteq> fs_key s path @ asset_path a" for a
    proof
      assume eq: "k = fs_key s path @ asset_path a"
      obtain x rel where split: "asset_path a = x # rel" by (cases "asset_path a") (auto simp: asset_path_def)
      have "fs_node s ((fs_key s path @ [x]) @ rel) \<noteq> None" using k eq split by (auto simp: content_def split: option.splits)
      then have "fs_node s (fs_key s path @ [x]) \<noteq> None" by (rule ancestor_exists [OF wf])
      then have "fs_node s1 (fs_key s path @ [x]) \<noteq> None" using os_MkdirAll_keeps [of s "fs_key s path @ [x]" _ path 493] m by auto
      then show False using node_child [of s1 "fs_key s path" x] empty by auto
    qed
    then show ?thesis using writeAll_frame [OF assms(2,3), of k s1] key k1 by simp
  qed
  show ?thesis
  proof (cases r)
    case (Some e)
    then show ?thesis using m k1 by (simp add: Assets_WriteFiles_def)
  next
    case None
    show ?thesis
    proof (cases "ioutil_ReadDir s1 path")
      case (Inl e)
      then show ?thesis using None m k1 by (simp add: Assets_WriteFiles_def)
    next
      case (Inr files)
      have "files = sort_Strings (children s1 (fs_key s path))"
        using Inr key by (auto simp: ioutil_ReadDir_def Let_def split: option.splits node.splits)
      then have "files = [] \<longleftrightarrow> children s1 (fs_key s path) = []" by (metis set_empty set_sort_Strings)
      then show ?thesis using None m k1 Inr keep by (simp add: Assets_WriteFiles_def)
    qed
  qed
qed

definition example_assets :: Assets where
  "example_assets = [\<lparr>a_Name = ''tls/ca.crt'', a_Data = ''cert''\<rparr>, \<lparr>a_Name = ''manifests/pod.yaml'', a_Data = ''pod''\<rparr>]"

definition empty_host :: fs where
  "empty_host = \<lparr>entries = [([], new_dir 493), ([''etc''], new_dir 493), ([''etc'', ''keep''], NFile ''x'' \<lparr>n_mode = 384, n_uid = 0, n_gid = 0\<rparr>)],
     cwd = [], faults = (\<lambda>_ _. None), torn = (\<lambda>_. 0)\<rparr>"

lemma example_assets_plain: "list_all plain_asset example_assets" "distinct (map a_Name example_assets)"
  by code_simp+

lemma written_assets_are_readable_witness:
  "snd (Assets_WriteFiles empty_host example_assets ''/out'') = None \<and>
   content (fst (Assets_WriteFiles empty_host example_assets ''/out'')) [''out'', ''tls'', ''ca.crt''] = Some ''cert''"
proof -
  have ok: "snd (Assets_WriteFiles empty_host example_assets ''/out'') = None" by code_simp
  then have run: "Assets_WriteFiles empty_host example_assets ''/out'' = (fst (Assets_WriteFiles empty_host example_assets ''/out''), None)"
    by (metis prod.collapse)
  have a: "\<lparr>a_Name = ''tls/ca.crt'', a_Data = ''cert''\<rparr> \<in> set example_assets" by (simp add: example_assets_def)
  have k: "fs_key empty_host ''/out'' = [''out'']" "asset_path \<lparr>a_Name = ''tls/ca.crt'', a_Data = ''cert''\<rparr> = [''tls'', ''ca.crt'']"
    by code_simp+
  show ?thesis using written_assets_are_readable [OF _ example_assets_plain a run] ok by (simp add: k)
qed

lemma fs_wfI:
  assumes "is_dir (fs_node s [])" "list_all (\<lambda>(k, _). k = [] \<or> is_dir (fs_node s (butlast k))) (entries s)"
  shows "fs_wf s"
  unfolding fs_wf_def
proof (intro conjI allI impI)
  fix k n assume "fs_node s (k @ [n]) \<noteq> None"
  then obtain x where "(k @ [n], x) \<in> set (entries s)" by (auto simp: fs_node_def dest: map_of_SomeD)
  with assms(2) show "is_dir (fs_node s k)" by (auto simp: list_all_iff)
qed (rule assms(1))

theorem writing_assets_keeps_files_witness:
  "content empty_host [''etc'', ''keep''] = Some ''x'' \<and>
   content (fst (Assets_WriteFiles empty_host example_assets ''/etc'')) [''etc'', ''keep''] = Some ''x''"
proof -
  have wf: "fs_wf empty_host" by (rule fs_wfI) code_simp+
  have k: "content empty_host [''etc'', ''keep''] = Some ''x''" by code_simp
  show ?thesis using writing_assets_keeps_files [OF wf _ example_assets_plain(1) k, of "''/etc''"] k by simp
qed

end
