(* ===== verification/Recovery.thy ===== *)
theory Recovery
  imports PodModel Assets
begin

text \<open>
  Disaster recovery: \<open>pkg/recovery\<close>. A backend reads the control plane's objects from the
  API server or straight from etcd; \<open>Recover\<close> turns its daemon sets and deployments into
  bootstrap pods and collects the secrets and config maps they mount. The API server's lists,
  etcd's answers, the decoder of stored objects and the YAML encoder are parameters. Go maps
  are association lists; their order is the order of iteration.
\<close>

definition k8sAppLabel :: string where "k8sAppLabel = ''k8s-app''"
definition componentAppLabel :: string where "componentAppLabel = ''component''"
definition kubeletKubeConfigPath :: string where "kubeletKubeConfigPath = ''/etc/kubernetes''"
definition apiServerContainerName :: string where "apiServerContainerName = ''kube-apiserver''"

definition bootstrapK8sApps :: "string list" where
  "bootstrapK8sApps = [apiServerContainerName, ''kube-controller-manager'', ''kube-scheduler'']"

definition kubeConfigK8sContainers :: "string list" where
  "kubeConfigK8sContainers = [''kube-controller-manager'', ''kube-scheduler'']"

text \<open>The Go types that have type metadata.\<close>

datatype objType = TConfigMap | TDaemonSet | TDeployment | TPod | TSecret | TOther string

definition typeMetas :: "objType \<Rightarrow> (string \<times> string) option" where
  "typeMetas t =
     (case t of
        TConfigMap \<Rightarrow> Some (''v1'', ''ConfigMap'')
      | TDaemonSet \<Rightarrow> Some (''apps/v1'', ''DaemonSet'')
      | TDeployment \<Rightarrow> Some (''apps/v1'', ''Deployment'')
      | TPod \<Rightarrow> Some (''v1'', ''Pod'')
      | TSecret \<Rightarrow> Some (''v1'', ''Secret'')
      | TOther _ \<Rightarrow> None)"

definition setTypeMeta :: "pod \<Rightarrow> go_error + pod" where
  "setTypeMeta obj =
     (case typeMetas TPod of
        None \<Rightarrow> Inl (Err ''don't know about type'')
      | Some (apiVersion, kind) \<Rightarrow> Inr (obj\<lparr>p_APIVersion := apiVersion, p_Kind := kind\<rparr>))"

text \<open>A daemon set or a deployment: its metadata and the pod spec of its template.\<close>

record workload =
  wl_Meta :: objectMeta
  wl_Spec :: podSpec

text \<open>A secret or a config map.\<close>

record kvObject =
  kv_Meta :: objectMeta
  kv_Data :: "(string \<times> bytes) list"

record controlPlane =
  cp_configMaps :: "kvObject list"
  cp_daemonSets :: "workload list"
  cp_deployments :: "workload list"
  cp_secrets :: "kvObject list"

section \<open>Bootstrap pods\<close>

definition isBootstrapApp :: "strmap option \<Rightarrow> bool" where
  "isBootstrapApp labels =
     (let k8sApp = strmap_get labels k8sAppLabel;
          app = (if k8sApp = '''' then strmap_get labels componentAppLabel else k8sApp)
      in app \<in> set bootstrapK8sApps)"

definition setBootstrapPodMetadata :: "pod \<Rightarrow> objectMeta \<Rightarrow> go_error + pod" where
  "setBootstrapPodMetadata pod parent =
     (case setTypeMeta pod of
        Inl e \<Rightarrow> Inl e
      | Inr pod' \<Rightarrow>
          Inr (pod'\<lparr>p_Meta := emptyMeta\<lparr>m_Annotations := m_Annotations parent, m_Name := ''bootstrap-'' @ m_Name parent,
                                        m_Namespace := m_Namespace parent\<rparr>\<rparr>))"

fun extractPods :: "workload list \<Rightarrow> pod list \<Rightarrow> go_error + pod list" where
  "extractPods [] pods = Inr pods"
| "extractPods (ds # rest) pods =
     (if isBootstrapApp (m_Labels (wl_Meta ds))
      then (case setBootstrapPodMetadata (emptyPod\<lparr>p_Spec := wl_Spec ds\<rparr>) (wl_Meta ds) of
              Inl e \<Rightarrow> Inl e
            | Inr pod \<Rightarrow> extractPods rest (pods @ [pod]))
      else extractPods rest pods)"

definition extractBootstrapPods :: "workload list \<Rightarrow> workload list \<Rightarrow> go_error + pod list" where
  "extractBootstrapPods daemonSets deployments =
     (case extractPods daemonSets [] of
        Inl e \<Rightarrow> Inl e
      | Inr pods \<Rightarrow> extractPods deployments pods)"

text \<open>The maps \<open>requiredConfigMaps\<close> and \<open>requiredSecrets\<close>.\<close>

type_synonym required = "strmap \<times> strmap"

definition fixVolume :: "required \<Rightarrow> volume \<Rightarrow> required \<times> volume" where
  "fixVolume req vol =
     (case req of (cms, secs) \<Rightarrow>
        (case v_Secret vol of
           Some r \<Rightarrow>
             (let pathSuffix = path_Join [''secrets'', vr_Name r] in
              ((cms, AList.update (vr_Name r) (path_Join [AssetPathSecrets, pathSuffix]) secs),
               vol\<lparr>v_HostPath := Some (path_Join [BootstrapSecretsDir, pathSuffix]), v_Secret := None\<rparr>))
         | None \<Rightarrow>
             (case v_ConfigMap vol of
                Some r \<Rightarrow>
                  (let pathSuffix = path_Join [''config-maps'', vr_Name r] in
                   ((AList.update (vr_Name r) (path_Join [AssetPathSecrets, pathSuffix]) cms, secs),
                    vol\<lparr>v_HostPath := Some (path_Join [BootstrapSecretsDir, pathSuffix]), v_ConfigMap := None\<rparr>))
              | None \<Rightarrow> ((cms, secs), vol))))"

fun fixVolumes :: "required \<Rightarrow> volume list \<Rightarrow> required \<times> volume list" where
  "fixVolumes req [] = (req, [])"
| "fixVolumes req (v # vs) =
     (case fixVolume req v of (req1, v') \<Rightarrow> (case fixVolumes req1 vs of (req2, vs') \<Rightarrow> (req2, v' # vs')))"

definition fixContainer :: "container \<Rightarrow> container" where
  "fixContainer cn =
     (let cn1 = cn\<lparr>c_SecurityContext := map_option (\<lambda>sc. sc\<lparr>sc_RunAsNonRoot := None, sc_RunAsUser := None\<rparr>) (c_SecurityContext cn)\<rparr>
      in if c_Name cn \<in> set kubeConfigK8sContainers
         then cn1\<lparr>c_Command := c_Command cn1 @ [''--kubeconfig=/kubeconfig/kubeconfig''],
                  c_VolumeMounts := c_VolumeMounts cn1 @
                    [\<lparr>vm_Name = ''kubeconfig'', vm_MountPath = ''/kubeconfig'', vm_ReadOnly = True, vm_rest = ''''\<rparr>]\<rparr>
         else cn1)"

definition kubeconfigVolume :: volume where
  "kubeconfigVolume = \<lparr>v_Name = ''kubeconfig'', v_Secret = None, v_ConfigMap = None, v_HostPath = Some kubeletKubeConfigPath, v_rest = ''''\<rparr>"

definition fixUpPod :: "required \<Rightarrow> pod \<Rightarrow> required \<times> pod" where
  "fixUpPod req pod =
     (case fixVolumes req (sp_Volumes (p_Spec pod)) of (req', vols) \<Rightarrow>
        (req', pod\<lparr>p_Spec := (p_Spec pod)\<lparr>
           sp_SecurityContext := map_option (\<lambda>sc. sc\<lparr>psc_RunAsNonRoot := None, psc_RunAsUser := None\<rparr>) (sp_SecurityContext (p_Spec pod)),
           sp_HostNetwork := True,
           sp_Volumes := vols @ [kubeconfigVolume],
           sp_Containers := map fixContainer (sp_Containers (p_Spec pod))\<rparr>\<rparr>))"

fun fixUpPods :: "required \<Rightarrow> pod list \<Rightarrow> required \<times> pod list" where
  "fixUpPods req [] = (req, [])"
| "fixUpPods req (p # ps) =
     (case fixUpPod req p of (req1, p') \<Rightarrow> (case fixUpPods req1 ps of (req2, ps') \<Rightarrow> (req2, p' # ps')))"

definition fixUpBootstrapPods :: "pod list \<Rightarrow> required \<times> pod list" where
  "fixUpBootstrapPods pods = fixUpPods ([], []) pods"

abbreviation kv_Name :: "kvObject \<Rightarrow> string" where
  "kv_Name obj \<equiv> m_Name (kv_Meta obj)"

section \<open>Output\<close>

definition serializeObjToYAML :: "(pod \<Rightarrow> go_error + bytes) \<Rightarrow> string \<Rightarrow> pod \<Rightarrow> go_error + Asset" where
  "serializeObjToYAML Marshal assetName obj =
     (case Marshal obj of Inl e \<Rightarrow> Inl e | Inr data \<Rightarrow> Inr \<lparr>a_Name = assetName, a_Data = data\<rparr>)"

fun outputBootstrapPods :: "(pod \<Rightarrow> go_error + bytes) \<Rightarrow> pod list \<Rightarrow> Assets \<Rightarrow> go_error + Assets" where
  "outputBootstrapPods Marshal [] as = Inr as"
| "outputBootstrapPods Marshal (pod # pods) as =
     (case serializeObjToYAML Marshal (path_Join [AssetPathBootstrapManifests, pod_Name pod @ ''.yaml'']) pod of
        Inl e \<Rightarrow> Inl e
      | Inr a \<Rightarrow> outputBootstrapPods Marshal pods (as @ [a]))"

definition kv_assets :: "string \<Rightarrow> kvObject \<Rightarrow> Assets" where
  "kv_assets namePrefix obj = map (\<lambda>(key, data). \<lparr>a_Name = path_Join [namePrefix, key], a_Data = data\<rparr>) (kv_Data obj)"

fun outputObjs :: "kvObject list \<Rightarrow> strmap \<Rightarrow> Assets \<Rightarrow> strmap \<times> Assets" where
  "outputObjs [] requiredObjs as = (requiredObjs, as)"
| "outputObjs (obj # objs) requiredObjs as =
     (let name = kv_Name obj in
      case map_of requiredObjs name of
        Some namePrefix \<Rightarrow> outputObjs objs (AList.delete name requiredObjs) (as @ kv_assets namePrefix obj)
      | None \<Rightarrow> outputObjs objs requiredObjs as)"

definition outputKeyValueData :: "kvObject list \<Rightarrow> strmap \<Rightarrow> go_error + Assets" where
  "outputKeyValueData objs requiredObjs =
     (case outputObjs objs requiredObjs [] of
        (missing, as) \<Rightarrow>
          (if missing \<noteq> [] then Inl (Err ''failed to extract some required objects'') else Inr as))"

definition outputBootstrapConfigMaps :: "kvObject list \<Rightarrow> strmap \<Rightarrow> go_error + Assets" where
  "outputBootstrapConfigMaps configMaps requiredConfigMaps = outputKeyValueData configMaps requiredConfigMaps"

definition outputBootstrapSecrets :: "kvObject list \<Rightarrow> strmap \<Rightarrow> go_error + Assets" where
  "outputBootstrapSecrets secrets requiredSecrets = outputKeyValueData secrets requiredSecrets"

definition renderBootstrap :: "(pod \<Rightarrow> go_error + bytes) \<Rightarrow> controlPlane \<Rightarrow> go_error + Assets" where
  "renderBootstrap Marshal cp =
     (case extractBootstrapPods (cp_daemonSets cp) (cp_deployments cp) of
        Inl e \<Rightarrow> Inl e
      | Inr extracted \<Rightarrow>
          (case fixUpBootstrapPods extracted of ((requiredConfigMaps, requiredSecrets), pods) \<Rightarrow>
             (case outputBootstrapPods Marshal pods [] of
                Inl e \<Rightarrow> Inl e
              | Inr as \<Rightarrow>
                  (case outputBootstrapConfigMaps (cp_configMaps cp) requiredConfigMaps of
                     Inl e \<Rightarrow> Inl e
                   | Inr configMaps \<Rightarrow>
                       (case outputBootstrapSecrets (cp_secrets cp) requiredSecrets of
                          Inl e \<Rightarrow> Inl e
                        | Inr secrets \<Rightarrow> Inr (as @ configMaps @ secrets))))))"

definition renderKubeConfig :: "fs \<Rightarrow> string \<Rightarrow> go_error + Asset" where
  "renderKubeConfig s kubeConfigPath =
     (case ioutil_ReadFile s kubeConfigPath of
        Inl e \<Rightarrow> Inl e
      | Inr kubeConfig \<Rightarrow> Inr \<lparr>a_Name = AssetPathAdminKubeConfig, a_Data = kubeConfig\<rparr>)"

definition Recover :: "(pod \<Rightarrow> go_error + bytes) \<Rightarrow> (go_error + controlPlane) \<Rightarrow> fs \<Rightarrow> string \<Rightarrow> go_error + Assets" where
  "Recover Marshal read s kubeConfigPath =
     (case read of
        Inl e \<Rightarrow> Inl e
      | Inr cp \<Rightarrow>
          (case renderBootstrap Marshal cp of
             Inl e \<Rightarrow> Inl e
           | Inr as \<Rightarrow>
               (case renderKubeConfig s kubeConfigPath of
                  Inl e \<Rightarrow> Inl e
                | Inr kc \<Rightarrow> Inr (as @ [kc]))))"

section \<open>What the steps produce\<close>

text \<open>The bootstrap pod of a workload, before and after it is fixed up.\<close>

definition bootstrapPod :: "workload \<Rightarrow> pod" where
  "bootstrapPod w = emptyPod\<lparr>p_APIVersion := ''v1'', p_Kind := ''Pod'', p_Spec := wl_Spec w,
     p_Meta := emptyMeta\<lparr>m_Annotations := m_Annotations (wl_Meta w), m_Name := ''bootstrap-'' @ m_Name (wl_Meta w),
                         m_Namespace := m_Namespace (wl_Meta w)\<rparr>\<rparr>"

definition fixedVolume :: "volume \<Rightarrow> volume" where
  "fixedVolume v = snd (fixVolume ([], []) v)"

definition fixedPod :: "pod \<Rightarrow> pod" where
  "fixedPod p = snd (fixUpPod ([], []) p)"

lemma extractPods_result:
  "extractPods ws pods = Inr (pods @ map bootstrapPod (filter (\<lambda>w. isBootstrapApp (m_Labels (wl_Meta w))) ws))"
proof (induction ws arbitrary: pods)
  case (Cons w ws)
  have "setBootstrapPodMetadata (emptyPod\<lparr>p_Spec := wl_Spec w\<rparr>) (wl_Meta w) = Inr (bootstrapPod w)"
    by (simp add: setBootstrapPodMetadata_def setTypeMeta_def typeMetas_def bootstrapPod_def)
  with Cons show ?case by simp
qed simp

lemma extractBootstrapPods_result:
  "extractBootstrapPods dss deps = Inr (map bootstrapPod (filter (\<lambda>w. isBootstrapApp (m_Labels (wl_Meta w))) (dss @ deps)))"
  by (simp add: extractBootstrapPods_def extractPods_result)

lemma fixVolume_snd: "snd (fixVolume req v) = fixedVolume v"
  by (simp add: fixedVolume_def fixVolume_def Let_def split: prod.splits option.splits)

lemma fixVolumes_snd: "snd (fixVolumes req vs) = map fixedVolume vs"
proof (induction vs arbitrary: req)
  case (Cons v vs)
  then show ?case using fixVolume_snd [of req v] by (simp add: case_prod_beta)
qed simp

lemma fixUpPod_snd: "snd (fixUpPod req p) = fixedPod p"
  by (simp add: fixedPod_def fixUpPod_def case_prod_beta fixVolumes_snd)

lemma fixUpPods_snd: "snd (fixUpPods req ps) = map fixedPod ps"
proof (induction ps arbitrary: req)
  case (Cons p ps)
  then show ?case using fixUpPod_snd [of req p] by (simp add: case_prod_beta)
qed simp

text \<open>The names of the secrets and config maps that volumes are changed for.\<close>

definition secret_of :: "volume \<Rightarrow> string option" where
  "secret_of v = map_option vr_Name (v_Secret v)"

definition configMap_of :: "volume \<Rightarrow> string option" where
  "configMap_of v = (if v_Secret v = None then map_option vr_Name (v_ConfigMap v) else None)"

definition secret_asset :: "string \<Rightarrow> string" where
  "secret_asset n = path_Join [AssetPathSecrets, path_Join [''secrets'', n]]"

definition configMap_asset :: "string \<Rightarrow> string" where
  "configMap_asset n = path_Join [AssetPathSecrets, path_Join [''config-maps'', n]]"

text \<open>The required objects: exactly those some volume names, with their places.\<close>

definition adds :: "(string \<Rightarrow> string) \<Rightarrow> string set \<Rightarrow> strmap \<Rightarrow> strmap \<Rightarrow> bool" where
  "adds place N m m' \<longleftrightarrow> (\<forall>n. map_of m' n = (if n \<in> N then Some (place n) else map_of m n))"

lemma adds_refl: "adds place {} m m"
  by (simp add: adds_def)

lemma adds_trans: "adds place N m1 m2 \<Longrightarrow> adds place N' m2 m3 \<Longrightarrow> adds place (N \<union> N') m1 m3"
  by (simp add: adds_def)

lemma fixVolume_required:
  "adds configMap_asset {n. configMap_of v = Some n} (fst req) (fst (fst (fixVolume req v))) \<and>
   adds secret_asset {n. secret_of v = Some n} (snd req) (snd (fst (fixVolume req v)))"
  by (cases req; cases "v_Secret v"; cases "v_ConfigMap v")
    (simp_all add: fixVolume_def adds_def secret_of_def configMap_of_def secret_asset_def configMap_asset_def Let_def)

definition volumes_of :: "pod list \<Rightarrow> volume set" where
  "volumes_of ps = (\<Union>p \<in> set ps. set (sp_Volumes (p_Spec p)))"

lemma Collect_of_insert: "{n. \<exists>v \<in> insert x X. f v = Some n} = {n. f x = Some n} \<union> {n. \<exists>v \<in> X. f v = Some n}"
  by auto

lemma fixVolumes_required:
  "adds configMap_asset {n. \<exists>v \<in> set vs. configMap_of v = Some n} (fst req) (fst (fst (fixVolumes req vs))) \<and>
   adds secret_asset {n. \<exists>v \<in> set vs. secret_of v = Some n} (snd req) (snd (fst (fixVolumes req vs)))"
proof (induction vs arbitrary: req)
  case (Cons v vs)
  show ?case
    using fixVolume_required [of v req] Cons.IH [of "fst (fixVolume req v)"]
    by (simp only: list.set Collect_of_insert fixVolumes.simps case_prod_beta fst_conv) (blast intro: adds_trans)
qed (simp add: adds_refl)

lemma fixUpPod_required: "fst (fixUpPod req p) = fst (fixVolumes req (sp_Volumes (p_Spec p)))"
  by (simp add: fixUpPod_def case_prod_beta)

lemma Collect_of_Un: "{n. \<exists>v \<in> X \<union> Y. f v = Some n} = {n. \<exists>v \<in> X. f v = Some n} \<union> {n. \<exists>v \<in> Y. f v = Some n}"
  by auto

lemma fixUpPods_required:
  "adds configMap_asset {n. \<exists>v \<in> volumes_of ps. configMap_of v = Some n} (fst req) (fst (fst (fixUpPods req ps))) \<and>
   adds secret_asset {n. \<exists>v \<in> volumes_of ps. secret_of v = Some n} (snd req) (snd (fst (fixUpPods req ps)))"
proof (induction ps arbitrary: req)
  case Nil
  show ?case by (simp add: volumes_of_def adds_refl)
next
  case (Cons p ps)
  have split: "volumes_of (p # ps) = set (sp_Volumes (p_Spec p)) \<union> volumes_of ps" by (simp add: volumes_of_def)
  show ?case
    using fixVolumes_required [of "sp_Volumes (p_Spec p)" req] Cons.IH [of "fst (fixUpPod req p)"]
    unfolding split Collect_of_Un
    by (simp only: fixUpPods.simps case_prod_beta fst_conv fixUpPod_required) (blast intro: adds_trans)
qed

lemma outputBootstrapPods_result:
  "outputBootstrapPods Marshal pods as = Inr as' \<Longrightarrow>
   set as \<subseteq> set as' \<and> (\<forall>p \<in> set pods. \<exists>d. Marshal p = Inr d \<and>
     \<lparr>a_Name = path_Join [AssetPathBootstrapManifests, pod_Name p @ ''.yaml''], a_Data = d\<rparr> \<in> set as')"
proof (induction pods arbitrary: as)
  case (Cons p pods)
  let ?name = "path_Join [AssetPathBootstrapManifests, pod_Name p @ ''.yaml'']"
  obtain d where d: "Marshal p = Inr d" and rest: "outputBootstrapPods Marshal pods (as @ [\<lparr>a_Name = ?name, a_Data = d\<rparr>]) = Inr as'"
    using Cons.prems by (auto simp: serializeObjToYAML_def split: sum.splits)
  from Cons.IH [OF rest] d show ?case by auto
qed simp

lemma outputObjs_result:
  assumes "distinct (map kv_Name objs)"
  shows "set as \<subseteq> set (snd (outputObjs objs req as)) \<and>
     (\<forall>n. map_of (fst (outputObjs objs req as)) n = (if n \<in> kv_Name ` set objs then None else map_of req n)) \<and>
     (\<forall>obj \<in> set objs. \<forall>p. map_of req (kv_Name obj) = Some p \<longrightarrow> set (kv_assets p obj) \<subseteq> set (snd (outputObjs objs req as)))"
  using assms
proof (induction objs arbitrary: req as)
  case (Cons x objs)
  let ?n = "kv_Name x"
  have fresh: "kv_Name y \<noteq> ?n" if "y \<in> set objs" for y
  proof -
    have "kv_Name y \<in> kv_Name ` set objs" using that by blast
    then show ?thesis using Cons.prems by auto
  qed
  show ?case
  proof (cases "map_of req ?n")
    case None
    then show ?thesis using Cons.IH [of as req] Cons.prems by (auto simp: Let_def)
  next
    case (Some p)
    have step: "outputObjs (x # objs) req as = outputObjs objs (AList.delete ?n req) (as @ kv_assets p x)"
      using Some by (simp add: Let_def)
    have same: "map_of (AList.delete ?n req) (kv_Name y) = map_of req (kv_Name y)" if "y \<in> set objs" for y
      using fresh [OF that] by simp
    show ?thesis
      unfolding step using Cons.IH [of "as @ kv_assets p x" "AList.delete ?n req"] Cons.prems Some same by auto
  qed
qed simp

lemma outputKeyValueData_result:
  assumes "distinct (map kv_Name objs)" and ok: "outputKeyValueData objs req = Inr as" and n: "map_of req n = Some p"
  shows "\<exists>obj \<in> set objs. kv_Name obj = n \<and> set (kv_assets p obj) \<subseteq> set as"
proof -
  have out: "outputObjs objs req [] = ([], as)"
    using ok by (cases "outputObjs objs req []") (auto simp: outputKeyValueData_def split: if_splits)
  note res = outputObjs_result [OF assms(1), of "[]" req, unfolded out]
  then have "n \<in> kv_Name ` set objs" using n by (metis (no_types, lifting) fst_conv map_of.simps(1) option.distinct(1))
  then obtain obj where "obj \<in> set objs" "kv_Name obj = n" by auto
  with res n show ?thesis by (intro bexI [of _ obj]) auto
qed

section \<open>Properties\<close>

text \<open>Where a recovered secret is mounted from, next to where its asset is written.\<close>

lemma fixedVolume_secret:
  "v_Secret v = Some r \<Longrightarrow> fixedVolume v =
     v\<lparr>v_HostPath := Some (path_Join [BootstrapSecretsDir, path_Join [''secrets'', vr_Name r]]), v_Secret := None\<rparr>"
  by (simp add: fixedVolume_def fixVolume_def Let_def)

lemma fixedVolume_configMap:
  "v_Secret v = None \<Longrightarrow> v_ConfigMap v = Some r \<Longrightarrow> fixedVolume v =
     v\<lparr>v_HostPath := Some (path_Join [BootstrapSecretsDir, path_Join [''config-maps'', vr_Name r]]), v_ConfigMap := None\<rparr>"
  by (simp add: fixedVolume_def fixVolume_def Let_def)

lemma fixedPod_simps:
  "pod_Name (fixedPod p) = pod_Name p" "sp_HostNetwork (p_Spec (fixedPod p))"
  "sp_Volumes (p_Spec (fixedPod p)) = map fixedVolume (sp_Volumes (p_Spec p)) @ [kubeconfigVolume]"
  "sp_Containers (p_Spec (fixedPod p)) = map fixContainer (sp_Containers (p_Spec p))"
  by (simp_all add: fixedPod_def fixUpPod_def case_prod_beta fixVolumes_snd)

lemma Recover_parts:
  assumes "Recover Marshal read s kubeConfigPath = Inr as"
  obtains cp cms secs podAssets cmAssets secAssets kc where "read = Inr cp"
    "fst (fixUpBootstrapPods (map bootstrapPod (filter (\<lambda>w. isBootstrapApp (m_Labels (wl_Meta w))) (cp_daemonSets cp @ cp_deployments cp)))) = (cms, secs)"
    "outputBootstrapPods Marshal (map fixedPod (map bootstrapPod (filter (\<lambda>w. isBootstrapApp (m_Labels (wl_Meta w))) (cp_daemonSets cp @ cp_deployments cp)))) [] = Inr podAssets"
    "outputKeyValueData (cp_configMaps cp) cms = Inr cmAssets" "outputKeyValueData (cp_secrets cp) secs = Inr secAssets"
    "renderKubeConfig s kubeConfigPath = Inr kc" "as = podAssets @ cmAssets @ secAssets @ [kc]"
proof -
  obtain cp where cp: "read = Inr cp" using assms by (auto simp: Recover_def split: sum.splits)
  let ?pods = "map bootstrapPod (filter (\<lambda>w. isBootstrapApp (m_Labels (wl_Meta w))) (cp_daemonSets cp @ cp_deployments cp))"
  obtain cms secs where req: "fst (fixUpBootstrapPods ?pods) = (cms, secs)" by fastforce
  then have fix_eq: "fixUpBootstrapPods ?pods = ((cms, secs), map fixedPod ?pods)"
    using fixUpPods_snd [of "([], [])" ?pods] by (simp only: fixUpBootstrapPods_def) (metis prod.collapse)
  obtain as0 kc where rb: "renderBootstrap Marshal cp = Inr as0" and kc: "renderKubeConfig s kubeConfigPath = Inr kc" "as = as0 @ [kc]"
    using assms cp by (auto simp: Recover_def split: sum.splits)
  obtain podAssets cmAssets secAssets where "outputBootstrapPods Marshal (map fixedPod ?pods) [] = Inr podAssets"
    "outputKeyValueData (cp_configMaps cp) cms = Inr cmAssets" "outputKeyValueData (cp_secrets cp) secs = Inr secAssets"
    "as0 = podAssets @ cmAssets @ secAssets"
    using rb by (auto simp only: renderBootstrap_def extractBootstrapPods_result sum.case fix_eq prod.case
        outputBootstrapConfigMaps_def outputBootstrapSecrets_def split: sum.splits)
  with cp req kc that show thesis by simp
qed

lemma Recover_required:
  assumes "fst (fixUpBootstrapPods pods) = (cms, secs)" and v: "v \<in> volumes_of pods"
  shows "secret_of v = Some n \<Longrightarrow> map_of secs n = Some (secret_asset n)"
    and "configMap_of v = Some n \<Longrightarrow> map_of cms n = Some (configMap_asset n)"
  using fixUpPods_required [of pods "([], [])"] assms by (auto simp: fixUpBootstrapPods_def adds_def)

text \<open>
  A volume of an object of the cluster is served by a host directory: the volume of the same
  name in the bootstrap pod has the directory as its source and the object no longer, the object
  exists, and each of its entries is an asset in the place \<open>bootkube start\<close> copies to that
  directory. A volume has one source; should it have both a secret and a config map, the code
  leaves the config map beside the directory, and so does this definition.
\<close>

definition served :: "Assets \<Rightarrow> kvObject list \<Rightarrow> pod \<Rightarrow> string \<Rightarrow> volume \<Rightarrow> string \<Rightarrow> bool" where
  "served as objs pod dir v n \<longleftrightarrow>
     (\<exists>v' \<in> set (sp_Volumes (p_Spec pod)). v_Name v' = v_Name v \<and> v_rest v' = v_rest v \<and> v_Secret v' = None \<and>
        v_ConfigMap v' = (if v_Secret v = None then None else v_ConfigMap v) \<and>
        v_HostPath v' = Some (path_Join [BootstrapSecretsDir, path_Join [dir, n]])) \<and>
     (\<exists>obj \<in> set objs. kv_Name obj = n \<and>
        (\<forall>(key, d) \<in> set (kv_Data obj).
           \<lparr>a_Name = path_Join [path_Join [AssetPathSecrets, path_Join [dir, n]], key], a_Data = d\<rparr> \<in> set as))"

lemma servedI:
  assumes v': "fixedVolume v \<in> set (sp_Volumes (p_Spec pod))"
    "v_Name (fixedVolume v) = v_Name v \<and> v_rest (fixedVolume v) = v_rest v \<and> v_Secret (fixedVolume v) = None \<and>
     v_ConfigMap (fixedVolume v) = (if v_Secret v = None then None else v_ConfigMap v) \<and>
     v_HostPath (fixedVolume v) = Some (path_Join [BootstrapSecretsDir, path_Join [dir, n]])"
    and objs: "distinct (map kv_Name objs)" "outputKeyValueData objs req = Inr as'" "set as' \<subseteq> set as"
      "map_of req n = Some (path_Join [AssetPathSecrets, path_Join [dir, n]])"
  shows "served as objs pod dir v n"
proof -
  obtain obj where obj: "obj \<in> set objs" "kv_Name obj = n" "set (kv_assets (path_Join [AssetPathSecrets, path_Join [dir, n]]) obj) \<subseteq> set as'"
    using outputKeyValueData_result [OF objs(1,2,4)] by blast
  have "\<lparr>a_Name = path_Join [path_Join [AssetPathSecrets, path_Join [dir, n]], key], a_Data = d\<rparr> \<in> set as" if "(key, d) \<in> set (kv_Data obj)" for key d
    using obj(3) objs(3) that by (force simp: kv_assets_def)
  with v' obj(1,2) show ?thesis unfolding served_def by blast
qed

text \<open>
  What else the bootstrap pod of a workload is: a pod of the workload's name and namespace on the
  host network, which nothing keeps from running as root, with the workload's containers. The
  controller manager and the scheduler are told of the kubeconfig, which is mounted from the host.
\<close>

definition root_container :: "container \<Rightarrow> container \<Rightarrow> bool" where
  "root_container cn cn' \<longleftrightarrow> c_Name cn' = c_Name cn \<and> c_rest cn' = c_rest cn \<and>
     (case c_SecurityContext cn of
        None \<Rightarrow> c_SecurityContext cn' = None
      | Some sc \<Rightarrow> c_SecurityContext cn' = Some \<lparr>sc_RunAsUser = None, sc_RunAsNonRoot = None, sc_rest = sc_rest sc\<rparr>) \<and>
     (if c_Name cn = ''kube-controller-manager'' \<or> c_Name cn = ''kube-scheduler''
      then c_Command cn' = c_Command cn @ [''--kubeconfig=/kubeconfig/kubeconfig''] \<and>
           c_VolumeMounts cn' = c_VolumeMounts cn @
             [\<lparr>vm_Name = ''kubeconfig'', vm_MountPath = ''/kubeconfig'', vm_ReadOnly = True, vm_rest = ''''\<rparr>]
      else c_Command cn' = c_Command cn \<and> c_VolumeMounts cn' = c_VolumeMounts cn)"

definition bootstrap_pod_of :: "workload \<Rightarrow> pod \<Rightarrow> bool" where
  "bootstrap_pod_of w p \<longleftrightarrow> p_APIVersion p = ''v1'' \<and> p_Kind p = ''Pod'' \<and>
     pod_Name p = ''bootstrap-'' @ m_Name (wl_Meta w) \<and> pod_Namespace p = m_Namespace (wl_Meta w) \<and>
     pod_Annotations p = m_Annotations (wl_Meta w) \<and> sp_HostNetwork (p_Spec p) \<and>
     (case sp_SecurityContext (p_Spec p) of None \<Rightarrow> True | Some sc \<Rightarrow> psc_RunAsUser sc = None \<and> psc_RunAsNonRoot sc = None) \<and>
     list_all2 root_container (sp_Containers (wl_Spec w)) (sp_Containers (p_Spec p)) \<and>
     \<lparr>v_Name = ''kubeconfig'', v_Secret = None, v_ConfigMap = None, v_HostPath = Some ''/etc/kubernetes'', v_rest = ''''\<rparr>
       \<in> set (sp_Volumes (p_Spec p)) \<and>
     (\<forall>v \<in> set (sp_Volumes (wl_Spec w)). secret_of v = None \<and> configMap_of v = None \<longrightarrow> v \<in> set (sp_Volumes (p_Spec p)))"

lemma fixContainer_root: "root_container cn (fixContainer cn)"
  by (simp add: root_container_def fixContainer_def kubeConfigK8sContainers_def Let_def split: option.splits)

lemma fixedVolume_other: "secret_of v = None \<Longrightarrow> configMap_of v = None \<Longrightarrow> fixedVolume v = v"
  by (simp add: secret_of_def configMap_of_def fixedVolume_def fixVolume_def split: if_splits)

lemma fixedPod_of: "bootstrap_pod_of w (fixedPod (bootstrapPod w))"
proof -
  have "list_all2 root_container cs (map fixContainer cs)" for cs
    by (simp add: list_all2_conv_all_nth fixContainer_root)
  moreover have "v \<in> fixedVolume ` set vs" if "v \<in> set vs" "secret_of v = None" "configMap_of v = None" for v vs
    using that fixedVolume_other [of v] by force
  ultimately show ?thesis
    by (auto simp: bootstrap_pod_of_def fixedPod_def fixUpPod_def case_prod_beta fixVolumes_snd bootstrapPod_def kubeconfigVolume_def
        kubeletKubeConfigPath_def split: option.splits)
qed

lemma handed_over:
  assumes ok: "Recover Marshal (Inr cp) s kubeConfigPath = Inr as"
    and names: "distinct (map kv_Name (cp_secrets cp))" "distinct (map kv_Name (cp_configMaps cp))"
    and w: "w \<in> set (cp_daemonSets cp @ cp_deployments cp)" "isBootstrapApp (m_Labels (wl_Meta w))"
  shows "\<exists>pod data. Marshal pod = Inr data \<and> bootstrap_pod_of w pod \<and>
     \<lparr>a_Name = path_Join [AssetPathBootstrapManifests, ''bootstrap-'' @ m_Name (wl_Meta w) @ ''.yaml''], a_Data = data\<rparr> \<in> set as \<and>
     (\<forall>v \<in> set (sp_Volumes (wl_Spec w)).
        (\<forall>n. secret_of v = Some n \<longrightarrow> served as (cp_secrets cp) pod ''secrets'' v n) \<and>
        (\<forall>n. configMap_of v = Some n \<longrightarrow> served as (cp_configMaps cp) pod ''config-maps'' v n)) \<and>
     (\<exists>conf. ioutil_ReadFile s kubeConfigPath = Inr conf \<and> \<lparr>a_Name = AssetPathAdminKubeConfig, a_Data = conf\<rparr> \<in> set as)"
proof -
  let ?pods = "map bootstrapPod (filter (\<lambda>w. isBootstrapApp (m_Labels (wl_Meta w))) (cp_daemonSets cp @ cp_deployments cp))"
  from Recover_parts [OF ok] obtain cms secs podAssets cmAssets secAssets kc where
    req: "fst (fixUpBootstrapPods ?pods) = (cms, secs)" and pods: "outputBootstrapPods Marshal (map fixedPod ?pods) [] = Inr podAssets"
    and cm: "outputKeyValueData (cp_configMaps cp) cms = Inr cmAssets" and sec: "outputKeyValueData (cp_secrets cp) secs = Inr secAssets"
    and as: "as = podAssets @ cmAssets @ secAssets @ [kc]" and kc: "renderKubeConfig s kubeConfigPath = Inr kc" by (metis sum.inject(2))
  let ?pod = "fixedPod (bootstrapPod w)"
  have inP: "bootstrapPod w \<in> set ?pods" using w by auto
  then have "?pod \<in> set (map fixedPod ?pods)" by (simp only: set_map imageI)
  then obtain d where d: "Marshal ?pod = Inr d" "\<lparr>a_Name = path_Join [AssetPathBootstrapManifests, pod_Name ?pod @ ''.yaml''], a_Data = d\<rparr> \<in> set podAssets"
    using outputBootstrapPods_result [OF pods] by blast
  have spec: "p_Spec (bootstrapPod w) = wl_Spec w" "pod_Name (bootstrapPod w) = ''bootstrap-'' @ m_Name (wl_Meta w)"
    by (simp_all add: bootstrapPod_def)
  have vol: "v \<in> volumes_of ?pods" "fixedVolume v \<in> set (sp_Volumes (p_Spec ?pod))" if v: "v \<in> set (sp_Volumes (wl_Spec w))" for v
  proof -
    show "v \<in> volumes_of ?pods" unfolding volumes_of_def by (rule UN_I [OF inP]) (simp add: spec v)
    show "fixedVolume v \<in> set (sp_Volumes (p_Spec ?pod))" using v by (simp add: fixedPod_simps spec)
  qed
  have "served as (cp_secrets cp) ?pod ''secrets'' v n" if v: "v \<in> set (sp_Volumes (wl_Spec w))" "secret_of v = Some n" for v n
  proof (rule servedI [OF vol(2) [OF v(1)] _ names(1) sec])
    show "v_Name (fixedVolume v) = v_Name v \<and> v_rest (fixedVolume v) = v_rest v \<and> v_Secret (fixedVolume v) = None \<and>
      v_ConfigMap (fixedVolume v) = (if v_Secret v = None then None else v_ConfigMap v) \<and>
      v_HostPath (fixedVolume v) = Some (path_Join [BootstrapSecretsDir, path_Join [''secrets'', n]])"
      using v(2) by (auto simp: secret_of_def fixedVolume_secret)
    show "map_of secs n = Some (path_Join [AssetPathSecrets, path_Join [''secrets'', n]])"
      using Recover_required(1) [OF req vol(1) [OF v(1)] v(2)] by (simp add: secret_asset_def)
  qed (auto simp: as)
  moreover have "served as (cp_configMaps cp) ?pod ''config-maps'' v n" if v: "v \<in> set (sp_Volumes (wl_Spec w))" "configMap_of v = Some n" for v n
  proof (rule servedI [OF vol(2) [OF v(1)] _ names(2) cm])
    show "v_Name (fixedVolume v) = v_Name v \<and> v_rest (fixedVolume v) = v_rest v \<and> v_Secret (fixedVolume v) = None \<and>
      v_ConfigMap (fixedVolume v) = (if v_Secret v = None then None else v_ConfigMap v) \<and>
      v_HostPath (fixedVolume v) = Some (path_Join [BootstrapSecretsDir, path_Join [''config-maps'', n]])"
      using v(2) by (auto simp: configMap_of_def fixedVolume_configMap split: if_splits)
    show "map_of cms n = Some (path_Join [AssetPathSecrets, path_Join [''config-maps'', n]])"
      using Recover_required(2) [OF req vol(1) [OF v(1)] v(2)] by (simp add: configMap_asset_def)
  qed (auto simp: as)
  moreover have "\<exists>conf. ioutil_ReadFile s kubeConfigPath = Inr conf \<and> \<lparr>a_Name = AssetPathAdminKubeConfig, a_Data = conf\<rparr> \<in> set as"
    using kc as by (auto simp: renderKubeConfig_def split: sum.splits)
  ultimately show ?thesis
    using d fixedPod_of [of w] by (intro exI [of _ ?pod] exI [of _ d]) (simp add: fixedPod_simps spec as)
qed

text \<open>
  C31: A recovery that succeeds hands over everything the bootstrap control plane needs. For
  every API server, controller manager or scheduler found among the daemon sets and deployments
  there is a static pod manifest; each of its volumes that took a secret from the cluster now
  has a directory of the bootstrap secrets as its only source, the secret was found, and every
  entry of it is an asset in the matching place below the TLS assets, from where
  \<open>bootkube start\<close> copies it. The same holds of config maps, and other volumes are kept. The pod
  has the workload's name, annotations and containers, on the host network, with no user set that
  may not read those files; the controller manager and the scheduler are pointed to the kubeconfig,
  which is mounted from the host and written with the content of the file that was given.
\<close>

theorem recovery_hands_over_everything:
  assumes ok: "Recover Marshal (Inr cp) s kubeConfigPath = Inr as"
    and names: "distinct (map kv_Name (cp_secrets cp))" "distinct (map kv_Name (cp_configMaps cp))"
    and w: "w \<in> set (cp_daemonSets cp @ cp_deployments cp)" "isBootstrapApp (m_Labels (wl_Meta w))"
  shows "\<exists>pod data. Marshal pod = Inr data \<and> bootstrap_pod_of w pod \<and>
     \<lparr>a_Name = path_Join [AssetPathBootstrapManifests, ''bootstrap-'' @ m_Name (wl_Meta w) @ ''.yaml''], a_Data = data\<rparr> \<in> set as \<and>
     (\<forall>v \<in> set (sp_Volumes (wl_Spec w)).
        (\<forall>n. secret_of v = Some n \<longrightarrow> served as (cp_secrets cp) pod ''secrets'' v n) \<and>
        (\<forall>n. configMap_of v = Some n \<longrightarrow> served as (cp_configMaps cp) pod ''config-maps'' v n)) \<and>
     (\<exists>conf. ioutil_ReadFile s kubeConfigPath = Inr conf \<and> \<lparr>a_Name = AssetPathAdminKubeConfig, a_Data = conf\<rparr> \<in> set as)"
  using assms by (rule handed_over)

definition example_workload :: workload where
  "example_workload = \<lparr>wl_Meta = emptyMeta\<lparr>m_Name := ''kube-apiserver'', m_Namespace := ''kube-system'', m_Labels := Some [(''k8s-app'', ''kube-apiserver'')]\<rparr>,
     wl_Spec = emptySpec\<lparr>sp_Volumes := [\<lparr>v_Name = ''secrets'', v_Secret = Some \<lparr>vr_Name = ''api'', vr_rest = ''''\<rparr>, v_ConfigMap = None, v_HostPath = None, v_rest = ''''\<rparr>]\<rparr>\<rparr>"

definition example_control_plane :: controlPlane where
  "example_control_plane = \<lparr>cp_configMaps = [], cp_daemonSets = [example_workload], cp_deployments = [],
     cp_secrets = [\<lparr>kv_Meta = emptyMeta\<lparr>m_Name := ''api''\<rparr>, kv_Data = [(''ca.crt'', ''cert'')]\<rparr>]\<rparr>"

text \<open>An API server with an audit policy in a config map.\<close>

definition audited_workload :: workload where
  "audited_workload = \<lparr>wl_Meta = emptyMeta\<lparr>m_Name := ''kube-apiserver'', m_Namespace := ''kube-system'', m_Labels := Some [(''k8s-app'', ''kube-apiserver'')]\<rparr>,
     wl_Spec = emptySpec\<lparr>sp_Volumes := [\<lparr>v_Name = ''secrets'', v_Secret = Some \<lparr>vr_Name = ''api'', vr_rest = ''''\<rparr>, v_ConfigMap = None, v_HostPath = None, v_rest = ''''\<rparr>,
       \<lparr>v_Name = ''audit'', v_Secret = None, v_ConfigMap = Some \<lparr>vr_Name = ''policy'', vr_rest = ''''\<rparr>, v_HostPath = None, v_rest = ''''\<rparr>]\<rparr>\<rparr>"

definition audited_control_plane :: controlPlane where
  "audited_control_plane = \<lparr>cp_configMaps = [\<lparr>kv_Meta = emptyMeta\<lparr>m_Name := ''policy''\<rparr>, kv_Data = [(''policy.yaml'', ''log'')]\<rparr>], cp_daemonSets = [audited_workload], cp_deployments = [],
     cp_secrets = [\<lparr>kv_Meta = emptyMeta\<lparr>m_Name := ''api''\<rparr>, kv_Data = [(''ca.crt'', ''cert'')]\<rparr>]\<rparr>"

theorem recovery_hands_over_everything_witness:
  "\<exists>as pod. Recover (\<lambda>p. Inr (pod_Name p)) (Inr audited_control_plane) empty_host ''/etc/keep'' = Inr as \<and> bootstrap_pod_of audited_workload pod \<and>
     served as (cp_secrets audited_control_plane) pod ''secrets'' (sp_Volumes (wl_Spec audited_workload) ! 0) ''api'' \<and>
     served as (cp_configMaps audited_control_plane) pod ''config-maps'' (sp_Volumes (wl_Spec audited_workload) ! 1) ''policy''"
proof -
  have "case Recover (\<lambda>p. Inr (pod_Name p)) (Inr audited_control_plane) empty_host ''/etc/keep'' of Inl e \<Rightarrow> False | Inr as \<Rightarrow> True"
    by code_simp
  then obtain as where as: "Recover (\<lambda>p. Inr (pod_Name p)) (Inr audited_control_plane) empty_host ''/etc/keep'' = Inr as"
    by (auto split: sum.splits)
  have names: "distinct (map kv_Name (cp_secrets audited_control_plane))" "distinct (map kv_Name (cp_configMaps audited_control_plane))"
    and app: "isBootstrapApp (m_Labels (wl_Meta audited_workload))" by code_simp+
  have w: "audited_workload \<in> set (cp_daemonSets audited_control_plane @ cp_deployments audited_control_plane)"
    by (simp add: audited_control_plane_def)
  let ?vs = "sp_Volumes (wl_Spec audited_workload)"
  have v: "?vs ! 0 \<in> set ?vs" "?vs ! 1 \<in> set ?vs" "secret_of (?vs ! 0) = Some ''api''" "configMap_of (?vs ! 1) = Some ''policy''"
    by code_simp+
  from recovery_hands_over_everything [OF as names w app] obtain pod where "bootstrap_pod_of audited_workload pod"
    "\<forall>v \<in> set ?vs. (\<forall>n. secret_of v = Some n \<longrightarrow> served as (cp_secrets audited_control_plane) pod ''secrets'' v n) \<and>
        (\<forall>n. configMap_of v = Some n \<longrightarrow> served as (cp_configMaps audited_control_plane) pod ''config-maps'' v n)" by blast
  with as v show ?thesis by blast
qed

end
