(* ===== verification/RecoveryBackend.thy ===== *)
theory RecoveryBackend
  imports Recovery
begin

text \<open>
  The two backends of recovery: \<open>apiserver.go\<close>, which lists the objects of the
  \<open>kube-system\<close> namespace through the API server, and \<open>etcd.go\<close> with \<open>util.go\<close>, which reads
  them from etcd. \<open>eb_Get key prefixed\<close> is what etcd answers to a get, for one key or for all
  keys with that prefix; decoding one stored object is a parameter of each operation. The
  contract both provide is the locale \<open>control_plane_backend\<close>.
\<close>

record etcdBackend =
  eb_Get :: "string \<Rightarrow> bool \<Rightarrow> go_error + bytes list"
  eb_pathPrefix :: string
  eb_transformer :: "bytes \<Rightarrow> go_error + bytes"

definition identityTransformer :: "bytes \<Rightarrow> go_error + bytes" where
  "identityTransformer value = Inr value"

definition NewEtcdBackendWithTransformer ::
  "(string \<Rightarrow> bool \<Rightarrow> go_error + bytes list) \<Rightarrow> string \<Rightarrow> (bytes \<Rightarrow> go_error + bytes) \<Rightarrow> etcdBackend" where
  "NewEtcdBackendWithTransformer client pathPrefix transformer =
     \<lparr>eb_Get = client, eb_pathPrefix = pathPrefix, eb_transformer = transformer\<rparr>"

definition NewEtcdBackend :: "(string \<Rightarrow> bool \<Rightarrow> go_error + bytes list) \<Rightarrow> string \<Rightarrow> etcdBackend" where
  "NewEtcdBackend client pathPrefix = NewEtcdBackendWithTransformer client pathPrefix identityTransformer"

fun decodeList :: "(bytes \<Rightarrow> go_error + 'a) \<Rightarrow> bytes list \<Rightarrow> 'a list \<Rightarrow> go_error + 'a list" where
  "decodeList dec [] v = Inr v"
| "decodeList dec (elem # elems) v =
     (case dec elem of Inl e \<Rightarrow> Inl e | Inr obj \<Rightarrow> decodeList dec elems (v @ [obj]))"

fun transformAll :: "(bytes \<Rightarrow> go_error + bytes) \<Rightarrow> bytes list \<Rightarrow> bytes list \<Rightarrow> go_error + bytes list" where
  "transformAll tr [] elems = Inr elems"
| "transformAll tr (kv # kvs) elems =
     (case tr kv of Inl e \<Rightarrow> Inl e | Inr elem \<Rightarrow> transformAll tr kvs (elems @ [elem]))"

definition etcd_list :: "etcdBackend \<Rightarrow> (bytes \<Rightarrow> go_error + 'a) \<Rightarrow> string \<Rightarrow> go_error + 'a list" where
  "etcd_list eb dec key =
     (let k = path_Join [eb_pathPrefix eb, key, ''kube-system''];
          k' = (if hasSuffix k ''/'' then k else k @ ''/'')
      in case eb_Get eb k' True of
           Inl e \<Rightarrow> Inl e
         | Inr kvs \<Rightarrow>
             (case transformAll (eb_transformer eb) kvs [] of
                Inl e \<Rightarrow> Inl e
              | Inr elems \<Rightarrow> decodeList dec elems []))"

definition etcd_get :: "etcdBackend \<Rightarrow> (bytes \<Rightarrow> go_error + 'a) \<Rightarrow> 'a \<Rightarrow> string \<Rightarrow> bool \<Rightarrow> go_error + 'a" where
  "etcd_get eb dec zero key ignoreNotFound =
     (let k = path_Join [eb_pathPrefix eb, key, ''kube-system''] in
      case eb_Get eb k False of
        Inl e \<Rightarrow> Inl e
      | Inr [] \<Rightarrow> (if ignoreNotFound then Inr zero else Inl (Err (''key not found: '' @ k)))
      | Inr (kv # _) \<Rightarrow> (case eb_transformer eb kv of Inl e \<Rightarrow> Inl e | Inr value \<Rightarrow> dec value))"

definition etcd_getBytes :: "etcdBackend \<Rightarrow> string \<Rightarrow> go_error + bytes" where
  "etcd_getBytes eb key =
     (let k = path_Join [eb_pathPrefix eb, key] in
      case eb_Get eb k False of
        Inl e \<Rightarrow> Inl e
      | Inr [] \<Rightarrow> Inl (Err (''key not found: '' @ k))
      | Inr (kv # _) \<Rightarrow> eb_transformer eb kv)"

text \<open>The decoders of the two kinds of objects.\<close>

record decoder =
  dec_kv :: "bytes \<Rightarrow> go_error + kvObject"
  dec_wl :: "bytes \<Rightarrow> go_error + workload"

definition etcd_read :: "decoder \<times> etcdBackend \<Rightarrow> go_error + controlPlane" where
  "etcd_read b =
     (case b of (dec, eb) \<Rightarrow>
        (case etcd_list eb (dec_kv dec) ''configmaps'' of
           Inl e \<Rightarrow> Inl e
         | Inr cms \<Rightarrow>
             (case etcd_list eb (dec_wl dec) ''daemonsets'' of
                Inl e \<Rightarrow> Inl e
              | Inr dss \<Rightarrow>
                  (case etcd_list eb (dec_wl dec) ''deployments'' of
                     Inl e \<Rightarrow> Inl e
                   | Inr deps \<Rightarrow>
                       (case etcd_list eb (dec_kv dec) ''secrets'' of
                          Inl e \<Rightarrow> Inl e
                        | Inr secs \<Rightarrow>
                            Inr \<lparr>cp_configMaps = cms, cp_daemonSets = dss, cp_deployments = deps, cp_secrets = secs\<rparr>)))))"

text \<open>What the API server answers to the four lists.\<close>

record apiServerBackend =
  al_configMaps :: "go_error + kvObject list"
  al_deployments :: "go_error + workload list"
  al_daemonSets :: "go_error + workload list"
  al_secrets :: "go_error + kvObject list"

definition api_read :: "apiServerBackend \<Rightarrow> go_error + controlPlane" where
  "api_read b =
     (case al_configMaps b of
        Inl e \<Rightarrow> Inl e
      | Inr cms \<Rightarrow>
          (case al_deployments b of
             Inl e \<Rightarrow> Inl e
           | Inr deps \<Rightarrow>
               (case al_daemonSets b of
                  Inl e \<Rightarrow> Inl e
                | Inr dss \<Rightarrow>
                    (case al_secrets b of
                       Inl e \<Rightarrow> Inl e
                     | Inr secs \<Rightarrow>
                         Inr \<lparr>cp_configMaps = cms, cp_daemonSets = dss, cp_deployments = deps, cp_secrets = secs\<rparr>))))"

section \<open>Host names\<close>

definition stripPort :: "string \<Rightarrow> string" where
  "stripPort hostport =
     (let colon = indexByte hostport (CHR '':'') in
      if colon = - 1 then hostport
      else (let i = indexByte hostport (CHR '']'') in
            if i \<noteq> - 1 then trimPrefix (take (nat i) hostport) ''[''
            else take (nat colon) hostport))"

section \<open>The contract of a backend\<close>

text \<open>\<open>holds b cp\<close> says that the store behind \<open>b\<close> holds the control plane \<open>cp\<close>.\<close>

locale control_plane_backend =
  fixes read :: "'b \<Rightarrow> go_error + controlPlane"
    and holds :: "'b \<Rightarrow> controlPlane \<Rightarrow> bool"
  assumes read_holds: "read b = Inr cp \<longleftrightarrow> holds b cp"
begin

lemma recover_from: "holds b cp \<Longrightarrow> Recover Marshal (read b) s kc = Recover Marshal (Inr cp) s kc"
  using read_holds [of b cp] by simp

lemma recover_needs_control_plane: "Recover Marshal (read b) s kc = Inr as \<Longrightarrow> \<exists>cp. holds b cp"
  using read_holds [of b] by (cases "read b") (auto simp: Recover_def)

end

definition etcd_holds :: "decoder \<times> etcdBackend \<Rightarrow> controlPlane \<Rightarrow> bool" where
  "etcd_holds b cp \<longleftrightarrow>
     etcd_list (snd b) (dec_kv (fst b)) ''configmaps'' = Inr (cp_configMaps cp) \<and>
     etcd_list (snd b) (dec_wl (fst b)) ''daemonsets'' = Inr (cp_daemonSets cp) \<and>
     etcd_list (snd b) (dec_wl (fst b)) ''deployments'' = Inr (cp_deployments cp) \<and>
     etcd_list (snd b) (dec_kv (fst b)) ''secrets'' = Inr (cp_secrets cp)"

definition api_holds :: "apiServerBackend \<Rightarrow> controlPlane \<Rightarrow> bool" where
  "api_holds b cp \<longleftrightarrow> al_configMaps b = Inr (cp_configMaps cp) \<and> al_daemonSets b = Inr (cp_daemonSets cp) \<and>
     al_deployments b = Inr (cp_deployments cp) \<and> al_secrets b = Inr (cp_secrets cp)"

interpretation etcd: control_plane_backend etcd_read etcd_holds
  by unfold_locales (auto simp: etcd_read_def etcd_holds_def split: sum.splits prod.splits)

interpretation apiserver: control_plane_backend api_read api_holds
  by unfold_locales (auto simp: api_read_def api_holds_def split: sum.splits)

section \<open>Reading a namespace out of etcd\<close>

lemma transformAll_identity: "transformAll identityTransformer kvs elems = Inr (elems @ kvs)"
  by (induction kvs arbitrary: elems) (simp_all add: identityTransformer_def)

lemma decodeList_all: "(\<And>x. x \<in> set elems \<Longrightarrow> dec x = Inr (f x)) \<Longrightarrow> decodeList dec elems v = Inr (v @ map f elems)"
  by (induction elems arbitrary: v) simp_all

text \<open>A path of plain elements starts with another one and a slash exactly when it extends it.\<close>

lemma prefix_joined:
  assumes "list_all plain_comp xs" "list_all plain_comp ys" "ys \<noteq> []"
  shows "hasPrefix (slash # joinWith slash xs) ((slash # joinWith slash ys) @ ''/'') \<longleftrightarrow> (\<exists>zs. zs \<noteq> [] \<and> xs = ys @ zs)"
proof
  assume "hasPrefix (slash # joinWith slash xs) ((slash # joinWith slash ys) @ ''/'')"
  then obtain t where t: "joinWith slash xs = joinWith slash ys @ slash # t" by (auto simp: hasPrefix_iff prefix_def)
  then have "xs \<noteq> []" by auto
  then have "xs = splitOn slash (joinWith slash ys @ slash # t)" using assms(1) t splitOn_slash_plain [of xs] by simp
  also have "\<dots> = ys @ splitOn slash t" using assms(2,3) by (simp add: splitOn_append splitOn_slash_plain)
  finally show "\<exists>zs. zs \<noteq> [] \<and> xs = ys @ zs" using splitOn_not_Nil by blast
next
  assume "\<exists>zs. zs \<noteq> [] \<and> xs = ys @ zs"
  then show "hasPrefix (slash # joinWith slash xs) ((slash # joinWith slash ys) @ ''/'')"
    using assms(3) by (auto simp: hasPrefix_iff prefix_def joinWith_append)
qed

text \<open>An object in etcd: its resource, namespace and name, and its stored value.\<close>

record stored_object =
  so_resource :: string
  so_namespace :: string
  so_name :: string
  so_value :: bytes

definition etcd_key :: "string \<Rightarrow> stored_object \<Rightarrow> string" where
  "etcd_key pathPrefix x = path_Join [pathPrefix, so_resource x, so_namespace x, so_name x]"

definition plain_object :: "stored_object \<Rightarrow> bool" where
  "plain_object x \<longleftrightarrow> plain_comp (so_resource x) \<and> plain_comp (so_namespace x) \<and> plain_comp (so_name x)"

text \<open>
  C32: Listing a resource straight from etcd returns exactly the objects of that resource in
  the \<open>kube-system\<close> namespace, decoded, in key order: no object of another resource or of a
  namespace whose name merely starts the same is mixed in. etcd is assumed to answer a prefix
  get with the values of all keys that have the prefix, and to hold namespaced objects only, each
  under the key of its resource, namespace and name, with values that decode.
\<close>

theorem etcd_list_is_exact:
  assumes pre: "pathPrefix = slash # joinWith slash ps" "ps \<noteq> []" "list_all plain_comp ps"
    and objs: "list_all plain_object objs" and res: "plain_comp resource"
    and etcd: "\<And>p. client p True = Inr (map so_value (filter (\<lambda>x. hasPrefix (etcd_key pathPrefix x) p) objs))"
    and dec: "\<And>x. x \<in> set objs \<Longrightarrow> dec (so_value x) = Inr (f (so_value x))"
  shows "etcd_list (NewEtcdBackend client pathPrefix) dec resource =
     Inr (map (\<lambda>x. f (so_value x)) (filter (\<lambda>x. so_resource x = resource \<and> so_namespace x = ''kube-system'') objs))"
proof -
  have ks: "plain_comp ''kube-system''" by (simp add: plain_comp_def)
  let ?k = "slash # joinWith slash (ps @ [resource, ''kube-system''])"
  have k: "path_Join [pathPrefix, resource, ''kube-system''] = ?k"
    using path_Join_plain [OF pre(2,3), of "[resource, ''kube-system'']"] res ks by (simp add: pre(1))
  have "\<not> hasSuffix ?k ''/''"
  proof -
    have "joinWith slash (ps @ [resource, ''kube-system'']) = joinWith slash (ps @ [resource]) @ slash # ''kube-system''"
      using joinWith_append [of "ps @ [resource]" "[''kube-system'']" slash] by simp
    then show ?thesis by (simp add: hasSuffix_iff suffix_def append_eq_append_conv2 Cons_eq_append_conv)
  qed
  moreover have "hasPrefix (etcd_key pathPrefix x) (?k @ ''/'') \<longleftrightarrow> so_resource x = resource \<and> so_namespace x = ''kube-system''"
    if "x \<in> set objs" for x
  proof -
    have x: "plain_comp (so_resource x)" "plain_comp (so_namespace x)" "plain_comp (so_name x)"
      using objs that by (auto simp: list_all_iff plain_object_def)
    have "etcd_key pathPrefix x = slash # joinWith slash (ps @ [so_resource x, so_namespace x, so_name x])"
      using path_Join_plain [OF pre(2,3), of "[so_resource x, so_namespace x, so_name x]"] x by (simp add: etcd_key_def pre(1))
    then show ?thesis
      using prefix_joined [of "ps @ [so_resource x, so_namespace x, so_name x]" "ps @ [resource, ''kube-system'']"] pre(3) x res ks by auto
  qed
  then have "filter (\<lambda>x. hasPrefix (etcd_key pathPrefix x) (?k @ ''/'')) objs
      = filter (\<lambda>x. so_resource x = resource \<and> so_namespace x = ''kube-system'') objs" by (intro filter_cong) auto
  ultimately have "etcd_list (NewEtcdBackend client pathPrefix) dec resource =
     decodeList dec (map so_value (filter (\<lambda>x. so_resource x = resource \<and> so_namespace x = ''kube-system'') objs)) []"
    by (simp add: etcd_list_def k Let_def NewEtcdBackend_def NewEtcdBackendWithTransformer_def etcd transformAll_identity)
  also have "\<dots> = Inr ([] @ map f (map so_value (filter (\<lambda>x. so_resource x = resource \<and> so_namespace x = ''kube-system'') objs)))"
    using dec by (intro decodeList_all) auto
  finally show ?thesis by (simp add: comp_def)
qed

definition example_objects_in_etcd :: "stored_object list" where
  "example_objects_in_etcd =
     [\<lparr>so_resource = ''secrets'', so_namespace = ''kube-system'', so_name = ''a'', so_value = ''A''\<rparr>,
      \<lparr>so_resource = ''secrets'', so_namespace = ''kube-system2'', so_name = ''b'', so_value = ''B''\<rparr>]"

theorem etcd_list_is_exact_witness:
  "etcd_list (NewEtcdBackend (\<lambda>p _. Inr (map so_value (filter (\<lambda>x. hasPrefix (etcd_key ''/registry'' x) p) example_objects_in_etcd))) ''/registry'')
     (\<lambda>v. Inr v) ''secrets'' = Inr [''A'']"
proof -
  have plain: "list_all plain_object example_objects_in_etcd" by code_simp
  have "etcd_list (NewEtcdBackend (\<lambda>p _. Inr (map so_value (filter (\<lambda>x. hasPrefix (etcd_key ''/registry'' x) p) example_objects_in_etcd))) ''/registry'')
     (\<lambda>v. Inr v) ''secrets'' =
     Inr (map (\<lambda>x. so_value x) (filter (\<lambda>x. so_resource x = ''secrets'' \<and> so_namespace x = ''kube-system'') example_objects_in_etcd))"
    by (rule etcd_list_is_exact [OF _ _ _ plain, of _ "[''registry'']"]) (simp_all add: plain_comp_def)
  then show ?thesis by (simp add: example_objects_in_etcd_def)
qed

text \<open>
  Recovering from the API server and recovering straight from etcd give the same assets,
  or the same failure, whenever both stores hold the same control plane.
\<close>

lemma backends_agree:
  assumes "etcd_holds e cp" and "api_holds a cp"
  shows "Recover Marshal (etcd_read e) s kubeConfigPath = Recover Marshal (api_read a) s kubeConfigPath"
  using etcd.recover_from [OF assms(1)] apiserver.recover_from [OF assms(2)] by simp

lemma backends_agree_witness:
  "Recover (\<lambda>p. Inr (pod_Name p)) (etcd_read (\<lparr>dec_kv = (\<lambda>v. Inl (Err v)), dec_wl = (\<lambda>v. Inr example_workload)\<rparr>,
       NewEtcdBackend (\<lambda>p _. Inr (if p = ''/registry/daemonsets/kube-system/'' then [''w''] else [])) ''/registry'')) empty_host ''/etc/keep''
   = Recover (\<lambda>p. Inr (pod_Name p)) (api_read \<lparr>al_configMaps = Inr [], al_deployments = Inr [], al_daemonSets = Inr [example_workload], al_secrets = Inr []\<rparr>)
       empty_host ''/etc/keep''"
proof (rule backends_agree [where cp = "\<lparr>cp_configMaps = [], cp_daemonSets = [example_workload], cp_deployments = [], cp_secrets = []\<rparr>"])
  show "etcd_holds (\<lparr>dec_kv = (\<lambda>v. Inl (Err v)), dec_wl = (\<lambda>v. Inr example_workload)\<rparr>,
       NewEtcdBackend (\<lambda>p _. Inr (if p = ''/registry/daemonsets/kube-system/'' then [''w''] else [])) ''/registry'')
     \<lparr>cp_configMaps = [], cp_daemonSets = [example_workload], cp_deployments = [], cp_secrets = []\<rparr>" by code_simp
qed (simp add: api_holds_def)

section \<open>Hosts and ports\<close>

lemma stripPort_no_port: "CHR '':'' \<notin> set h \<Longrightarrow> stripPort h = h"
  by (simp add: stripPort_def Let_def indexByte_absent [THEN iffD2])

lemma stripPort_host_port:
  assumes "CHR '':'' \<notin> set h" "CHR '']'' \<notin> set h" "CHR '']'' \<notin> set p"
  shows "stripPort (h @ '':'' @ p) = h"
proof -
  have "indexByte (h @ CHR '':'' # p) (CHR '':'') = int (length h)" using assms(1) by (rule indexByte_split)
  moreover have "indexByte (h @ CHR '':'' # p) (CHR '']'') = - 1" using assms(2,3) by (simp add: indexByte_absent)
  ultimately show ?thesis by (simp add: stripPort_def Let_def)
qed

lemma stripPort_bracketed:
  assumes "CHR '']'' \<notin> set h"
  shows "stripPort (''['' @ h @ '']:'' @ p) = h"
proof -
  have "indexByte ((''['' @ h) @ CHR '']'' # '':'' @ p) (CHR '']'') = int (length (''['' @ h))" using assms by (intro indexByte_split) simp
  moreover have "indexByte ((''['' @ h) @ CHR '']'' # '':'' @ p) (CHR '':'') \<noteq> - 1" by (simp add: indexByte_absent del: indexByte.simps)
  moreover have "nat (1 + int (length h)) = Suc (length h)" by simp
  ultimately show ?thesis using trimPrefix_append [of "''[''" h] by (simp add: stripPort_def Let_def del: indexByte.simps)
qed

end
