(* ===== verification/Handover.thy ===== *)
theory Handover
  imports BootstrapSecrets RecoveryBackend
begin

text \<open>
  From one command to the next: what \<open>bootkube recover\<close> writes is what \<open>bootkube start\<close> puts
  in place, so that the recovered pods find their secrets and config maps where they mount them.
\<close>

section \<open>Names of recovered assets\<close>

text \<open>The names and keys of the objects of the cluster are single path elements.\<close>

definition plain_object :: "kvObject \<Rightarrow> bool" where
  "plain_object obj \<longleftrightarrow> plain_comp (kv_Name obj) \<and> list_all (\<lambda>(key, _). plain_comp key) (kv_Data obj)"

lemma path_Clean_relative:
  assumes "xs \<noteq> []" "list_all plain_comp xs"
  shows "path_Clean (joinWith slash xs) = joinWith slash xs"
proof -
  have split: "splitOn slash (joinWith slash xs) = xs" using assms by (intro splitOn_joinWith) (auto simp: list_all_iff plain_comp_def)
  obtain x ys where xs: "xs = x # ys" using assms(1) by (cases xs) auto
  obtain y y' where x: "x = y # y'" "y \<noteq> slash" using assms(2) unfolding xs by (cases x) (auto simp: plain_comp_def)
  have "\<exists>t. joinWith slash xs = y # t" unfolding xs x(1) by (cases ys) simp_all
  then have "\<not> hasPrefix (joinWith slash xs) ''/''" "joinWith slash xs \<noteq> ''''" using x(2) by auto
  then show ?thesis using assms by (simp add: path_Clean_def split Let_def)
qed

lemma path_Join_relative:
  assumes "xs \<noteq> []" "list_all plain_comp xs" "ys \<noteq> []" "list_all plain_comp ys"
  shows "path_Join [joinWith slash xs, joinWith slash ys] = joinWith slash (xs @ ys)"
proof -
  have "joinWith slash zs \<noteq> ''''" if "zs \<noteq> []" "list_all plain_comp zs" for zs
    using that joinWith_not_Nil [of zs] by (auto simp: list_all_iff plain_comp_def)
  then have "path_Join [joinWith slash xs, joinWith slash ys] = path_Clean (joinWith slash (xs @ ys))"
    using assms by (simp add: path_Join_def joinWith_append)
  then show ?thesis using assms by (simp add: path_Clean_relative)
qed

lemma path_Join_pair:
  assumes "plain_comp a" "plain_comp b"
  shows "path_Join [a, b] = joinWith slash [a, b]"
  using path_Join_relative [of "[a]" "[b]"] assms by simp

lemma place_path:
  assumes "plain_comp dir" "plain_comp n"
  shows "path_Join [AssetPathSecrets, path_Join [dir, n]] = joinWith slash [AssetPathSecrets, dir, n]"
  using path_Join_relative [of "[AssetPathSecrets]" "[dir, n]"] path_Join_pair [OF assms] assms
  by (simp add: AssetPathSecrets_def plain_comp_def)

lemma asset_path_plain: "xs \<noteq> [] \<Longrightarrow> list_all plain_comp xs \<Longrightarrow> asset_path \<lparr>a_Name = joinWith slash xs, a_Data = d\<rparr> = xs"
  unfolding asset_path_def by (simp, intro splitOn_joinWith) (auto simp: list_all_iff plain_comp_def)

lemma kv_asset_path:
  assumes "plain_comp dir" "plain_comp n" "plain_comp key"
  shows "asset_path \<lparr>a_Name = path_Join [path_Join [AssetPathSecrets, path_Join [dir, n]], key], a_Data = d\<rparr> = [AssetPathSecrets, dir, n, key]"
proof -
  have pl: "list_all plain_comp [AssetPathSecrets, dir, n, key]" using assms by (simp add: AssetPathSecrets_def plain_comp_def)
  then have "path_Join [joinWith slash [AssetPathSecrets, dir, n], joinWith slash [key]] = joinWith slash [AssetPathSecrets, dir, n, key]"
    using path_Join_relative [of "[AssetPathSecrets, dir, n]" "[key]"] by simp
  with asset_path_plain [OF _ pl] show ?thesis unfolding place_path [OF assms(1,2)] by simp
qed

lemma pod_asset_path:
  assumes "plain_comp n"
  shows "asset_path \<lparr>a_Name = path_Join [AssetPathBootstrapManifests, n], a_Data = d\<rparr> = [AssetPathBootstrapManifests, n]"
  using path_Join_pair [of AssetPathBootstrapManifests n] asset_path_plain [of "[AssetPathBootstrapManifests, n]"] assms
  by (simp add: AssetPathBootstrapManifests_def plain_comp_def)

section \<open>What a recovery writes\<close>

definition control_plane_workloads :: "controlPlane \<Rightarrow> workload list" where
  "control_plane_workloads cp = filter (\<lambda>w. isBootstrapApp (m_Labels (wl_Meta w))) (cp_daemonSets cp @ cp_deployments cp)"

definition pod_file :: "workload \<Rightarrow> string" where
  "pod_file w = ''bootstrap-'' @ m_Name (wl_Meta w) @ ''.yaml''"

text \<open>The assets of a recovery, by where they come from.\<close>

definition pod_asset :: "(pod \<Rightarrow> go_error + bytes) \<Rightarrow> controlPlane \<Rightarrow> Asset \<Rightarrow> bool" where
  "pod_asset Marshal cp a \<longleftrightarrow> (\<exists>w \<in> set (control_plane_workloads cp). \<exists>d. Marshal (fixedPod (bootstrapPod w)) = Inr d \<and>
     a = \<lparr>a_Name = path_Join [AssetPathBootstrapManifests, pod_file w], a_Data = d\<rparr>)"

definition object_asset :: "string \<Rightarrow> kvObject list \<Rightarrow> Asset \<Rightarrow> bool" where
  "object_asset dir objs a \<longleftrightarrow> (\<exists>obj \<in> set objs. \<exists>(key, d) \<in> set (kv_Data obj).
     a = \<lparr>a_Name = path_Join [path_Join [AssetPathSecrets, path_Join [dir, kv_Name obj]], key], a_Data = d\<rparr>)"

lemma outputBootstrapPods_origin:
  "outputBootstrapPods Marshal pods as = Inr as' \<Longrightarrow> a \<in> set as' \<Longrightarrow>
   a \<in> set as \<or> (\<exists>p \<in> set pods. \<exists>d. Marshal p = Inr d \<and> a = \<lparr>a_Name = path_Join [AssetPathBootstrapManifests, pod_Name p @ ''.yaml''], a_Data = d\<rparr>)"
proof (induction pods arbitrary: as)
  case (Cons p pods)
  obtain d where d: "Marshal p = Inr d"
    and rest: "outputBootstrapPods Marshal pods (as @ [\<lparr>a_Name = path_Join [AssetPathBootstrapManifests, pod_Name p @ ''.yaml''], a_Data = d\<rparr>]) = Inr as'"
    using Cons.prems(1) by (auto simp: serializeObjToYAML_def split: sum.splits)
  from Cons.IH [OF rest Cons.prems(2)] d show ?case by auto
qed simp

lemma outputObjs_origin:
  "a \<in> set (snd (outputObjs objs req as)) \<Longrightarrow> a \<in> set as \<or> (\<exists>obj \<in> set objs. \<exists>p. map_of req (kv_Name obj) = Some p \<and> a \<in> set (kv_assets p obj))"
proof (induction objs arbitrary: req as)
  case (Cons x objs)
  show ?case
  proof (cases "map_of req (kv_Name x)")
    case None
    then show ?thesis using Cons.IH [of req as] Cons.prems by (auto simp: Let_def)
  next
    case (Some p)
    then have "a \<in> set as \<or> a \<in> set (kv_assets p x) \<or>
        (\<exists>obj \<in> set objs. \<exists>q. map_of (AList.delete (kv_Name x) req) (kv_Name obj) = Some q \<and> a \<in> set (kv_assets q obj))"
      using Cons.IH [of "AList.delete (kv_Name x) req" "as @ kv_assets p x"] Cons.prems by (auto simp: Let_def)
    then show ?thesis using Some by (auto split: if_splits)
  qed
qed simp

lemma output_origin:
  assumes out: "outputKeyValueData objs req = Inr as" and a: "a \<in> set as"
    and req: "\<And>n p. map_of req n = Some p \<Longrightarrow> p = path_Join [AssetPathSecrets, path_Join [dir, n]]"
  shows "object_asset dir objs a"
proof -
  have "a \<in> set (snd (outputObjs objs req []))" using out a by (auto simp: outputKeyValueData_def split: prod.splits if_splits)
  then obtain obj where "obj \<in> set objs" "a \<in> set (kv_assets (path_Join [AssetPathSecrets, path_Join [dir, kv_Name obj]]) obj)"
    using outputObjs_origin [of a objs req "[]"] req by auto
  then show ?thesis by (auto simp: object_asset_def kv_assets_def)
qed

lemma recovered_origin:
  assumes ok: "Recover Marshal (Inr cp) s kubeConfigPath = Inr as" and a: "a \<in> set as"
  shows "pod_asset Marshal cp a \<or> object_asset ''config-maps'' (cp_configMaps cp) a \<or> object_asset ''secrets'' (cp_secrets cp) a \<or>
    renderKubeConfig s kubeConfigPath = Inr a"
proof -
  let ?pods = "map bootstrapPod (control_plane_workloads cp)"
  from Recover_parts [OF ok] obtain cms secs podAssets cmAssets secAssets kc where
    req: "fst (fixUpBootstrapPods ?pods) = (cms, secs)" and pods: "outputBootstrapPods Marshal (map fixedPod ?pods) [] = Inr podAssets"
    and cm: "outputKeyValueData (cp_configMaps cp) cms = Inr cmAssets" and sec: "outputKeyValueData (cp_secrets cp) secs = Inr secAssets"
    and kc: "renderKubeConfig s kubeConfigPath = Inr kc" and as: "as = podAssets @ cmAssets @ secAssets @ [kc]"
    unfolding control_plane_workloads_def by (metis sum.inject(2))
  have places: "map_of cms n = Some p \<Longrightarrow> p = path_Join [AssetPathSecrets, path_Join [''config-maps'', n]]"
    "map_of secs n = Some p \<Longrightarrow> p = path_Join [AssetPathSecrets, path_Join [''secrets'', n]]" for n p
    using fixUpPods_required [of ?pods "([], [])"] req
    by (auto simp: fixUpBootstrapPods_def adds_def secret_asset_def configMap_asset_def split: if_splits)
  have "pod_asset Marshal cp a" if "a \<in> set podAssets"
    using outputBootstrapPods_origin [OF pods that] by (auto simp: pod_asset_def fixedPod_simps bootstrapPod_def pod_file_def)
  moreover have "object_asset ''config-maps'' (cp_configMaps cp) a" if "a \<in> set cmAssets" using output_origin [OF cm that places(1)] .
  moreover have "object_asset ''secrets'' (cp_secrets cp) a" if "a \<in> set secAssets" using output_origin [OF sec that places(2)] .
  ultimately show ?thesis using a kc as by auto
qed


text \<open>A control plane whose names are names of files, each used once.\<close>

definition nameable :: "controlPlane \<Rightarrow> bool" where
  "nameable cp \<longleftrightarrow>
     (\<forall>obj \<in> set (cp_secrets cp @ cp_configMaps cp). plain_object obj \<and> distinct (map fst (kv_Data obj))) \<and>
     distinct (map kv_Name (cp_secrets cp)) \<and> distinct (map kv_Name (cp_configMaps cp)) \<and>
     (\<forall>w \<in> set (control_plane_workloads cp). slash \<notin> set (m_Name (wl_Meta w))) \<and>
     distinct (map (\<lambda>w. m_Name (wl_Meta w)) (control_plane_workloads cp))"

lemma plain_places: "plain_comp AssetPathSecrets" "plain_comp AssetPathBootstrapManifests" "plain_comp ''secrets''" "plain_comp ''config-maps''"
  by code_simp+

lemma pod_assetE:
  assumes "pod_asset Marshal cp a" "nameable cp"
  obtains w where "w \<in> set (control_plane_workloads cp)" "asset_path a = [AssetPathBootstrapManifests, pod_file w]" "plain_comp (pod_file w)"
    "Marshal (fixedPod (bootstrapPod w)) = Inr (a_Data a)"
proof -
  from assms(1) obtain w where w: "w \<in> set (control_plane_workloads cp)" "Marshal (fixedPod (bootstrapPod w)) = Inr (a_Data a)"
    "a = \<lparr>a_Name = path_Join [AssetPathBootstrapManifests, pod_file w], a_Data = a_Data a\<rparr>" by (auto simp: pod_asset_def)
  then have "plain_comp (pod_file w)" using assms(2) by (auto simp: nameable_def pod_file_def plain_comp_def)
  with w pod_asset_path [OF this, of "a_Data a"] show thesis by (intro that [of w]) simp_all
qed

lemma object_assetE:
  assumes "object_asset dir objs a" "plain_comp dir" "\<forall>obj \<in> set objs. plain_object obj"
  obtains obj key where "obj \<in> set objs" "asset_path a = [AssetPathSecrets, dir, kv_Name obj, key]" "plain_comp (kv_Name obj)" "plain_comp key"
    "(key, a_Data a) \<in> set (kv_Data obj)"
proof -
  from assms(1) obtain obj key where o: "obj \<in> set objs" "(key, a_Data a) \<in> set (kv_Data obj)"
    "a = \<lparr>a_Name = path_Join [path_Join [AssetPathSecrets, path_Join [dir, kv_Name obj]], key], a_Data = a_Data a\<rparr>" by (auto simp: object_asset_def)
  then have "plain_comp (kv_Name obj)" "plain_comp key" using assms(3) by (auto simp: plain_object_def list_all_iff)
  with o kv_asset_path [OF assms(2) this, of "a_Data a"] show thesis by (intro that [of obj key]) simp_all
qed

lemma kubeconfig_path: "renderKubeConfig s p = Inr a \<Longrightarrow> asset_path a = [''auth'', ''kubeconfig'']"
proof -
  have "splitOn slash AssetPathAdminKubeConfig = [''auth'', ''kubeconfig'']" by code_simp
  moreover assume "renderKubeConfig s p = Inr a"
  ultimately show ?thesis by (auto simp: renderKubeConfig_def asset_path_def split: sum.splits)
qed

lemma object_data:
  assumes "distinct (map kv_Name objs)" "obj \<in> set objs" "obj' \<in> set objs" "kv_Name obj = kv_Name obj'" "distinct (map fst (kv_Data obj))"
    "(key, d) \<in> set (kv_Data obj)" "(key, d') \<in> set (kv_Data obj')"
  shows "d = d'"
proof -
  have "obj = obj'" using assms(1-4) by (auto simp: distinct_map dest: inj_onD)
  then show ?thesis using assms(5-7) by (metis eq_key_imp_eq_value)
qed

text \<open>The place of an asset tells its origin.\<close>

definition place_of :: "Asset \<Rightarrow> string" where
  "place_of a = (case asset_path a of d # e # _ \<Rightarrow> if d = AssetPathSecrets then e else d | _ \<Rightarrow> '''')"

lemma place_of_pod: "pod_asset Marshal cp a \<Longrightarrow> nameable cp \<Longrightarrow> place_of a = AssetPathBootstrapManifests"
  by (elim pod_assetE) (simp_all add: place_of_def AssetPathBootstrapManifests_def AssetPathSecrets_def)

lemma place_of_object: "object_asset dir objs a \<Longrightarrow> plain_comp dir \<Longrightarrow> \<forall>obj \<in> set objs. plain_object obj \<Longrightarrow> place_of a = dir"
  by (elim object_assetE) (simp_all add: place_of_def)

lemma place_of_kubeconfig: "renderKubeConfig s p = Inr a \<Longrightarrow> place_of a = ''auth''"
  by (drule kubeconfig_path) (simp add: place_of_def AssetPathSecrets_def)

lemma pod_asset_data:
  assumes "pod_asset Marshal cp a" "pod_asset Marshal cp b" "asset_path a = asset_path b" and n: "nameable cp"
  shows "a_Data a = a_Data b"
proof -
  from pod_assetE [OF assms(1) n] obtain w where w: "w \<in> set (control_plane_workloads cp)" "asset_path a = [AssetPathBootstrapManifests, pod_file w]"
    "Marshal (fixedPod (bootstrapPod w)) = Inr (a_Data a)" by metis
  from pod_assetE [OF assms(2) n] obtain w' where w': "w' \<in> set (control_plane_workloads cp)" "asset_path b = [AssetPathBootstrapManifests, pod_file w']"
    "Marshal (fixedPod (bootstrapPod w')) = Inr (a_Data b)" by metis
  have "m_Name (wl_Meta w) = m_Name (wl_Meta w')" using w(2) w'(2) assms(3) by (simp add: pod_file_def)
  then have "w = w'" using n w(1) w'(1) by (auto simp: nameable_def distinct_map dest: inj_onD)
  then show ?thesis using w(3) w'(3) by simp
qed

lemma object_asset_data:
  assumes "object_asset dir objs a" "object_asset dir objs b" "asset_path a = asset_path b" and dir: "plain_comp dir"
    and objs: "\<forall>obj \<in> set objs. plain_object obj \<and> distinct (map fst (kv_Data obj))" "distinct (map kv_Name objs)"
  shows "a_Data a = a_Data b"
proof -
  have pl: "\<forall>obj \<in> set objs. plain_object obj" using objs(1) by blast
  from object_assetE [OF assms(1) dir pl] obtain obj key where o: "obj \<in> set objs" "asset_path a = [AssetPathSecrets, dir, kv_Name obj, key]"
    "(key, a_Data a) \<in> set (kv_Data obj)" by metis
  from object_assetE [OF assms(2) dir pl] obtain obj' key' where o': "obj' \<in> set objs" "asset_path b = [AssetPathSecrets, dir, kv_Name obj', key']"
    "(key', a_Data b) \<in> set (kv_Data obj')" by metis
  show ?thesis using object_data [OF objs(2) o(1) o'(1)] objs(1) o o' assms(3) by auto
qed

lemma recovered_assets:
  assumes ok: "Recover Marshal (Inr cp) s kubeConfigPath = Inr as" and n: "nameable cp"
  shows "list_all plain_asset as" "consistent as"
proof -
  have objs: "\<forall>obj \<in> set (cp_secrets cp). plain_object obj \<and> distinct (map fst (kv_Data obj))"
    "\<forall>obj \<in> set (cp_configMaps cp). plain_object obj \<and> distinct (map fst (kv_Data obj))"
    "distinct (map kv_Name (cp_secrets cp))" "distinct (map kv_Name (cp_configMaps cp))" using n by (auto simp: nameable_def)
  then have pl: "\<forall>obj \<in> set (cp_secrets cp). plain_object obj" "\<forall>obj \<in> set (cp_configMaps cp). plain_object obj" by blast+
  note origin = recovered_origin [OF ok]
  have places: "pod_asset Marshal cp x \<Longrightarrow> place_of x = ''bootstrap-manifests''"
    "object_asset ''config-maps'' (cp_configMaps cp) x \<Longrightarrow> place_of x = ''config-maps''"
    "object_asset ''secrets'' (cp_secrets cp) x \<Longrightarrow> place_of x = ''secrets''"
    "renderKubeConfig s kubeConfigPath = Inr x \<Longrightarrow> place_of x = ''auth''" for x
    using place_of_pod [OF _ n, of Marshal x] place_of_object [OF _ plain_places(3) pl(1), of x] place_of_object [OF _ plain_places(4) pl(2), of x]
      place_of_kubeconfig [of s kubeConfigPath x] by (simp_all add: AssetPathBootstrapManifests_def)
  have "plain_asset a" if "a \<in> set as" for a
    using origin [OF that]
  proof (elim disjE)
    assume "pod_asset Marshal cp a"
    then show ?thesis using n by (elim pod_assetE) (auto simp: plain_asset_def plain_places)
  next
    assume "object_asset ''config-maps'' (cp_configMaps cp) a"
    then show ?thesis using pl(2) plain_places by (elim object_assetE) (simp_all add: plain_asset_def)
  next
    assume "object_asset ''secrets'' (cp_secrets cp) a"
    then show ?thesis using pl(1) plain_places by (elim object_assetE) (simp_all add: plain_asset_def)
  next
    have "list_all plain_comp [''auth'', ''kubeconfig'']" by code_simp
    moreover assume "renderKubeConfig s kubeConfigPath = Inr a"
    ultimately show ?thesis using kubeconfig_path by (simp add: plain_asset_def)
  qed
  then show "list_all plain_asset as" by (simp add: list_all_iff)
  show "consistent as"
    unfolding consistent_def
  proof (intro ballI impI)
    fix a b assume ab: "a \<in> set as" "b \<in> set as" "a_Name a = a_Name b"
    then have same: "asset_path a = asset_path b" "place_of a = place_of b" by (simp_all add: asset_path_def place_of_def)
    note ob = origin [OF ab(2)] places [of b]
    show "a_Data a = a_Data b"
      using origin [OF ab(1)]
    proof (elim disjE)
      assume a: "pod_asset Marshal cp a"
      then have "pod_asset Marshal cp b" using ob same(2) places [of a] by auto
      with a show ?thesis using same(1) n by (rule pod_asset_data)
    next
      assume a: "object_asset ''config-maps'' (cp_configMaps cp) a"
      then have "object_asset ''config-maps'' (cp_configMaps cp) b" using ob same(2) places [of a] by auto
      with a show ?thesis using same(1) plain_places(4) objs(2,4) by (rule object_asset_data)
    next
      assume a: "object_asset ''secrets'' (cp_secrets cp) a"
      then have "object_asset ''secrets'' (cp_secrets cp) b" using ob same(2) places [of a] by auto
      with a show ?thesis using same(1) plain_places(3) objs(1,3) by (rule object_asset_data)
    next
      assume a: "renderKubeConfig s kubeConfigPath = Inr a"
      then have "renderKubeConfig s kubeConfigPath = Inr b" using ob same(2) places [of a] by auto
      with a show ?thesis by simp
    qed
  qed
qed


section \<open>Properties\<close>

text \<open>
  A volume of the cluster's object \<open>n\<close> is mounted from the host: the volume of the same name in
  the pod is a directory of the host in which every entry of the object is a file with its data.
\<close>

definition mounted :: "fs \<Rightarrow> kvObject list \<Rightarrow> pod \<Rightarrow> volume \<Rightarrow> string \<Rightarrow> bool" where
  "mounted s objs p v n \<longleftrightarrow>
     (\<exists>v' \<in> set (sp_Volumes (p_Spec p)). v_Name v' = v_Name v \<and> v_Secret v' = None \<and>
       (\<exists>hostDir. v_HostPath v' = Some hostDir \<and>
         (\<exists>obj \<in> set objs. kv_Name obj = n \<and> (\<forall>(key, d) \<in> set (kv_Data obj). content s (fs_key s hostDir @ [key]) = Some d))))"

lemma host_dir_key:
  assumes "plain_comp dir" "plain_comp n"
  shows "fs_key s (path_Join [BootstrapSecretsDir, path_Join [dir, n]]) = secrets_key @ [dir, n]"
proof -
  have "path_Join [BootstrapSecretsDir, path_Join [dir, n]] = path_Join [BootstrapSecretsDir, dir, n]"
    unfolding path_Join_pair [OF assms] by (simp add: path_Join_def secrets_dir(2))
  moreover have "fs_key s (path_Join [BootstrapSecretsDir, dir, n]) = fs_key s BootstrapSecretsDir @ [dir, n]"
    using fs_key_Join [of BootstrapSecretsDir "[dir, n]" s] assms secrets_dir(2) by simp
  ultimately show ?thesis by (simp add: secrets_dir)
qed

lemma served_mounted:
  assumes sv: "served as objs p dir v n" and dir: "plain_comp dir" and objs: "\<forall>obj \<in> set objs. plain_object obj"
    and files: "\<And>a. a \<in> set as \<Longrightarrow> content s1 (ds @ asset_path a) = Some (a_Data a)"
    and copied: "\<And>rel d. content s1 (ds @ AssetPathSecrets # rel) = Some d \<Longrightarrow> rel \<noteq> [''kubeconfig''] \<Longrightarrow> content s2 (secrets_key @ rel) = Some d"
  shows "mounted s2 objs p v n"
proof -
  from sv obtain v' obj where v': "v' \<in> set (sp_Volumes (p_Spec p))" "v_Name v' = v_Name v" "v_Secret v' = None"
    "v_HostPath v' = Some (path_Join [BootstrapSecretsDir, path_Join [dir, n]])"
    and obj: "obj \<in> set objs" "kv_Name obj = n"
    and as: "\<forall>(key, d) \<in> set (kv_Data obj). \<lparr>a_Name = path_Join [path_Join [AssetPathSecrets, path_Join [dir, n]], key], a_Data = d\<rparr> \<in> set as"
    by (auto simp: served_def)
  have pl: "plain_comp n" "\<And>key d. (key, d) \<in> set (kv_Data obj) \<Longrightarrow> plain_comp key"
    using objs obj by (auto simp: plain_object_def list_all_iff)
  have "content s2 (secrets_key @ [dir, n] @ [key]) = Some d" if kd: "(key, d) \<in> set (kv_Data obj)" for key d
  proof (rule copied)
    have "\<lparr>a_Name = path_Join [path_Join [AssetPathSecrets, path_Join [dir, n]], key], a_Data = d\<rparr> \<in> set as" using as kd by blast
    from files [OF this] show "content s1 (ds @ AssetPathSecrets # [dir, n] @ [key]) = Some d"
      by (simp add: kv_asset_path [OF dir pl(1) pl(2) [OF kd]])
  qed simp
  then have "\<forall>(key, d) \<in> set (kv_Data obj). content s2 (fs_key s2 (path_Join [BootstrapSecretsDir, path_Join [dir, n]]) @ [key]) = Some d"
    unfolding host_dir_key [OF dir pl(1)] by auto
  then show ?thesis unfolding mounted_def using v' obj by blast
qed

text \<open>The pods of a control plane that was recovered and started from.\<close>

lemma recovered_and_started:
  assumes rec: "Recover Marshal (Inr cp) s0 kubeConfigPath = Inr as" and n: "nameable cp"
    and wrote: "Assets_WriteFiles s as dir = (s1, None)"
    and start: "Start (NewBootstrapControlPlane dir pod) s1 = (b, s2, None)"
    and dir: "dir = slash # joinWith slash ds" "ds \<noteq> []" "list_all plain_comp ds" "\<not> prefix secrets_key ds" "\<not> prefix ds secrets_key"
    and pod: "pod \<noteq> ''''" and names: "names_ok s1" and w: "w \<in> set (control_plane_workloads cp)"
  shows "\<exists>p data. Marshal p = Inr data \<and> content s2 (fs_key s2 pod @ [''bootstrap-'' @ m_Name (wl_Meta w) @ ''.yaml'']) = Some data \<and>
     (\<forall>v \<in> set (sp_Volumes (wl_Spec w)).
        (\<forall>n. secret_of v = Some n \<longrightarrow> mounted s2 (cp_secrets cp) p v n) \<and>
        (\<forall>n. configMap_of v = Some n \<longrightarrow> mounted s2 (cp_configMaps cp) p v n))"
proof -
  have objs: "\<forall>obj \<in> set (cp_secrets cp). plain_object obj" "\<forall>obj \<in> set (cp_configMaps cp). plain_object obj"
    "distinct (map kv_Name (cp_secrets cp))" "distinct (map kv_Name (cp_configMaps cp))" using n by (auto simp: nameable_def)
  have w': "w \<in> set (cp_daemonSets cp @ cp_deployments cp)" "isBootstrapApp (m_Labels (wl_Meta w))"
    using w by (auto simp: control_plane_workloads_def)
  from handed_over [OF rec objs(3,4) w'] obtain p data where p: "Marshal p = Inr data"
    "\<lparr>a_Name = path_Join [AssetPathBootstrapManifests, pod_file w], a_Data = data\<rparr> \<in> set as"
    and served: "\<forall>v \<in> set (sp_Volumes (wl_Spec w)). (\<forall>n. secret_of v = Some n \<longrightarrow> served as (cp_secrets cp) p ''secrets'' v n) \<and>
        (\<forall>n. configMap_of v = Some n \<longrightarrow> served as (cp_configMaps cp) p ''config-maps'' v n)"
    unfolding pod_file_def by blast
  have key: "fs_key t dir = ds" for t unfolding dir(1) by (rule fs_key_abs [OF dir(2,3)])
  have files: "content s1 (ds @ asset_path a) = Some (a_Data a)" if "a \<in> set as" for a
    using WriteFiles_ok [OF _ recovered_assets [OF rec n] that wrote] by (simp add: key) (simp add: dir(1))
  note copied = start_copies_secrets [OF dir(1-3) names dir(4,5) start]
  have plain: "plain_comp (pod_file w)" using n w by (auto simp: nameable_def pod_file_def plain_comp_def)
  from files [OF p(2)] have "content s1 (ds @ AssetPathBootstrapManifests # [pod_file w]) = Some data" by (simp add: pod_asset_path [OF plain])
  from start_manifests [OF dir(1-3) names pod dir(4,5) this start] have "content s2 (fs_key s1 pod @ [pod_file w]) = Some data" by blast
  moreover have "fs_key s2 pod = fs_key s1 pod" by (rule same_env_key [OF Start_env [OF dir(1-3) names start]])
  moreover have "mounted s2 (cp_secrets cp) p v m" if "v \<in> set (sp_Volumes (wl_Spec w))" "secret_of v = Some m" for v m
    using served_mounted [OF _ plain_places(3) objs(1) files copied] served that by blast
  moreover have "mounted s2 (cp_configMaps cp) p v m" if "v \<in> set (sp_Volumes (wl_Spec w))" "configMap_of v = Some m" for v m
    using served_mounted [OF _ plain_places(4) objs(2) files copied] served that by blast
  ultimately show ?thesis using p(1) by (auto simp: pod_file_def)
qed


definition recovery_host :: fs where
  "recovery_host = \<lparr>entries = [([], new_dir 493), ([''etc''], new_dir 493), ([''etc'', ''kubernetes''], new_dir 493), ([''m''], new_dir 493),
      ([''etc'', ''kubernetes'', ''kubeconfig''], NFile ''conf'' \<lparr>n_mode = 384, n_uid = 0, n_gid = 0\<rparr>)],
     cwd = [], faults = (\<lambda>_ _. None), torn = (\<lambda>_. 0)\<rparr>"

end
