(* ===== verification/Commands.thy ===== *)
theory Commands
  imports BootkubeRun Handover GoNet
begin

text \<open>
  The commands \<open>bootkube start\<close> and \<open>bootkube recover\<close> (\<open>cmd/bootkube/start.go\<close>,
  \<open>cmd/bootkube/recover.go\<close>) after cobra has parsed their flags: the check of the options, which
  cobra calls first, and the command itself. What opens connections and parses certificates is
  the record \<open>recover_env\<close>.
\<close>

section \<open>bootkube start\<close>

record startOpts =
  so_assetDir :: string
  so_podManifestPath :: string
  so_strict :: bool
  so_requiredPods :: "string list"

definition defaultRequiredPods :: "string list" where
  "defaultRequiredPods =
     [''kube-system/pod-checkpointer'', ''kube-system/kube-apiserver'', ''kube-system/kube-scheduler'', ''kube-system/kube-controller-manager'']"

text \<open>The defaults of the flags.\<close>

definition default_startOpts :: startOpts where
  "default_startOpts =
     \<lparr>so_assetDir = '''', so_podManifestPath = ''/etc/kubernetes/manifests'', so_strict = False, so_requiredPods = defaultRequiredPods\<rparr>"

fun validatePods :: "string list \<Rightarrow> go_error option" where
  "validatePods [] = None"
| "validatePods (nsPod # pods) =
     (if length (splitOn slash nsPod) \<noteq> 2
      then Some (Err (''invalid required pod: expected '' @ nsPod @ '' to be of shape <namespace>/<pod-name>''))
      else validatePods pods)"

definition validateStartOpts :: "startOpts \<Rightarrow> go_error option" where
  "validateStartOpts opts =
     (if so_podManifestPath opts = '''' then Some (Err ''missing required flag: --pod-manifest-path'')
      else if so_assetDir opts = '''' then Some (Err ''missing required flag: --asset-dir'')
      else validatePods (so_requiredPods opts))"

definition runCmdStart :: "'w surroundings \<Rightarrow> startOpts \<Rightarrow> fs \<Rightarrow> 'w \<Rightarrow> 'w run_result" where
  "runCmdStart sr opts s w =
     Run sr (NewBootkube \<lparr>AssetDir = so_assetDir opts, PodManifestPath = so_podManifestPath opts, Strict = so_strict opts,
                          RequiredPods = so_requiredPods opts\<rparr>) s w"

definition start_command :: "'w surroundings \<Rightarrow> startOpts \<Rightarrow> fs \<Rightarrow> 'w \<Rightarrow> 'w run_result" where
  "start_command sr opts s w =
     (case validateStartOpts opts of
        Some e \<Rightarrow> \<lparr>rr_fs = s, rr_world = w, rr_created = [], rr_status = [], rr_teardownErr = None, rr_err = Some e\<rparr>
      | None \<Rightarrow> runCmdStart sr opts s w)"

section \<open>bootkube recover\<close>

record recoverOpts =
  rv_recoveryDir :: string
  rv_etcdCAPath :: string
  rv_etcdCertificatePath :: string
  rv_etcdPrivateKeyPath :: string
  rv_etcdServers :: string
  rv_etcdPrefix :: string
  rv_kubeConfigPath :: string
  rv_podManifestPath :: string

definition default_recoverOpts :: recoverOpts where
  "default_recoverOpts =
     \<lparr>rv_recoveryDir = '''', rv_etcdCAPath = '''', rv_etcdCertificatePath = '''', rv_etcdPrivateKeyPath = '''', rv_etcdServers = '''',
      rv_etcdPrefix = ''/registry'', rv_kubeConfigPath = '''', rv_podManifestPath = ''/etc/kubernetes/manifests''\<rparr>"

definition validateRecoverOpts :: "recoverOpts \<Rightarrow> go_error option" where
  "validateRecoverOpts opts =
     (if rv_recoveryDir opts = '''' then Some (Err ''missing required flag: --recovery-dir'')
      else if (rv_etcdCertificatePath opts \<noteq> '''' \<or> rv_etcdPrivateKeyPath opts \<noteq> '''') \<and>
              (rv_etcdCertificatePath opts = '''' \<or> rv_etcdPrivateKeyPath opts = '''')
      then Some (Err ''you must specify both --etcd-certificate-path, and --etcd-private-key-path'')
      else if rv_etcdPrefix opts = '''' then Some (Err ''missing required flag: --etcd-prefix'')
      else if rv_kubeConfigPath opts = '''' then Some (Err ''missing required flag: --kubeconfig'')
      else None)"

text \<open>\<open>None\<close> for the roots is the nil pool, which stands for those of the host.\<close>

record 'x tlsConfig =
  tl_RootCAs :: "bytes option"
  tl_Certificates :: "'x list"

record 'x etcdConfig =
  ec_Endpoints :: "string list"
  ec_DialTimeout :: int
  ec_TLS :: "'x tlsConfig option"

record ('x, 'cfg) recover_env =
  re_AppendCertsFromPEM :: "bytes \<Rightarrow> bool"
  re_X509KeyPair :: "bytes \<Rightarrow> bytes \<Rightarrow> go_error + 'x"
  re_etcdNew :: "'x etcdConfig \<Rightarrow> go_error + (string \<Rightarrow> bool \<Rightarrow> go_error + bytes list)"
  re_ClientConfig :: "string \<Rightarrow> go_error + 'cfg"
  re_NewForConfig :: "'cfg \<Rightarrow> go_error + apiServerBackend"
  re_decoder :: decoder
  re_Marshal :: "pod \<Rightarrow> go_error + bytes"

text \<open>\<open>tls.LoadX509KeyPair\<close> reads the two files and parses the pair.\<close>

definition LoadX509KeyPair :: "('x, 'cfg) recover_env \<Rightarrow> fs \<Rightarrow> string \<Rightarrow> string \<Rightarrow> go_error + 'x" where
  "LoadX509KeyPair env s certFile keyFile =
     (case ioutil_ReadFile s certFile of
        Inl e \<Rightarrow> Inl e
      | Inr cert \<Rightarrow> (case ioutil_ReadFile s keyFile of Inl e \<Rightarrow> Inl e | Inr key \<Rightarrow> re_X509KeyPair env cert key))"

definition etcdRoots :: "('x, 'cfg) recover_env \<Rightarrow> fs \<Rightarrow> recoverOpts \<Rightarrow> go_error + bytes option" where
  "etcdRoots env s opts =
     (if rv_etcdCAPath opts \<noteq> ''''
      then (case ioutil_ReadFile s (rv_etcdCAPath opts) of
              Inl e \<Rightarrow> Inl e
            | Inr etcdCA \<Rightarrow>
                (if re_AppendCertsFromPEM env etcdCA then Inr (Some etcdCA)
                 else Inl (Err (''error processing --etcd-ca-file '' @ rv_etcdCAPath opts))))
      else Inr None)"

definition etcdCerts :: "('x, 'cfg) recover_env \<Rightarrow> fs \<Rightarrow> recoverOpts \<Rightarrow> go_error + 'x list" where
  "etcdCerts env s opts =
     (if rv_etcdCertificatePath opts \<noteq> '''' \<and> rv_etcdPrivateKeyPath opts \<noteq> ''''
      then (case LoadX509KeyPair env s (rv_etcdCertificatePath opts) (rv_etcdPrivateKeyPath opts) of
              Inl e \<Rightarrow> Inl e
            | Inr clientCert \<Rightarrow> Inr [clientCert])
      else Inr [])"

definition createEtcdClient ::
  "('x, 'cfg) recover_env \<Rightarrow> fs \<Rightarrow> recoverOpts \<Rightarrow> go_error + (string \<Rightarrow> bool \<Rightarrow> go_error + bytes list)" where
  "createEtcdClient env s opts =
     (case etcdRoots env s opts of
        Inl e \<Rightarrow> Inl e
      | Inr roots \<Rightarrow>
          (case etcdCerts env s opts of
             Inl e \<Rightarrow> Inl e
           | Inr certs \<Rightarrow>
               re_etcdNew env \<lparr>ec_Endpoints = splitOn (CHR '','') (rv_etcdServers opts), ec_DialTimeout = 5 * time_Second,
                 ec_TLS = (if roots \<noteq> None \<or> length certs > 0 then Some \<lparr>tl_RootCAs = roots, tl_Certificates = certs\<rparr> else None)\<rparr>))"

definition NewAPIServerBackend :: "('x, 'cfg) recover_env \<Rightarrow> string \<Rightarrow> go_error + apiServerBackend" where
  "NewAPIServerBackend env kubeConfigPath =
     (case re_ClientConfig env kubeConfigPath of Inl e \<Rightarrow> Inl e | Inr config \<Rightarrow> re_NewForConfig env config)"

text \<open>\<open>filepath.Abs\<close>; the working directory is known.\<close>

definition filepath_Abs :: "fs \<Rightarrow> string \<Rightarrow> go_error + string" where
  "filepath_Abs s p = Inr (if hasPrefix p ''/'' then path_Clean p else path_Join [slash # joinWith slash (cwd s), p])"

text \<open>What the chosen backend reads; a backend that cannot be made is the first result.\<close>

definition openBackend :: "('x, 'cfg) recover_env \<Rightarrow> fs \<Rightarrow> recoverOpts \<Rightarrow> string \<Rightarrow> go_error + (go_error + controlPlane)" where
  "openBackend env s opts kubeConfigPath =
     (if rv_etcdServers opts \<noteq> ''''
      then (case createEtcdClient env s opts of
              Inl e \<Rightarrow> Inl e
            | Inr etcdClient \<Rightarrow> Inr (etcd_read (re_decoder env, NewEtcdBackend etcdClient (rv_etcdPrefix opts))))
      else (case NewAPIServerBackend env kubeConfigPath of Inl e \<Rightarrow> Inl e | Inr backend \<Rightarrow> Inr (api_read backend)))"

definition runCmdRecover :: "('x, 'cfg) recover_env \<Rightarrow> recoverOpts \<Rightarrow> fs \<Rightarrow> fs \<times> go_error option" where
  "runCmdRecover env opts s =
     (case filepath_Abs s (rv_kubeConfigPath opts) of
        Inl e \<Rightarrow> (s, Some e)
      | Inr kubeConfigPath \<Rightarrow>
          (case openBackend env s opts kubeConfigPath of
             Inl e \<Rightarrow> (s, Some e)
           | Inr read \<Rightarrow>
               (case Recover (re_Marshal env) read s kubeConfigPath of
                  Inl e \<Rightarrow> (s, Some e)
                | Inr as \<Rightarrow> Assets_WriteFiles s as (rv_recoveryDir opts))))"

definition recover_command :: "('x, 'cfg) recover_env \<Rightarrow> recoverOpts \<Rightarrow> fs \<Rightarrow> fs \<times> go_error option" where
  "recover_command env opts s = (case validateRecoverOpts opts of Some e \<Rightarrow> (s, Some e) | None \<Rightarrow> runCmdRecover env opts s)"

section \<open>The connection to etcd\<close>







section \<open>Outcomes\<close>

lemma start_command_accepted:
  "validateStartOpts opts = None \<Longrightarrow> start_command sr opts s w = Run sr (NewBootkube \<lparr>AssetDir = so_assetDir opts,
     PodManifestPath = so_podManifestPath opts, Strict = so_strict opts, RequiredPods = so_requiredPods opts\<rparr>) s w"
  by (simp add: start_command_def runCmdStart_def)

lemma validatePods_iff: "validatePods pods = None \<longleftrightarrow> list_all (\<lambda>p. length (splitOn slash p) = 2) pods"
  by (induction pods) simp_all

text \<open>The defaults lack only the asset directory.\<close>

lemma default_pods_accepted: "validateStartOpts (default_startOpts\<lparr>so_assetDir := dir\<rparr>) = None \<longleftrightarrow> dir \<noteq> ''''"
proof -
  have "list_all (\<lambda>p. length (splitOn slash p) = 2) defaultRequiredPods" by code_simp
  then show ?thesis by (simp add: validateStartOpts_def default_startOpts_def validatePods_iff)
qed

lemma recover_command_parts:
  assumes "recover_command env opts s = (s', None)"
  obtains kubeConfigPath cp as where "validateRecoverOpts opts = None" "filepath_Abs s (rv_kubeConfigPath opts) = Inr kubeConfigPath"
    "openBackend env s opts kubeConfigPath = Inr (Inr cp)" "Recover (re_Marshal env) (Inr cp) s kubeConfigPath = Inr as"
    "Assets_WriteFiles s as (rv_recoveryDir opts) = (s', None)"
proof -
  obtain kc read as where parts: "validateRecoverOpts opts = None" "filepath_Abs s (rv_kubeConfigPath opts) = Inr kc"
    "openBackend env s opts kc = Inr read" "Recover (re_Marshal env) read s kc = Inr as" "Assets_WriteFiles s as (rv_recoveryDir opts) = (s', None)"
    using assms by (auto simp: recover_command_def runCmdRecover_def split: option.splits sum.splits)
  moreover obtain cp where "read = Inr cp" using parts(4) by (auto simp: Recover_def split: sum.splits)
  ultimately show thesis using that by simp
qed



section \<open>Properties\<close>



text \<open>A lost control plane in etcd, and a host to recover it on.\<close>

definition example_env :: "(bytes, unit) recover_env" where
  "example_env = \<lparr>re_AppendCertsFromPEM = (\<lambda>_. True), re_X509KeyPair = (\<lambda>c k. Inr (c @ k)),
     re_etcdNew = (\<lambda>_. Inr (\<lambda>p _. Inr (if p = ''/registry/daemonsets/kube-system/'' \<or> p = ''/registry/secrets/kube-system/'' then [p] else []))),
     re_ClientConfig = (\<lambda>_. Inl (Err ''no cluster'')), re_NewForConfig = (\<lambda>_. Inl (Err ''no cluster'')),
     re_decoder = \<lparr>dec_kv = (\<lambda>_. Inr (hd (cp_secrets example_control_plane))), dec_wl = (\<lambda>_. Inr example_workload)\<rparr>,
     re_Marshal = (\<lambda>p. Inr (pod_Name p))\<rparr>"

definition ca_host :: fs where
  "ca_host = fs_put recovery_host [''etc'', ''kubernetes'', ''ca.crt''] (NFile ''ca'' \<lparr>n_mode = 384, n_uid = 0, n_gid = 0\<rparr>)"

definition example_recover :: recoverOpts where
  "example_recover = default_recoverOpts\<lparr>rv_recoveryDir := ''/out'', rv_etcdServers := ''https://10.0.0.5:2379,https://10.0.0.6:2379'',
     rv_etcdCAPath := ''/etc/kubernetes/ca.crt'', rv_kubeConfigPath := ''/etc/kubernetes/kubeconfig''\<rparr>"

definition recovered_host :: fs where
  "recovered_host = fst (recover_command example_env example_recover ca_host)"

lemma example_recovered_ok: "recover_command example_env example_recover ca_host = (recovered_host, None)"
proof -
  have "snd (recover_command example_env example_recover ca_host) = None" by code_simp
  then show ?thesis unfolding recovered_host_def by (metis prod.collapse)
qed





text \<open>
  C16: A recovered control plane finds what it needs. When \<open>bootkube recover\<close> succeeded and
  \<open>bootkube start\<close> started from its directory, the control plane that was read is the one that
  starts: the manifest of every recovered API server, controller manager and scheduler is where
  the kubelet looks for static pods, and every secret and config map its workload took from the
  lost cluster is a directory of files on the host, with the recovered data, in the place the pod
  mounts.
\<close>

theorem recovered_pods_find_their_secrets:
  assumes recovered: "recover_command env ro s = (s1, None)"
    and start: "Start (NewBootstrapControlPlane (so_assetDir so) (so_podManifestPath so)) s1 = (b, s2, None)"
    and opts: "validateStartOpts so = None" "so_assetDir so = rv_recoveryDir ro"
    and dir: "rv_recoveryDir ro = slash # joinWith slash ds" "ds \<noteq> []" "list_all plain_comp ds" "\<not> prefix secrets_key ds" "\<not> prefix ds secrets_key"
    and names: "names_ok s1"
  shows "\<exists>kc cp. filepath_Abs s (rv_kubeConfigPath ro) = Inr kc \<and> openBackend env s ro kc = Inr (Inr cp) \<and>
     (nameable cp \<longrightarrow> (\<forall>w \<in> set (control_plane_workloads cp). \<exists>p data. re_Marshal env p = Inr data \<and>
        content s2 (fs_key s2 (so_podManifestPath so) @ [''bootstrap-'' @ m_Name (wl_Meta w) @ ''.yaml'']) = Some data \<and>
        (\<forall>v \<in> set (sp_Volumes (wl_Spec w)).
           (\<forall>n. secret_of v = Some n \<longrightarrow> mounted s2 (cp_secrets cp) p v n) \<and>
           (\<forall>n. configMap_of v = Some n \<longrightarrow> mounted s2 (cp_configMaps cp) p v n))))"
proof -
  obtain kc cp as where parts: "filepath_Abs s (rv_kubeConfigPath ro) = Inr kc" "openBackend env s ro kc = Inr (Inr cp)"
    "Recover (re_Marshal env) (Inr cp) s kc = Inr as" "Assets_WriteFiles s as (rv_recoveryDir ro) = (s1, None)"
    using recovered by (rule recover_command_parts)
  have "so_podManifestPath so \<noteq> ''''" using opts(1) by (auto simp: validateStartOpts_def split: if_splits)
  then show ?thesis
    using recovered_and_started [OF parts(3) _ parts(4) start [unfolded opts(2)] dir _ names] parts(1,2) by blast
qed

theorem recovered_pods_find_their_secrets_witness:
  "\<exists>b s2 p. Start (NewBootstrapControlPlane ''/out'' ''/m'') recovered_host = (b, s2, None) \<and>
     mounted s2 (cp_secrets example_control_plane) p (hd (sp_Volumes (wl_Spec example_workload))) ''api''"
proof -
  define so where "so = default_startOpts\<lparr>so_assetDir := ''/out'', so_podManifestPath := ''/m''\<rparr>"
  have so: "so_assetDir so = ''/out''" "so_podManifestPath so = ''/m''" by (simp_all add: so_def)
  have accepted: "validateStartOpts so = None" unfolding so_def by code_simp
  have "snd (snd (Start (NewBootstrapControlPlane ''/out'' ''/m'') recovered_host)) = None" by code_simp
  then obtain b s2 where start: "Start (NewBootstrapControlPlane ''/out'' ''/m'') recovered_host = (b, s2, None)" by (metis prod.collapse)
  have "list_all (\<lambda>(k, _). list_all plain_comp k) (entries recovered_host)" by code_simp
  then have names: "names_ok recovered_host" by (rule names_okI)
  have dir: "rv_recoveryDir example_recover = ''/out''" "''/out'' = slash # joinWith slash [''out'']" "list_all plain_comp [''out'']"
    "\<not> prefix secrets_key [''out'']" "\<not> prefix [''out''] secrets_key" by code_simp+
  have backend: "filepath_Abs ca_host (rv_kubeConfigPath example_recover) = Inr ''/etc/kubernetes/kubeconfig''"
    "openBackend example_env ca_host example_recover ''/etc/kubernetes/kubeconfig'' = Inr (Inr example_control_plane)" by code_simp+
  have w: "nameable example_control_plane" "example_workload \<in> set (control_plane_workloads example_control_plane)"
    "hd (sp_Volumes (wl_Spec example_workload)) \<in> set (sp_Volumes (wl_Spec example_workload))"
    "secret_of (hd (sp_Volumes (wl_Spec example_workload))) = Some ''api''" by code_simp+
  have st: "Start (NewBootstrapControlPlane (so_assetDir so) (so_podManifestPath so)) recovered_host = (b, s2, None)" unfolding so by (rule start)
  have same: "so_assetDir so = rv_recoveryDir example_recover" unfolding so dir(1) ..
  have d: "rv_recoveryDir example_recover = slash # joinWith slash [''out'']" unfolding dir(1) by (rule dir(2))
  obtain kc cp where read: "filepath_Abs ca_host (rv_kubeConfigPath example_recover) = Inr kc" "openBackend example_env ca_host example_recover kc = Inr (Inr cp)"
    and pods: "nameable cp \<longrightarrow> (\<forall>w \<in> set (control_plane_workloads cp). \<exists>p. \<forall>v \<in> set (sp_Volumes (wl_Spec w)).
      \<forall>n. secret_of v = Some n \<longrightarrow> mounted s2 (cp_secrets cp) p v n)"
    using recovered_pods_find_their_secrets [OF example_recovered_ok st accepted same d not_Cons_self2 dir(3-5) names] by meson
  have "cp = example_control_plane" using read backend by simp
  with w start pods show ?thesis by blast
qed

end
