(* ===== verification/TlsUtil.thy ===== *)
theory TlsUtil
  imports ServiceNet
begin

text \<open>
  Keys and certificates: \<open>pkg/tlsutil/tlsutil.go\<close>. Cryptography is symbolic: a key pair is
  a number, a certificate is a record that also says which public key its signature verifies
  with. Go's random source is a sequence of draws; an operation that reads it takes the
  number of draws so far and returns the new one. The library functions the sources call
  (key generation, signing, the encodings) are the fields of \<open>crypto\<close>, and \<open>crypto_ok\<close>
  states what the documentation of \<open>crypto/x509\<close> and \<open>encoding/pem\<close> promises of them.
  Times are in whole seconds, as certificates hold them.
\<close>

section \<open>Data\<close>

datatype rsa_PrivateKey = PrivateKey nat
datatype rsa_PublicKey = PublicKey nat

fun key_Public :: "rsa_PrivateKey \<Rightarrow> rsa_PublicKey" where
  "key_Public (PrivateKey k) = PublicKey k"

datatype KeyUsage = KeyUsageKeyEncipherment | KeyUsageDigitalSignature | KeyUsageCertSign
datatype ExtKeyUsage = ExtKeyUsageServerAuth | ExtKeyUsageClientAuth

record pkix_Name =
  n_CommonName :: string
  n_Organization :: "string list"
  n_OrganizationalUnit :: "string list"

record x509_Certificate =
  x_Raw :: bytes
  x_SerialNumber :: nat
  x_Issuer :: pkix_Name
  x_Subject :: pkix_Name
  x_DNSNames :: "string list"
  x_IPAddresses :: "ip list"
  x_NotBefore :: int
  x_NotAfter :: int
  x_KeyUsage :: "KeyUsage list"
  x_ExtKeyUsage :: "ExtKeyUsage list"
  x_BasicConstraintsValid :: bool
  x_IsCA :: bool
  x_PublicKey :: "rsa_PublicKey option"
  x_VerifiedBy :: "rsa_PublicKey option"

record AltNames =
  an_DNSNames :: "string list"
  an_IPs :: "ip list"

record CertConfig =
  cc_CommonName :: string
  cc_Organization :: "string list"
  cc_OrganizationalUnit :: "string list"
  cc_AltNames :: AltNames

definition noName :: pkix_Name where
  "noName = \<lparr>n_CommonName = '''', n_Organization = [], n_OrganizationalUnit = []\<rparr>"

definition emptyCertificate :: x509_Certificate where
  "emptyCertificate = \<lparr>x_Raw = [], x_SerialNumber = 0, x_Issuer = noName, x_Subject = noName,
     x_DNSNames = [], x_IPAddresses = [], x_NotBefore = 0, x_NotAfter = 0, x_KeyUsage = [],
     x_ExtKeyUsage = [], x_BasicConstraintsValid = False, x_IsCA = False,
     x_PublicKey = None, x_VerifiedBy = None\<rparr>"

definition emptyAltNames :: AltNames where
  "emptyAltNames = \<lparr>an_DNSNames = [], an_IPs = []\<rparr>"

definition emptyCertConfig :: CertConfig where
  "emptyCertConfig = \<lparr>cc_CommonName = '''', cc_Organization = [], cc_OrganizationalUnit = [], cc_AltNames = emptyAltNames\<rparr>"

definition RSAKeySize :: nat where "RSAKeySize = 2048"
definition Duration365d :: int where "Duration365d = 3600 * 24 * 365"

section \<open>The cryptographic library\<close>

record crypto =
  cr_GenerateKey :: "nat \<Rightarrow> nat \<Rightarrow> go_error + rsa_PrivateKey"
  cr_Int :: "nat \<Rightarrow> nat \<Rightarrow> go_error + nat"
  cr_CreateCertificate ::
    "nat \<Rightarrow> x509_Certificate \<Rightarrow> x509_Certificate \<Rightarrow> rsa_PublicKey \<Rightarrow> rsa_PrivateKey \<Rightarrow> go_error + bytes"
  cr_ParseCertificate :: "bytes \<Rightarrow> go_error + x509_Certificate"
  cr_MarshalPKIXPublicKey :: "rsa_PublicKey \<Rightarrow> go_error + bytes"
  cr_MarshalPKCS1PrivateKey :: "rsa_PrivateKey \<Rightarrow> bytes"
  cr_ParsePKCS1PrivateKey :: "bytes \<Rightarrow> go_error + rsa_PrivateKey"
  cr_EncodeToMemory :: "string \<Rightarrow> bytes \<Rightarrow> bytes"
  cr_Decode :: "bytes \<Rightarrow> (string \<times> bytes) option"
  cr_Read :: "nat \<Rightarrow> nat \<Rightarrow> go_error + 8 word list"
  cr_Now :: "nat \<Rightarrow> int"
  cr_uuid :: "nat \<Rightarrow> string"

text \<open>
  What a certificate made from a template says: the template's fields, the issuer is the
  parent's subject, the key is the given one, and the signature verifies with the public part
  of the signing key. IPv4 addresses are held in four bytes.
\<close>

definition certificate_of ::
  "x509_Certificate \<Rightarrow> x509_Certificate \<Rightarrow> rsa_PublicKey \<Rightarrow> rsa_PrivateKey \<Rightarrow> bytes \<Rightarrow> x509_Certificate" where
  "certificate_of tmpl parent pub priv der =
     tmpl\<lparr>x_Raw := der, x_Issuer := x_Subject parent, x_PublicKey := Some pub,
       x_VerifiedBy := Some (key_Public priv),
       x_IPAddresses := map (\<lambda>x. case To4 x of Some y \<Rightarrow> y | None \<Rightarrow> x) (x_IPAddresses tmpl)\<rparr>"

definition crypto_ok :: "crypto \<Rightarrow> bool" where
  "crypto_ok C \<longleftrightarrow>
     (\<forall>n tmpl parent pub priv der. cr_CreateCertificate C n tmpl parent pub priv = Inr der \<longrightarrow>
        cr_ParseCertificate C der = Inr (certificate_of tmpl parent pub priv der)) \<and>
     (\<forall>ty \<in> {''CERTIFICATE'', ''RSA PRIVATE KEY''}. \<forall>b. cr_Decode C (cr_EncodeToMemory C ty b) = Some (ty, b)) \<and>
     (\<forall>k. cr_ParsePKCS1PrivateKey C (cr_MarshalPKCS1PrivateKey C k) = Inr k) \<and>
     (\<forall>n len b. cr_Read C n len = Inr b \<longrightarrow> length b = len)"

lemma crypto_ok_created:
  "crypto_ok C \<Longrightarrow> cr_CreateCertificate C n tmpl parent pub priv = Inr der \<Longrightarrow>
   cr_ParseCertificate C der = Inr (certificate_of tmpl parent pub priv der)"
  by (simp add: crypto_ok_def)

text \<open>A fallible computation that reads the random source, and sequencing with early return.\<close>

type_synonym 'a drawing = "nat \<Rightarrow> (go_error + 'a) \<times> nat"

definition draw :: "(nat \<Rightarrow> go_error + 'a) \<Rightarrow> 'a drawing" where
  "draw f n = (f n, Suc n)"

definition pure :: "go_error + 'a \<Rightarrow> 'a drawing" where
  "pure r n = (r, n)"

definition attempt :: "'a drawing \<Rightarrow> ('a \<Rightarrow> 'b drawing) \<Rightarrow> 'b drawing" where
  "attempt m f n = (case m n of (Inl e, n1) \<Rightarrow> (Inl e, n1) | (Inr a, n1) \<Rightarrow> f a n1)"

named_theorems drawing_iff \<open>when a drawing computation succeeds\<close>

lemma draw_iff [drawing_iff]: "draw f n = (Inr a, n') \<longleftrightarrow> f n = Inr a \<and> n' = Suc n"
  by (auto simp: draw_def)

lemma pure_iff [drawing_iff]: "pure r n = (Inr a, n') \<longleftrightarrow> r = Inr a \<and> n' = n"
  by (auto simp: pure_def)

lemma attempt_iff [drawing_iff]:
  "attempt m f n = (Inr b, n') \<longleftrightarrow> (\<exists>a n1. m n = (Inr a, n1) \<and> f a n1 = (Inr b, n'))"
  by (auto simp: attempt_def split: prod.splits sum.splits)

section \<open>Operations\<close>

definition NewPrivateKey :: "crypto \<Rightarrow> rsa_PrivateKey drawing" where
  "NewPrivateKey C = draw (cr_GenerateKey C RSAKeySize)"

definition EncodePublicKeyPEM :: "crypto \<Rightarrow> rsa_PublicKey \<Rightarrow> go_error + bytes" where
  "EncodePublicKeyPEM C key =
     (case cr_MarshalPKIXPublicKey C key of
        Inl e \<Rightarrow> Inl e
      | Inr der \<Rightarrow> Inr (cr_EncodeToMemory C ''PUBLIC KEY'' der))"

definition EncodePrivateKeyPEM :: "crypto \<Rightarrow> rsa_PrivateKey \<Rightarrow> bytes" where
  "EncodePrivateKeyPEM C key = cr_EncodeToMemory C ''RSA PRIVATE KEY'' (cr_MarshalPKCS1PrivateKey C key)"

definition EncodeCertificatePEM :: "crypto \<Rightarrow> x509_Certificate \<Rightarrow> bytes" where
  "EncodeCertificatePEM C cert = cr_EncodeToMemory C ''CERTIFICATE'' (x_Raw cert)"

definition NewSelfSignedCACertificate :: "crypto \<Rightarrow> CertConfig \<Rightarrow> rsa_PrivateKey \<Rightarrow> x509_Certificate drawing" where
  "NewSelfSignedCACertificate C cfg key n =
     (let now = cr_Now C n;
          tmpl = emptyCertificate\<lparr>x_SerialNumber := 0,
            x_Subject := \<lparr>n_CommonName = cc_CommonName cfg, n_Organization = cc_Organization cfg,
              n_OrganizationalUnit = cc_OrganizationalUnit cfg\<rparr>,
            x_NotBefore := now,
            x_NotAfter := now + Duration365d * 10,
            x_KeyUsage := [KeyUsageKeyEncipherment, KeyUsageDigitalSignature, KeyUsageCertSign],
            x_BasicConstraintsValid := True,
            x_IsCA := True\<rparr>
      in attempt (draw (\<lambda>n. cr_CreateCertificate C n tmpl tmpl (key_Public key) key))
           (\<lambda>certDERBytes. pure (cr_ParseCertificate C certDERBytes)) n)"

definition ParsePEMEncodedCACert :: "crypto \<Rightarrow> bytes \<Rightarrow> go_error + x509_Certificate" where
  "ParsePEMEncodedCACert C pemdata =
     (case cr_Decode C pemdata of
        None \<Rightarrow> Inl (Err ''no PEM data found'')
      | Some (_, decoded) \<Rightarrow> cr_ParseCertificate C decoded)"

definition ParsePEMEncodedPrivateKey :: "crypto \<Rightarrow> bytes \<Rightarrow> go_error + rsa_PrivateKey" where
  "ParsePEMEncodedPrivateKey C pemdata =
     (case cr_Decode C pemdata of
        None \<Rightarrow> Inl (Err ''no PEM data found'')
      | Some (_, decoded) \<Rightarrow> cr_ParsePKCS1PrivateKey C decoded)"

definition NewSignedCertificate ::
  "crypto \<Rightarrow> CertConfig \<Rightarrow> rsa_PrivateKey \<Rightarrow> x509_Certificate \<Rightarrow> rsa_PrivateKey \<Rightarrow> x509_Certificate drawing" where
  "NewSignedCertificate C cfg key caCert caKey =
     attempt (draw (\<lambda>n. cr_Int C n (2 ^ 63 - 1))) (\<lambda>serial n.
       (let certTmpl = emptyCertificate\<lparr>
              x_Subject := \<lparr>n_CommonName = cc_CommonName cfg, n_Organization = cc_Organization cfg, n_OrganizationalUnit = []\<rparr>,
              x_DNSNames := an_DNSNames (cc_AltNames cfg),
              x_IPAddresses := an_IPs (cc_AltNames cfg),
              x_SerialNumber := serial,
              x_NotBefore := x_NotBefore caCert,
              x_NotAfter := cr_Now C n + Duration365d,
              x_KeyUsage := [KeyUsageKeyEncipherment, KeyUsageDigitalSignature],
              x_ExtKeyUsage := [ExtKeyUsageServerAuth, ExtKeyUsageClientAuth]\<rparr>
        in attempt (draw (\<lambda>n. cr_CreateCertificate C n certTmpl caCert (key_Public key) caKey))
             (\<lambda>certDERBytes. pure (cr_ParseCertificate C certDERBytes)) n))"

section \<open>What they produce\<close>

text \<open>A certificate that can be written to disk and read back.\<close>

definition readable_cert :: "crypto \<Rightarrow> x509_Certificate \<Rightarrow> bool" where
  "readable_cert C cert \<longleftrightarrow> cr_ParseCertificate C (x_Raw cert) = Inr cert"

text \<open>\<open>cert\<close> belongs to the key pair of \<open>key\<close> and was issued under \<open>ca\<close> with the key \<open>caKey\<close>; it cannot sign others.\<close>

definition issued_by :: "x509_Certificate \<Rightarrow> rsa_PrivateKey \<Rightarrow> x509_Certificate \<Rightarrow> rsa_PrivateKey \<Rightarrow> bool" where
  "issued_by ca caKey cert key \<longleftrightarrow>
     x_PublicKey cert = Some (key_Public key) \<and> x_VerifiedBy cert = Some (key_Public caKey) \<and>
     x_Issuer cert = x_Subject ca \<and> \<not> x_IsCA cert \<and> KeyUsageCertSign \<notin> set (x_KeyUsage cert)"

definition self_issued :: "x509_Certificate \<Rightarrow> rsa_PrivateKey \<Rightarrow> bool" where
  "self_issued cert key \<longleftrightarrow>
     x_PublicKey cert = Some (key_Public key) \<and> x_VerifiedBy cert = Some (key_Public key) \<and>
     x_Issuer cert = x_Subject cert \<and> x_IsCA cert \<and> KeyUsageCertSign \<in> set (x_KeyUsage cert)"

definition short_ips :: "ip list \<Rightarrow> ip list" where
  "short_ips = map (\<lambda>x. case To4 x of Some y \<Rightarrow> y | None \<Rightarrow> x)"

lemma key_PEM_roundtrip [simp]:
  "crypto_ok C \<Longrightarrow> ParsePEMEncodedPrivateKey C (EncodePrivateKeyPEM C key) = Inr key"
  by (simp add: crypto_ok_def ParsePEMEncodedPrivateKey_def EncodePrivateKeyPEM_def)

lemma cert_PEM_roundtrip [simp]:
  "crypto_ok C \<Longrightarrow> readable_cert C cert \<Longrightarrow> ParsePEMEncodedCACert C (EncodeCertificatePEM C cert) = Inr cert"
  by (simp add: crypto_ok_def readable_cert_def ParsePEMEncodedCACert_def EncodeCertificatePEM_def)

lemma created_cert:
  assumes "crypto_ok C" "cr_CreateCertificate C n tmpl parent pub priv = Inr der" "cr_ParseCertificate C der = Inr cert"
  shows "cert = certificate_of tmpl parent pub priv der \<and> readable_cert C cert"
  using assms unfolding crypto_ok_def readable_cert_def by (fastforce simp: certificate_of_def)

lemma NewSignedCertificate_result:
  assumes "crypto_ok C" "NewSignedCertificate C cfg key caCert caKey n = (Inr cert, n')"
  shows "issued_by caCert caKey cert key \<and> readable_cert C cert \<and>
     x_Subject cert = \<lparr>n_CommonName = cc_CommonName cfg, n_Organization = cc_Organization cfg, n_OrganizationalUnit = []\<rparr> \<and>
     x_DNSNames cert = an_DNSNames (cc_AltNames cfg) \<and> x_IPAddresses cert = short_ips (an_IPs (cc_AltNames cfg)) \<and>
     x_NotBefore cert = x_NotBefore caCert \<and> x_NotAfter cert = cr_Now C (Suc n) + Duration365d \<and> n' = n + 2"
  using assms created_cert [OF assms(1)]
  by (fastforce simp: NewSignedCertificate_def Let_def drawing_iff issued_by_def certificate_of_def short_ips_def emptyCertificate_def)

lemma NewSelfSignedCACertificate_result:
  assumes "crypto_ok C" "NewSelfSignedCACertificate C cfg key n = (Inr cert, n')"
  shows "self_issued cert key \<and> readable_cert C cert \<and>
     x_Subject cert = \<lparr>n_CommonName = cc_CommonName cfg, n_Organization = cc_Organization cfg, n_OrganizationalUnit = cc_OrganizationalUnit cfg\<rparr> \<and>
     x_NotBefore cert = cr_Now C n \<and> x_NotAfter cert = cr_Now C n + Duration365d * 10 \<and> n' = n + 1"
  using assms created_cert [OF assms(1)]
  by (fastforce simp: NewSelfSignedCACertificate_def Let_def drawing_iff self_issued_def certificate_of_def emptyCertificate_def)

end
