(* ===== verification/TlsSymbolic.thy ===== *)
theory TlsSymbolic
  imports TlsUtil
begin

text \<open>
  A cryptographic library that satisfies \<open>crypto_ok\<close> and \<open>crypto_works\<close>: keys are numbered by the draw they come
  from, and a certificate's bytes are a self-delimiting encoding of what it says. It shows
  that what the two say can hold together: what is encoded is read back, and no operation fails.
\<close>

section \<open>Self-delimiting encodings\<close>

type_synonym 'a codec = "('a \<Rightarrow> bytes) \<times> (bytes \<Rightarrow> 'a \<times> bytes)"

definition codec_ok :: "'a codec \<Rightarrow> bool" where
  "codec_ok c \<longleftrightarrow> (\<forall>x rest. snd c (fst c x @ rest) = (x, rest))"

definition nat_codec :: "nat codec" where
  "nat_codec = (\<lambda>n. replicate n CHR ''1'' @ ''0'',
     \<lambda>s. (length (takeWhile (\<lambda>c. c = CHR ''1'') s), tl (dropWhile (\<lambda>c. c = CHR ''1'') s)))"

definition via :: "('a \<Rightarrow> 'b) \<Rightarrow> ('b \<Rightarrow> 'a) \<Rightarrow> 'b codec \<Rightarrow> 'a codec" where
  "via f g c = (\<lambda>x. fst c (f x), \<lambda>s. (case snd c s of (y, rest) \<Rightarrow> (g y, rest)))"

definition pair_codec :: "'a codec \<Rightarrow> 'b codec \<Rightarrow> ('a \<times> 'b) codec" where
  "pair_codec c d = (\<lambda>(x, y). fst c x @ fst d y,
     \<lambda>s. (case snd c s of (x, s1) \<Rightarrow> (case snd d s1 of (y, s2) \<Rightarrow> ((x, y), s2))))"

fun decode_n :: "(bytes \<Rightarrow> 'a \<times> bytes) \<Rightarrow> nat \<Rightarrow> bytes \<Rightarrow> 'a list \<times> bytes" where
  "decode_n d 0 s = ([], s)"
| "decode_n d (Suc k) s = (case d s of (x, s1) \<Rightarrow> (case decode_n d k s1 of (xs, s2) \<Rightarrow> (x # xs, s2)))"

definition list_codec :: "'a codec \<Rightarrow> 'a list codec" where
  "list_codec c = (\<lambda>xs. fst nat_codec (length xs) @ concat (map (fst c) xs),
     \<lambda>s. (case snd nat_codec s of (k, s1) \<Rightarrow> decode_n (snd c) k s1))"

lemma nat_codec_ok [intro!]: "codec_ok nat_codec"
proof -
  have "takeWhile (\<lambda>c. c = CHR ''1'') (replicate n CHR ''1'' @ CHR ''0'' # rest) = replicate n CHR ''1''"
    "dropWhile (\<lambda>c. c = CHR ''1'') (replicate n CHR ''1'' @ CHR ''0'' # rest) = CHR ''0'' # rest" for n rest
    by (induction n) simp_all
  then show ?thesis by (simp add: codec_ok_def nat_codec_def)
qed

lemma via_ok [intro]: "(\<And>x. g (f x) = x) \<Longrightarrow> codec_ok c \<Longrightarrow> codec_ok (via f g c)"
  by (simp add: codec_ok_def via_def)

lemma pair_codec_ok [intro!]: "codec_ok c \<Longrightarrow> codec_ok d \<Longrightarrow> codec_ok (pair_codec c d)"
  by (simp add: codec_ok_def pair_codec_def)

lemma list_codec_ok [intro!]:
  assumes "codec_ok c"
  shows "codec_ok (list_codec c)"
proof -
  have "decode_n (snd c) (length xs) (concat (map (fst c) xs) @ rest) = (xs, rest)" for xs rest
    using assms by (induction xs) (simp_all add: codec_ok_def)
  then show ?thesis using nat_codec_ok by (simp add: codec_ok_def list_codec_def)
qed

section \<open>Certificates as bytes\<close>

definition char_codec :: "char codec" where
  "char_codec = (\<lambda>c. [c], \<lambda>s. (hd s, tl s))"

definition ip_codec :: "ip codec" where
  "ip_codec = list_codec (via unat of_nat nat_codec)"

definition int_codec :: "int codec" where
  "int_codec = via (\<lambda>i. (nat i, nat (- i))) (\<lambda>(a, b). int a - int b) (pair_codec nat_codec nat_codec)"

definition bool_codec :: "bool codec" where
  "bool_codec = via (\<lambda>b. if b then 1 else 0) (\<lambda>n. n = 1) nat_codec"

definition name_codec :: "pkix_Name codec" where
  "name_codec = via (\<lambda>x. (n_CommonName x, n_Organization x, n_OrganizationalUnit x))
     (\<lambda>(a, b, c). \<lparr>n_CommonName = a, n_Organization = b, n_OrganizationalUnit = c\<rparr>)
     (pair_codec (list_codec char_codec) (pair_codec (list_codec (list_codec char_codec)) (list_codec (list_codec char_codec))))"

definition usage_codec :: "KeyUsage codec" where
  "usage_codec = via (\<lambda>u. case u of KeyUsageKeyEncipherment \<Rightarrow> 0 | KeyUsageDigitalSignature \<Rightarrow> 1 | KeyUsageCertSign \<Rightarrow> 2)
     (\<lambda>n. if n = 0 then KeyUsageKeyEncipherment else if n = 1 then KeyUsageDigitalSignature else KeyUsageCertSign) nat_codec"

definition extUsage_codec :: "ExtKeyUsage codec" where
  "extUsage_codec = via (\<lambda>u. case u of ExtKeyUsageServerAuth \<Rightarrow> 0 | ExtKeyUsageClientAuth \<Rightarrow> 1)
     (\<lambda>n. if n = 0 then ExtKeyUsageServerAuth else ExtKeyUsageClientAuth) nat_codec"

definition pub_codec :: "rsa_PublicKey option codec" where
  "pub_codec = via (\<lambda>k. case k of None \<Rightarrow> 0 | Some (PublicKey n) \<Rightarrow> Suc n)
     (\<lambda>n. case n of 0 \<Rightarrow> None | Suc m \<Rightarrow> Some (PublicKey m)) nat_codec"

definition cert_codec :: "x509_Certificate codec" where
  "cert_codec = via
     (\<lambda>x. (x_SerialNumber x, x_Issuer x, x_Subject x, x_DNSNames x, x_IPAddresses x, (x_NotBefore x, x_NotAfter x),
           (x_KeyUsage x, x_ExtKeyUsage x), (x_BasicConstraintsValid x, x_IsCA x), (x_PublicKey x, x_VerifiedBy x), x_Raw x))
     (\<lambda>(sn, i, s, dns, ips, (nb, na), (ku, eku), (bc, ca), (pk, vb), raw).
        \<lparr>x_Raw = raw, x_SerialNumber = sn, x_Issuer = i, x_Subject = s, x_DNSNames = dns, x_IPAddresses = ips, x_NotBefore = nb,
         x_NotAfter = na, x_KeyUsage = ku, x_ExtKeyUsage = eku, x_BasicConstraintsValid = bc, x_IsCA = ca,
         x_PublicKey = pk, x_VerifiedBy = vb\<rparr>)
     (pair_codec nat_codec (pair_codec name_codec (pair_codec name_codec (pair_codec (list_codec (list_codec char_codec))
       (pair_codec (list_codec ip_codec) (pair_codec (pair_codec int_codec int_codec)
       (pair_codec (pair_codec (list_codec usage_codec) (list_codec extUsage_codec))
       (pair_codec (pair_codec bool_codec bool_codec) (pair_codec (pair_codec pub_codec pub_codec) (list_codec char_codec))))))))))"

lemma char_codec_ok [intro!]: "codec_ok char_codec"
  by (simp add: codec_ok_def char_codec_def)

lemma ip_codec_ok [intro!]: "codec_ok ip_codec"
  by (auto simp: ip_codec_def)

lemma int_codec_ok [intro!]: "codec_ok int_codec"
  by (auto simp: int_codec_def)

lemma bool_codec_ok [intro!]: "codec_ok bool_codec"
  unfolding bool_codec_def by (rule via_ok) auto

lemma name_codec_ok [intro!]: "codec_ok name_codec"
  by (auto simp: name_codec_def)

lemma usage_codec_ok [intro!]: "codec_ok usage_codec"
  unfolding usage_codec_def by (rule via_ok) (auto split: KeyUsage.splits)

lemma extUsage_codec_ok [intro!]: "codec_ok extUsage_codec"
  unfolding extUsage_codec_def by (rule via_ok) (auto split: ExtKeyUsage.splits)

lemma pub_codec_ok [intro!]: "codec_ok pub_codec"
  unfolding pub_codec_def by (rule via_ok) (auto split: option.splits rsa_PublicKey.splits)

lemma cert_codec_ok [intro!]: "codec_ok cert_codec"
  unfolding cert_codec_def by (rule via_ok) auto

section \<open>The library\<close>

definition symbolic_crypto :: crypto where
  "symbolic_crypto = \<lparr>
     cr_GenerateKey = (\<lambda>bits n. Inr (PrivateKey n)),
     cr_Int = (\<lambda>n max. Inr (n mod max)),
     cr_CreateCertificate = (\<lambda>n tmpl parent pub priv. Inr (fst cert_codec (certificate_of tmpl parent pub priv []))),
     cr_ParseCertificate = (\<lambda>der. Inr ((fst (snd cert_codec der))\<lparr>x_Raw := der\<rparr>)),
     cr_MarshalPKIXPublicKey = (\<lambda>k. Inr (fst pub_codec (Some k))),
     cr_MarshalPKCS1PrivateKey = (\<lambda>k. case k of PrivateKey n \<Rightarrow> fst nat_codec n),
     cr_ParsePKCS1PrivateKey = (\<lambda>der. Inr (PrivateKey (fst (snd nat_codec der)))),
     cr_EncodeToMemory = (\<lambda>ty b. fst (list_codec char_codec) ty @ b),
     cr_Decode = (\<lambda>s. Some (snd (list_codec char_codec) s)),
     cr_Read = (\<lambda>n len. Inr (replicate len (of_nat n))),
     cr_Now = (\<lambda>_. 0),
     cr_uuid = (\<lambda>n. fst nat_codec n)\<rparr>"

lemma codec_decode [simp]: "codec_ok c \<Longrightarrow> snd c (fst c x @ rest) = (x, rest)" "codec_ok c \<Longrightarrow> snd c (fst c x) = (x, [])"
  unfolding codec_ok_def by (simp, metis append_Nil2)

lemma symbolic_crypto_ok: "crypto_ok symbolic_crypto"
  unfolding crypto_ok_def symbolic_crypto_def
  using cert_codec_ok nat_codec_ok list_codec_ok [OF char_codec_ok]
  by (auto simp: certificate_of_def split: rsa_PrivateKey.splits)

text \<open>A library none of whose operations fails.\<close>

definition crypto_works :: "crypto \<Rightarrow> bool" where
  "crypto_works C \<longleftrightarrow> crypto_ok C \<and>
     (\<forall>b n. \<exists>k. cr_GenerateKey C b n = Inr k) \<and> (\<forall>n m. \<exists>k. cr_Int C n m = Inr k) \<and>
     (\<forall>n t p pub k. \<exists>der. cr_CreateCertificate C n t p pub k = Inr der) \<and> (\<forall>k. \<exists>der. cr_MarshalPKIXPublicKey C k = Inr der) \<and>
     (\<forall>n len. \<exists>b. cr_Read C n len = Inr b)"

lemma symbolic_crypto_works: "crypto_works symbolic_crypto"
  using symbolic_crypto_ok by (simp add: crypto_works_def) (simp add: symbolic_crypto_def)


definition succeeds :: "'a drawing \<Rightarrow> bool" where
  "succeeds m \<longleftrightarrow> (\<forall>n. \<exists>a n'. m n = (Inr a, n'))"

lemma succeeds_rules [intro]:
  "succeeds m \<Longrightarrow> (\<And>a. succeeds (f a)) \<Longrightarrow> succeeds (attempt m f)"
  "succeeds (pure (Inr a))"
  "(\<And>n. \<exists>a. g n = Inr a) \<Longrightarrow> succeeds (draw g)"
proof -
  show "succeeds (attempt m f)" if "succeeds m" "\<And>a. succeeds (f a)"
    unfolding succeeds_def attempt_iff using that unfolding succeeds_def by meson
qed (auto simp: succeeds_def drawing_iff)

lemma NewPrivateKey_succeeds [intro]: "crypto_works C \<Longrightarrow> succeeds (NewPrivateKey C)"
  unfolding NewPrivateKey_def by (rule succeeds_rules(3)) (simp add: crypto_works_def)

lemma create_succeeds:
  assumes "crypto_works C"
  shows "succeeds (attempt (draw (\<lambda>n. cr_CreateCertificate C n t p pub k)) (\<lambda>der. pure (cr_ParseCertificate C der)))"
proof -
  have "\<exists>a n'. attempt (draw (\<lambda>n. cr_CreateCertificate C n t p pub k)) (\<lambda>der. pure (cr_ParseCertificate C der)) n = (Inr a, n')" for n
  proof -
    obtain der where "cr_CreateCertificate C n t p pub k = Inr der" using assms by (meson crypto_works_def)
    moreover then have "cr_ParseCertificate C der = Inr (certificate_of t p pub k der)"
      using assms by (intro crypto_ok_created) (simp_all add: crypto_works_def)
    ultimately show ?thesis by (auto simp: drawing_iff)
  qed
  then show ?thesis by (simp add: succeeds_def)
qed

lemma NewSignedCertificate_succeeds [intro]: "crypto_works C \<Longrightarrow> succeeds (NewSignedCertificate C cfg key ca caKey)"
  unfolding NewSignedCertificate_def
proof (rule succeeds_rules(1))
  assume "crypto_works C"
  then show "succeeds (draw (\<lambda>n. cr_Int C n (2 ^ 63 - 1)))"
    by (intro succeeds_rules(3)) (simp add: crypto_works_def)
qed (unfold succeeds_def Let_def, use create_succeeds [unfolded succeeds_def] in blast)

lemma NewSelfSignedCACertificate_succeeds [intro]: "crypto_works C \<Longrightarrow> succeeds (NewSelfSignedCACertificate C cfg key)"
  unfolding succeeds_def NewSelfSignedCACertificate_def Let_def using create_succeeds [unfolded succeeds_def] by blast

end
