(* ===== verification/TlsAssets.thy ===== *)
theory TlsAssets
  imports TlsSymbolic GoNet Assets
begin

text \<open>
  The TLS assets of a cluster: \<open>cmd/render/plugin/default/asset/tls.go\<close>. Every key pair, the
  certificate authorities and the certificates they issue, as the assets written below
  \<open>tls/\<close>.
\<close>

definition orgSystemMasters :: string where "orgSystemMasters = ''system:masters''"

definition mkAsset :: "string \<Rightarrow> bytes \<Rightarrow> Asset" where
  "mkAsset name data = \<lparr>a_Name = name, a_Data = data\<rparr>"

section \<open>Operations\<close>

definition newCACert :: "crypto \<Rightarrow> (rsa_PrivateKey \<times> x509_Certificate) drawing" where
  "newCACert C =
     attempt (NewPrivateKey C) (\<lambda>key.
     attempt (draw (\<lambda>n. Inr (cr_uuid C n))) (\<lambda>uuid.
       (let config = emptyCertConfig\<lparr>cc_CommonName := ''kube-ca'', cc_Organization := [uuid], cc_OrganizationalUnit := [''bootkube'']\<rparr> in
        attempt (NewSelfSignedCACertificate C config key) (\<lambda>cert.
        pure (Inr (key, cert))))))"

definition newAPIKeyAndCert ::
  "crypto \<Rightarrow> x509_Certificate \<Rightarrow> rsa_PrivateKey \<Rightarrow> AltNames \<Rightarrow> (rsa_PrivateKey \<times> x509_Certificate) drawing" where
  "newAPIKeyAndCert C caCert caPrivKey altNames =
     attempt (NewPrivateKey C) (\<lambda>key.
       (let altNames' = altNames\<lparr>an_DNSNames := an_DNSNames altNames @
              [''kubernetes'', ''kubernetes.default'', ''kubernetes.default.svc'', ''kubernetes.default.svc.cluster.local'']\<rparr>;
            config = emptyCertConfig\<lparr>cc_CommonName := ''kube-apiserver'', cc_Organization := [''kube-master''], cc_AltNames := altNames'\<rparr>
        in attempt (NewSignedCertificate C config key caCert caPrivKey) (\<lambda>cert.
           pure (Inr (key, cert)))))"

definition newAdminKeyAndCert ::
  "crypto \<Rightarrow> x509_Certificate \<Rightarrow> rsa_PrivateKey \<Rightarrow> CertConfig \<Rightarrow> (rsa_PrivateKey \<times> x509_Certificate) drawing" where
  "newAdminKeyAndCert C caCert caPrivKey config =
     attempt (NewPrivateKey C) (\<lambda>key.
     attempt (NewSignedCertificate C config key caCert caPrivKey) (\<lambda>cert.
     pure (Inr (key, cert))))"

definition newTLSAssets :: "crypto \<Rightarrow> x509_Certificate \<Rightarrow> rsa_PrivateKey \<Rightarrow> AltNames \<Rightarrow> Assets drawing" where
  "newTLSAssets C caCert caPrivKey altNames =
     attempt (newAPIKeyAndCert C caCert caPrivKey altNames) (\<lambda>(apiKey, apiCert).
     attempt (NewPrivateKey C) (\<lambda>aggregatorCAPrivKey.
     attempt (NewSelfSignedCACertificate C (emptyCertConfig\<lparr>cc_CommonName := ''front-proxy''\<rparr>) aggregatorCAPrivKey) (\<lambda>aggregatorCACert.
     attempt (NewPrivateKey C) (\<lambda>frontProxyPrivKey.
     attempt (NewSignedCertificate C (emptyCertConfig\<lparr>cc_CommonName := ''front-proxy-client''\<rparr>) frontProxyPrivKey aggregatorCACert aggregatorCAPrivKey) (\<lambda>frontProxyCert.
     attempt (newAdminKeyAndCert C caCert caPrivKey
                (emptyCertConfig\<lparr>cc_CommonName := ''apiserver-kubelet-client'', cc_Organization := [orgSystemMasters]\<rparr>)) (\<lambda>(kubeletClientKey, kubeletClientCert).
     attempt (NewPrivateKey C) (\<lambda>saPrivKey.
     attempt (pure (EncodePublicKeyPEM C (key_Public saPrivKey))) (\<lambda>saPubKey.
     attempt (newAdminKeyAndCert C caCert caPrivKey
                (emptyCertConfig\<lparr>cc_CommonName := ''admin'', cc_Organization := [orgSystemMasters]\<rparr>)) (\<lambda>(adminKey, adminCert).
     pure (Inr
       [mkAsset AssetPathCAKey (EncodePrivateKeyPEM C caPrivKey),
        mkAsset AssetPathCACert (EncodeCertificatePEM C caCert),
        mkAsset AssetPathAPIServerKey (EncodePrivateKeyPEM C apiKey),
        mkAsset AssetPathAPIServerCert (EncodeCertificatePEM C apiCert),
        mkAsset AssetPathServiceAccountPrivKey (EncodePrivateKeyPEM C saPrivKey),
        mkAsset AssetPathAggregatorCA (EncodeCertificatePEM C aggregatorCACert),
        mkAsset AssetPathFrontProxyClientCert (EncodeCertificatePEM C frontProxyCert),
        mkAsset AssetPathFrontProxyClientKey (EncodePrivateKeyPEM C frontProxyPrivKey),
        mkAsset AssetPathKubeletClientKey (EncodePrivateKeyPEM C kubeletClientKey),
        mkAsset AssetPathKubeletClientCert (EncodeCertificatePEM C kubeletClientCert),
        mkAsset AssetPathServiceAccountPubKey saPubKey,
        mkAsset AssetPathAdminKey (EncodePrivateKeyPEM C adminKey),
        mkAsset AssetPathAdminCert (EncodeCertificatePEM C adminCert)]))))))))))"

text \<open>Addresses become IP names, other hosts DNS names.\<close>

fun altNamesOf :: "(string \<Rightarrow> ip option) \<Rightarrow> string list \<Rightarrow> AltNames \<Rightarrow> AltNames" where
  "altNamesOf ParseIP [] altNames = altNames"
| "altNamesOf ParseIP (addr # addrs) altNames =
     (case ParseIP addr of
        Some x \<Rightarrow> altNamesOf ParseIP addrs (altNames\<lparr>an_IPs := an_IPs altNames @ [x]\<rparr>)
      | None \<Rightarrow> altNamesOf ParseIP addrs (altNames\<lparr>an_DNSNames := an_DNSNames altNames @ [addr]\<rparr>))"

definition newKeyAndCert ::
  "crypto \<Rightarrow> (string \<Rightarrow> ip option) \<Rightarrow> x509_Certificate \<Rightarrow> rsa_PrivateKey \<Rightarrow> string \<Rightarrow> string list
   \<Rightarrow> (rsa_PrivateKey \<times> x509_Certificate) drawing" where
  "newKeyAndCert C ParseIP caCert caPrivKey commonName addrs =
     attempt (NewPrivateKey C) (\<lambda>key.
       (let altNames = altNamesOf ParseIP addrs emptyAltNames;
            config = emptyCertConfig\<lparr>cc_CommonName := commonName, cc_Organization := [''etcd''], cc_AltNames := altNames\<rparr>
        in attempt (NewSignedCertificate C config key caCert caPrivKey) (\<lambda>cert.
           pure (Inr (key, cert)))))"

definition newEtcdKeyAndCert ::
  "crypto \<Rightarrow> (string \<Rightarrow> ip option) \<Rightarrow> x509_Certificate \<Rightarrow> rsa_PrivateKey \<Rightarrow> string \<Rightarrow> URL list
   \<Rightarrow> (rsa_PrivateKey \<times> x509_Certificate) drawing" where
  "newEtcdKeyAndCert C ParseIP caCert caPrivKey commonName etcdServers =
     newKeyAndCert C ParseIP caCert caPrivKey commonName (map url_Hostname etcdServers)"

text \<open>
  Pointers that may be nil are options. When an etcd CA is given its client certificate and key
  are dereferenced, and a nil one panics.
\<close>

definition nil_dereference :: go_error where
  "nil_dereference = Err ''invalid memory address or nil pointer dereference''"

definition newEtcdTLSAssets ::
  "crypto \<Rightarrow> (string \<Rightarrow> ip option) \<Rightarrow> x509_Certificate option \<Rightarrow> x509_Certificate option \<Rightarrow> rsa_PrivateKey option
   \<Rightarrow> x509_Certificate \<Rightarrow> rsa_PrivateKey \<Rightarrow> URL list \<Rightarrow> Assets drawing" where
  "newEtcdTLSAssets C ParseIP etcdCA etcdCert etcdKey caCert caPrivKey etcdServers =
     (case etcdCA of
        None \<Rightarrow>
          attempt (newEtcdKeyAndCert C ParseIP caCert caPrivKey ''etcd-client'' etcdServers) (\<lambda>(etcdClientKey, etcdClientCert).
          attempt (newEtcdKeyAndCert C ParseIP caCert caPrivKey ''etcd-peer'' etcdServers) (\<lambda>(etcdPeerKey, etcdPeerCert).
          attempt (newEtcdKeyAndCert C ParseIP caCert caPrivKey ''etcd-server'' etcdServers) (\<lambda>(etcdServerKey, etcdServerCert).
          pure (Inr
            [mkAsset AssetPathEtcdPeerCA (EncodeCertificatePEM C caCert),
             mkAsset AssetPathEtcdPeerKey (EncodePrivateKeyPEM C etcdPeerKey),
             mkAsset AssetPathEtcdPeerCert (EncodeCertificatePEM C etcdPeerCert),
             mkAsset AssetPathEtcdServerCA (EncodeCertificatePEM C caCert),
             mkAsset AssetPathEtcdServerKey (EncodePrivateKeyPEM C etcdServerKey),
             mkAsset AssetPathEtcdServerCert (EncodeCertificatePEM C etcdServerCert),
             mkAsset AssetPathEtcdClientCA (EncodeCertificatePEM C caCert),
             mkAsset AssetPathEtcdClientKey (EncodePrivateKeyPEM C etcdClientKey),
             mkAsset AssetPathEtcdClientCert (EncodeCertificatePEM C etcdClientCert)]))))
      | Some etcdCACert \<Rightarrow>
          (case (etcdKey, etcdCert) of
             (Some etcdClientKey, Some etcdClientCert) \<Rightarrow>
               pure (Inr
                 [mkAsset AssetPathEtcdClientCA (EncodeCertificatePEM C etcdCACert),
                  mkAsset AssetPathEtcdClientKey (EncodePrivateKeyPEM C etcdClientKey),
                  mkAsset AssetPathEtcdClientCert (EncodeCertificatePEM C etcdClientCert)])
           | _ \<Rightarrow> pure (Inl nil_dereference)))"

section \<open>Reading assets back\<close>

definition cert_at :: "crypto \<Rightarrow> Assets \<Rightarrow> string \<Rightarrow> go_error + x509_Certificate" where
  "cert_at C as name = (case Assets_Get as name of Inl e \<Rightarrow> Inl e | Inr a \<Rightarrow> ParsePEMEncodedCACert C (a_Data a))"

definition key_at :: "crypto \<Rightarrow> Assets \<Rightarrow> string \<Rightarrow> go_error + rsa_PrivateKey" where
  "key_at C as name = (case Assets_Get as name of Inl e \<Rightarrow> Inl e | Inr a \<Rightarrow> ParsePEMEncodedPrivateKey C (a_Data a))"

lemma mkAsset_sel [simp]: "a_Name (mkAsset n d) = n" "a_Data (mkAsset n d) = d"
  by (simp_all add: mkAsset_def)

lemma at_Nil [simp]: "cert_at C [] p = Inl (Err (''asset '' @ p @ '' does not exist''))" "key_at C [] p = Inl (Err (''asset '' @ p @ '' does not exist''))"
  by (simp_all add: cert_at_def key_at_def Assets_Get_def)

lemma at_Cons [simp]:
  "cert_at C (mkAsset n d # as) p = (if n = p then ParsePEMEncodedCACert C d else cert_at C as p)"
  "key_at C (mkAsset n d # as) p = (if n = p then ParsePEMEncodedPrivateKey C d else key_at C as p)"
  by (simp_all add: cert_at_def key_at_def Assets_Get_def)

lemmas tls_paths = AssetPathCAKey_def AssetPathCACert_def AssetPathAPIServerKey_def AssetPathAPIServerCert_def
  AssetPathServiceAccountPrivKey_def AssetPathAggregatorCA_def AssetPathFrontProxyClientCert_def
  AssetPathFrontProxyClientKey_def AssetPathKubeletClientKey_def AssetPathKubeletClientCert_def
  AssetPathServiceAccountPubKey_def AssetPathAdminKey_def AssetPathAdminCert_def
  AssetPathEtcdPeerCA_def AssetPathEtcdPeerKey_def AssetPathEtcdPeerCert_def
  AssetPathEtcdServerCA_def AssetPathEtcdServerKey_def AssetPathEtcdServerCert_def
  AssetPathEtcdClientCA_def AssetPathEtcdClientKey_def AssetPathEtcdClientCert_def

section \<open>Who is issued what\<close>

lemma newAPIKeyAndCert_result:
  assumes "crypto_ok C" "newAPIKeyAndCert C caCert caKey altNames n = (Inr (key, cert), n')"
  shows "issued_by caCert caKey cert key \<and> readable_cert C cert \<and>
     n_Organization (x_Subject cert) = [''kube-master''] \<and>
     x_DNSNames cert = an_DNSNames altNames @
       [''kubernetes'', ''kubernetes.default'', ''kubernetes.default.svc'', ''kubernetes.default.svc.cluster.local''] \<and>
     x_IPAddresses cert = short_ips (an_IPs altNames) \<and> cr_GenerateKey C RSAKeySize n = Inr key \<and> n < n'"
  using assms NewSignedCertificate_result [OF assms(1)]
  by (fastforce simp: newAPIKeyAndCert_def Let_def drawing_iff NewPrivateKey_def)

lemma newAdminKeyAndCert_result:
  assumes "crypto_ok C" "newAdminKeyAndCert C caCert caKey config n = (Inr (key, cert), n')"
  shows "issued_by caCert caKey cert key \<and> readable_cert C cert \<and>
     n_Organization (x_Subject cert) = cc_Organization config \<and> n_CommonName (x_Subject cert) = cc_CommonName config \<and>
     cr_GenerateKey C RSAKeySize n = Inr key \<and> n < n'"
  using assms NewSignedCertificate_result [OF assms(1)]
  by (fastforce simp: newAdminKeyAndCert_def drawing_iff NewPrivateKey_def)


text \<open>Everything a successful \<open>newTLSAssets\<close> has made, with the draws the keys come from.\<close>

lemma newTLSAssets_parts:
  assumes ok: "crypto_ok C" and run: "newTLSAssets C caCert caKey altNames n = (Inr as, n')"
  obtains apiKey apiCert agKey agCert fpKey fpCert kcKey kcCert saKey saPub adKey adCert n1 n2 n3 n4 n5
  where
    "issued_by caCert caKey apiCert apiKey" "readable_cert C apiCert" "n_Organization (x_Subject apiCert) = [''kube-master'']"
    "x_DNSNames apiCert = an_DNSNames altNames @ [''kubernetes'', ''kubernetes.default'', ''kubernetes.default.svc'', ''kubernetes.default.svc.cluster.local'']"
    "x_IPAddresses apiCert = short_ips (an_IPs altNames)"
    "self_issued agCert agKey" "readable_cert C agCert" "issued_by agCert agKey fpCert fpKey" "readable_cert C fpCert"
    "n_Organization (x_Subject fpCert) = []"
    "issued_by caCert caKey kcCert kcKey" "readable_cert C kcCert" "n_Organization (x_Subject kcCert) = [orgSystemMasters]"
    "issued_by caCert caKey adCert adKey" "readable_cert C adCert" "n_Organization (x_Subject adCert) = [orgSystemMasters]"
    "EncodePublicKeyPEM C (key_Public saKey) = Inr saPub"
    "list_all2 (\<lambda>m k. cr_GenerateKey C RSAKeySize m = Inr k) [n, n1, n2, n3, n4, n5] [apiKey, agKey, fpKey, kcKey, saKey, adKey]"
    "sorted_wrt (<) [n, n1, n2, n3, n4, n5]"
    "as = [mkAsset AssetPathCAKey (EncodePrivateKeyPEM C caKey), mkAsset AssetPathCACert (EncodeCertificatePEM C caCert),
        mkAsset AssetPathAPIServerKey (EncodePrivateKeyPEM C apiKey), mkAsset AssetPathAPIServerCert (EncodeCertificatePEM C apiCert),
        mkAsset AssetPathServiceAccountPrivKey (EncodePrivateKeyPEM C saKey), mkAsset AssetPathAggregatorCA (EncodeCertificatePEM C agCert),
        mkAsset AssetPathFrontProxyClientCert (EncodeCertificatePEM C fpCert), mkAsset AssetPathFrontProxyClientKey (EncodePrivateKeyPEM C fpKey),
        mkAsset AssetPathKubeletClientKey (EncodePrivateKeyPEM C kcKey), mkAsset AssetPathKubeletClientCert (EncodeCertificatePEM C kcCert),
        mkAsset AssetPathServiceAccountPubKey saPub, mkAsset AssetPathAdminKey (EncodePrivateKeyPEM C adKey),
        mkAsset AssetPathAdminCert (EncodeCertificatePEM C adCert)]"
proof -
  from run obtain apiKey apiCert n1 agKey agCert m1 fpKey n2 fpCert n3 kcKey kcCert n4 saKey saPub adKey adCert n5 n6 m2 where
    steps: "newAPIKeyAndCert C caCert caKey altNames n = (Inr (apiKey, apiCert), n1)"
      "NewPrivateKey C n1 = (Inr agKey, m1)"
      "NewSelfSignedCACertificate C (emptyCertConfig\<lparr>cc_CommonName := ''front-proxy''\<rparr>) agKey m1 = (Inr agCert, n2)"
      "NewPrivateKey C n2 = (Inr fpKey, m2)"
      "NewSignedCertificate C (emptyCertConfig\<lparr>cc_CommonName := ''front-proxy-client''\<rparr>) fpKey agCert agKey m2 = (Inr fpCert, n3)"
      "newAdminKeyAndCert C caCert caKey (emptyCertConfig\<lparr>cc_CommonName := ''apiserver-kubelet-client'', cc_Organization := [orgSystemMasters]\<rparr>) n3 = (Inr (kcKey, kcCert), n4)"
      "NewPrivateKey C n4 = (Inr saKey, n5)" "EncodePublicKeyPEM C (key_Public saKey) = Inr saPub"
      "newAdminKeyAndCert C caCert caKey (emptyCertConfig\<lparr>cc_CommonName := ''admin'', cc_Organization := [orgSystemMasters]\<rparr>) n5 = (Inr (adKey, adCert), n6)"
    and as: "as = [mkAsset AssetPathCAKey (EncodePrivateKeyPEM C caKey), mkAsset AssetPathCACert (EncodeCertificatePEM C caCert),
        mkAsset AssetPathAPIServerKey (EncodePrivateKeyPEM C apiKey), mkAsset AssetPathAPIServerCert (EncodeCertificatePEM C apiCert),
        mkAsset AssetPathServiceAccountPrivKey (EncodePrivateKeyPEM C saKey), mkAsset AssetPathAggregatorCA (EncodeCertificatePEM C agCert),
        mkAsset AssetPathFrontProxyClientCert (EncodeCertificatePEM C fpCert), mkAsset AssetPathFrontProxyClientKey (EncodePrivateKeyPEM C fpKey),
        mkAsset AssetPathKubeletClientKey (EncodePrivateKeyPEM C kcKey), mkAsset AssetPathKubeletClientCert (EncodeCertificatePEM C kcCert),
        mkAsset AssetPathServiceAccountPubKey saPub, mkAsset AssetPathAdminKey (EncodePrivateKeyPEM C adKey),
        mkAsset AssetPathAdminCert (EncodeCertificatePEM C adCert)]"
    unfolding newTLSAssets_def by (auto simp: drawing_iff)
  note api = newAPIKeyAndCert_result [OF ok steps(1)]
    and ag = NewSelfSignedCACertificate_result [OF ok steps(3)] and fp = NewSignedCertificate_result [OF ok steps(5)]
    and kc = newAdminKeyAndCert_result [OF ok steps(6)] and ad = newAdminKeyAndCert_result [OF ok steps(9)]
  have keys: "cr_GenerateKey C RSAKeySize n1 = Inr agKey" "m1 = Suc n1" "cr_GenerateKey C RSAKeySize n2 = Inr fpKey" "m2 = Suc n2"
    "cr_GenerateKey C RSAKeySize n4 = Inr saKey" "n5 = Suc n4"
    using steps(2,4,7) by (simp_all add: NewPrivateKey_def drawing_iff)
  show ?thesis
  proof (rule that)
    show "list_all2 (\<lambda>m k. cr_GenerateKey C RSAKeySize m = Inr k) [n, n1, n2, n3, n4, n5] [apiKey, agKey, fpKey, kcKey, saKey, adKey]"
      using api kc ad keys by simp
    show "sorted_wrt (<) [n, n1, n2, n3, n4, n5]" using api ag fp kc keys by simp
    show "EncodePublicKeyPEM C (key_Public saKey) = Inr saPub" by (rule steps(8))
  qed (use api ag fp kc ad as in \<open>simp_all add: emptyCertConfig_def\<close>)
qed


text \<open>With a library that does not fail every step succeeds.\<close>

lemma newAdminKeyAndCert_succeeds [intro]: "crypto_works C \<Longrightarrow> succeeds (newAdminKeyAndCert C ca caKey config)"
  unfolding newAdminKeyAndCert_def by (intro succeeds_rules) auto

lemma newAPIKeyAndCert_succeeds [intro]: "crypto_works C \<Longrightarrow> succeeds (newAPIKeyAndCert C ca caKey altNames)"
  unfolding newAPIKeyAndCert_def Let_def by (intro succeeds_rules) auto

lemma newCACert_succeeds [intro]: "crypto_works C \<Longrightarrow> succeeds (newCACert C)"
  unfolding newCACert_def Let_def by (intro succeeds_rules) auto

lemma newKeyAndCert_succeeds [intro]: "crypto_works C \<Longrightarrow> succeeds (newKeyAndCert C ParseIP ca caKey cn addrs)"
  unfolding newKeyAndCert_def Let_def by (intro succeeds_rules) auto

lemma newTLSAssets_succeeds [intro]:
  assumes "crypto_works C"
  shows "succeeds (newTLSAssets C ca caKey altNames)"
proof -
  have "\<exists>pem. EncodePublicKeyPEM C k = Inr pem" for k
    using assms unfolding crypto_works_def EncodePublicKeyPEM_def by (metis sum.case(2))
  then have "succeeds (pure (EncodePublicKeyPEM C k))" for k by (auto simp: succeeds_def pure_def)
  then show ?thesis using assms unfolding newTLSAssets_def case_prod_beta by (intro succeeds_rules) auto
qed

lemma newEtcdTLSAssets_succeeds [intro]:
  assumes "crypto_works C" "etcdCA \<noteq> None \<Longrightarrow> etcdCert \<noteq> None \<and> etcdKey \<noteq> None"
  shows "succeeds (newEtcdTLSAssets C ParseIP etcdCA etcdCert etcdKey ca caKey servers)"
proof (cases etcdCA)
  case None
  have "succeeds (newEtcdKeyAndCert C ParseIP ca caKey cn servers)" for cn
    unfolding newEtcdKeyAndCert_def by (rule newKeyAndCert_succeeds [OF assms(1)])
  then show ?thesis unfolding None newEtcdTLSAssets_def option.case case_prod_beta by (intro succeeds_rules) auto
next
  case (Some c)
  then show ?thesis using assms(2) by (auto simp: newEtcdTLSAssets_def)
qed


section \<open>Properties\<close>

text \<open>
  C20: The certificates of the rendered assets form the public key infrastructure the cluster
  needs, whatever the random source yields. The CA certificate and key read back unchanged;
  the API server's certificate is issued by that CA for the key stored beside it and carries
  every requested name and address and the four names of the \<open>kubernetes\<close> service; the
  administrator and the API server's kubelet client, and only they, get certificates of that
  CA in \<open>system:masters\<close>; the front proxy's certificate is issued by a CA of its own. No
  issued certificate can issue others.
\<close>

theorem tls_assets_form_pki:
  assumes "crypto_ok C" "readable_cert C caCert" and run: "newTLSAssets C caCert caKey altNames n = (Inr as, n')"
  shows "\<exists>api apiKey agg aggKey front frontKey kubelet kubeletKey admin adminKey.
     cert_at C as AssetPathCACert = Inr caCert \<and> key_at C as AssetPathCAKey = Inr caKey \<and>
     cert_at C as AssetPathAPIServerCert = Inr api \<and> key_at C as AssetPathAPIServerKey = Inr apiKey \<and>
     issued_by caCert caKey api apiKey \<and> orgSystemMasters \<notin> set (n_Organization (x_Subject api)) \<and>
     set (x_DNSNames api) = set (an_DNSNames altNames) \<union>
       {''kubernetes'', ''kubernetes.default'', ''kubernetes.default.svc'', ''kubernetes.default.svc.cluster.local''} \<and>
     set (x_IPAddresses api) = set (short_ips (an_IPs altNames)) \<and>
     cert_at C as AssetPathAggregatorCA = Inr agg \<and> self_issued agg aggKey \<and>
     cert_at C as AssetPathFrontProxyClientCert = Inr front \<and> key_at C as AssetPathFrontProxyClientKey = Inr frontKey \<and>
     issued_by agg aggKey front frontKey \<and> orgSystemMasters \<notin> set (n_Organization (x_Subject front)) \<and>
     cert_at C as AssetPathKubeletClientCert = Inr kubelet \<and> key_at C as AssetPathKubeletClientKey = Inr kubeletKey \<and>
     issued_by caCert caKey kubelet kubeletKey \<and> orgSystemMasters \<in> set (n_Organization (x_Subject kubelet)) \<and>
     cert_at C as AssetPathAdminCert = Inr admin \<and> key_at C as AssetPathAdminKey = Inr adminKey \<and>
     issued_by caCert caKey admin adminKey \<and> orgSystemMasters \<in> set (n_Organization (x_Subject admin))"
proof -
  from newTLSAssets_parts [OF assms(1) run]
  obtain apiKey apiCert agKey agCert fpKey fpCert kcKey kcCert saKey saPub adKey adCert where
    parts: "issued_by caCert caKey apiCert apiKey" "readable_cert C apiCert" "n_Organization (x_Subject apiCert) = [''kube-master'']"
    "x_DNSNames apiCert = an_DNSNames altNames @ [''kubernetes'', ''kubernetes.default'', ''kubernetes.default.svc'', ''kubernetes.default.svc.cluster.local'']"
    "x_IPAddresses apiCert = short_ips (an_IPs altNames)"
    "self_issued agCert agKey" "readable_cert C agCert" "issued_by agCert agKey fpCert fpKey" "readable_cert C fpCert"
    "n_Organization (x_Subject fpCert) = []"
    "issued_by caCert caKey kcCert kcKey" "readable_cert C kcCert" "n_Organization (x_Subject kcCert) = [orgSystemMasters]"
    "issued_by caCert caKey adCert adKey" "readable_cert C adCert" "n_Organization (x_Subject adCert) = [orgSystemMasters]"
    and as: "as = [mkAsset AssetPathCAKey (EncodePrivateKeyPEM C caKey), mkAsset AssetPathCACert (EncodeCertificatePEM C caCert),
        mkAsset AssetPathAPIServerKey (EncodePrivateKeyPEM C apiKey), mkAsset AssetPathAPIServerCert (EncodeCertificatePEM C apiCert),
        mkAsset AssetPathServiceAccountPrivKey (EncodePrivateKeyPEM C saKey), mkAsset AssetPathAggregatorCA (EncodeCertificatePEM C agCert),
        mkAsset AssetPathFrontProxyClientCert (EncodeCertificatePEM C fpCert), mkAsset AssetPathFrontProxyClientKey (EncodePrivateKeyPEM C fpKey),
        mkAsset AssetPathKubeletClientKey (EncodePrivateKeyPEM C kcKey), mkAsset AssetPathKubeletClientCert (EncodeCertificatePEM C kcCert),
        mkAsset AssetPathServiceAccountPubKey saPub, mkAsset AssetPathAdminKey (EncodePrivateKeyPEM C adKey),
        mkAsset AssetPathAdminCert (EncodeCertificatePEM C adCert)]" by metis
  show ?thesis
    by (rule exI [of _ apiCert], rule exI [of _ apiKey], rule exI [of _ agCert], rule exI [of _ agKey], rule exI [of _ fpCert],
        rule exI [of _ fpKey], rule exI [of _ kcCert], rule exI [of _ kcKey], rule exI [of _ adCert], rule exI [of _ adKey])
      (simp add: as parts assms tls_paths orgSystemMasters_def)
qed


lemma newCACert_result:
  assumes "crypto_ok C" "newCACert C n = (Inr (key, cert), n')"
  shows "self_issued cert key \<and> readable_cert C cert \<and> n_CommonName (x_Subject cert) = ''kube-ca'' \<and>
     cr_GenerateKey C RSAKeySize n = Inr key \<and> n < n'"
  using assms NewSelfSignedCACertificate_result [OF assms(1)]
  by (fastforce simp: newCACert_def Let_def drawing_iff NewPrivateKey_def)

lemma symbolic_run:
  obtains ca key n1 as n2 where "newCACert symbolic_crypto 0 = (Inr (key, ca), n1)" "readable_cert symbolic_crypto ca"
    "newTLSAssets symbolic_crypto ca key emptyAltNames n1 = (Inr as, n2)" "key = PrivateKey 0" "0 < n1"
proof -
  obtain key ca n1 where run: "newCACert symbolic_crypto 0 = (Inr (key, ca), n1)"
    using newCACert_succeeds [OF symbolic_crypto_works] unfolding succeeds_def by fast
  moreover obtain as n2 where "newTLSAssets symbolic_crypto ca key emptyAltNames n1 = (Inr as, n2)"
    using newTLSAssets_succeeds [OF symbolic_crypto_works] unfolding succeeds_def by blast
  moreover have "key = PrivateKey 0" using newCACert_result [OF symbolic_crypto_ok run] by (simp add: symbolic_crypto_def)
  ultimately show ?thesis using that newCACert_result [OF symbolic_crypto_ok run] by blast
qed

theorem tls_assets_form_pki_witness:
  "\<exists>ca key n1 as n2 api apiKey. newCACert symbolic_crypto 0 = (Inr (key, ca), n1) \<and>
     newTLSAssets symbolic_crypto ca key emptyAltNames n1 = (Inr as, n2) \<and>
     cert_at symbolic_crypto as AssetPathAPIServerCert = Inr api \<and> issued_by ca key api apiKey \<and> ''kubernetes'' \<in> set (x_DNSNames api)"
proof -
  obtain ca key n1 as n2 where run: "newCACert symbolic_crypto 0 = (Inr (key, ca), n1)" "readable_cert symbolic_crypto ca"
    "newTLSAssets symbolic_crypto ca key emptyAltNames n1 = (Inr as, n2)" by (rule symbolic_run)
  from tls_assets_form_pki [OF symbolic_crypto_ok run(2,3)]
  have "\<exists>api apiKey. cert_at symbolic_crypto as AssetPathAPIServerCert = Inr api \<and> issued_by ca key api apiKey \<and> ''kubernetes'' \<in> set (x_DNSNames api)"
    by auto
  with run show ?thesis by blast
qed

text \<open>Every draw gives a new key.\<close>

definition fresh_keys :: "crypto \<Rightarrow> bool" where
  "fresh_keys C \<longleftrightarrow> (\<forall>m m' k. cr_GenerateKey C RSAKeySize m = Inr k \<and> cr_GenerateKey C RSAKeySize m' = Inr k \<longrightarrow> m = m')"

definition tls_key_paths :: "string list" where
  "tls_key_paths = [AssetPathCAKey, AssetPathAPIServerKey, AssetPathServiceAccountPrivKey, AssetPathFrontProxyClientKey,
     AssetPathKubeletClientKey, AssetPathAdminKey]"

lemma fresh_distinct:
  "fresh_keys C \<Longrightarrow> list_all2 (\<lambda>m k. cr_GenerateKey C RSAKeySize m = Inr k) ms ks \<Longrightarrow> distinct ms \<Longrightarrow> distinct ks"
proof (induction ms arbitrary: ks)
  case (Cons m ms)
  then obtain k ks' where ks: "ks = k # ks'" "cr_GenerateKey C RSAKeySize m = Inr k"
    "list_all2 (\<lambda>m k. cr_GenerateKey C RSAKeySize m = Inr k) ms ks'" by (auto simp: list_all2_Cons1)
  have "k \<notin> set ks'"
  proof
    assume "k \<in> set ks'"
    then obtain i where "i < length ks'" "ks' ! i = k" by (auto simp: in_set_conv_nth)
    with ks have "cr_GenerateKey C RSAKeySize (ms ! i) = Inr k" "ms ! i \<in> set ms" by (auto simp: list_all2_conv_all_nth)
    with ks Cons.prems show False unfolding fresh_keys_def by auto
  qed
  with Cons ks show ?case by auto
qed simp

text \<open>
  The keys on disk are six different ones, and the key of the front proxy's CA is none of
  them: it exists only while the assets are rendered, so nobody can issue further front-proxy
  certificates.
\<close>

lemma front_proxy_ca_key_discarded:
  assumes "crypto_ok C" "fresh_keys C" "readable_cert C caCert"
    and ca: "\<forall>m \<ge> n. cr_GenerateKey C RSAKeySize m \<noteq> Inr caKey" and run: "newTLSAssets C caCert caKey altNames n = (Inr as, n')"
  shows "\<exists>agg aggKey keys. cert_at C as AssetPathAggregatorCA = Inr agg \<and> self_issued agg aggKey \<and>
     map (key_at C as) tls_key_paths = map Inr keys \<and> distinct (aggKey # keys)"
proof -
  from newTLSAssets_parts [OF assms(1) run]
  obtain apiKey apiCert agKey agCert fpKey fpCert kcKey kcCert saKey saPub adKey adCert n1 n2 n3 n4 n5 where
    parts: "self_issued agCert agKey" "readable_cert C agCert"
    and gen: "list_all2 (\<lambda>m k. cr_GenerateKey C RSAKeySize m = Inr k) [n, n1, n2, n3, n4, n5] [apiKey, agKey, fpKey, kcKey, saKey, adKey]"
    and ord: "sorted_wrt (<) [n, n1, n2, n3, n4, n5]"
    and as: "as = [mkAsset AssetPathCAKey (EncodePrivateKeyPEM C caKey), mkAsset AssetPathCACert (EncodeCertificatePEM C caCert),
        mkAsset AssetPathAPIServerKey (EncodePrivateKeyPEM C apiKey), mkAsset AssetPathAPIServerCert (EncodeCertificatePEM C apiCert),
        mkAsset AssetPathServiceAccountPrivKey (EncodePrivateKeyPEM C saKey), mkAsset AssetPathAggregatorCA (EncodeCertificatePEM C agCert),
        mkAsset AssetPathFrontProxyClientCert (EncodeCertificatePEM C fpCert), mkAsset AssetPathFrontProxyClientKey (EncodePrivateKeyPEM C fpKey),
        mkAsset AssetPathKubeletClientKey (EncodePrivateKeyPEM C kcKey), mkAsset AssetPathKubeletClientCert (EncodeCertificatePEM C kcCert),
        mkAsset AssetPathServiceAccountPubKey saPub, mkAsset AssetPathAdminKey (EncodePrivateKeyPEM C adKey),
        mkAsset AssetPathAdminCert (EncodeCertificatePEM C adCert)]" by metis
  have "distinct [apiKey, agKey, fpKey, kcKey, saKey, adKey]"
    using fresh_distinct [OF assms(2) gen] ord strict_sorted_iff by blast
  moreover have "caKey \<notin> {apiKey, agKey, fpKey, kcKey, saKey, adKey}"
    using gen ord ca by (auto simp: less_imp_le)
  ultimately have "distinct [agKey, caKey, apiKey, saKey, fpKey, kcKey, adKey]" by simp metis
  moreover have "map (key_at C as) tls_key_paths = map Inr [caKey, apiKey, saKey, fpKey, kcKey, adKey]"
    by (simp add: tls_key_paths_def as assms(1) tls_paths)
  moreover have "cert_at C as AssetPathAggregatorCA = Inr agCert" by (simp add: as assms(1) parts(2) tls_paths)
  ultimately show ?thesis using parts(1) by blast
qed


lemma front_proxy_ca_key_discarded_witness:
  "\<exists>ca n1 as n2 agg aggKey keys. newTLSAssets symbolic_crypto ca (PrivateKey 0) emptyAltNames n1 = (Inr as, n2) \<and>
     cert_at symbolic_crypto as AssetPathAggregatorCA = Inr agg \<and> self_issued agg aggKey \<and>
     map (key_at symbolic_crypto as) tls_key_paths = map Inr keys \<and> aggKey \<notin> set keys"
proof -
  obtain ca key n1 as n2 where run: "readable_cert symbolic_crypto ca" "newTLSAssets symbolic_crypto ca key emptyAltNames n1 = (Inr as, n2)"
    "key = PrivateKey 0" "0 < n1" by (rule symbolic_run)
  have "fresh_keys symbolic_crypto" by (simp add: fresh_keys_def symbolic_crypto_def)
  moreover have "\<forall>m \<ge> n1. cr_GenerateKey symbolic_crypto RSAKeySize m \<noteq> Inr (PrivateKey 0)"
    using run(4) by (simp add: symbolic_crypto_def)
  ultimately show ?thesis using front_proxy_ca_key_discarded [OF symbolic_crypto_ok _ run(1) _ run(2)] run(2,3) by fastforce
qed

text \<open>The names a list of addresses gives.\<close>

lemma altNamesOf_result:
  "an_IPs (altNamesOf ParseIP addrs an) = an_IPs an @ List.map_filter ParseIP addrs \<and>
   an_DNSNames (altNamesOf ParseIP addrs an) = an_DNSNames an @ filter (\<lambda>a. ParseIP a = None) addrs"
  by (induction addrs arbitrary: an) (auto simp: List.map_filter_simps split: option.splits)

definition names_host :: "(string \<Rightarrow> ip option) \<Rightarrow> x509_Certificate \<Rightarrow> string \<Rightarrow> bool" where
  "names_host ParseIP cert host \<longleftrightarrow>
     (case ParseIP host of Some x \<Rightarrow> (case To4 x of Some y \<Rightarrow> y | None \<Rightarrow> x) \<in> set (x_IPAddresses cert)
      | None \<Rightarrow> host \<in> set (x_DNSNames cert))"

text \<open>A certificate for the names of a list of hosts names every one of them.\<close>

lemma names_hostI:
  assumes "h \<in> set hosts" "x_IPAddresses cert = short_ips (xs @ List.map_filter ParseIP hosts @ ys)"
    and "set (filter (\<lambda>a. ParseIP a = None) hosts) \<subseteq> set (x_DNSNames cert)"
  shows "names_host ParseIP cert h"
proof (cases "ParseIP h")
  case None
  with assms(1,3) show ?thesis by (auto simp: names_host_def)
next
  case (Some x)
  with assms(1) have "x \<in> set (List.map_filter ParseIP hosts)" by (force simp: map_filter_def)
  then have "(case To4 x of Some y \<Rightarrow> y | None \<Rightarrow> x) \<in> set (x_IPAddresses cert)" unfolding assms(2) short_ips_def by simp
  with Some show ?thesis by (simp add: names_host_def)
qed

lemma newEtcdKeyAndCert_result:
  assumes "crypto_ok C" "newEtcdKeyAndCert C ParseIP caCert caKey cn servers n = (Inr (key, cert), n')"
  shows "issued_by caCert caKey cert key \<and> readable_cert C cert \<and> list_all (\<lambda>u. names_host ParseIP cert (url_Hostname u)) servers"
proof -
  obtain n1 where "NewSignedCertificate C (emptyCertConfig\<lparr>cc_CommonName := cn, cc_Organization := [''etcd''],
      cc_AltNames := altNamesOf ParseIP (map url_Hostname servers) emptyAltNames\<rparr>) key caCert caKey n1 = (Inr cert, n')"
    using assms(2) by (auto simp: newEtcdKeyAndCert_def newKeyAndCert_def Let_def drawing_iff)
  from NewSignedCertificate_result [OF assms(1) this]
  have cert: "issued_by caCert caKey cert key" "readable_cert C cert"
    "x_DNSNames cert = filter (\<lambda>a. ParseIP a = None) (map url_Hostname servers)"
    "x_IPAddresses cert = short_ips (List.map_filter ParseIP (map url_Hostname servers))"
    by (simp_all add: altNamesOf_result emptyAltNames_def)
  have "names_host ParseIP cert (url_Hostname u)" if "u \<in> set servers" for u
    using that by (intro names_hostI [where hosts = "map url_Hostname servers" and xs = "[]" and ys = "[]"]) (simp_all add: cert)
  with cert show ?thesis by (simp add: list_all_iff)
qed

text \<open>
  C36: Without an etcd CA of its own, etcd's server, peer and client certificates are issued by
  the cluster's CA for the keys stored beside them, the CA files hold that CA, and each
  certificate names every etcd server the cluster is configured with, by address or by name.
\<close>

theorem etcd_certificates_name_servers:
  assumes ok: "crypto_ok C" and "readable_cert C caCert" and run: "newEtcdTLSAssets C ParseIP None etcdCert etcdKey caCert caKey servers n = (Inr as, n')"
  shows "(certPath, keyPath, caPath) \<in> {(AssetPathEtcdPeerCert, AssetPathEtcdPeerKey, AssetPathEtcdPeerCA),
       (AssetPathEtcdServerCert, AssetPathEtcdServerKey, AssetPathEtcdServerCA), (AssetPathEtcdClientCert, AssetPathEtcdClientKey, AssetPathEtcdClientCA)} \<Longrightarrow>
     \<exists>cert key. cert_at C as certPath = Inr cert \<and> key_at C as keyPath = Inr key \<and> cert_at C as caPath = Inr caCert \<and>
       issued_by caCert caKey cert key \<and> list_all (\<lambda>u. names_host ParseIP cert (url_Hostname u)) servers"
proof -
  assume which: "(certPath, keyPath, caPath) \<in> {(AssetPathEtcdPeerCert, AssetPathEtcdPeerKey, AssetPathEtcdPeerCA),
       (AssetPathEtcdServerCert, AssetPathEtcdServerKey, AssetPathEtcdServerCA), (AssetPathEtcdClientCert, AssetPathEtcdClientKey, AssetPathEtcdClientCA)}"
  from run obtain ck cc n1 pk pc n2 sk sc n3 where
    steps: "newEtcdKeyAndCert C ParseIP caCert caKey ''etcd-client'' servers n = (Inr (ck, cc), n1)"
      "newEtcdKeyAndCert C ParseIP caCert caKey ''etcd-peer'' servers n1 = (Inr (pk, pc), n2)"
      "newEtcdKeyAndCert C ParseIP caCert caKey ''etcd-server'' servers n2 = (Inr (sk, sc), n3)"
    and as: "as = [mkAsset AssetPathEtcdPeerCA (EncodeCertificatePEM C caCert), mkAsset AssetPathEtcdPeerKey (EncodePrivateKeyPEM C pk),
             mkAsset AssetPathEtcdPeerCert (EncodeCertificatePEM C pc), mkAsset AssetPathEtcdServerCA (EncodeCertificatePEM C caCert),
             mkAsset AssetPathEtcdServerKey (EncodePrivateKeyPEM C sk), mkAsset AssetPathEtcdServerCert (EncodeCertificatePEM C sc),
             mkAsset AssetPathEtcdClientCA (EncodeCertificatePEM C caCert), mkAsset AssetPathEtcdClientKey (EncodePrivateKeyPEM C ck),
             mkAsset AssetPathEtcdClientCert (EncodeCertificatePEM C cc)]"
    unfolding newEtcdTLSAssets_def by (auto simp: drawing_iff)
  note certs = steps [THEN newEtcdKeyAndCert_result [OF ok]]
  show ?thesis using which certs assms(1,2) by (elim insertE) (auto simp: as tls_paths)
qed


theorem etcd_certificates_name_servers_witness:
  "\<exists>ca key as n n' cert. newEtcdTLSAssets symbolic_crypto (\<lambda>_. None) None None None ca key
       [\<lparr>u_Scheme = ''https'', u_Host = ''etcd-0:2379'', u_Path = '''', u_String = ''https://etcd-0:2379''\<rparr>] n = (Inr as, n') \<and>
     cert_at symbolic_crypto as AssetPathEtcdServerCert = Inr cert \<and> ''etcd-0'' \<in> set (x_DNSNames cert)"
proof -
  let ?u = "\<lparr>u_Scheme = ''https'', u_Host = ''etcd-0:2379'', u_Path = '''', u_String = ''https://etcd-0:2379''\<rparr>"
  obtain ca key n1 where ca: "newCACert symbolic_crypto 0 = (Inr (key, ca), n1)" "readable_cert symbolic_crypto ca" by (rule symbolic_run)
  have "succeeds (newEtcdTLSAssets symbolic_crypto (\<lambda>_. None) None None None ca key [?u])"
    by (rule newEtcdTLSAssets_succeeds [OF symbolic_crypto_works]) simp
  then obtain as n' where run: "newEtcdTLSAssets symbolic_crypto (\<lambda>_. None) None None None ca key [?u] n1 = (Inr as, n')"
    unfolding succeeds_def by blast
  from etcd_certificates_name_servers [OF symbolic_crypto_ok ca(2) run, of AssetPathEtcdServerCert AssetPathEtcdServerKey AssetPathEtcdServerCA]
  obtain cert where cert: "cert_at symbolic_crypto as AssetPathEtcdServerCert = Inr cert" "names_host (\<lambda>_. None) cert (url_Hostname ?u)" by auto
  have "url_Hostname ?u = ''etcd-0''" by code_simp
  with run cert show ?thesis unfolding names_host_def option.case by metis
qed

end
