(* ===== verification/GoTemplate.thy ===== *)
theory GoTemplate
  imports Prelude
begin

text \<open>
  The part of Go's \<open>text/template\<close> that the asset templates use: text, actions
  \<open>{{ ... }}\<close> with fields and niladic methods of the data, variables, string and number
  constants, the functions \<open>or\<close> and \<open>index\<close>, parentheses, \<open>if\<close>, \<open>range $i, $e := ...\<close>,
  \<open>end\<close>, and the left trim marker \<open>{{-\<close>. Lexing, parsing and execution are separate
  functions, as in the package. A static check of a parsed template against the shape of the
  data is proved sound: a template that passes it parses and executes without an error on
  every value of that shape.
\<close>

section \<open>Values\<close>

text \<open>
  A Go value as the template engine sees it by reflection. A struct lists its fields and
  niladic methods (a method may fail) and has the text of its \<open>String\<close> method if it has
  one. \<open>GNil\<close> is a nil pointer to a type with a \<open>String\<close> method; \<open>fmt\<close> prints it \<open><nil>\<close>.
\<close>

datatype gval =
    GString string
  | GBool bool
  | GInt nat
  | GNil
  | GSlice "gval list"
  | GStruct "string option" "(string \<times> (go_error + gval)) list"

fun digits :: "nat \<Rightarrow> string" where
  "digits n = (if n < 10 then [char_of (48 + n)] else digits (n div 10) @ [char_of (48 + n mod 10)])"

declare digits.simps [simp del]

fun print_value :: "gval \<Rightarrow> go_error + string" where
  "print_value (GString s) = Inr s"
| "print_value (GBool b) = Inr (if b then ''true'' else ''false'')"
| "print_value (GInt n) = Inr (digits n)"
| "print_value GNil = Inr ''<nil>''"
| "print_value (GStruct (Some s) _) = Inr s"
| "print_value _ = Inl (Err ''printing of composite values is not used'')"

text \<open>\<open>template.IsTrue\<close>.\<close>

fun truth :: "gval \<Rightarrow> bool" where
  "truth (GString s) = (s \<noteq> '''')"
| "truth (GBool b) = b"
| "truth (GInt n) = (n \<noteq> 0)"
| "truth GNil = False"
| "truth (GSlice vs) = (vs \<noteq> [])"
| "truth (GStruct _ _) = True"

section \<open>Syntax\<close>

datatype expr =
    EField "string list"
  | EVar string
  | EStr string
  | ENum nat
  | EChain expr "string list"
  | EOr expr expr
  | EIndex expr expr

datatype node =
    NText string
  | NAction expr
  | NIf expr "node list"
  | NRange string string expr "node list"

section \<open>Execution\<close>

fun eval_fields :: "gval \<Rightarrow> string list \<Rightarrow> go_error + gval" where
  "eval_fields v [] = Inr v"
| "eval_fields (GStruct s fs) (f # names) =
     (case map_of fs f of
        Some (Inr w) \<Rightarrow> eval_fields w names
      | Some (Inl e) \<Rightarrow> Inl (Errorf (''error calling '' @ f) e)
      | None \<Rightarrow> Inl (Err (''cannot evaluate field '' @ f)))"
| "eval_fields GNil (f # names) = Inl (Err (''nil pointer evaluating '' @ f))"
| "eval_fields _ (f # names) = Inl (Err (''cannot evaluate field '' @ f))"

fun eval :: "gval \<Rightarrow> (string \<times> gval) list \<Rightarrow> expr \<Rightarrow> go_error + gval" where
  "eval dot vars (EField names) = eval_fields dot names"
| "eval dot vars (EVar x) =
     (case map_of vars x of Some v \<Rightarrow> Inr v | None \<Rightarrow> Inl (Err (''undefined variable '' @ x)))"
| "eval dot vars (EStr s) = Inr (GString s)"
| "eval dot vars (ENum n) = Inr (GInt n)"
| "eval dot vars (EChain e names) =
     (case eval dot vars e of Inl err \<Rightarrow> Inl err | Inr v \<Rightarrow> eval_fields v names)"
| "eval dot vars (EOr a b) =
     (case eval dot vars a of
        Inl err \<Rightarrow> Inl err
      | Inr v \<Rightarrow> (case eval dot vars b of Inl err \<Rightarrow> Inl err | Inr w \<Rightarrow> Inr (if truth v then v else w)))"
| "eval dot vars (EIndex a b) =
     (case eval dot vars a of
        Inl err \<Rightarrow> Inl err
      | Inr v \<Rightarrow>
          (case eval dot vars b of
             Inl err \<Rightarrow> Inl err
           | Inr w \<Rightarrow>
               (case (v, w) of
                  (GSlice vs, GInt i) \<Rightarrow> (if i < length vs then Inr (vs ! i) else Inl (Err ''index out of range''))
                | _ \<Rightarrow> Inl (Err ''cannot index item''))))"

text \<open>Outputs are concatenated up to the first error.\<close>

fun concat_results :: "(go_error + string) list \<Rightarrow> go_error + string" where
  "concat_results [] = Inr []"
| "concat_results (Inl e # rs) = Inl e"
| "concat_results (Inr s # rs) = (case concat_results rs of Inl e \<Rightarrow> Inl e | Inr t \<Rightarrow> Inr (s @ t))"

fun exec_node :: "gval \<Rightarrow> (string \<times> gval) list \<Rightarrow> node \<Rightarrow> go_error + string"
  and exec_nodes :: "gval \<Rightarrow> (string \<times> gval) list \<Rightarrow> node list \<Rightarrow> go_error + string" where
  "exec_node dot vars (NText t) = Inr t"
| "exec_node dot vars (NAction e) =
     (case eval dot vars e of Inl err \<Rightarrow> Inl err | Inr v \<Rightarrow> print_value v)"
| "exec_node dot vars (NIf e body) =
     (case eval dot vars e of
        Inl err \<Rightarrow> Inl err
      | Inr v \<Rightarrow> (if truth v then exec_nodes dot vars body else Inr []))"
| "exec_node dot vars (NRange i x e body) =
     (case eval dot vars e of
        Inr (GSlice vs) \<Rightarrow>
          concat_results (map (\<lambda>(k, v). exec_nodes v ((i, GInt k) # (x, v) # vars) body) (enumerate 0 vs))
      | Inr _ \<Rightarrow> Inl (Err ''range cannot iterate over value'')
      | Inl err \<Rightarrow> Inl err)"
| "exec_nodes dot vars [] = Inr []"
| "exec_nodes dot vars (n # ns) =
     (case exec_node dot vars n of
        Inl err \<Rightarrow> Inl err
      | Inr s \<Rightarrow> (case exec_nodes dot vars ns of Inl err \<Rightarrow> Inl err | Inr t \<Rightarrow> Inr (s @ t)))"


section \<open>Lexing\<close>

definition is_space :: "char \<Rightarrow> bool" where
  "is_space c \<longleftrightarrow> c = CHR '' '' \<or> c = CHR 0x09 \<or> c = CHR 0x0D \<or> c = CHR 0x0A"

definition trimRightSpace :: "string \<Rightarrow> string" where
  "trimRightSpace s = rev (dropWhile is_space (rev s))"

text \<open>The text before the next \<open>}}\<close> and the text after it.\<close>

fun findClose :: "string \<Rightarrow> (string \<times> string) option" where
  "findClose (a # b # s) =
     (if a = CHR ''}'' \<and> b = CHR ''}'' then Some ([], s)
      else (case findClose (b # s) of Some (x, rest) \<Rightarrow> Some (a # x, rest) | None \<Rightarrow> None))"
| "findClose _ = None"

lemma findClose_shorter: "findClose s = Some (a, rest) \<Longrightarrow> length rest < length s"
  by (induction s arbitrary: a rest rule: findClose.induct) (fastforce split: if_splits option.splits)+

datatype item = IText string | IAct string

text \<open>
  The items of a template and the text after the last action. Text is collected in \<open>acc\<close>; an
  action that starts with the trim marker cuts white space off it.
\<close>

function lex_items :: "string \<Rightarrow> string \<Rightarrow> (item list \<times> string) option" where
  "lex_items acc [] = Some ([], acc)"
| "lex_items acc (c # s) =
     (if c = CHR ''{'' \<and> hasPrefix s ''{'' then
        (case findClose (tl s) of
           None \<Rightarrow> None
         | Some (act, rest) \<Rightarrow>
             (case lex_items [] rest of
                None \<Rightarrow> None
              | Some (its, t) \<Rightarrow>
                  (if hasPrefix act ''- '' then Some (IText (trimRightSpace acc) # IAct (drop 2 act) # its, t)
                   else Some (IText acc # IAct act # its, t))))
      else lex_items (acc @ [c]) s)"
  by pat_completeness auto
termination
proof (relation "measure (\<lambda>(acc, s). length s)")
  fix c s a act rest assume "findClose (tl s) = Some a" "(act, rest) = a"
  then have "length rest < length (tl s)" using findClose_shorter by blast
  then show "(([], rest), acc, c # s) \<in> measure (\<lambda>(acc, s). length s)" for acc by simp
qed auto

declare lex_items.simps [simp del]

datatype tok =
    TField "string list"
  | TVar string
  | TIdent string
  | TStr string
  | TNum nat
  | TLParen
  | TRParen "string list"
  | TComma
  | TDeclare

definition is_digit :: "char \<Rightarrow> bool" where
  "is_digit c \<longleftrightarrow> CHR ''0'' \<le> c \<and> c \<le> CHR ''9''"

definition is_alpha :: "char \<Rightarrow> bool" where
  "is_alpha c \<longleftrightarrow> (CHR ''a'' \<le> c \<and> c \<le> CHR ''z'') \<or> (CHR ''A'' \<le> c \<and> c \<le> CHR ''Z'') \<or> c = CHR ''_''"

definition is_alnum :: "char \<Rightarrow> bool" where
  "is_alnum c \<longleftrightarrow> is_alpha c \<or> is_digit c"

definition number_of :: "string \<Rightarrow> nat" where
  "number_of s = foldl (\<lambda>n c. 10 * n + (of_char c - 48)) 0 s"

text \<open>A run of field selectors, \<open>.A.B\<close>.\<close>

function takeFields :: "string \<Rightarrow> string list \<times> string" where
  "takeFields s =
     (case s of
        [] \<Rightarrow> ([], [])
      | c # r \<Rightarrow>
          (if c = CHR ''.'' \<and> takeWhile is_alnum r \<noteq> [] then
             (case takeFields (dropWhile is_alnum r) of (fs, rest) \<Rightarrow> (takeWhile is_alnum r # fs, rest))
           else ([], s)))"
  by pat_completeness auto
termination by (relation "measure length") (auto simp: le_imp_less_Suc length_dropWhile_le)

declare takeFields.simps [simp del]

lemma takeFields_shorter: "length (snd (takeFields s)) \<le> length s"
proof (induction s rule: takeFields.induct)
  case (1 s)
  show ?case
  proof (cases s)
    case (Cons c r)
    have "length (dropWhile is_alnum r) \<le> length r" by (rule length_dropWhile_le)
    then show ?thesis using 1 [OF Cons] by (subst takeFields.simps) (auto simp: Cons split: prod.splits)
  qed (simp add: takeFields.simps)
qed

lemma takeFields_dot: "takeFields (CHR ''.'' # s) = (fs, rest) \<Longrightarrow> fs \<noteq> [] \<Longrightarrow> length rest \<le> length s"
proof -
  assume r: "takeFields (CHR ''.'' # s) = (fs, rest)" "fs \<noteq> []"
  have "length rest \<le> length (dropWhile is_alnum s)"
    using r takeFields_shorter [of "dropWhile is_alnum s"]
    by (subst (asm) takeFields.simps) (auto split: if_splits prod.splits)
  also have "\<dots> \<le> length s" by (rule length_dropWhile_le)
  finally show ?thesis .
qed

function tokenize :: "string \<Rightarrow> tok list option" where
  "tokenize [] = Some []"
| "tokenize (c # s) =
     (if is_space c then tokenize s
      else if c = CHR ''.'' then
        (case takeFields (c # s) of (fs, rest) \<Rightarrow>
           (if fs = [] then None else map_option (Cons (TField fs)) (tokenize rest)))
      else if c = CHR ''$'' then map_option (Cons (TVar (takeWhile is_alnum s))) (tokenize (dropWhile is_alnum s))
      else if c = CHR ''('' then map_option (Cons TLParen) (tokenize s)
      else if c = CHR '')'' then
        (case takeFields s of (fs, rest) \<Rightarrow> map_option (Cons (TRParen fs)) (tokenize rest))
      else if c = CHR '','' then map_option (Cons TComma) (tokenize s)
      else if c = CHR '':'' then
        (if hasPrefix s ''='' then map_option (Cons TDeclare) (tokenize (tl s)) else None)
      else if c = CHR 0x22 then
        (case dropWhile (\<lambda>d. d \<noteq> CHR 0x22) s of
           [] \<Rightarrow> None
         | _ # rest \<Rightarrow> map_option (Cons (TStr (takeWhile (\<lambda>d. d \<noteq> CHR 0x22) s))) (tokenize rest))
      else if is_digit c then
        map_option (Cons (TNum (number_of (c # takeWhile is_digit s)))) (tokenize (dropWhile is_digit s))
      else if is_alpha c then
        map_option (Cons (TIdent (c # takeWhile is_alnum s))) (tokenize (dropWhile is_alnum s))
      else None)"
  by pat_completeness auto
termination
proof (relation "measure length", simp_all add: le_imp_less_Suc length_dropWhile_le)
  fix s fs rest assume "(fs, rest) = takeFields (CHR ''.'' # s)" "fs \<noteq> []"
  then show "length rest < Suc (length s)" using takeFields_dot [of s fs rest] by simp
next
  fix s fs rest assume "(fs, rest) = takeFields s"
  then show "length rest < Suc (length s)" using takeFields_shorter [of s] by (simp add: eq_commute [of "(fs, rest)"])
next
  fix s y and rest :: string assume "dropWhile (\<lambda>d. d \<noteq> CHR 0x22) s = y # rest"
  then have "Suc (length rest) = length (dropWhile (\<lambda>d. d \<noteq> CHR 0x22) s)" by simp
  also have "\<dots> \<le> length s" by (rule length_dropWhile_le)
  finally show "length rest < Suc (length s)" by simp
qed

declare tokenize.simps [simp del]


section \<open>Parsing\<close>

datatype operand = OExpr expr | OFun string

fun finish :: "operand list \<Rightarrow> expr option" where
  "finish [OExpr e] = Some e"
| "finish [OFun f, OExpr a, OExpr b] =
     (if f = ''or'' then Some (EOr a b) else if f = ''index'' then Some (EIndex a b) else None)"
| "finish _ = None"

definition chain :: "expr \<Rightarrow> string list \<Rightarrow> expr" where
  "chain e fs = (if fs = [] then e else EChain e fs)"

text \<open>Operands are collected; a parenthesis starts a new command on a stack.\<close>

fun parse_expr :: "operand list \<Rightarrow> operand list list \<Rightarrow> tok list \<Rightarrow> expr option" where
  "parse_expr cur [] [] = finish cur"
| "parse_expr cur (_ # _) [] = None"
| "parse_expr cur st (TLParen # ts) = parse_expr [] (cur # st) ts"
| "parse_expr cur st (TRParen fs # ts) =
     (case st of
        [] \<Rightarrow> None
      | outer # st' \<Rightarrow>
          (case finish cur of None \<Rightarrow> None | Some e \<Rightarrow> parse_expr (outer @ [OExpr (chain e fs)]) st' ts))"
| "parse_expr cur st (TField fs # ts) = parse_expr (cur @ [OExpr (EField fs)]) st ts"
| "parse_expr cur st (TVar x # ts) = parse_expr (cur @ [OExpr (EVar x)]) st ts"
| "parse_expr cur st (TStr s # ts) = parse_expr (cur @ [OExpr (EStr s)]) st ts"
| "parse_expr cur st (TNum n # ts) = parse_expr (cur @ [OExpr (ENum n)]) st ts"
| "parse_expr cur st (TIdent f # ts) = parse_expr (cur @ [OFun f]) st ts"
| "parse_expr cur st (TComma # ts) = None"
| "parse_expr cur st (TDeclare # ts) = None"

datatype action = AEnd | AIf expr | ARange string string expr | APrint expr

definition parse_action :: "tok list \<Rightarrow> action option" where
  "parse_action ts =
     (case ts of
        TIdent f # rest \<Rightarrow>
          (if f = ''end'' then (if rest = [] then Some AEnd else None)
           else if f = ''if'' then map_option AIf (parse_expr [] [] rest)
           else if f = ''range'' then
             (case rest of
                TVar i # TComma # TVar x # TDeclare # ts' \<Rightarrow> map_option (ARange i x) (parse_expr [] [] ts')
              | _ \<Rightarrow> None)
           else map_option APrint (parse_expr [] [] ts))
      | _ \<Rightarrow> map_option APrint (parse_expr [] [] ts))"

definition action_of :: "string \<Rightarrow> action option" where
  "action_of a = Option.bind (tokenize a) parse_action"

datatype frame = FIf expr | FRange string string expr

fun close :: "frame \<Rightarrow> node list \<Rightarrow> node" where
  "close (FIf e) body = NIf e body"
| "close (FRange i x e) body = NRange i x e body"

text \<open>The tree: \<open>cur\<close> is the open node list, \<open>st\<close> the enclosing ones with what opened the next.\<close>

fun build :: "item list \<Rightarrow> node list \<Rightarrow> (frame \<times> node list) list \<Rightarrow> node list option" where
  "build [] cur [] = Some cur"
| "build [] cur (_ # _) = None"
| "build (IText t # its) cur st = build its (if t = [] then cur else cur @ [NText t]) st"
| "build (IAct a # its) cur st =
     (case action_of a of
        None \<Rightarrow> None
      | Some AEnd \<Rightarrow> (case st of [] \<Rightarrow> None | (f, outer) # st' \<Rightarrow> build its (outer @ [close f cur]) st')
      | Some (AIf e) \<Rightarrow> build its [] ((FIf e, cur) # st)
      | Some (ARange i x e) \<Rightarrow> build its [] ((FRange i x e, cur) # st)
      | Some (APrint e) \<Rightarrow> build its (cur @ [NAction e]) st)"

definition template_Parse :: "string \<Rightarrow> go_error + node list" where
  "template_Parse text =
     (case lex_items [] text of
        None \<Rightarrow> Inl (Err ''unclosed action'')
      | Some (its, t) \<Rightarrow>
          (case build (its @ [IText t]) [] [] of
             None \<Rightarrow> Inl (Err ''unexpected token in template'')
           | Some ns \<Rightarrow> Inr ns))"

definition template_Execute :: "node list \<Rightarrow> gval \<Rightarrow> go_error + string" where
  "template_Execute ns data = exec_nodes data [] ns"

section \<open>Shapes of data\<close>

text \<open>
  What a template may rely on: a value that can be printed, a boolean, a list of at least so
  many values of a shape, or a struct with given fields, perhaps printable itself.
\<close>

datatype shape =
    SPrint
  | SBool
  | SNum
  | SList nat shape
  | SStruct bool "(string \<times> shape) list"

definition printable :: "gval \<Rightarrow> bool" where
  "printable v \<longleftrightarrow> (\<exists>s. print_value v = Inr s)"

fun fits :: "gval \<Rightarrow> shape \<Rightarrow> bool" where
  "fits v SPrint \<longleftrightarrow> printable v"
| "fits v SBool \<longleftrightarrow> (\<exists>b. v = GBool b)"
| "fits v SNum \<longleftrightarrow> (\<exists>n. v = GInt n)"
| "fits v (SList k t) \<longleftrightarrow> (\<exists>vs. v = GSlice vs \<and> k \<le> length vs \<and> (\<forall>w \<in> set vs. fits w t))"
| "fits v (SStruct p fts) \<longleftrightarrow> (\<exists>s fs. v = GStruct s fs \<and> (p \<longrightarrow> s \<noteq> None) \<and>
     (\<forall>ft \<in> set fts. \<exists>w. map_of fs (fst ft) = Some (Inr w) \<and> fits w (snd ft)))"

fun shape_fields :: "shape \<Rightarrow> string list \<Rightarrow> shape option" where
  "shape_fields t [] = Some t"
| "shape_fields (SStruct p fts) (f # names) =
     (case map_of fts f of Some t \<Rightarrow> shape_fields t names | None \<Rightarrow> None)"
| "shape_fields _ (f # names) = None"

fun prints :: "shape \<Rightarrow> bool" where
  "prints SPrint = True"
| "prints SBool = True"
| "prints SNum = True"
| "prints (SList _ _) = False"
| "prints (SStruct p _) = p"

text \<open>The constant index must be below the guaranteed length.\<close>

fun shape_of :: "shape \<Rightarrow> (string \<times> shape) list \<Rightarrow> expr \<Rightarrow> shape option" where
  "shape_of dot vars (EField names) = shape_fields dot names"
| "shape_of dot vars (EVar x) = map_of vars x"
| "shape_of dot vars (EStr s) = Some SPrint"
| "shape_of dot vars (ENum n) = Some SNum"
| "shape_of dot vars (EChain e names) =
     (case shape_of dot vars e of None \<Rightarrow> None | Some t \<Rightarrow> shape_fields t names)"
| "shape_of dot vars (EOr a b) =
     (case (shape_of dot vars a, shape_of dot vars b) of
        (Some t, Some u) \<Rightarrow> (if prints t \<and> prints u then Some SPrint else None)
      | _ \<Rightarrow> None)"
| "shape_of dot vars (EIndex a b) =
     (case (shape_of dot vars a, b) of
        (Some (SList k t), ENum i) \<Rightarrow> (if i < k then Some t else None)
      | _ \<Rightarrow> None)"

fun check_node :: "shape \<Rightarrow> (string \<times> shape) list \<Rightarrow> node \<Rightarrow> bool"
  and check_nodes :: "shape \<Rightarrow> (string \<times> shape) list \<Rightarrow> node list \<Rightarrow> bool" where
  "check_node dot vars (NText t) = True"
| "check_node dot vars (NAction e) = (case shape_of dot vars e of Some t \<Rightarrow> prints t | None \<Rightarrow> False)"
| "check_node dot vars (NIf e body) = (shape_of dot vars e \<noteq> None \<and> check_nodes dot vars body)"
| "check_node dot vars (NRange i x e body) =
     (case shape_of dot vars e of
        Some (SList k t) \<Rightarrow> check_nodes t ((i, SNum) # (x, t) # vars) body
      | _ \<Rightarrow> False)"
| "check_nodes dot vars [] = True"
| "check_nodes dot vars (n # ns) = (check_node dot vars n \<and> check_nodes dot vars ns)"

section \<open>Soundness of the check\<close>

lemma fits_prints: "fits v t \<Longrightarrow> prints t \<Longrightarrow> printable v"
  by (cases t) (auto simp: printable_def)

lemma fits_fields: "fits v t \<Longrightarrow> shape_fields t names = Some u \<Longrightarrow> \<exists>w. eval_fields v names = Inr w \<and> fits w u"
proof (induction t names arbitrary: v rule: shape_fields.induct)
  case (2 p fts f names)
  then obtain t' where t': "map_of fts f = Some t'" "shape_fields t' names = Some u" by (auto split: option.splits)
  obtain s fs where v: "v = GStruct s fs" and all: "\<forall>ft \<in> set fts. \<exists>w. map_of fs (fst ft) = Some (Inr w) \<and> fits w (snd ft)"
    using 2(2) by auto
  from all map_of_SomeD [OF t'(1)] obtain w where "map_of fs f = Some (Inr w)" "fits w t'" by fastforce
  with 2(1) [OF t'(1)] t'(2) show ?case by (simp add: v)
qed auto

definition env_fits :: "(string \<times> gval) list \<Rightarrow> (string \<times> shape) list \<Rightarrow> bool" where
  "env_fits = list_all2 (\<lambda>xv xt. fst xv = fst xt \<and> fits (snd xv) (snd xt))"

lemma env_fits_lookup: "env_fits vars tys \<Longrightarrow> map_of tys x = Some t \<Longrightarrow> \<exists>v. map_of vars x = Some v \<and> fits v t"
  unfolding env_fits_def by (induction rule: list_all2_induct) (auto split: if_splits)

lemma shape_of_sound:
  "fits dot td \<Longrightarrow> env_fits vars tys \<Longrightarrow> shape_of td tys e = Some t \<Longrightarrow> \<exists>v. eval dot vars e = Inr v \<and> fits v t"
proof (induction td tys e arbitrary: t rule: shape_of.induct)
  case (1 td tys names)
  then show ?case using fits_fields by simp
next
  case (2 td tys x)
  then show ?case using env_fits_lookup by fastforce
next
  case (5 td tys e names)
  then obtain u where u: "shape_of td tys e = Some u" "shape_fields u names = Some t" by (auto split: option.splits)
  from 5 u(1) obtain v where "eval dot vars e = Inr v" "fits v u" by blast
  with fits_fields u(2) show ?case by simp
next
  case (6 td tys a b)
  then obtain t1 t2 where ts: "shape_of td tys a = Some t1" "shape_of td tys b = Some t2" "prints t1" "prints t2" "t = SPrint"
    by (auto split: option.splits if_splits)
  from 6 ts obtain v w where "eval dot vars a = Inr v" "fits v t1" "eval dot vars b = Inr w" "fits w t2" by blast
  with ts fits_prints show ?case by auto
next
  case (7 td tys a b)
  then obtain k i where ts: "shape_of td tys a = Some (SList k t)" "b = ENum i" "i < k"
    by (auto split: option.splits shape.splits expr.splits if_splits)
  with 7 obtain vs where "eval dot vars a = Inr (GSlice vs)" "k \<le> length vs" "\<forall>w \<in> set vs. fits w t" by fastforce
  with ts show ?case by auto
qed (auto simp: printable_def)


lemma concat_results_ok: "(\<And>r. r \<in> set rs \<Longrightarrow> \<exists>s. r = Inr s) \<Longrightarrow> \<exists>s. concat_results rs = Inr s"
proof (induction rs)
  case (Cons r rs)
  from Cons.prems obtain s where "r = Inr s" by (meson list.set_intros(1))
  moreover obtain t where "concat_results rs = Inr t" using Cons by auto
  ultimately show ?case by simp
qed simp

lemma check_sound:
  "check_node td tys n \<Longrightarrow> fits dot td \<Longrightarrow> env_fits vars tys \<Longrightarrow> \<exists>s. exec_node dot vars n = Inr s"
  "check_nodes td tys ns \<Longrightarrow> fits dot td \<Longrightarrow> env_fits vars tys \<Longrightarrow> \<exists>s. exec_nodes dot vars ns = Inr s"
proof (induction td tys n and td tys ns arbitrary: dot vars and dot vars rule: check_node_check_nodes.induct)
  case (2 td tys e)
  then obtain t where t: "shape_of td tys e = Some t" "prints t" by (auto split: option.splits)
  with shape_of_sound 2 obtain v where "eval dot vars e = Inr v" "fits v t" by blast
  with fits_prints t(2) show ?case by (auto simp: printable_def)
next
  case (3 td tys e body)
  then obtain t where "shape_of td tys e = Some t" by auto
  with shape_of_sound 3 obtain v where "eval dot vars e = Inr v" by blast
  with 3 show ?case by auto
next
  case (4 td tys i x e body)
  then obtain k t where t: "shape_of td tys e = Some (SList k t)" "check_nodes t ((i, SNum) # (x, t) # tys) body"
    by (auto split: option.splits shape.splits)
  with shape_of_sound 4 obtain vs where vs: "eval dot vars e = Inr (GSlice vs)" "\<forall>w \<in> set vs. fits w t" by fastforce
  have "\<exists>s. exec_nodes v ((i, GInt j) # (x, v) # vars) body = Inr s" if "v \<in> set vs" for j v
    using 4(1) [OF t(1) refl t(2), of v "(i, GInt j) # (x, v) # vars"] vs(2) that 4(4) by (simp add: env_fits_def)
  then have "\<exists>s. concat_results (map (\<lambda>(j, v). exec_nodes v ((i, GInt j) # (x, v) # vars) body) (enumerate 0 vs)) = Inr s"
    by (intro concat_results_ok) (auto simp: in_set_enumerate_eq)
  with vs(1) show ?case by simp
next
  case (6 td tys n ns)
  from 6(1) [of dot vars] 6(2) [of dot vars] 6(3-5) show ?case by fastforce
qed auto

text \<open>A template that can be parsed and executed on all data of a shape.\<close>

definition template_ok :: "shape \<Rightarrow> string \<Rightarrow> bool" where
  "template_ok t text \<longleftrightarrow> (case template_Parse text of Inr ns \<Rightarrow> check_nodes t [] ns | Inl _ \<Rightarrow> False)"

lemma template_ok_executes:
  assumes "template_ok t text" "fits v t"
  shows "\<exists>ns s. template_Parse text = Inr ns \<and> template_Execute ns v = Inr s"
proof -
  obtain ns where "template_Parse text = Inr ns" "check_nodes t [] ns"
    using assms(1) by (auto simp: template_ok_def split: sum.splits)
  with check_sound(2) [OF _ assms(2), of "[]" ns "[]"] show ?thesis by (auto simp: template_Execute_def env_fits_def)
qed


section \<open>Checking line by line\<close>

text \<open>
  Only the actions of a template matter for the check, and an action never spans two lines,
  so the lines can be looked at one by one.
\<close>

definition template_text :: "string list \<Rightarrow> string" where
  "template_text ls = concat (map (\<lambda>l. l @ [CHR 0x0A]) ls)"

fun acts :: "item list \<Rightarrow> item list" where
  "acts [] = []"
| "acts (IText t # its) = acts its"
| "acts (IAct a # its) = IAct a # acts its"

fun strip_node :: "node \<Rightarrow> node list" and strip_nodes :: "node list \<Rightarrow> node list" where
  "strip_node (NText t) = []"
| "strip_node (NAction e) = [NAction e]"
| "strip_node (NIf e body) = [NIf e (strip_nodes body)]"
| "strip_node (NRange i x e body) = [NRange i x e (strip_nodes body)]"
| "strip_nodes [] = []"
| "strip_nodes (n # ns) = strip_node n @ strip_nodes ns"

lemma strip_append [simp]: "strip_nodes (xs @ ys) = strip_nodes xs @ strip_nodes ys"
  by (induction xs) simp_all

lemma acts_append [simp]: "acts (xs @ ys) = acts xs @ acts ys"
  by (induction xs rule: acts.induct) simp_all

lemma check_append: "check_nodes td tys (xs @ ys) \<longleftrightarrow> check_nodes td tys xs \<and> check_nodes td tys ys"
  by (induction xs) simp_all

lemma check_strip:
  "check_nodes td tys (strip_node n) \<longleftrightarrow> check_node td tys n"
  "check_nodes td tys (strip_nodes ns) \<longleftrightarrow> check_nodes td tys ns"
  by (induction td tys n and td tys ns rule: check_node_check_nodes.induct)
    (auto simp: check_append split: option.splits shape.splits)

lemma strip_close [simp]: "strip_node (close f body) = [close f (strip_nodes body)]"
  by (cases f) simp_all

lemma build_strip:
  "map_option strip_nodes (build its cur st) = build (acts its) (strip_nodes cur) (map (\<lambda>(f, ns). (f, strip_nodes ns)) st)"
proof (induction its cur st rule: build.induct)
  case (4 a its cur st)
  show ?case
  proof (cases "action_of a")
    case (Some act)
    with 4 show ?thesis by (cases act) (auto split: list.splits)
  qed simp
qed (simp_all)

text \<open>Lexing goes on at the end of a line where it left off.\<close>

lemma findClose_append: "findClose s = Some (a, rest) \<Longrightarrow> findClose (s @ r) = Some (a, rest @ r)"
  by (induction s arbitrary: a rest rule: findClose.induct) (auto split: if_splits option.splits)

lemma findClose_last: "findClose s = Some (a, rest) \<Longrightarrow> rest \<noteq> [] \<Longrightarrow> last rest = last s"
proof (induction s arbitrary: a rest rule: findClose.induct)
  case (1 x y s)
  then show ?case by (cases s) (auto split: if_splits option.splits)
qed auto

definition opened :: "string \<Rightarrow> string \<Rightarrow> item list" where
  "opened acc act =
     (if hasPrefix act ''- '' then [IText (trimRightSpace acc), IAct (drop 2 act)] else [IText acc, IAct act])"

lemma lex_open:
  "lex_items acc (CHR ''{'' # CHR ''{'' # s) =
     (case findClose s of None \<Rightarrow> None | Some (act, rest) \<Rightarrow>
        map_option (\<lambda>(its, t). (opened acc act @ its, t)) (lex_items [] rest))"
proof -
  have "hasPrefix (CHR ''{'' # s) ''{''" by (simp add: hasPrefix_def)
  then show ?thesis by (subst lex_items.simps(2)) (auto simp: opened_def split: option.splits)
qed

lemma lex_char: "\<not> (c = CHR ''{'' \<and> hasPrefix s ''{'') \<Longrightarrow> lex_items acc (c # s) = lex_items (acc @ [c]) s"
  by (subst lex_items.simps(2)) auto

lemma lex_append:
  "lex_items acc s = Some (its, t) \<Longrightarrow> s \<noteq> [] \<Longrightarrow> last s = CHR 0x0A \<Longrightarrow>
   lex_items acc (s @ r) = map_option (\<lambda>(its', t'). (its @ its', t')) (lex_items t r)"
proof (induction acc s arbitrary: its t rule: lex_items.induct)
  case (2 acc c s)
  show ?case
  proof (cases "c = CHR ''{'' \<and> hasPrefix s ''{''")
    case True
    then obtain s' where s: "s = CHR ''{'' # s'" and c: "c = CHR ''{''" by (cases s) (auto simp: hasPrefix_def)
    with 2(3) obtain act rest its' where f: "findClose s' = Some (act, rest)" and l: "lex_items [] rest = Some (its', t)"
      and its: "its = opened acc act @ its'" by (auto simp: lex_open split: option.splits)
    have rest: "lex_items [] (rest @ r) = map_option (\<lambda>(its'', t'). (its' @ its'', t')) (lex_items t r)"
    proof (cases "rest = []")
      case True
      with l show ?thesis by (cases "lex_items [] r") (auto simp: lex_items.simps(1))
    next
      case False
      have "last rest = last s'" by (rule findClose_last [OF f False])
      also have "\<dots> = CHR 0x0A" using 2(5) s by (cases "s' = []") auto
      finally show ?thesis using 2(1) [OF True, of "(act, rest)" act rest] f l False by (simp add: s)
    qed
    have "lex_items acc ((c # s) @ r) = map_option (\<lambda>(its, t). (opened acc act @ its, t)) (lex_items [] (rest @ r))"
      using findClose_append [OF f] by (simp add: s c lex_open)
    with rest its show ?thesis by (cases "lex_items t r") auto
  next
    case False
    then have l: "lex_items (acc @ [c]) s = Some (its, t)" using 2(3) by (simp add: lex_char)
    show ?thesis
    proof (cases "s = []")
      case True
      with 2(5) l have "c = CHR 0x0A" "its = []" "t = acc @ [c]" by (simp_all add: lex_items.simps(1))
      then show ?thesis using True by (cases "lex_items (acc @ [c]) r") (auto simp: lex_char)
    next
      case s: False
      then have "hasPrefix (s @ r) ''{'' = hasPrefix s ''{''" by (cases s) (auto simp: hasPrefix_def)
      with False have "lex_items acc ((c # s) @ r) = lex_items (acc @ [c]) (s @ r)" by (simp add: lex_char)
      also have "\<dots> = map_option (\<lambda>(its', t'). (its @ its', t')) (lex_items t r)" using 2(2) [OF False l s] 2(5) s by simp
      finally show ?thesis .
    qed
  qed
qed simp

text \<open>The actions on a line; they do not depend on the text before it.\<close>

lemma lex_acc: "lex_items acc s = Some (its, t) \<Longrightarrow> \<exists>its' t'. lex_items acc' s = Some (its', t') \<and> acts its' = acts its"
proof (induction acc s arbitrary: acc' its t rule: lex_items.induct)
  case (2 acc c s)
  show ?case
  proof (cases "c = CHR ''{'' \<and> hasPrefix s ''{''")
    case True
    then obtain s' where s: "s = CHR ''{'' # s'" "c = CHR ''{''" by (cases s) (auto simp: hasPrefix_def)
    with 2(3) show ?thesis by (auto simp: lex_open opened_def split: option.splits)
  next
    case False
    with 2(2) [OF False] 2(3) show ?thesis by (simp add: lex_char)
  qed
qed (simp add: lex_items.simps(1))

definition line_acts :: "string \<Rightarrow> item list option" where
  "line_acts l = map_option (\<lambda>(its, t). acts its) (lex_items [] (l @ [CHR 0x0A]))"

lemma lex_lines:
  "those (map line_acts ls) = Some ass \<Longrightarrow> \<exists>its t. lex_items acc (template_text ls) = Some (its, t) \<and> acts its = concat ass"
proof (induction ls arbitrary: acc ass)
  case Nil
  then show ?case by (simp add: template_text_def lex_items.simps(1))
next
  case (Cons l ls)
  then obtain a as where a: "line_acts l = Some a" "those (map line_acts ls) = Some as" "ass = a # as"
    by (auto split: option.splits)
  then obtain its0 t0 where "lex_items [] (l @ [CHR 0x0A]) = Some (its0, t0)" "acts its0 = a" by (auto simp: line_acts_def)
  from lex_acc [OF this(1), of acc] this(2) obtain its t where l: "lex_items acc (l @ [CHR 0x0A]) = Some (its, t)" "acts its = a" by auto
  from Cons.IH [OF a(2), of t] obtain its' t' where r: "lex_items t (template_text ls) = Some (its', t')" "acts its' = concat as" by blast
  have "lex_items acc (template_text (l # ls)) = Some (its @ its', t')"
    using lex_append [OF l(1), of "template_text ls"] r(1) by (simp add: template_text_def)
  with l(2) r(2) a(3) show ?case by simp
qed

definition lines_ok :: "shape \<Rightarrow> string list \<Rightarrow> bool" where
  "lines_ok t ls =
     (case those (map line_acts ls) of
        None \<Rightarrow> False
      | Some ass \<Rightarrow> (case build (concat ass) [] [] of None \<Rightarrow> False | Some ns \<Rightarrow> check_nodes t [] ns))"

lemma lines_template_ok:
  assumes "lines_ok t ls"
  shows "template_ok t (template_text ls)"
proof -
  obtain ass ns where ass: "those (map line_acts ls) = Some ass" and ns: "build (concat ass) [] [] = Some ns" "check_nodes t [] ns"
    using assms by (auto simp: lines_ok_def split: option.splits)
  obtain its x where l: "lex_items [] (template_text ls) = Some (its, x)" "acts its = concat ass" using lex_lines [OF ass] by blast
  have "map_option strip_nodes (build (its @ [IText x]) [] []) = Some ns"
    using build_strip [of "its @ [IText x]" "[]" "[]"] l(2) ns(1) by simp
  then obtain ns' where "build (its @ [IText x]) [] [] = Some ns'" "ns = strip_nodes ns'" by auto
  with l(1) ns(2) show ?thesis by (simp add: template_ok_def template_Parse_def check_strip(2))
qed

end
