(* ===== verification/RenderConfig.thy ===== *)
theory RenderConfig
  imports TlsAssets AssetTemplates
begin

text \<open>
  The configuration assets are rendered from: \<open>Config\<close> and its methods of
  \<open>cmd/render/plugin/default/asset/asset.go\<close>, the image versions of \<open>images.go\<close>, and the
  values templates see of them. Pointers that may be nil are options; a nil \<open>net.IP\<close> is the
  empty list.
\<close>

section \<open>Data\<close>

record ImageVersions =
  im_Etcd :: string
  im_Flannel :: string
  im_FlannelCNI :: string
  im_Calico :: string
  im_CalicoCNI :: string
  im_CoreDNS :: string
  im_Hyperkube :: string
  im_Kenc :: string
  im_PodCheckpointer :: string

definition DefaultImages :: ImageVersions where
  "DefaultImages = \<lparr>
     im_Etcd = ''quay.io/coreos/etcd:v3.3.12'',
     im_Flannel = ''quay.io/coreos/flannel:v0.11.0-amd64'',
     im_FlannelCNI = ''quay.io/coreos/flannel-cni:v0.3.0'',
     im_Calico = ''quay.io/calico/node:v3.0.3'',
     im_CalicoCNI = ''quay.io/calico/cni:v2.0.0'',
     im_CoreDNS = ''k8s.gcr.io/coredns:1.6.5'',
     im_Hyperkube = ''k8s.gcr.io/hyperkube:v1.16.2'',
     im_Kenc = '''',
     im_PodCheckpointer = ''quay.io/coreos/pod-checkpointer:83e25e5968391b9eb342042c435d1b3eeddb2be1''\<rparr>"

record Config =
  cf_ClusterName :: string
  cf_EtcdCACert :: "x509_Certificate option"
  cf_EtcdClientCert :: "x509_Certificate option"
  cf_EtcdClientKey :: "rsa_PrivateKey option"
  cf_EtcdServers :: "URL list"
  cf_EtcdUseTLS :: bool
  cf_APIServers :: "URL list"
  cf_CACert :: "x509_Certificate option"
  cf_CAPrivKey :: "rsa_PrivateKey option"
  cf_AltNames :: "AltNames option"
  cf_PodCIDRs :: "IPNet list"
  cf_ServiceCIDRs :: "IPNet list"
  cf_APIServiceIPs :: "ip list"
  cf_DNSServiceIPs :: "ip list"
  cf_CloudProvider :: string
  cf_NetworkProvider :: string
  cf_BootstrapSecretsSubdir :: string
  cf_Images :: ImageVersions
  cf_PodCIDR :: "IPNet option"
  cf_ServiceCIDR :: "IPNet option"
  cf_APIServiceIP :: ip
  cf_DNSServiceIP :: ip

section \<open>Methods\<close>

definition IsLoopback :: "ip \<Rightarrow> bool" where
  "IsLoopback x = (case To4 x of Some x4 \<Rightarrow> x4 ! 0 = 127 | None \<Rightarrow> x = replicate 15 0 @ [1])"

definition IsUnspecified :: "ip \<Rightarrow> bool" where
  "IsUnspecified x \<longleftrightarrow> To4 x = Some [0, 0, 0, 0] \<or> x = replicate 16 0"

definition containsNonLocalIPv6 :: "ip list \<Rightarrow> bool" where
  "containsNonLocalIPv6 ips =
     list_ex (\<lambda>x. \<not> (x = [] \<or> IsLoopback x \<or> IsUnspecified x) \<and> To4 x = None \<and> length x = 16) ips"

definition BindAllAddress :: "Config \<Rightarrow> string" where
  "BindAllAddress c = (if containsNonLocalIPv6 (cf_APIServiceIPs c) then ''::'' else ''0.0.0.0'')"

text \<open>
  The single value of \<open>joinStringsFromSliceOrSingle\<close> is an interface. The callers always put a
  typed value into it, so the comparison with nil is false even for a nil pointer, whose
  \<open>String\<close> method then dereferences it.
\<close>

datatype stringer = NilInterface | NetPointer "IPNet option" | NetIP ip

definition stringer_String :: "net_lib \<Rightarrow> stringer \<Rightarrow> go_error + string" where
  "stringer_String nl s =
     (case s of
        NilInterface \<Rightarrow> Inl nil_dereference
      | NetPointer None \<Rightarrow> Inl nil_dereference
      | NetPointer (Some n) \<Rightarrow> Inr (nl_IPNetString nl n)
      | NetIP x \<Rightarrow> Inr (nl_IPString nl x))"

definition stringerSlice :: "('a \<Rightarrow> string) \<Rightarrow> 'a list \<Rightarrow> string list" where
  "stringerSlice String xs = map String xs"

definition joinStringsFromSliceOrSingle :: "net_lib \<Rightarrow> string list \<Rightarrow> stringer \<Rightarrow> go_error + string" where
  "joinStringsFromSliceOrSingle nl inSlice inSingle =
     (if length inSlice > 0 then Inr (joinWith (CHR '','') inSlice)
      else if inSingle = NilInterface then Inr ''''
      else stringer_String nl inSingle)"

definition ServiceCIDRsString :: "net_lib \<Rightarrow> Config \<Rightarrow> go_error + string" where
  "ServiceCIDRsString nl c =
     joinStringsFromSliceOrSingle nl (stringerSlice (nl_IPNetString nl) (cf_ServiceCIDRs c)) (NetPointer (cf_ServiceCIDR c))"

definition PodCIDRsString :: "net_lib \<Rightarrow> Config \<Rightarrow> go_error + string" where
  "PodCIDRsString nl c =
     joinStringsFromSliceOrSingle nl (stringerSlice (nl_IPNetString nl) (cf_PodCIDRs c)) (NetPointer (cf_PodCIDR c))"

definition APIServiceIPsString :: "net_lib \<Rightarrow> Config \<Rightarrow> go_error + string" where
  "APIServiceIPsString nl c =
     joinStringsFromSliceOrSingle nl (stringerSlice (nl_IPString nl) (cf_APIServiceIPs c)) (NetIP (cf_APIServiceIP c))"

definition DNSServiceIPsString :: "net_lib \<Rightarrow> Config \<Rightarrow> go_error + string" where
  "DNSServiceIPsString nl c =
     joinStringsFromSliceOrSingle nl (stringerSlice (nl_IPString nl) (cf_DNSServiceIPs c)) (NetIP (cf_DNSServiceIP c))"

section \<open>What templates see\<close>

definition url_value :: "URL \<Rightarrow> gval" where
  "url_value u = GStruct (Some (u_String u))
     [(''Scheme'', Inr (GString (u_Scheme u))), (''Host'', Inr (GString (u_Host u))), (''Path'', Inr (GString (u_Path u))),
      (''Hostname'', Inr (GString (url_Hostname u))), (''Port'', Inr (GString (url_Port u)))]"

definition images_value :: "ImageVersions \<Rightarrow> gval" where
  "images_value im = GStruct None
     [(''Etcd'', Inr (GString (im_Etcd im))), (''Flannel'', Inr (GString (im_Flannel im))),
      (''FlannelCNI'', Inr (GString (im_FlannelCNI im))), (''Calico'', Inr (GString (im_Calico im))),
      (''CalicoCNI'', Inr (GString (im_CalicoCNI im))), (''CoreDNS'', Inr (GString (im_CoreDNS im))),
      (''Hyperkube'', Inr (GString (im_Hyperkube im))), (''Kenc'', Inr (GString (im_Kenc im))),
      (''PodCheckpointer'', Inr (GString (im_PodCheckpointer im)))]"

definition net_value :: "net_lib \<Rightarrow> IPNet option \<Rightarrow> gval" where
  "net_value nl p = (case p of None \<Rightarrow> GNil | Some n \<Rightarrow> GStruct (Some (nl_IPNetString nl n)) [])"

definition method_value :: "go_error + string \<Rightarrow> go_error + gval" where
  "method_value r = (case r of Inl e \<Rightarrow> Inl e | Inr s \<Rightarrow> Inr (GString s))"

text \<open>The fields and methods of \<open>Config\<close> that can be printed or iterated; certificates and keys are not used in templates.\<close>

definition config_value :: "net_lib \<Rightarrow> Config \<Rightarrow> gval" where
  "config_value nl c = GStruct None
     [(''ClusterName'', Inr (GString (cf_ClusterName c))),
      (''EtcdServers'', Inr (GSlice (map url_value (cf_EtcdServers c)))),
      (''EtcdUseTLS'', Inr (GBool (cf_EtcdUseTLS c))),
      (''APIServers'', Inr (GSlice (map url_value (cf_APIServers c)))),
      (''CloudProvider'', Inr (GString (cf_CloudProvider c))),
      (''NetworkProvider'', Inr (GString (cf_NetworkProvider c))),
      (''BootstrapSecretsSubdir'', Inr (GString (cf_BootstrapSecretsSubdir c))),
      (''Images'', Inr (images_value (cf_Images c))),
      (''PodCIDR'', Inr (net_value nl (cf_PodCIDR c))),
      (''ServiceCIDR'', Inr (net_value nl (cf_ServiceCIDR c))),
      (''BindAllAddress'', Inr (GString (BindAllAddress c))),
      (''ServiceCIDRsString'', method_value (ServiceCIDRsString nl c)),
      (''PodCIDRsString'', method_value (PodCIDRsString nl c)),
      (''APIServiceIPsString'', method_value (APIServiceIPsString nl c)),
      (''DNSServiceIPsString'', method_value (DNSServiceIPsString nl c))]"

definition static_value :: "ImageVersions \<Rightarrow> gval" where
  "static_value images = GStruct None [(''Images'', Inr (images_value images))]"

section \<open>Their shape\<close>

definition images_shape :: shape where
  "images_shape = SStruct False
     [(''Flannel'', SPrint), (''FlannelCNI'', SPrint), (''Calico'', SPrint), (''CalicoCNI'', SPrint),
      (''CoreDNS'', SPrint), (''Hyperkube'', SPrint), (''PodCheckpointer'', SPrint)]"

definition static_shape :: shape where
  "static_shape = SStruct False [(''Images'', images_shape)]"

definition config_shape :: shape where
  "config_shape = SStruct False
     [(''Images'', images_shape), (''EtcdServers'', SList 0 (SStruct True [])), (''EtcdUseTLS'', SBool),
      (''APIServers'', SList 1 (SStruct True [(''Port'', SPrint)])), (''CloudProvider'', SPrint),
      (''BootstrapSecretsSubdir'', SPrint), (''PodCIDR'', SPrint), (''BindAllAddress'', SPrint),
      (''ServiceCIDRsString'', SPrint), (''PodCIDRsString'', SPrint), (''DNSServiceIPsString'', SPrint)]"

lemma images_fit: "fits (images_value im) images_shape"
  by (simp add: images_value_def images_shape_def printable_def)

lemma static_fits: "fits (static_value im) static_shape"
  using images_fit [of im] by (simp add: static_value_def static_shape_def)

text \<open>A configuration templates can be rendered from: an API server, and networks in the lists or in the deprecated fields.\<close>

definition networks_set :: "Config \<Rightarrow> bool" where
  "networks_set c \<longleftrightarrow> (cf_PodCIDRs c \<noteq> [] \<or> cf_PodCIDR c \<noteq> None) \<and> (cf_ServiceCIDRs c \<noteq> [] \<or> cf_ServiceCIDR c \<noteq> None)"

lemma joined_networks: "xs \<noteq> [] \<or> p \<noteq> None \<Longrightarrow>
    \<exists>s. joinStringsFromSliceOrSingle nl (stringerSlice (nl_IPNetString nl) xs) (NetPointer p) = Inr s"
  by (auto simp: joinStringsFromSliceOrSingle_def stringerSlice_def stringer_String_def)

lemma joined_ips: "\<exists>s. joinStringsFromSliceOrSingle nl (stringerSlice (nl_IPString nl) xs) (NetIP x) = Inr s"
  by (auto simp: joinStringsFromSliceOrSingle_def stringer_String_def)

lemma config_fits:
  assumes "cf_APIServers c \<noteq> []" "networks_set c"
  shows "fits (config_value nl c) config_shape"
proof -
  obtain p s d where "PodCIDRsString nl c = Inr p" "ServiceCIDRsString nl c = Inr s" "DNSServiceIPsString nl c = Inr d"
    using assms(2) joined_networks joined_ips unfolding networks_set_def PodCIDRsString_def ServiceCIDRsString_def DNSServiceIPsString_def
    by metis
  moreover have "printable (net_value nl (cf_PodCIDR c))" by (simp add: net_value_def printable_def split: option.splits)
  moreover have "Suc 0 \<le> length (cf_APIServers c)" using assms(1) by (cases "cf_APIServers c") auto
  ultimately show ?thesis using images_fit [of "cf_Images c"]
    by (simp add: config_value_def config_shape_def method_value_def url_value_def) (simp add: printable_def)
qed

end
