(* ===== verification/TemplateChecks.thy ===== *)
theory TemplateChecks
  imports RenderConfig
begin

text \<open>
  Every template of \<open>templates.go\<close> passes the static check against the shape of the data it is
  rendered with: static templates see the image versions only, dynamic ones the configuration,
  kubeconfigs the credentials.
\<close>

definition kubeconfig_shape :: shape where
  "kubeconfig_shape = SStruct False
     [(''Server'', SPrint), (''Cluster'', SPrint), (''CACert'', SPrint), (''AdminCert'', SPrint), (''AdminKey'', SPrint),
      (''BootstrapTokenID'', SPrint), (''BootstrapTokenSecret'', SPrint)]"

lemmas kubeconfig_texts =
  AdminKubeConfigTemplate_def KubeConfigInClusterTemplate_def KubeletKubeConfigTemplate_def
  KubeletBootstrappingToken_def

lemma kubeconfig_templates_ok:
  "template_ok kubeconfig_shape AdminKubeConfigTemplate"
  "template_ok kubeconfig_shape KubeConfigInClusterTemplate"
  "template_ok kubeconfig_shape KubeletKubeConfigTemplate"
  "template_ok kubeconfig_shape KubeletBootstrappingToken"
  unfolding kubeconfig_texts by (rule lines_template_ok, code_simp)+

lemmas static_texts =
  SchedulerTemplate_def SchedulerDisruptionTemplate_def ControllerManagerDisruptionTemplate_def
  CoreDNSClusterRoleBindingTemplate_def CoreDNSClusterRoleTemplate_def CoreDNSDeploymentTemplate_def
  CoreDNSServiceAccountTemplate_def CheckpointerTemplate_def CheckpointerServiceAccount_def
  CheckpointerRole_def CheckpointerRoleBinding_def CheckpointerClusterRole_def
  CheckpointerClusterRoleBinding_def CSRApproverRoleBindingTemplate_def CSRNodeBootstrapTemplate_def
  CSRRenewalRoleBindingTemplate_def KubeSystemSARoleBindingTemplate_def

lemma static_templates_ok:
  "template_ok static_shape SchedulerTemplate" "template_ok static_shape SchedulerDisruptionTemplate"
  "template_ok static_shape ControllerManagerDisruptionTemplate"
  "template_ok static_shape CoreDNSClusterRoleBindingTemplate"
  "template_ok static_shape CoreDNSClusterRoleTemplate" "template_ok static_shape CoreDNSDeploymentTemplate"
  "template_ok static_shape CoreDNSServiceAccountTemplate" "template_ok static_shape CheckpointerTemplate"
  "template_ok static_shape CheckpointerServiceAccount" "template_ok static_shape CheckpointerRole"
  "template_ok static_shape CheckpointerRoleBinding" "template_ok static_shape CheckpointerClusterRole"
  "template_ok static_shape CheckpointerClusterRoleBinding"
  "template_ok static_shape CSRApproverRoleBindingTemplate"
  "template_ok static_shape CSRNodeBootstrapTemplate" "template_ok static_shape CSRRenewalRoleBindingTemplate"
  "template_ok static_shape KubeSystemSARoleBindingTemplate"
  unfolding static_texts by (rule lines_template_ok, code_simp)+

lemmas control_plane_texts =
  ControllerManagerTemplate_def ControllerManagerServiceAccount_def ControllerManagerClusterRoleBinding_def
  APIServerTemplate_def ProxyTemplate_def ProxyServiceAccount_def ProxyClusterRoleBinding_def
  CoreDNSConfigTemplate_def CoreDNSSvcTemplate_def BootstrapAPIServerTemplate_def
  BootstrapControllerManagerTemplate_def BootstrapSchedulerTemplate_def

lemma control_plane_templates_ok:
  "template_ok config_shape ControllerManagerTemplate"
  "template_ok config_shape ControllerManagerServiceAccount"
  "template_ok config_shape ControllerManagerClusterRoleBinding" "template_ok config_shape APIServerTemplate"
  "template_ok config_shape ProxyTemplate" "template_ok config_shape ProxyServiceAccount"
  "template_ok config_shape ProxyClusterRoleBinding" "template_ok config_shape CoreDNSConfigTemplate"
  "template_ok config_shape CoreDNSSvcTemplate" "template_ok config_shape BootstrapAPIServerTemplate"
  "template_ok config_shape BootstrapControllerManagerTemplate"
  "template_ok config_shape BootstrapSchedulerTemplate"
  unfolding control_plane_texts by (rule lines_template_ok, code_simp)+

lemmas network_texts =
  FlannelTemplate_def FlannelCfgTemplate_def FlannelClusterRole_def FlannelClusterRoleBinding_def
  FlannelServiceAccount_def CalicoCfgTemplate_def CalicoRoleTemplate_def CalicoRoleBindingTemplate_def
  CalicoServiceAccountTemplate_def CalicoNodeTemplate_def CalicoBGPConfigurationsCRD_def CalicoBGPPeersCRD_def
  CalicoFelixConfigurationsCRD_def CalicoGlobalNetworkPoliciesCRD_def CalicoGlobalNetworkSetsCRD_def
  CalicoNetworkPoliciesCRD_def CalicoClusterInformationsCRD_def CalicoIPPoolsCRD_def
  CalicoPolicyOnlyTemplate_def

lemma network_templates_ok:
  "template_ok config_shape FlannelTemplate" "template_ok config_shape FlannelCfgTemplate"
  "template_ok config_shape FlannelClusterRole" "template_ok config_shape FlannelClusterRoleBinding"
  "template_ok config_shape FlannelServiceAccount" "template_ok config_shape CalicoCfgTemplate"
  "template_ok config_shape CalicoRoleTemplate" "template_ok config_shape CalicoRoleBindingTemplate"
  "template_ok config_shape CalicoServiceAccountTemplate" "template_ok config_shape CalicoNodeTemplate"
  "template_ok config_shape CalicoBGPConfigurationsCRD" "template_ok config_shape CalicoBGPPeersCRD"
  "template_ok config_shape CalicoFelixConfigurationsCRD"
  "template_ok config_shape CalicoGlobalNetworkPoliciesCRD"
  "template_ok config_shape CalicoGlobalNetworkSetsCRD" "template_ok config_shape CalicoNetworkPoliciesCRD"
  "template_ok config_shape CalicoClusterInformationsCRD" "template_ok config_shape CalicoIPPoolsCRD"
  "template_ok config_shape CalicoPolicyOnlyTemplate"
  unfolding network_texts by (rule lines_template_ok, code_simp)+

end
