(* ===== verification/Base64.thy ===== *)
theory Base64
  imports Prelude
begin

text \<open>
  \<open>base64.StdEncoding\<close> of Go's \<open>encoding/base64\<close>, with which keys and certificates are put into
  secrets and kubeconfigs, and that decoding gives the bytes back.
\<close>

definition b64_alphabet :: string where
  "b64_alphabet = ''ABCDEFGHIJKLMNOPQRSTUVWXYZabcdefghijklmnopqrstuvwxyz0123456789+/''"

definition b64_digit :: "nat \<Rightarrow> char" where
  "b64_digit d = b64_alphabet ! d"

definition b64_value :: "char \<Rightarrow> nat" where
  "b64_value c = length (takeWhile (\<lambda>x. x \<noteq> c) b64_alphabet)"

definition b64_pad :: char where "b64_pad = CHR ''=''"

fun EncodeToString :: "bytes \<Rightarrow> string" where
  "EncodeToString [] = []"
| "EncodeToString [a] =
     (let n = of_char a * 65536 in [b64_digit (n div 262144), b64_digit (n div 4096 mod 64), b64_pad, b64_pad])"
| "EncodeToString [a, b] =
     (let n = of_char a * 65536 + of_char b * 256
      in [b64_digit (n div 262144), b64_digit (n div 4096 mod 64), b64_digit (n div 64 mod 64), b64_pad])"
| "EncodeToString (a # b # c # rest) =
     (let n = of_char a * 65536 + of_char b * 256 + of_char c
      in [b64_digit (n div 262144), b64_digit (n div 4096 mod 64), b64_digit (n div 64 mod 64), b64_digit (n mod 64)]
         @ EncodeToString rest)"

fun DecodeString :: "string \<Rightarrow> bytes option" where
  "DecodeString [] = Some []"
| "DecodeString (w # x # y # z # rest) =
     (if y = b64_pad then
        (if z = b64_pad \<and> rest = [] then Some [char_of ((b64_value w * 262144 + b64_value x * 4096) div 65536)] else None)
      else if z = b64_pad then
        (let n = b64_value w * 262144 + b64_value x * 4096 + b64_value y * 64
         in if rest = [] then Some [char_of (n div 65536), char_of (n div 256 mod 256)] else None)
      else
        (let n = b64_value w * 262144 + b64_value x * 4096 + b64_value y * 64 + b64_value z
         in map_option (\<lambda>bs. char_of (n div 65536) # char_of (n div 256 mod 256) # char_of (n mod 256) # bs) (DecodeString rest)))"
| "DecodeString _ = None"

lemma takeWhile_nth_distinct: "distinct xs \<Longrightarrow> i < length xs \<Longrightarrow> length (takeWhile (\<lambda>x. x \<noteq> xs ! i) xs) = i"
proof (induction xs arbitrary: i)
  case (Cons x xs)
  then show ?case by (cases i) auto
qed simp

lemma alphabet_facts: "length b64_alphabet = 64" "distinct b64_alphabet" "b64_pad \<notin> set b64_alphabet"
  by (simp_all add: b64_alphabet_def b64_pad_def)

lemma b64_value_digit [simp]: "d < 64 \<Longrightarrow> b64_value (b64_digit d) = d"
  unfolding b64_value_def b64_digit_def using takeWhile_nth_distinct [of b64_alphabet d] alphabet_facts by simp

lemma b64_digit_not_pad [simp]: "d < 64 \<Longrightarrow> b64_digit d \<noteq> b64_pad"
  unfolding b64_digit_def using alphabet_facts nth_mem [of d b64_alphabet] by metis

lemma sixes: "(n::nat) div 262144 * 262144 + n div 4096 mod 64 * 4096 + n div 64 mod 64 * 64 + n mod 64 = n"
proof -
  have "n div 4096 = n div 64 div 64" "n div 262144 = n div 64 div 64 div 64" by (simp_all flip: div_mult2_eq)
  moreover have "k div 64 * 64 + k mod 64 = k" for k :: nat by simp
  from this [of n] this [of "n div 64"] this [of "n div 64 div 64"]
  have "n div 64 div 64 div 64 * 262144 + n div 64 div 64 mod 64 * 4096 + n div 64 mod 64 * 64 + n mod 64 = n" by linarith
  ultimately show ?thesis by simp
qed

lemma byte_less: "(of_char c :: nat) < 256"
  by simp

lemma three_bytes:
  fixes a b c :: nat
  assumes "a < 256" "b < 256" "c < 256"
  shows "a * 65536 + b * 256 + c < 16777216" "(a * 65536 + b * 256 + c) div 65536 = a"
    "(a * 65536 + b * 256 + c) div 256 mod 256 = b" "(a * 65536 + b * 256 + c) mod 256 = c"
proof -
  let ?n = "a * 65536 + b * 256 + c"
  show "?n < 16777216" using assms by simp
  have n: "?n = c + 256 * (b + 256 * a)" by simp
  have d: "?n div 256 = b + 256 * a" unfolding n using assms(3) by (subst div_mult_self2) simp_all
  have "?n mod 256 = c" unfolding n using assms(3) by (subst mod_mult_self2) simp
  then show "?n mod 256 = c" .
  show "?n div 256 mod 256 = b" unfolding d using assms(2) by simp
  have "?n div 65536 = ?n div 256 div 256" by (simp flip: div_mult2_eq)
  then show "?n div 65536 = a" using d assms(2) by simp
qed

text \<open>One group of four digits.\<close>

lemma decode_group:
  fixes n :: nat
  assumes "n < 16777216"
  shows "n mod 4096 = 0 \<Longrightarrow> DecodeString [b64_digit (n div 262144), b64_digit (n div 4096 mod 64), b64_pad, b64_pad] = Some [char_of (n div 65536)]"
    "n mod 64 = 0 \<Longrightarrow> DecodeString [b64_digit (n div 262144), b64_digit (n div 4096 mod 64), b64_digit (n div 64 mod 64), b64_pad]
       = Some [char_of (n div 65536), char_of (n div 256 mod 256)]"
    "DecodeString ([b64_digit (n div 262144), b64_digit (n div 4096 mod 64), b64_digit (n div 64 mod 64), b64_digit (n mod 64)] @ r)
       = map_option (\<lambda>bs. char_of (n div 65536) # char_of (n div 256 mod 256) # char_of (n mod 256) # bs) (DecodeString r)"
proof -
  have d: "n div 262144 < 64" using assms by (simp add: less_mult_imp_div_less)
  show "DecodeString ([b64_digit (n div 262144), b64_digit (n div 4096 mod 64), b64_digit (n div 64 mod 64), b64_digit (n mod 64)] @ r)
       = map_option (\<lambda>bs. char_of (n div 65536) # char_of (n div 256 mod 256) # char_of (n mod 256) # bs) (DecodeString r)"
    using sixes [of n] d by (simp add: Let_def)
  show "DecodeString [b64_digit (n div 262144), b64_digit (n div 4096 mod 64), b64_digit (n div 64 mod 64), b64_pad]
       = Some [char_of (n div 65536), char_of (n div 256 mod 256)]" if "n mod 64 = 0"
    using sixes [of n] d that by (simp add: Let_def)
  have "n div 4096 * 4096 + n mod 4096 = n" by simp
  moreover have "n div 4096 div 64 = n div 262144" by (simp flip: div_mult2_eq)
  moreover have "n div 4096 div 64 * 64 + n div 4096 mod 64 = n div 4096" by simp
  ultimately have "n div 262144 * 262144 + n div 4096 mod 64 * 4096 = n" if "n mod 4096 = 0" using that by linarith
  then show "DecodeString [b64_digit (n div 262144), b64_digit (n div 4096 mod 64), b64_pad, b64_pad] = Some [char_of (n div 65536)]"
    if "n mod 4096 = 0" using d that by simp
qed

text \<open>Decoding an encoding gives the bytes back.\<close>

lemma DecodeString_EncodeToString [simp]: "DecodeString (EncodeToString s) = Some s"
proof (induction s rule: EncodeToString.induct)
  case (2 a)
  define n :: nat where "n = of_char a * 65536"
  have n: "n < 16777216" "n div 65536 = of_char a" using three_bytes [OF byte_less [of a], of 0 0] by (simp_all add: n_def)
  have "n = 4096 * (16 * of_char a)" by (simp add: n_def)
  then have "n mod 4096 = 0" by (simp only: mod_mult_self1_is_0)
  from decode_group(1) [OF n(1) this] n(2) show ?case by (simp only: EncodeToString.simps Let_def flip: n_def) simp
next
  case (3 a b)
  define n :: nat where "n = of_char a * 65536 + of_char b * 256"
  have n: "n < 16777216" "n div 65536 = of_char a" "n div 256 mod 256 = of_char b"
    using three_bytes [OF byte_less [of a] byte_less [of b], of 0] by (simp_all add: n_def)
  have "n = 64 * (1024 * of_char a + 4 * of_char b)" by (simp add: n_def)
  then have "n mod 64 = 0" by (simp only: mod_mult_self1_is_0)
  from decode_group(2) [OF n(1) this] n(2,3) show ?case by (simp only: EncodeToString.simps Let_def flip: n_def) simp
next
  case (4 a b c rest)
  define n :: nat where "n = of_char a * 65536 + of_char b * 256 + of_char c"
  have n: "n < 16777216" "n div 65536 = of_char a" "n div 256 mod 256 = of_char b" "n mod 256 = of_char c"
    unfolding n_def by (rule three_bytes [OF byte_less [of a] byte_less [of b] byte_less [of c]])+
  from decode_group(3) [OF n(1), of "EncodeToString rest"] n 4 show ?case
    by (simp only: EncodeToString.simps Let_def option.map flip: n_def) simp
qed simp

end
