(* ===== verification/RenderAssets.thy ===== *)
theory RenderAssets
  imports TemplateChecks Base64
begin

text \<open>
  Rendering the assets of a cluster: \<open>cmd/render/plugin/default/asset/k8s.go\<close> and
  \<open>NewDefaultAssets\<close> of \<open>asset.go\<close>. A panic is an error of the model. The YAML encoder is the
  argument \<open>Marshal\<close>.
\<close>

definition NetworkFlannel :: string where "NetworkFlannel = ''flannel''"
definition NetworkCalico :: string where "NetworkCalico = ''experimental-calico''"
definition NetworkCanal :: string where "NetworkCanal = ''experimental-canal''"
definition secretNamespace :: string where "secretNamespace = ''kube-system''"
definition secretAPIServerName :: string where "secretAPIServerName = ''kube-apiserver''"
definition secretCMName :: string where "secretCMName = ''kube-controller-manager''"

section \<open>Assets from templates\<close>

definition assetFromTemplate :: "string \<Rightarrow> string \<Rightarrow> gval \<Rightarrow> go_error + Asset" where
  "assetFromTemplate name tb data =
     (case template_Parse tb of
        Inl e \<Rightarrow> Inl e
      | Inr tmpl \<Rightarrow>
          (case template_Execute tmpl data of
             Inl e \<Rightarrow> Inl e
           | Inr buf \<Rightarrow> Inr (mkAsset name buf)))"

definition MustCreateAssetFromTemplate :: "string \<Rightarrow> string \<Rightarrow> gval \<Rightarrow> go_error + Asset" where
  "MustCreateAssetFromTemplate name template data =
     (case assetFromTemplate name template data of Inl e \<Rightarrow> Inl (Errorf ''panic'' e) | Inr a \<Rightarrow> Inr a)"

text \<open>The elements of a list of such calls, up to the first panic.\<close>

fun mustCreateAll :: "gval \<Rightarrow> (string \<times> string) list \<Rightarrow> go_error + Assets" where
  "mustCreateAll data [] = Inr []"
| "mustCreateAll data ((name, template) # ts) =
     (case MustCreateAssetFromTemplate name template data of
        Inl e \<Rightarrow> Inl e
      | Inr a \<Rightarrow> (case mustCreateAll data ts of Inl e \<Rightarrow> Inl e | Inr as \<Rightarrow> Inr (a # as)))"

definition newStaticAssets :: "ImageVersions \<Rightarrow> go_error + Assets" where
  "newStaticAssets imageVersions = mustCreateAll (static_value imageVersions)
     [(AssetPathScheduler, SchedulerTemplate),
      (AssetPathSchedulerDisruption, SchedulerDisruptionTemplate),
      (AssetPathControllerManagerDisruption, ControllerManagerDisruptionTemplate),
      (AssetPathCoreDNSClusterRoleBinding, CoreDNSClusterRoleBindingTemplate),
      (AssetPathCoreDNSClusterRole, CoreDNSClusterRoleTemplate),
      (AssetPathCoreDNSDeployment, CoreDNSDeploymentTemplate),
      (AssetPathCoreDNSSA, CoreDNSServiceAccountTemplate),
      (AssetPathCheckpointer, CheckpointerTemplate),
      (AssetPathCheckpointerSA, CheckpointerServiceAccount),
      (AssetPathCheckpointerRole, CheckpointerRole),
      (AssetPathCheckpointerRoleBinding, CheckpointerRoleBinding),
      (AssetPathCheckpointerClusterRole, CheckpointerClusterRole),
      (AssetPathCheckpointerClusterRoleBinding, CheckpointerClusterRoleBinding),
      (AssetPathCSRApproverRoleBinding, CSRApproverRoleBindingTemplate),
      (AssetPathCSRBootstrapRoleBinding, CSRNodeBootstrapTemplate),
      (AssetPathCSRRenewalRoleBinding, CSRRenewalRoleBindingTemplate),
      (AssetPathKubeSystemSARoleBinding, KubeSystemSARoleBindingTemplate)]"

definition network_templates :: "string \<Rightarrow> (string \<times> string) list" where
  "network_templates networkProvider =
     (if networkProvider = NetworkFlannel then
        [(AssetPathFlannel, FlannelTemplate),
         (AssetPathFlannelCfg, FlannelCfgTemplate),
         (AssetPathFlannelClusterRole, FlannelClusterRole),
         (AssetPathFlannelClusterRoleBinding, FlannelClusterRoleBinding),
         (AssetPathFlannelSA, FlannelServiceAccount)]
      else if networkProvider = NetworkCalico then
        [(AssetPathCalicoCfg, CalicoCfgTemplate),
         (AssetPathCalicoRole, CalicoRoleTemplate),
         (AssetPathCalicoRoleBinding, CalicoRoleBindingTemplate),
         (AssetPathCalicoSA, CalicoServiceAccountTemplate),
         (AssetPathCalico, CalicoNodeTemplate),
         (AssetPathCalicoBGPConfigurationsCRD, CalicoBGPConfigurationsCRD),
         (AssetPathCalicoBGPPeersCRD, CalicoBGPPeersCRD),
         (AssetPathCalicoFelixConfigurationsCRD, CalicoFelixConfigurationsCRD),
         (AssetPathCalicoGlobalNetworkPoliciesCRD, CalicoGlobalNetworkPoliciesCRD),
         (AssetPathCalicoGlobalNetworkSetsCRD, CalicoGlobalNetworkSetsCRD),
         (AssetPathCalicoNetworkPoliciesCRD, CalicoNetworkPoliciesCRD),
         (AssetPathCalicoClusterInformationsCRD, CalicoClusterInformationsCRD),
         (AssetPathCalicoIPPoolsCRD, CalicoIPPoolsCRD)]
      else if networkProvider = NetworkCanal then
        [(AssetPathCalicoCfg, CalicoCfgTemplate),
         (AssetPathCalicoRole, CalicoRoleTemplate),
         (AssetPathCalicoRoleBinding, CalicoRoleBindingTemplate),
         (AssetPathCalicoSA, CalicoServiceAccountTemplate),
         (AssetPathCalicoPolicyOnly, CalicoPolicyOnlyTemplate),
         (AssetPathCalicoBGPConfigurationsCRD, CalicoBGPConfigurationsCRD),
         (AssetPathCalicoBGPPeersCRD, CalicoBGPPeersCRD),
         (AssetPathCalicoFelixConfigurationsCRD, CalicoFelixConfigurationsCRD),
         (AssetPathCalicoGlobalNetworkPoliciesCRD, CalicoGlobalNetworkPoliciesCRD),
         (AssetPathCalicoGlobalNetworkSetsCRD, CalicoGlobalNetworkSetsCRD),
         (AssetPathCalicoGlobalNetworkPoliciesCRD, CalicoGlobalNetworkPoliciesCRD),
         (AssetPathCalicoNetworkPoliciesCRD, CalicoNetworkPoliciesCRD),
         (AssetPathCalicoClusterInformationsCRD, CalicoClusterInformationsCRD),
         (AssetPathCalicoIPPoolsCRD, CalicoIPPoolsCRD)]
      else [])"

definition control_plane_templates :: "(string \<times> string) list" where
  "control_plane_templates =
      [(AssetPathControllerManager, ControllerManagerTemplate),
       (AssetPathControllerManagerSA, ControllerManagerServiceAccount),
       (AssetPathControllerManagerRB, ControllerManagerClusterRoleBinding),
       (AssetPathAPIServer, APIServerTemplate),
       (AssetPathProxy, ProxyTemplate),
       (AssetPathProxySA, ProxyServiceAccount),
       (AssetPathProxyRoleBinding, ProxyClusterRoleBinding),
       (AssetPathCoreDNSConfig, CoreDNSConfigTemplate),
       (AssetPathCoreDNSSvc, CoreDNSSvcTemplate),
       (AssetPathBootstrapAPIServer, BootstrapAPIServerTemplate),
       (AssetPathBootstrapControllerManager, BootstrapControllerManagerTemplate),
       (AssetPathBootstrapScheduler, BootstrapSchedulerTemplate)]"

definition newDynamicAssets :: "net_lib \<Rightarrow> Config \<Rightarrow> go_error + Assets" where
  "newDynamicAssets nl conf =
     mustCreateAll (config_value nl conf) (control_plane_templates @ network_templates (cf_NetworkProvider conf))"

section \<open>Bootstrap tokens and kubeconfigs\<close>

definition validBootstrapTokenChars :: string where
  "validBootstrapTokenChars = ''0123456789abcdefghijklmnopqrstuvwxyz''"

definition newBootstrapToken :: "crypto \<Rightarrow> (string \<times> string) drawing" where
  "newBootstrapToken C =
     draw (\<lambda>n. case cr_Read C n (6 + 16) of
        Inl e \<Rightarrow> Inl e
      | Inr token \<Rightarrow>
          (let token' = map (\<lambda>b. validBootstrapTokenChars ! (unat b mod length validBootstrapTokenChars)) token
           in Inr (take 6 token', drop 6 token')))"

definition kubeconfig_value :: "Config \<Rightarrow> Asset \<Rightarrow> Asset \<Rightarrow> Asset \<Rightarrow> string \<Rightarrow> string \<Rightarrow> gval" where
  "kubeconfig_value conf caCert adminCert adminKey tokenID tokenSecret = GStruct None
     [(''Server'', Inr (GString (u_String (hd (cf_APIServers conf))))),
      (''Cluster'', Inr (GString (cf_ClusterName conf))),
      (''CACert'', Inr (GString (EncodeToString (a_Data caCert)))),
      (''AdminCert'', Inr (GString (EncodeToString (a_Data adminCert)))),
      (''AdminKey'', Inr (GString (EncodeToString (a_Data adminKey)))),
      (''BootstrapTokenID'', Inr (GString tokenID)),
      (''BootstrapTokenSecret'', Inr (GString tokenSecret))]"

definition kubeconfig_templates :: "(string \<times> string) list" where
  "kubeconfig_templates =
     [(AssetPathAdminKubeConfig, AdminKubeConfigTemplate),
      (AssetPathKubeConfigInCluster, KubeConfigInClusterTemplate),
      (AssetPathKubeletKubeConfig, KubeletKubeConfigTemplate),
      (AssetPathKubeletBootstrapToken, KubeletBootstrappingToken)]"

fun renderAll :: "gval \<Rightarrow> (string \<times> string) list \<Rightarrow> Assets \<Rightarrow> go_error + Assets" where
  "renderAll cfg [] as = Inr as"
| "renderAll cfg ((path, tmpl) # ts) as =
     (case assetFromTemplate path tmpl cfg of
        Inl e \<Rightarrow> Inl (Errorf (''rendering template '' @ path) e)
      | Inr a \<Rightarrow> renderAll cfg ts (as @ [a]))"

definition newKubeConfigAssets :: "crypto \<Rightarrow> Assets \<Rightarrow> Config \<Rightarrow> Assets drawing" where
  "newKubeConfigAssets C assets conf =
     attempt (pure (Assets_Get assets AssetPathCACert)) (\<lambda>caCert.
     attempt (pure (Assets_Get assets AssetPathAdminCert)) (\<lambda>adminCert.
     attempt (pure (Assets_Get assets AssetPathAdminKey)) (\<lambda>adminKey.
     attempt (newBootstrapToken C) (\<lambda>(bootstrapTokenID, bootstrapTokenSecret).
     (if cf_APIServers conf = [] then pure (Inl (Err ''index out of range''))
      else pure (renderAll (kubeconfig_value conf caCert adminCert adminKey bootstrapTokenID bootstrapTokenSecret)
                   kubeconfig_templates []))))))"

section \<open>Secrets\<close>

record secret =
  sc_ApiVersion :: string
  sc_Kind :: string
  sc_Metadata :: "(string \<times> string) list"
  sc_Type :: string
  sc_Data :: "(string \<times> string) list"

fun secretData :: "Assets \<Rightarrow> string list \<Rightarrow> (string \<times> string) list \<Rightarrow> go_error + (string \<times> string) list" where
  "secretData assets [] data = Inr data"
| "secretData assets (an # assetNames) data =
     (case Assets_Get assets an of
        Inl e \<Rightarrow> Inl e
      | Inr a \<Rightarrow> secretData assets assetNames (AList.update (path_Base (a_Name a)) (EncodeToString (a_Data a)) data))"

definition secretFromAssets ::
  "(secret \<Rightarrow> go_error + bytes) \<Rightarrow> string \<Rightarrow> string \<Rightarrow> string list \<Rightarrow> Assets \<Rightarrow> go_error + bytes" where
  "secretFromAssets Marshal name namespace assetNames assets =
     (case secretData assets assetNames [] of
        Inl e \<Rightarrow> Inl e
      | Inr data \<Rightarrow>
          Marshal \<lparr>sc_ApiVersion = ''v1'', sc_Kind = ''Secret'',
            sc_Metadata = [(''name'', name), (''namespace'', namespace)], sc_Type = ''Opaque'', sc_Data = data\<rparr>)"

definition newAPIServerSecretAsset :: "(secret \<Rightarrow> go_error + bytes) \<Rightarrow> Assets \<Rightarrow> bool \<Rightarrow> go_error + Asset" where
  "newAPIServerSecretAsset Marshal assets etcdUseTLS =
     (let secretAssets =
            [AssetPathAPIServerKey, AssetPathAPIServerCert, AssetPathServiceAccountPubKey, AssetPathAggregatorCA,
             AssetPathFrontProxyClientCert, AssetPathFrontProxyClientKey, AssetPathKubeletClientCert,
             AssetPathKubeletClientKey, AssetPathCACert]
            @ (if etcdUseTLS then [AssetPathEtcdClientCA, AssetPathEtcdClientCert, AssetPathEtcdClientKey] else [])
      in case secretFromAssets Marshal secretAPIServerName secretNamespace secretAssets assets of
           Inl e \<Rightarrow> Inl e
         | Inr secretYAML \<Rightarrow> Inr (mkAsset AssetPathAPIServerSecret secretYAML))"

definition newControllerManagerSecretAsset :: "(secret \<Rightarrow> go_error + bytes) \<Rightarrow> Assets \<Rightarrow> go_error + Asset" where
  "newControllerManagerSecretAsset Marshal assets =
     (case secretFromAssets Marshal secretCMName secretNamespace
             [AssetPathServiceAccountPrivKey, AssetPathCACert, AssetPathCAKey] assets of
        Inl e \<Rightarrow> Inl e
      | Inr secretYAML \<Rightarrow> Inr (mkAsset AssetPathControllerManagerSecret secretYAML))"

section \<open>All assets\<close>

text \<open>
  A CA certificate without its key (which the renderer's options rule out) is dereferenced
  when the first certificate is signed.
\<close>

definition caOf :: "crypto \<Rightarrow> Config \<Rightarrow> (rsa_PrivateKey \<times> x509_Certificate) drawing" where
  "caOf C conf =
     (case cf_CACert conf of
        None \<Rightarrow> newCACert C
      | Some cert \<Rightarrow> (case cf_CAPrivKey conf of Some key \<Rightarrow> pure (Inr (key, cert)) | None \<Rightarrow> pure (Inl nil_dereference)))"

text \<open>The names of the API server: the configured ones and the addresses of the service.\<close>

definition all_alt_names :: "Config \<Rightarrow> AltNames \<Rightarrow> AltNames" where
  "all_alt_names conf an = an\<lparr>an_IPs := an_IPs an @
     (if length (cf_APIServiceIPs conf) > 0 then cf_APIServiceIPs conf else [cf_APIServiceIP conf])\<rparr>"

definition with_subdir :: "Config \<Rightarrow> Config" where
  "with_subdir conf = conf\<lparr>cf_BootstrapSecretsSubdir := path_Base BootstrapSecretsDir\<rparr>"

definition etcdAssets :: "crypto \<Rightarrow> net_lib \<Rightarrow> Config \<Rightarrow> x509_Certificate \<Rightarrow> rsa_PrivateKey \<Rightarrow> Assets drawing" where
  "etcdAssets C nl conf caCert caKey =
     (if cf_EtcdUseTLS conf
      then newEtcdTLSAssets C (nl_ParseIP nl) (cf_EtcdCACert conf) (cf_EtcdClientCert conf) (cf_EtcdClientKey conf)
             caCert caKey (cf_EtcdServers conf)
      else pure (Inr []))"

definition NewDefaultAssets :: "crypto \<Rightarrow> net_lib \<Rightarrow> (secret \<Rightarrow> go_error + bytes) \<Rightarrow> Config \<Rightarrow> Assets drawing" where
  "NewDefaultAssets C nl Marshal conf0 =
     (let conf = with_subdir conf0 in
      attempt (pure (newStaticAssets (cf_Images conf))) (\<lambda>static.
      attempt (pure (newDynamicAssets nl conf)) (\<lambda>dynamic.
      attempt (pure (case cf_AltNames conf of None \<Rightarrow> Inl nil_dereference | Some an \<Rightarrow> Inr (all_alt_names conf an))) (\<lambda>altNames.
      attempt (caOf C conf) (\<lambda>(caKey, caCert).
      attempt (newTLSAssets C caCert caKey altNames) (\<lambda>tlsAssets.
      attempt (etcdAssets C nl conf caCert caKey) (\<lambda>etcdTLSAssets.
      attempt (newKubeConfigAssets C (static @ dynamic @ tlsAssets @ etcdTLSAssets) conf) (\<lambda>kubeConfigAssets.
      attempt (pure (newAPIServerSecretAsset Marshal (static @ dynamic @ tlsAssets @ etcdTLSAssets @ kubeConfigAssets) (cf_EtcdUseTLS conf))) (\<lambda>apiSecret.
      attempt (pure (newControllerManagerSecretAsset Marshal (static @ dynamic @ tlsAssets @ etcdTLSAssets @ kubeConfigAssets @ [apiSecret]))) (\<lambda>cmSecret.
      pure (Inr (static @ dynamic @ tlsAssets @ etcdTLSAssets @ kubeConfigAssets @ [apiSecret, cmSecret]))))))))))))"

section \<open>Which assets there are\<close>

definition static_names :: "string list" where
  "static_names =
     [AssetPathScheduler, AssetPathSchedulerDisruption, AssetPathControllerManagerDisruption,
      AssetPathCoreDNSClusterRoleBinding, AssetPathCoreDNSClusterRole, AssetPathCoreDNSDeployment,
      AssetPathCoreDNSSA, AssetPathCheckpointer, AssetPathCheckpointerSA, AssetPathCheckpointerRole,
      AssetPathCheckpointerRoleBinding, AssetPathCheckpointerClusterRole,
      AssetPathCheckpointerClusterRoleBinding, AssetPathCSRApproverRoleBinding,
      AssetPathCSRBootstrapRoleBinding, AssetPathCSRRenewalRoleBinding, AssetPathKubeSystemSARoleBinding]"

definition dynamic_names :: "string list" where
  "dynamic_names =
     [AssetPathControllerManager, AssetPathControllerManagerSA, AssetPathControllerManagerRB,
      AssetPathAPIServer, AssetPathProxy, AssetPathProxySA, AssetPathProxyRoleBinding, AssetPathCoreDNSConfig,
      AssetPathCoreDNSSvc, AssetPathBootstrapAPIServer, AssetPathBootstrapControllerManager,
      AssetPathBootstrapScheduler]"

definition network_names :: "string \<Rightarrow> string list" where
  "network_names provider =
     (if provider = NetworkFlannel then
        [AssetPathFlannel, AssetPathFlannelCfg, AssetPathFlannelClusterRole, AssetPathFlannelClusterRoleBinding,
         AssetPathFlannelSA]
      else if provider = NetworkCalico then
        [AssetPathCalicoCfg, AssetPathCalicoRole, AssetPathCalicoRoleBinding, AssetPathCalicoSA, AssetPathCalico,
         AssetPathCalicoBGPConfigurationsCRD, AssetPathCalicoBGPPeersCRD, AssetPathCalicoFelixConfigurationsCRD,
         AssetPathCalicoGlobalNetworkPoliciesCRD, AssetPathCalicoGlobalNetworkSetsCRD,
         AssetPathCalicoNetworkPoliciesCRD, AssetPathCalicoClusterInformationsCRD, AssetPathCalicoIPPoolsCRD]
      else if provider = NetworkCanal then
        [AssetPathCalicoCfg, AssetPathCalicoRole, AssetPathCalicoRoleBinding, AssetPathCalicoSA,
         AssetPathCalicoPolicyOnly, AssetPathCalicoBGPConfigurationsCRD, AssetPathCalicoBGPPeersCRD,
         AssetPathCalicoFelixConfigurationsCRD, AssetPathCalicoGlobalNetworkPoliciesCRD,
         AssetPathCalicoGlobalNetworkSetsCRD, AssetPathCalicoGlobalNetworkPoliciesCRD,
         AssetPathCalicoNetworkPoliciesCRD, AssetPathCalicoClusterInformationsCRD, AssetPathCalicoIPPoolsCRD]
      else [])"

lemma control_plane_names [simp]: "map fst control_plane_templates = dynamic_names"
  by (simp add: control_plane_templates_def dynamic_names_def)

lemma network_template_names [simp]: "map fst (network_templates provider) = network_names provider"
  by (simp add: network_templates_def network_names_def)

definition tls_names :: "string list" where
  "tls_names =
     [AssetPathCAKey, AssetPathCACert, AssetPathAPIServerKey, AssetPathAPIServerCert, AssetPathServiceAccountPrivKey,
      AssetPathAggregatorCA, AssetPathFrontProxyClientCert, AssetPathFrontProxyClientKey, AssetPathKubeletClientKey,
      AssetPathKubeletClientCert, AssetPathServiceAccountPubKey, AssetPathAdminKey, AssetPathAdminCert]"

definition etcd_names :: "Config \<Rightarrow> string list" where
  "etcd_names conf =
     (if cf_EtcdUseTLS conf then
        (if cf_EtcdCACert conf = None then
           [AssetPathEtcdPeerCA, AssetPathEtcdPeerKey, AssetPathEtcdPeerCert, AssetPathEtcdServerCA, AssetPathEtcdServerKey,
            AssetPathEtcdServerCert] else [])
        @ [AssetPathEtcdClientCA, AssetPathEtcdClientKey, AssetPathEtcdClientCert]
      else [])"

definition asset_names :: "Config \<Rightarrow> string list" where
  "asset_names conf = static_names @ dynamic_names @ network_names (cf_NetworkProvider conf) @ tls_names @ etcd_names conf
     @ map fst kubeconfig_templates @ [AssetPathAPIServerSecret, AssetPathControllerManagerSecret]"

lemma assetFromTemplate_ok:
  "template_ok t tmpl \<Longrightarrow> fits v t \<Longrightarrow> \<exists>buf. assetFromTemplate name tmpl v = Inr (mkAsset name buf)"
  using template_ok_executes [of t tmpl v] by (auto simp: assetFromTemplate_def)

lemma mustCreateAll_returns:
  "list_all (\<lambda>(name, tmpl). template_ok t tmpl) ts \<Longrightarrow> fits v t \<Longrightarrow> \<exists>as. mustCreateAll v ts = Inr as"
proof (induction ts)
  case (Cons nt ts)
  obtain name tmpl where nt: "nt = (name, tmpl)" by (cases nt)
  with Cons obtain as where "mustCreateAll v ts = Inr as" by auto
  moreover obtain buf where "assetFromTemplate name tmpl v = Inr (mkAsset name buf)"
    using assetFromTemplate_ok Cons.prems nt by fastforce
  ultimately show ?case by (simp add: nt MustCreateAssetFromTemplate_def)
qed simp

lemma mustCreateAll_names: "mustCreateAll v ts = Inr as \<Longrightarrow> map a_Name as = map fst ts"
proof (induction ts arbitrary: as)
  case (Cons nt ts)
  then show ?case
    by (cases nt) (auto simp: MustCreateAssetFromTemplate_def assetFromTemplate_def split: sum.splits)
qed simp

lemma renderAll_ok:
  "list_all (\<lambda>(name, tmpl). template_ok t tmpl) ts \<Longrightarrow> fits v t \<Longrightarrow> \<exists>as'. renderAll v ts as = Inr (as @ as') \<and> map a_Name as' = map fst ts"
proof (induction ts arbitrary: as)
  case (Cons nt ts)
  obtain name tmpl where nt: "nt = (name, tmpl)" by (cases nt)
  obtain buf where b: "assetFromTemplate name tmpl v = Inr (mkAsset name buf)"
    using assetFromTemplate_ok Cons.prems nt by fastforce
  from Cons nt obtain as' where "renderAll v ts (as @ [mkAsset name buf]) = Inr ((as @ [mkAsset name buf]) @ as')" "map a_Name as' = map fst ts"
    by fastforce
  with b show ?case by (auto simp: nt intro: exI [of _ "mkAsset name buf # as'"])
qed simp

lemma renderAll_names: "renderAll v ts as = Inr r \<Longrightarrow> map a_Name r = map a_Name as @ map fst ts"
proof (induction ts arbitrary: as)
  case (Cons nt ts)
  then show ?case by (cases nt) (auto simp: assetFromTemplate_def split: sum.splits)
qed simp

lemma static_assets_ok: "\<exists>as. newStaticAssets im = Inr as"
  unfolding newStaticAssets_def by (rule mustCreateAll_returns [OF _ static_fits]) (simp add: static_templates_ok)

lemma network_list_ok: "list_all (\<lambda>(name, tmpl). template_ok config_shape tmpl) (network_templates provider)"
  using network_templates_ok by (simp add: network_templates_def)

lemma dynamic_assets_ok:
  assumes "cf_APIServers conf \<noteq> []" "networks_set conf"
  shows "\<exists>as. newDynamicAssets nl conf = Inr as"
  unfolding newDynamicAssets_def
  by (rule mustCreateAll_returns [OF _ config_fits [OF assms]]) (simp add: control_plane_templates_def control_plane_templates_ok network_list_ok)

lemma newStaticAssets_names: "newStaticAssets im = Inr as \<Longrightarrow> map a_Name as = static_names"
  unfolding newStaticAssets_def by (drule mustCreateAll_names) (simp add: static_names_def)

lemma newDynamicAssets_names:
  "newDynamicAssets nl conf = Inr as \<Longrightarrow> map a_Name as = dynamic_names @ network_names (cf_NetworkProvider conf)"
  unfolding newDynamicAssets_def by (drule mustCreateAll_names) (simp add: control_plane_names)


lemma newTLSAssets_names: "newTLSAssets C ca caKey an n = (Inr as, n') \<Longrightarrow> map a_Name as = tls_names"
  by (auto simp: newTLSAssets_def drawing_iff tls_names_def)

lemma newEtcdTLSAssets_names:
  assumes "newEtcdTLSAssets C P (cf_EtcdCACert conf) ec ek ca caKey servers n = (Inr as, n')" "cf_EtcdUseTLS conf"
  shows "map a_Name as = etcd_names conf"
proof (cases "cf_EtcdCACert conf")
  case None
  with assms show ?thesis by (auto simp: newEtcdTLSAssets_def drawing_iff etcd_names_def)
next
  case (Some c)
  with assms show ?thesis by (auto simp: newEtcdTLSAssets_def drawing_iff etcd_names_def split: option.splits)
qed

section \<open>Looking assets up\<close>

lemma Get_append_other: "p \<notin> a_Name ` set xs \<Longrightarrow> Assets_Get (xs @ ys) p = Assets_Get ys p"
proof -
  assume "p \<notin> a_Name ` set xs"
  then have "List.find (\<lambda>a. a_Name a = p) xs = None" by (auto simp: find_None_iff)
  then show ?thesis by (simp add: Assets_Get_def find_append)
qed

lemma Get_append_found: "Assets_Get xs p = Inr a \<Longrightarrow> Assets_Get (xs @ ys) p = Inr a"
  by (auto simp: Assets_Get_def find_append split: option.splits)

lemma Get_found_iff: "(\<exists>a. Assets_Get xs p = Inr a) \<longleftrightarrow> p \<in> a_Name ` set xs"
proof -
  have "List.find (\<lambda>a. a_Name a = p) xs \<noteq> None \<longleftrightarrow> p \<in> a_Name ` set xs" by (auto simp: find_None_iff)
  then show ?thesis by (auto simp: Assets_Get_def split: option.splits)
qed

lemma Get_name: "Assets_Get xs p = Inr a \<Longrightarrow> a_Name a = p"
  by (auto simp: Assets_Get_def find_Some_iff split: option.splits)

lemma secretData_ok: "set names \<subseteq> a_Name ` set as \<Longrightarrow> \<exists>d. secretData as names data = Inr d"
proof (induction names arbitrary: data)
  case (Cons p names)
  then obtain a where "Assets_Get as p = Inr a" using Get_found_iff [of as p] by auto
  with Cons show ?case by simp
qed simp

text \<open>What a secret holds: the encoded data of every asset, under its base name.\<close>

lemma secretData_result:
  "secretData as names data = Inr d \<Longrightarrow> distinct (map path_Base names) \<Longrightarrow>
   (\<forall>p \<in> set names. \<exists>a. Assets_Get as p = Inr a \<and> map_of d (path_Base p) = Some (EncodeToString (a_Data a))) \<and>
   (\<forall>k. k \<notin> path_Base ` set names \<longrightarrow> map_of d k = map_of data k)"
proof (induction names arbitrary: data)
  case (Cons p names)
  then obtain a where a: "Assets_Get as p = Inr a"
    and rest: "secretData as names (AList.update (path_Base (a_Name a)) (EncodeToString (a_Data a)) data) = Inr d"
    by (auto split: sum.splits)
  note IH = Cons.IH [OF rest] and name = Get_name [OF a]
  show ?case using IH a Cons.prems(2) name by auto
qed auto

section \<open>Rendering succeeds\<close>

lemma newBootstrapToken_succeeds [intro]: "crypto_works C \<Longrightarrow> succeeds (newBootstrapToken C)"
  unfolding newBootstrapToken_def
proof (rule succeeds_rules(3))
  fix n assume "crypto_works C"
  then obtain b where "cr_Read C n 22 = Inr b" unfolding crypto_works_def by blast
  then show "\<exists>a. (case cr_Read C n (6 + 16) of Inl e \<Rightarrow> Inl e
      | Inr token \<Rightarrow>
          (let token' = map (\<lambda>b. validBootstrapTokenChars ! (unat b mod length validBootstrapTokenChars)) token
           in Inr (take 6 token', drop 6 token'))) = Inr a" by (simp add: Let_def)
qed

lemma kubeconfig_fits: "fits (kubeconfig_value conf a b c i s) kubeconfig_shape"
  by (simp add: kubeconfig_value_def kubeconfig_shape_def printable_def)

lemma kubeconfigs_ok: "\<exists>as. renderAll (kubeconfig_value conf a b c i s) kubeconfig_templates [] = Inr as"
proof -
  have "list_all (\<lambda>(name, tmpl). template_ok kubeconfig_shape tmpl) kubeconfig_templates"
    by (simp add: kubeconfig_templates_def kubeconfig_templates_ok)
  from renderAll_ok [OF this kubeconfig_fits] show ?thesis by fast
qed

lemma pure_succeeds: "\<exists>a. r = Inr a \<Longrightarrow> succeeds (pure r)"
  by (auto simp: succeeds_def pure_def)

lemma newKubeConfigAssets_succeeds:
  assumes "crypto_works C" "cf_APIServers conf \<noteq> []" "{AssetPathCACert, AssetPathAdminCert, AssetPathAdminKey} \<subseteq> a_Name ` set as"
  shows "succeeds (newKubeConfigAssets C as conf)"
  using assms kubeconfigs_ok unfolding newKubeConfigAssets_def case_prod_beta if_not_P [OF assms(2)]
  by (intro succeeds_rules pure_succeeds newBootstrapToken_succeeds) (auto simp: Get_found_iff)

lemma newKubeConfigAssets_names:
  "newKubeConfigAssets C as conf n = (Inr r, n') \<Longrightarrow> map a_Name r = map fst kubeconfig_templates"
  by (auto simp: newKubeConfigAssets_def drawing_iff split: if_splits dest: renderAll_names)


text \<open>
  What a configuration needs for its assets to be rendered: an API server, alternative names,
  pod and service networks, and no certificate without its key.
\<close>

definition config_complete :: "Config \<Rightarrow> bool" where
  "config_complete conf \<longleftrightarrow> cf_APIServers conf \<noteq> [] \<and> networks_set conf \<and> cf_AltNames conf \<noteq> None \<and>
     (cf_CACert conf \<noteq> None \<longrightarrow> cf_CAPrivKey conf \<noteq> None) \<and>
     (cf_EtcdCACert conf \<noteq> None \<longrightarrow> cf_EtcdClientCert conf \<noteq> None \<and> cf_EtcdClientKey conf \<noteq> None)"

lemma caOf_succeeds:
  assumes "crypto_works C" "cf_CACert conf \<noteq> None \<longrightarrow> cf_CAPrivKey conf \<noteq> None"
  shows "succeeds (caOf C conf)"
  using assms by (auto simp: caOf_def split: option.splits)

lemma succeedsD: "succeeds m \<Longrightarrow> \<exists>a n'. m n = (Inr a, n')"
  by (simp add: succeeds_def)

text \<open>The stages of a rendering, and what they leave.\<close>

definition api_secret_paths :: "Config \<Rightarrow> string list" where
  "api_secret_paths conf =
     [AssetPathAPIServerKey, AssetPathAPIServerCert, AssetPathServiceAccountPubKey, AssetPathAggregatorCA,
      AssetPathFrontProxyClientCert, AssetPathFrontProxyClientKey, AssetPathKubeletClientCert,
      AssetPathKubeletClientKey, AssetPathCACert]
     @ (if cf_EtcdUseTLS conf then [AssetPathEtcdClientCA, AssetPathEtcdClientCert, AssetPathEtcdClientKey] else [])"

definition cm_secret_paths :: "string list" where
  "cm_secret_paths = [AssetPathServiceAccountPrivKey, AssetPathCACert, AssetPathCAKey]"

lemma with_subdir_sel [simp]:
  "cf_Images (with_subdir c) = cf_Images c" "cf_AltNames (with_subdir c) = cf_AltNames c" "cf_APIServers (with_subdir c) = cf_APIServers c"
  "cf_EtcdUseTLS (with_subdir c) = cf_EtcdUseTLS c" "cf_EtcdCACert (with_subdir c) = cf_EtcdCACert c"
  "cf_EtcdClientCert (with_subdir c) = cf_EtcdClientCert c" "cf_EtcdClientKey (with_subdir c) = cf_EtcdClientKey c"
  "cf_EtcdServers (with_subdir c) = cf_EtcdServers c" "cf_NetworkProvider (with_subdir c) = cf_NetworkProvider c"
  "networks_set (with_subdir c) = networks_set c" "caOf C (with_subdir c) = caOf C c" "cf_PodCIDR (with_subdir c) = cf_PodCIDR c"
  "all_alt_names (with_subdir c) an = all_alt_names c an" "etcd_names (with_subdir c) = etcd_names c"
  "etcdAssets C nl (with_subdir c) = etcdAssets C nl c"
  by (simp_all add: with_subdir_def networks_set_def all_alt_names_def etcd_names_def etcdAssets_def fun_eq_iff caOf_def cong: option.case_cong)

lemma NewDefaultAssets_iff:
  "NewDefaultAssets C nl Marshal conf n = (Inr as, n') \<longleftrightarrow>
   (\<exists>static dynamic an caKey caCert n1 tls n2 etcd n3 kube apiSecret cmSecret.
      newStaticAssets (cf_Images conf) = Inr static \<and> newDynamicAssets nl (with_subdir conf) = Inr dynamic \<and>
      cf_AltNames conf = Some an \<and> caOf C conf n = (Inr (caKey, caCert), n1) \<and>
      newTLSAssets C caCert caKey (all_alt_names conf an) n1 = (Inr tls, n2) \<and>
      etcdAssets C nl conf caCert caKey n2 = (Inr etcd, n3) \<and>
      newKubeConfigAssets C (static @ dynamic @ tls @ etcd) (with_subdir conf) n3 = (Inr kube, n') \<and>
      newAPIServerSecretAsset Marshal (static @ dynamic @ tls @ etcd @ kube) (cf_EtcdUseTLS conf) = Inr apiSecret \<and>
      newControllerManagerSecretAsset Marshal (static @ dynamic @ tls @ etcd @ kube @ [apiSecret]) = Inr cmSecret \<and>
      as = static @ dynamic @ tls @ etcd @ kube @ [apiSecret, cmSecret])"
  unfolding NewDefaultAssets_def Let_def
  by (simp add: drawing_iff split_paired_Ex split: option.splits) blast


text \<open>The names of the TLS assets are those of no manifest.\<close>

lemmas manifest_paths =
  AssetPathScheduler_def AssetPathSchedulerDisruption_def AssetPathControllerManagerDisruption_def
  AssetPathCoreDNSClusterRoleBinding_def AssetPathCoreDNSClusterRole_def AssetPathCoreDNSDeployment_def AssetPathCoreDNSSA_def
  AssetPathCheckpointer_def AssetPathCheckpointerSA_def AssetPathCheckpointerRole_def AssetPathCheckpointerRoleBinding_def
  AssetPathCheckpointerClusterRole_def AssetPathCheckpointerClusterRoleBinding_def AssetPathCSRApproverRoleBinding_def
  AssetPathCSRBootstrapRoleBinding_def AssetPathCSRRenewalRoleBinding_def AssetPathKubeSystemSARoleBinding_def
  AssetPathControllerManager_def AssetPathControllerManagerSA_def AssetPathControllerManagerRB_def AssetPathAPIServer_def
  AssetPathProxy_def AssetPathProxySA_def AssetPathProxyRoleBinding_def AssetPathCoreDNSConfig_def AssetPathCoreDNSSvc_def
  AssetPathBootstrapAPIServer_def AssetPathBootstrapControllerManager_def AssetPathBootstrapScheduler_def
  AssetPathFlannel_def AssetPathFlannelCfg_def AssetPathFlannelClusterRole_def AssetPathFlannelClusterRoleBinding_def
  AssetPathFlannelSA_def AssetPathCalicoCfg_def AssetPathCalicoRole_def AssetPathCalicoRoleBinding_def AssetPathCalicoSA_def
  AssetPathCalico_def AssetPathCalicoPolicyOnly_def AssetPathCalicoBGPConfigurationsCRD_def AssetPathCalicoBGPPeersCRD_def
  AssetPathCalicoFelixConfigurationsCRD_def AssetPathCalicoGlobalNetworkPoliciesCRD_def AssetPathCalicoGlobalNetworkSetsCRD_def
  AssetPathCalicoNetworkPoliciesCRD_def AssetPathCalicoClusterInformationsCRD_def AssetPathCalicoIPPoolsCRD_def

lemma manifest_names:
  "list_all (\<lambda>p. hasPrefix p ''manifests/'' \<or> hasPrefix p ''bootstrap-manifests/'') (static_names @ dynamic_names @ network_names provider)"
  unfolding static_names_def dynamic_names_def network_names_def
  by (simp add: hasPrefix_def manifest_paths)

lemma tls_name_not_manifest:
  assumes "hasPrefix p ''tls/''" "map a_Name xs = static_names @ dynamic_names @ network_names provider"
  shows "p \<notin> a_Name ` set xs"
proof
  assume "p \<in> a_Name ` set xs"
  then have "p \<in> set (static_names @ dynamic_names @ network_names provider)" using assms(2) by (metis image_set)
  with manifest_names [of provider] have "hasPrefix p ''manifests/'' \<or> hasPrefix p ''bootstrap-manifests/''" by (auto simp: list_all_iff)
  with assms(1) show False by (cases p) (auto simp: hasPrefix_def)
qed

lemma secret_paths_tls: "list_all (\<lambda>p. hasPrefix p ''tls/'') (api_secret_paths conf @ cm_secret_paths @ tls_names)"
  by (simp add: api_secret_paths_def cm_secret_paths_def tls_names_def tls_paths hasPrefix_def)

lemma secret_paths_present: "set (api_secret_paths conf @ cm_secret_paths) \<subseteq> set (tls_names @ etcd_names conf)"
  by (auto simp: api_secret_paths_def cm_secret_paths_def tls_names_def etcd_names_def)

lemma api_secret_def':
  "newAPIServerSecretAsset Marshal as (cf_EtcdUseTLS conf) =
     (case secretFromAssets Marshal secretAPIServerName secretNamespace (api_secret_paths conf) as of
        Inl e \<Rightarrow> Inl e | Inr y \<Rightarrow> Inr (mkAsset AssetPathAPIServerSecret y))"
  by (simp add: newAPIServerSecretAsset_def api_secret_paths_def Let_def)

lemma secret_asset_ok:
  assumes "\<forall>s. \<exists>b. Marshal s = Inr b" "set names \<subseteq> a_Name ` set as"
  shows "\<exists>b. secretFromAssets Marshal name ns names as = Inr b"
  using secretData_ok [OF assms(2), of "[]"] assms(1) by (auto simp: secretFromAssets_def)

lemma default_assets_rendered:
  assumes C: "crypto_works C" and M: "\<forall>s. \<exists>b. Marshal s = Inr b" and conf: "config_complete conf"
  shows "\<exists>as n'. NewDefaultAssets C nl Marshal conf n = (Inr as, n') \<and> map a_Name as = asset_names conf"
proof -
  from conf have c: "cf_APIServers conf \<noteq> []" "networks_set conf" "cf_CACert conf \<noteq> None \<longrightarrow> cf_CAPrivKey conf \<noteq> None"
    "cf_EtcdCACert conf \<noteq> None \<longrightarrow> cf_EtcdClientCert conf \<noteq> None \<and> cf_EtcdClientKey conf \<noteq> None"
    by (simp_all add: config_complete_def)
  obtain an where an: "cf_AltNames conf = Some an" using conf by (auto simp: config_complete_def)
  obtain static where st: "newStaticAssets (cf_Images conf) = Inr static" using static_assets_ok by blast
  obtain dynamic where dy: "newDynamicAssets nl (with_subdir conf) = Inr dynamic" using dynamic_assets_ok [of "with_subdir conf" nl] c(1,2) by auto
  obtain caKey caCert n1 where ca: "caOf C conf n = (Inr (caKey, caCert), n1)" using succeedsD [OF caOf_succeeds [OF C c(3)]] by fast
  obtain tls n2 where tls: "newTLSAssets C caCert caKey (all_alt_names conf an) n1 = (Inr tls, n2)"
    using succeedsD [OF newTLSAssets_succeeds [OF C]] by blast
  have "succeeds (etcdAssets C nl conf caCert caKey)"
    using newEtcdTLSAssets_succeeds [OF C] c(4) succeeds_rules(2) by (auto simp: etcdAssets_def)
  then obtain etcd n3 where etcd: "etcdAssets C nl conf caCert caKey n2 = (Inr etcd, n3)" using succeedsD by blast
  have names: "map a_Name static = static_names" "map a_Name dynamic = dynamic_names @ network_names (cf_NetworkProvider conf)"
    "map a_Name tls = tls_names" "map a_Name etcd = etcd_names conf"
    using newStaticAssets_names [OF st] newDynamicAssets_names [OF dy] newTLSAssets_names [OF tls] etcd newEtcdTLSAssets_names [of C "nl_ParseIP nl" conf]
    by (auto simp: etcdAssets_def drawing_iff etcd_names_def split: if_splits)
  have have_tls: "set (tls_names @ etcd_names conf) \<subseteq> a_Name ` set (static @ dynamic @ tls @ etcd @ more)" for more
    unfolding names(3,4) [symmetric] by auto
  have "{AssetPathCACert, AssetPathAdminCert, AssetPathAdminKey} \<subseteq> a_Name ` set (static @ dynamic @ tls @ etcd)"
    using have_tls [of "[]"] by (auto simp: tls_names_def)
  from succeedsD [OF newKubeConfigAssets_succeeds [OF C _ this, of "with_subdir conf"], of n3] c(1)
  obtain kube n' where kube: "newKubeConfigAssets C (static @ dynamic @ tls @ etcd) (with_subdir conf) n3 = (Inr kube, n')" by auto
  have paths: "set (api_secret_paths conf) \<subseteq> a_Name ` set (static @ dynamic @ tls @ etcd @ kube)"
    "set cm_secret_paths \<subseteq> a_Name ` set (static @ dynamic @ tls @ etcd @ kube @ [x])" for x
    using subset_trans [OF secret_paths_present [of conf] have_tls [of kube]] by auto
  obtain b1 where "secretFromAssets Marshal secretAPIServerName secretNamespace (api_secret_paths conf) (static @ dynamic @ tls @ etcd @ kube) = Inr b1"
    using secret_asset_ok [OF M paths(1)] by blast
  then have s1: "newAPIServerSecretAsset Marshal (static @ dynamic @ tls @ etcd @ kube) (cf_EtcdUseTLS conf) = Inr (mkAsset AssetPathAPIServerSecret b1)"
    by (simp only: api_secret_def' sum.case)
  obtain b2 where "secretFromAssets Marshal secretCMName secretNamespace cm_secret_paths
      (static @ dynamic @ tls @ etcd @ kube @ [mkAsset AssetPathAPIServerSecret b1]) = Inr b2"
    using secret_asset_ok [OF M paths(2)] by blast
  then have s2: "newControllerManagerSecretAsset Marshal (static @ dynamic @ tls @ etcd @ kube @ [mkAsset AssetPathAPIServerSecret b1]) = Inr (mkAsset AssetPathControllerManagerSecret b2)"
    by (simp only: newControllerManagerSecretAsset_def cm_secret_paths_def sum.case)
  from st dy an ca tls etcd kube s1 s2
  have "NewDefaultAssets C nl Marshal conf n =
      (Inr (static @ dynamic @ tls @ etcd @ kube @ [mkAsset AssetPathAPIServerSecret b1, mkAsset AssetPathControllerManagerSecret b2]), n')"
    unfolding NewDefaultAssets_iff by blast
  moreover have "map a_Name kube = map fst kubeconfig_templates" by (rule newKubeConfigAssets_names [OF kube])
  ultimately show ?thesis using names by (simp add: asset_names_def)
qed


text \<open>
  C28: The templates are well typed. Data that has the fields and methods of the configuration,
  with printable values, booleans and lists where it has them, never makes a template of the
  control plane or of a network fail: it parses, it evaluates no missing field, prints no
  composite value, indexes no empty list, and gives the asset of that name. The values built
  from configurations with an API server and networks are such data.
\<close>

theorem templates_are_well_typed:
  assumes "(path, tmpl) \<in> set (control_plane_templates @ network_templates provider)"
  shows "(fits v config_shape \<longrightarrow> (\<exists>buf. assetFromTemplate path tmpl v = Inr (mkAsset path buf))) \<and>
     (cf_APIServers conf \<noteq> [] \<and> networks_set conf \<longrightarrow> fits (config_value nl conf) config_shape)"
proof -
  have "list_all (\<lambda>(name, tmpl). template_ok config_shape tmpl) (control_plane_templates @ network_templates provider)"
    using network_list_ok by (simp add: control_plane_templates_def control_plane_templates_ok)
  with assms have "template_ok config_shape tmpl" by (auto simp: list_all_iff)
  then show ?thesis using assetFromTemplate_ok config_fits by blast
qed

definition example_net_lib :: net_lib where
  "example_net_lib = \<lparr>
     nl_ParseIP = (\<lambda>s. if s = ''10.0.0.5'' then Some (replicate 10 0 @ [255, 255, 10, 0, 0, 5]) else None),
     nl_ParseCIDR = (\<lambda>s.
       if s = ''10.2.0.0/16'' then Inr ([10, 2, 0, 0], \<lparr>net_IP = [10, 2, 0, 0], net_Mask = [255, 255, 0, 0]\<rparr>)
       else if s = ''10.3.0.0/24'' then Inr ([10, 3, 0, 0], \<lparr>net_IP = [10, 3, 0, 0], net_Mask = [255, 255, 255, 0]\<rparr>)
       else Inl (Err (''invalid CIDR address: '' @ s))),
     nl_urlParse = (\<lambda>s.
       if s = ''https://node1.example.com:6443'' then Inr \<lparr>u_Scheme = ''https'', u_Host = ''node1.example.com:6443'', u_Path = '''', u_String = s\<rparr>
       else if s = ''https://10.0.0.5:2379'' then Inr \<lparr>u_Scheme = ''https'', u_Host = ''10.0.0.5:2379'', u_Path = '''', u_String = s\<rparr>
       else Inl (Err (''parse '' @ s))),
     nl_IPString = (\<lambda>_. ''address''),
     nl_IPNetString = (\<lambda>_. ''network'')\<rparr>"

definition example_conf :: Config where
  "example_conf = \<lparr>cf_ClusterName = ''example'', cf_EtcdCACert = None, cf_EtcdClientCert = None, cf_EtcdClientKey = None,
     cf_EtcdServers = [], cf_EtcdUseTLS = True,
     cf_APIServers = [\<lparr>u_Scheme = ''https'', u_Host = ''node1:6443'', u_Path = '''', u_String = ''https://node1:6443''\<rparr>],
     cf_CACert = None, cf_CAPrivKey = None, cf_AltNames = Some emptyAltNames,
     cf_PodCIDRs = [\<lparr>net_IP = [10, 2, 0, 0], net_Mask = [255, 255, 0, 0]\<rparr>],
     cf_ServiceCIDRs = [\<lparr>net_IP = [10, 3, 0, 0], net_Mask = [255, 255, 255, 0]\<rparr>], cf_APIServiceIPs = [[10, 3, 0, 1]],
     cf_DNSServiceIPs = [[10, 3, 0, 10]], cf_CloudProvider = '''', cf_NetworkProvider = NetworkCanal,
     cf_BootstrapSecretsSubdir = '''', cf_Images = DefaultImages, cf_PodCIDR = None, cf_ServiceCIDR = None,
     cf_APIServiceIP = [], cf_DNSServiceIP = []\<rparr>"

lemma example_conf_complete: "config_complete example_conf"
  by (simp add: config_complete_def example_conf_def networks_set_def)

theorem templates_are_well_typed_witness:
  "\<exists>buf. assetFromTemplate AssetPathAPIServer APIServerTemplate (config_value example_net_lib example_conf) = Inr (mkAsset AssetPathAPIServer buf)"
proof -
  have "(AssetPathAPIServer, APIServerTemplate) \<in> set (control_plane_templates @ network_templates NetworkCanal)"
    by (simp add: control_plane_templates_def)
  from templates_are_well_typed [OF this] show ?thesis
    using example_conf_complete by (auto simp: config_complete_def)
qed

text \<open>
  A bootstrap token is one that Kubernetes accepts: an identifier of six and a secret of
  sixteen characters, all of them lower case letters or digits, whatever bytes are drawn.
\<close>

lemma bootstrap_token_format:
  assumes "crypto_ok C" "newBootstrapToken C n = (Inr (ident, secr), n')"
  shows "length ident = 6 \<and> length secr = 16 \<and> set (ident @ secr) \<subseteq> set ''0123456789abcdefghijklmnopqrstuvwxyz''"
proof -
  obtain token where token: "cr_Read C n 22 = Inr token"
    and eq: "ident @ secr = map (\<lambda>b. validBootstrapTokenChars ! (unat b mod length validBootstrapTokenChars)) token" "length ident = min 6 (length token)"
    using assms(2) by (auto simp: newBootstrapToken_def drawing_iff Let_def split: sum.splits)
  have "length token = 22" using assms(1) token by (auto simp: crypto_ok_def)
  moreover from this have "length (ident @ secr) = 22" using eq(1) by simp
  moreover have "validBootstrapTokenChars ! (unat b mod length validBootstrapTokenChars) \<in> set validBootstrapTokenChars" for b :: "8 word"
    by (intro nth_mem mod_less_divisor) (simp add: validBootstrapTokenChars_def)
  then have "set (ident @ secr) \<subseteq> set validBootstrapTokenChars" unfolding eq(1) by auto
  ultimately show ?thesis using eq(2) by (simp add: validBootstrapTokenChars_def)
qed

lemma bootstrap_token_format_witness:
  "\<exists>ident secr n'. newBootstrapToken symbolic_crypto 0 = (Inr (ident, secr), n') \<and> length ident = 6 \<and> length secr = 16"
proof -
  have "\<exists>ident secr n'. newBootstrapToken symbolic_crypto 0 = (Inr (ident, secr), n')"
    by (simp add: newBootstrapToken_def drawing_iff Let_def symbolic_crypto_def)
  with bootstrap_token_format [OF symbolic_crypto_ok] show ?thesis by metis
qed

section \<open>What the secrets hold\<close>

lemmas kubeconfig_paths = AssetPathAdminKubeConfig_def AssetPathKubeConfigInCluster_def AssetPathKubeletKubeConfig_def AssetPathKubeletBootstrapToken_def

definition possible_names :: "string list" where
  "possible_names = static_names @ dynamic_names @ network_names NetworkFlannel @ network_names NetworkCalico @ network_names NetworkCanal
     @ tls_names @ [AssetPathEtcdPeerCA, AssetPathEtcdPeerKey, AssetPathEtcdPeerCert, AssetPathEtcdServerCA, AssetPathEtcdServerKey,
       AssetPathEtcdServerCert, AssetPathEtcdClientCA, AssetPathEtcdClientKey, AssetPathEtcdClientCert]
     @ [AssetPathAdminKubeConfig, AssetPathKubeConfigInCluster, AssetPathKubeletKubeConfig, AssetPathKubeletBootstrapToken]"

lemma names_possible:
  "set (static_names @ dynamic_names @ network_names provider @ tls_names @ etcd_names conf @ map fst kubeconfig_templates) \<subseteq> set possible_names"
proof -
  have "set (network_names provider) \<subseteq> set (network_names NetworkFlannel @ network_names NetworkCalico @ network_names NetworkCanal)"
    by (cases "provider = NetworkFlannel"; cases "provider = NetworkCalico"; cases "provider = NetworkCanal") (simp_all add: network_names_def)
  moreover have "set (etcd_names conf @ map fst kubeconfig_templates) \<subseteq> set possible_names"
    by (auto simp: etcd_names_def kubeconfig_templates_def possible_names_def)
  ultimately show ?thesis by (auto simp: possible_names_def)
qed

lemma secret_names_new:
  "AssetPathAPIServerSecret \<notin> set possible_names" "AssetPathControllerManagerSecret \<notin> set possible_names"
  "AssetPathAPIServerSecret \<noteq> AssetPathControllerManagerSecret"
  by code_simp+

lemma secret_base_names: "distinct (map path_Base (api_secret_paths conf))" "distinct (map path_Base cm_secret_paths)"
proof -
  have "distinct (map path_Base (api_secret_paths conf))" if "cf_EtcdUseTLS conf"
    using that unfolding api_secret_paths_def if_P [OF that] by code_simp
  moreover have "distinct (map path_Base (api_secret_paths conf))" if "\<not> cf_EtcdUseTLS conf"
    using that unfolding api_secret_paths_def if_not_P [OF that] by code_simp
  ultimately show "distinct (map path_Base (api_secret_paths conf))" by blast
  show "distinct (map path_Base cm_secret_paths)" by code_simp
qed

lemma secretFromAssets_result:
  assumes "secretFromAssets Marshal name ns names as = Inr y" "distinct (map path_Base names)"
  shows "\<exists>sec. Marshal sec = Inr y \<and> sc_Metadata sec = [(''name'', name), (''namespace'', ns)] \<and>
     (\<forall>p \<in> set names. \<exists>a. Assets_Get as p = Inr a \<and> map_of (sc_Data sec) (path_Base p) = Some (EncodeToString (a_Data a)))"
proof -
  obtain d where "secretData as names [] = Inr d" "Marshal \<lparr>sc_ApiVersion = ''v1'', sc_Kind = ''Secret'',
       sc_Metadata = [(''name'', name), (''namespace'', ns)], sc_Type = ''Opaque'', sc_Data = d\<rparr> = Inr y"
    using assms(1) by (auto simp: secretFromAssets_def split: sum.splits)
  with secretData_result [OF this(1) assms(2)] show ?thesis by fastforce
qed

text \<open>Everything in the secret \<open>sec\<close>, stored at \<open>path\<close>, decodes to the asset it was made from.\<close>

definition secret_holds :: "(secret \<Rightarrow> go_error + bytes) \<Rightarrow> Assets \<Rightarrow> string \<Rightarrow> string \<Rightarrow> string list \<Rightarrow> bool" where
  "secret_holds Marshal as path name paths \<longleftrightarrow>
     (\<exists>stored sec. Assets_Get as path = Inr stored \<and> Marshal sec = Inr (a_Data stored) \<and>
        sc_Metadata sec = [(''name'', name), (''namespace'', ''kube-system'')] \<and>
        (\<forall>p \<in> set paths. \<exists>a v. Assets_Get as p = Inr a \<and> map_of (sc_Data sec) (path_Base p) = Some v \<and> DecodeString v = Some (a_Data a)))"

lemma secret_holdsI:
  assumes "secretFromAssets Marshal name secretNamespace names xs = Inr y" "distinct (map path_Base names)"
    and "Assets_Get as path = Inr (mkAsset path y)" "as = xs @ ys"
  shows "secret_holds Marshal as path name names"
proof -
  obtain sec where "Marshal sec = Inr y" "sc_Metadata sec = [(''name'', name), (''namespace'', ''kube-system'')]"
    and held: "\<forall>p \<in> set names. \<exists>a. Assets_Get xs p = Inr a \<and> map_of (sc_Data sec) (path_Base p) = Some (EncodeToString (a_Data a))"
    using secretFromAssets_result [OF assms(1,2)] by (auto simp: secretNamespace_def)
  moreover have "\<exists>a v. Assets_Get as p = Inr a \<and> map_of (sc_Data sec) (path_Base p) = Some v \<and> DecodeString v = Some (a_Data a)" if "p \<in> set names" for p
    using held that Get_append_found [of xs p _ ys] assms(4) by fastforce
  ultimately show ?thesis using assms(3) unfolding secret_holds_def by (intro exI [of _ "mkAsset path y"] exI [of _ sec]) simp
qed

text \<open>
  C29: The two secrets among the rendered assets hold exactly what their pods mount: every
  key and certificate the API server and the controller manager need is in their secret under
  the file's base name, and decoding it gives the bytes of the asset on disk.
\<close>

theorem rendered_secrets_hold_assets:
  assumes run: "NewDefaultAssets C nl Marshal conf n = (Inr as, n')"
  shows "secret_holds Marshal as AssetPathAPIServerSecret ''kube-apiserver'' (api_secret_paths conf) \<and>
     secret_holds Marshal as AssetPathControllerManagerSecret ''kube-controller-manager'' cm_secret_paths"
proof -
  from run [unfolded NewDefaultAssets_iff] obtain static dynamic an caKey caCert n1 tls n2 etcd n3 kube api cm where
    st: "newStaticAssets (cf_Images conf) = Inr static" and dy: "newDynamicAssets nl (with_subdir conf) = Inr dynamic"
    and tls: "newTLSAssets C caCert caKey (all_alt_names conf an) n1 = (Inr tls, n2)"
    and etcd: "etcdAssets C nl conf caCert caKey n2 = (Inr etcd, n3)"
    and kube: "newKubeConfigAssets C (static @ dynamic @ tls @ etcd) (with_subdir conf) n3 = (Inr kube, n')"
    and api: "newAPIServerSecretAsset Marshal (static @ dynamic @ tls @ etcd @ kube) (cf_EtcdUseTLS conf) = Inr api"
    and cm: "newControllerManagerSecretAsset Marshal (static @ dynamic @ tls @ etcd @ kube @ [api]) = Inr cm"
    and as: "as = static @ dynamic @ tls @ etcd @ kube @ [api, cm]" by (elim exE conjE) (rule that)
  let ?xs = "static @ dynamic @ tls @ etcd @ kube"
  have "map a_Name etcd = etcd_names conf"
    using etcd newEtcdTLSAssets_names [of C "nl_ParseIP nl" conf] by (auto simp: etcdAssets_def drawing_iff etcd_names_def split: if_splits)
  then have names: "map a_Name ?xs = static_names @ dynamic_names @ network_names (cf_NetworkProvider conf) @ tls_names
      @ etcd_names conf @ map fst kubeconfig_templates"
    using newStaticAssets_names [OF st] newDynamicAssets_names [OF dy] newTLSAssets_names [OF tls] newKubeConfigAssets_names [OF kube] by simp
  have new: "AssetPathAPIServerSecret \<notin> a_Name ` set ?xs" "AssetPathControllerManagerSecret \<notin> a_Name ` set ?xs"
    using secret_names_new(1,2) subsetD [OF names_possible, of _ "cf_NetworkProvider conf" conf] unfolding names [symmetric] by auto
  obtain y where y: "secretFromAssets Marshal secretAPIServerName secretNamespace (api_secret_paths conf) ?xs = Inr y" "api = mkAsset AssetPathAPIServerSecret y"
    using api unfolding api_secret_def' by (auto split: sum.splits)
  obtain z where z: "secretFromAssets Marshal secretCMName secretNamespace cm_secret_paths (?xs @ [api]) = Inr z" "cm = mkAsset AssetPathControllerManagerSecret z"
    using cm by (auto simp: newControllerManagerSecretAsset_def cm_secret_paths_def split: sum.splits)
  have "Assets_Get (?xs @ [api, cm]) AssetPathAPIServerSecret = Inr (mkAsset AssetPathAPIServerSecret y)"
    "Assets_Get (?xs @ [api, cm]) AssetPathControllerManagerSecret = Inr (mkAsset AssetPathControllerManagerSecret z)"
    unfolding Get_append_other [OF new(1)] Get_append_other [OF new(2)] y(2) z(2)
    using secret_names_new(3) by (simp_all add: Assets_Get_def)
  with as have got: "Assets_Get as AssetPathAPIServerSecret = Inr (mkAsset AssetPathAPIServerSecret y)"
    "Assets_Get as AssetPathControllerManagerSecret = Inr (mkAsset AssetPathControllerManagerSecret z)" by simp_all
  show ?thesis
    using secret_holdsI [OF y(1) secret_base_names(1) got(1), of "[api, cm]"] secret_holdsI [OF z(1) secret_base_names(2) got(2), of "[cm]"] as
    by (simp add: secretAPIServerName_def secretCMName_def)
qed


theorem rendered_secrets_hold_assets_witness:
  "\<exists>as n'. NewDefaultAssets symbolic_crypto example_net_lib (\<lambda>_. Inr ''secret'') example_conf 0 = (Inr as, n') \<and>
     secret_holds (\<lambda>_. Inr ''secret'') as AssetPathControllerManagerSecret ''kube-controller-manager'' cm_secret_paths"
proof -
  obtain as n' where "NewDefaultAssets symbolic_crypto example_net_lib (\<lambda>_. Inr ''secret'') example_conf 0 = (Inr as, n')"
    using default_assets_rendered [OF symbolic_crypto_works _ example_conf_complete, of "\<lambda>_. Inr ''secret''" example_net_lib 0] by auto
  with rendered_secrets_hold_assets [OF this] show ?thesis by blast
qed

end
