(* ===== verification/TemplateText.thy ===== *)
theory TemplateText
  imports GoTemplate
begin

text \<open>
  What templates without control structures give: texts and printed actions in turn. The
  text of such a template is written as segments, each a text with the action after it.
\<close>

fun no_open :: "string \<Rightarrow> bool" where
  "no_open [] = True"
| "no_open (c # s) = (\<not> (c = CHR ''{'' \<and> hasPrefix s ''{'') \<and> no_open s)"

lemma lex_no_open: "no_open s \<Longrightarrow> s = [] \<or> last s \<noteq> CHR ''{'' \<Longrightarrow> lex_items acc (s @ r) = lex_items (acc @ s) r"
proof (induction s arbitrary: acc)
  case (Cons c s)
  have "\<not> (c = CHR ''{'' \<and> hasPrefix (s @ r) ''{'')" using Cons.prems by (cases s) (auto simp: hasPrefix_def)
  then show ?case using Cons by (auto simp: lex_char split: if_splits)
qed simp

section \<open>Segments\<close>

fun seg_text :: "(string \<times> string) list \<Rightarrow> string \<Rightarrow> string" where
  "seg_text [] t = t"
| "seg_text ((x, a) # ss) t = x @ ''{{'' @ a @ ''}}'' @ seg_text ss t"

definition print_expr :: "string \<Rightarrow> expr option" where
  "print_expr a = (case action_of a of Some (APrint e) \<Rightarrow> Some e | _ \<Rightarrow> None)"

definition text_ok :: "string \<Rightarrow> bool" where
  "text_ok x \<longleftrightarrow> no_open x \<and> x \<noteq> [] \<and> last x \<noteq> CHR ''{''"

definition seg_ok :: "string \<times> string \<Rightarrow> bool" where
  "seg_ok s \<longleftrightarrow> text_ok (fst s) \<and> findClose (snd s @ ''}}'') = Some (snd s, []) \<and> \<not> hasPrefix (snd s) ''- '' \<and>
     print_expr (snd s) \<noteq> None"

definition seg_nodes :: "(string \<times> string) list \<Rightarrow> string \<Rightarrow> node list" where
  "seg_nodes ss t = concat (map (\<lambda>(x, a). [NText x, NAction (the (print_expr a))]) ss) @ [NText t]"

lemma seg_lex:
  "list_all seg_ok ss \<Longrightarrow> text_ok t \<Longrightarrow>
   lex_items [] (seg_text ss t) = Some (concat (map (\<lambda>(x, a). [IText x, IAct a]) ss), t)"
proof (induction ss)
  case Nil
  then show ?case using lex_no_open [of t "[]" "[]"] by (simp add: text_ok_def lex_items.simps(1))
next
  case (Cons s ss)
  obtain x a where s: "s = (x, a)" by (cases s)
  with Cons.prems have ok: "text_ok x" "findClose (a @ ''}}'') = Some (a, [])" "\<not> hasPrefix a ''- ''" by (simp_all add: seg_ok_def)
  have "lex_items [] (seg_text (s # ss) t) = lex_items x (CHR ''{'' # CHR ''{'' # (a @ ''}}'') @ seg_text ss t)"
    using lex_no_open [of x "[]"] ok(1) by (simp add: s text_ok_def)
  also have "\<dots> = Some ([IText x, IAct a] @ concat (map (\<lambda>(x, a). [IText x, IAct a]) ss), t)"
    unfolding lex_open findClose_append [OF ok(2)] using Cons ok(3) by (simp add: opened_def)
  finally show ?case by (simp add: s)
qed

lemma seg_build:
  "list_all seg_ok ss \<Longrightarrow> t \<noteq> [] \<Longrightarrow> build (concat (map (\<lambda>(x, a). [IText x, IAct a]) ss) @ [IText t]) cur [] = Some (cur @ seg_nodes ss t)"
proof (induction ss arbitrary: cur)
  case (Cons s ss)
  obtain x a where s: "s = (x, a)" by (cases s)
  with Cons.prems obtain e where "x \<noteq> []" "action_of a = Some (APrint e)" "print_expr a = Some e"
    by (auto simp: seg_ok_def text_ok_def print_expr_def split: option.splits action.splits)
  then show ?case using Cons by (simp add: s seg_nodes_def)
qed (simp add: seg_nodes_def)

lemma seg_Parse: "list_all seg_ok ss \<Longrightarrow> text_ok t \<Longrightarrow> template_Parse (seg_text ss t) = Inr (seg_nodes ss t)"
  using seg_build [of ss t "[]"] by (simp add: template_Parse_def seg_lex text_ok_def)

text \<open>What the actions print, and the text with it filled in.\<close>

definition prints :: "gval \<Rightarrow> string \<Rightarrow> string \<Rightarrow> bool" where
  "prints data a out \<longleftrightarrow> (\<exists>v. eval data [] (the (print_expr a)) = Inr v \<and> print_value v = Inr out)"

fun fill :: "(string \<times> string) list \<Rightarrow> string \<Rightarrow> string list \<Rightarrow> string" where
  "fill ((x, a) # ss) t (out # outs) = x @ out @ fill ss t outs"
| "fill _ t _ = t"

lemma seg_Execute:
  "list_all2 (\<lambda>s out. prints data (snd s) out) ss outs \<Longrightarrow> template_Execute (seg_nodes ss t) data = Inr (fill ss t outs)"
proof (induction ss t outs rule: fill.induct)
  case (1 x a ss t out outs)
  then show ?case by (auto simp: template_Execute_def seg_nodes_def prints_def)
qed (auto simp: template_Execute_def seg_nodes_def)

section \<open>Lines without actions\<close>

lemma no_open_append: "no_open x \<Longrightarrow> no_open y \<Longrightarrow> x = [] \<or> last x \<noteq> CHR ''{'' \<Longrightarrow> no_open (x @ y)"
proof (induction x)
  case (Cons c s)
  show ?case
  proof (cases s)
    case Nil
    then show ?thesis using Cons.prems by simp
  next
    case (Cons d r)
    then have "hasPrefix (s @ y) ''{'' = hasPrefix s ''{''" by (simp add: hasPrefix_def)
    then show ?thesis using Cons.IH Cons.prems Cons by simp
  qed
qed simp

lemma no_open_lines: "list_all (\<lambda>l. no_open (l @ [CHR 0x0A])) ls \<Longrightarrow> no_open (template_text ls) \<and> (ls = [] \<or> last (template_text ls) = CHR 0x0A)"
proof (induction ls)
  case (Cons l ls)
  have "template_text (l # ls) = (l @ [CHR 0x0A]) @ template_text ls" by (simp add: template_text_def)
  then show ?case using Cons no_open_append [of "l @ [CHR 0x0A]" "template_text ls"]
    by (cases "template_text ls = []") (auto simp: template_text_def)
qed (simp add: template_text_def)

text \<open>A template with one action: the text before it, the action, the text after it.\<close>

lemma one_action_template:
  assumes plain: "list_all (\<lambda>l. no_open (l @ [CHR 0x0A])) before" "list_all (\<lambda>l. no_open (l @ [CHR 0x0A])) after"
    and line: "text_ok pre" "no_open (post @ [CHR 0x0A])" and act: "seg_ok (pre, act)" "print_expr act = Some e"
  shows "template_Parse (template_text (before @ (pre @ ''{{'' @ act @ ''}}'' @ post) # after)) =
     Inr [NText (template_text before @ pre), NAction e, NText (post @ CHR 0x0A # template_text after)]"
proof -
  let ?x = "template_text before @ pre" and ?t = "post @ CHR 0x0A # template_text after"
  have "text_ok ?x" using no_open_lines [OF plain(1)] line(1) unfolding text_ok_def
    by (cases "before = []") (auto simp: template_text_def intro!: no_open_append)
  then have "seg_ok (?x, act)" using act(1) by (simp add: seg_ok_def)
  moreover have "text_ok ?t" using no_open_append [OF line(2) conjunct1 [OF no_open_lines [OF plain(2)]]] no_open_lines [OF plain(2)]
    unfolding text_ok_def by (cases "after = []") (auto simp: template_text_def)
  ultimately have "template_Parse (seg_text [(?x, act)] ?t) = Inr (seg_nodes [(?x, act)] ?t)" by (intro seg_Parse) simp_all
  moreover have "seg_text [(?x, act)] ?t = template_text (before @ (pre @ ''{{'' @ act @ ''}}'' @ post) # after)"
    by (simp add: template_text_def)
  ultimately show ?thesis using act(2) by (simp add: seg_nodes_def)
qed

end
