(* ===== verification/AssetHost.thy ===== *)
theory AssetHost
  imports Assets
begin

text \<open>
  When writing assets cannot fail: on a host whose operating system refuses nothing, into a
  directory that is empty or does not exist yet, if no asset's name is a directory of another.
\<close>

definition healthy :: "fs \<Rightarrow> bool" where
  "healthy s \<longleftrightarrow> (\<forall>opr k. faults s opr k = None)"

definition is_file :: "node option \<Rightarrow> bool" where
  "is_file n \<longleftrightarrow> n \<noteq> None \<and> \<not> is_dir n"

text \<open>A file can be put at \<open>k\<close>: no file is on the way, and no directory is there.\<close>

definition room :: "fs \<Rightarrow> key \<Rightarrow> bool" where
  "room s k \<longleftrightarrow> (\<forall>k'. strict_prefix k' k \<longrightarrow> \<not> is_file (fs_node s k')) \<and> \<not> is_dir (fs_node s k)"

lemma is_file_simps [simp]: "\<not> is_file None" "is_file (Some (NFile d m))" "\<not> is_file (Some (NDir m))" "is_file (Some x) \<longleftrightarrow> \<not> is_dir (Some x)"
  by (simp_all add: is_file_def)

lemma healthy_fault: "healthy s \<Longrightarrow> same_env s s' \<Longrightarrow> fs_fault s' opr k = None"
  by (simp add: healthy_def fs_fault_def same_env_def)

lemma MkdirAll_result:
  assumes "healthy s" "\<And>k'. prefix k' (fs_key s p) \<Longrightarrow> \<not> is_file (fs_node s k')"
  obtains s' where "os_MkdirAll s p mode = (s', None)" "same_env s s'" "\<And>k'. prefix k' (fs_key s p) \<Longrightarrow> is_dir (fs_node s' k')"
    "\<And>k. fs_node s' k = fs_node s k \<or> prefix k (fs_key s p) \<and> is_dir (fs_node s' k)"
proof -
  have free: "list_all (\<lambda>k. fs_node s k = None \<or> is_dir (fs_node s k)) (prefixes (fs_key s p))"
    using assms(2) by (auto simp: list_all_iff is_file_def)
  have ok: "snd (mkdirs mode s (prefixes (fs_key s p))) = None \<and>
      list_all (\<lambda>k. is_dir (fs_node (fst (mkdirs mode s (prefixes (fs_key s p)))) k)) (prefixes (fs_key s p))"
    using assms(1) by (intro mkdirs_succeeds [OF _ free]) (simp add: healthy_def)
  obtain s' r where run: "mkdirs mode s (prefixes (fs_key s p)) = (s', r)" by fastforce
  show ?thesis
  proof (rule that [of s'])
    show "os_MkdirAll s p mode = (s', None)" using run ok by (simp add: os_MkdirAll_def)
    show "same_env s s'" using mkdirs_env [of s mode "prefixes (fs_key s p)"] run by simp
    show "is_dir (fs_node s' k')" if "prefix k' (fs_key s p)" for k' using ok run that by (simp add: list_all_iff)
    show "fs_node s' k = fs_node s k \<or> prefix k (fs_key s p) \<and> is_dir (fs_node s' k)" for k
      using mkdirs_new [of mode s "prefixes (fs_key s p)" k] run by (auto simp: new_dir_def)
  qed
qed

lemma WriteFile_result:
  assumes "healthy s" "is_dir (fs_node s (butlast (fs_key s f)))" "\<not> is_dir (fs_node s (fs_key s f))"
  obtains s' where "ioutil_WriteFile s f d mode = (s', None)" "is_file (fs_node s' (fs_key s f))"
proof -
  have ok: "snd (ioutil_WriteFile s f d mode) = None"
  proof (cases "fs_node s (fs_key s f)")
    case None
    have "parent_error s f (fs_key s f) = None" using assms(2) by (simp add: parent_error_None)
    then show ?thesis using None healthy_fault [OF assms(1) same_env_refl]
      by (simp add: ioutil_WriteFile_def os_OpenFile_def file_Write_def new_file_def Let_def)
  next
    case (Some x)
    then obtain old m where "x = NFile old m" using assms(3) by (cases x) auto
    then show ?thesis using Some healthy_fault [OF assms(1) same_env_refl]
      by (simp add: ioutil_WriteFile_def os_OpenFile_def file_Write_def Let_def)
  qed
  obtain s' where s': "ioutil_WriteFile s f d mode = (s', None)" using ok by (metis prod.collapse)
  have "content s' (fs_key s f) = Some d" using truncating.wr_content [of s f d mode] s' by simp
  then have "is_file (fs_node s' (fs_key s f))" by (auto simp: content_def split: option.splits node.splits)
  with s' show ?thesis by (rule that)
qed

text \<open>Where the file of an asset and its directory are.\<close>

lemma asset_file:
  assumes "bs \<noteq> []" "list_all plain_comp bs" "plain_asset a"
  obtains ds n where "asset_path a = ds @ [n]"
    "fs_key s (path_Dir (path_Join [slash # joinWith slash bs, a_Name a])) = bs @ ds"
    "fs_key s (path_Join [slash # joinWith slash bs, a_Name a]) = bs @ ds @ [n]"
proof -
  let ?f = "path_Join [slash # joinWith slash bs, a_Name a]"
  obtain ds n where dn: "asset_path a = ds @ [n]" by (metis asset_path_def splitOn_not_Nil rev_exhaust)
  then have pl: "list_all plain_comp (bs @ ds)" "plain_comp n" using assms by (simp_all add: plain_asset_def)
  have "a_Name a = joinWith slash (asset_path a)" by (simp add: asset_path_def)
  then have "?f = path_Join ((slash # joinWith slash bs) # asset_path a)" using dn by (cases "asset_path a") (simp_all add: path_Join_def joinWith_Cons)
  then have f: "?f = slash # joinWith slash ((bs @ ds) @ [n])" using assms by (simp add: path_Join_plain plain_asset_def dn)
  have dir: "path_Dir ?f = slash # joinWith slash (bs @ ds)"
    unfolding f by (rule path_Dir_abs) (use assms pl in auto)
  show thesis
  proof (rule that [OF dn])
    show "fs_key s (path_Dir ?f) = bs @ ds" unfolding dir using assms pl by (intro fs_key_abs) auto
    show "fs_key s ?f = bs @ ds @ [n]" unfolding f using assms pl by (subst fs_key_abs) auto
  qed
qed

text \<open>Writing one asset below an absolute directory succeeds and only adds what it needs.\<close>

lemma Asset_WriteFile_result:
  assumes s: "healthy s" and path: "bs \<noteq> []" "list_all plain_comp bs" and a: "plain_asset a" and room: "room s (bs @ asset_path a)"
  obtains s' where "Asset_WriteFile s (slash # joinWith slash bs) a = (s', None)" "same_env s s'"
    "\<And>k. fs_node s' k = fs_node s k \<or> strict_prefix k (bs @ asset_path a) \<and> is_dir (fs_node s' k) \<or> k = bs @ asset_path a \<and> is_file (fs_node s' k)"
proof -
  let ?path = "slash # joinWith slash bs" and ?k = "bs @ asset_path a"
  let ?f = "path_Join [?path, a_Name a]"
  obtain ds n where dn: "asset_path a = ds @ [n]" and dkey: "fs_key s (path_Dir ?f) = bs @ ds" by (rule asset_file [OF path a])
  have fkey: "fs_key s' ?f = ?k" for s' by (rule asset_file [OF path a, of s']) simp
  have below: "strict_prefix k' ?k \<longleftrightarrow> prefix k' (bs @ ds)" for k'
    unfolding dn append_assoc [symmetric] strict_prefix_def prefix_snoc
    by (metis append_self_conv not_Cons_self2 prefix_append prefix_order.antisym prefixI)
  obtain s1 where m: "os_MkdirAll s (path_Dir ?f) 493 = (s1, None)" "same_env s s1" "\<And>k'. prefix k' (bs @ ds) \<Longrightarrow> is_dir (fs_node s1 k')"
    "\<And>k. fs_node s1 k = fs_node s k \<or> prefix k (bs @ ds) \<and> is_dir (fs_node s1 k)"
    using MkdirAll_result [OF s, of "path_Dir ?f" 493] room below unfolding dkey room_def by metis
  have at_k: "fs_node s1 ?k = fs_node s ?k" using m(4) [of ?k] below [of ?k] by auto
  have h1: "healthy s1" using s m(2) by (simp add: healthy_def same_env_def)
  obtain s2 where w: "ioutil_WriteFile s1 ?f (a_Data a) 384 = (s2, None)" "is_file (fs_node s2 ?k)"
    using WriteFile_result [OF h1, of ?f "a_Data a" 384] m(3) [of "bs @ ds"] room at_k unfolding fkey room_def dn by (auto simp: butlast_append)
  show ?thesis
  proof (rule that [of s2])
    show "Asset_WriteFile s ?path a = (s2, None)" using m(1) w(1) by (simp add: Asset_WriteFile_def Let_def)
    show "same_env s s2" using WriteFile_env [of s ?path a] m(1) w(1) by (simp add: Asset_WriteFile_def Let_def)
    show "fs_node s2 k = fs_node s k \<or> strict_prefix k ?k \<and> is_dir (fs_node s2 k) \<or> k = ?k \<and> is_file (fs_node s2 k)" for k
    proof (cases "k = ?k")
      case False
      then have "fs_node s2 k = fs_node s1 k" using ioutil_WriteFile_frame [of k s1 ?f "a_Data a" 384] w(1) fkey by simp
      then show ?thesis using m(4) [of k] below by metis
    qed (use w(2) in simp)
  qed
qed

text \<open>No asset is a directory of another.\<close>

definition files_apart :: "Assets \<Rightarrow> bool" where
  "files_apart as \<longleftrightarrow> (\<forall>a \<in> set as. \<forall>b \<in> set as. \<not> strict_prefix (asset_path a) (asset_path b))"

lemma writeAll_succeeds:
  assumes "healthy s" "bs \<noteq> []" "list_all plain_comp bs" "list_all plain_asset as" "files_apart as" "\<forall>a \<in> set as. room s (bs @ asset_path a)"
  shows "snd (writeAll s (slash # joinWith slash bs) as) = None"
  using assms(1,4-6)
proof (induction as arbitrary: s)
  case (Cons a as)
  then obtain s' where w: "Asset_WriteFile s (slash # joinWith slash bs) a = (s', None)" "same_env s s'"
    and new: "\<And>k. fs_node s' k = fs_node s k \<or> strict_prefix k (bs @ asset_path a) \<and> is_dir (fs_node s' k) \<or> k = bs @ asset_path a \<and> is_file (fs_node s' k)"
    using Asset_WriteFile_result [OF Cons.prems(1) assms(2,3), of a] by auto
  have "room s' (bs @ asset_path b)" if b: "b \<in> set as" for b
  proof -
    have apart: "\<not> strict_prefix (bs @ asset_path a) (bs @ asset_path b)" "\<not> strict_prefix (bs @ asset_path b) (bs @ asset_path a)"
      using Cons.prems(3) b by (auto simp: files_apart_def strict_prefix_def)
    have r: "room s (bs @ asset_path b)" using Cons.prems(4) b by simp
    show ?thesis unfolding room_def
    proof (intro conjI allI impI)
      fix k' assume k': "strict_prefix k' (bs @ asset_path b)"
      then show "\<not> is_file (fs_node s' k')" using new [of k'] r apart(1) unfolding room_def by (auto simp: is_file_def)
      next
      show "\<not> is_dir (fs_node s' (bs @ asset_path b))" using new [of "bs @ asset_path b"] r apart(2) unfolding room_def by (auto simp: is_file_def)
    qed
  qed
  moreover have "healthy s'" using Cons.prems(1) w(2) by (simp add: healthy_def same_env_def)
  moreover have "files_apart as" using Cons.prems(3) by (simp add: files_apart_def)
  ultimately show ?case using Cons.IH [of s'] Cons.prems(2) w(1) by simp
qed simp

text \<open>The directory to write to is empty or missing, and no file is in its place or on the way to it.\<close>

definition fresh_dir :: "fs \<Rightarrow> key \<Rightarrow> bool" where
  "fresh_dir s k \<longleftrightarrow> (\<forall>k'. prefix k' k \<longrightarrow> \<not> is_file (fs_node s k')) \<and> children s k = []"

lemma fresh_missing:
  assumes "fs_wf s" "fresh_dir s bs" "r \<noteq> []"
  shows "fs_node s (bs @ r) = None"
proof -
  obtain x r' where r: "r = x # r'" using assms(3) by (cases r) auto
  have "fs_node s (bs @ [x]) = None" using assms(2) node_child [of s bs x] unfolding fresh_dir_def by fastforce
  then show ?thesis using ancestor_exists [OF assms(1), of "bs @ [x]" r'] r by (cases "fs_node s (bs @ r)") auto
qed

lemma WriteFiles_succeeds:
  assumes s: "healthy s" and wf: "fs_wf s" and path: "bs \<noteq> []" "list_all plain_comp bs" and fresh: "fresh_dir s bs"
    and as: "list_all plain_asset as" "files_apart as"
  shows "snd (Assets_WriteFiles s as (slash # joinWith slash bs)) = None"
proof -
  let ?path = "slash # joinWith slash bs"
  have key: "fs_key s' ?path = bs" for s' by (rule fs_key_abs [OF path])
  obtain s1 where m: "os_MkdirAll s ?path 493 = (s1, None)" "same_env s s1" "\<And>k'. prefix k' bs \<Longrightarrow> is_dir (fs_node s1 k')"
    "\<And>k. fs_node s1 k = fs_node s k \<or> prefix k bs \<and> is_dir (fs_node s1 k)"
    using MkdirAll_result [OF s, of ?path 493] fresh unfolding key fresh_dir_def by metis
  have h1: "healthy s1" using s m(2) by (simp add: healthy_def same_env_def)
  have "\<not> prefix (bs @ r) bs" if "r \<noteq> []" for r using that by (metis append_self_conv prefix_order.antisym prefixI)
  then have gone: "fs_node s1 (bs @ r) = None" if "r \<noteq> []" for r using m(4) [of "bs @ r"] fresh_missing [OF wf fresh that] that by auto
  have "children s1 bs = []" using gone children_iff [of _ s1 bs] by (metis list.distinct(1) list.set_intros(1) neq_Nil_conv)
  moreover have "is_dir (fs_node s1 bs)" using m(3) [of bs] by simp
  ultimately have rd: "ioutil_ReadDir s1 ?path = Inr []"
    using healthy_fault [OF h1 same_env_refl]
    by (auto simp: ioutil_ReadDir_def key Let_def is_dir_def sort_Strings_def split: option.splits node.splits)
  have "room s1 (bs @ asset_path a)" for a
  proof -
    have ne: "asset_path a \<noteq> []" by (simp add: asset_path_def splitOn_not_Nil)
    have "\<not> is_file (fs_node s1 k')" if k': "strict_prefix k' (bs @ asset_path a)" for k'
    proof (cases "prefix k' bs")
      case True
      then have "is_dir (fs_node s1 k')" by (rule m(3))
      then show ?thesis by (simp add: is_file_def)
    next
      case False
      then obtain r where "k' = bs @ r" "r \<noteq> []" using k' unfolding strict_prefix_def prefix_append by (metis append_Nil2 prefix_order.refl)
      show ?thesis
      proof (cases r)
        case (Cons x r') then show ?thesis using gone [of r] \<open>k' = bs @ r\<close> by simp
      qed (use \<open>r \<noteq> []\<close> in simp)
    qed
    then show ?thesis using gone [OF ne] by (simp add: room_def)
  qed
  then have "snd (writeAll s1 ?path as) = None" using writeAll_succeeds [OF h1 path as] by blast
  then show ?thesis using m(1) rd by (simp add: Assets_WriteFiles_def)
qed

end
