(* ===== verification/RecoveryEtcd.thy ===== *)
theory RecoveryEtcd
  imports RecoveryBackend RenderAssets TemplateText AssetHost
begin

text \<open>
  The pod that serves an etcd backup during a recovery: the helper operations of
  \<open>pkg/recovery/etcd.go\<close> and the templates of \<open>pkg/recovery/etcd_template.go\<close>. Only the first
  template is rendered by the program.
\<close>

section \<open>Templates\<close>

definition recoveryEtcdTemplate :: string where
  "recoveryEtcdTemplate = template_text [
     ''apiVersion: v1'',
     ''kind: Pod'',
     ''metadata:'',
     ''  name: recovery-etcd'',
     ''  namespace: kube-system'',
     ''  labels:'',
     ''    k8s-app: recovery-etcd'',
     ''spec:'',
     ''  initContainers:'',
     ''  - name: recovery'',
     ''    image: {{ .Image }}'',
     ''    command: '',
     ''    - /usr/local/bin/etcdctl'',
     ''    - snapshot'',
     ''    - restore'',
     ''    - --data-dir=/var/etcd/recovery'',
     ''    - --name=recovery-etcd'',
     ''    - --initial-cluster=recovery-etcd=http://localhost:52380'',
     ''    - --initial-cluster-token=bootkube-recovery'',
     ''    - --initial-advertise-peer-urls=http://localhost:52380'',
     ''    - --skip-hash-check=true'',
     ''    - /var/etcd-backupdir/{{ .BackupFile }}'',
     ''    env:'',
     ''    - name: ETCDCTL_API'',
     ''      value: \"3\"'',
     ''    volumeMounts:'',
     ''      - mountPath: /var/etcd'',
     ''        name: etcd'',
     ''        readOnly: false'',
     ''      - mountPath: /var/etcd-backupdir'',
     ''        name: etcdbackup'',
     ''        readOnly: false'',
     ''  containers:'',
     ''  - name: etcd'',
     ''    image: {{ .Image }}'',
     ''    command:'',
     ''    - /usr/local/bin/etcd'',
     ''    - --name=recovery-etcd'',
     ''    - --listen-client-urls={{ .ClientAddr }}'',
     ''    - --listen-peer-urls=http://0.0.0.0:52380'',
     ''    - --advertise-client-urls={{ .ClientAddr }}'',
     ''    - --data-dir=/var/etcd/recovery'',
     ''    volumeMounts:'',
     ''      - mountPath: /var/etcd'',
     ''        name: etcd'',
     ''        readOnly: false'',
     ''  hostNetwork: true'',
     ''  restartPolicy: Never'',
     ''  volumes:'',
     ''    - name: etcd'',
     ''      emptyDir: {}'',
     ''    - name: etcdbackup'',
     ''      hostPath:'',
     ''        path: {{ .BackupDir }}'']"

definition bootFromBackupEtcdTemplate :: string where
  "bootFromBackupEtcdTemplate = template_text [
     ''apiVersion: v1'',
     ''kind: Pod'',
     ''metadata:'',
     ''  name: bootstrap-etcd'',
     ''  namespace: kube-system'',
     ''  labels:'',
     ''    k8s-app: boot-etcd'',
     ''spec:'',
     ''  initContainers:'',
     ''  - name: recovery'',
     ''    image: {{ .Image }}'',
     ''    command:'',
     ''    - /bin/sh '',
     ''    - -ec'',
     ''    - |'',
     ''      etcdctl snapshot restore '' @ [CHR 0x5C],
     ''      /var/etcd-backupdir/{{ .BackupFile }} '' @ [CHR 0x5C],
     ''      --data-dir=/var/etcd/data '' @ [CHR 0x5C],
     ''      --name=boot-etcd '' @ [CHR 0x5C],
     ''      --initial-cluster=boot-etcd=https://{{ .BootEtcdServiceIP }}:12380 '' @ [CHR 0x5C],
     ''      --initial-cluster-token={{ .ClusterToken }} '' @ [CHR 0x5C],
     ''      --initial-advertise-peer-urls=https://{{ .BootEtcdServiceIP }}:12380 '' @ [CHR 0x5C],
     ''      --skip-hash-check=true '',
     ''    env:'',
     ''      - name: ETCDCTL_API'',
     ''        value: \"3\"'',
     ''    volumeMounts:'',
     ''        - mountPath: /var/etcd'',
     ''          name: etcd'',
     ''          readOnly: false'',
     ''        - mountPath: /var/etcd-backupdir'',
     ''          name: etcdbackup'',
     ''          readOnly: false'',
     ''  - name: cleanup'',
     ''    image: {{ .Image }}'',
     ''    command:'',
     ''    - /bin/sh '',
     ''    - -ec'',
     ''    - |'',
     ''      (/usr/local/bin/etcd '' @ [CHR 0x5C],
     ''      --listen-client-urls=http://0.0.0.0:32379 '' @ [CHR 0x5C],
     ''      --listen-peer-urls=http://0.0.0.0:32380 '' @ [CHR 0x5C],
     ''      --advertise-client-urls=http://localhost:32379 '' @ [CHR 0x5C],
     ''      --data-dir=/var/etcd/data &) && sleep 30 && '' @ [CHR 0x5C],
     ''      etcdctl '' @ [CHR 0x5C],
     ''      --endpoints=http://localhost:32379 '' @ [CHR 0x5C],
     ''      del {{ .CRDKey }} && '' @ [CHR 0x5C],
     ''      etcdctl '' @ [CHR 0x5C],
     ''      --endpoints=http://localhost:32379 '' @ [CHR 0x5C],
     ''      del --prefix {{ .MemberPodPrefix }}'',
     ''    env:'',
     ''      - name: ETCDCTL_API'',
     ''        value: \"3\"'',
     ''    volumeMounts:'',
     ''        - mountPath: /var/etcd'',
     ''          name: etcd'',
     ''          readOnly: false'',
     ''  containers:'',
     ''  - name: etcd'',
     ''    image: {{ .Image }}'',
     ''    command:'',
     ''    - /usr/local/bin/etcd'',
     ''    - --name=boot-etcd'',
     ''    - --listen-client-urls=https://0.0.0.0:12379'',
     ''    - --listen-peer-urls=https://0.0.0.0:12380'',
     ''    - --advertise-client-urls=https://{{ .BootEtcdServiceIP }}:12379'',
     ''    - --data-dir=/var/etcd/data'',
     ''    - --peer-client-cert-auth=true'',
     ''    - --peer-trusted-ca-file=/etc/kubernetes/secrets/etcd/peer-ca.crt'',
     ''    - --peer-cert-file=/etc/kubernetes/secrets/etcd/peer.crt'',
     ''    - --peer-key-file=/etc/kubernetes/secrets/etcd/peer.key'',
     ''    - --client-cert-auth=true'',
     ''    - --trusted-ca-file=/etc/kubernetes/secrets/etcd/server-ca.crt'',
     ''    - --cert-file=/etc/kubernetes/secrets/etcd/server.crt'',
     ''    - --key-file=/etc/kubernetes/secrets/etcd/server.key'',
     ''    volumeMounts:'',
     ''      - mountPath: /var/etcd'',
     ''        name: etcd'',
     ''        readOnly: false'',
     ''      - mountPath: /etc/kubernetes/secrets'',
     ''        name: secrets'',
     ''        readOnly: true'',
     ''  hostNetwork: true'',
     ''  dnsPolicy: ClusterFirstWithHostNet'',
     ''  restartPolicy: Never'',
     ''  volumes:'',
     ''    - name: etcd'',
     ''      emptyDir: {}'',
     ''    - name: etcdbackup'',
     ''      hostPath:'',
     ''        path: {{ .BackupDir }}'',
     ''    - name: secrets'',
     ''      hostPath:'',
     ''        path: /etc/kubernetes/bootstrap-secrets'']"

definition recoveryEtcdSvcTemplate :: string where
  "recoveryEtcdSvcTemplate = template_text [
     ''{'',
     ''  \"apiVersion\": \"v1\",'',
     ''  \"kind\": \"Service\",'',
     ''  \"metadata\": {'',
     ''    \"name\": \"bootstrap-etcd-service\",'',
     ''    \"namespace\": \"kube-system\"'',
     ''  },'',
     ''  \"spec\": {'',
     ''    \"selector\": {'',
     ''      \"k8s-app\": \"boot-etcd\"'',
     ''    },'',
     ''    \"clusterIP\": \"{{ .BootEtcdServiceIP }}\",'',
     ''    \"ports\": ['',
     ''      {'',
     ''        \"name\": \"client\",'',
     ''        \"port\": 12379,'',
     ''        \"protocol\": \"TCP\"'',
     ''      },'',
     ''      {'',
     ''        \"name\": \"peers\",'',
     ''        \"port\": 12380,'',
     ''        \"protocol\": \"TCP\"'',
     ''      }'',
     ''    ]'',
     ''  }''] @ ''}''"

definition recovery_segments :: "(string \<times> string) list" where
  "recovery_segments = [
     (template_text [
       ''apiVersion: v1'',
       ''kind: Pod'',
       ''metadata:'',
       ''  name: recovery-etcd'',
       ''  namespace: kube-system'',
       ''  labels:'',
       ''    k8s-app: recovery-etcd'',
       ''spec:'',
       ''  initContainers:'',
       ''  - name: recovery''] @ ''    image: '', '' .Image ''),
     (template_text [
       '''',
       ''    command: '',
       ''    - /usr/local/bin/etcdctl'',
       ''    - snapshot'',
       ''    - restore'',
       ''    - --data-dir=/var/etcd/recovery'',
       ''    - --name=recovery-etcd'',
       ''    - --initial-cluster=recovery-etcd=http://localhost:52380'',
       ''    - --initial-cluster-token=bootkube-recovery'',
       ''    - --initial-advertise-peer-urls=http://localhost:52380'',
       ''    - --skip-hash-check=true''] @ ''    - /var/etcd-backupdir/'', '' .BackupFile ''),
     (template_text [
       '''',
       ''    env:'',
       ''    - name: ETCDCTL_API'',
       ''      value: \"3\"'',
       ''    volumeMounts:'',
       ''      - mountPath: /var/etcd'',
       ''        name: etcd'',
       ''        readOnly: false'',
       ''      - mountPath: /var/etcd-backupdir'',
       ''        name: etcdbackup'',
       ''        readOnly: false'',
       ''  containers:'',
       ''  - name: etcd''] @ ''    image: '', '' .Image ''),
     (template_text [
       '''',
       ''    command:'',
       ''    - /usr/local/bin/etcd'',
       ''    - --name=recovery-etcd''] @ ''    - --listen-client-urls='', '' .ClientAddr ''),
     (template_text [
       '''',
       ''    - --listen-peer-urls=http://0.0.0.0:52380''] @ ''    - --advertise-client-urls='', '' .ClientAddr ''),
     (template_text [
       '''',
       ''    - --data-dir=/var/etcd/recovery'',
       ''    volumeMounts:'',
       ''      - mountPath: /var/etcd'',
       ''        name: etcd'',
       ''        readOnly: false'',
       ''  hostNetwork: true'',
       ''  restartPolicy: Never'',
       ''  volumes:'',
       ''    - name: etcd'',
       ''      emptyDir: {}'',
       ''    - name: etcdbackup'',
       ''      hostPath:''] @ ''        path: '', '' .BackupDir '')]"

text \<open>The manifest it should give.\<close>

definition recovery_pod :: "string \<Rightarrow> string \<Rightarrow> string \<Rightarrow> string" where
  "recovery_pod img file dir = template_text [
     ''apiVersion: v1'',
     ''kind: Pod'',
     ''metadata:'',
     ''  name: recovery-etcd'',
     ''  namespace: kube-system'',
     ''  labels:'',
     ''    k8s-app: recovery-etcd'',
     ''spec:'',
     ''  initContainers:'',
     ''  - name: recovery'',
     ''    image: '' @ img,
     ''    command: '',
     ''    - /usr/local/bin/etcdctl'',
     ''    - snapshot'',
     ''    - restore'',
     ''    - --data-dir=/var/etcd/recovery'',
     ''    - --name=recovery-etcd'',
     ''    - --initial-cluster=recovery-etcd=http://localhost:52380'',
     ''    - --initial-cluster-token=bootkube-recovery'',
     ''    - --initial-advertise-peer-urls=http://localhost:52380'',
     ''    - --skip-hash-check=true'',
     ''    - /var/etcd-backupdir/'' @ file,
     ''    env:'',
     ''    - name: ETCDCTL_API'',
     ''      value: \"3\"'',
     ''    volumeMounts:'',
     ''      - mountPath: /var/etcd'',
     ''        name: etcd'',
     ''        readOnly: false'',
     ''      - mountPath: /var/etcd-backupdir'',
     ''        name: etcdbackup'',
     ''        readOnly: false'',
     ''  containers:'',
     ''  - name: etcd'',
     ''    image: '' @ img,
     ''    command:'',
     ''    - /usr/local/bin/etcd'',
     ''    - --name=recovery-etcd'',
     ''    - --listen-client-urls='' @ ''http://localhost:52379'',
     ''    - --listen-peer-urls=http://0.0.0.0:52380'',
     ''    - --advertise-client-urls='' @ ''http://localhost:52379'',
     ''    - --data-dir=/var/etcd/recovery'',
     ''    volumeMounts:'',
     ''      - mountPath: /var/etcd'',
     ''        name: etcd'',
     ''        readOnly: false'',
     ''  hostNetwork: true'',
     ''  restartPolicy: Never'',
     ''  volumes:'',
     ''    - name: etcd'',
     ''      emptyDir: {}'',
     ''    - name: etcdbackup'',
     ''      hostPath:'',
     ''        path: '' @ dir]"

section \<open>Operations\<close>

definition assetPathRecoveryEtcd :: string where "assetPathRecoveryEtcd = ''recovery-etcd.yaml''"
definition etcdCRDKey :: string where "etcdCRDKey = ''etcd.database.coreos.com/etcdclusters/kube-system/kube-etcd''"
definition etcdMemberPodPrefix :: string where "etcdMemberPodPrefix = ''pods/kube-system/kube-etcd-''"
definition RecoveryEtcdClientAddr :: string where "RecoveryEtcdClientAddr = ''http://localhost:52379''"

record recoveryEtcdConfig =
  rc_Image :: string
  rc_BackupFile :: string
  rc_BackupDir :: string
  rc_ClientAddr :: string

definition recovery_value :: "recoveryEtcdConfig \<Rightarrow> gval" where
  "recovery_value c = GStruct None
     [(''Image'', Inr (GString (rc_Image c))), (''BackupFile'', Inr (GString (rc_BackupFile c))),
      (''BackupDir'', Inr (GString (rc_BackupDir c))), (''ClientAddr'', Inr (GString (rc_ClientAddr c)))]"

text \<open>A panic is an error that leaves the file system alone.\<close>

definition StartRecoveryEtcdForBackup :: "fs \<Rightarrow> string \<Rightarrow> string \<Rightarrow> fs \<times> go_error option" where
  "StartRecoveryEtcdForBackup s p backupPath =
     (case path_Split backupPath of (d, f) \<Rightarrow>
        (let config = \<lparr>rc_Image = im_Etcd DefaultImages, rc_BackupFile = f, rc_BackupDir = d, rc_ClientAddr = RecoveryEtcdClientAddr\<rparr>
         in case MustCreateAssetFromTemplate assetPathRecoveryEtcd recoveryEtcdTemplate (recovery_value config) of
              Inl e \<Rightarrow> (s, Some e)
            | Inr as \<Rightarrow> Asset_WriteFile s p as))"

definition CleanRecoveryEtcd :: "fs \<Rightarrow> string \<Rightarrow> fs \<times> go_error option" where
  "CleanRecoveryEtcd s p = os_Remove s (path_Join [p, assetPathRecoveryEtcd])"

section \<open>The rendered pod\<close>

lemma recoveryEtcdTemplate_segments: "recoveryEtcdTemplate = seg_text recovery_segments [CHR 0x0A]"
  by code_simp

lemma recovery_segments_ok: "list_all seg_ok recovery_segments" "text_ok [CHR 0x0A]"
  by code_simp+

lemma recovery_prints:
  "list_all2 (\<lambda>s out. prints (recovery_value c) (snd s) out) recovery_segments
     [rc_Image c, rc_BackupFile c, rc_Image c, rc_ClientAddr c, rc_ClientAddr c, rc_BackupDir c]"
proof -
  have "map (\<lambda>s. print_expr (snd s)) recovery_segments = map Some
      [EField [''Image''], EField [''BackupFile''], EField [''Image''], EField [''ClientAddr''], EField [''ClientAddr''], EField [''BackupDir'']]"
    by code_simp
  then show ?thesis by (simp add: recovery_segments_def prints_def recovery_value_def)
qed

lemma recovery_fill: "fill recovery_segments [CHR 0x0A] [img, file, img, ''http://localhost:52379'', ''http://localhost:52379'', dir] = recovery_pod img file dir"
  by (simp add: recovery_segments_def recovery_pod_def template_text_def)

lemma recovery_rendered:
  "assetFromTemplate name recoveryEtcdTemplate (recovery_value \<lparr>rc_Image = img, rc_BackupFile = file, rc_BackupDir = dir, rc_ClientAddr = RecoveryEtcdClientAddr\<rparr>)
     = Inr (mkAsset name (recovery_pod img file dir))"
proof -
  let ?c = "\<lparr>rc_Image = img, rc_BackupFile = file, rc_BackupDir = dir, rc_ClientAddr = RecoveryEtcdClientAddr\<rparr>"
  have "template_Parse recoveryEtcdTemplate = Inr (seg_nodes recovery_segments [CHR 0x0A])"
    unfolding recoveryEtcdTemplate_segments by (rule seg_Parse [OF recovery_segments_ok])
  moreover have "template_Execute (seg_nodes recovery_segments [CHR 0x0A]) (recovery_value ?c) = Inr (recovery_pod img file dir)"
    using seg_Execute [OF recovery_prints [of ?c], of "[CHR 0x0A]"] recovery_fill [of img "file" "dir"] by (simp add: RecoveryEtcdClientAddr_def)
  ultimately show ?thesis by (simp add: assetFromTemplate_def)
qed


lemma StartRecoveryEtcd_writes:
  assumes "path_Split backupPath = (dir, bfile)"
  shows "StartRecoveryEtcdForBackup s p backupPath =
     Asset_WriteFile s p (mkAsset assetPathRecoveryEtcd (recovery_pod (im_Etcd DefaultImages) bfile dir))"
  by (simp add: StartRecoveryEtcdForBackup_def assms Let_def MustCreateAssetFromTemplate_def recovery_rendered)

lemma recovery_etcd_key: "p \<noteq> '''' \<Longrightarrow> fs_key s (path_Join [p, assetPathRecoveryEtcd]) = fs_key s p @ [''recovery-etcd.yaml'']"
proof -
  assume "p \<noteq> ''''"
  moreover have "plain_comp ''recovery-etcd.yaml''" by code_simp
  ultimately show ?thesis unfolding assetPathRecoveryEtcd_def by (rule fs_key_Join2)
qed

lemma os_Remove_ok: "os_Remove s p = (s', None) \<Longrightarrow> fs_node s' (fs_key s p) = None"
proof (cases "fs_node s (fs_key s p)")
  case (Some x)
  moreover assume "os_Remove s p = (s', None)"
  ultimately show ?thesis by (cases x) (auto simp: os_Remove_def Let_def split: option.splits if_splits)
qed (auto simp: os_Remove_def Let_def split: option.splits)

section \<open>Properties\<close>

text \<open>
  Starting etcd for a recovery never panics: it puts one manifest into the kubelet's
  directory, the recovery pod with etcd's image, the name of the backup file and the directory
  that holds it filled in, and cleaning up removes exactly that manifest again.
\<close>

lemma recovery_etcd_pod_comes_and_goes:
  assumes "p \<noteq> ''''" and split: "path_Split backupPath = (dir, bfile)" and run: "StartRecoveryEtcdForBackup s p backupPath = (s1, None)"
  shows "content s1 (fs_key s p @ [''recovery-etcd.yaml'']) = Some (recovery_pod (im_Etcd DefaultImages) bfile dir) \<and>
     (\<forall>s2. CleanRecoveryEtcd s1 p = (s2, None) \<longrightarrow>
        (\<forall>k. content s2 k = (if k = fs_key s p @ [''recovery-etcd.yaml''] then None else content s k)))"
proof (intro conjI allI impI)
  let ?a = "mkAsset assetPathRecoveryEtcd (recovery_pod (im_Etcd DefaultImages) bfile dir)"
  have w: "Asset_WriteFile s p ?a = (s1, None)" using run unfolding StartRecoveryEtcd_writes [OF split] .
  note key = recovery_etcd_key [OF assms(1)]
  show "content s1 (fs_key s p @ [''recovery-etcd.yaml'']) = Some (recovery_pod (im_Etcd DefaultImages) bfile dir)"
    using WriteFile_ok [of s p ?a] w by (simp add: key)
  fix s2 k assume clean: "CleanRecoveryEtcd s1 p = (s2, None)"
  have key1: "fs_key s1 (path_Join [p, assetPathRecoveryEtcd]) = fs_key s p @ [''recovery-etcd.yaml'']"
    using same_env_key [OF WriteFile_env [of s p ?a]] w by (simp add: key)
  show "content s2 k = (if k = fs_key s p @ [''recovery-etcd.yaml''] then None else content s k)"
  proof (cases "k = fs_key s p @ [''recovery-etcd.yaml'']")
    case True
    then show ?thesis using os_Remove_ok [OF clean [unfolded CleanRecoveryEtcd_def]] by (simp add: key1 content_def)
  next
    case False
    then have "content s2 k = content s1 k" using os_Remove_frame [of k s1 "path_Join [p, assetPathRecoveryEtcd]"] clean
      by (simp add: CleanRecoveryEtcd_def key1 content_def)
    moreover have "content s1 k = content s k" using WriteFile_frame [of k s p ?a] False w by (simp add: key)
    ultimately show ?thesis using False by simp
  qed
qed

lemma recovery_etcd_pod_comes_and_goes_witness:
  "\<exists>s1. StartRecoveryEtcdForBackup empty_host ''/etc'' ''/backups/etcd.db'' = (s1, None) \<and>
     content s1 [''etc'', ''recovery-etcd.yaml''] = Some (recovery_pod ''quay.io/coreos/etcd:v3.3.12'' ''etcd.db'' ''/backups/'')"
proof -
  let ?a = "mkAsset assetPathRecoveryEtcd (recovery_pod (im_Etcd DefaultImages) ''etcd.db'' ''/backups/'')"
  have split: "path_Split ''/backups/etcd.db'' = (''/backups/'', ''etcd.db'')" by code_simp
  have dir: "list_all plain_comp [''etc'']" "slash # joinWith slash [''etc''] = ''/etc''" "plain_comp ''recovery-etcd.yaml''"
    "splitOn slash assetPathRecoveryEtcd = [''recovery-etcd.yaml'']" "fs_key empty_host ''/etc'' = [''etc'']" by code_simp+
  have healthy: "healthy empty_host" by (simp add: healthy_def empty_host_def)
  have "list_all (\<lambda>k. \<not> is_file (fs_node empty_host k)) (prefixes [''etc''])" "\<not> is_dir (fs_node empty_host [''etc'', ''recovery-etcd.yaml''])"
    by code_simp+
  then have room: "room empty_host ([''etc''] @ asset_path ?a)"
    by (auto simp: room_def asset_path_def dir(4) list_all_iff strict_prefix_def prefix_Cons)
  have plain: "plain_asset ?a" by (simp add: plain_asset_def asset_path_def dir(3,4))
  obtain s1 where "Asset_WriteFile empty_host (slash # joinWith slash [''etc'']) ?a = (s1, None)"
    by (rule Asset_WriteFile_result [OF healthy _ dir(1) plain room]) simp_all
  then have run: "StartRecoveryEtcdForBackup empty_host ''/etc'' ''/backups/etcd.db'' = (s1, None)"
    unfolding StartRecoveryEtcd_writes [OF split] dir(2) .
  from recovery_etcd_pod_comes_and_goes [OF _ split run] run show ?thesis by (auto simp: dir(5) DefaultImages_def)
qed

end
