(* ===== verification/RenderNames.thy ===== *)
theory RenderNames
  imports RenderAssets TemplateText
begin

text \<open>
  The names of the rendered assets: which are unique, that they are plain relative paths, and
  that assets of one name hold the same data, so that writing them loses nothing.
\<close>

section \<open>Names are unique, except with canal\<close>

definition full_etcd :: "string list" where
  "full_etcd = [AssetPathEtcdPeerCA, AssetPathEtcdPeerKey, AssetPathEtcdPeerCert, AssetPathEtcdServerCA, AssetPathEtcdServerKey,
     AssetPathEtcdServerCert, AssetPathEtcdClientCA, AssetPathEtcdClientKey, AssetPathEtcdClientCert]"

definition full_names :: "string \<Rightarrow> string list" where
  "full_names provider = static_names @ dynamic_names @ network_names provider @ tls_names @ full_etcd
     @ [AssetPathAdminKubeConfig, AssetPathKubeConfigInCluster, AssetPathKubeletKubeConfig, AssetPathKubeletBootstrapToken,
        AssetPathAPIServerSecret, AssetPathControllerManagerSecret]"

definition base_names :: "string list" where
  "base_names = static_names @ dynamic_names @ tls_names @ full_etcd
     @ [AssetPathAdminKubeConfig, AssetPathKubeConfigInCluster, AssetPathKubeletKubeConfig, AssetPathKubeletBootstrapToken,
        AssetPathAPIServerSecret, AssetPathControllerManagerSecret]"

lemma base_names_distinct: "distinct base_names"
  by code_simp

lemma network_names_distinct:
  "distinct (network_names NetworkFlannel)" "distinct (network_names NetworkCalico)" "\<not> distinct (network_names NetworkCanal)"
  "list_all (\<lambda>p. p \<notin> set base_names) (network_names NetworkFlannel)"
  "list_all (\<lambda>p. p \<notin> set base_names) (network_names NetworkCalico)"
  "list_all (\<lambda>p. p \<notin> set base_names) (network_names NetworkCanal)"
  by code_simp+

lemma network_names_other: "set (network_names provider) \<inter> set base_names = {}"
proof -
  have "network_names provider \<in> {network_names NetworkFlannel, network_names NetworkCalico, network_names NetworkCanal, []}"
    by (simp add: network_names_def)
  then show ?thesis using network_names_distinct(4-6) by (elim insertE emptyE) (auto simp: list_all_iff)
qed

lemma distinct_insert_list: "distinct (xs @ zs) \<Longrightarrow> distinct ys \<and> set ys \<inter> set (xs @ zs) = {} \<Longrightarrow> distinct (xs @ ys @ zs)"
  by auto

lemma full_names_distinct:
  assumes "provider \<noteq> NetworkCanal"
  shows "distinct (full_names provider)"
proof -
  have "network_names provider \<in> {network_names NetworkFlannel, network_names NetworkCalico, []}"
    using assms by (simp add: network_names_def)
  then have "distinct (network_names provider) \<and> set (network_names provider) \<inter> set base_names = {}"
    using network_names_distinct(1,2) network_names_other by (elim insertE emptyE) simp_all
  then show ?thesis
    using distinct_insert_list [of "static_names @ dynamic_names"
      "tls_names @ full_etcd @ [AssetPathAdminKubeConfig, AssetPathKubeConfigInCluster, AssetPathKubeletKubeConfig, AssetPathKubeletBootstrapToken,
        AssetPathAPIServerSecret, AssetPathControllerManagerSecret]" "network_names provider"] base_names_distinct
    unfolding full_names_def base_names_def append_assoc by blast
qed

lemma distinct_middle: "distinct (xs @ ys @ zs) \<Longrightarrow> distinct ys' \<Longrightarrow> set ys' \<subseteq> set ys \<Longrightarrow> distinct (xs @ ys' @ zs)"
  by auto

lemma asset_names_distinct: "distinct (asset_names conf) \<longleftrightarrow> cf_NetworkProvider conf \<noteq> NetworkCanal"
proof (cases "cf_NetworkProvider conf = NetworkCanal")
  case True
  then show ?thesis using network_names_distinct(3) by (auto simp: asset_names_def)
next
  case False
  then have "distinct (full_names (cf_NetworkProvider conf))" by (rule full_names_distinct)
  then have full: "distinct ((static_names @ dynamic_names @ network_names (cf_NetworkProvider conf) @ tls_names) @ full_etcd
     @ [AssetPathAdminKubeConfig, AssetPathKubeConfigInCluster, AssetPathKubeletKubeConfig, AssetPathKubeletBootstrapToken,
        AssetPathAPIServerSecret, AssetPathControllerManagerSecret])"
    by (simp only: full_names_def append_assoc)
  have sub: "distinct (etcd_names conf) \<and> set (etcd_names conf) \<subseteq> set full_etcd"
  proof -
    have "etcd_names conf \<in> {full_etcd, drop 6 full_etcd, []}" by (simp add: etcd_names_def full_etcd_def)
    moreover have "distinct full_etcd" by code_simp
    ultimately show ?thesis using set_drop_subset [of 6 full_etcd] by (elim insertE emptyE) simp_all
  qed
  from distinct_middle [OF full conjunct1 [OF sub] conjunct2 [OF sub]] show ?thesis using False by (simp only: asset_names_def kubeconfig_templates_def append_assoc list.map fst_conv append.simps simp_thms)
qed

lemma Get_member: "a \<in> set as \<Longrightarrow> distinct (map a_Name as) \<Longrightarrow> Assets_Get as (a_Name a) = Inr a"
proof -
  assume "a \<in> set as" "distinct (map a_Name as)"
  then have "List.find (\<lambda>b. a_Name b = a_Name a) as = Some a" by (intro find_unique) (auto simp: distinct_map dest: inj_onD)
  then show ?thesis by (simp add: Assets_Get_def)
qed

lemma mustCreateAll_member:
  "mustCreateAll v ts = Inr as \<Longrightarrow> (p, tmpl) \<in> set ts \<Longrightarrow> \<exists>a \<in> set as. assetFromTemplate p tmpl v = Inr a"
proof (induction ts arbitrary: as)
  case (Cons nt ts)
  then show ?case by (cases nt) (auto simp: MustCreateAssetFromTemplate_def split: sum.splits)
qed simp


section \<open>The deprecated pod network\<close>

lemma flannel_net_conf:
  "\<exists>a t. template_Parse FlannelCfgTemplate =
     Inr [NText (a @ ''      \"Network\": \"''), NAction (EField [''PodCIDR'']), NText (''\",'' @ t)]"
proof -
  obtain ls where ls: "FlannelCfgTemplate = template_text ls" and line: "ls ! 31 = ''      \"Network\": \"'' @ ''{{'' @ '' .PodCIDR '' @ ''}}'' @ ''\",''"
    and len: "31 < length ls" and plain: "list_all (\<lambda>l. no_open (l @ [CHR 0x0A])) (take 31 ls)" "list_all (\<lambda>l. no_open (l @ [CHR 0x0A])) (drop 32 ls)"
    by (rule that [OF FlannelCfgTemplate_def]) code_simp+
  have "ls = take 31 ls @ ls ! 31 # drop 32 ls" using len id_take_nth_drop by fastforce
  with ls line have eq: "FlannelCfgTemplate = template_text (take 31 ls @ (''      \"Network\": \"'' @ ''{{'' @ '' .PodCIDR '' @ ''}}'' @ ''\",'') # drop 32 ls)"
    by metis
  have "template_Parse FlannelCfgTemplate =
      Inr [NText (template_text (take 31 ls) @ ''      \"Network\": \"''), NAction (EField [''PodCIDR'']), NText (''\",'' @ CHR 0x0A # template_text (drop 32 ls))]"
    unfolding eq by (rule one_action_template [OF plain]) code_simp+
  then show ?thesis by (intro exI)
qed


section \<open>Rendered assets can be written\<close>

text \<open>
  With canal one definition is rendered twice, from the same template: assets of one name
  always hold the same data.
\<close>

definition single_valued_list :: "('a \<times> 'b) list \<Rightarrow> bool" where
  "single_valued_list ts \<longleftrightarrow> (\<forall>p t t'. (p, t) \<in> set ts \<longrightarrow> (p, t') \<in> set ts \<longrightarrow> t = t')"

lemma distinct_single_valued: "distinct (map fst ts) \<Longrightarrow> single_valued_list ts"
  unfolding single_valued_list_def by (metis eq_key_imp_eq_value)

lemma mustCreateAll_source:
  "mustCreateAll v ts = Inr as \<Longrightarrow> a \<in> set as \<Longrightarrow> \<exists>t. (a_Name a, t) \<in> set ts \<and> assetFromTemplate (a_Name a) t v = Inr a"
proof (induction ts arbitrary: as)
  case (Cons nt ts)
  obtain p t where nt: "nt = (p, t)" by (cases nt)
  with Cons.prems(1) obtain a0 as' where a0: "assetFromTemplate p t v = Inr a0" "mustCreateAll v ts = Inr as'" "as = a0 # as'"
    by (auto simp: MustCreateAssetFromTemplate_def split: sum.splits)
  then have "a_Name a0 = p" by (auto simp: assetFromTemplate_def split: sum.splits)
  then show ?case using Cons.IH [OF a0(2)] Cons.prems(2) a0 nt by auto
qed simp

lemma mustCreateAll_consistent:
  assumes "mustCreateAll v ts = Inr as" "single_valued_list ts"
  shows "consistent as"
  unfolding consistent_def
proof (intro ballI impI)
  fix a b assume "a \<in> set as" "b \<in> set as" and n: "a_Name a = a_Name b"
  then obtain t t' where "(a_Name a, t) \<in> set ts" "assetFromTemplate (a_Name a) t v = Inr a"
    "(a_Name b, t') \<in> set ts" "assetFromTemplate (a_Name b) t' v = Inr b" using mustCreateAll_source [OF assms(1)] by metis
  with assms(2) n have "a = b" unfolding single_valued_list_def by (metis sum.inject(2))
  then show "a_Data a = a_Data b" by simp
qed

lemma consistent_append:
  "consistent xs \<Longrightarrow> consistent ys \<Longrightarrow> a_Name ` set xs \<inter> a_Name ` set ys = {} \<Longrightarrow> consistent (xs @ ys)"
proof -
  assume x: "consistent xs" and y: "consistent ys" and dis: "a_Name ` set xs \<inter> a_Name ` set ys = {}"
  have "a_Data a = a_Data b" if "a \<in> set (xs @ ys)" "b \<in> set (xs @ ys)" "a_Name a = a_Name b" for a b
  proof -
    have "\<not> (a \<in> set xs \<and> b \<in> set ys)" "\<not> (a \<in> set ys \<and> b \<in> set xs)" using dis that(3) by (metis IntI empty_iff imageI)+
    moreover have "a \<in> set xs \<or> a \<in> set ys" "b \<in> set xs \<or> b \<in> set ys" using that(1,2) by auto
    ultimately consider "a \<in> set xs \<and> b \<in> set xs" | "a \<in> set ys \<and> b \<in> set ys" by blast
    then show ?thesis using x y that(3) unfolding consistent_def by cases blast+
  qed
  then show ?thesis unfolding consistent_def by blast
qed

lemma single_valued_set: "set xs = set ys \<Longrightarrow> single_valued_list ys \<Longrightarrow> single_valued_list xs"
  by (simp only: single_valued_list_def)

lemma network_single_valued: "single_valued_list (network_templates provider)"
proof (cases "provider = NetworkCanal")
  case True
  let ?once = "[(AssetPathCalicoCfg, CalicoCfgTemplate),
       (AssetPathCalicoRole, CalicoRoleTemplate),
       (AssetPathCalicoRoleBinding, CalicoRoleBindingTemplate),
       (AssetPathCalicoSA, CalicoServiceAccountTemplate),
       (AssetPathCalicoPolicyOnly, CalicoPolicyOnlyTemplate),
       (AssetPathCalicoBGPConfigurationsCRD, CalicoBGPConfigurationsCRD),
       (AssetPathCalicoBGPPeersCRD, CalicoBGPPeersCRD),
       (AssetPathCalicoFelixConfigurationsCRD, CalicoFelixConfigurationsCRD),
       (AssetPathCalicoGlobalNetworkPoliciesCRD, CalicoGlobalNetworkPoliciesCRD),
       (AssetPathCalicoGlobalNetworkSetsCRD, CalicoGlobalNetworkSetsCRD),
       (AssetPathCalicoNetworkPoliciesCRD, CalicoNetworkPoliciesCRD),
       (AssetPathCalicoClusterInformationsCRD, CalicoClusterInformationsCRD),
       (AssetPathCalicoIPPoolsCRD, CalicoIPPoolsCRD)]"
  have "set (network_templates provider) = set ?once"
    unfolding True by (simp add: network_templates_def NetworkFlannel_def NetworkCalico_def NetworkCanal_def) auto
  moreover have "distinct (map fst ?once)" by (simp only: list.map fst_conv) code_simp
  ultimately show ?thesis by (rule single_valued_set [OF _ distinct_single_valued])
next
  case False
  then have "distinct (map fst (network_templates provider))"
    using network_names_distinct(1,2) by (cases "provider = NetworkFlannel"; cases "provider = NetworkCalico") (simp_all add: network_names_def)
  then show ?thesis by (rule distinct_single_valued)
qed


lemma mustCreateAll_append:
  "mustCreateAll v (ts @ us) = Inr as \<Longrightarrow> \<exists>xs ys. as = xs @ ys \<and> mustCreateAll v ts = Inr xs \<and> mustCreateAll v us = Inr ys"
proof (induction ts arbitrary: as)
  case (Cons nt ts)
  obtain p t where nt: "nt = (p, t)" by (cases nt)
  with Cons.prems obtain a as' where a: "MustCreateAssetFromTemplate p t v = Inr a" "mustCreateAll v (ts @ us) = Inr as'" "as = a # as'"
    by (auto split: sum.splits)
  from Cons.IH [OF a(2)] obtain xs ys where "as' = xs @ ys" "mustCreateAll v ts = Inr xs" "mustCreateAll v us = Inr ys" by blast
  with a nt show ?case by (intro exI [of _ "a # xs"] exI [of _ ys]) simp
qed simp

lemma names_image: "map a_Name xs = ns \<Longrightarrow> a_Name ` set xs = set ns"
  by (metis image_set)

lemma disjoint_sub: "set xs \<inter> set ys = {} \<Longrightarrow> set ys' \<subseteq> set ys \<Longrightarrow> set xs \<inter> set ys' = {}"
  by blast

lemma dynamic_consistent:
  assumes "newDynamicAssets nl conf = Inr as"
  shows "consistent as"
proof -
  obtain xs ys where as: "as = xs @ ys" and x: "mustCreateAll (config_value nl conf) control_plane_templates = Inr xs"
    and y: "mustCreateAll (config_value nl conf) (network_templates (cf_NetworkProvider conf)) = Inr ys"
    using mustCreateAll_append assms unfolding newDynamicAssets_def by blast
  have "distinct dynamic_names" using base_names_distinct unfolding base_names_def distinct_append by blast
  moreover have "set dynamic_names \<subseteq> set base_names" unfolding base_names_def by auto
  ultimately have "consistent xs" and "set dynamic_names \<inter> set (network_names (cf_NetworkProvider conf)) = {}"
    using mustCreateAll_names [OF x] network_names_other [of "cf_NetworkProvider conf"] by (auto intro: distinct_consistent)
  then show ?thesis unfolding as
    using mustCreateAll_names [OF x] mustCreateAll_names [OF y] mustCreateAll_consistent [OF y network_single_valued]
    by (intro consistent_append) (simp_all add: names_image)
qed


lemma possible_names_plain:
  "list_all (\<lambda>p. list_all plain_comp (splitOn slash p)) (base_names @ network_names NetworkFlannel @ network_names NetworkCalico @ network_names NetworkCanal)"
  by code_simp

lemma asset_names_possible:
  "set (asset_names conf) \<subseteq> set (base_names @ network_names NetworkFlannel @ network_names NetworkCalico @ network_names NetworkCanal)"
proof -
  have "set (network_names provider) \<subseteq> set (network_names NetworkFlannel @ network_names NetworkCalico @ network_names NetworkCanal)" for provider
    by (cases "provider = NetworkFlannel"; cases "provider = NetworkCalico"; cases "provider = NetworkCanal") (simp_all add: network_names_def)
  moreover have "set (etcd_names conf) \<subseteq> set base_names" by (auto simp: etcd_names_def base_names_def full_etcd_def)
  moreover have "set static_names \<union> set dynamic_names \<union> set tls_names \<subseteq> set base_names" unfolding base_names_def by auto
  moreover have "set (map fst kubeconfig_templates @ [AssetPathAPIServerSecret, AssetPathControllerManagerSecret]) \<subseteq> set base_names"
    by (simp add: kubeconfig_templates_def base_names_def)
  ultimately show ?thesis unfolding asset_names_def set_append by blast
qed

lemma named_assets_plain:
  assumes "map a_Name as = asset_names conf"
  shows "list_all plain_asset as"
proof -
  have "list_all plain_comp (splitOn slash (a_Name a))" if "a \<in> set as" for a
    using subsetD [OF asset_names_possible [of conf], of "a_Name a"] possible_names_plain that names_image [OF assms]
    unfolding list_all_iff by blast
  then show ?thesis by (simp add: list_all_iff plain_asset_def asset_path_def)
qed


lemma NewDefaultAssets_split:
  assumes run: "NewDefaultAssets C nl Marshal conf n = (Inr as, n')"
  obtains static dynamic rest where "as = static @ dynamic @ rest" "newDynamicAssets nl (with_subdir conf) = Inr dynamic"
    "map a_Name static = static_names" "map a_Name dynamic = dynamic_names @ network_names (cf_NetworkProvider conf)"
    "map a_Name rest = tls_names @ etcd_names conf @ map fst kubeconfig_templates @ [AssetPathAPIServerSecret, AssetPathControllerManagerSecret]"
proof -
  from run [unfolded NewDefaultAssets_iff] obtain static dynamic an caKey caCert n1 tls n2 etcd n3 kube api cm where
    st: "newStaticAssets (cf_Images conf) = Inr static" and dy: "newDynamicAssets nl (with_subdir conf) = Inr dynamic"
    and tls: "newTLSAssets C caCert caKey (all_alt_names conf an) n1 = (Inr tls, n2)"
    and etcd: "etcdAssets C nl conf caCert caKey n2 = (Inr etcd, n3)"
    and kube: "newKubeConfigAssets C (static @ dynamic @ tls @ etcd) (with_subdir conf) n3 = (Inr kube, n')"
    and api: "newAPIServerSecretAsset Marshal (static @ dynamic @ tls @ etcd @ kube) (cf_EtcdUseTLS conf) = Inr api"
    and cm: "newControllerManagerSecretAsset Marshal (static @ dynamic @ tls @ etcd @ kube @ [api]) = Inr cm"
    and as: "as = static @ dynamic @ tls @ etcd @ kube @ [api, cm]" by (elim exE conjE) (rule that)
  have "map a_Name etcd = etcd_names conf"
    using etcd newEtcdTLSAssets_names [of C "nl_ParseIP nl" conf] by (auto simp: etcdAssets_def drawing_iff etcd_names_def split: if_splits)
  moreover have "a_Name api = AssetPathAPIServerSecret" "a_Name cm = AssetPathControllerManagerSecret"
    using api cm by (auto simp: newAPIServerSecretAsset_def newControllerManagerSecretAsset_def Let_def split: sum.splits)
  ultimately have "map a_Name (tls @ etcd @ kube @ [api, cm]) = tls_names @ etcd_names conf @ map fst kubeconfig_templates
      @ [AssetPathAPIServerSecret, AssetPathControllerManagerSecret]"
    using newTLSAssets_names [OF tls] newKubeConfigAssets_names [OF kube] by simp
  with that [OF as dy] newStaticAssets_names [OF st] newDynamicAssets_names [OF dy] show ?thesis by simp
qed

lemma NewDefaultAssets_names:
  "NewDefaultAssets C nl Marshal conf n = (Inr as, n') \<Longrightarrow> map a_Name as = asset_names conf"
  by (erule NewDefaultAssets_split) (simp add: asset_names_def)

lemma parts_distinct:
  "distinct static_names" "distinct (tls_names @ etcd_names conf @ map fst kubeconfig_templates @ [AssetPathAPIServerSecret, AssetPathControllerManagerSecret])"
  "set static_names \<inter> (set dynamic_names \<union> set (tls_names @ etcd_names conf @ map fst kubeconfig_templates @ [AssetPathAPIServerSecret, AssetPathControllerManagerSecret])) = {}"
  "set dynamic_names \<inter> set (tls_names @ etcd_names conf @ map fst kubeconfig_templates @ [AssetPathAPIServerSecret, AssetPathControllerManagerSecret]) = {}"
proof -
  have "distinct (asset_names (conf\<lparr>cf_NetworkProvider := ''''\<rparr>))" "etcd_names (conf\<lparr>cf_NetworkProvider := ''''\<rparr>) = etcd_names conf"
    by (simp_all add: asset_names_distinct NetworkCanal_def etcd_names_def)
  then have "distinct (static_names @ dynamic_names @ network_names '''' @ tls_names @ etcd_names conf @ map fst kubeconfig_templates
      @ [AssetPathAPIServerSecret, AssetPathControllerManagerSecret])" by (simp only: asset_names_def) simp
  then have d: "distinct (static_names @ dynamic_names @ network_names '''' @ (tls_names @ etcd_names conf @ map fst kubeconfig_templates
      @ [AssetPathAPIServerSecret, AssetPathControllerManagerSecret]))" by (simp only: append_assoc)
  then have "distinct static_names" "distinct (tls_names @ etcd_names conf @ map fst kubeconfig_templates @ [AssetPathAPIServerSecret, AssetPathControllerManagerSecret])"
    unfolding distinct_append by blast+
  with d show "distinct static_names" "distinct (tls_names @ etcd_names conf @ map fst kubeconfig_templates @ [AssetPathAPIServerSecret, AssetPathControllerManagerSecret])"
    "set static_names \<inter> (set dynamic_names \<union> set (tls_names @ etcd_names conf @ map fst kubeconfig_templates @ [AssetPathAPIServerSecret, AssetPathControllerManagerSecret])) = {}"
    "set dynamic_names \<inter> set (tls_names @ etcd_names conf @ map fst kubeconfig_templates @ [AssetPathAPIServerSecret, AssetPathControllerManagerSecret]) = {}"
    unfolding distinct_append [of static_names] distinct_append [of dynamic_names] set_append [of dynamic_names] set_append [of "network_names ''''"] by blast+
qed


lemma base_parts:
  "set static_names \<subseteq> set base_names"
  "set (tls_names @ etcd_names conf @ map fst kubeconfig_templates @ [AssetPathAPIServerSecret, AssetPathControllerManagerSecret]) \<subseteq> set base_names"
proof -
  have "set (etcd_names conf) \<subseteq> set full_etcd" by (auto simp: etcd_names_def full_etcd_def)
  moreover have "set (map fst kubeconfig_templates @ [AssetPathAPIServerSecret, AssetPathControllerManagerSecret]) \<subseteq> set base_names"
    by (simp add: kubeconfig_templates_def base_names_def)
  ultimately show "set (tls_names @ etcd_names conf @ map fst kubeconfig_templates @ [AssetPathAPIServerSecret, AssetPathControllerManagerSecret]) \<subseteq> set base_names"
    unfolding base_names_def set_append by blast
  show "set static_names \<subseteq> set base_names" unfolding base_names_def by auto
qed

lemma NewDefaultAssets_consistent:
  assumes "NewDefaultAssets C nl Marshal conf n = (Inr as, n')"
  shows "consistent as"
  using assms
proof (rule NewDefaultAssets_split)
  fix static dynamic rest
  let ?R = "tls_names @ etcd_names conf @ map fst kubeconfig_templates @ [AssetPathAPIServerSecret, AssetPathControllerManagerSecret]"
  assume as: "as = static @ dynamic @ rest" and dy: "newDynamicAssets nl (with_subdir conf) = Inr dynamic"
    and names: "map a_Name static = static_names" "map a_Name dynamic = dynamic_names @ network_names (cf_NetworkProvider conf)" "map a_Name rest = ?R"
  note img = names [THEN names_image]
  have c: "consistent static" "consistent dynamic" "consistent rest"
    using parts_distinct(1) parts_distinct(2) [of conf] names(1,3) by (simp_all add: distinct_consistent dynamic_consistent [OF dy])
  have "set static_names \<inter> set (network_names (cf_NetworkProvider conf)) = {}" "set (network_names (cf_NetworkProvider conf)) \<inter> set ?R = {}"
    using network_names_other [of "cf_NetworkProvider conf"] base_parts(1) base_parts(2) [of conf] by blast+
  with parts_distinct(3,4) [of conf]
  have "set static_names \<inter> (set (dynamic_names @ network_names (cf_NetworkProvider conf)) \<union> set ?R) = {}"
    "set (dynamic_names @ network_names (cf_NetworkProvider conf)) \<inter> set ?R = {}"
    unfolding set_append [of dynamic_names] by blast+
  then have "a_Name ` set static \<inter> a_Name ` set (dynamic @ rest) = {}" "a_Name ` set dynamic \<inter> a_Name ` set rest = {}"
    unfolding set_append [of dynamic] image_Un img by blast+
  with c show ?thesis unfolding as by (intro consistent_append)
qed

end
