(* ===== verification/RenderOptions.thy ===== *)
theory RenderOptions
  imports RenderNames AssetHost
begin

text \<open>
  \<open>bootkube render\<close>: \<open>cmd/render/plugin/default/main.go\<close>, from the parsed command line to the
  written assets. The flag package fills the options; the parsers of URLs, addresses and
  networks are the fields of \<open>net_lib\<close>, certificates and keys are read with \<open>tlsutil\<close>.
\<close>

record renderOpts =
  ro_caCertificatePath :: string
  ro_caPrivateKeyPath :: string
  ro_etcdCAPath :: string
  ro_etcdCertificatePath :: string
  ro_etcdPrivateKeyPath :: string
  ro_etcdServers :: string
  ro_apiServers :: string
  ro_altNames :: string
  ro_podCIDR :: string
  ro_serviceCIDR :: string
  ro_cloudProvider :: string
  ro_networkProvider :: string
  ro_clusterName :: string

section \<open>Operations\<close>

definition validateRenderOpts :: "renderOpts \<Rightarrow> go_error option" where
  "validateRenderOpts o1 =
     (if ro_caCertificatePath o1 \<noteq> '''' \<and> ro_caPrivateKeyPath o1 = ''''
      then Some (Err ''You must provide the --ca-private-key-path flag when --ca-certificate-path is provided.'')
      else if ro_caPrivateKeyPath o1 \<noteq> '''' \<and> ro_caCertificatePath o1 = ''''
      then Some (Err ''You must provide the --ca-certificate-path flag when --ca-private-key-path is provided.'')
      else if (ro_etcdCAPath o1 \<noteq> '''' \<or> ro_etcdCertificatePath o1 \<noteq> '''' \<or> ro_etcdPrivateKeyPath o1 \<noteq> '''') \<and>
              (ro_etcdCAPath o1 = '''' \<or> ro_etcdCertificatePath o1 = '''' \<or> ro_etcdPrivateKeyPath o1 = '''')
      then Some (Err ''You must specify either all or none of --etcd-ca-path, --etcd-certificate-path, and --etcd-private-key-path'')
      else if ro_etcdServers o1 = '''' then Some (Err ''Missing required flag: --etcd-servers'')
      else if ro_apiServers o1 = '''' then Some (Err ''Missing required flag: --api-servers'')
      else if ro_networkProvider o1 \<noteq> NetworkFlannel \<and> ro_networkProvider o1 \<noteq> NetworkCalico \<and> ro_networkProvider o1 \<noteq> NetworkCanal
      then Some (Err ''Must specify --network-provider flannel or experimental-calico or experimental-canal'')
      else None)"

definition comma :: char where "comma = CHR '',''"

text \<open>A loop that parses the elements of a list up to the first error.\<close>

fun parseEach :: "('a \<Rightarrow> go_error + 'b) \<Rightarrow> 'a list \<Rightarrow> 'b list \<Rightarrow> go_error + 'b list" where
  "parseEach parse [] out = Inr out"
| "parseEach parse (u # us) out =
     (case parse u of Inl e \<Rightarrow> Inl e | Inr parsed \<Rightarrow> parseEach parse us (out @ [parsed]))"

definition parseURLs :: "net_lib \<Rightarrow> string \<Rightarrow> go_error + URL list" where
  "parseURLs nl s = parseEach (nl_urlParse nl) (splitOn comma s) []"

definition parseCIDRs :: "net_lib \<Rightarrow> string \<Rightarrow> go_error + IPNet list" where
  "parseCIDRs nl s =
     parseEach (\<lambda>cidr. case nl_ParseCIDR nl cidr of Inl e \<Rightarrow> Inl e | Inr (_, net) \<Rightarrow> Inr net) (splitOn comma s) []"

fun parseAltNamesLoop :: "net_lib \<Rightarrow> string list \<Rightarrow> AltNames \<Rightarrow> go_error + AltNames" where
  "parseAltNamesLoop nl [] alt = Inr alt"
| "parseAltNamesLoop nl (an # ans) alt =
     (if hasPrefix an ''DNS='' then parseAltNamesLoop nl ans (alt\<lparr>an_DNSNames := an_DNSNames alt @ [trimPrefix an ''DNS='']\<rparr>)
      else if hasPrefix an ''IP='' then
        (case nl_ParseIP nl (trimPrefix an ''IP='') of
           None \<Rightarrow> Inl (Err (''Invalid IP alt name: '' @ an))
         | Some x \<Rightarrow> parseAltNamesLoop nl ans (alt\<lparr>an_IPs := an_IPs alt @ [x]\<rparr>))
      else Inl (Err (''Invalid alt name: '' @ an)))"

text \<open>A nil result is \<open>None\<close>.\<close>

definition parseAltNames :: "net_lib \<Rightarrow> string \<Rightarrow> go_error + AltNames option" where
  "parseAltNames nl s =
     (if s = '''' then Inr None
      else (case parseAltNamesLoop nl (splitOn comma s) emptyAltNames of Inl e \<Rightarrow> Inl e | Inr alt \<Rightarrow> Inr (Some alt)))"

definition hostOf :: "URL \<Rightarrow> string" where
  "hostOf u = (case net_SplitHostPort (u_Host u) of Inl _ \<Rightarrow> u_Host u | Inr (host, _) \<Rightarrow> host)"

definition altNamesFromURLs :: "net_lib \<Rightarrow> URL list \<Rightarrow> AltNames" where
  "altNamesFromURLs nl urls = altNamesOf (nl_ParseIP nl) (map hostOf urls) emptyAltNames"

definition parseCertFromDisk :: "crypto \<Rightarrow> fs \<Rightarrow> string \<Rightarrow> go_error + x509_Certificate" where
  "parseCertFromDisk C s caCertPath =
     (case ioutil_ReadFile s caCertPath of
        Inl e \<Rightarrow> Inl (Errorf (''error reading ca cert file at '' @ caCertPath) e)
      | Inr capem \<Rightarrow>
          (case ParsePEMEncodedCACert C capem of
             Inl e \<Rightarrow> Inl (Errorf ''unable to parse CA Cert'' e)
           | Inr cert \<Rightarrow> Inr cert))"

definition parseCertAndPrivateKeyFromDisk :: "crypto \<Rightarrow> fs \<Rightarrow> string \<Rightarrow> string \<Rightarrow> go_error + rsa_PrivateKey \<times> x509_Certificate" where
  "parseCertAndPrivateKeyFromDisk C s caCertPath privKeyPath =
     (case ioutil_ReadFile s privKeyPath of
        Inl e \<Rightarrow> Inl (Errorf (''error reading ca private key file at '' @ privKeyPath) e)
      | Inr keypem \<Rightarrow>
          (case ParsePEMEncodedPrivateKey C keypem of
             Inl e \<Rightarrow> Inl (Errorf ''unable to parse CA private key'' e)
           | Inr key \<Rightarrow>
               (case parseCertFromDisk C s caCertPath of
                  Inl e \<Rightarrow> Inl e
                | Inr cert \<Rightarrow> Inr (key, cert))))"

text \<open>Sequencing of fallible steps with early return.\<close>

definition andThen :: "go_error + 'a \<Rightarrow> ('a \<Rightarrow> go_error + 'b) \<Rightarrow> go_error + 'b" where
  "andThen m f = (case m of Inl e \<Rightarrow> Inl e | Inr a \<Rightarrow> f a)"

lemma andThen_iff [simp]: "andThen m f = Inr b \<longleftrightarrow> (\<exists>a. m = Inr a \<and> f a = Inr b)"
  by (auto simp: andThen_def split: sum.splits)

text \<open>
  The message about a service network that is not the default one is output only and left out.
\<close>

definition flagsToAssetConfig :: "crypto \<Rightarrow> net_lib \<Rightarrow> fs \<Rightarrow> renderOpts \<Rightarrow> go_error + Config" where
  "flagsToAssetConfig C nl s o1 =
     andThen (parseURLs nl (ro_apiServers o1)) (\<lambda>apiServers.
     andThen (parseAltNames nl (ro_altNames o1)) (\<lambda>alt.
     (let altNames = (case alt of None \<Rightarrow> altNamesFromURLs nl apiServers | Some an \<Rightarrow> an) in
     andThen (if ro_caCertificatePath o1 \<noteq> ''''
              then map_sum id (\<lambda>(key, cert). (Some key, Some cert)) (parseCertAndPrivateKeyFromDisk C s (ro_caCertificatePath o1) (ro_caPrivateKeyPath o1))
              else Inr (None, None)) (\<lambda>(caPrivKey, caCert).
     andThen (parseCIDRs nl (ro_podCIDR o1)) (\<lambda>podNets.
     andThen (parseCIDRs nl (ro_serviceCIDR o1)) (\<lambda>serviceNets.
     andThen (checkNets podNets serviceNets) (\<lambda>(apiServiceIPs, dnsServiceIPs).
     andThen (parseURLs nl (ro_etcdServers o1)) (\<lambda>etcdServers.
     (let etcdUseTLS = list_ex (\<lambda>u. u_Scheme u = ''https'') etcdServers in
     andThen (if ro_etcdCAPath o1 \<noteq> '''' then map_sum id Some (parseCertFromDisk C s (ro_etcdCAPath o1)) else Inr None) (\<lambda>etcdCACert.
     andThen (if ro_etcdCertificatePath o1 \<noteq> ''''
              then map_sum id (\<lambda>(key, cert). (Some key, Some cert)) (parseCertAndPrivateKeyFromDisk C s (ro_etcdCertificatePath o1) (ro_etcdPrivateKeyPath o1))
              else Inr (None, None)) (\<lambda>(etcdClientKey, etcdClientCert).
     Inr \<lparr>cf_ClusterName = ro_clusterName o1, cf_EtcdCACert = etcdCACert, cf_EtcdClientCert = etcdClientCert, cf_EtcdClientKey = etcdClientKey,
          cf_EtcdServers = etcdServers, cf_EtcdUseTLS = etcdUseTLS, cf_APIServers = apiServers, cf_CACert = caCert, cf_CAPrivKey = caPrivKey,
          cf_AltNames = Some altNames, cf_PodCIDRs = podNets, cf_ServiceCIDRs = serviceNets, cf_APIServiceIPs = apiServiceIPs,
          cf_DNSServiceIPs = dnsServiceIPs, cf_CloudProvider = ro_cloudProvider o1, cf_NetworkProvider = ro_networkProvider o1,
          cf_BootstrapSecretsSubdir = '''', cf_Images = DefaultImages, cf_PodCIDR = None, cf_ServiceCIDR = None,
          cf_APIServiceIP = [], cf_DNSServiceIP = []\<rparr>)))))))))))"

definition Render ::
  "crypto \<Rightarrow> net_lib \<Rightarrow> (secret \<Rightarrow> go_error + bytes) \<Rightarrow> renderOpts \<Rightarrow> string \<Rightarrow> fs \<Rightarrow> nat \<Rightarrow> fs \<times> go_error option" where
  "Render C nl Marshal o1 assetDir s n =
     (case validateRenderOpts o1 of
        Some e \<Rightarrow> (s, Some e)
      | None \<Rightarrow>
          (case flagsToAssetConfig C nl s o1 of
             Inl e \<Rightarrow> (s, Some e)
           | Inr config \<Rightarrow>
               (case NewDefaultAssets C nl Marshal config n of
                  (Inl e, _) \<Rightarrow> (s, Some e)
                | (Inr as, _) \<Rightarrow> Assets_WriteFiles s as assetDir)))"


section \<open>What accepted options give\<close>

lemma parseEach_result: "parseEach parse us out = Inr r \<Longrightarrow> \<exists>xs. r = out @ xs \<and> list_all2 (\<lambda>u x. parse u = Inr x) us xs"
proof (induction us arbitrary: out)
  case (Cons u us)
  then obtain x where x: "parse u = Inr x" "parseEach parse us (out @ [x]) = Inr r" by (auto split: sum.splits)
  from Cons.IH [OF x(2)] obtain xs where "r = (out @ [x]) @ xs" "list_all2 (\<lambda>u x. parse u = Inr x) us xs" by blast
  with x show ?case by (intro exI [of _ "x # xs"]) simp
qed simp

lemma parsed_nonempty: "parseEach parse (splitOn c s) [] = Inr r \<Longrightarrow> r \<noteq> []"
  by (drule parseEach_result) auto

lemma map_sum_Inr_iff [simp]: "map_sum id f m = Inr b \<longleftrightarrow> (\<exists>a. m = Inr a \<and> b = f a)"
  by (cases m) auto

lemma accepted_config:
  assumes "validateRenderOpts o1 = None" "flagsToAssetConfig C nl s o1 = Inr conf"
  shows "config_complete conf" "cf_PodCIDR conf = None" "cf_NetworkProvider conf = ro_networkProvider o1"
    "\<exists>apiServers alt. parseURLs nl (ro_apiServers o1) = Inr apiServers \<and> parseAltNames nl (ro_altNames o1) = Inr alt \<and>
       cf_APIServers conf = apiServers \<and> cf_AltNames conf = Some (case alt of None \<Rightarrow> altNamesFromURLs nl apiServers | Some an \<Rightarrow> an)"
    "\<exists>pods svcs. parseCIDRs nl (ro_podCIDR o1) = Inr pods \<and> parseCIDRs nl (ro_serviceCIDR o1) = Inr svcs \<and>
       checkNets pods svcs = Inr (cf_APIServiceIPs conf, cf_DNSServiceIPs conf) \<and> cf_PodCIDRs conf = pods \<and> cf_ServiceCIDRs conf = svcs"
proof -
  from assms(2) obtain apiServers alt caKey caCert pods svcs api dns etcdServers etcdCA etcdKey etcdCert where
    steps: "parseURLs nl (ro_apiServers o1) = Inr apiServers" "parseAltNames nl (ro_altNames o1) = Inr alt"
      "(if ro_caCertificatePath o1 \<noteq> ''''
        then map_sum id (\<lambda>(key, cert). (Some key, Some cert)) (parseCertAndPrivateKeyFromDisk C s (ro_caCertificatePath o1) (ro_caPrivateKeyPath o1))
        else Inr (None, None)) = Inr (caKey, caCert)"
      "parseCIDRs nl (ro_podCIDR o1) = Inr pods" "parseCIDRs nl (ro_serviceCIDR o1) = Inr svcs" "checkNets pods svcs = Inr (api, dns)"
      "(if ro_etcdCAPath o1 \<noteq> '''' then map_sum id Some (parseCertFromDisk C s (ro_etcdCAPath o1)) else Inr None) = Inr etcdCA"
      "(if ro_etcdCertificatePath o1 \<noteq> ''''
        then map_sum id (\<lambda>(key, cert). (Some key, Some cert)) (parseCertAndPrivateKeyFromDisk C s (ro_etcdCertificatePath o1) (ro_etcdPrivateKeyPath o1))
        else Inr (None, None)) = Inr (etcdKey, etcdCert)"
    and conf: "conf = \<lparr>cf_ClusterName = ro_clusterName o1, cf_EtcdCACert = etcdCA, cf_EtcdClientCert = etcdCert, cf_EtcdClientKey = etcdKey,
          cf_EtcdServers = etcdServers, cf_EtcdUseTLS = list_ex (\<lambda>u. u_Scheme u = ''https'') etcdServers, cf_APIServers = apiServers, cf_CACert = caCert, cf_CAPrivKey = caKey,
          cf_AltNames = Some (case alt of None \<Rightarrow> altNamesFromURLs nl apiServers | Some an \<Rightarrow> an), cf_PodCIDRs = pods, cf_ServiceCIDRs = svcs, cf_APIServiceIPs = api,
          cf_DNSServiceIPs = dns, cf_CloudProvider = ro_cloudProvider o1, cf_NetworkProvider = ro_networkProvider o1,
          cf_BootstrapSecretsSubdir = '''', cf_Images = DefaultImages, cf_PodCIDR = None, cf_ServiceCIDR = None,
          cf_APIServiceIP = [], cf_DNSServiceIP = []\<rparr>"
    unfolding flagsToAssetConfig_def Let_def andThen_iff split_paired_Ex prod.case by (elim exE conjE) (rule that, assumption+, auto)
  have "apiServers \<noteq> []" "pods \<noteq> []" "svcs \<noteq> []" using steps(1,4,5) parsed_nonempty unfolding parseURLs_def parseCIDRs_def by blast+
  moreover have "caCert \<noteq> None \<longrightarrow> caKey \<noteq> None" using steps(3) by (auto split: if_splits)
  moreover have "etcdCA \<noteq> None \<longrightarrow> etcdCert \<noteq> None \<and> etcdKey \<noteq> None"
  proof
    assume "etcdCA \<noteq> None"
    then have "ro_etcdCAPath o1 \<noteq> ''''" using steps(7) by auto
    then have "ro_etcdCertificatePath o1 \<noteq> ''''" using assms(1) by (auto simp: validateRenderOpts_def split: if_splits)
    then show "etcdCert \<noteq> None \<and> etcdKey \<noteq> None" using steps(8) by auto
  qed
  ultimately show "config_complete conf" by (simp add: conf config_complete_def networks_set_def)
  show "cf_PodCIDR conf = None" "cf_NetworkProvider conf = ro_networkProvider o1" by (simp_all add: conf)
  show "\<exists>apiServers alt. parseURLs nl (ro_apiServers o1) = Inr apiServers \<and> parseAltNames nl (ro_altNames o1) = Inr alt \<and>
       cf_APIServers conf = apiServers \<and> cf_AltNames conf = Some (case alt of None \<Rightarrow> altNamesFromURLs nl apiServers | Some an \<Rightarrow> an)"
    using steps(1,2) by (simp add: conf)
  show "\<exists>pods svcs. parseCIDRs nl (ro_podCIDR o1) = Inr pods \<and> parseCIDRs nl (ro_serviceCIDR o1) = Inr svcs \<and>
       checkNets pods svcs = Inr (cf_APIServiceIPs conf, cf_DNSServiceIPs conf) \<and> cf_PodCIDRs conf = pods \<and> cf_ServiceCIDRs conf = svcs"
    using steps(4-6) by (simp add: conf)
qed


section \<open>Properties\<close>

text \<open>The outcome of a rendering whose options are accepted.\<close>

lemma Render_accepted:
  assumes "Render C nl Marshal o1 dir s n = (s', None)"
  obtains conf as n' where "validateRenderOpts o1 = None" "flagsToAssetConfig C nl s o1 = Inr conf"
    "NewDefaultAssets C nl Marshal conf n = (Inr as, n')" "Assets_WriteFiles s as dir = (s', None)"
  using assms unfolding Render_def by (auto split: option.splits sum.splits prod.splits)

lemma written_asset:
  assumes "NewDefaultAssets C nl Marshal conf n = (Inr as, n')" "Assets_WriteFiles s as dir = (s', None)" "dir \<noteq> ''''" "a \<in> set as"
  shows "content s' (fs_key s dir @ splitOn slash (a_Name a)) = Some (a_Data a)"
  using WriteFiles_ok [OF assms(3) named_assets_plain [OF NewDefaultAssets_names [OF assms(1)]] NewDefaultAssets_consistent [OF assms(1)] assms(4,2)]
  by (simp add: asset_path_def)

text \<open>
  Once the options are accepted nothing but the file system can fail: the assets are rendered
  without a panic, and the run ends the way writing them ends.
\<close>

lemma Render_runs:
  assumes "crypto_works C" "\<forall>x. \<exists>b. Marshal x = Inr b" "validateRenderOpts o1 = None" "flagsToAssetConfig C nl s o1 = Inr conf"
  obtains as n' where "NewDefaultAssets C nl Marshal conf n = (Inr as, n')" "map a_Name as = asset_names conf"
    "Render C nl Marshal o1 dir s n = Assets_WriteFiles s as dir"
proof -
  obtain as n' where as: "NewDefaultAssets C nl Marshal conf n = (Inr as, n')" "map a_Name as = asset_names conf"
    using default_assets_rendered [OF assms(1,2) accepted_config(1) [OF assms(3,4)]] by blast
  moreover from this(1) have "Render C nl Marshal o1 dir s n = Assets_WriteFiles s as dir" using assms(3,4) by (simp add: Render_def)
  ultimately show thesis by (rule that)
qed

text \<open>No rendered asset is a directory of another: directories have names of their own.\<close>

definition asset_dirs :: "string list" where
  "asset_dirs = [''tls'', ''etcd'', ''auth'', ''manifests'', ''bootstrap-manifests'']"

definition below_dirs :: "string \<Rightarrow> bool" where
  "below_dirs p \<longleftrightarrow> (let k = splitOn slash p in list_all (\<lambda>d. d \<in> set asset_dirs) (butlast k) \<and> last k \<notin> set asset_dirs)"

lemma possible_below_dirs:
  "list_all below_dirs (base_names @ network_names NetworkFlannel @ network_names NetworkCalico @ network_names NetworkCanal)"
  by code_simp

lemma rendered_files_apart:
  assumes "map a_Name as = asset_names conf"
  shows "files_apart as"
proof -
  have below: "below_dirs (a_Name a)" if "a \<in> set as" for a
    using subsetD [OF asset_names_possible [of conf], of "a_Name a"] possible_below_dirs that names_image [OF assms]
    unfolding list_all_iff by blast
  have "\<not> strict_prefix (asset_path a) (asset_path b)" if "a \<in> set as" "b \<in> set as" for a b
  proof
    assume "strict_prefix (asset_path a) (asset_path b)"
    then obtain x r where "asset_path b = asset_path a @ x # r" by (auto simp: strict_prefix_def prefix_def neq_Nil_conv)
    moreover have "last (asset_path a) \<in> set (asset_path a)" by (rule last_in_set) (simp add: asset_path_def)
    ultimately have "last (asset_path a) \<in> set (butlast (asset_path b))" by (simp add: butlast_append)
    with below [OF that(1)] below [OF that(2)] show False by (auto simp: below_dirs_def asset_path_def list_all_iff Let_def)
  qed
  then show ?thesis by (simp add: files_apart_def)
qed

lemma Render_on_healthy_host:
  assumes "crypto_works C" "\<forall>x. \<exists>b. Marshal x = Inr b"
    and opts: "validateRenderOpts o1 = None" "flagsToAssetConfig C nl s o1 = Inr conf"
    and host: "healthy s" "fs_wf s" and dir: "bs \<noteq> []" "list_all plain_comp bs" "fresh_dir s bs"
  shows "\<exists>as n' s'. NewDefaultAssets C nl Marshal conf n = (Inr as, n') \<and> map a_Name as = asset_names conf \<and>
     Render C nl Marshal o1 (slash # joinWith slash bs) s n = (s', None) \<and>
     (\<forall>a \<in> set as. content s' (bs @ splitOn slash (a_Name a)) = Some (a_Data a))"
proof -
  let ?dir = "slash # joinWith slash bs"
  obtain as n' where as: "NewDefaultAssets C nl Marshal conf n = (Inr as, n')" "map a_Name as = asset_names conf"
    "Render C nl Marshal o1 ?dir s n = Assets_WriteFiles s as ?dir" by (rule Render_runs [OF assms(1,2) opts])
  obtain s' where wr: "Assets_WriteFiles s as ?dir = (s', None)"
    using WriteFiles_succeeds [OF host dir named_assets_plain [OF as(2)] rendered_files_apart [OF as(2)]] by (metis prod.collapse)
  have "content s' (bs @ splitOn slash (a_Name a)) = Some (a_Data a)" if "a \<in> set as" for a
    using written_asset [OF as(1) wr _ that] fs_key_abs [OF dir(1,2), of s] by simp
  then have "NewDefaultAssets C nl Marshal conf n = (Inr as, n') \<and> map a_Name as = asset_names conf \<and> Render C nl Marshal o1 ?dir s n = (s', None) \<and>
     (\<forall>a \<in> set as. content s' (bs @ splitOn slash (a_Name a)) = Some (a_Data a))"
    unfolding as(3) using as(1,2) wr by blast
  then show ?thesis by blast
qed

section \<open>An example\<close>

definition example_opts :: renderOpts where
  "example_opts = \<lparr>ro_caCertificatePath = '''', ro_caPrivateKeyPath = '''', ro_etcdCAPath = '''', ro_etcdCertificatePath = '''',
     ro_etcdPrivateKeyPath = '''', ro_etcdServers = ''https://10.0.0.5:2379'', ro_apiServers = ''https://node1.example.com:6443'',
     ro_altNames = '''', ro_podCIDR = ''10.2.0.0/16'', ro_serviceCIDR = ''10.3.0.0/24'', ro_cloudProvider = '''',
     ro_networkProvider = NetworkFlannel, ro_clusterName = ''example''\<rparr>"

definition example_Marshal :: "secret \<Rightarrow> go_error + bytes" where
  "example_Marshal s = Inr (sc_Kind s)"

lemma example_nets_accepted:
  "\<exists>api dns. checkNets [\<lparr>net_IP = [10, 2, 0, 0], net_Mask = [255, 255, 0, 0]\<rparr>] [\<lparr>net_IP = [10, 3, 0, 0], net_Mask = [255, 255, 255, 0]\<rparr>] = Inr (api, dns)"
proof -
  let ?p = "\<lparr>net_IP = [10, 2, 0, 0], net_Mask = [255, 255, 0, 0]\<rparr>" and ?s = "\<lparr>net_IP = [10, 3, 0, 0], net_Mask = [255, 255, 255, 0]\<rparr>"
  have dis: "\<not> overlap ?p ?s" by (simp add: overlap_def Contains_cidr [OF example_nets(1)] Contains_cidr [OF example_nets(2)] host_bits_def)
  have found: "\<exists>x. offsetServiceIP ?s off = Inr x" if "off < 256" for off
    using cidr_offset(1) [OF example_nets(2), of off] that by (simp add: offsetServiceIP_def Let_def host_bits_def)
  have "apiOffset < 256" "dnsOffset < 256" by (simp_all add: apiOffset_def dnsOffset_def)
  then obtain x y where "offsetServiceIP ?s apiOffset = Inr x" "offsetServiceIP ?s dnsOffset = Inr y"
    using found [of apiOffset] found [of dnsOffset] by auto
  then show ?thesis using dis by (simp add: checkNets_def)
qed

lemma example_opts_accepted: "validateRenderOpts example_opts = None"
  by code_simp

lemma example_config: "\<exists>conf. flagsToAssetConfig symbolic_crypto example_net_lib s example_opts = Inr conf"
proof -
  have "splitOn comma ''https://node1.example.com:6443'' = [''https://node1.example.com:6443'']" "splitOn comma ''https://10.0.0.5:2379'' = [''https://10.0.0.5:2379'']"
    "splitOn comma ''10.2.0.0/16'' = [''10.2.0.0/16'']" "splitOn comma ''10.3.0.0/24'' = [''10.3.0.0/24'']" by code_simp+
  then show ?thesis using example_nets_accepted
    by (auto simp: flagsToAssetConfig_def example_opts_def parseURLs_def parseCIDRs_def parseAltNames_def example_net_lib_def Let_def)
qed

lemma example_host: "healthy empty_host" "fs_wf empty_host" "fresh_dir empty_host [''out'']"
proof -
  show "healthy empty_host" by (simp add: healthy_def empty_host_def)
  show "fs_wf empty_host" by (rule fs_wfI) code_simp+
  have "list_all (\<lambda>k. \<not> is_file (fs_node empty_host k)) (prefixes [''out''])" "children empty_host [''out''] = []" by code_simp+
  then show "fresh_dir empty_host [''out'']" by (auto simp: fresh_dir_def list_all_iff prefix_Cons)
qed

lemma example_dir: "list_all plain_comp [''out'']" "slash # joinWith slash [''out''] = ''/out''"
  by code_simp+

lemma example_run:
  obtains conf s' where "flagsToAssetConfig symbolic_crypto example_net_lib empty_host example_opts = Inr conf"
    "Render symbolic_crypto example_net_lib example_Marshal example_opts ''/out'' empty_host 0 = (s', None)"
proof -
  obtain conf where conf: "flagsToAssetConfig symbolic_crypto example_net_lib empty_host example_opts = Inr conf" using example_config by blast
  have "\<forall>x. \<exists>b. example_Marshal x = Inr b" by (simp add: example_Marshal_def)
  from Render_on_healthy_host [OF symbolic_crypto_works this example_opts_accepted conf example_host(1,2) _ example_dir(1) example_host(3), of 0]
  show thesis using that conf by (auto simp only: example_dir(2) list.distinct)
qed

section \<open>Whole runs\<close>

text \<open>
  C18: With accepted options \<open>bootkube render\<close> succeeds on a healthy host with a fresh asset
  directory, if no call of the crypto libraries and no encoding of a secret fails: no template
  panics, no asset another one needs is missing. The rendered assets are then the full list of
  names, and each of them is a file below the directory with the data that was rendered for it.
  This holds with every network provider, also where a name is rendered twice.
\<close>

theorem render_writes_every_asset:
  assumes "crypto_works C" "\<forall>x. \<exists>b. Marshal x = Inr b"
    and opts: "validateRenderOpts o1 = None" "flagsToAssetConfig C nl s o1 = Inr conf"
    and host: "healthy s" "fs_wf s" and dir: "bs \<noteq> []" "list_all plain_comp bs" "fresh_dir s bs"
  shows "\<exists>as n' s'. NewDefaultAssets C nl Marshal conf n = (Inr as, n') \<and> map a_Name as = asset_names conf \<and>
     Render C nl Marshal o1 (slash # joinWith slash bs) s n = (s', None) \<and>
     (\<forall>a \<in> set as. content s' (bs @ splitOn slash (a_Name a)) = Some (a_Data a))"
  by (rule Render_on_healthy_host [OF assms])

theorem render_writes_every_asset_witness:
  "\<exists>s'. Render symbolic_crypto example_net_lib example_Marshal example_opts ''/out'' empty_host 0 = (s', None) \<and>
     content s' [''out'', ''tls'', ''ca.crt''] \<noteq> None"
proof -
  obtain conf where conf: "flagsToAssetConfig symbolic_crypto example_net_lib empty_host example_opts = Inr conf" using example_config by blast
  have "\<forall>x. \<exists>b. example_Marshal x = Inr b" by (simp add: example_Marshal_def)
  from render_writes_every_asset [OF symbolic_crypto_works this example_opts_accepted conf example_host(1,2) _ example_dir(1) example_host(3), of 0]
  obtain as :: Assets and s' where r: "map a_Name as = asset_names conf" "Render symbolic_crypto example_net_lib example_Marshal example_opts ''/out'' empty_host 0 = (s', None)"
    "\<forall>a \<in> set as. content s' ([''out''] @ splitOn slash (a_Name a)) = Some (a_Data a)"
    by (auto simp only: example_dir(2) list.distinct)
  have "AssetPathCACert \<in> set (asset_names conf)" by (simp add: asset_names_def tls_names_def)
  then obtain a where "a \<in> set as" "a_Name a = AssetPathCACert" unfolding r(1) [symmetric] by auto
  moreover have "splitOn slash AssetPathCACert = [''tls'', ''ca.crt'']" by code_simp
  ultimately have "content s' [''out'', ''tls'', ''ca.crt''] = Some (a_Data a)" using r(3) by fastforce
  with r(2) show ?thesis by auto
qed

text \<open>
  The host of a server as it is written in a URL: alone or before a port, or an address with
  colons in brackets before a port. (In brackets without a port the code keeps the brackets.)
\<close>

definition plain_host :: "string \<Rightarrow> bool" where
  "plain_host h \<longleftrightarrow> colon \<notin> set h \<and> CHR ''['' \<notin> set h \<and> CHR '']'' \<notin> set h"

definition written_host :: "string \<Rightarrow> string \<Rightarrow> bool" where
  "written_host w h \<longleftrightarrow> plain_host h \<and> w = h \<or> plain_host h \<and> (\<exists>p. plain_host p \<and> w = h @ colon # p) \<or>
     CHR ''['' \<notin> set h \<and> CHR '']'' \<notin> set h \<and> (\<exists>p. plain_host p \<and> w = CHR ''['' # h @ CHR '']'' # colon # p)"

lemma split_bracketed:
  assumes "CHR ''['' \<notin> set h" "CHR '']'' \<notin> set h" "plain_host p"
  shows "net_SplitHostPort (CHR ''['' # h @ CHR '']'' # colon # p) = Inr (h, p)"
proof -
  have "splitLast colon ((CHR ''['' # h @ '']'') @ colon # p) = Some (CHR ''['' # h @ '']'', p)"
    using assms(3) by (intro splitLast_append) (simp add: plain_host_def)
  moreover have "splitOn (CHR '']'') (joinWith (CHR '']'') [CHR ''['' # h, colon # p]) = [CHR ''['' # h, colon # p]"
    using assms by (intro splitOn_joinWith) (auto simp: plain_host_def colon_def)
  ultimately show ?thesis using assms by (simp add: net_SplitHostPort_def Let_def plain_host_def colon_def)
qed

lemma hostOf_written:
  assumes "written_host (u_Host u) h"
  shows "hostOf u = h"
proof -
  from assms consider "plain_host h" "u_Host u = h" | p where "plain_host h" "plain_host p" "u_Host u = h @ colon # p"
    | p where "CHR ''['' \<notin> set h" "CHR '']'' \<notin> set h" "plain_host p" "u_Host u = CHR ''['' # h @ CHR '']'' # colon # p"
    by (auto simp: written_host_def)
  then show ?thesis
  proof cases
    case 1
    then have "splitLast colon h = None" by (simp add: splitLast_None_iff plain_host_def)
    then show ?thesis using 1 by (simp add: hostOf_def net_SplitHostPort_def)
  next
    case 2
    then have "splitLast colon (h @ colon # p) = Some (h, p)" by (simp add: splitLast_append plain_host_def)
    moreover have "hd (h @ colon # p) \<noteq> CHR ''[''" using 2(1) by (cases h) (auto simp: plain_host_def colon_def)
    ultimately show ?thesis using 2 by (auto simp: hostOf_def net_SplitHostPort_def plain_host_def colon_def)
  next
    case 3
    then show ?thesis by (simp add: hostOf_def split_bracketed)
  qed
qed

text \<open>
  C19: The API server's certificate that \<open>bootkube render\<close> writes is good for every way the
  server is reached: it names the address of the service in each service network, the four
  names of the \<open>kubernetes\<close> service, and the alternative names that were given. When none were
  given it names the host of every server listed in \<open>--api-servers\<close>, by address or by name,
  without the port.
\<close>

theorem api_certificate_names_servers:
  assumes ok: "crypto_ok C" and run: "Render C nl Marshal o1 dir s n = (s', None)" and dir: "dir \<noteq> ''''"
  shows "\<exists>conf pem cert alt. flagsToAssetConfig C nl s o1 = Inr conf \<and>
     content s' (fs_key s dir @ [''tls'', ''apiserver.crt'']) = Some pem \<and> ParsePEMEncodedCACert C pem = Inr cert \<and>
     set (short_ips (cf_APIServiceIPs conf)) \<subseteq> set (x_IPAddresses cert) \<and>
     {''kubernetes'', ''kubernetes.default'', ''kubernetes.default.svc'', ''kubernetes.default.svc.cluster.local''} \<subseteq> set (x_DNSNames cert) \<and>
     parseAltNames nl (ro_altNames o1) = Inr alt \<and>
     (case alt of
        Some an \<Rightarrow> set (short_ips (an_IPs an)) \<subseteq> set (x_IPAddresses cert) \<and> set (an_DNSNames an) \<subseteq> set (x_DNSNames cert)
      | None \<Rightarrow> list_all (\<lambda>x. \<exists>u. nl_urlParse nl x = Inr u \<and> (\<forall>h. written_host (u_Host u) h \<longrightarrow> names_host (nl_ParseIP nl) cert h))
                  (splitOn comma (ro_apiServers o1)))"
proof -
  obtain conf as n' where opts: "validateRenderOpts o1 = None" "flagsToAssetConfig C nl s o1 = Inr conf"
    and as: "NewDefaultAssets C nl Marshal conf n = (Inr as, n')" and wr: "Assets_WriteFiles s as dir = (s', None)" using run by (rule Render_accepted)
  obtain an caKey caCert n1 tls n2 where an: "cf_AltNames conf = Some an" and tls: "newTLSAssets C caCert caKey (all_alt_names conf an) n1 = (Inr tls, n2)"
    and sub: "set tls \<subseteq> set as"
    using as unfolding NewDefaultAssets_iff by (elim exE conjE) (rule that, assumption, assumption, simp, blast)
  from newTLSAssets_parts [OF ok tls] obtain apiCert where
    cert: "readable_cert C apiCert" "x_IPAddresses apiCert = short_ips (an_IPs (all_alt_names conf an))"
    "x_DNSNames apiCert = an_DNSNames (all_alt_names conf an) @ [''kubernetes'', ''kubernetes.default'', ''kubernetes.default.svc'', ''kubernetes.default.svc.cluster.local'']"
    and mem: "mkAsset AssetPathAPIServerCert (EncodeCertificatePEM C apiCert) \<in> set tls" by (metis list.set_intros)
  have "content s' (fs_key s dir @ splitOn slash AssetPathAPIServerCert) = Some (EncodeCertificatePEM C apiCert)"
    using written_asset [OF as wr dir, of "mkAsset AssetPathAPIServerCert (EncodeCertificatePEM C apiCert)"] mem sub by auto
  moreover have "splitOn slash AssetPathAPIServerCert = [''tls'', ''apiserver.crt'']" by code_simp
  moreover have "set (short_ips (cf_APIServiceIPs conf)) \<subseteq> set (x_IPAddresses apiCert)"
    by (auto simp: cert(2) all_alt_names_def short_ips_def)
  moreover obtain alt where alt: "parseURLs nl (ro_apiServers o1) = Inr (cf_APIServers conf)" "parseAltNames nl (ro_altNames o1) = Inr alt"
    "an = (case alt of None \<Rightarrow> altNamesFromURLs nl (cf_APIServers conf) | Some an \<Rightarrow> an)"
    using accepted_config(4) [OF opts] an by auto
  moreover have given: "set (short_ips (an_IPs an)) \<subseteq> set (x_IPAddresses apiCert)" "set (an_DNSNames an) \<subseteq> set (x_DNSNames apiCert)"
    by (auto simp: cert(2,3) all_alt_names_def short_ips_def)
  have servers: "list_all (\<lambda>x. \<exists>u. nl_urlParse nl x = Inr u \<and> (\<forall>h. written_host (u_Host u) h \<longrightarrow> names_host (nl_ParseIP nl) apiCert h))
       (splitOn comma (ro_apiServers o1))" if "alt = None"
  proof -
    have "an_IPs an = List.map_filter (nl_ParseIP nl) (map hostOf (cf_APIServers conf))"
      "an_DNSNames an = filter (\<lambda>a. nl_ParseIP nl a = None) (map hostOf (cf_APIServers conf))"
      using alt(3) that by (simp_all add: altNamesFromURLs_def altNamesOf_result emptyAltNames_def)
    then have "names_host (nl_ParseIP nl) apiCert (hostOf u)" if "u \<in> set (cf_APIServers conf)" for u
      using that
      by (intro names_hostI [where hosts = "map hostOf (cf_APIServers conf)" and xs = "[]"
            and ys = "if length (cf_APIServiceIPs conf) > 0 then cf_APIServiceIPs conf else [cf_APIServiceIP conf]"])
        (auto simp: cert(2,3) all_alt_names_def)
    moreover have "list_all2 (\<lambda>x u. nl_urlParse nl x = Inr u) (splitOn comma (ro_apiServers o1)) (cf_APIServers conf)"
      using parseEach_result [OF alt(1) [unfolded parseURLs_def]] by simp
    then have "\<exists>u \<in> set (cf_APIServers conf). nl_urlParse nl x = Inr u" if "x \<in> set (splitOn comma (ro_apiServers o1))" for x
      using that by (auto simp: list_all2_conv_all_nth in_set_conv_nth)
    ultimately show ?thesis unfolding list_all_iff using hostOf_written by metis
  qed
  have "case alt of
        Some an \<Rightarrow> set (short_ips (an_IPs an)) \<subseteq> set (x_IPAddresses apiCert) \<and> set (an_DNSNames an) \<subseteq> set (x_DNSNames apiCert)
      | None \<Rightarrow> list_all (\<lambda>x. \<exists>u. nl_urlParse nl x = Inr u \<and> (\<forall>h. written_host (u_Host u) h \<longrightarrow> names_host (nl_ParseIP nl) apiCert h))
                  (splitOn comma (ro_apiServers o1))"
    using servers given alt(3) by (cases alt) simp_all
  ultimately show ?thesis using opts(2) cert(1,3) ok
    by (intro exI [of _ conf] exI [of _ "EncodeCertificatePEM C apiCert"] exI [of _ apiCert] exI [of _ alt]) simp
qed

theorem api_certificate_names_servers_witness:
  "\<exists>s' pem cert. Render symbolic_crypto example_net_lib example_Marshal example_opts ''/out'' empty_host 0 = (s', None) \<and>
     content s' [''out'', ''tls'', ''apiserver.crt''] = Some pem \<and> ParsePEMEncodedCACert symbolic_crypto pem = Inr cert \<and>
     ''kubernetes'' \<in> set (x_DNSNames cert) \<and> names_host (nl_ParseIP example_net_lib) cert ''node1.example.com''"
proof -
  obtain conf s' where run: "Render symbolic_crypto example_net_lib example_Marshal example_opts ''/out'' empty_host 0 = (s', None)" by (rule example_run)
  have key: "fs_key empty_host ''/out'' = [''out'']" by code_simp
  have none: "parseAltNames example_net_lib (ro_altNames example_opts) = Inr None" by (simp add: parseAltNames_def example_opts_def)
  have servers: "splitOn comma (ro_apiServers example_opts) = [''https://node1.example.com:6443'']" by code_simp
  have url: "written_host (u_Host u) ''node1.example.com''" if "nl_urlParse example_net_lib ''https://node1.example.com:6443'' = Inr u" for u
  proof -
    have "u_Host u = ''node1.example.com'' @ colon # ''6443''" using that by (auto simp: example_net_lib_def colon_def)
    moreover have "plain_host ''node1.example.com''" "plain_host ''6443''" by code_simp+
    ultimately show ?thesis unfolding written_host_def by blast
  qed
  from api_certificate_names_servers [OF symbolic_crypto_ok run] obtain pem cert alt where
    "content s' [''out'', ''tls'', ''apiserver.crt''] = Some pem" "ParsePEMEncodedCACert symbolic_crypto pem = Inr cert"
    "''kubernetes'' \<in> set (x_DNSNames cert)" "alt = None"
    "case alt of Some an \<Rightarrow> True
      | None \<Rightarrow> list_all (\<lambda>x. \<exists>u. nl_urlParse example_net_lib x = Inr u \<and> (\<forall>h. written_host (u_Host u) h \<longrightarrow> names_host (nl_ParseIP example_net_lib) cert h))
                  (splitOn comma (ro_apiServers example_opts))"
    unfolding key none by (auto split: option.splits)
  with run url show ?thesis by (auto simp: servers)
qed

section \<open>The pod network of flannel\<close>

lemma flannel_asset:
  assumes "cf_PodCIDR conf = None" "assetFromTemplate name FlannelCfgTemplate (config_value nl conf) = Inr a"
  shows "a_Name a = name \<and> (\<exists>before after. a_Data a = before @ ''\"Network\": \"<nil>\",'' @ after)"
proof -
  obtain b t where "template_Parse FlannelCfgTemplate =
     Inr [NText (b @ ''      \"Network\": \"''), NAction (EField [''PodCIDR'']), NText (''\",'' @ t)]"
    using flannel_net_conf by blast
  moreover have "eval (config_value nl conf) [] (EField [''PodCIDR'']) = Inr GNil"
    using assms(1) by (simp add: config_value_def net_value_def)
  ultimately have "a = mkAsset name ((b @ ''      \"Network\": \"'') @ ''<nil>'' @ ''\",'' @ t)"
    using assms(2) by (simp add: assetFromTemplate_def template_Execute_def)
  then show ?thesis by (auto intro: exI [of _ "b @ ''      ''"])
qed

text \<open>
  C30: \<open>bootkube render\<close> never fills in the pod network of flannel: the options set the list
  of pod networks, the template prints the deprecated single one, and the file that configures
  flannel says that the network is \<open><nil>\<close>, whatever \<open>--pod-cidr\<close> was given.
\<close>

theorem flannel_network_is_nil:
  assumes run: "Render C nl Marshal o1 dir s n = (s', None)" and dir: "dir \<noteq> ''''" and flannel: "ro_networkProvider o1 = NetworkFlannel"
  shows "\<exists>before after. content s' (fs_key s dir @ [''manifests'', ''flannel-cfg.yaml'']) = Some (before @ ''\"Network\": \"<nil>\",'' @ after)"
proof -
  obtain conf as n' where opts: "validateRenderOpts o1 = None" "flagsToAssetConfig C nl s o1 = Inr conf"
    and as: "NewDefaultAssets C nl Marshal conf n = (Inr as, n')" and wr: "Assets_WriteFiles s as dir = (s', None)" using run by (rule Render_accepted)
  obtain static dynamic rest where parts: "as = static @ dynamic @ rest" "newDynamicAssets nl (with_subdir conf) = Inr dynamic"
    by (rule NewDefaultAssets_split [OF as])
  have "(AssetPathFlannelCfg, FlannelCfgTemplate) \<in> set (network_templates (cf_NetworkProvider (with_subdir conf)))"
    using accepted_config(3) [OF opts] flannel by (simp add: network_templates_def with_subdir_def)
  then obtain a where a: "a \<in> set dynamic" "assetFromTemplate AssetPathFlannelCfg FlannelCfgTemplate (config_value nl (with_subdir conf)) = Inr a"
    using mustCreateAll_member [OF parts(2) [unfolded newDynamicAssets_def]] by auto
  have "cf_PodCIDR (with_subdir conf) = None" using accepted_config(2) [OF opts] by (simp add: with_subdir_def)
  from flannel_asset [OF this a(2)] obtain before after
    where d: "a_Name a = AssetPathFlannelCfg" "a_Data a = before @ ''\"Network\": \"<nil>\",'' @ after" by blast
  moreover have "splitOn slash AssetPathFlannelCfg = [''manifests'', ''flannel-cfg.yaml'']" by code_simp
  moreover have "content s' (fs_key s dir @ splitOn slash (a_Name a)) = Some (a_Data a)"
    using written_asset [OF as wr dir, of a] a(1) parts(1) by simp
  ultimately show ?thesis by auto
qed


theorem flannel_network_is_nil_witness:
  "\<exists>s' before after. Render symbolic_crypto example_net_lib example_Marshal example_opts ''/out'' empty_host 0 = (s', None) \<and>
     ro_podCIDR example_opts = ''10.2.0.0/16'' \<and>
     content s' [''out'', ''manifests'', ''flannel-cfg.yaml''] = Some (before @ ''\"Network\": \"<nil>\",'' @ after)"
proof -
  obtain conf s' where run: "Render symbolic_crypto example_net_lib example_Marshal example_opts ''/out'' empty_host 0 = (s', None)" by (rule example_run)
  have "fs_key empty_host ''/out'' = [''out'']" "ro_podCIDR example_opts = ''10.2.0.0/16''" "ro_networkProvider example_opts = NetworkFlannel"
    by code_simp+
  with flannel_network_is_nil [OF run] run show ?thesis by auto
qed

end
