(* ===== verification/GoFlag.thy ===== *)
theory GoFlag
  imports Prelude
begin

text \<open>
  Go's \<open>flag\<close> package as far as the sources use it: a \<open>FlagSet\<close> of string flags, each with the
  function that stores its value in the options, and \<open>Parse\<close>, the loop that takes one flag after
  the other from the arguments. The loop is written as one that might not return.
\<close>

type_synonym 'o flagSet = "(string \<times> (string \<Rightarrow> 'o \<Rightarrow> 'o)) list"

abbreviation dash :: char where "dash \<equiv> CHR ''-''"
abbreviation equals :: char where "equals \<equiv> CHR ''=''"

text \<open>The value after the first equals sign that is not the first character.\<close>

definition cutValue :: "string \<Rightarrow> string \<times> string option" where
  "cutValue name =
     (case name of
        [] \<Rightarrow> ([], None)
      | c # cs \<Rightarrow>
          (c # takeWhile (\<lambda>x. x \<noteq> equals) cs,
           case dropWhile (\<lambda>x. x \<noteq> equals) cs of [] \<Rightarrow> None | _ # value \<Rightarrow> Some value))"

text \<open>Whether a flag was seen, the options and the arguments that are left.\<close>

definition parseOne :: "'o flagSet \<Rightarrow> 'o \<Rightarrow> string list \<Rightarrow> go_error + bool \<times> 'o \<times> string list" where
  "parseOne formal opts args =
     (case args of
        [] \<Rightarrow> Inr (False, opts, [])
      | s # rest \<Rightarrow>
          (if length s < 2 \<or> hd s \<noteq> dash then Inr (False, opts, args)
           else if s = ''--'' then Inr (False, opts, rest)
           else (let name = (if s ! 1 = dash then drop 2 s else drop 1 s) in
             if name = '''' \<or> hd name = dash \<or> hd name = equals then Inl (Err (''bad flag syntax: '' @ s))
             else (case cutValue name of (nm, value) \<Rightarrow>
               (case map_of formal nm of
                  None \<Rightarrow>
                    (if nm = ''help'' \<or> nm = ''h'' then Inl (Err ''flag: help requested'')
                     else Inl (Err (''flag provided but not defined: -'' @ nm)))
                | Some setValue \<Rightarrow>
                    (case value of
                       Some v \<Rightarrow> Inr (True, setValue v opts, rest)
                     | None \<Rightarrow>
                         (case rest of
                            [] \<Rightarrow> Inl (Err (''flag needs an argument: -'' @ nm))
                          | v # rest' \<Rightarrow> Inr (True, setValue v opts, rest'))))))))"

partial_function (option) flag_Parse :: "'o flagSet \<Rightarrow> 'o \<Rightarrow> string list \<Rightarrow> (go_error + 'o \<times> string list) option" where
  "flag_Parse formal opts args =
     (case parseOne formal opts args of
        Inl e \<Rightarrow> Some (Inl e)
      | Inr (seen, opts', args') \<Rightarrow>
          (if seen then flag_Parse formal opts' args' else Some (Inr (opts', args'))))"

text \<open>One turn of the loop.\<close>

inductive parse_turn :: "'o flagSet \<Rightarrow> 'o \<times> string list \<Rightarrow> 'o \<times> string list \<Rightarrow> bool" for formal where
  turn: "parseOne formal opts args = Inr (True, opts', args') \<Longrightarrow> parse_turn formal (opts, args) (opts', args')"

inductive_cases parse_turnE: "parse_turn formal a b"

section \<open>Every turn takes an argument\<close>

lemma parseOne_consumes: "parseOne formal opts args = Inr (True, opts', args') \<Longrightarrow> length args' < length args"
  by (auto simp: parseOne_def Let_def split: list.splits if_splits prod.splits option.splits)

lemma parse_turns_bounded:
  assumes "(parse_turn formal ^^ k) a b"
  shows "k + length (snd b) \<le> length (snd a)"
  using assms
proof (induction k arbitrary: b)
  case (Suc k)
  then obtain c where c: "(parse_turn formal ^^ k) a c" "parse_turn formal c b" by auto
  from c(2) have "length (snd b) < length (snd c)" by (auto elim!: parse_turnE dest: parseOne_consumes)
  with Suc.IH [OF c(1)] show ?case by simp
qed simp

lemma flag_Parse_returns: "\<exists>r. flag_Parse formal opts args = Some r"
proof (induction args arbitrary: opts rule: length_induct)
  case (1 args)
  show ?case
  proof (cases "parseOne formal opts args")
    case (Inl e)
    then show ?thesis by (simp add: flag_Parse.simps)
  next
    case (Inr x)
    obtain seen opts' args' where x: "x = (seen, opts', args')" by (metis prod_cases3)
    show ?thesis
    proof (cases seen)
      case True
      then have "length args' < length args" using Inr x parseOne_consumes by metis
      then obtain r where "flag_Parse formal opts' args' = Some r" using "1.IH" by blast
      then show ?thesis using Inr x True by (subst flag_Parse.simps) simp
    qed (use Inr x in \<open>simp add: flag_Parse.simps\<close>)
  qed
qed

section \<open>Writing flags\<close>

text \<open>A flag with one or two dashes, and its value behind an equals sign or in the next argument.\<close>

record setting =
  st_name :: string
  st_value :: string
  st_double :: bool
  st_inline :: bool

definition write_setting :: "setting \<Rightarrow> string list" where
  "write_setting f =
     (let name = (if st_double f then ''--'' else ''-'') @ st_name f
      in if st_inline f then [name @ equals # st_value f] else [name, st_value f])"

definition flag_name :: "string \<Rightarrow> bool" where
  "flag_name nm \<longleftrightarrow> nm \<noteq> '''' \<and> hd nm \<noteq> dash \<and> equals \<notin> set nm"

lemma cutValue_simps:
  assumes "flag_name nm"
  shows "cutValue nm = (nm, None)" "cutValue (nm @ equals # v) = (nm, Some v)"
proof -
  obtain c cs where nm: "nm = c # cs" "equals \<notin> set cs" using assms by (cases nm) (auto simp: flag_name_def)
  then have none: "takeWhile (\<lambda>x. x \<noteq> equals) cs = cs" "dropWhile (\<lambda>x. x \<noteq> equals) cs = []"
    by (auto simp: takeWhile_eq_all_conv dropWhile_eq_Nil_conv)
  have some: "takeWhile (\<lambda>x. x \<noteq> equals) (cs @ equals # v) = cs" "dropWhile (\<lambda>x. x \<noteq> equals) (cs @ equals # v) = equals # v"
    using nm(2) by (auto simp: takeWhile_append dropWhile_append)
  show "cutValue nm = (nm, None)" by (simp only: nm(1) cutValue_def list.case none)
  show "cutValue (nm @ equals # v) = (nm, Some v)" by (simp only: nm(1) append_Cons cutValue_def list.case some)
qed

lemma parseOne_setting:
  assumes nm: "flag_name (st_name f)" and set: "map_of formal (st_name f) = Some setValue"
  shows "parseOne formal opts (write_setting f @ args) = Inr (True, setValue (st_value f) opts, args)"
proof -
  obtain c cs where c: "st_name f = c # cs" "c \<noteq> dash" "c \<noteq> equals" using nm by (cases "st_name f") (auto simp: flag_name_def)
  note cut = cutValue_simps [OF nm, unfolded c(1)]
  show ?thesis using c(2,3) set unfolding write_setting_def
    by (cases "st_double f"; cases "st_inline f") (simp_all add: parseOne_def c(1) cut [simplified] Let_def)
qed

lemma flag_Parse_settings:
  assumes "\<And>f. f \<in> set fs \<Longrightarrow> flag_name (st_name f) \<and> st_name f \<in> fst ` set formal"
  shows "flag_Parse formal opts (concat (map write_setting fs) @ args) =
     flag_Parse formal (foldl (\<lambda>o1 f. the (map_of formal (st_name f)) (st_value f) o1) opts fs) args"
  using assms
proof (induction fs arbitrary: opts)
  case (Cons f fs)
  obtain setValue where set: "map_of formal (st_name f) = Some setValue" using Cons.prems [of f] by (metis list.set_intros(1) map_of_eq_None_iff not_None_eq)
  have nm: "flag_name (st_name f)" using Cons.prems by simp
  have "flag_Parse formal opts (write_setting f @ concat (map write_setting fs) @ args) = flag_Parse formal (setValue (st_value f) opts) (concat (map write_setting fs) @ args)"
    by (subst flag_Parse.simps) (simp add: parseOne_setting [OF nm set])
  with Cons.IH [of "setValue (st_value f) opts"] Cons.prems set show ?case by simp
qed simp

lemma flag_Parse_rest: "flag_Parse formal opts [] = Some (Inr (opts, []))"
  by (simp add: flag_Parse.simps parseOne_def)

section \<open>Every command line\<close>

text \<open>
  Where the flags end, and where one is bad: it has no name, or a third dash or an equals sign
  in front of it, its name is not a flag's, or its value is missing.
\<close>

definition flag_text :: "string \<Rightarrow> string" where
  "flag_text s = (if s ! 1 = dash then drop 2 s else drop 1 s)"

definition ends_flags :: "string list \<Rightarrow> bool" where
  "ends_flags args \<longleftrightarrow> args = [] \<or> length (hd args) < 2 \<or> hd (hd args) \<noteq> dash \<or> hd args = ''--''"

definition bad_flag :: "'o flagSet \<Rightarrow> string list \<Rightarrow> bool" where
  "bad_flag formal args \<longleftrightarrow> \<not> ends_flags args \<and>
     (let t = flag_text (hd args) in
      t = '''' \<or> hd t = dash \<or> hd t = equals \<or> takeWhile (\<lambda>x. x \<noteq> equals) t \<notin> fst ` set formal \<or>
      equals \<notin> set t \<and> tl args = [])"

lemma parse_ends: "ends_flags args \<Longrightarrow> \<exists>left. flag_Parse formal opts args = Some (Inr (opts, left))"
  by (cases args) (auto simp: ends_flags_def flag_Parse.simps parseOne_def)

lemma cutValue_takeWhile:
  assumes "t \<noteq> []" "hd t \<noteq> equals"
  shows "cutValue t = (takeWhile (\<lambda>x. x \<noteq> equals) t, if equals \<in> set t then Some (tl (dropWhile (\<lambda>x. x \<noteq> equals) t)) else None)"
proof -
  obtain c cs where t: "t = c # cs" "c \<noteq> equals" using assms by (cases t) auto
  show ?thesis
  proof (cases "dropWhile (\<lambda>x. x \<noteq> equals) cs")
    case Nil
    then have "\<forall>x \<in> set cs. x \<noteq> equals" by (rule dropWhile_eq_Nil_conv [THEN iffD1])
    then have "equals \<notin> set cs" by blast
    then show ?thesis unfolding t(1) cutValue_def list.case Nil using t(2) by simp
  next
    case (Cons x xs)
    then have "\<not> (\<forall>x \<in> set cs. x \<noteq> equals)" unfolding dropWhile_eq_Nil_conv [symmetric] by simp
    then have "equals \<in> set cs" by blast
    then show ?thesis using t(2) by (simp add: t(1) cutValue_def Cons)
  qed
qed

lemma parse_bad:
  assumes "bad_flag formal args"
  shows "\<exists>e. flag_Parse formal opts args = Some (Inl e)"
proof -
  obtain s rest where args: "args = s # rest" "length s \<ge> 2" "hd s = dash" "s \<noteq> ''--''"
    using assms by (cases args) (auto simp: bad_flag_def ends_flags_def)
  let ?t = "flag_text s"
  have "\<exists>e. parseOne formal opts args = Inl e"
  proof (cases "?t = '''' \<or> hd ?t = dash \<or> hd ?t = equals")
    case True
    then show ?thesis using args by (auto simp: parseOne_def flag_text_def Let_def)
  next
    case False
    have one: "parseOne formal opts args =
       (case cutValue ?t of (nm, value) \<Rightarrow>
               (case map_of formal nm of
                  None \<Rightarrow>
                    (if nm = ''help'' \<or> nm = ''h'' then Inl (Err ''flag: help requested'')
                     else Inl (Err (''flag provided but not defined: -'' @ nm)))
                | Some setValue \<Rightarrow>
                    (case value of
                       Some v \<Rightarrow> Inr (True, setValue v opts, rest)
                     | None \<Rightarrow>
                         (case rest of
                            [] \<Rightarrow> Inl (Err (''flag needs an argument: -'' @ nm))
                          | v # rest' \<Rightarrow> Inr (True, setValue v opts, rest')))))"
      using False args by (simp only: parseOne_def flag_text_def [symmetric] Let_def) simp
    have cut: "cutValue ?t = (takeWhile (\<lambda>x. x \<noteq> equals) ?t, if equals \<in> set ?t then Some (tl (dropWhile (\<lambda>x. x \<noteq> equals) ?t)) else None)"
      using False by (intro cutValue_takeWhile) simp_all
    have bad: "takeWhile (\<lambda>x. x \<noteq> equals) ?t \<notin> fst ` set formal \<or> equals \<notin> set ?t \<and> rest = []"
      using assms False args(1) unfolding bad_flag_def Let_def by simp
    show ?thesis
    proof (cases "map_of formal (takeWhile (\<lambda>x. x \<noteq> equals) ?t)")
      case None
      then show ?thesis unfolding one cut by simp
    next
      case (Some setValue)
      then have "takeWhile (\<lambda>x. x \<noteq> equals) ?t \<in> fst ` set formal" by (metis map_of_eq_None_iff option.distinct(1))
      then have "equals \<notin> set ?t" "rest = []" using bad by simp_all
      then show ?thesis unfolding one cut by (simp add: Some)
    qed
  qed
  then show ?thesis by (auto simp: flag_Parse.simps)
qed

lemma good_flag:
  assumes "\<not> ends_flags args" "\<not> bad_flag formal args"
  obtains f rest where "args = write_setting f @ rest" "flag_name (st_name f)" "st_name f \<in> fst ` set formal"
proof -
  obtain s more where args: "args = s # more" "length s \<ge> 2" "hd s = dash"
    using assms(1) by (cases args) (auto simp: ends_flags_def)
  let ?t = "flag_text s"
  let ?nm = "takeWhile (\<lambda>x. x \<noteq> equals) ?t" and ?v = "tl (dropWhile (\<lambda>x. x \<noteq> equals) ?t)"
  have t: "?t \<noteq> ''''" "hd ?t \<noteq> dash" "hd ?t \<noteq> equals" "?nm \<in> fst ` set formal" "equals \<in> set ?t \<or> more \<noteq> []"
    using assms args by (auto simp: bad_flag_def Let_def)
  have nm: "flag_name ?nm" using t(1-3) by (cases ?t) (auto simp: flag_name_def dest: set_takeWhileD)
  have s: "s = (if s ! 1 = dash then ''--'' else ''-'') @ ?t"
  proof -
    obtain x y z where "s = x # y # z" using args(2) by (cases s; cases "tl s") auto
    then show ?thesis using args(3) by (simp add: flag_text_def)
  qed
  show thesis
  proof (cases "equals \<in> set ?t")
    case True
    then have "\<not> (\<forall>x \<in> set ?t. x \<noteq> equals)" by blast
    then have "dropWhile (\<lambda>x. x \<noteq> equals) ?t \<noteq> []" unfolding dropWhile_eq_Nil_conv .
    moreover from this have "hd (dropWhile (\<lambda>x. x \<noteq> equals) ?t) = equals" using hd_dropWhile [of "\<lambda>x. x \<noteq> equals" ?t] by simp
    ultimately have "dropWhile (\<lambda>x. x \<noteq> equals) ?t = equals # ?v" by (metis list.collapse)
    then have "?t = ?nm @ equals # ?v" by (metis takeWhile_dropWhile_id)
    then have "args = write_setting \<lparr>st_name = ?nm, st_value = ?v, st_double = (s ! 1 = dash), st_inline = True\<rparr> @ more"
      using s args(1) by (simp add: write_setting_def)
    from that [OF this] show thesis using nm t(4) unfolding setting.select_convs by blast
  next
    case False
    then have "\<forall>x \<in> set ?t. x \<noteq> equals" by blast
    then have eq: "?nm = ?t" by (rule takeWhile_eq_all_conv [THEN iffD2])
    obtain v rest where "more = v # rest" using t(5) False by (cases more) auto
    then have "args = write_setting \<lparr>st_name = ?t, st_value = v, st_double = (s ! 1 = dash), st_inline = False\<rparr> @ rest"
      using s args(1) by (simp add: write_setting_def)
    then have "args = write_setting \<lparr>st_name = ?nm, st_value = v, st_double = (s ! 1 = dash), st_inline = False\<rparr> @ rest"
      unfolding eq .
    from that [OF this] show thesis using nm t(4) unfolding setting.select_convs by blast
  qed
qed

text \<open>Every command line is a sequence of flags up to an end of the flags or to a bad one.\<close>

lemma flag_Parse_cases:
  obtains fs rest left where "args = concat (map write_setting fs) @ rest"
      "list_all (\<lambda>f. flag_name (st_name f) \<and> st_name f \<in> fst ` set formal) fs" "ends_flags rest"
      "flag_Parse formal opts args = Some (Inr (foldl (\<lambda>o1 f. the (map_of formal (st_name f)) (st_value f) o1) opts fs, left))"
  | fs rest e where "args = concat (map write_setting fs) @ rest"
      "list_all (\<lambda>f. flag_name (st_name f) \<and> st_name f \<in> fst ` set formal) fs" "bad_flag formal rest"
      "flag_Parse formal opts args = Some (Inl e)"
proof -
  have "\<exists>fs rest. args = concat (map write_setting fs) @ rest \<and>
      list_all (\<lambda>f. flag_name (st_name f) \<and> st_name f \<in> fst ` set formal) fs \<and> (ends_flags rest \<or> bad_flag formal rest)" for args
  proof (induction args rule: length_induct)
    case (1 args)
    show ?case
    proof (cases "ends_flags args \<or> bad_flag formal args")
      case True
      show ?thesis by (rule exI [of _ "[]"], rule exI [of _ args]) (use True in simp)
    next
      case False
      then obtain f rest where f: "args = write_setting f @ rest" "flag_name (st_name f)" "st_name f \<in> fst ` set formal"
        using good_flag [of args formal] by blast
      then have "length rest < length args" by (simp add: write_setting_def Let_def)
      with 1 obtain fs rest' where "rest = concat (map write_setting fs) @ rest'"
        "list_all (\<lambda>f. flag_name (st_name f) \<and> st_name f \<in> fst ` set formal) fs" "ends_flags rest' \<or> bad_flag formal rest'" by blast
      with f show ?thesis by (intro exI [of _ "f # fs"]) auto
    qed
  qed
  then obtain fs rest where fs: "args = concat (map write_setting fs) @ rest"
    "list_all (\<lambda>f. flag_name (st_name f) \<and> st_name f \<in> fst ` set formal) fs" "ends_flags rest \<or> bad_flag formal rest" by blast
  let ?opts = "foldl (\<lambda>o1 f. the (map_of formal (st_name f)) (st_value f) o1) opts fs"
  have run: "flag_Parse formal opts args = flag_Parse formal ?opts rest"
    unfolding fs(1) using fs(2) by (intro flag_Parse_settings) (simp add: list_all_iff)
  from fs(3) show thesis
    using that(1) [OF fs(1,2)] that(2) [OF fs(1,2)] run parse_ends [of rest formal ?opts] parse_bad [of formal rest ?opts] by auto
qed

end
