(* ===== verification/RenderFlags.thy ===== *)
theory RenderFlags
  imports RenderOptions GoFlag
begin

text \<open>
  The flags of the default render plugin: the first half of \<open>Render\<close> of
  \<open>cmd/render/plugin/default/main.go\<close>, which registers a flag for every option, parses the
  arguments it gets and goes on with the options. The flag set is made with \<open>flag.ExitOnError\<close>:
  when parsing fails, or help is asked for, the package prints why and ends the process with status 2, so the
  plugin does not return to its caller then. How it ends is an \<open>ending\<close>.
\<close>

section \<open>Flags\<close>

definition defaultEtcdServers :: string where "defaultEtcdServers = ''https://127.0.0.1:2379''"

text \<open>Registering a flag stores its default value.\<close>

definition default_renderOpts :: renderOpts where
  "default_renderOpts =
     \<lparr>ro_caCertificatePath = '''',
      ro_caPrivateKeyPath = '''',
      ro_etcdCAPath = '''',
      ro_etcdCertificatePath = '''',
      ro_etcdPrivateKeyPath = '''',
      ro_etcdServers = defaultEtcdServers,
      ro_apiServers = ''https://127.0.0.1:6443'',
      ro_altNames = '''',
      ro_podCIDR = ''10.2.0.0/16'',
      ro_serviceCIDR = ''10.3.0.0/24'',
      ro_cloudProvider = '''',
      ro_networkProvider = ''flannel'',
      ro_clusterName = ''''\<rparr>"

definition render_flags :: "renderOpts flagSet" where
  "render_flags =
     [(''ca-certificate-path'', \<lambda>v o1. o1\<lparr>ro_caCertificatePath := v\<rparr>),
      (''ca-private-key-path'', \<lambda>v o1. o1\<lparr>ro_caPrivateKeyPath := v\<rparr>),
      (''etcd-ca-path'', \<lambda>v o1. o1\<lparr>ro_etcdCAPath := v\<rparr>),
      (''etcd-certificate-path'', \<lambda>v o1. o1\<lparr>ro_etcdCertificatePath := v\<rparr>),
      (''etcd-private-key-path'', \<lambda>v o1. o1\<lparr>ro_etcdPrivateKeyPath := v\<rparr>),
      (''etcd-servers'', \<lambda>v o1. o1\<lparr>ro_etcdServers := v\<rparr>),
      (''api-servers'', \<lambda>v o1. o1\<lparr>ro_apiServers := v\<rparr>),
      (''api-server-alt-names'', \<lambda>v o1. o1\<lparr>ro_altNames := v\<rparr>),
      (''pod-cidr'', \<lambda>v o1. o1\<lparr>ro_podCIDR := v\<rparr>),
      (''service-cidr'', \<lambda>v o1. o1\<lparr>ro_serviceCIDR := v\<rparr>),
      (''cloud-provider'', \<lambda>v o1. o1\<lparr>ro_cloudProvider := v\<rparr>),
      (''network-provider'', \<lambda>v o1. o1\<lparr>ro_networkProvider := v\<rparr>),
      (''cluster-name'', \<lambda>v o1. o1\<lparr>ro_clusterName := v\<rparr>)]"

text \<open>The process exits with a status, or the call returns.\<close>

datatype ending = Exit int | Return "go_error option"

definition RenderPlugin ::
  "crypto \<Rightarrow> net_lib \<Rightarrow> (secret \<Rightarrow> go_error + bytes) \<Rightarrow> string \<Rightarrow> string list \<Rightarrow> fs \<Rightarrow> nat \<Rightarrow> (fs \<times> ending) option" where
  "RenderPlugin C nl Marshal assetDir args s n =
     (case flag_Parse render_flags default_renderOpts args of
        None \<Rightarrow> None
      | Some (Inl e) \<Rightarrow> Some (s, Exit 2)
      | Some (Inr (opts, _)) \<Rightarrow> Some (map_prod id Return (Render C nl Marshal opts assetDir s n)))"

section \<open>The command\<close>

text \<open>
  \<open>bootkube render\<close> of \<open>cmd/bootkube/render.go\<close>: it opens the plugin, looks the renderer up
  and calls it. Opening, looking up and the type of the symbol are the record \<open>plugin_lib\<close>.
\<close>

type_synonym renderer = "string \<Rightarrow> string list \<Rightarrow> fs \<Rightarrow> (fs \<times> ending) option"

record ('p, 'y) plugin_lib =
  pl_Open :: "string \<Rightarrow> go_error + 'p"
  pl_Lookup :: "'p \<Rightarrow> string \<Rightarrow> go_error + 'y"
  pl_Renderer :: "'y \<Rightarrow> renderer option"

record renderCmdOpts =
  rd_assetDir :: string
  rd_plugin :: string
  rd_pluginFlags :: "string list"

definition runCmdRender :: "('p, 'y) plugin_lib \<Rightarrow> renderCmdOpts \<Rightarrow> fs \<Rightarrow> (fs \<times> ending) option" where
  "runCmdRender pl opts s =
     (case pl_Open pl (rd_plugin opts) of
        Inl e \<Rightarrow> Some (s, Return (Some e))
      | Inr plug \<Rightarrow>
          (case pl_Lookup pl plug ''Renderer'' of
             Inl e \<Rightarrow> Some (s, Return (Some e))
           | Inr symbol \<Rightarrow>
               (case pl_Renderer pl symbol of
                  None \<Rightarrow> Some (s, Return (Some (Err ''unexpected type from plugin'')))
                | Some renderer \<Rightarrow> renderer (rd_assetDir opts) (rd_pluginFlags opts) s)))"

text \<open>With the default plugin the command renders.\<close>

lemma render_command_default:
  assumes "pl_Open pl (rd_plugin opts) = Inr plug" "pl_Lookup pl plug ''Renderer'' = Inr symbol"
    "pl_Renderer pl symbol = Some (\<lambda>dir args s. RenderPlugin C nl Marshal dir args s n)"
  shows "runCmdRender pl opts s = RenderPlugin C nl Marshal (rd_assetDir opts) (rd_pluginFlags opts) s n"
  using assms by (simp add: runCmdRender_def)

section \<open>What a flag stores\<close>

definition render_values :: "(string \<times> (renderOpts \<Rightarrow> string)) list" where
  "render_values =
     [(''ca-certificate-path'', ro_caCertificatePath),
      (''ca-private-key-path'', ro_caPrivateKeyPath),
      (''etcd-ca-path'', ro_etcdCAPath),
      (''etcd-certificate-path'', ro_etcdCertificatePath),
      (''etcd-private-key-path'', ro_etcdPrivateKeyPath),
      (''etcd-servers'', ro_etcdServers),
      (''api-servers'', ro_apiServers),
      (''api-server-alt-names'', ro_altNames),
      (''pod-cidr'', ro_podCIDR),
      (''service-cidr'', ro_serviceCIDR),
      (''cloud-provider'', ro_cloudProvider),
      (''network-provider'', ro_networkProvider),
      (''cluster-name'', ro_clusterName)]"

text \<open>The value of the option a flag belongs to.\<close>

definition flag_value :: "string \<Rightarrow> renderOpts \<Rightarrow> string" where
  "flag_value nm opts = (case map_of render_values nm of Some getValue \<Rightarrow> getValue opts | None \<Rightarrow> '''')"

lemma flag_names: "map fst render_flags = map fst render_values" "list_all flag_name (map fst render_flags)"
  by code_simp+

lemma set_flag:
  "list_all (\<lambda>(nm, setValue). list_all (\<lambda>(nm', getValue). getValue (setValue v opts) = (if nm' = nm then v else getValue opts)) render_values) render_flags"
  by (simp add: render_flags_def render_values_def)

lemma flag_value_set:
  assumes "map_of render_flags nm = Some setValue" "nm' \<in> fst ` set render_flags"
  shows "flag_value nm' (setValue v opts) = (if nm' = nm then v else flag_value nm' opts)"
proof -
  have "nm' \<in> set (map fst render_values)" using assms(2) unfolding flag_names(1) [symmetric] by simp
  then obtain getValue where get: "map_of render_values nm' = Some getValue" by (metis list.set_map map_of_eq_None_iff not_None_eq)
  have "(nm, setValue) \<in> set render_flags" "(nm', getValue) \<in> set render_values"
    using map_of_SomeD [OF assms(1)] map_of_SomeD [OF get] .
  then have "getValue (setValue v opts) = (if nm' = nm then v else getValue opts)" using set_flag [of v opts] unfolding list_all_iff by blast
  then show ?thesis by (simp add: flag_value_def get)
qed

lemma flag_values_set:
  assumes "\<And>f. f \<in> set fs \<Longrightarrow> st_name f \<in> fst ` set render_flags" "nm \<in> fst ` set render_flags"
  shows "flag_value nm (foldl (\<lambda>o1 f. the (map_of render_flags (st_name f)) (st_value f) o1) opts fs) =
     (case map_of (rev (map (\<lambda>f. (st_name f, st_value f)) fs)) nm of Some v \<Rightarrow> v | None \<Rightarrow> flag_value nm opts)"
  using assms(1)
proof (induction fs arbitrary: opts)
  case (Cons f fs)
  obtain setValue where set: "map_of render_flags (st_name f) = Some setValue"
    using Cons.prems [of f] by (metis list.set_intros(1) map_of_eq_None_iff not_None_eq)
  show ?case
    using Cons.IH [of "setValue (st_value f) opts"] Cons.prems flag_value_set [OF set assms(2)] set
    by (auto simp: map_add_def split: option.splits)
qed simp

section \<open>Properties\<close>

text \<open>
  C39: Giving options to the render plugin as flags loses nothing: with one or two dashes, with
  the value behind an equals sign or in the next argument, in any order, every option holds the
  value of the last flag given for it, or its default, and the rendering goes on with those
  options.
\<close>

theorem render_flags_roundtrip:
  assumes "\<forall>f \<in> set fs. st_name f \<in> fst ` set render_flags"
  shows "\<exists>opts. RenderPlugin C nl Marshal assetDir (concat (map write_setting fs)) s n =
        Some (map_prod id Return (Render C nl Marshal opts assetDir s n)) \<and>
     (\<forall>nm \<in> fst ` set render_flags. flag_value nm opts =
        (case map_of (rev (map (\<lambda>f. (st_name f, st_value f)) fs)) nm of Some v \<Rightarrow> v | None \<Rightarrow> flag_value nm default_renderOpts))"
proof -
  let ?opts = "foldl (\<lambda>o1 f. the (map_of render_flags (st_name f)) (st_value f) o1) default_renderOpts fs"
  have "flag_name nm" if "nm \<in> fst ` set render_flags" for nm using flag_names(2) that by (auto simp: list_all_iff)
  then have "flag_Parse render_flags default_renderOpts (concat (map write_setting fs)) = Some (Inr (?opts, []))"
    using flag_Parse_settings [of fs render_flags default_renderOpts "[]"] assms by (simp add: flag_Parse_rest)
  then show ?thesis using flag_values_set [of fs _ default_renderOpts] assms by (intro exI [of _ ?opts]) (simp add: RenderPlugin_def)
qed

text \<open>
  Options that hold the value of the last of some flags, or their defaults.
\<close>

definition options_of :: "setting list \<Rightarrow> renderOpts \<Rightarrow> bool" where
  "options_of fs opts \<longleftrightarrow> list_all (\<lambda>nm. flag_value nm opts =
     (case map_of (rev (map (\<lambda>f. (st_name f, st_value f)) fs)) nm of Some v \<Rightarrow> v | None \<Rightarrow> flag_value nm default_renderOpts)) (map fst render_flags)"

text \<open>
  C40: What the render plugin does with any command line. Its arguments are some flags that the
  plugin has, in one of the four spellings, and then either the end of the flags (no more
  arguments, one that is no flag, or two dashes), and the plugin renders with the options those
  flags set, ignoring what follows; or a bad flag (an unknown name, \<open>-help\<close> among them, a name
  without a value, or a malformed one), and the process exits with status 2 and has written
  nothing, whatever the flags before it said. There is no other outcome, and parsing always ends.
\<close>

theorem command_line_renders_or_exits:
  "\<exists>fs rest. args = concat (map write_setting fs) @ rest \<and> list_all (\<lambda>f. st_name f \<in> set (map fst render_flags)) fs \<and>
     (ends_flags rest \<and> (\<exists>opts. options_of fs opts \<and>
        RenderPlugin C nl Marshal assetDir args s n = Some (map_prod id Return (Render C nl Marshal opts assetDir s n))) \<or>
      bad_flag render_flags rest \<and> RenderPlugin C nl Marshal assetDir args s n = Some (s, Exit 2))"
proof (rule flag_Parse_cases [of args render_flags default_renderOpts])
  fix fs :: "setting list" and rest left
  let ?opts = "foldl (\<lambda>o1 f. the (map_of render_flags (st_name f)) (st_value f) o1) default_renderOpts fs"
  assume fs: "args = concat (map write_setting fs) @ rest" "list_all (\<lambda>f. flag_name (st_name f) \<and> st_name f \<in> fst ` set render_flags) fs"
    and ends: "ends_flags rest" and run: "flag_Parse render_flags default_renderOpts args = Some (Inr (?opts, left))"
  have known: "list_all (\<lambda>f. st_name f \<in> set (map fst render_flags)) fs" using fs(2) by (simp add: list_all_iff)
  have "RenderPlugin C nl Marshal assetDir args s n = Some (map_prod id Return (Render C nl Marshal ?opts assetDir s n))"
    by (simp add: RenderPlugin_def run)
  moreover have "options_of fs ?opts"
    unfolding options_of_def list_all_iff set_map using flag_values_set [of fs _ default_renderOpts] fs(2) by (simp add: list_all_iff)
  ultimately show ?thesis using fs(1) known ends by blast
next
  fix fs :: "setting list" and rest e
  assume fs: "args = concat (map write_setting fs) @ rest" "list_all (\<lambda>f. flag_name (st_name f) \<and> st_name f \<in> fst ` set render_flags) fs"
    and bad: "bad_flag render_flags rest" and run: "flag_Parse render_flags default_renderOpts args = Some (Inl e)"
  have known: "list_all (\<lambda>f. st_name f \<in> set (map fst render_flags)) fs" using fs(2) by (simp add: list_all_iff)
  have "RenderPlugin C nl Marshal assetDir args s n = Some (s, Exit 2)" by (simp add: RenderPlugin_def run)
  then show ?thesis using fs(1) known bad by blast
qed

definition example_settings :: "setting list" where
  "example_settings =
     [\<lparr>st_name = ''pod-cidr'', st_value = ''10.4.0.0/16'', st_double = True, st_inline = True\<rparr>,
      \<lparr>st_name = ''network-provider'', st_value = ''experimental-canal'', st_double = False, st_inline = False\<rparr>,
      \<lparr>st_name = ''pod-cidr'', st_value = ''10.5.0.0/16'', st_double = False, st_inline = True\<rparr>]"

theorem render_flags_roundtrip_witness:
  "concat (map write_setting example_settings) = [''--pod-cidr=10.4.0.0/16'', ''-network-provider'', ''experimental-canal'', ''-pod-cidr=10.5.0.0/16''] \<and>
   (\<exists>opts. RenderPlugin symbolic_crypto example_net_lib example_Marshal ''/out'' (concat (map write_setting example_settings)) empty_host 0 =
        Some (map_prod id Return (Render symbolic_crypto example_net_lib example_Marshal opts ''/out'' empty_host 0)) \<and>
      flag_value ''pod-cidr'' opts = ''10.5.0.0/16'' \<and> flag_value ''service-cidr'' opts = ''10.3.0.0/24'')"
proof
  show "concat (map write_setting example_settings) = [''--pod-cidr=10.4.0.0/16'', ''-network-provider'', ''experimental-canal'', ''-pod-cidr=10.5.0.0/16'']"
    by code_simp
  have known: "list_all (\<lambda>f. st_name f \<in> set (map fst render_flags)) example_settings" "''pod-cidr'' \<in> set (map fst render_flags)" "''service-cidr'' \<in> set (map fst render_flags)"
    by code_simp+
  have found: "map_of (rev (map (\<lambda>f. (st_name f, st_value f)) example_settings)) ''pod-cidr'' = Some ''10.5.0.0/16''"
    "map_of (rev (map (\<lambda>f. (st_name f, st_value f)) example_settings)) ''service-cidr'' = None" "flag_value ''service-cidr'' default_renderOpts = ''10.3.0.0/24''"
    by code_simp+
  from known(1) have "\<forall>f \<in> set example_settings. st_name f \<in> fst ` set render_flags" by (simp only: list_all_iff set_map)
  from render_flags_roundtrip [OF this, of symbolic_crypto example_net_lib example_Marshal "''/out''" empty_host 0] obtain opts where
    run: "RenderPlugin symbolic_crypto example_net_lib example_Marshal ''/out'' (concat (map write_setting example_settings)) empty_host 0 =
        Some (map_prod id Return (Render symbolic_crypto example_net_lib example_Marshal opts ''/out'' empty_host 0))"
    and vals: "\<forall>nm \<in> fst ` set render_flags. flag_value nm opts =
        (case map_of (rev (map (\<lambda>f. (st_name f, st_value f)) example_settings)) nm of Some v \<Rightarrow> v | None \<Rightarrow> flag_value nm default_renderOpts)" by blast
  have "flag_value ''pod-cidr'' opts = ''10.5.0.0/16''" using vals [rule_format, OF known(2) [unfolded set_map]] found(1) by (simp only: option.case)
  moreover have "flag_value ''service-cidr'' opts = ''10.3.0.0/24''" using vals [rule_format, OF known(3) [unfolded set_map]] found(2,3) by (simp only: option.case)
  ultimately show "\<exists>opts. RenderPlugin symbolic_crypto example_net_lib example_Marshal ''/out'' (concat (map write_setting example_settings)) empty_host 0 =
        Some (map_prod id Return (Render symbolic_crypto example_net_lib example_Marshal opts ''/out'' empty_host 0)) \<and>
      flag_value ''pod-cidr'' opts = ''10.5.0.0/16'' \<and> flag_value ''service-cidr'' opts = ''10.3.0.0/24''" using run by blast
qed

text \<open>An option without its value after a good one.\<close>

theorem command_line_renders_or_exits_witness:
  "RenderPlugin symbolic_crypto example_net_lib example_Marshal ''/out'' [''-pod-cidr''] empty_host 0 = Some (empty_host, Exit 2)"
proof -
  obtain fs rest where fs: "[''-pod-cidr''] = concat (map write_setting fs) @ rest"
    "list_all (\<lambda>f. st_name f \<in> set (map fst render_flags)) fs"
    "ends_flags rest \<or> RenderPlugin symbolic_crypto example_net_lib example_Marshal ''/out'' [''-pod-cidr''] empty_host 0 = Some (empty_host, Exit 2)"
    using command_line_renders_or_exits [of "[''-pod-cidr'']" symbolic_crypto example_net_lib example_Marshal "''/out''" empty_host 0] by blast
  have "rest = [''-pod-cidr'']"
  proof (cases fs)
    case (Cons f fs')
    then have "write_setting f = [''-pod-cidr''] \<and> rest = []" using fs(1) by (auto simp: write_setting_def Let_def split: if_splits)
    then show ?thesis by (cases "st_inline f"; cases "st_double f") (auto simp: write_setting_def Let_def append_eq_Cons_conv)
  qed (use fs(1) in simp)
  moreover have "\<not> ends_flags [''-pod-cidr'']" by code_simp
  ultimately show ?thesis using fs(3) by simp
qed

end
