(* ===== verification/TidyFs.thy ===== *)
theory TidyFs
  imports BootstrapSecrets AssetHost
begin

text \<open>
  A well-formed file system: every node but the root is in a directory, names are plain path
  elements and every path is there once. Every call of the sources keeps it so, also the ones
  that fail half way.
\<close>

definition tidy :: "fs \<Rightarrow> bool" where
  "tidy s \<longleftrightarrow> fs_wf s \<and> names_ok s \<and> distinct (map fst (entries s)) \<and> list_all plain_comp (cwd s)"

named_theorems tidy_calls \<open>calls that keep a file system well-formed\<close>

lemma tidyD: "tidy s \<Longrightarrow> fs_wf s" "tidy s \<Longrightarrow> names_ok s" "tidy s \<Longrightarrow> distinct (map fst (entries s))"
  by (simp_all add: tidy_def)

lemma tidy_key: "tidy s \<Longrightarrow> list_all plain_comp (fs_key s p)"
  using foldl_clean_rooted_plain [of "if hasPrefix p ''/'' then [] else rev (cwd s)" "splitOn slash p"] splitOn_no_slash [of slash p]
  by (auto simp: fs_key_def tidy_def list_all_iff)

lemma tidy_put:
  assumes "tidy s" "fs_wf (fs_put s k n)" "list_all plain_comp k"
  shows "tidy (fs_put s k n)"
  using assms distinct_update [of "entries s" k n] by (auto simp: tidy_def names_ok_def) (simp add: fs_put_def)

section \<open>Single calls\<close>

lemma tidy_put_file:
  assumes "tidy s" "is_dir (fs_node s (butlast (fs_key s p)))" "fs_node s (fs_key s p) = None"
  shows "tidy (fs_put s (fs_key s p) n)"
proof -
  have "fs_key s p \<noteq> []" using assms by (auto simp: tidy_def fs_wf_def)
  then show ?thesis using assms by (intro tidy_put fs_wf_put_file tidy_key tidyD) simp_all
qed

lemma tidy_replace_file:
  assumes "tidy s" "fs_node s (fs_key s p) = Some (NFile d m)"
  shows "tidy (fs_put s (fs_key s p) n)"
  using assms by (intro tidy_put fs_wf_replace_file tidy_key tidyD)

lemma os_OpenFile_tidy [tidy_calls]: "tidy s \<Longrightarrow> tidy (fst (os_OpenFile excl trunc mode s p))"
  by (auto simp: os_OpenFile_def Let_def parent_error_None split: option.splits node.splits intro: tidy_put_file tidy_replace_file)

lemma file_Write_tidy [tidy_calls]: "tidy s \<Longrightarrow> tidy (fst (file_Write s p d))"
  by (auto simp: file_Write_def Let_def split: option.splits node.splits intro: tidy_replace_file)

lemma os_Mkdir_tidy [tidy_calls]: "tidy s \<Longrightarrow> tidy (fst (os_Mkdir s p mode))"
  by (auto simp: os_Mkdir_def Let_def parent_error_None split: option.splits intro: tidy_put_file)

lemma os_RemoveAll_tidy [tidy_calls]:
  assumes "tidy s"
  shows "tidy (fst (os_RemoveAll s p))"
proof (cases "os_RemoveAll s p")
  case (Pair s' r)
  show ?thesis
  proof (cases r)
    case None
    then have s': "s' = s\<lparr>entries := filter (\<lambda>(k', _). \<not> prefix (fs_key s p) k') (entries s)\<rparr>" and ne: "fs_key s p \<noteq> []"
      using Pair by (auto simp: os_RemoveAll_def Let_def split: option.splits if_splits)
    have nodes: "fs_node s' k = (if prefix (fs_key s p) k then None else fs_node s k)" for k
      using fs_node_RemoveAll [of s p k] Pair None ne by (simp add: os_RemoveAll_def Let_def split: option.splits)
    have "fs_wf s'" unfolding fs_wf_def
    proof (intro conjI allI impI)
      show "is_dir (fs_node s' [])" using assms ne by (simp add: nodes tidy_def fs_wf_def)
      show "is_dir (fs_node s' k)" if "fs_node s' (k @ [n]) \<noteq> None" for k n
        using that assms by (auto simp: nodes tidy_def fs_wf_def split: if_splits)
    qed
    moreover have "names_ok s'" using tidyD(2) [OF assms] by (simp add: names_ok_def nodes)
    moreover have "distinct (map fst (entries s'))" using tidyD(3) [OF assms] unfolding s' by (simp add: distinct_map_filter)
    ultimately show ?thesis using assms Pair s' by (simp add: tidy_def)
  next
    case (Some e)
    then have "s' = s" using Pair by (auto simp: os_RemoveAll_def Let_def split: option.splits if_splits)
    then show ?thesis using assms Pair by simp
  qed
qed

section \<open>Making directories\<close>

text \<open>Every key comes after its parent, given the keys \<open>A\<close> that came before.\<close>

fun parents_first :: "key \<Rightarrow> key set \<Rightarrow> key list \<Rightarrow> bool" where
  "parents_first root A [] = True"
| "parents_first root A (k # ks) = ((k = root \<or> butlast k \<in> A) \<and> parents_first root (insert k A) ks)"

lemma parents_first_append: "parents_first root A (ks @ ls) \<longleftrightarrow> parents_first root A ks \<and> parents_first root (A \<union> set ks) ls"
  by (induction ks arbitrary: A) auto

lemma parents_first_prefixes: "parents_first [] A (prefixes k)"
  by (induction k rule: rev_induct) (auto simp: prefixes_snoc parents_first_append)

lemma mkdirs_tidy:
  "tidy s \<Longrightarrow> parents_first [] A ks \<Longrightarrow> \<forall>k \<in> A. is_dir (fs_node s k) \<Longrightarrow> list_all (list_all plain_comp) ks \<Longrightarrow> tidy (fst (mkdirs mode s ks))"
proof (induction ks arbitrary: s A)
  case (Cons k ks)
  have root: "is_dir (fs_node s [])" using Cons.prems(1) by (simp add: tidy_def fs_wf_def)
  show ?case
  proof (cases "fs_node s k")
    case None
    then have "k \<noteq> []" using root by auto
    then have "tidy (fs_put s k (new_dir mode))"
      using None Cons.prems by (intro tidy_put fs_wf_put_file tidyD) auto
    then have "tidy (fst (mkdirs mode (fs_put s k (new_dir mode)) ks))"
      using Cons.prems(2-4) by (intro Cons.IH [of _ "insert k A"]) (auto simp: new_dir_def)
    then show ?thesis using None Cons.prems(1) by (simp split: option.splits)
  next
    case (Some n)
    then show ?thesis using Cons.IH [of s "insert k A"] Cons.prems by (cases n) auto
  qed
qed simp

lemma os_MkdirAll_tidy [tidy_calls]:
  assumes "tidy s"
  shows "tidy (fst (os_MkdirAll s p mode))"
proof -
  have "list_all (list_all plain_comp) (prefixes (fs_key s p))"
    using tidy_key [OF assms, of p] unfolding list_all_iff by (meson in_set_prefixes set_mono_prefix subsetD)
  then show ?thesis using assms mkdirs_tidy [of s "{}" "prefixes (fs_key s p)" mode] by (simp add: os_MkdirAll_def parents_first_prefixes)
qed

section \<open>Writing and copying\<close>

lemma ioutil_WriteFile_tidy [tidy_calls]:
  assumes "tidy s"
  shows "tidy (fst (ioutil_WriteFile s p d mode))"
  using os_OpenFile_tidy [OF assms, of False True mode p] file_Write_tidy
  by (auto simp: ioutil_WriteFile_def split: prod.splits option.splits)

lemma Asset_WriteFile_tidy [tidy_calls]:
  assumes "tidy s"
  shows "tidy (fst (Asset_WriteFile s dir a))"
  using os_MkdirAll_tidy [OF assms] ioutil_WriteFile_tidy
  by (auto simp: Asset_WriteFile_def Let_def split: prod.splits option.splits) (metis fst_conv)+

lemma writeAll_tidy [tidy_calls]: "tidy s \<Longrightarrow> tidy (fst (writeAll s dir as))"
proof (induction as arbitrary: s)
  case (Cons a as)
  then show ?case using Asset_WriteFile_tidy [OF Cons.prems, of dir a] by (auto split: prod.splits option.splits)
qed simp

lemma Assets_WriteFiles_tidy [tidy_calls]:
  assumes "tidy s"
  shows "tidy (fst (Assets_WriteFiles s as dir))"
  using os_MkdirAll_tidy [OF assms, of dir 493] writeAll_tidy
  by (auto simp: Assets_WriteFiles_def split: prod.splits option.splits sum.splits)

lemma copyFile_tidy [tidy_calls]:
  assumes "tidy s"
  shows "tidy (fst (copyFile s src dst ow))"
  using os_OpenFile_tidy [OF assms, of "\<not> ow" False 384 dst] file_Write_tidy
  by (auto simp: copyFile_def split: prod.splits option.splits sum.splits)

lemma copyItems_tidy [tidy_calls]: "tidy s \<Longrightarrow> tidy (fst (copyItems srcDir dstDir ow s items c))"
proof (induction items arbitrary: s c)
  case (Cons item items)
  show ?case
  proof (cases item)
    case (WDir src)
    then show ?thesis using os_Mkdir_tidy [OF Cons.prems, of "path_Join [dstDir, trimPrefix src srcDir]" 448] Cons.IH Cons.prems
      by (auto simp: Let_def split: prod.splits option.splits)
  next
    case (WFile src d)
    then show ?thesis using copyFile_tidy [OF Cons.prems, of src "path_Join [dstDir, trimPrefix src srcDir]" ow] Cons.IH
      by (auto simp: Let_def split: prod.splits option.splits)
  qed (use Cons.prems in simp)
qed simp

lemma copyDirectory_tidy [tidy_calls]: "tidy s \<Longrightarrow> tidy (fst (copyDirectory s src dst ow))"
  by (simp add: copyDirectory_def copyItems_tidy)

end
