(* ===== verification/CopyHost.thy ===== *)
theory CopyHost
  imports TidyFs
begin

text \<open>
  When copying a tree cannot fail: on a host that refuses nothing, if the place is free and its
  parent exists, because a walk visits every directory before what is in it.
\<close>

section \<open>The order of a walk\<close>

lemma butlast_less: "k \<noteq> [] \<Longrightarrow> butlast k < (k :: key)"
proof -
  assume "k \<noteq> []"
  then have "k = butlast k @ [last k]" by simp
  then show ?thesis unfolding list_less_def by (metis lexord_append_rightI)
qed

lemma sorted_parents_first:
  assumes "sorted ks" "\<forall>k \<in> set ks. k = root \<or> k \<noteq> [] \<and> butlast k \<in> A \<union> set ks"
  shows "parents_first root A ks"
  using assms
proof (induction ks arbitrary: A)
  case (Cons k ks)
  have "butlast k \<notin> set ks" if "k \<noteq> []"
    using Cons.prems(1) butlast_less [OF that] by auto
  then have "k = root \<or> butlast k \<in> A" using Cons.prems(2) butlast_less [of k] by auto
  moreover have "parents_first root (insert k A) ks" using Cons.prems by (intro Cons.IH) auto
  ultimately show ?case by simp
qed simp

lemma walk_parents_first:
  assumes "\<And>r. r \<noteq> [] \<Longrightarrow> fs_node s (ds @ r) \<noteq> None \<Longrightarrow> fs_node s (ds @ butlast r) \<noteq> None"
  shows "parents_first ds {} (walk_keys s ds)"
proof (rule sorted_parents_first)
  show "sorted (walk_keys s ds)" by (simp add: walk_keys_def)
  show "\<forall>k \<in> set (walk_keys s ds). k = ds \<or> k \<noteq> [] \<and> butlast k \<in> {} \<union> set (walk_keys s ds)"
  proof
    fix k assume "k \<in> set (walk_keys s ds)"
    then obtain r where r: "k = ds @ r" "fs_node s (ds @ r) \<noteq> None" by (auto simp: walk_keys_iff prefix_def)
    show "k = ds \<or> k \<noteq> [] \<and> butlast k \<in> {} \<union> set (walk_keys s ds)"
    proof (cases "r = []")
      case False
      then show ?thesis using assms [OF False r(2)] by (simp add: r(1) butlast_append walk_keys_iff)
    qed (simp add: r(1))
  qed
qed

section \<open>The items of a walk\<close>

definition item_at :: "fs \<Rightarrow> string \<Rightarrow> key \<Rightarrow> key \<Rightarrow> walk_item" where
  "item_at s root ds k =
     (case fs_node s k of Some (NFile d _) \<Rightarrow> WFile (walk_path root ds k) d | _ \<Rightarrow> WDir (walk_path root ds k))"

lemma healthy_walk:
  assumes "healthy s" "fs_node s (fs_key s root) \<noteq> None"
  shows "filepath_Walk s root = map (item_at s root (fs_key s root)) (walk_keys s (fs_key s root))"
proof -
  have nf: "fs_fault s opr k = None" for opr k using assms(1) by (simp add: healthy_def fs_fault_def)
  have "walk_item_of s root (fs_key s root) k = [item_at s root (fs_key s root) k]" if "k \<in> set (walk_keys s (fs_key s root))" for k
    using that by (auto simp: walk_keys_iff walk_item_of_def item_at_def nf split: node.splits)
  then have "concat (map (walk_item_of s root (fs_key s root)) (walk_keys s (fs_key s root))) = map (item_at s root (fs_key s root)) (walk_keys s (fs_key s root))"
    by (induction "walk_keys s (fs_key s root)") (auto cong: map_cong simp: concat_map_singleton)
  then show ?thesis using assms(2) nf by (auto simp: filepath_Walk_def os_Stat_def Let_def)
qed

section \<open>Single steps\<close>

lemma Mkdir_result:
  assumes "healthy s" "is_dir (fs_node s (butlast (fs_key s p))) \<or> is_dir (fs_node s (fs_key s p))" "\<not> is_file (fs_node s (fs_key s p))"
  obtains s' e where "os_Mkdir s p mode = (s', e)" "e = None \<or> (\<exists>x. e = Some x \<and> os_IsExist x)" "same_env s s'"
    "\<And>k. fs_node s' k = (if k = fs_key s p \<and> fs_node s k = None then Some (new_dir mode) else fs_node s k)"
proof (cases "fs_node s (fs_key s p)")
  case None
  then have "parent_error s p (fs_key s p) = None" using assms(2) by (simp add: parent_error_None)
  then have "os_Mkdir s p mode = (fs_put s (fs_key s p) (new_dir mode), None)"
    using None healthy_fault [OF assms(1) same_env_refl] by (simp add: os_Mkdir_def Let_def)
  then show thesis using None by (intro that) auto
next
  case (Some n)
  then have "os_Mkdir s p mode = (s, Some (ErrExist p))" by (simp add: os_Mkdir_def Let_def)
  then show thesis using Some by (intro that) auto
qed

lemma copyFile_result:
  assumes "healthy s" "is_dir (fs_node s (butlast (fs_key s dst)))" "fs_node s (fs_key s dst) = None" "content s (fs_key s src) = Some d"
  obtains s' where "copyFile s src dst ow = (s', None)" "same_env s s'" "is_file (fs_node s' (fs_key s dst))"
    "\<And>k. k \<noteq> fs_key s dst \<Longrightarrow> fs_node s' k = fs_node s k"
proof -
  have nf: "fs_fault s' opr k = None" if "same_env s s'" for s' opr k using healthy_fault [OF assms(1) that] .
  let ?s1 = "fs_put s (fs_key s dst) (new_file 384)"
  have "parent_error s dst (fs_key s dst) = None" using assms(2) by (simp add: parent_error_None)
  then have o: "os_OpenFile (\<not> ow) False 384 s dst = (?s1, None)"
    using assms(3) nf by (simp add: os_OpenFile_def Let_def)
  have ne: "fs_key s src \<noteq> fs_key s dst" using assms(3,4) by (auto simp: content_def)
  then have r: "ioutil_ReadFile ?s1 src = Inr d"
    using assms(4) nf by (intro ioutil_ReadFile_content) simp_all
  have "snd (file_Write ?s1 dst d) = None" using nf by (simp add: file_Write_def Let_def new_file_def)
  then obtain s' where run: "copyFile s src dst ow = (s', None)" by (simp add: copyFile_def o r) (metis prod.collapse)
  have ok: "snd (copyFile s src dst ow) = None" using run by simp
  show thesis
  proof (rule that [OF run])
    show "same_env s s'" using copyFile_env [of s src dst ow] run by simp
    show "is_file (fs_node s' (fs_key s dst))" using copyFile_ok [OF ok assms(3,4) ne] run by (auto simp: is_file_def)
    show "fs_node s' k = fs_node s k" if "k \<noteq> fs_key s dst" for k using copyFile_frame [OF that, of src ow] run by simp
  qed
qed

section \<open>Whole trees\<close>

definition target :: "key \<Rightarrow> key \<Rightarrow> key \<Rightarrow> key" where
  "target ds dk k = dk @ drop (length ds) k"

lemma target_simps [simp]: "target ds dk (ds @ r) = dk @ r" "target ds dk ds = dk"
  by (simp_all add: target_def)

lemma target_inj: "prefix ds k \<Longrightarrow> prefix ds k' \<Longrightarrow> target ds dk k = target ds dk k' \<Longrightarrow> k = k'"
  by (auto simp: prefix_def)

text \<open>
  Between two visits: \<open>A\<close> are the keys that were visited and \<open>ks\<close> the ones that come, \<open>s0\<close> is the
  tree of the walk and \<open>s\<close> what it has become.
\<close>

definition copy_ready :: "fs \<Rightarrow> key \<Rightarrow> key \<Rightarrow> fs \<Rightarrow> key set \<Rightarrow> key list \<Rightarrow> bool" where
  "copy_ready s0 ds dk s A ks \<longleftrightarrow> same_env s0 s \<and> parents_first ds A ks \<and> distinct ks \<and>
     (\<forall>k \<in> A \<union> set ks. prefix ds k) \<and>
     (\<forall>k \<in> set ks. fs_node s0 k \<noteq> None \<and> fs_node s k = fs_node s0 k) \<and>
     (\<forall>k \<in> A. is_dir (fs_node s0 k) \<longrightarrow> is_dir (fs_node s (target ds dk k))) \<and>
     (\<forall>k \<in> set ks. \<not> is_file (fs_node s (target ds dk k)) \<and> (is_file (fs_node s0 k) \<longrightarrow> fs_node s (target ds dk k) = None)) \<and>
     (ds \<in> set ks \<longrightarrow> is_dir (fs_node s (butlast dk)) \<or> is_dir (fs_node s dk))"

lemma target_longer: "dk \<noteq> [] \<Longrightarrow> butlast dk \<noteq> target ds dk k"
proof
  assume "dk \<noteq> []" "butlast dk = target ds dk k"
  then have "length (butlast dk) = length (target ds dk k)" by simp
  moreover have "length (butlast dk) < length dk" using \<open>dk \<noteq> []\<close> by simp
  moreover have "length dk \<le> length (target ds dk k)" by (simp add: target_def)
  ultimately show False by linarith
qed

lemma copy_ready_step:
  assumes ready: "copy_ready s0 ds dk s A (k # ks)" and dk: "dk \<noteq> []" "\<And>r. \<not> prefix dk (ds @ r)"
    and s': "same_env s s'" "\<And>k'. k' \<noteq> target ds dk k \<Longrightarrow> fs_node s' k' = fs_node s k'"
    and d: "is_dir (fs_node s0 k) \<Longrightarrow> is_dir (fs_node s' (target ds dk k))"
  shows "copy_ready s0 ds dk s' (insert k A) ks"
proof -
  have pre: "\<And>k'. k' \<in> A \<union> set (k # ks) \<Longrightarrow> prefix ds k'" using ready by (auto simp: copy_ready_def)
  have other: "fs_node s' (target ds dk k') = fs_node s (target ds dk k')" if "k' \<in> A \<union> set ks" "k' \<noteq> k" for k'
    using s'(2) target_inj [of ds k' k dk] pre that by auto
  have new: "k \<notin> set ks" using ready by (simp add: copy_ready_def)
  have kept: "fs_node s' (target ds dk k') = fs_node s (target ds dk k')" if "k' \<in> set ks" for k'
    using other [of k'] that new by blast
  have source: "fs_node s' k' = fs_node s k'" if "prefix ds k'" for k'
  proof (rule s'(2))
    have "prefix dk (target ds dk k)" by (simp add: target_def)
    then show "k' \<noteq> target ds dk k" using dk(2) that by (auto simp: prefix_def)
  qed
  have root: "is_dir (fs_node s' (butlast dk)) \<or> is_dir (fs_node s' dk)" if "ds \<in> set ks"
  proof -
    have "fs_node s' (butlast dk) = fs_node s (butlast dk)" using target_longer [OF dk(1)] by (rule s'(2))
    moreover have "fs_node s' dk = fs_node s dk" using kept [OF that] by simp
    moreover have "is_dir (fs_node s (butlast dk)) \<or> is_dir (fs_node s dk)" using ready that by (simp add: copy_ready_def)
    ultimately show ?thesis by simp
  qed
  show ?thesis unfolding copy_ready_def
  proof (intro conjI ballI impI)
    show "same_env s0 s'" using ready s'(1) by (auto simp: copy_ready_def intro: same_env_trans)
    show "parents_first ds (insert k A) ks" "distinct ks" using ready by (simp_all add: copy_ready_def)
    show "prefix ds k'" if "k' \<in> insert k A \<union> set ks" for k' using that pre by auto
    show "fs_node s0 k' \<noteq> None" "fs_node s' k' = fs_node s0 k'" if "k' \<in> set ks" for k'
      using ready source that pre by (auto simp: copy_ready_def)
    show "is_dir (fs_node s' (target ds dk k'))" if "k' \<in> insert k A" "is_dir (fs_node s0 k')" for k'
    proof (cases "k' = k")
      case True
      then show ?thesis using d that(2) by simp
    next
      case False
      then show ?thesis using ready other [of k'] that by (simp add: copy_ready_def)
    qed
    show "\<not> is_file (fs_node s' (target ds dk k'))" if "k' \<in> set ks" for k'
      using ready that unfolding kept [OF that] by (simp add: copy_ready_def)
    show "fs_node s' (target ds dk k') = None" if "k' \<in> set ks" "is_file (fs_node s0 k')" for k'
      using ready that(2) that(1) unfolding kept [OF that(1)] by (simp add: copy_ready_def)
    show "is_dir (fs_node s' (butlast dk)) \<or> is_dir (fs_node s' dk)" if "ds \<in> set ks" using root [OF that] .
  qed
qed

text \<open>The directory of the next target is there.\<close>

lemma copy_ready_parent:
  assumes ready: "copy_ready s0 ds dk s A ((ds @ r) # ks)"
    and dirs: "\<And>r. r \<noteq> [] \<Longrightarrow> fs_node s0 (ds @ r) \<noteq> None \<Longrightarrow> is_dir (fs_node s0 (ds @ butlast r))"
  shows "is_dir (fs_node s (butlast (dk @ r))) \<or> r = [] \<and> is_dir (fs_node s dk)"
proof (cases "r = []")
  case False
  have "ds @ butlast r \<in> A" using ready False by (auto simp: copy_ready_def butlast_append)
  moreover have "is_dir (fs_node s0 (ds @ butlast r))" using dirs [OF False] ready by (auto simp: copy_ready_def)
  ultimately have "is_dir (fs_node s (target ds dk (ds @ butlast r)))" using ready by (auto simp: copy_ready_def)
  then show ?thesis using False by (simp add: butlast_append)
qed (use ready in \<open>auto simp: copy_ready_def\<close>)

lemma copy_item:
  assumes ready: "copy_ready s0 ds dk s A (k # ks)" and s: "healthy s" and dk: "dk \<noteq> []" "\<And>r. \<not> prefix dk (ds @ r)"
    and root: "is_dir (fs_node s0 ds)"
    and dirs: "\<And>r. r \<noteq> [] \<Longrightarrow> fs_node s0 (ds @ r) \<noteq> None \<Longrightarrow> is_dir (fs_node s0 (ds @ butlast r))"
    and keys: "fs_key s (walk_path src ds k) = k" "fs_key s (path_Join [dst, trimPrefix (walk_path src ds k) src]) = target ds dk k"
  obtains s' c' where "copyItems src dst ow s (item_at s0 src ds k # items) c = copyItems src dst ow s' items c'"
    "copy_ready s0 ds dk s' (insert k A) ks" "\<forall>k'. k' \<noteq> target ds dk k \<longrightarrow> fs_node s' k' = fs_node s k'"
proof -
  let ?dst = "path_Join [dst, trimPrefix (walk_path src ds k) src]"
  obtain r where r: "k = ds @ r" using ready by (auto simp: copy_ready_def prefix_def)
  have here: "fs_node s0 k \<noteq> None" "fs_node s k = fs_node s0 k" "\<not> is_file (fs_node s (target ds dk k))"
    "is_file (fs_node s0 k) \<Longrightarrow> fs_node s (target ds dk k) = None"
    using ready by (auto simp: copy_ready_def)
  have parent: "is_dir (fs_node s (butlast (target ds dk k))) \<or> r = [] \<and> is_dir (fs_node s (target ds dk k))"
    using copy_ready_parent [OF ready [unfolded r] dirs] by (auto simp: r)
  show thesis
  proof (cases "is_dir (fs_node s0 k)")
    case True
    then have item: "item_at s0 src ds k = WDir (walk_path src ds k)" by (auto simp: item_at_def is_dir_def split: option.splits node.splits)
    obtain s' e where mk: "os_Mkdir s ?dst 448 = (s', e)" "e = None \<or> (\<exists>x. e = Some x \<and> os_IsExist x)" "same_env s s'"
      "\<And>k'. fs_node s' k' = (if k' = fs_key s ?dst \<and> fs_node s k' = None then Some (new_dir 448) else fs_node s k')"
      using Mkdir_result [OF s, of ?dst 448] parent here(3) unfolding keys(2) by metis
    show thesis
    proof (rule that)
      show "copyItems src dst ow s (item_at s0 src ds k # items) c = copyItems src dst ow s' items c"
        using mk(1,2) item by auto
      show other: "\<forall>k'. k' \<noteq> target ds dk k \<longrightarrow> fs_node s' k' = fs_node s k'" using mk(4) keys(2) by simp
      show "copy_ready s0 ds dk s' (insert k A) ks"
      proof (rule copy_ready_step [OF ready dk mk(3)])
        show "fs_node s' k' = fs_node s k'" if "k' \<noteq> target ds dk k" for k' using that other by blast
        show "is_dir (fs_node s' (target ds dk k))" using mk(4) [of "target ds dk k"] keys(2) here(3)
          by (cases "fs_node s (target ds dk k)") (simp_all add: new_dir_def)
      qed
    qed
  next
    case False
    then obtain d m where f: "fs_node s0 k = Some (NFile d m)" using here(1) by (auto simp: is_dir_def split: option.splits node.splits)
    then have item: "item_at s0 src ds k = WFile (walk_path src ds k) d" by (simp add: item_at_def)
    have "r \<noteq> []" using f root r by auto
    obtain s' where cp: "copyFile s (walk_path src ds k) ?dst ow = (s', None)" "same_env s s'"
      "\<And>k'. k' \<noteq> fs_key s ?dst \<Longrightarrow> fs_node s' k' = fs_node s k'"
      using copyFile_result [OF s, of ?dst "walk_path src ds k" d ow] parent \<open>r \<noteq> []\<close> here(2,4) f keys
      by (auto simp: content_def)
    show thesis
    proof (rule that)
      show "copyItems src dst ow s (item_at s0 src ds k # items) c = copyItems src dst ow s' items (c @ [?dst])"
        using cp(1) item by simp
      show "copy_ready s0 ds dk s' (insert k A) ks"
        using False cp(3) keys(2) by (intro copy_ready_step [OF ready dk cp(2)]) simp_all
      show "\<forall>k'. k' \<noteq> target ds dk k \<longrightarrow> fs_node s' k' = fs_node s k'" using cp(3) keys(2) by simp
    qed
  qed
qed

lemma copyItems_succeeds:
  assumes ds: "ds \<noteq> []" "list_all plain_comp ds" and dst: "dst \<noteq> ''''" "fs_key s0 dst = dk" "dk \<noteq> []" "\<And>r. \<not> prefix dk (ds @ r)"
    and s0: "healthy s0" "names_ok s0" "is_dir (fs_node s0 ds)"
    and dirs: "\<And>r. r \<noteq> [] \<Longrightarrow> fs_node s0 (ds @ r) \<noteq> None \<Longrightarrow> is_dir (fs_node s0 (ds @ butlast r))"
  shows "copy_ready s0 ds dk s A ks \<Longrightarrow>
    \<exists>s' c'. copyItems (slash # joinWith slash ds) dst ow s (map (item_at s0 (slash # joinWith slash ds) ds) ks) c = (s', c', None) \<and>
      copy_ready s0 ds dk s' (A \<union> set ks) [] \<and> (\<forall>k. k \<notin> target ds dk ` set ks \<longrightarrow> fs_node s' k = fs_node s k)"
proof (induction ks arbitrary: s A c)
  case (Cons k ks)
  let ?src = "slash # joinWith slash ds"
  have env: "same_env s0 s" using Cons.prems by (simp add: copy_ready_def)
  obtain r where r: "k = ds @ r" using Cons.prems by (auto simp: copy_ready_def prefix_def)
  have "fs_node s0 k \<noteq> None" using Cons.prems by (auto simp: copy_ready_def)
  then have "list_all plain_comp k" using s0(2) unfolding names_ok_def by blast
  then have pl: "list_all plain_comp r" by (simp add: r)
  have keys: "fs_key s (walk_path ?src ds k) = k" "fs_key s (path_Join [dst, trimPrefix (walk_path ?src ds k) ?src]) = target ds dk k"
    using walk_dst_key [OF ds pl dst(1), of s] fs_key_abs [of "ds @ r" s] ds pl dst(2) same_env_key [OF env]
    by (simp_all add: r walk_path_abs)
  have h: "healthy s" using s0(1) env by (simp add: healthy_def same_env_def)
  obtain s' c' where "copyItems ?src dst ow s (item_at s0 ?src ds k # map (item_at s0 ?src ds) ks) c = copyItems ?src dst ow s' (map (item_at s0 ?src ds) ks) c'"
    and ready: "copy_ready s0 ds dk s' (insert k A) ks" and other: "\<forall>k'. k' \<noteq> target ds dk k \<longrightarrow> fs_node s' k' = fs_node s k'"
  proof (rule copy_item [where ow = ow and c = c and items = "map (item_at s0 ?src ds) ks", OF Cons.prems h dst(3,4) s0(3) _ keys])
    show "is_dir (fs_node s0 (ds @ butlast r))" if "r \<noteq> []" "fs_node s0 (ds @ r) \<noteq> None" for r using that by (rule dirs)
  qed (rule that)
  moreover obtain s2 c2 where "copyItems ?src dst ow s' (map (item_at s0 ?src ds) ks) c' = (s2, c2, None)"
    "copy_ready s0 ds dk s2 (insert k A \<union> set ks) []" "\<forall>k. k \<notin> target ds dk ` set ks \<longrightarrow> fs_node s2 k = fs_node s' k"
    using Cons.IH [OF ready, of c'] by blast
  ultimately show ?case by (intro exI [of _ s2] exI [of _ c2]) simp
qed simp

lemma copyDirectory_succeeds:
  assumes s: "healthy s" "tidy s" and ds: "ds \<noteq> []" "list_all plain_comp ds" "is_dir (fs_node s ds)"
    and dst: "dst \<noteq> ''''" "fs_key s dst = dk" "dk \<noteq> []" "\<And>r. \<not> prefix dk (ds @ r)" "is_dir (fs_node s (butlast dk)) \<or> is_dir (fs_node s dk)"
    and free: "\<And>r. fs_node s (ds @ r) \<noteq> None \<Longrightarrow> \<not> is_file (fs_node s (dk @ r)) \<and> (is_file (fs_node s (ds @ r)) \<longrightarrow> fs_node s (dk @ r) = None)"
  obtains s' c where "copyDirectory s (slash # joinWith slash ds) dst ow = (s', c, None)" "same_env s s'" "is_dir (fs_node s' dk)"
    "\<forall>k. (\<forall>r. fs_node s (ds @ r) \<noteq> None \<longrightarrow> k \<noteq> dk @ r) \<longrightarrow> fs_node s' k = fs_node s k"
proof -
  let ?src = "slash # joinWith slash ds"
  have key: "fs_key s ?src = ds" using ds by (intro fs_key_abs)
  have dirs: "is_dir (fs_node s (ds @ butlast r))" if "r \<noteq> []" "fs_node s (ds @ r) \<noteq> None" for r
  proof -
    have "fs_node s ((ds @ butlast r) @ [last r]) \<noteq> None" using that by simp
    then show ?thesis using tidyD(1) [OF s(2)] unfolding fs_wf_def by blast
  qed
  have "parents_first ds {} (walk_keys s ds)"
  proof (rule walk_parents_first)
    fix r :: key assume "r \<noteq> []" "fs_node s (ds @ r) \<noteq> None"
    from dirs [OF this] show "fs_node s (ds @ butlast r) \<noteq> None" by (cases "fs_node s (ds @ butlast r)") simp_all
  qed
  moreover have "distinct (walk_keys s ds)" using tidyD(3) [OF s(2)] by (simp add: walk_keys_def)
  moreover have "prefix ds k \<and> fs_node s k \<noteq> None \<and> \<not> is_file (fs_node s (target ds dk k)) \<and>
      (is_file (fs_node s k) \<longrightarrow> fs_node s (target ds dk k) = None)" if k: "k \<in> set (walk_keys s ds)" for k
  proof -
    obtain r where "k = ds @ r" "fs_node s (ds @ r) \<noteq> None" using k by (auto simp: walk_keys_iff prefix_def)
    then show ?thesis using free [of r] by simp
  qed
  ultimately have ready: "copy_ready s ds dk s {} (walk_keys s ds)" using dst(5) by (simp add: copy_ready_def)
  obtain s' c where run: "copyItems ?src dst ow s (map (item_at s ?src ds) (walk_keys s ds)) [] = (s', c, None)"
    and ended: "copy_ready s ds dk s' (set (walk_keys s ds)) []" and other: "\<forall>k. k \<notin> target ds dk ` set (walk_keys s ds) \<longrightarrow> fs_node s' k = fs_node s k"
    using copyItems_succeeds [OF ds(1,2) dst(1-4) s(1) tidyD(2) [OF s(2)] ds(3) dirs ready, of ow "[]"] by auto
  moreover have "filepath_Walk s ?src = map (item_at s ?src ds) (walk_keys s ds)"
    using healthy_walk [OF s(1), of ?src] ds(3) unfolding key by (cases "fs_node s ds") simp_all
  ultimately have "copyDirectory s ?src dst ow = (s', c, None)" by (simp add: copyDirectory_def)
  then show thesis
  proof (rule that)
    show "same_env s s'" using ended by (simp add: copy_ready_def)
    have "ds \<in> set (walk_keys s ds)" using ds(3) by (cases "fs_node s ds") (simp_all add: walk_keys_iff)
    then show "is_dir (fs_node s' dk)" using ended ds(3) unfolding copy_ready_def by (metis target_simps(2))
    show "\<forall>k. (\<forall>r. fs_node s (ds @ r) \<noteq> None \<longrightarrow> k \<noteq> dk @ r) \<longrightarrow> fs_node s' k = fs_node s k"
    proof (intro allI impI)
      fix k assume away: "\<forall>r. fs_node s (ds @ r) \<noteq> None \<longrightarrow> k \<noteq> dk @ r"
      have "k \<noteq> target ds dk k'" if k': "k' \<in> set (walk_keys s ds)" for k'
      proof -
        obtain r where "k' = ds @ r" "fs_node s (ds @ r) \<noteq> None" using k' by (auto simp: walk_keys_iff prefix_def)
        then show ?thesis using away by simp
      qed
      then have "k \<notin> target ds dk ` set (walk_keys s ds)" by blast
      then show "fs_node s' k = fs_node s k" using other by blast
    qed
  qed
qed

section \<open>A start\<close>

text \<open>
  What a start needs: the directory of the secrets and of the manifests and the administrator's
  kubeconfig among the assets, a place for the secrets, and a manifest directory that holds none
  of the manifests yet.
\<close>

definition start_ready :: "fs \<Rightarrow> key \<Rightarrow> key \<Rightarrow> bool" where
  "start_ready s as pk \<longleftrightarrow>
     is_dir (fs_node s (as @ [AssetPathSecrets])) \<and> is_dir (fs_node s (as @ [AssetPathBootstrapManifests])) \<and>
     is_file (fs_node s (as @ [''auth'', ''kubeconfig''])) \<and> fs_node s (as @ [AssetPathSecrets, ''kubeconfig'']) = None \<and>
     is_dir (fs_node s (butlast secrets_key)) \<and> (is_dir (fs_node s (butlast pk)) \<or> is_dir (fs_node s pk)) \<and>
     (\<forall>r. fs_node s (as @ AssetPathBootstrapManifests # r) \<noteq> None \<longrightarrow> \<not> is_file (fs_node s (pk @ r)) \<and>
        (is_file (fs_node s (as @ AssetPathBootstrapManifests # r)) \<longrightarrow> fs_node s (pk @ r) = None))"

text \<open>Neither path is at or below the other.\<close>

definition separate :: "key \<Rightarrow> key \<Rightarrow> bool" where
  "separate k l \<longleftrightarrow> \<not> prefix k l \<and> \<not> prefix l k"

lemma separate_below: "separate k l \<Longrightarrow> \<not> prefix k (l @ r)"
  unfolding separate_def by (metis prefix_same_cases prefixI)

lemma separate_sym: "separate k l \<Longrightarrow> separate l k"
  by (auto simp: separate_def)

lemma removed_secrets:
  assumes "healthy s"
  obtains s1 where "os_RemoveAll s BootstrapSecretsDir = (s1, None)" "same_env s s1"
    "\<forall>k. fs_node s1 k = (if prefix secrets_key k then None else fs_node s k)"
proof
  have sec: "secrets_key \<noteq> []" by (simp add: secrets_key_def)
  show "os_RemoveAll s BootstrapSecretsDir = (fst (os_RemoveAll s BootstrapSecretsDir), None)"
    using healthy_fault [OF assms same_env_refl] sec by (simp add: os_RemoveAll_def secrets_dir Let_def)
  show "same_env s (fst (os_RemoveAll s BootstrapSecretsDir))" by (rule os_RemoveAll_env)
  show "\<forall>k. fs_node (fst (os_RemoveAll s BootstrapSecretsDir)) k = (if prefix secrets_key k then None else fs_node s k)"
    using fs_node_RemoveAll [of s BootstrapSecretsDir] healthy_fault [OF assms same_env_refl] sec by (simp add: secrets_dir)
qed

lemma admin_kubeconfig_key:
  assumes "as \<noteq> []" "list_all plain_comp as"
  shows "fs_key s (path_Join [slash # joinWith slash as, AssetPathAdminKubeConfig]) = as @ [''auth'', ''kubeconfig'']"
proof -
  have "path_Join [slash # joinWith slash as, AssetPathAdminKubeConfig] = path_Join ((slash # joinWith slash as) # [''auth'', ''kubeconfig''])"
    by (simp add: path_Join_def AssetPathAdminKubeConfig_def)
  then show ?thesis using fs_key_Join [of "slash # joinWith slash as" "[''auth'', ''kubeconfig'']" s] fs_key_abs [OF assms, of s]
    by (simp add: plain_comp_def)
qed

lemma kubeconfig_target: "fs_key s (path_Join [BootstrapSecretsDir, ''kubeconfig'']) = secrets_key @ [''kubeconfig'']"
  using fs_key_Join2 [of BootstrapSecretsDir "''kubeconfig''" s] by (simp add: secrets_dir plain_comp_def)

lemma healthy_env: "healthy s \<Longrightarrow> same_env s s' \<Longrightarrow> healthy s'"
  by (simp add: healthy_def same_env_def)

text \<open>The first half of a start, up to the copy of the kubeconfig.\<close>

lemma secrets_prepared:
  assumes s: "healthy s" "tidy s" and as: "as \<noteq> []" "list_all plain_comp as"
    and ready: "start_ready s as pk" and apart: "separate secrets_key as"
  obtains s1 s2 s3 c2 where "os_RemoveAll s BootstrapSecretsDir = (s1, None)"
    "copyDirectory s1 (slash # joinWith slash (as @ [AssetPathSecrets])) BootstrapSecretsDir True = (s2, c2, None)"
    "copyFile s2 (path_Join [slash # joinWith slash as, AssetPathAdminKubeConfig]) (path_Join [BootstrapSecretsDir, ''kubeconfig'']) True = (s3, None)"
    "same_env s s3" "tidy s3" "\<forall>k. \<not> prefix secrets_key k \<longrightarrow> fs_node s3 k = fs_node s k"
    "content s3 (secrets_key @ [''kubeconfig'']) \<noteq> None"
    "content s3 (secrets_key @ [''kubeconfig'']) = content s (as @ [''auth'', ''kubeconfig''])"
proof -
  let ?ts = "as @ [AssetPathSecrets]"
  let ?kc = "path_Join [slash # joinWith slash as, AssetPathAdminKubeConfig]" and ?kd = "path_Join [BootstrapSecretsDir, ''kubeconfig'']"
  have pl: "list_all plain_comp ?ts" using as by (simp add: AssetPathSecrets_def plain_comp_def)
  have below: "\<not> prefix secrets_key (as @ r)" for r using separate_below apart by blast
  have pk': "\<not> prefix secrets_key (butlast secrets_key)" "secrets_key \<noteq> []" by (simp_all add: secrets_key_def)
  obtain s1 where 1: "os_RemoveAll s BootstrapSecretsDir = (s1, None)" and e1: "same_env s s1"
    and n1: "\<forall>k. fs_node s1 k = (if prefix secrets_key k then None else fs_node s k)" by (rule removed_secrets [OF s(1)])
  have t1: "tidy s1" using os_RemoveAll_tidy [OF s(2), of BootstrapSecretsDir] 1 by simp
  obtain s2 c2 where 2: "copyDirectory s1 (slash # joinWith slash ?ts) BootstrapSecretsDir True = (s2, c2, None)" and e2: "same_env s1 s2"
    and d2: "is_dir (fs_node s2 secrets_key)"
    and n2: "\<forall>k. (\<forall>r. fs_node s1 (?ts @ r) \<noteq> None \<longrightarrow> k \<noteq> secrets_key @ r) \<longrightarrow> fs_node s2 k = fs_node s1 k"
  proof (rule copyDirectory_succeeds [OF healthy_env [OF s(1) e1] t1 _ pl _ secrets_dir(2,1) pk'(2), of True])
    show "is_dir (fs_node s1 ?ts)" "is_dir (fs_node s1 (butlast secrets_key)) \<or> is_dir (fs_node s1 secrets_key)"
      using ready below [of "[AssetPathSecrets]"] pk'(1) by (simp_all add: n1 start_ready_def)
  qed (use below n1 in \<open>simp_all\<close>)
  have t2: "tidy s2" using copyDirectory_tidy [OF t1, of "slash # joinWith slash ?ts" BootstrapSecretsDir True] 2 by simp
  have f2: "fs_node s2 k = fs_node s k" if "\<not> prefix secrets_key k" for k using spec [OF n2, of k] that spec [OF n1, of k] by (auto simp: prefix_def)
  have free: "fs_node s2 (secrets_key @ [''kubeconfig'']) = None"
    using spec [OF n2, of "secrets_key @ [''kubeconfig'']"] n1 ready by (auto simp: start_ready_def split: if_splits)
  obtain d where d: "content s2 (as @ [''auth'', ''kubeconfig'']) = Some d"
    using ready f2 [OF below] by (auto simp: start_ready_def content_def is_file_def is_dir_def split: option.splits node.splits)
  obtain s3 where 3: "copyFile s2 ?kc ?kd True = (s3, None)" and e3: "same_env s2 s3"
    and n3: "\<And>k. k \<noteq> secrets_key @ [''kubeconfig''] \<Longrightarrow> fs_node s3 k = fs_node s2 k"
    using copyFile_result [OF healthy_env [OF healthy_env [OF s(1) e1] e2], of ?kd ?kc d True] d2 free d
    unfolding kubeconfig_target admin_kubeconfig_key [OF as] butlast_snoc by blast
  have t3: "tidy s3" using copyFile_tidy [OF t2, of ?kc ?kd True] 3 by simp
  have f3: "fs_node s3 k = fs_node s k" if "\<not> prefix secrets_key k" for k using n3 [of k] that f2 [of k] by (auto simp: prefix_def)
  have e: "same_env s s3" using e1 e2 e3 by (blast intro: same_env_trans)
  have "as @ [''auth'', ''kubeconfig''] \<noteq> secrets_key @ [''kubeconfig'']" using below by (metis prefixI)
  then have kube: "content s3 (secrets_key @ [''kubeconfig'']) = Some d"
    using copyFile_ok [of s2 ?kc ?kd True d] 3 free d unfolding kubeconfig_target admin_kubeconfig_key [OF as]
    by (auto simp: content_def [of s3])
  have "content s (as @ [''auth'', ''kubeconfig'']) = Some d" using d f2 [OF below] by (simp add: content_def)
  then show thesis using that [OF 1 2 3 e t3] f3 kube by simp
qed

lemma Start_succeeds:
  assumes s: "healthy s" "tidy s" and as: "as \<noteq> []" "list_all plain_comp as"
    and pod: "pod \<noteq> ''''" "fs_key s pod = pk" "pk \<noteq> []" and ready: "start_ready s as pk"
    and apart: "separate secrets_key as" "separate pk as" "separate secrets_key pk"
  shows "\<exists>b' s'. Start (NewBootstrapControlPlane (slash # joinWith slash as) pod) s = (b', s', None) \<and>
    content s' (secrets_key @ [''kubeconfig'']) = content s (as @ [''auth'', ''kubeconfig''])"
proof -
  let ?ms = "as @ [AssetPathBootstrapManifests]"
  have pl: "list_all plain_comp ?ms" "plain_comp AssetPathSecrets" "plain_comp AssetPathBootstrapManifests"
    using as by (simp_all add: AssetPathSecrets_def AssetPathBootstrapManifests_def plain_comp_def)
  have below: "\<not> prefix secrets_key (as @ r)" "\<not> prefix pk (as @ r)" "\<not> prefix secrets_key (pk @ r)" for r
    using separate_below apart by blast+
  have pk': "\<not> prefix secrets_key (butlast pk)"
    using apart(3) prefixeq_butlast [of pk] by (auto simp: separate_def intro: prefix_order.trans)
  obtain s1 s2 s3 c2 where 1: "os_RemoveAll s BootstrapSecretsDir = (s1, None)"
    "copyDirectory s1 (slash # joinWith slash (as @ [AssetPathSecrets])) BootstrapSecretsDir True = (s2, c2, None)"
    "copyFile s2 (path_Join [slash # joinWith slash as, AssetPathAdminKubeConfig]) (path_Join [BootstrapSecretsDir, ''kubeconfig'']) True = (s3, None)"
    and e: "same_env s s3" and t3: "tidy s3" and f3: "\<forall>k. \<not> prefix secrets_key k \<longrightarrow> fs_node s3 k = fs_node s k"
    and kube: "content s3 (secrets_key @ [''kubeconfig'']) \<noteq> None"
    "content s3 (secrets_key @ [''kubeconfig'']) = content s (as @ [''auth'', ''kubeconfig''])"
    by (rule secrets_prepared [OF s as ready apart(1)])
  obtain s4 c4 where 4: "copyDirectory s3 (slash # joinWith slash ?ms) pod False = (s4, c4, None)"
  proof (rule copyDirectory_succeeds [OF healthy_env [OF s(1) e] t3 _ pl(1) _ pod(1) _ pod(3), of False])
    show "is_dir (fs_node s3 ?ms)" "is_dir (fs_node s3 (butlast pk)) \<or> is_dir (fs_node s3 pk)"
      using ready below(1) [of "[AssetPathBootstrapManifests]"] below(3) [of "[]"] pk' by (simp_all add: f3 start_ready_def)
    show "fs_key s3 pod = pk" using pod(2) same_env_key [OF e] by simp
    show "\<not> is_file (fs_node s3 (pk @ r)) \<and> (is_file (fs_node s3 (?ms @ r)) \<longrightarrow> fs_node s3 (pk @ r) = None)"
      if "fs_node s3 (?ms @ r) \<noteq> None" for r
      using ready that below(1) [of "AssetPathBootstrapManifests # r"] below(3) [of r] by (simp add: f3 start_ready_def)
  qed (use below(2) in simp_all)
  have "content s4 (secrets_key @ [''kubeconfig'']) = content s3 (secrets_key @ [''kubeconfig''])"
    using copyDirectory_keeps_files [of s3 _ _ "slash # joinWith slash ?ms" pod] 4 kube(1) by fastforce
  then show ?thesis using 1 4 kube(2) asset_subdir [OF as pl(2)] asset_subdir [OF as pl(3)]
    by (simp add: Start_def NewBootstrapControlPlane_def)
qed

end
