(* ===== verification/RenderStart.thy ===== *)
theory RenderStart
  imports CopyHost RenderOptions
begin

text \<open>
  From \<open>bootkube render\<close> to \<open>bootkube start\<close>: on a healthy host the rendered assets are all a
  start needs, and it puts every one of them in its place.
\<close>

section \<open>What writing assets does to the tree\<close>

lemma is_dirE: "is_dir n \<Longrightarrow> (\<And>m. n = Some (NDir m) \<Longrightarrow> P) \<Longrightarrow> P"
  by (cases n; cases "the n") simp_all

lemma ioutil_WriteFile_dir:
  assumes "is_dir (fs_node s k)"
  shows "is_dir (fs_node (fst (ioutil_WriteFile s p d mode)) k)"
proof (cases "k = fs_key s p")
  case True
  then obtain m where "fs_node s (fs_key s p) = Some (NDir m)" using assms by (auto elim: is_dirE)
  then have "fst (ioutil_WriteFile s p d mode) = s" by (simp add: ioutil_WriteFile_def os_OpenFile_def Let_def split: option.splits)
  then show ?thesis using assms by simp
qed (use assms ioutil_WriteFile_frame in simp)

lemma os_MkdirAll_dir: "is_dir (fs_node s k) \<Longrightarrow> is_dir (fs_node (fst (os_MkdirAll s p mode)) k)"
  using mkdirs_keeps [of s k _ mode "prefixes (fs_key s p)"] by (cases "fs_node s k") (auto simp: os_MkdirAll_def)

lemma Asset_WriteFile_dir:
  assumes "is_dir (fs_node s k)"
  shows "is_dir (fs_node (fst (Asset_WriteFile s dir a)) k)"
proof -
  obtain s1 r where m: "os_MkdirAll s (path_Dir (path_Join [dir, a_Name a])) 493 = (s1, r)" by fastforce
  have "is_dir (fs_node s1 k)" using os_MkdirAll_dir [OF assms, of "path_Dir (path_Join [dir, a_Name a])" 493] m by simp
  then show ?thesis using ioutil_WriteFile_dir [of s1 k] m by (simp add: Asset_WriteFile_def Let_def split: option.splits)
qed

lemma writeAll_dir: "is_dir (fs_node s k) \<Longrightarrow> is_dir (fs_node (fst (writeAll s dir as)) k)"
proof (induction as arbitrary: s)
  case (Cons a as)
  then show ?case using Asset_WriteFile_dir [OF Cons.prems, of dir a] by (auto split: prod.splits option.splits)
qed simp

lemma Assets_WriteFiles_dir:
  assumes "is_dir (fs_node s k)"
  shows "is_dir (fs_node (fst (Assets_WriteFiles s as dir)) k)"
  using os_MkdirAll_dir [OF assms, of dir 493] writeAll_dir
  by (auto simp: Assets_WriteFiles_def split: prod.splits option.splits sum.splits)

text \<open>Only the paths of the assets and what is above them can change.\<close>

lemma os_MkdirAll_node: "\<not> prefix k (fs_key s p) \<Longrightarrow> fs_node (fst (os_MkdirAll s p mode)) k = fs_node s k"
  using mkdirs_new [of mode s "prefixes (fs_key s p)" k] by (auto simp: os_MkdirAll_def)

lemma Asset_WriteFile_node:
  assumes path: "bs \<noteq> []" "list_all plain_comp bs" and a: "plain_asset a" and k: "\<not> prefix k (bs @ asset_path a)"
  shows "fs_node (fst (Asset_WriteFile s (slash # joinWith slash bs) a)) k = fs_node s k"
proof -
  let ?f = "path_Join [slash # joinWith slash bs, a_Name a]"
  obtain ds n where dn: "asset_path a = ds @ [n]" and dkey: "fs_key s (path_Dir ?f) = bs @ ds" by (rule asset_file [OF path a])
  have fkey: "fs_key s' ?f = bs @ asset_path a" for s' by (rule asset_file [OF path a, of s']) simp
  obtain s1 r where m: "os_MkdirAll s (path_Dir ?f) 493 = (s1, r)" by fastforce
  have "\<not> prefix k (bs @ ds)" using k prefix_order.trans [of k "bs @ ds" "bs @ asset_path a"] by (auto simp: dn)
  then have "fs_node s1 k = fs_node s k" using os_MkdirAll_node [of k s "path_Dir ?f" 493] m dkey by simp
  moreover have "fs_node (fst (ioutil_WriteFile s1 ?f (a_Data a) 384)) k = fs_node s1 k"
    using k fkey [of s1] by (intro ioutil_WriteFile_frame) auto
  ultimately show ?thesis using m by (simp add: Asset_WriteFile_def Let_def split: option.splits)
qed

lemma writeAll_node:
  assumes "bs \<noteq> []" "list_all plain_comp bs" "list_all plain_asset as" "\<forall>a \<in> set as. \<not> prefix k (bs @ asset_path a)"
  shows "fs_node (fst (writeAll s (slash # joinWith slash bs) as)) k = fs_node s k"
  using assms(3,4)
proof (induction as arbitrary: s)
  case (Cons a as)
  then show ?case using Asset_WriteFile_node [OF assms(1,2), of a k s] by (auto split: prod.splits option.splits)
qed simp

lemma Assets_WriteFiles_node:
  assumes path: "bs \<noteq> []" "list_all plain_comp bs" and as: "list_all plain_asset as" "\<forall>a \<in> set as. \<not> prefix k (bs @ asset_path a)"
    and k: "\<not> prefix k bs"
  shows "fs_node (fst (Assets_WriteFiles s as (slash # joinWith slash bs))) k = fs_node s k"
proof -
  obtain s1 r where m: "os_MkdirAll s (slash # joinWith slash bs) 493 = (s1, r)" by fastforce
  have "fs_node s1 k = fs_node s k" using os_MkdirAll_node [of k s "slash # joinWith slash bs" 493] m k fs_key_abs [OF path] by simp
  then show ?thesis using writeAll_node [OF path as, of s1] m by (simp add: Assets_WriteFiles_def split: option.splits sum.splits)
qed

lemma Assets_WriteFiles_env: "same_env s (fst (Assets_WriteFiles s as dir))"
proof -
  have all: "same_env s (fst (writeAll s dir as))" for s
  proof (induction as arbitrary: s)
    case (Cons a as)
    obtain s1 r where w: "Asset_WriteFile s dir a = (s1, r)" by fastforce
    then have "same_env s s1" using WriteFile_env [of s dir a] by simp
    with Cons.IH [of s1] w show ?case by (auto split: option.splits intro: same_env_trans)
  qed simp
  obtain s1 r where m: "os_MkdirAll s dir 493 = (s1, r)" by fastforce
  then have "same_env s s1" using os_MkdirAll_env [of s dir 493] by simp
  with all [of s1] m show ?thesis by (auto simp: Assets_WriteFiles_def split: option.splits sum.splits intro: same_env_trans)
qed

lemma content_is_file: "content s k = Some d \<Longrightarrow> is_file (fs_node s k)"
  by (cases "fs_node s k"; cases "the (fs_node s k)") (simp_all add: content_def)

section \<open>The places of rendered assets\<close>

text \<open>The kubeconfig of the administrator is no secret of the tls directory, and manifests are in one directory.\<close>

definition placed_ok :: "string \<Rightarrow> bool" where
  "placed_ok p \<longleftrightarrow> (let k = splitOn slash p in
     \<not> prefix [AssetPathSecrets, ''kubeconfig''] k \<and> (hd k = AssetPathBootstrapManifests \<longrightarrow> length k = 2))"

lemma possible_placed: "list_all placed_ok (base_names @ network_names NetworkFlannel @ network_names NetworkCalico @ network_names NetworkCanal)"
  by code_simp

lemma asset_placed:
  assumes "map a_Name as = asset_names conf" "a \<in> set as"
  shows "placed_ok (a_Name a)"
  using subsetD [OF asset_names_possible [of conf], of "a_Name a"] possible_placed assms(2) names_image [OF assms(1)]
  unfolding list_all_iff by blast

text \<open>The kubelet's manifest directory exists or can be made, and no rendered manifest is in it.\<close>

definition manifests_free :: "fs \<Rightarrow> key \<Rightarrow> string list \<Rightarrow> bool" where
  "manifests_free s pk names \<longleftrightarrow> (is_dir (fs_node s pk) \<or> is_dir (fs_node s (butlast pk)) \<and> fs_node s pk = None) \<and>
     (\<forall>p \<in> set names. \<forall>n. splitOn slash p = [AssetPathBootstrapManifests, n] \<longrightarrow> fs_node s (pk @ [n]) = None)"

text \<open>Below the asset directory there is only what the assets need.\<close>

lemma written_below:
  assumes "list_all plain_asset as" "fs_wf s" "fresh_dir s bs" "bs \<noteq> []" "list_all plain_comp bs"
    and wr: "Assets_WriteFiles s as (slash # joinWith slash bs) = (s1, None)"
    and r: "r \<noteq> []" "fs_node s1 (bs @ r) \<noteq> None"
  shows "\<exists>a \<in> set as. prefix r (asset_path a)"
proof (rule ccontr)
  assume "\<not> ?thesis"
  moreover have "\<not> prefix (bs @ r) bs" using r(1) by (metis append_self_conv prefix_order.antisym prefixI)
  ultimately show False using Assets_WriteFiles_node [OF assms(4,5,1), of "bs @ r" s] fresh_missing [OF assms(2,3) r(1)] wr r(2) by simp
qed

text \<open>Writing assets leaves alone what is elsewhere.\<close>

lemma written_elsewhere:
  assumes "list_all plain_asset as" "bs \<noteq> []" "list_all plain_comp bs" "separate pk bs"
    and wr: "Assets_WriteFiles s as (slash # joinWith slash bs) = (s1, None)"
  shows "fs_node s1 (pk @ r) = fs_node s (pk @ r)"
proof -
  have "\<forall>a \<in> set as. \<not> prefix (pk @ r) (bs @ asset_path a)" "\<not> prefix (pk @ r) bs"
    using separate_below [OF assms(4)] separate_below [OF assms(4), of "[]"] by (auto dest: append_prefixD)
  then show ?thesis using Assets_WriteFiles_node [OF assms(2,3,1), of "pk @ r" s] wr by simp
qed

lemma rendered_manifests_free:
  assumes names: "map a_Name as = asset_names conf" and s: "fs_wf s" "fresh_dir s bs" and bs: "bs \<noteq> []" "list_all plain_comp bs"
    and wr: "Assets_WriteFiles s as (slash # joinWith slash bs) = (s1, None)"
    and free: "manifests_free s pk (asset_names conf)" and apart: "separate pk bs"
    and r: "r \<noteq> []" "fs_node s1 (bs @ AssetPathBootstrapManifests # r) \<noteq> None"
  shows "fs_node s1 (pk @ r) = None"
proof -
  obtain a where a: "a \<in> set as" "prefix (AssetPathBootstrapManifests # r) (asset_path a)"
    using written_below [OF named_assets_plain [OF names] s bs wr _ r(2)] by auto
  then obtain q where q: "asset_path a = AssetPathBootstrapManifests # r @ q" by (auto simp: prefix_def)
  then have "length (asset_path a) = 2" using asset_placed [OF names a(1)] by (simp add: placed_ok_def asset_path_def Let_def)
  then obtain x where "r = [x]" "q = []" using r(1) q by (cases r) auto
  moreover have "a_Name a \<in> set (asset_names conf)" using a(1) unfolding names [symmetric] by simp
  ultimately show ?thesis
    using free q written_elsewhere [OF named_assets_plain [OF names] bs apart wr, of r] by (auto simp: manifests_free_def asset_path_def)
qed

lemma rendered_start_ready:
  assumes names: "map a_Name as = asset_names conf" and s: "tidy s" "fresh_dir s bs" and bs: "bs \<noteq> []" "list_all plain_comp bs"
    and wr: "Assets_WriteFiles s as (slash # joinWith slash bs) = (s1, None)"
    and there: "\<forall>a \<in> set as. content s1 (bs @ asset_path a) = Some (a_Data a)"
    and sec: "is_dir (fs_node s (butlast secrets_key))" and free: "manifests_free s pk (asset_names conf)" and apart: "separate pk bs"
  shows "start_ready s1 bs pk"
proof -
  have t1: "tidy s1" using Assets_WriteFiles_tidy [OF s(1), of as "slash # joinWith slash bs"] wr by simp
  have dirs: "is_dir (fs_node s1 k)" if "is_dir (fs_node s k)" for k
    using Assets_WriteFiles_dir [OF that, of as "slash # joinWith slash bs"] wr by simp
  have present: "is_file (fs_node s1 (bs @ splitOn slash p))" if "p \<in> set (asset_names conf)" for p
  proof -
    have "p \<in> a_Name ` set as" using that names_image [OF names] by simp
    then obtain a where "a \<in> set as" "asset_path a = splitOn slash p" by (auto simp: asset_path_def)
    then show ?thesis using there content_is_file by metis
  qed
  have dir_of: "is_dir (fs_node s1 (bs @ [d]))" if p: "p \<in> set (asset_names conf)" "splitOn slash p = [d, n]" for p d n
  proof -
    have "fs_node s1 ((bs @ [d]) @ [n]) \<noteq> None" using present [OF p(1)] p(2) by (auto simp: is_file_def)
    then show ?thesis using tidyD(1) [OF t1] unfolding fs_wf_def by blast
  qed
  have in_names: "AssetPathCACert \<in> set (asset_names conf)" "AssetPathAdminKubeConfig \<in> set (asset_names conf)"
    "AssetPathBootstrapAPIServer \<in> set (asset_names conf)"
    by (simp_all add: asset_names_def tls_names_def kubeconfig_templates_def dynamic_names_def)
  have paths: "splitOn slash AssetPathCACert = [AssetPathSecrets, ''ca.crt'']" "splitOn slash AssetPathAdminKubeConfig = [''auth'', ''kubeconfig'']"
    "splitOn slash AssetPathBootstrapAPIServer = [AssetPathBootstrapManifests, ''bootstrap-apiserver.yaml'']" by code_simp+
  have no_kube: "fs_node s1 (bs @ [AssetPathSecrets, ''kubeconfig'']) = None"
  proof (rule ccontr)
    assume "\<not> ?thesis"
    then show False using written_below [OF named_assets_plain [OF names] tidyD(1) [OF s(1)] s(2) bs wr, of "[AssetPathSecrets, ''kubeconfig'']"]
        asset_placed [OF names] by (auto simp: placed_ok_def asset_path_def Let_def)
  qed
  have manifests: "\<not> is_file (fs_node s1 (pk @ r)) \<and> (is_file (fs_node s1 (bs @ AssetPathBootstrapManifests # r)) \<longrightarrow> fs_node s1 (pk @ r) = None)"
    if n: "fs_node s1 (bs @ AssetPathBootstrapManifests # r) \<noteq> None" for r
  proof (cases "r = []")
    case True
    then show ?thesis using free dir_of [OF in_names(3) paths(3)] written_elsewhere [OF named_assets_plain [OF names] bs apart wr, of "[]"]
      by (auto simp: manifests_free_def is_file_def)
  next
    case False
    then show ?thesis using rendered_manifests_free [OF names tidyD(1) [OF s(1)] s(2) bs wr free apart _ n] by simp
  qed
  have "is_dir (fs_node s1 (butlast pk)) \<or> is_dir (fs_node s1 pk)" using free dirs by (auto simp: manifests_free_def)
  then show ?thesis unfolding start_ready_def
    using dir_of [OF in_names(1) paths(1)] dir_of [OF in_names(3) paths(3)] present [OF in_names(2)] paths(2) no_kube dirs [OF sec] manifests by simp
qed

section \<open>An example\<close>

definition fresh_host :: fs where
  "fresh_host = \<lparr>entries = [([], new_dir 493), ([''etc''], new_dir 493), ([''etc'', ''kubernetes''], new_dir 493)],
     cwd = [], faults = (\<lambda>_ _. None), torn = (\<lambda>_. 0)\<rparr>"

lemma fresh_host_ok: "healthy fresh_host" "tidy fresh_host" "fresh_dir fresh_host [''out'']" "is_dir (fs_node fresh_host (butlast secrets_key))"
  "manifests_free fresh_host [''etc'', ''kubernetes'', ''manifests''] names"
proof -
  show "healthy fresh_host" by (simp add: healthy_def fresh_host_def)
  have "fs_wf fresh_host" by (rule fs_wfI) code_simp+
  moreover have "names_ok fresh_host" by (rule names_okI) code_simp
  moreover have "distinct (map fst (entries fresh_host))" "list_all plain_comp (cwd fresh_host)" by code_simp+
  ultimately show "tidy fresh_host" by (simp add: tidy_def)
  have "list_all (\<lambda>k. \<not> is_file (fs_node fresh_host k)) (prefixes [''out''])" "children fresh_host [''out''] = []" by code_simp+
  then show "fresh_dir fresh_host [''out'']" by (auto simp: fresh_dir_def list_all_iff prefix_Cons)
  show "is_dir (fs_node fresh_host (butlast secrets_key))" by code_simp
  have gone: "fs_node fresh_host ([''etc'', ''kubernetes'', ''manifests''] @ r) = None" for r by (simp add: fresh_host_def fs_node_def)
  moreover have "is_dir (fs_node fresh_host [''etc'', ''kubernetes''])" by code_simp
  ultimately show "manifests_free fresh_host [''etc'', ''kubernetes'', ''manifests''] names"
    using gone gone [of "[]"] by (simp add: manifests_free_def)
qed

section \<open>Render, then start\<close>

text \<open>
  C17: On a healthy host \<open>bootkube render\<close> with accepted options and then \<open>bootkube start\<close>'s
  control plane on the rendered directory both succeed, if no call of the crypto libraries and no
  encoding of a secret fails, the kubelet's manifest directory holds none of the rendered
  manifests and the three directories are apart. Afterwards every rendered asset of \<open>tls\<close> is in
  the secrets directory, the administrator's kubeconfig next to them, and every bootstrap manifest
  in the kubelet's directory, each with exactly the data that was rendered for it.
\<close>

theorem rendered_host_starts:
  assumes "crypto_works C" "\<forall>x. \<exists>b. Marshal x = Inr b"
    and opts: "validateRenderOpts o1 = None" "flagsToAssetConfig C nl s o1 = Inr conf"
    and host: "healthy s" "tidy s" "is_dir (fs_node s [''etc'', ''kubernetes''])"
    and dir: "bs \<noteq> []" "list_all plain_comp bs" "fresh_dir s bs"
    and pod: "pod \<noteq> ''''" "fs_key s pod = pk" "pk \<noteq> []" "manifests_free s pk (asset_names conf)"
    and apart: "separate secrets_key bs" "separate pk bs" "separate secrets_key pk"
  shows "\<exists>as n' s1 b s2. NewDefaultAssets C nl Marshal conf n = (Inr as, n') \<and> map a_Name as = asset_names conf \<and>
     Render C nl Marshal o1 (slash # joinWith slash bs) s n = (s1, None) \<and>
     Start (NewBootstrapControlPlane (slash # joinWith slash bs) pod) s1 = (b, s2, None) \<and>
     (\<forall>a \<in> set as. \<forall>r. splitOn slash (a_Name a) = AssetPathSecrets # r \<longrightarrow> content s2 (secrets_key @ r) = Some (a_Data a)) \<and>
     (\<forall>a \<in> set as. \<forall>r. splitOn slash (a_Name a) = AssetPathBootstrapManifests # r \<longrightarrow> content s2 (pk @ r) = Some (a_Data a)) \<and>
     (\<forall>a \<in> set as. a_Name a = AssetPathAdminKubeConfig \<longrightarrow> content s2 (secrets_key @ [''kubeconfig'']) = Some (a_Data a))"
proof -
  let ?dir = "slash # joinWith slash bs"
  obtain as n' where as: "NewDefaultAssets C nl Marshal conf n = (Inr as, n')" "map a_Name as = asset_names conf"
    "Render C nl Marshal o1 ?dir s n = Assets_WriteFiles s as ?dir" by (rule Render_runs [OF assms(1,2) opts])
  obtain s1 where wr: "Assets_WriteFiles s as ?dir = (s1, None)"
    using WriteFiles_succeeds [OF host(1) tidyD(1) [OF host(2)] dir named_assets_plain [OF as(2)] rendered_files_apart [OF as(2)]] by (metis prod.collapse)
  have there: "content s1 (bs @ splitOn slash (a_Name a)) = Some (a_Data a)" if "a \<in> set as" for a
    using written_asset [OF as(1) wr _ that] fs_key_abs [OF dir(1,2), of s] by simp
  have env: "same_env s s1" using Assets_WriteFiles_env [of s as ?dir] wr by simp
  have t1: "tidy s1" using Assets_WriteFiles_tidy [OF host(2), of as ?dir] wr by simp
  have key: "fs_key s1 pod = pk" using pod(2) same_env_key [OF env] by simp
  have sec: "is_dir (fs_node s (butlast secrets_key))" using host(3) by (simp add: secrets_key_def)
  have "start_ready s1 bs pk"
    using there by (intro rendered_start_ready [OF as(2) host(2) dir(3,1,2) wr _ sec pod(4) apart(2)]) (simp add: asset_path_def)
  from Start_succeeds [OF healthy_env [OF host(1) env] t1 dir(1,2) pod(1) key pod(3) this apart]
  obtain b s2 where st: "Start (NewBootstrapControlPlane ?dir pod) s1 = (b, s2, None)"
    and kube: "content s2 (secrets_key @ [''kubeconfig'']) = content s1 (bs @ [''auth'', ''kubeconfig''])" by blast
  have out: "\<not> prefix secrets_key bs" "\<not> prefix bs secrets_key" using apart(1) by (simp_all add: separate_def)
  have "content s2 (secrets_key @ r) = Some (a_Data a)" if "a \<in> set as" "splitOn slash (a_Name a) = AssetPathSecrets # r" for a r
  proof (rule start_copies_secrets [OF refl dir(1,2) tidyD(2) [OF t1] out st])
    show "content s1 (bs @ AssetPathSecrets # r) = Some (a_Data a)" using there [OF that(1)] that(2) by simp
    show "r \<noteq> [''kubeconfig'']" using asset_placed [OF as(2) that(1)] that(2) by (auto simp: placed_ok_def Let_def)
  qed
  moreover have "content s2 (pk @ r) = Some (a_Data a)" if "a \<in> set as" "splitOn slash (a_Name a) = AssetPathBootstrapManifests # r" for a r
    using start_manifests [OF refl dir(1,2) tidyD(2) [OF t1] pod(1) out _ st] there [OF that(1)] that(2) key by auto
  moreover have "splitOn slash AssetPathAdminKubeConfig = [''auth'', ''kubeconfig'']" by code_simp
  then have "content s2 (secrets_key @ [''kubeconfig'']) = Some (a_Data a)" if "a \<in> set as" "a_Name a = AssetPathAdminKubeConfig" for a
    using kube there [OF that(1)] that(2) by simp
  ultimately show ?thesis using as(1,2) wr st unfolding as(3) by blast
qed

theorem rendered_host_starts_witness:
  "\<exists>s1 b s2 d. Render symbolic_crypto example_net_lib example_Marshal example_opts ''/out'' fresh_host 0 = (s1, None) \<and>
     Start (NewBootstrapControlPlane ''/out'' ''/etc/kubernetes/manifests'') s1 = (b, s2, None) \<and>
     content s2 [''etc'', ''kubernetes'', ''bootstrap-secrets'', ''ca.crt''] = Some d"
proof -
  obtain conf where conf: "flagsToAssetConfig symbolic_crypto example_net_lib fresh_host example_opts = Inr conf" using example_config by blast
  have m: "\<forall>x. \<exists>b. example_Marshal x = Inr b" by (simp add: example_Marshal_def)
  have d: "is_dir (fs_node fresh_host [''etc'', ''kubernetes''])" using fresh_host_ok(4) by (simp add: secrets_key_def)
  have k: "fs_key fresh_host ''/etc/kubernetes/manifests'' = [''etc'', ''kubernetes'', ''manifests'']" by code_simp
  have sep: "separate secrets_key [''out'']" "separate [''etc'', ''kubernetes'', ''manifests''] [''out'']"
    "separate secrets_key [''etc'', ''kubernetes'', ''manifests'']" by (simp_all add: separate_def secrets_key_def)
  obtain as :: Assets and s1 b s2 where r: "map a_Name as = asset_names conf"
    "Render symbolic_crypto example_net_lib example_Marshal example_opts ''/out'' fresh_host 0 = (s1, None)"
    "Start (NewBootstrapControlPlane ''/out'' ''/etc/kubernetes/manifests'') s1 = (b, s2, None)"
    "\<forall>a \<in> set as. \<forall>r. splitOn slash (a_Name a) = AssetPathSecrets # r \<longrightarrow> content s2 (secrets_key @ r) = Some (a_Data a)"
    using rendered_host_starts [OF symbolic_crypto_works m example_opts_accepted conf fresh_host_ok(1,2) d _ example_dir(1) fresh_host_ok(3) _ k _ fresh_host_ok(5) sep, of 0]
    by (auto simp only: example_dir(2) list.distinct simp_thms True_implies_equals)
  have "AssetPathCACert \<in> set (asset_names conf)" by (simp add: asset_names_def tls_names_def)
  then obtain a where a: "a \<in> set as" "a_Name a = AssetPathCACert" unfolding r(1) [symmetric] by auto
  have "splitOn slash AssetPathCACert = [AssetPathSecrets, ''ca.crt'']" by code_simp
  then have "content s2 (secrets_key @ [''ca.crt'']) = Some (a_Data a)" using r(4) a by fastforce
  with r(2,3) show ?thesis by (auto simp: secrets_key_def)
qed

end
