(* ===== verification/Spec2Isabelle.thy ===== *)
theory Spec2Isabelle
  imports CheckpointMain CheckpointRuns Commands RecoveryEtcd RenderFlags RenderStart
begin

text \<open>
  A verification development for bootkube, the program that launches a self-hosted Kubernetes
  cluster and keeps it recoverable.

  \<^bold>\<open>The program.\<close> \<open>bootkube render\<close> writes a directory of assets (manifests, keys,
  certificates). \<open>bootkube start\<close> copies the bootstrap manifests and secrets of that directory
  to where the kubelet finds them, so that a temporary control plane comes up; it posts the
  remaining manifests to that control plane, waits until the self-hosted pods run, and takes
  the temporary control plane down again. On every master the \<open>pod-checkpointer\<close> keeps copies
  of the pods that ask for it and of their secrets and config maps, runs a copy while the
  API server cannot be reached and the parent is not running, and collects copies of deleted
  parents after a grace period. \<open>bootkube recover\<close> reads a lost control plane back from etcd
  or from an API server and writes assets that \<open>bootkube start\<close> accepts.

  \<^bold>\<open>Foundations.\<close>
  \<^item> \<open>Prelude\<close>: Go's errors (\<open>go_error\<close>, with wrapping), results as sums, \<open>strings\<close> and
    \<open>sort\<close> functions, the collections of simplification rules. \<open>GoPath\<close>: \<open>path\<close> and
    \<open>path/filepath\<close>.
  \<^item> \<open>FileSystem\<close>: \<open>os\<close>, \<open>ioutil\<close> and \<open>filepath.Walk\<close> over a file system \<open>fs\<close>, a map from
    paths to nodes with a fault oracle: every system call may fail where the oracle says so,
    a failing write may leave a prefix of its data. All safety properties about files
    quantify over the oracle. \<open>FileWriters\<close> states the contracts of operations that set one
    file as the locales \<open>framed_writer\<close>, \<open>file_writer\<close> and \<open>atomic_writer\<close>.
  \<^item> \<open>PodModel\<close>: the Kubernetes objects, with the fields the sources read or write.
    \<open>Polling\<close>: machines driven by a sequence of polls, with invariants and absorbing sets as
    locales. \<open>WaitPoll\<close>: \<open>wait.Poll\<close> and \<open>wait.PollImmediate\<close>; the time-out is the number of
    ticks the condition is tried, an argument of the model.

  \<^bold>\<open>The checkpointer\<close> (\<open>src/pkg/checkpoint\<close>).
  \<^item> \<open>CheckpointState\<close>: \<open>state.go\<close>, one constructor per state and one function per
    \<open>transition\<close> method. A checkpoint is removed only after its parent was seen deleted for a
    whole grace period, is removed if that goes on, and is active in an outage exactly when
    the parent is stopped.
  \<^item> \<open>CheckpointPod\<close>: \<open>pod.go\<close> and the paths of \<open>secret.go\<close> and \<open>config_map.go\<close>; sanitized
    pods depend on no API object.
  \<^item> \<open>CheckpointManifest\<close>: \<open>manifest.go\<close>, \<open>secret.go\<close>, \<open>config_map.go\<close>; atomic replacement
    under every fault pattern, the round trip of manifests, the stored assets. The locales
    \<open>asset_keeper\<close> and \<open>asset_store\<close> are the contract secrets and config maps share.
  \<^item> \<open>CheckpointProcess\<close>: \<open>update\<close> and \<open>process\<close> of \<open>process.go\<close>; \<open>update\<close> refines the
    merge of all sources, \<open>process\<close> turns changes of state into actions.
  \<^item> \<open>CheckpointRuntime\<close>: \<open>runtime_service.go\<close>, \<open>kubelet.go\<close>, \<open>apiserver.go\<close> up to the calls
    they make. \<open>CheckpointLoop\<close>: one turn of \<open>run\<close> with everything it does to the
    disk. \<open>CheckpointRuns\<close>: a poll as a plan and the steps that carry it out; runs are the
    inductive relation \<open>run_reach\<close>, in which the process may be killed between any two steps, end
    itself, be started again, and meet other failures before every step; the invariant over all of
    them is proved by rule induction. \<open>CheckpointMain\<close>: \<open>cmd/checkpoint/main.go\<close>, \<open>Run\<close>, the clients of the
    runtime, the kubelet and the API server, and \<open>internal/util_unix.go\<close>.

  \<^bold>\<open>bootkube start\<close> (\<open>src/pkg/bootkube\<close>, \<open>src/cmd/bootkube/start.go\<close>).
  \<^item> \<open>Bootstrap\<close>: \<open>bootstrap.go\<close>, copying with ownership of what was copied, and the teardown.
    \<open>BootstrapSecrets\<close>: what a start puts into the directory of the bootstrap secrets.
    \<open>TidyFs\<close>: every file-system call and every operation over them keeps a file system
    well-formed. \<open>CopyHost\<close>: when a start cannot fail; a walk visits every directory before
    what is in it, which is the invariant of copying a tree.
  \<^item> \<open>ManifestLoad\<close> and \<open>Create\<close>: \<open>create.go\<close>. A run of the creator is a log of requests;
    the locale \<open>phase\<close> is the contract of one of its passes over a list of manifests.
    \<open>parseDocuments\<close> ends because each document read shortens the input.
  \<^item> \<open>Status\<close>: \<open>status.go\<close>. \<open>BootkubeRun\<close>: \<open>bootkube.go\<close>, the composition with the deferred
    teardown: the host is cleaned up however a run ends.

  \<^bold>\<open>bootkube recover\<close> (\<open>src/pkg/recovery\<close>, \<open>src/cmd/bootkube/recover.go\<close>).
  \<^item> \<open>Recovery\<close>: \<open>recover.go\<close>, from the objects of a lost control plane to assets.
    \<open>RecoveryBackend\<close>: \<open>etcd.go\<close>, \<open>apiserver.go\<close>, \<open>util.go\<close>; the locale \<open>control_plane_backend\<close>
    says what a backend reads, and both backends are interpretations of it, so they recover
    the same assets. \<open>RecoveryEtcd\<close>: \<open>etcd_template.go\<close> and the pod that serves a backup.
  \<^item> \<open>Commands\<close>: the commands \<open>start\<close> and \<open>recover\<close> with the checks of their options, and what
    the vendored etcd client (\<open>clientv3/client.go\<close>) makes of the TLS settings: the scheme of the
    first server decides.
    \<open>Handover\<close> joins the two: it follows each object of the lost cluster from the backend
    through the recovery directory to the place where the started pod mounts it.

  \<^bold>\<open>bootkube render\<close> (\<open>src/cmd/render/plugin/default\<close>, \<open>src/pkg/tlsutil\<close>).
  \<^item> \<open>AssetPaths\<close> and \<open>Assets\<close>: the constants, \<open>Get\<close>, \<open>WriteFiles\<close> of \<open>asset/asset.go\<close>;
    \<open>AssetHost\<close>: when writing assets cannot fail. \<open>ServiceNet\<close> and \<open>GoNet\<close>: the address
    arithmetic and the network checks of \<open>main.go\<close> on bytes (\<open>8 word\<close>), with wrap-around, and
    URLs and host names.
  \<^item> \<open>TlsUtil\<close>: \<open>tlsutil.go\<close> over a record \<open>crypto\<close> of Go's cryptographic functions;
    \<open>TlsSymbolic\<close> gives them symbolically, which shows that what is assumed of them
    (\<open>crypto_ok\<close>, \<open>crypto_works\<close>) can hold. \<open>TlsAssets\<close>: \<open>asset/tls.go\<close>, who issues which
    certificate for which key and names.
  \<^item> \<open>GoTemplate\<close>: the part of \<open>text/template\<close> the templates use, a parser and an executor, with
    a static check of templates against the fields of their data that is proved sound.
    \<open>AssetTemplates\<close>: the texts of \<open>asset/internal/templates.go\<close>, line by line;
    \<open>TemplateChecks\<close> evaluates the static check on each, \<open>TemplateText\<close> computes the text of
    templates with plain fields only. \<open>Base64\<close>: the encoding in secrets, and its inverse.
  \<^item> \<open>RenderConfig\<close> and \<open>RenderAssets\<close>: \<open>asset/asset.go\<close>, \<open>asset/k8s.go\<close> and \<open>asset/images.go\<close>,
    the list of assets for a configuration; \<open>RenderNames\<close>: which names it holds and that
    rendering it cannot fail. \<open>RenderOptions\<close>: \<open>main.go\<close> from the parsed options to the written
    assets. \<open>GoFlag\<close> and \<open>RenderFlags\<close>: Go's \<open>flag\<close> package for string flags, the flags of the
    plugin, and the command that calls the plugin. The parsing loop is a partial function; it
    is proved to return because every turn takes an argument. The flag set ends the process with
    status 2 when parsing fails (\<open>flag.ExitOnError\<close>), so a run of the plugin has an \<open>ending\<close>; every
    command line is one that renders or one that exits, and which one is told from its arguments. \<open>RenderStart\<close> joins render and
    start: on a healthy host both succeed one after the other, and every secret, the kubeconfig
    and every bootstrap manifest end up where the temporary control plane reads them.

  \<^bold>\<open>Parameters.\<close> Code outside the repository enters as arguments: the pod encoder and decoder,
  YAML to JSON conversion and JSON decoding, the encoder of secrets, the API server (\<open>api\<close>, with
  a world it may change), the client set-up (\<open>deps\<close>, \<open>recover_env\<close>), the container runtime, the
  etcd client and value transformer, the snapshots the informers deliver, the parsers of URLs
  and addresses (\<open>net_lib\<close>), cryptography (\<open>crypto\<close>), and the loading of plugins. Of cryptography
  two things are assumed: \<open>crypto_ok\<close>, that parsing reads back what was encoded and signed, and, where
  a theorem says that rendering succeeds, \<open>crypto_works\<close>, that no operation fails. Go's unstable
  \<open>sort.Slice\<close> is an argument of which only sortedness and permutation are assumed; Go's map
  iteration orders are the orders of the association lists that stand for the maps.

  \<^bold>\<open>Bounds.\<close> The waits are bounded by the number of ticks before their time-out, which the
  theorems keep general. No other definition has a bound or fuel.

  \<^bold>\<open>Not modelled.\<close> The generated container runtime interface, the informers behind the stores
  of \<open>status.go\<close> (library calls whose content is a parameter), logging, version strings, cobra's
  parsing of the commands' flags and the parsing of the checkpointer's flags, which it shares with
  the logging library, the end-to-end tests and the vendored packages, except for the etcd client's choice of TLS.
\<close>

end
